(* ===== verification/Prelude.thy ===== *)
theory Prelude
  imports Main "HOL-Library.Word" "HOL-Library.Monad_Syntax" "HOL-Library.Signed_Division"
begin

section \<open>Shared vocabulary of the development\<close>

text \<open>
  What every component uses: the C integer conversions and the arithmetic that can be
  undefined, the option monad in which \<^term>\<open>None\<close> stands for undefined behaviour
  (an access outside an object, a signed overflow, a division by zero), bounded
  loops over that monad with their invariant rule, and little-endian codecs.
\<close>

type_synonym byte = "8 word"

named_theorems c_int \<open>definitions of the C integer operations\<close>
named_theorems ub_intro \<open>rules that show an operation is defined\<close>

subsection \<open>Undefined behaviour as a missing value\<close>

definition assert_ub :: "bool \<Rightarrow> unit option" where
  "assert_ub b = (if b then Some () else None)"

lemma assert_ub_True [simp]: "assert_ub True = Some ()"
  and assert_ub_False [simp]: "assert_ub False = None"
  by (simp_all add: assert_ub_def)

lemma assert_ub_eq_Some [simp]: "assert_ub b = Some u \<longleftrightarrow> b"
  by (simp add: assert_ub_def)

subsection \<open>Integers of the C abstract machine\<close>

text \<open>
  Values of type \<open>int\<close>/\<open>int32_t\<close> are HOL integers; an arithmetic result is passed
  through \<open>s32\<close>, which has no value when the result does not fit (signed overflow
  is undefined). Conversions to a narrower signed type wrap, as GCC defines them.
  \<open>shl_s32\<close> and \<open>sar\<close> are GCC's \<open><<\<close> and \<open>>>\<close> on signed values.
\<close>

definition in_s32 :: "int \<Rightarrow> bool" where
  "in_s32 x \<longleftrightarrow> - (2 ^ 31) \<le> x \<and> x < 2 ^ 31"

definition s32 :: "int \<Rightarrow> int option" where
  "s32 x = (if in_s32 x then Some x else None)"

definition in_s8 :: "int \<Rightarrow> bool" where
  "in_s8 x \<longleftrightarrow> - 128 \<le> x \<and> x < 128"

definition wrap_s32 :: "int \<Rightarrow> int" where
  "wrap_s32 x = (x + 2 ^ 31) mod 2 ^ 32 - 2 ^ 31"

definition wrap_u32 :: "int \<Rightarrow> int" where
  "wrap_u32 x = x mod 2 ^ 32"

definition to_s8 :: "int \<Rightarrow> byte" where
  "to_s8 x = word_of_int x"

definition shl_s32 :: "int \<Rightarrow> nat \<Rightarrow> int" where
  "shl_s32 x n = wrap_s32 (x * 2 ^ n)"

definition sar :: "int \<Rightarrow> nat \<Rightarrow> int" where
  "sar x n = x div 2 ^ n"

definition cdiv :: "int \<Rightarrow> int \<Rightarrow> int option" where
  "cdiv a b = (if b = 0 then None else s32 (a sdiv b))"

declare in_s32_def [c_int] s32_def [c_int] in_s8_def [c_int] wrap_s32_def [c_int]
  wrap_u32_def [c_int] shl_s32_def [c_int] sar_def [c_int] cdiv_def [c_int]

lemma s32_Some [simp]: "s32 x = Some y \<longleftrightarrow> in_s32 x \<and> y = x"
  by (auto simp: s32_def)

lemma s32_in [ub_intro]: "in_s32 x \<Longrightarrow> s32 x = Some x"
  by (simp add: s32_def)

lemma in_s32_abs: "\<bar>x\<bar> < 2 ^ 31 \<Longrightarrow> in_s32 x"
  by (auto simp: in_s32_def)

lemma wrap_s32_id: "in_s32 x \<Longrightarrow> wrap_s32 x = x"
  by (simp add: wrap_s32_def in_s32_def)

lemma wrap_s32_range: "in_s32 (wrap_s32 x)"
  by (simp add: wrap_s32_def in_s32_def)

lemma sint_byte_range: "- 128 \<le> sint (b :: byte) \<and> sint b < 128"
  using sint_range_size [of b] by (simp add: word_size)

lemma sint_byte_abs: "\<bar>sint (b :: byte)\<bar> \<le> 128"
  using sint_byte_range [of b] by linarith

lemma sint_to_s8: "in_s8 x \<Longrightarrow> sint (to_s8 x) = x"
  by (simp add: to_s8_def in_s8_def signed_of_int signed_take_bit_int_eq_self)

lemma sint_prod_abs: "\<bar>sint (a :: byte) * sint (b :: byte)\<bar> \<le> 2 ^ 14"
proof -
  have "\<bar>sint a\<bar> * \<bar>sint b\<bar> \<le> 128 * 128"
    by (intro mult_mono sint_byte_abs) auto
  then show ?thesis by (simp add: abs_mult)
qed

lemma sdiv_abs_le: "\<bar>(a :: int) sdiv b\<bar> \<le> \<bar>a\<bar>"
proof -
  have "\<bar>a\<bar> div \<bar>b\<bar> \<le> \<bar>a\<bar>"
    by (metis abs_ge_zero div_by_0 int_div_less_self less_eq_int_code(1) linorder_not_less nle_le order_le_less zdiv_mono2 div_by_1 int_one_le_iff_zero_less zero_less_abs_iff zero_less_one)
  moreover have "0 \<le> \<bar>a\<bar> div \<bar>b\<bar>" by (simp add: div_int_pos_iff)
  ultimately show ?thesis
    by (auto simp: signed_divide_int_def abs_mult sgn_if)
qed

lemma sdiv_pos: "0 < b \<Longrightarrow> (a :: int) sdiv b = (if 0 \<le> a then a div b else - ((- a) div b))"
  by (auto simp: signed_divide_int_def sgn_if)

lemma sdiv_abs_bound: "0 < b \<Longrightarrow> \<bar>a\<bar> \<le> k \<Longrightarrow> \<bar>(a :: int) sdiv b\<bar> \<le> k div b"
proof -
  assume b: "0 < b" and k: "\<bar>a\<bar> \<le> k"
  have "\<bar>a sdiv b\<bar> = \<bar>a\<bar> div b"
    using b by (auto simp: signed_divide_int_def sgn_if abs_mult pos_imp_zdiv_nonneg_iff)
  also have "\<dots> \<le> k div b" using b k by (rule zdiv_mono1 [rotated])
  finally show ?thesis .
qed

lemma sdiv_mono: "0 < b \<Longrightarrow> a \<le> a' \<Longrightarrow> (a :: int) sdiv b \<le> a' sdiv b"
proof -
  assume b: "0 < b" and le: "a \<le> a'"
  have "- (- a div b) \<le> a' div b" if "a < 0" "0 \<le> a'"
    using b that by (meson neg_le_0_iff_le order_trans pos_imp_zdiv_nonneg_iff neg_0_le_iff_le less_imp_le)
  moreover have "- a' div b \<le> - a div b" if "a' < 0" using b le by (intro zdiv_mono1) auto
  ultimately show ?thesis using b le by (auto simp: sdiv_pos intro: zdiv_mono1)
qed

subsection \<open>Loops with a bounded count\<close>

text \<open>
  A C loop \<open>for (i = 0; i < n; i++) body\<close> over a state is a monadic fold of the body
  over \<open>[0..<n]\<close>; it stops where the body is undefined.
\<close>

fun foldM :: "('a \<Rightarrow> 's \<Rightarrow> 's option) \<Rightarrow> 'a list \<Rightarrow> 's \<Rightarrow> 's option" where
  "foldM f [] s = Some s"
| "foldM f (x # xs) s = Option.bind (f x s) (foldM f xs)"

definition for_upto :: "nat \<Rightarrow> (nat \<Rightarrow> 's \<Rightarrow> 's option) \<Rightarrow> 's \<Rightarrow> 's option" where
  "for_upto n f s = foldM f [0..<n] s"

lemma foldM_append: "foldM f (xs @ ys) s = Option.bind (foldM f xs s) (foldM f ys)"
  by (induction xs arbitrary: s) (auto split: Option.bind_splits)

lemma for_upto_0 [simp]: "for_upto 0 f s = Some s"
  by (simp add: for_upto_def)

lemma for_upto_Suc: "for_upto (Suc n) f s = Option.bind (for_upto n f s) (f n)"
  by (simp add: for_upto_def foldM_append)
     (cases "foldM f [0..<n] s"; simp add: bind_eq_None_conv split: Option.bind_splits)

lemma for_upto_inv:
  assumes "P 0 s"
    and "\<And>i t. i < n \<Longrightarrow> P i t \<Longrightarrow> \<exists>t'. f i t = Some t' \<and> P (Suc i) t'"
  shows "\<exists>t. for_upto n f s = Some t \<and> P n t"
  using assms(2)
proof (induction n)
  case 0
  with assms(1) show ?case by simp
next
  case (Suc n)
  then obtain t where "for_upto n f s = Some t" "P n t" by auto
  with Suc.prems [of n t] show ?case by (auto simp: for_upto_Suc)
qed

lemma foldM_upt_inv:
  assumes "P i s" "i \<le> n"
    and "\<And>j t. i \<le> j \<Longrightarrow> j < n \<Longrightarrow> P j t \<Longrightarrow> \<exists>t'. f j t = Some t' \<and> P (Suc j) t'"
  shows "\<exists>t. foldM f [i..<n] s = Some t \<and> P n t"
  using assms(2,3)
proof (induction n rule: dec_induct)
  case base
  with assms(1) show ?case by simp
next
  case (step n)
  then obtain t where "foldM f [i..<n] s = Some t" "P n t" by auto
  with step.prems [of n t] step.hyps show ?case by (auto simp: foldM_append)
qed

lemma foldM_rel:
  assumes "foldM f xs s = Some s'" "\<And>t. Q t t" "\<And>t u v. Q t u \<Longrightarrow> Q u v \<Longrightarrow> Q t v"
    and "\<And>x t t'. x \<in> set xs \<Longrightarrow> f x t = Some t' \<Longrightarrow> Q t t'"
  shows "Q s s'"
  using assms(1,4)
proof (induction xs arbitrary: s)
  case (Cons x xs)
  then obtain t where "f x s = Some t" "foldM f xs t = Some s'" by (auto simp: bind_eq_Some_conv)
  with Cons assms(3) [of s t s'] show ?case by auto
qed (simp add: assms(2))

lemma for_upto_SomeI:
  assumes "P 0 s" "for_upto n f s = Some t"
    and "\<And>i u u'. i < n \<Longrightarrow> P i u \<Longrightarrow> f i u = Some u' \<Longrightarrow> P (Suc i) u'"
  shows "P n t"
  using assms(2,3)
proof (induction n arbitrary: t)
  case 0
  with assms(1) show ?case by simp
next
  case (Suc n)
  then obtain u where "for_upto n f s = Some u" "f n u = Some t"
    by (auto simp: for_upto_Suc bind_eq_Some_conv)
  with Suc show ?case by (meson less_Suc_eq)
qed

lemma foldM_product:
  "foldM (\<lambda>y. foldM (f y) xs) ys s = foldM (\<lambda>(y, x). f y x) (List.product ys xs) s"
proof (induction ys arbitrary: s)
  case (Cons y ys)
  have "foldM (f y) xs t = foldM (\<lambda>(y, x). f y x) (map (Pair y) xs) t" for t
    by (induction xs arbitrary: t) (auto intro: Option.bind_cong)
  with Cons show ?case by (auto simp: foldM_append intro: Option.bind_cong)
qed simp

lemma foldM_cong:
  assumes "\<And>x s. x \<in> set xs \<Longrightarrow> f x s = g x s"
  shows "foldM f xs s = foldM g xs s"
  using assms by (induction xs arbitrary: s) (auto intro!: Option.bind_cong)

subsection \<open>Little-endian integers in byte strings\<close>

fun le_nat :: "byte list \<Rightarrow> nat" where
  "le_nat [] = 0"
| "le_nat (b # bs) = unat b + 256 * le_nat bs"

fun nat_le :: "nat \<Rightarrow> nat \<Rightarrow> byte list" where
  "nat_le 0 n = []"
| "nat_le (Suc k) n = of_nat (n mod 256) # nat_le k (n div 256)"

lemma unat_byte_lt [simp]: "unat (b :: byte) < 256"
  using unsigned_less [of b, where ?'a = nat] by simp

lemma length_nat_le [simp]: "length (nat_le k n) = k"
  by (induction k arbitrary: n) auto

lemma le_nat_nat_le: "le_nat (nat_le k n) = n mod 256 ^ k"
proof (induction k arbitrary: n)
  case (Suc k)
  have "n mod 256 + 256 * (n div 256 mod 256 ^ k) = n mod (256 * 256 ^ k)"
    by (simp add: mod_mult2_eq)
  with Suc show ?case by (simp add: unat_of_nat)
qed simp

lemma nat_le_le_nat: "nat_le (length bs) (le_nat bs) = bs"
  by (induction bs) (simp_all add: div_add1_eq)

lemma le_nat_bound: "le_nat bs < 256 ^ length bs"
proof (induction bs)
  case (Cons b bs)
  have "unat b + 256 * le_nat bs < 256 * (le_nat bs + 1)" by simp
  also have "\<dots> \<le> 256 * 256 ^ length bs" using Cons by (simp only: mult_le_mono2 Suc_eq_plus1 [symmetric] Suc_leI)
  finally show ?case by simp
qed simp

text \<open>Reading a field of \<open>k\<close> bytes at an offset; outside the object there is no value.\<close>

definition field_at :: "byte list \<Rightarrow> nat \<Rightarrow> nat \<Rightarrow> nat option" where
  "field_at bs off k = (if off + k \<le> length bs then Some (le_nat (take k (drop off bs))) else None)"

definition s32_of_nat :: "nat \<Rightarrow> int" where
  "s32_of_nat n = wrap_s32 (int n)"

lemma field_at_defined [ub_intro]: "off + k \<le> length bs \<Longrightarrow> \<exists>v. field_at bs off k = Some v \<and> v < 256 ^ k"
  using le_nat_bound [of "take k (drop off bs)"] by (auto simp: field_at_def)

end
