(* ===== verification/Soft_Float.thy ===== *)
theory Soft_Float
  imports Prelude
begin

section \<open>Binary floating point of the C code\<close>

text \<open>
  The layers use \<open>float\<close> and, in one quotient, \<open>double\<close>. Both are modelled as
  IEC 60559 formats with round-to-nearest-even, each C operation rounded once to its own
  type. A value is unpacked as sign, magnitude and exponent: \<open>FNum s m e\<close> is
  \<open>(-1)^s * m * 2^e\<close>. A format is its precision \<open>p\<close>, the least exponent
  \<open>emin\<close> and the bound \<open>emax\<close> on the exponent of the leading bit. Everything is
  integer arithmetic and computes.
\<close>

datatype fp = FNaN | FInf bool | FNum bool nat int

fun nbits :: "nat \<Rightarrow> nat" where
  "nbits n = (if n = 0 then 0 else Suc (nbits (n div 2)))"

declare nbits.simps [simp del]

text \<open>The quotient \<open>n / (d * 2^e)\<close>, rounded to the nearest integer, ties to even.\<close>

definition scale_num :: "nat \<Rightarrow> int \<Rightarrow> nat" where
  "scale_num n e = n * 2 ^ nat (- e)"

definition scale_den :: "nat \<Rightarrow> int \<Rightarrow> nat" where
  "scale_den d e = d * 2 ^ nat e"

definition rne_div :: "nat \<Rightarrow> nat \<Rightarrow> nat" where
  "rne_div n d =
     (let q = n div d; r = n mod d
      in if 2 * r < d \<or> (2 * r = d \<and> even q) then q else Suc q)"

definition fp_round :: "nat \<Rightarrow> int \<Rightarrow> int \<Rightarrow> bool \<Rightarrow> nat \<Rightarrow> nat \<Rightarrow> fp" where
  "fp_round p emin emax s n d =
     (if n = 0 then FNum s 0 emin
      else let e1 = max emin (int (nbits n) - int (nbits d) - int p);
               e = (if 2 ^ p \<le> scale_num n e1 div scale_den d e1 then e1 + 1 else e1);
               q = rne_div (scale_num n e) (scale_den d e);
               m = (if q = 2 ^ p then 2 ^ (p - 1) else q);
               e' = (if q = 2 ^ p then e + 1 else e)
           in if emax + 1 < int (nbits m) + e' then FInf s
              else if m = 0 then FNum s 0 emin else FNum s m e')"

definition round32 :: "bool \<Rightarrow> nat \<Rightarrow> nat \<Rightarrow> fp" where
  "round32 = fp_round 24 (-149) 127"

definition round64 :: "bool \<Rightarrow> nat \<Rightarrow> nat \<Rightarrow> fp" where
  "round64 = fp_round 53 (-1074) 1023"

text \<open>A dyadic integer \<open>v * 2^e\<close> rounded to a format; \<open>z\<close> is the sign of a zero.\<close>

definition round_dyadic :: "(bool \<Rightarrow> nat \<Rightarrow> nat \<Rightarrow> fp) \<Rightarrow> bool \<Rightarrow> int \<Rightarrow> int \<Rightarrow> fp" where
  "round_dyadic rnd z v e =
     rnd (if v = 0 then z else v < 0) (scale_num (nat \<bar>v\<bar>) (- e)) (scale_den 1 (- e))"

definition signed_mant :: "bool \<Rightarrow> nat \<Rightarrow> int" where
  "signed_mant s m = (if s then - int m else int m)"

subsection \<open>Arithmetic\<close>

fun fp_neg :: "fp \<Rightarrow> fp" where
  "fp_neg FNaN = FNaN"
| "fp_neg (FInf s) = FInf (\<not> s)"
| "fp_neg (FNum s m e) = FNum (\<not> s) m e"

fun fp_add :: "(bool \<Rightarrow> nat \<Rightarrow> nat \<Rightarrow> fp) \<Rightarrow> fp \<Rightarrow> fp \<Rightarrow> fp" where
  "fp_add rnd FNaN y = FNaN"
| "fp_add rnd x FNaN = FNaN"
| "fp_add rnd (FInf s) (FInf t) = (if s = t then FInf s else FNaN)"
| "fp_add rnd (FInf s) (FNum t m e) = FInf s"
| "fp_add rnd (FNum s m e) (FInf t) = FInf t"
| "fp_add rnd (FNum s m e) (FNum t n f) =
     (let g = min e f
      in round_dyadic rnd (s \<and> t)
           (signed_mant s m * 2 ^ nat (e - g) + signed_mant t n * 2 ^ nat (f - g)) g)"

definition fp_sub :: "(bool \<Rightarrow> nat \<Rightarrow> nat \<Rightarrow> fp) \<Rightarrow> fp \<Rightarrow> fp \<Rightarrow> fp" where
  "fp_sub rnd x y = fp_add rnd x (fp_neg y)"

fun fp_mul :: "(bool \<Rightarrow> nat \<Rightarrow> nat \<Rightarrow> fp) \<Rightarrow> fp \<Rightarrow> fp \<Rightarrow> fp" where
  "fp_mul rnd FNaN y = FNaN"
| "fp_mul rnd x FNaN = FNaN"
| "fp_mul rnd (FInf s) (FInf t) = FInf (s \<noteq> t)"
| "fp_mul rnd (FInf s) (FNum t m e) = (if m = 0 then FNaN else FInf (s \<noteq> t))"
| "fp_mul rnd (FNum s m e) (FInf t) = (if m = 0 then FNaN else FInf (s \<noteq> t))"
| "fp_mul rnd (FNum s m e) (FNum t n f) =
     rnd (s \<noteq> t) (scale_num (m * n) (- (e + f))) (scale_den 1 (- (e + f)))"

fun fp_div :: "(bool \<Rightarrow> nat \<Rightarrow> nat \<Rightarrow> fp) \<Rightarrow> fp \<Rightarrow> fp \<Rightarrow> fp" where
  "fp_div rnd FNaN y = FNaN"
| "fp_div rnd x FNaN = FNaN"
| "fp_div rnd (FInf s) (FInf t) = FNaN"
| "fp_div rnd (FInf s) (FNum t m e) = FInf (s \<noteq> t)"
| "fp_div rnd (FNum s m e) (FInf t) = rnd (s \<noteq> t) 0 1"
| "fp_div rnd (FNum s m e) (FNum t n f) =
     (if n = 0 then (if m = 0 then FNaN else FInf (s \<noteq> t))
      else rnd (s \<noteq> t) (scale_num m (f - e)) (scale_den n (f - e)))"

text \<open>The order of the C comparison of floats; NaN is unordered.\<close>

fun fp_lt :: "fp \<Rightarrow> fp \<Rightarrow> bool" where
  "fp_lt FNaN y = False"
| "fp_lt x FNaN = False"
| "fp_lt (FInf s) (FInf t) = (s \<and> \<not> t)"
| "fp_lt (FInf s) (FNum t n f) = s"
| "fp_lt (FNum s m e) (FInf t) = (\<not> t)"
| "fp_lt (FNum s m e) (FNum t n f) =
     (let g = min e f
      in signed_mant s m * 2 ^ nat (e - g) < signed_mant t n * 2 ^ nat (f - g))"

definition fp_gt :: "fp \<Rightarrow> fp \<Rightarrow> bool" where
  "fp_gt x y = fp_lt y x"

subsection \<open>Conversions\<close>

text \<open>
  A conversion to an integer type discards the fraction; where the integral part does
  not fit the type, C leaves the result undefined, and so does \<open>fp_to_range\<close>.
\<close>

fun fp_trunc :: "fp \<Rightarrow> int option" where
  "fp_trunc FNaN = None"
| "fp_trunc (FInf s) = None"
| "fp_trunc (FNum s m e) = Some (signed_mant s (scale_num m (- e) div scale_den 1 (- e)))"

definition fp_to_range :: "int \<Rightarrow> int \<Rightarrow> fp \<Rightarrow> int option" where
  "fp_to_range lo hi x =
     (case fp_trunc x of None \<Rightarrow> None | Some i \<Rightarrow> if lo \<le> i \<and> i \<le> hi then Some i else None)"

definition fp_to_s8 :: "fp \<Rightarrow> int option" where
  "fp_to_s8 = fp_to_range (- 128) 127"

definition fp_to_s32 :: "fp \<Rightarrow> int option" where
  "fp_to_s32 = fp_to_range (- (2 ^ 31)) (2 ^ 31 - 1)"

definition fp_to_u32 :: "fp \<Rightarrow> int option" where
  "fp_to_u32 = fp_to_range 0 (2 ^ 32 - 1)"

definition f32_of_int :: "int \<Rightarrow> fp" where
  "f32_of_int i = round_dyadic round32 False i 0"

text \<open>The object representation of a \<open>float\<close> (binary32), least significant bit first.\<close>

definition unpack32 :: "nat \<Rightarrow> fp" where
  "unpack32 w =
     (let s = odd (w div 2 ^ 31); x = w div 2 ^ 23 mod 256; f = w mod 2 ^ 23
      in if x = 255 then (if f = 0 then FInf s else FNaN)
         else if x = 0 then FNum s f (-149)
         else FNum s (2 ^ 23 + f) (int x - 150))"

fun pack32 :: "fp \<Rightarrow> nat" where
  "pack32 FNaN = 2143289344"
| "pack32 (FInf s) = (if s then 2 ^ 31 else 0) + 255 * 2 ^ 23"
| "pack32 (FNum s m e) =
     (if s then 2 ^ 31 else 0) +
     (if m < 2 ^ 23 then m else nat (e + 150) * 2 ^ 23 + (m - 2 ^ 23))"

definition f32_add :: "fp \<Rightarrow> fp \<Rightarrow> fp" where "f32_add = fp_add round32"
definition f32_sub :: "fp \<Rightarrow> fp \<Rightarrow> fp" where "f32_sub = fp_sub round32"
definition f32_mul :: "fp \<Rightarrow> fp \<Rightarrow> fp" where "f32_mul = fp_mul round32"
definition f32_div :: "fp \<Rightarrow> fp \<Rightarrow> fp" where "f32_div = fp_div round32"
definition f64_div :: "fp \<Rightarrow> fp \<Rightarrow> fp" where "f64_div = fp_div round64"

subsection \<open>Evaluating concrete values\<close>

fun num_bits :: "num \<Rightarrow> num" where
  "num_bits Num.One = Num.One"
| "num_bits (Num.Bit0 k) = Num.inc (num_bits k)"
| "num_bits (Num.Bit1 k) = Num.inc (num_bits k)"

lemma nbits_numeral [simp]:
  "nbits 0 = 0" "nbits 1 = 1" "nbits (Suc 0) = 1" "nbits (numeral k) = numeral (num_bits k)"
proof -
  show "nbits 0 = 0" by (simp add: nbits.simps)
  have one: "nbits (Suc 0) = 1" by (subst nbits.simps) (simp add: nbits.simps)
  then show "nbits 1 = 1" "nbits (Suc 0) = 1" by simp_all
  show "nbits (numeral k) = numeral (num_bits k)"
  proof (induction k)
    case One
    show ?case using one by simp
  next
    case (Bit0 k)
    then show ?case
      by (simp add: nbits.simps [of "numeral (Num.Bit0 k)"] numeral_inc)
  next
    case (Bit1 k)
    have "numeral (Num.Bit1 k) div 2 = (numeral k :: nat)" by simp
    with Bit1 show ?case
      by (simp add: nbits.simps [of "numeral (Num.Bit1 k)"] numeral_inc del: One_nat_def)
  qed
qed

lemmas fp_eval = f32_add_def f32_sub_def f32_mul_def f32_div_def f64_div_def fp_sub_def round32_def
  round64_def fp_round_def round_dyadic_def scale_num_def scale_den_def rne_div_def signed_mant_def
  f32_of_int_def fp_to_s8_def fp_to_s32_def fp_to_u32_def fp_to_range_def unpack32_def fp_gt_def

end
