(* ===== verification/C_Memory.thy ===== *)
theory C_Memory
  imports Soft_Float
begin

section \<open>Byte memory of the inference engine\<close>

text \<open>
  The engine works on four static objects: the main tensor buffer (\<open>static_main_buf\<close>),
  the input picture (\<open>mnist_pic\<close>), the decrypted model (\<open>g_decrypted_model\<close>) and the
  scratch array of the convolution (\<open>sbuf\<close>); \<open>R_NULL\<close> is the empty object of the null
  pointer. A pointer is an object and a byte offset;
  pointer arithmetic is unrestricted, a dereference outside the object is undefined.
  The locale \<open>byte_store\<close> is the interface the layers rely on: the laws of loads and
  stores, and the one lemma every output loop uses.
\<close>

datatype region = R_MAIN | R_PIC | R_MODEL | R_SBUF | R_NULL

type_synonym ptr = "region \<times> int"
type_synonym mem = "region \<Rightarrow> byte list"

definition padd :: "ptr \<Rightarrow> int \<Rightarrow> ptr" where
  "padd p k = (fst p, snd p + k)"

definition ld8 :: "mem \<Rightarrow> ptr \<Rightarrow> byte option" where
  "ld8 m p = (if 0 \<le> snd p \<and> snd p < int (length (m (fst p)))
              then Some (m (fst p) ! nat (snd p)) else None)"

definition st8 :: "mem \<Rightarrow> ptr \<Rightarrow> byte \<Rightarrow> mem option" where
  "st8 m p b = (if 0 \<le> snd p \<and> snd p < int (length (m (fst p)))
                then Some (m (fst p := (m (fst p))[nat (snd p) := b])) else None)"

lemma padd_padd [simp]: "padd (padd p a) b = padd p (a + b)"
  by (simp add: padd_def)

lemma padd_0 [simp]: "padd p 0 = p"
  by (simp add: padd_def)

lemma padd_eq_iff [simp]: "padd p a = padd p b \<longleftrightarrow> a = b"
  by (simp add: padd_def)

lemma fst_padd [simp]: "fst (padd p a) = fst p"
  and snd_padd [simp]: "snd (padd p a) = snd p + a"
  by (simp_all add: padd_def)

subsection \<open>The interface of loads and stores\<close>

locale byte_store =
  fixes ld :: "'m \<Rightarrow> 'p \<Rightarrow> byte option"
    and st :: "'m \<Rightarrow> 'p \<Rightarrow> byte \<Rightarrow> 'm option"
  assumes ld_st_same: "st m p b = Some m' \<Longrightarrow> ld m' p = Some b"
    and ld_st_other: "st m p b = Some m' \<Longrightarrow> q \<noteq> p \<Longrightarrow> ld m' q = ld m q"
    and st_defined: "ld m p \<noteq> None \<Longrightarrow> \<exists>m'. st m p b = Some m'"
    and st_only: "st m p b = Some m' \<Longrightarrow> ld m p \<noteq> None"
begin

lemma st_dom: "st m p b = Some m' \<Longrightarrow> (ld m' q \<noteq> None) = (ld m q \<noteq> None)"
  by (cases "q = p") (auto simp: ld_st_same ld_st_other dest: st_only)

definition agree_off :: "'p set \<Rightarrow> 'm \<Rightarrow> 'm \<Rightarrow> bool" where
  "agree_off A m m' \<longleftrightarrow> (\<forall>q. q \<notin> A \<longrightarrow> ld m' q = ld m q) \<and>
     (\<forall>q. (ld m' q \<noteq> None) = (ld m q \<noteq> None))"

lemma agree_off_refl: "agree_off A m m"
  by (simp add: agree_off_def)

lemma agree_off_trans: "agree_off A m m1 \<Longrightarrow> agree_off B m1 m2 \<Longrightarrow> agree_off (A \<union> B) m m2"
  by (auto simp: agree_off_def)

lemma agree_off_mono: "agree_off A m m1 \<Longrightarrow> A \<subseteq> B \<Longrightarrow> agree_off B m m1"
  unfolding agree_off_def by blast

lemma agree_off_st: "st m p b = Some m' \<Longrightarrow> agree_off {p} m m'"
  using st_dom by (auto simp: agree_off_def ld_st_other)

text \<open>
  A loop that stores one computed byte per iteration at pairwise different addresses:
  if each value can be computed from any memory that differs at most at the other
  addresses the loop writes, the loop is defined, stores exactly these values and
  changes nothing else.
\<close>

lemma store_fold:
  assumes "distinct xs" "inj_on a (set xs)"
    and "\<And>x m'. x \<in> set xs \<Longrightarrow> agree_off (a ` set xs - {a x}) m m' \<Longrightarrow> g x m' = Some (v x)"
    and "\<And>x. x \<in> set xs \<Longrightarrow> ld m (a x) \<noteq> None"
  shows "\<exists>m'. foldM (\<lambda>x m. Option.bind (g x m) (st m (a x))) xs m = Some m' \<and>
    agree_off (a ` set xs) m m' \<and> (\<forall>x\<in>set xs. ld m' (a x) = Some (v x))"
  using assms
proof (induction xs rule: rev_induct)
  case Nil
  then show ?case by (simp add: agree_off_refl)
next
  case (snoc y xs)
  have val: "g x m' = Some (v x)" if "x \<in> set xs" "agree_off (a ` set xs - {a x}) m m'" for x m'
    using that by (intro snoc.prems(3)) (auto elim: agree_off_mono)
  obtain t where t: "foldM (\<lambda>x m. Option.bind (g x m) (st m (a x))) xs m = Some t"
    and ag: "agree_off (a ` set xs) m t" and vs: "\<forall>x\<in>set xs. ld t (a x) = Some (v x)"
    using snoc.IH snoc.prems val by (auto simp: inj_on_def)
  have new: "a y \<notin> a ` set xs" using snoc.prems(1,2) by (auto simp: inj_on_def)
  from new ag have gy: "g y t = Some (v y)"
    by (intro snoc.prems(3)) (auto elim: agree_off_mono)
  from ag snoc.prems(4) [of y] have "ld t (a y) \<noteq> None" by (auto simp: agree_off_def)
  then obtain t' where t': "st t (a y) (v y) = Some t'" using st_defined by blast
  have "agree_off (a ` set (xs @ [y])) m t'"
    using agree_off_trans [OF ag agree_off_st [OF t']] by (simp add: Un_commute)
  moreover have "\<forall>x\<in>set (xs @ [y]). ld t' (a x) = Some (v x)"
    using vs new ld_st_same [OF t'] ld_st_other [OF t'] by (auto simp: image_iff)
  ultimately show ?case using t gy t' by (simp add: foldM_append)
qed

lemma store_loop:
  assumes "\<And>i j. i < n \<Longrightarrow> j < n \<Longrightarrow> a i = a j \<Longrightarrow> i = j"
    and "\<And>i m'. i < n \<Longrightarrow> agree_off (a ` {..<n} - {a i}) m m' \<Longrightarrow> g i m' = Some (v i)"
    and "\<And>i. i < n \<Longrightarrow> ld m (a i) \<noteq> None"
  shows "\<exists>m'. for_upto n (\<lambda>i m. Option.bind (g i m) (st m (a i))) m = Some m' \<and>
    agree_off (a ` {..<n}) m m' \<and> (\<forall>i<n. ld m' (a i) = Some (v i))"
proof -
  have seteq: "set [0..<n] = {..<n}" by auto
  show ?thesis
    using store_fold [of "[0..<n]" a m g v] assms
    unfolding for_upto_def seteq by (auto simp: inj_on_def)
qed

end

lemma ld8_st8_same: "st8 m p b = Some m' \<Longrightarrow> ld8 m' p = Some b"
  by (auto simp: st8_def ld8_def split: if_splits)

lemma ld8_st8_other: "st8 m p b = Some m' \<Longrightarrow> q \<noteq> p \<Longrightarrow> ld8 m' q = ld8 m q"
  by (cases p; cases q) (auto simp: st8_def ld8_def nat_eq_iff split: if_splits)

interpretation cm: byte_store ld8 st8
proof unfold_locales
  show "ld8 m p \<noteq> None \<Longrightarrow> \<exists>m'. st8 m p b = Some m'" for m p b
    by (auto simp: st8_def ld8_def split: if_splits)
  show "st8 m p b = Some m' \<Longrightarrow> ld8 m p \<noteq> None" for m p b m'
    by (auto simp: st8_def ld8_def split: if_splits)
qed (rule ld8_st8_same ld8_st8_other; assumption)+

lemma st8_length: "st8 m p b = Some m' \<Longrightarrow> length (m' r) = length (m r)"
  by (auto simp: st8_def split: if_splits)

subsection \<open>Typed accesses\<close>

text \<open>Multi-byte objects are little-endian, as on the Cortex-M33.\<close>

definition ld_bytes :: "mem \<Rightarrow> ptr \<Rightarrow> nat \<Rightarrow> byte list option" where
  "ld_bytes m p n = those (map (\<lambda>i. ld8 m (padd p (int i))) [0..<n])"

definition ld_s8 :: "mem \<Rightarrow> ptr \<Rightarrow> int option" where
  "ld_s8 m p = map_option sint (ld8 m p)"

definition ld_u8 :: "mem \<Rightarrow> ptr \<Rightarrow> nat option" where
  "ld_u8 m p = map_option unat (ld8 m p)"

definition ld_u16 :: "mem \<Rightarrow> ptr \<Rightarrow> nat option" where
  "ld_u16 m p = map_option le_nat (ld_bytes m p 2)"

definition ld_u32 :: "mem \<Rightarrow> ptr \<Rightarrow> nat option" where
  "ld_u32 m p = map_option le_nat (ld_bytes m p 4)"

definition ld_s32 :: "mem \<Rightarrow> ptr \<Rightarrow> int option" where
  "ld_s32 m p = map_option s32_of_nat (ld_u32 m p)"

definition ld_f32 :: "mem \<Rightarrow> ptr \<Rightarrow> fp option" where
  "ld_f32 m p = map_option unpack32 (ld_u32 m p)"

definition st_bytes :: "mem \<Rightarrow> ptr \<Rightarrow> byte list \<Rightarrow> mem option" where
  "st_bytes m p bs = for_upto (length bs) (\<lambda>i m. st8 m (padd p (int i)) (bs ! i)) m"

definition st_f32 :: "mem \<Rightarrow> ptr \<Rightarrow> fp \<Rightarrow> mem option" where
  "st_f32 m p x = st_bytes m p (nat_le 4 (pack32 x))"

definition in_object :: "mem \<Rightarrow> ptr \<Rightarrow> nat \<Rightarrow> bool" where
  "in_object m p n \<longleftrightarrow> 0 \<le> snd p \<and> snd p + int n \<le> int (length (m (fst p)))"

lemma ld8_in_object [ub_intro]: "in_object m p n \<Longrightarrow> i < n \<Longrightarrow> ld8 m (padd p (int i)) \<noteq> None"
  by (auto simp: in_object_def ld8_def)

lemma ld_s8_in_object: "in_object m p n \<Longrightarrow> i < n \<Longrightarrow>
  \<exists>v. ld_s8 m (padd p (int i)) = Some v \<and> \<bar>v\<bar> \<le> 128"
  using ld8_in_object [of m p n i] sint_byte_abs by (auto simp: ld_s8_def)

lemma those_map_Some: "(\<And>x. x \<in> set xs \<Longrightarrow> f x = Some (g x)) \<Longrightarrow> those (map f xs) = Some (map g xs)"
  by (induction xs) auto

lemma ld_bytes_in_object: "in_object m p n \<Longrightarrow> \<exists>bs. ld_bytes m p n = Some bs \<and> length bs = n"
proof -
  assume ok: "in_object m p n"
  let ?g = "\<lambda>i. the (ld8 m (padd p (int i)))"
  have "ld_bytes m p n = Some (map ?g [0..<n])"
    unfolding ld_bytes_def using ld8_in_object [OF ok] by (intro those_map_Some) auto
  then show ?thesis by simp
qed

lemma ld_bytes_agree:
  assumes "\<And>i. i < n \<Longrightarrow> ld8 m' (padd p (int i)) = ld8 m (padd p (int i))"
  shows "ld_bytes m' p n = ld_bytes m p n"
  unfolding ld_bytes_def by (rule arg_cong [where f = those]) (simp add: assms)

text \<open>The cells of a block, and a test that two blocks share none.\<close>

definition cells :: "ptr \<Rightarrow> nat \<Rightarrow> ptr set" where
  "cells p n = (\<lambda>i. padd p (int i)) ` {..<n}"

definition apart :: "ptr \<Rightarrow> nat \<Rightarrow> ptr \<Rightarrow> nat \<Rightarrow> bool" where
  "apart p n q k \<longleftrightarrow> fst p \<noteq> fst q \<or> snd p + int n \<le> snd q \<or> snd q + int k \<le> snd p"

lemma in_cells: "q \<in> cells p n \<longleftrightarrow> fst q = fst p \<and> snd p \<le> snd q \<and> snd q < snd p + int n"
proof
  assume "q \<in> cells p n"
  then show "fst q = fst p \<and> snd p \<le> snd q \<and> snd q < snd p + int n" by (auto simp: cells_def)
next
  assume q: "fst q = fst p \<and> snd p \<le> snd q \<and> snd q < snd p + int n"
  then have "q = padd p (int (nat (snd q - snd p)))" by (simp add: padd_def prod_eq_iff)
  moreover have "nat (snd q - snd p) < n" using q by linarith
  ultimately show "q \<in> cells p n" unfolding cells_def by blast
qed

lemma padd_in_cells [simp]: "padd p (int i) \<in> cells p n \<longleftrightarrow> i < n"
  by (simp add: in_cells)

lemma apart_cells: "apart p n q k \<Longrightarrow> x \<in> cells p n \<Longrightarrow> x \<notin> cells q k"
  by (auto simp: apart_def in_cells)

lemma in_object_cells: "in_object m p n \<Longrightarrow> q \<in> cells p n \<Longrightarrow> ld8 m q \<noteq> None"
  by (auto simp: in_cells in_object_def ld8_def)

lemma agree_off_ld8: "cm.agree_off A m m' \<Longrightarrow> q \<notin> A \<Longrightarrow> ld8 m' q = ld8 m q"
  unfolding cm.agree_off_def by blast

text \<open>Objects keep their sizes under any change the engine makes.\<close>

lemma agree_off_length:
  assumes "cm.agree_off A m m'" shows "length (m' r) = length (m r)"
proof (rule ccontr)
  assume "length (m' r) \<noteq> length (m r)"
  then have "(ld8 m' (r, int (min (length (m' r)) (length (m r)))) \<noteq> None) \<noteq>
      (ld8 m (r, int (min (length (m' r)) (length (m r)))) \<noteq> None)"
    by (auto simp: ld8_def min_def)
  then show False using assms by (auto simp: cm.agree_off_def)
qed

lemma in_object_agree: "cm.agree_off A m m' \<Longrightarrow> in_object m' p n = in_object m p n"
  by (simp add: in_object_def agree_off_length)

lemma ld_bytes_agree_off:
  assumes "cm.agree_off A m m'" "\<And>i. i < n \<Longrightarrow> padd p (int i) \<notin> A"
  shows "ld_bytes m' p n = ld_bytes m p n"
  by (rule ld_bytes_agree) (rule agree_off_ld8 [OF assms(1) assms(2)])

lemma ld_s32_agree_off:
  assumes "cm.agree_off A m m'" "\<And>i. i < 4 \<Longrightarrow> padd p (int i) \<notin> A"
  shows "ld_s32 m' p = ld_s32 m p" and "ld_u32 m' p = ld_u32 m p" and "ld_f32 m' p = ld_f32 m p"
  using ld_bytes_agree_off [OF assms] by (simp_all add: ld_s32_def ld_u32_def ld_f32_def)

text \<open>Copying a block into an object, as \<open>memcpy\<close> and the PSA calls do.\<close>

lemma st_bytes_ok:
  assumes "in_object m p (length bs)"
  shows "\<exists>m'. st_bytes m p bs = Some m' \<and> cm.agree_off (cells p (length bs)) m m' \<and>
    (\<forall>i<length bs. ld8 m' (padd p (int i)) = Some (bs ! i))"
  using cm.store_loop [where a = "\<lambda>i. padd p (int i)" and g = "\<lambda>i m. Some (bs ! i)"
      and v = "\<lambda>i. bs ! i" and n = "length bs" and m = m] ld8_in_object [OF assms]
  by (auto simp: st_bytes_def cells_def)

subsection \<open>Reading concrete fields\<close>

lemma ld_bytes_2: "ld_bytes m p 2 = those [ld8 m p, ld8 m (padd p 1)]"
  by (simp add: ld_bytes_def upt_rec numeral_eq_Suc)

lemma ld_bytes_4: "ld_bytes m p 4 = those [ld8 m p, ld8 m (padd p 1), ld8 m (padd p 2), ld8 m (padd p 3)]"
  by (simp add: ld_bytes_def upt_rec [of _ 4] upt_rec [of _ "Suc _"] numeral_eq_Suc)

lemmas ld_eval = ld8_def ld_s8_def ld_u8_def ld_bytes_2 ld_bytes_4 ld_u16_def ld_u32_def ld_s32_def
  s32_of_nat_def padd_def

end
