(* ===== verification/Tm_Types.thy ===== *)
theory Tm_Types
  imports C_Memory
begin

section \<open>Types and constants of the inference engine\<close>

text \<open>
  The declarations of \<open>tinymaix.h\<close> under the configuration of \<open>tm_port.h\<close>: 8-bit
  models (\<open>TM_MDL_INT8\<close>), the portable kernels (\<open>TM_ARCH_CPU\<close>, \<open>TM_OPT0\<close>), the
  integer requantisation (\<open>TM_FASTSCALE\<close>), no allocator (\<open>tm_malloc\<close> is \<open>NULL\<close>).
  Model headers are read field by field at their offsets in the packed image.
\<close>

datatype tm_err =
  TM_OK | TM_ERR | TM_ERR_MAGIC | TM_ERR_UNSUPPORT | TM_ERR_OOM | TM_ERR_LAYERTYPE
| TM_ERR_DIMS | TM_ERR_TODO | TM_ERR_MDLTYPE | TM_ERR_KSIZE

fun tm_err_code :: "tm_err \<Rightarrow> nat" where
  "tm_err_code TM_OK = 0"
| "tm_err_code TM_ERR = 1"
| "tm_err_code TM_ERR_MAGIC = 2"
| "tm_err_code TM_ERR_UNSUPPORT = 3"
| "tm_err_code TM_ERR_OOM = 4"
| "tm_err_code TM_ERR_LAYERTYPE = 5"
| "tm_err_code TM_ERR_DIMS = 6"
| "tm_err_code TM_ERR_TODO = 7"
| "tm_err_code TM_ERR_MDLTYPE = 8"
| "tm_err_code TM_ERR_KSIZE = 9"

lemma tm_err_code_inj: "tm_err_code a = tm_err_code b \<Longrightarrow> a = b"
  by (cases a; cases b) simp_all

text \<open>The enumerators are ordered by their C values.\<close>

instantiation tm_err :: linorder
begin

definition less_eq_tm_err :: "tm_err \<Rightarrow> tm_err \<Rightarrow> bool" where
  "less_eq_tm_err a b = (tm_err_code a \<le> tm_err_code b)"

definition less_tm_err :: "tm_err \<Rightarrow> tm_err \<Rightarrow> bool" where
  "less_tm_err a b = (tm_err_code a < tm_err_code b)"

instance
  by standard (auto simp: less_eq_tm_err_def less_tm_err_def dest: tm_err_code_inj)

end

text \<open>Layer types are the 16-bit values of the image; only these are known.\<close>

definition TML_CONV2D :: nat where "TML_CONV2D = 0"
definition TML_GAP :: nat where "TML_GAP = 1"
definition TML_FC :: nat where "TML_FC = 2"
definition TML_SOFTMAX :: nat where "TML_SOFTMAX = 3"
definition TML_RESHAPE :: nat where "TML_RESHAPE = 4"
definition TML_DWCONV2D :: nat where "TML_DWCONV2D = 5"
definition TML_ADD :: nat where "TML_ADD = 6"

lemmas tml_type_defs = TML_CONV2D_def TML_GAP_def TML_FC_def TML_SOFTMAX_def
  TML_RESHAPE_def TML_DWCONV2D_def TML_ADD_def

definition TM_ACT_RELU :: nat where "TM_ACT_RELU = 1"
definition TM_ACT_RELU6 :: nat where "TM_ACT_RELU6 = 3"
definition TM_ACT_MAXCNT :: nat where "TM_ACT_MAXCNT = 6"

lemmas tm_act_defs = TM_ACT_RELU_def TM_ACT_RELU6_def TM_ACT_MAXCNT_def

datatype tm_pp =
  TMPP_NONE | TMPP_FP2INT | TMPP_UINT2INT | TMPP_UINT2FP01 | TMPP_UINT2FPN11
| TMPP_UINT2DTYPE | TMPP_MAXCNT

text \<open>Sizes of the static scratch arrays.\<close>

definition TM_MAX_CSIZE :: nat where "TM_MAX_CSIZE = 16"
definition TM_MAX_KSIZE :: nat where "TM_MAX_KSIZE = 9"
definition TM_MAX_KCSIZE :: nat where "TM_MAX_KCSIZE = 144"
definition TM_FASTSCALE_SHIFT :: nat where "TM_FASTSCALE_SHIFT = 8"

lemmas tm_size_defs = TM_MAX_CSIZE_def TM_MAX_KSIZE_def TM_MAX_KCSIZE_def TM_FASTSCALE_SHIFT_def

text \<open>\<open>'XIAM'\<close> as a multi-character constant of GCC: the bytes \<open>MAIX\<close> in memory.\<close>

definition TM_MDL_MAGIC :: nat where "TM_MDL_MAGIC = 0x5849414D"
definition TM_MDL_TYPE :: nat where "TM_MDL_TYPE = 0"

definition TM_ALIGN_SIZE :: int where "TM_ALIGN_SIZE = 8"

definition tm_align :: "int \<Rightarrow> int" where
  "tm_align addr = (addr + (TM_ALIGN_SIZE - 1)) div TM_ALIGN_SIZE * TM_ALIGN_SIZE"

lemma tm_align_bounds: "addr \<le> tm_align addr \<and> tm_align addr < addr + 8 \<and> tm_align addr mod 8 = 0"
  unfolding tm_align_def TM_ALIGN_SIZE_def by presburger

subsection \<open>Tensors and the model handle\<close>

record tm_mat =
  m_dims :: nat
  m_h :: nat
  m_w :: nat
  m_c :: nat
  m_data :: ptr

definition tm_matp :: "tm_mat \<Rightarrow> int \<Rightarrow> int \<Rightarrow> int \<Rightarrow> ptr" where
  "tm_matp mat y x ch = padd (m_data mat) ((y * int (m_w mat) + x) * int (m_c mat) + ch)"

text \<open>
  The handle \<open>tm_mdl_t\<close>. The only callback of the program, \<open>layer_cb\<close>, returns
  \<open>TM_OK\<close> and has no effect, so the field records whether one is set.
\<close>

record tm_mdl =
  mdl_b :: "ptr option"
  mdl_cb :: bool
  mdl_buf :: "ptr option"
  mdl_subbuf :: "ptr option"
  mdl_main_alloc :: nat
  mdl_layer_i :: nat
  mdl_layer_body :: "ptr option"

definition tm_mdl_zero :: tm_mdl where
  "tm_mdl_zero = \<lparr>mdl_b = None, mdl_cb = False, mdl_buf = None, mdl_subbuf = None,
     mdl_main_alloc = 0, mdl_layer_i = 0, mdl_layer_body = None\<rparr>"

subsection \<open>Fields of the model image\<close>

text \<open>\<open>tm_mdlbin_t\<close>: 64 bytes, then the layers.\<close>

definition mdlbin_magic :: "mem \<Rightarrow> ptr \<Rightarrow> nat option" where
  "mdlbin_magic m b = ld_u32 m b"
definition mdlbin_mdl_type :: "mem \<Rightarrow> ptr \<Rightarrow> nat option" where
  "mdlbin_mdl_type m b = ld_u8 m (padd b 4)"
definition mdlbin_out_deq :: "mem \<Rightarrow> ptr \<Rightarrow> nat option" where
  "mdlbin_out_deq m b = ld_u8 m (padd b 5)"
definition mdlbin_layer_cnt :: "mem \<Rightarrow> ptr \<Rightarrow> nat option" where
  "mdlbin_layer_cnt m b = ld_u16 m (padd b 10)"
definition mdlbin_buf_size :: "mem \<Rightarrow> ptr \<Rightarrow> nat option" where
  "mdlbin_buf_size m b = ld_u32 m (padd b 12)"
definition mdlbin_sub_size :: "mem \<Rightarrow> ptr \<Rightarrow> nat option" where
  "mdlbin_sub_size m b = ld_u32 m (padd b 16)"
definition mdlbin_in_dims :: "ptr \<Rightarrow> ptr" where
  "mdlbin_in_dims b = padd b 20"
definition mdlbin_layers_body :: "ptr \<Rightarrow> ptr" where
  "mdlbin_layers_body b = padd b 64"

text \<open>The layer header \<open>tml_head_t\<close>: 48 bytes.\<close>

record tml_head =
  h_type :: nat
  h_is_out :: nat
  h_size :: nat
  h_in_oft :: nat
  h_out_oft :: nat
  h_in_dims :: "nat list"
  h_out_dims :: "nat list"
  h_in_s :: fp
  h_in_zp :: int
  h_out_s :: fp
  h_out_zp :: int

definition ld_dims :: "mem \<Rightarrow> ptr \<Rightarrow> nat list option" where
  "ld_dims m p = those [ld_u16 m p, ld_u16 m (padd p 2), ld_u16 m (padd p 4), ld_u16 m (padd p 6)]"

definition ld_head :: "mem \<Rightarrow> ptr \<Rightarrow> tml_head option" where
  "ld_head m p =
     do { ty \<leftarrow> ld_u16 m p;
          io \<leftarrow> ld_u16 m (padd p 2);
          sz \<leftarrow> ld_u32 m (padd p 4);
          i_of \<leftarrow> ld_u32 m (padd p 8);
          o_of \<leftarrow> ld_u32 m (padd p 12);
          idims \<leftarrow> ld_dims m (padd p 16);
          odims \<leftarrow> ld_dims m (padd p 24);
          is \<leftarrow> ld_f32 m (padd p 32);
          iz \<leftarrow> ld_s32 m (padd p 36);
          os \<leftarrow> ld_f32 m (padd p 40);
          oz \<leftarrow> ld_s32 m (padd p 44);
          Some \<lparr>h_type = ty, h_is_out = io, h_size = sz, h_in_oft = i_of, h_out_oft = o_of,
            h_in_dims = idims, h_out_dims = odims, h_in_s = is, h_in_zp = iz,
            h_out_s = os, h_out_zp = oz\<rparr> }"

text \<open>The convolution layer \<open>tml_conv2d_dw_t\<close>: 80 bytes.\<close>

record tml_conv2d_dw =
  cv_kernel_w :: nat
  cv_kernel_h :: nat
  cv_stride_w :: nat
  cv_stride_h :: nat
  cv_dilation_w :: nat
  cv_dilation_h :: nat
  cv_act :: nat
  cv_pad :: "nat list"
  cv_depth_mul :: nat
  cv_ws_oft :: nat
  cv_w_oft :: nat
  cv_b_oft :: nat

definition ld_conv :: "mem \<Rightarrow> ptr \<Rightarrow> tml_conv2d_dw option" where
  "ld_conv m p =
     do { kw \<leftarrow> ld_u8 m (padd p 48);
          kh \<leftarrow> ld_u8 m (padd p 49);
          sw \<leftarrow> ld_u8 m (padd p 50);
          sh \<leftarrow> ld_u8 m (padd p 51);
          dw \<leftarrow> ld_u8 m (padd p 52);
          dh \<leftarrow> ld_u8 m (padd p 53);
          act \<leftarrow> ld_u16 m (padd p 54);
          p0 \<leftarrow> ld_u8 m (padd p 56);
          p1 \<leftarrow> ld_u8 m (padd p 57);
          p2 \<leftarrow> ld_u8 m (padd p 58);
          p3 \<leftarrow> ld_u8 m (padd p 59);
          dm \<leftarrow> ld_u32 m (padd p 60);
          ws \<leftarrow> ld_u32 m (padd p 68);
          w \<leftarrow> ld_u32 m (padd p 72);
          b \<leftarrow> ld_u32 m (padd p 76);
          Some \<lparr>cv_kernel_w = kw, cv_kernel_h = kh, cv_stride_w = sw, cv_stride_h = sh,
            cv_dilation_w = dw, cv_dilation_h = dh, cv_act = act, cv_pad = [p0, p1, p2, p3],
            cv_depth_mul = dm, cv_ws_oft = ws, cv_w_oft = w, cv_b_oft = b\<rparr> }"

text \<open>The fully connected layer \<open>tml_fc_t\<close> and the addition \<open>tml_add_t\<close>.\<close>

record tml_fc_layer =
  fc_ws_oft :: nat
  fc_w_oft :: nat
  fc_b_oft :: nat

definition ld_fc :: "mem \<Rightarrow> ptr \<Rightarrow> tml_fc_layer option" where
  "ld_fc m p =
     do { ws \<leftarrow> ld_u32 m (padd p 48);
          w \<leftarrow> ld_u32 m (padd p 52);
          b \<leftarrow> ld_u32 m (padd p 56);
          Some \<lparr>fc_ws_oft = ws, fc_w_oft = w, fc_b_oft = b\<rparr> }"

record tml_add_layer =
  ad_in_oft1 :: nat
  ad_in_s1 :: fp
  ad_in_zp1 :: int

definition ld_add :: "mem \<Rightarrow> ptr \<Rightarrow> tml_add_layer option" where
  "ld_add m p =
     do { o1 \<leftarrow> ld_u32 m (padd p 48);
          s1 \<leftarrow> ld_f32 m (padd p 52);
          z1 \<leftarrow> ld_s32 m (padd p 56);
          Some \<lparr>ad_in_oft1 = o1, ad_in_s1 = s1, ad_in_zp1 = z1\<rparr> }"

subsection \<open>The quantisation macros and the local exponential\<close>

text \<open>\<open>TML_DEQUANT\<close> and \<open>TM_DEQUANT\<close>: the difference is an \<open>int32_t\<close>.\<close>

definition tm_dequant :: "int \<Rightarrow> fp \<Rightarrow> int \<Rightarrow> fp option" where
  "tm_dequant i8 s zp = do { d \<leftarrow> s32 (i8 - zp); Some (f32_mul (f32_of_int d) s) }"

definition tm_quant :: "fp \<Rightarrow> fp \<Rightarrow> int \<Rightarrow> int option" where
  "tm_quant x s zp = fp_to_s8 (f32_add (f32_div x s) (f32_of_int zp))"

text \<open>\<open>_exp\<close>; the decimal literals are given by their binary32 representation.\<close>

definition tm_exp :: "fp \<Rightarrow> fp option" where
  "tm_exp x =
     (let p = f32_mul (unpack32 0x3FB8AA3B) x
      in do { w \<leftarrow> fp_to_s32 p;
              let z = f32_add (f32_sub p (f32_of_int w)) (f32_of_int 0);
              let t = f32_sub (f32_add (f32_add p (unpack32 0x42F28C55))
                        (f32_div (unpack32 0x41DDD2FE) (f32_sub (unpack32 0x409AF5F8) z)))
                        (f32_mul (unpack32 0x3FBEBC8D) z);
              i \<leftarrow> fp_to_u32 (f32_mul (f32_of_int 8388608) t);
              Some (unpack32 (nat i)) })"

end
