(* ===== verification/Tm_Arch.thy ===== *)
theory Tm_Arch
  imports Tm_Types
begin

section \<open>Kernels of arch_cpu.h\<close>

text \<open>
  The dot products, written with their unrolled loops, and the requantisation of an
  accumulator. Each kernel is related to the plain inner product \<open>dot_ref\<close>;
  the locale \<open>dot_kernel\<close> states what the layers need of any of them.
\<close>

definition mac :: "mem \<Rightarrow> ptr \<Rightarrow> ptr \<Rightarrow> nat \<Rightarrow> int \<Rightarrow> int option" where
  "mac m sp kp i acc =
     do { a \<leftarrow> ld_s8 m (padd sp (int i));
          b \<leftarrow> ld_s8 m (padd kp (int i));
          s32 (acc + a * b) }"

subsection \<open>The unrolled dot products\<close>

text \<open>
  Both kernels have the same loop shape: \<open>for (; i+8-1 < cnt; )\<close> with eight
  accumulations per round, where \<open>cnt = (size >> 3) << 3\<close>, then the rest one by one.
  \<open>unrolled8\<close> is the first loop over an arbitrary accumulation step.
\<close>

function unrolled8 :: "(nat \<Rightarrow> 's \<Rightarrow> 's option) \<Rightarrow> nat \<Rightarrow> nat \<Rightarrow> 's \<Rightarrow> (nat \<times> 's) option" where
  "unrolled8 step cnt i acc =
     (if i + 8 - 1 < cnt
      then do { acc \<leftarrow> step i acc;
                acc \<leftarrow> step (i + 1) acc;
                acc \<leftarrow> step (i + 2) acc;
                acc \<leftarrow> step (i + 3) acc;
                acc \<leftarrow> step (i + 4) acc;
                acc \<leftarrow> step (i + 5) acc;
                acc \<leftarrow> step (i + 6) acc;
                acc \<leftarrow> step (i + 7) acc;
                unrolled8 step cnt (i + 8) acc }
      else Some (i, acc))"
  by pat_completeness auto
termination
  by (relation "measure (\<lambda>(step, cnt, i, acc). cnt - i)") auto

declare unrolled8.simps [simp del]

definition tm_dot_prod :: "mem \<Rightarrow> ptr \<Rightarrow> ptr \<Rightarrow> nat \<Rightarrow> int option" where
  "tm_dot_prod m sp kp n =
     do { (i, acc) \<leftarrow> unrolled8 (mac m sp kp) (n div 8 * 8) 0 0;
          foldM (mac m sp kp) [i..<n] acc }"

text \<open>The two-channel variant: one pass over the source, two accumulators.\<close>

definition mac2 :: "mem \<Rightarrow> ptr \<Rightarrow> ptr \<Rightarrow> ptr \<Rightarrow> nat \<Rightarrow> int \<times> int \<Rightarrow> (int \<times> int) option" where
  "mac2 m sp kp0 kp1 i accs =
     do { acc0 \<leftarrow> mac m sp kp0 i (fst accs);
          acc1 \<leftarrow> mac m sp kp1 i (snd accs);
          Some (acc0, acc1) }"

definition tm_dot_prod_pack2 :: "mem \<Rightarrow> ptr \<Rightarrow> ptr \<Rightarrow> nat \<Rightarrow> (int \<times> int) option" where
  "tm_dot_prod_pack2 m sp kp n =
     (let kp0 = kp; kp1 = padd kp (int n)
      in do { (i, accs) \<leftarrow> unrolled8 (mac2 m sp kp0 kp1) (n div 8 * 8) 0 (0, 0);
              foldM (mac2 m sp kp0 kp1) [i..<n] accs })"

text \<open>The 3x3 depthwise kernels: one expression of nine products.\<close>

definition prod8 :: "mem \<Rightarrow> ptr \<Rightarrow> ptr \<Rightarrow> nat \<Rightarrow> int option" where
  "prod8 m sp kp i =
     do { a \<leftarrow> ld_s8 m (padd sp (int i)); b \<leftarrow> ld_s8 m (padd kp (int i)); Some (a * b) }"

definition tm_dot_prod_3x3x1 :: "mem \<Rightarrow> ptr \<Rightarrow> ptr \<Rightarrow> int option" where
  "tm_dot_prod_3x3x1 m sp kp =
     do { p0 \<leftarrow> prod8 m sp kp 0; p1 \<leftarrow> prod8 m sp kp 1; p2 \<leftarrow> prod8 m sp kp 2;
          p3 \<leftarrow> prod8 m sp kp 3; p4 \<leftarrow> prod8 m sp kp 4; p5 \<leftarrow> prod8 m sp kp 5;
          p6 \<leftarrow> prod8 m sp kp 6; p7 \<leftarrow> prod8 m sp kp 7; p8 \<leftarrow> prod8 m sp kp 8;
          s \<leftarrow> s32 (p0 + p1); s \<leftarrow> s32 (s + p2); s \<leftarrow> s32 (s + p3); s \<leftarrow> s32 (s + p4);
          s \<leftarrow> s32 (s + p5); s \<leftarrow> s32 (s + p6); s \<leftarrow> s32 (s + p7); s32 (s + p8) }"

definition tm_dot_prod_gap_3x3x1 :: "mem \<Rightarrow> ptr \<Rightarrow> ptr \<Rightarrow> int list \<Rightarrow> int option" where
  "tm_dot_prod_gap_3x3x1 m sp kp k_oft =
     do { assert_ub (9 \<le> length k_oft);
          ps \<leftarrow> those (map (\<lambda>i. do { a \<leftarrow> ld_s8 m (padd sp (k_oft ! i));
                                     b \<leftarrow> ld_s8 m (padd kp (int i)); Some (a * b) }) [0..<9]);
          foldM (\<lambda>p s. s32 (s + p)) ps 0 }"

subsection \<open>The plain inner product and the kernels' contract\<close>

definition dot_ref :: "mem \<Rightarrow> ptr \<Rightarrow> ptr \<Rightarrow> nat \<Rightarrow> int" where
  "dot_ref m sp kp n =
     (\<Sum>i<n. sint (the (ld8 m (padd sp (int i)))) * sint (the (ld8 m (padd kp (int i)))))"

lemma mac_ok:
  assumes "in_object m sp n" "in_object m kp n" "i < n" "\<bar>acc\<bar> \<le> int i * 2 ^ 14" "n < 2 ^ 17"
  shows "mac m sp kp i acc =
    Some (acc + sint (the (ld8 m (padd sp (int i)))) * sint (the (ld8 m (padd kp (int i)))))"
proof -
  obtain a b where a: "ld8 m (padd sp (int i)) = Some a" and b: "ld8 m (padd kp (int i)) = Some b"
    using assms(1-3) ld8_in_object by blast
  have "\<bar>acc + sint a * sint b\<bar> \<le> int i * 2 ^ 14 + 2 ^ 14"
    using sint_prod_abs [of a b] assms(4) by linarith
  also have "\<dots> = int (i + 1) * 2 ^ 14" by (simp add: algebra_simps)
  also have "\<dots> < 2 ^ 31" using assms(3,5) by simp
  finally show ?thesis
    using a b by (simp add: mac_def ld_s8_def in_s32_abs)
qed

lemma dot_ref_abs: "\<bar>dot_ref m sp kp n\<bar> \<le> int n * 2 ^ 14"
proof -
  have "\<bar>dot_ref m sp kp n\<bar> \<le> (\<Sum>i<n. 2 ^ 14)"
    unfolding dot_ref_def
    by (rule order_trans [OF sum_abs sum_mono]) (rule sint_prod_abs)
  then show ?thesis by simp
qed

lemma dot_ref_Suc: "dot_ref m sp kp (Suc n) =
  dot_ref m sp kp n + sint (the (ld8 m (padd sp (int n)))) * sint (the (ld8 m (padd kp (int n))))"
  by (simp add: dot_ref_def)

lemma dot_plain:
  assumes "in_object m sp n" "in_object m kp n" "n < 2 ^ 17" "k \<le> n"
  shows "foldM (mac m sp kp) [0..<k] 0 = Some (dot_ref m sp kp k)"
  using assms(4)
proof (induction k)
  case 0
  then show ?case by (simp add: dot_ref_def)
next
  case (Suc k)
  then have "k < n" by simp
  with Suc show ?case
    using mac_ok [OF assms(1,2) \<open>k < n\<close> dot_ref_abs assms(3)]
    by (simp add: foldM_append dot_ref_Suc)
qed

text \<open>Unrolling changes nothing, defined or not.\<close>

lemma upt_add8: "[i..<i + 8] = [i, i + 1, i + 2, i + 3, i + 4, i + 5, i + 6, i + 7]"
  by (simp add: upt_rec numeral_eq_Suc)

lemma foldM_upt_split: "i \<le> j \<Longrightarrow> j \<le> k \<Longrightarrow>
  foldM f [i..<k] s = Option.bind (foldM f [i..<j] s) (foldM f [j..<k])"
  using upt_add_eq_append [of i j "k - j"] by (simp add: foldM_append [symmetric])

lemma unrolled8_unroll:
  "unrolled8 f (i + 8 * k) i acc = map_option (Pair (i + 8 * k)) (foldM f [i..<i + 8 * k] acc)"
proof (induction k arbitrary: i acc)
  case 0
  show ?case by (subst unrolled8.simps) simp
next
  case (Suc k)
  have eq: "i + 8 * Suc k = (i + 8) + 8 * k" by simp
  have guard: "(i + 8 - 1 < i + 8 + 8 * k) = True" by simp
  have IH: "unrolled8 f (i + 8 + 8 * k) (i + 8) =
      (\<lambda>s. map_option (Pair (i + 8 + 8 * k)) (foldM f [i + 8..<i + 8 + 8 * k] s))"
    by (rule ext) (rule Suc.IH)
  have split: "foldM f [i..<i + 8 * Suc k] acc =
      Option.bind (foldM f [i..<i + 8] acc) (foldM f [i + 8..<i + 8 + 8 * k])"
    unfolding eq by (rule foldM_upt_split) simp_all
  show ?case
    unfolding split upt_add8
    by (subst unrolled8.simps)
       (simp only: guard if_True eq IH foldM.simps Option.bind_assoc Option.bind.bind_lunit
         Option.map_option_bind comp_def)
qed

lemma unrolled8_rest:
  "Option.bind (unrolled8 f (n div 8 * 8) 0 s) (\<lambda>(i, acc). foldM f [i..<n] acc) = foldM f [0..<n] s"
proof -
  have "foldM f [0..<n] s =
      Option.bind (foldM f [0..<n div 8 * 8] s) (foldM f [n div 8 * 8..<n])"
    by (rule foldM_upt_split) simp_all
  then show ?thesis
    using unrolled8_unroll [of f 0 "n div 8" s]
    by (simp add: mult.commute Option.bind_map_option comp_def)
qed

lemma tm_dot_prod_plain: "tm_dot_prod m sp kp n = foldM (mac m sp kp) [0..<n] 0"
  unfolding tm_dot_prod_def by (rule unrolled8_rest)

text \<open>Two accumulators in one pass are two passes.\<close>

definition pair_opt :: "'a option \<Rightarrow> 'b option \<Rightarrow> ('a \<times> 'b) option" where
  "pair_opt x y = Option.bind x (\<lambda>a. map_option (Pair a) y)"

lemma foldM_mac2: "foldM (mac2 m sp kp0 kp1) is (a, b) =
  pair_opt (foldM (mac m sp kp0) is a) (foldM (mac m sp kp1) is b)"
proof (induction "is" arbitrary: a b)
  case Nil
  then show ?case by (simp add: pair_opt_def)
next
  case (Cons i "is")
  then show ?case
    by (cases "mac m sp kp0 i a"; cases "mac m sp kp1 i b") (auto simp: mac2_def pair_opt_def)
qed

lemma tm_dot_prod_pack2_plain:
  "tm_dot_prod_pack2 m sp kp n =
   pair_opt (tm_dot_prod m sp kp n) (tm_dot_prod m sp (padd kp (int n)) n)"
  unfolding tm_dot_prod_pack2_def Let_def unrolled8_rest foldM_mac2 tm_dot_prod_plain ..

text \<open>The accumulation reads all its products first, as the nine-product expressions do.\<close>

fun products :: "mem \<Rightarrow> ptr \<Rightarrow> ptr \<Rightarrow> nat list \<Rightarrow> int list option" where
  "products m sp kp [] = Some []"
| "products m sp kp (i # is) =
     Option.bind (prod8 m sp kp i) (\<lambda>p. Option.bind (products m sp kp is) (\<lambda>ps. Some (p # ps)))"

lemma mac_prod8: "mac m sp kp i acc = Option.bind (prod8 m sp kp i) (\<lambda>p. s32 (acc + p))"
  by (simp add: mac_def prod8_def Option.bind_assoc)

lemma bind_commute:
  "Option.bind x (\<lambda>a. Option.bind y (\<lambda>b. f a b)) = Option.bind y (\<lambda>b. Option.bind x (\<lambda>a. f a b))"
  by (cases x; cases y) simp_all

lemma foldM_mac_products:
  "foldM (mac m sp kp) is acc =
   Option.bind (products m sp kp is) (\<lambda>ps. foldM (\<lambda>p s. s32 (s + p)) ps acc)"
proof (induction "is" arbitrary: acc)
  case Nil
  then show ?case by simp
next
  case (Cons i "is")
  show ?case
    by (cases "prod8 m sp kp i"; cases "products m sp kp is")
       (auto simp: mac_prod8 [of m sp kp i] Cons s32_def)
qed

lemma prod8_in_s32: "prod8 m sp kp i = Some p \<Longrightarrow> in_s32 p"
proof -
  assume "prod8 m sp kp i = Some p"
  then obtain a b where "p = sint (a :: byte) * sint (b :: byte)"
    by (auto simp: prod8_def ld_s8_def bind_eq_Some_conv)
  with sint_prod_abs [of a b] show "in_s32 p" by (auto intro!: in_s32_abs)
qed

lemma tm_dot_prod_3x3x1_plain: "tm_dot_prod_3x3x1 m sp kp = tm_dot_prod m sp kp 9"
proof -
  have upt9: "[0..<9] = [0, 1, 2, 3, 4, 5, 6, 7, 8::nat]" by (simp add: upt_rec)
  show ?thesis
    unfolding tm_dot_prod_plain foldM_mac_products upt9 tm_dot_prod_3x3x1_def
    by (simp only: products.simps Option.bind_assoc Option.bind.bind_lunit foldM.simps add_0_left
          Option.bind_runit s32_in [OF prod8_in_s32] cong: Option.bind_cong)
qed

subsection \<open>The contract of a dot-product kernel\<close>

text \<open>
  The layers need one thing of a kernel: on lengths it supports, over bytes that exist,
  it returns the inner product, without overflow.
\<close>

locale dot_kernel =
  fixes kern :: "mem \<Rightarrow> ptr \<Rightarrow> ptr \<Rightarrow> nat \<Rightarrow> int option"
    and supports :: "nat \<Rightarrow> bool"
  assumes kern_ok: "supports n \<Longrightarrow> in_object m sp n \<Longrightarrow> in_object m kp n \<Longrightarrow>
    kern m sp kp n = Some (dot_ref m sp kp n)"
begin

lemma kern_range:
  assumes "supports n" "in_object m sp n" "in_object m kp n"
  shows "\<exists>v. kern m sp kp n = Some v \<and> \<bar>v\<bar> \<le> int n * 2 ^ 14"
  using kern_ok [OF assms] dot_ref_abs by auto

lemma kern_local:
  assumes "supports n" "in_object m sp n" "in_object m kp n" "in_object m' sp n" "in_object m' kp n"
    and "\<And>i. i < n \<Longrightarrow> ld8 m' (padd sp (int i)) = ld8 m (padd sp (int i))"
    and "\<And>i. i < n \<Longrightarrow> ld8 m' (padd kp (int i)) = ld8 m (padd kp (int i))"
  shows "kern m' sp kp n = kern m sp kp n"
  using assms by (simp add: kern_ok dot_ref_def)

end

interpretation dp: dot_kernel tm_dot_prod "\<lambda>n. n < 2 ^ 17"
  by unfold_locales (simp add: tm_dot_prod_plain dot_plain)

interpretation dp3: dot_kernel "\<lambda>m sp kp n. tm_dot_prod_3x3x1 m sp kp" "\<lambda>n. n = 9"
  by unfold_locales (simp add: tm_dot_prod_3x3x1_plain dp.kern_ok)

lemma tm_dot_prod_pack2_ok:
  assumes "n < 2 ^ 17" "in_object m sp n" "in_object m kp (2 * n)"
  shows "tm_dot_prod_pack2 m sp kp n = Some (dot_ref m sp kp n, dot_ref m sp (padd kp (int n)) n)"
proof -
  from assms(3) have "in_object m kp n" "in_object m (padd kp (int n)) n"
    by (auto simp: in_object_def)
  with assms show ?thesis
    by (simp add: tm_dot_prod_pack2_plain dp.kern_ok pair_opt_def)
qed

subsection \<open>Requantising an accumulator\<close>

text \<open>
  The body of \<open>tm_postprocess_sum\<close> under \<open>TM_FASTSCALE\<close>: add the bias, divide by the
  channel scale in fixed point, clamp by the activation, multiply by the output scale,
  shift back, add the zero point, and convert to \<open>mtype_t\<close>.
\<close>

definition tm_activate :: "nat \<Rightarrow> int \<Rightarrow> int" where
  "tm_activate act sumf =
     (if act = TM_ACT_RELU then (if sumf > 0 then sumf else 0)
      else if act = TM_ACT_RELU6 then
        (let sumf = (if sumf > 0 then sumf else 0)
         in if sumf > shl_s32 6 TM_FASTSCALE_SHIFT then shl_s32 6 TM_FASTSCALE_SHIFT else sumf)
      else sumf)"

definition tm_requant :: "int \<Rightarrow> int \<Rightarrow> nat \<Rightarrow> int \<Rightarrow> int \<Rightarrow> int \<Rightarrow> int option" where
  "tm_requant acc b act scale out_s out_zp =
     do { acc \<leftarrow> s32 (acc + b);
          sumf \<leftarrow> cdiv (shl_s32 acc TM_FASTSCALE_SHIFT) scale;
          p \<leftarrow> s32 (tm_activate act sumf * out_s);
          s32 (sar p (TM_FASTSCALE_SHIFT + TM_FASTSCALE_SHIFT) + out_zp) }"

definition tm_postprocess_sum ::
  "mem \<Rightarrow> int list \<Rightarrow> ptr \<Rightarrow> nat \<Rightarrow> ptr \<Rightarrow> int list \<Rightarrow> int \<Rightarrow> int \<Rightarrow> mem option" where
  "tm_postprocess_sum m accs bs act outp scales out_s out_zp =
     for_upto (length accs) (\<lambda>i m.
       do { assert_ub (i < length scales);
            b \<leftarrow> ld_s32 m (padd bs (4 * int i));
            v \<leftarrow> tm_requant (accs ! i) b act (scales ! i) out_s out_zp;
            st8 m (padd outp (int i)) (to_s8 v) }) m"

lemma tm_activate_relu: "tm_activate TM_ACT_RELU x = max 0 x"
  by (simp add: tm_activate_def tm_act_defs)

lemma tm_activate_relu6: "tm_activate TM_ACT_RELU6 x = min 1536 (max 0 x)"
  by (simp add: tm_activate_def tm_act_defs shl_s32_def wrap_s32_def TM_FASTSCALE_SHIFT_def Let_def)

lemma tm_activate_abs: "\<bar>tm_activate act x\<bar> \<le> \<bar>x\<bar>"
proof -
  consider "act = TM_ACT_RELU" | "act = TM_ACT_RELU6"
    | "act \<noteq> TM_ACT_RELU" "act \<noteq> TM_ACT_RELU6" by blast
  then show ?thesis
    by cases (simp_all add: tm_activate_relu tm_activate_relu6, simp add: tm_activate_def)
qed

lemma tm_activate_mono: "x \<le> y \<Longrightarrow> tm_activate act x \<le> tm_activate act y"
proof -
  assume le: "x \<le> y"
  consider "act = TM_ACT_RELU" | "act = TM_ACT_RELU6"
    | "act \<noteq> TM_ACT_RELU" "act \<noteq> TM_ACT_RELU6" by blast
  then show ?thesis
    using le by cases (simp_all add: tm_activate_relu tm_activate_relu6, simp add: tm_activate_def)
qed

text \<open>
  The bounds under which every intermediate result fits: the biased accumulator stays
  below \<open>2^23\<close> in magnitude, so that the shift does not wrap, and the scaled value
  times the output scale stays below \<open>2^31\<close>.
\<close>

definition requant_safe :: "int \<Rightarrow> int \<Rightarrow> int \<Rightarrow> int \<Rightarrow> bool" where
  "requant_safe bound scale out_s out_zp \<longleftrightarrow>
     0 < bound \<and> bound < 2 ^ 23 \<and> 0 < scale \<and> 0 \<le> out_s \<and>
     (bound * 256 div scale) * out_s < 2 ^ 31 \<and> \<bar>out_zp\<bar> < 2 ^ 30"

lemma sar16_in_s32: "\<bar>x\<bar> < 2 ^ 31 \<Longrightarrow> \<bar>z\<bar> < 2 ^ 30 \<Longrightarrow> in_s32 (sar x 16 + z)"
proof -
  assume x: "\<bar>x\<bar> < 2 ^ 31" and z: "\<bar>z\<bar> < 2 ^ 30"
  have "x div 65536 \<le> 2 ^ 31 div 65536" using x by (intro zdiv_mono1) auto
  moreover have "- (2 ^ 31) div 65536 \<le> x div 65536" using x by (intro zdiv_mono1) auto
  moreover have "z < 2 ^ 30" "- (2 ^ 30) < z" using z by linarith+
  ultimately show ?thesis by (simp add: sar_def in_s32_def)
qed

lemma requant_defined:
  assumes safe: "requant_safe bound scale out_s out_zp" and le: "\<bar>acc + b\<bar> \<le> bound"
  shows "tm_requant acc b act scale out_s out_zp =
    Some (sar (tm_activate act (((acc + b) * 256) sdiv scale) * out_s) 16 + out_zp)"
proof -
  let ?x = "(acc + b) * 256"
  have b23: "\<bar>acc + b\<bar> < 2 ^ 23" using safe le by (auto simp: requant_safe_def)
  then have x31: "\<bar>?x\<bar> < 2 ^ 31" by (simp add: abs_mult)
  have q: "\<bar>?x sdiv scale\<bar> \<le> bound * 256 div scale"
    using safe le by (intro sdiv_abs_bound) (auto simp: requant_safe_def abs_mult)
  have "\<bar>tm_activate act (?x sdiv scale)\<bar> * out_s \<le> (bound * 256 div scale) * out_s"
    using tm_activate_abs [of act "?x sdiv scale"] q safe
    by (intro mult_right_mono) (auto simp: requant_safe_def)
  then have p: "\<bar>tm_activate act (?x sdiv scale) * out_s\<bar> < 2 ^ 31"
    using safe by (simp add: requant_safe_def abs_mult)
  have d: "cdiv (shl_s32 (acc + b) 8) scale = Some (?x sdiv scale)"
    using x31 safe order_le_less_trans [OF sdiv_abs_le x31, of scale]
    by (simp add: cdiv_def shl_s32_def wrap_s32_id in_s32_abs requant_safe_def)
  have "in_s32 (sar (tm_activate act (?x sdiv scale) * out_s) 16 + out_zp)"
    using p safe by (intro sar16_in_s32) (auto simp: requant_safe_def)
  then show ?thesis
    using b23 d p by (simp add: tm_requant_def TM_FASTSCALE_SHIFT_def s32_in in_s32_abs)
qed

lemma requant_mono:
  assumes "requant_safe bound scale out_s out_zp" "\<bar>acc1 + b\<bar> \<le> bound" "\<bar>acc2 + b\<bar> \<le> bound" "acc1 \<le> acc2"
    and "tm_requant acc1 b act scale out_s out_zp = Some v1"
    and "tm_requant acc2 b act scale out_s out_zp = Some v2"
  shows "v1 \<le> v2"
proof -
  have sc: "0 < scale" "0 \<le> out_s" using assms(1) by (auto simp: requant_safe_def)
  have "((acc1 + b) * 256) sdiv scale \<le> ((acc2 + b) * 256) sdiv scale"
    using sc assms(4) by (intro sdiv_mono) auto
  then have "tm_activate act (((acc1 + b) * 256) sdiv scale) * out_s \<le>
      tm_activate act (((acc2 + b) * 256) sdiv scale) * out_s"
    using sc by (intro mult_right_mono tm_activate_mono)
  then show ?thesis
    using assms(5,6) requant_defined [OF assms(1,2)] requant_defined [OF assms(1,3)]
    by (auto simp: sar_def intro!: zdiv_mono1)
qed

end
