(* ===== verification/Tm_Layers.thy ===== *)
theory Tm_Layers
  imports Tm_Arch
begin

section \<open>The layers of tm_layers.c\<close>

text \<open>
  Each layer returns an error code and the memory, or nothing where the C code is
  undefined. The tables \<open>sumscale\<close> and \<open>k_oft\<close> are filled anew by every call before
  they are read, so they are values of the call; \<open>sbuf\<close> is an object of the memory,
  since the kernels read it through a pointer. Sizes of tensors and the offsets of the table are computed
  without a bound: they overflow the \<open>int\<close> of C only for tensors of \<open>2 ^ 31\<close> bytes and more, larger than any object
  of the program.
\<close>

subsection \<open>Arguments and tables of the convolution\<close>

text \<open>The parameters of \<open>tml_conv2d_dwconv2d\<close>; \<open>int\<close> parameters are HOL integers or naturals.\<close>

record conv_args =
  a_in :: tm_mat
  a_out :: tm_mat
  a_w :: ptr
  a_b :: ptr
  a_kw :: nat
  a_kh :: nat
  a_sx :: nat
  a_sy :: nat
  a_dx :: nat
  a_dy :: nat
  a_act :: nat
  a_pad_top :: nat
  a_pad_bottom :: nat
  a_pad_left :: nat
  a_pad_right :: nat
  a_dmul :: int
  a_ws :: ptr
  a_in_s :: fp
  a_in_zp :: int
  a_out_s :: fp
  a_out_zp :: int

definition conv_maxk :: "conv_args \<Rightarrow> nat" where
  "conv_maxk ca = a_kw ca * a_kh ca"

definition conv_cho :: "conv_args \<Rightarrow> nat" where
  "conv_cho ca = m_c (a_out ca)"

text \<open>\<open>chi\<close> after the offset table: 1 for a depthwise layer.\<close>

definition conv_chi :: "conv_args \<Rightarrow> nat" where
  "conv_chi ca = (if a_dmul ca \<noteq> 0 then 1 else m_c (a_in ca))"

text \<open>\<open>outscale = (1 << TM_FASTSCALE_SHIFT) / out_s\<close>, in \<open>float\<close>, then to \<open>int32_t\<close>.\<close>

definition conv_outscale :: "fp \<Rightarrow> int option" where
  "conv_outscale out_s = fp_to_s32 (f32_div (f32_of_int (shl_s32 1 TM_FASTSCALE_SHIFT)) out_s)"

text \<open>
  \<open>sumscale[c] = 1.0/ws[c]/in_s\<close>: the literal is a \<open>double\<close>, so both quotients are,
  and the result is converted to \<open>int32_t\<close>. Writing past \<open>TM_MAX_CSIZE\<close> is undefined.
\<close>

definition conv_sumscale_at :: "mem \<Rightarrow> ptr \<Rightarrow> fp \<Rightarrow> nat \<Rightarrow> int option" where
  "conv_sumscale_at m ws in_s c =
     do { assert_ub (c < TM_MAX_CSIZE);
          v \<leftarrow> ld_f32 m (padd ws (4 * int c));
          fp_to_s32 (f64_div (f64_div (FNum False 1 0) v) in_s) }"

definition conv_sumscale :: "mem \<Rightarrow> ptr \<Rightarrow> fp \<Rightarrow> nat \<Rightarrow> int list option" where
  "conv_sumscale m ws in_s cho = those (map (conv_sumscale_at m ws in_s) [0..<cho])"

text \<open>The offset table, generated row by row; the entries are \<open>uint32_t\<close>.\<close>

definition k_oft_row :: "nat \<Rightarrow> int \<Rightarrow> int \<times> int list \<Rightarrow> int \<times> int list" where
  "k_oft_row kw chi st = fold (\<lambda>x (oft, ks). (oft + chi, ks @ [wrap_u32 oft])) [0..<kw] st"

definition gen_k_oft :: "nat \<Rightarrow> nat \<Rightarrow> int \<Rightarrow> int \<Rightarrow> int list" where
  "gen_k_oft kw kh in_w chi =
     snd (fold (\<lambda>y st. let (oft, ks) = k_oft_row kw chi st
                       in (oft + (in_w - int kw) * chi, ks)) [0..<kh] (0, []))"

subsection \<open>Pointwise convolution\<close>

text \<open>Channel pairs while \<open>c < out->c - BATCH_SIZE + 1\<close>, then the odd channel.\<close>

function pw_pairs ::
  "conv_args \<Rightarrow> int list \<Rightarrow> int \<Rightarrow> ptr \<Rightarrow> nat \<Rightarrow> ptr \<Rightarrow> ptr \<Rightarrow> mem \<Rightarrow>
   (nat \<times> ptr \<times> ptr \<times> mem) option" where
  "pw_pairs ca scales outscale sptr c kptr outp m =
     (if int c < int (conv_cho ca) - 2 + 1
      then do { (s0, s1) \<leftarrow> tm_dot_prod_pack2 m sptr kptr (m_c (a_in ca));
                m \<leftarrow> tm_postprocess_sum m [s0, s1] (padd (a_b ca) (4 * int c)) (a_act ca) outp
                       (drop c scales) outscale (a_out_zp ca);
                pw_pairs ca scales outscale sptr (c + 2)
                  (padd kptr (int (m_c (a_in ca) * 2))) (padd outp 2) m }
      else Some (c, kptr, outp, m))"
  by pat_completeness auto
termination
  by (relation "measure (\<lambda>(ca, scales, outscale, sptr, c, kptr, outp, m). conv_cho ca - c)") auto

declare pw_pairs.simps [simp del]

definition pw_single ::
  "conv_args \<Rightarrow> int list \<Rightarrow> int \<Rightarrow> ptr \<Rightarrow> nat \<Rightarrow> ptr \<times> ptr \<times> mem \<Rightarrow> (ptr \<times> ptr \<times> mem) option" where
  "pw_single ca scales outscale sptr c st =
     (case st of (kptr, outp, m) \<Rightarrow>
       do { acc \<leftarrow> tm_dot_prod m sptr kptr (m_c (a_in ca));
            m \<leftarrow> tm_postprocess_sum m [acc] (padd (a_b ca) (4 * int c)) (a_act ca) outp
                   (drop c scales) outscale (a_out_zp ca);
            Some (padd kptr (int (m_c (a_in ca))), padd outp 1, m) })"

definition pw_pixel ::
  "conv_args \<Rightarrow> int list \<Rightarrow> int \<Rightarrow> nat \<Rightarrow> nat \<Rightarrow> ptr \<times> mem \<Rightarrow> (ptr \<times> mem) option" where
  "pw_pixel ca scales outscale y x st =
     (case st of (outp, m) \<Rightarrow>
       let sptr = tm_matp (a_in ca) (int (a_sy ca * y)) (int (a_sx ca * x)) 0
       in do { (c, kptr, outp, m) \<leftarrow> pw_pairs ca scales outscale sptr 0 (a_w ca) outp m;
               (kptr, outp, m) \<leftarrow> foldM (pw_single ca scales outscale sptr) [c..<conv_cho ca] (kptr, outp, m);
               Some (outp, m) })"

text \<open>The loops over the output positions, shared by both kinds of convolution.\<close>

definition for_pixels ::
  "tm_mat \<Rightarrow> (nat \<Rightarrow> nat \<Rightarrow> 's \<Rightarrow> 's option) \<Rightarrow> 's \<Rightarrow> 's option" where
  "for_pixels out f s = for_upto (m_h out) (\<lambda>y. for_upto (m_w out) (f y)) s"

subsection \<open>Convolution with a window\<close>

definition src_y0 :: "conv_args \<Rightarrow> nat \<Rightarrow> int" where
  "src_y0 ca y = int (a_sy ca * y) - int (a_pad_top ca)"

definition src_x0 :: "conv_args \<Rightarrow> nat \<Rightarrow> int" where
  "src_x0 ca x = int (a_sx ca * x) - int (a_pad_left ca)"

definition slow_flag :: "conv_args \<Rightarrow> nat \<Rightarrow> nat \<Rightarrow> bool" where
  "slow_flag ca y x \<longleftrightarrow>
     src_y0 ca y < 0 \<or> src_x0 ca x < 0 \<or>
     src_y0 ca y + int (a_kh ca) > int (m_h (a_in ca)) \<or>
     src_x0 ca x + int (a_kw ca) > int (m_w (a_in ca))"

text \<open>The number of channel windows gathered into \<open>sbuf\<close>: \<open>dmul ? cho : chi\<close>.\<close>

definition conv_windows :: "conv_args \<Rightarrow> nat" where
  "conv_windows ca = (if a_dmul ca \<noteq> 0 then conv_cho ca else conv_chi ca)"

definition next_sptr :: "conv_args \<Rightarrow> ptr \<Rightarrow> nat \<Rightarrow> ptr" where
  "next_sptr ca base cc =
     padd base (if a_dmul ca \<noteq> 0 then (int cc + 1) sdiv a_dmul ca else int cc + 1)"

text \<open>\<open>sbuf[sidx+k] = sptr[k_oft[k]]\<close>.\<close>

definition copy_tap :: "int list \<Rightarrow> nat \<Rightarrow> ptr \<Rightarrow> nat \<Rightarrow> mem \<Rightarrow> mem option" where
  "copy_tap k_oft sidx sptr k m =
     do { assert_ub (k < length k_oft);
          v \<leftarrow> ld8 m (padd sptr (k_oft ! k));
          st8 m (R_SBUF, int (sidx + k)) v }"

definition fill_windows ::
  "conv_args \<Rightarrow> ptr \<Rightarrow> (nat \<Rightarrow> ptr \<Rightarrow> mem \<Rightarrow> mem option) \<Rightarrow> mem \<Rightarrow> mem option" where
  "fill_windows ca base fill m =
     map_option (\<lambda>(sidx, sptr, m). m)
       (for_upto (conv_windows ca) (\<lambda>cc (sidx, sptr, m).
          do { m \<leftarrow> fill sidx sptr m;
               Some (sidx + conv_maxk ca, next_sptr ca base cc, m) }) (0, base, m))"

definition fill_fast :: "conv_args \<Rightarrow> int list \<Rightarrow> ptr \<Rightarrow> mem \<Rightarrow> mem option" where
  "fill_fast ca k_oft base =
     fill_windows ca base (\<lambda>sidx sptr. for_upto (conv_maxk ca) (copy_tap k_oft sidx sptr))"

definition fill_slow :: "conv_args \<Rightarrow> int list \<Rightarrow> int \<Rightarrow> int \<Rightarrow> ptr \<Rightarrow> mem \<Rightarrow> mem option" where
  "fill_slow ca k_oft y0 x0 base m =
     (let ky0 = (if y0 < 0 then - y0 else 0);
          kx0 = (if x0 < 0 then - x0 else 0);
          ky1 = (if int (m_h (a_in ca)) - y0 > int (a_kh ca) then int (a_kh ca) else int (m_h (a_in ca)) - y0);
          kx1 = (if int (m_w (a_in ca)) - x0 > int (a_kw ca) then int (a_kw ca) else int (m_w (a_in ca)) - x0)
      in do { m \<leftarrow> st_bytes m (R_SBUF, 0) (replicate (conv_windows ca * conv_maxk ca) (to_s8 (a_in_zp ca)));
              fill_windows ca base (\<lambda>sidx sptr.
                foldM (\<lambda>ky. foldM (\<lambda>kx. copy_tap k_oft sidx sptr (ky * a_kw ca + kx)) [nat kx0..<nat kx1])
                  [nat ky0..<nat ky1]) m })"

definition conv_kernel :: "conv_args \<Rightarrow> mem \<Rightarrow> ptr \<Rightarrow> ptr \<Rightarrow> int option" where
  "conv_kernel ca m sptr kptr =
     (if conv_maxk ca * conv_chi ca = 9 \<and> a_dmul ca \<noteq> 0 then tm_dot_prod_3x3x1 m sptr kptr
      else tm_dot_prod m sptr kptr (conv_maxk ca * conv_chi ca))"

definition conv_channel ::
  "conv_args \<Rightarrow> int list \<Rightarrow> int \<Rightarrow> nat \<Rightarrow> ptr \<times> ptr \<times> mem \<Rightarrow> (ptr \<times> ptr \<times> mem) option" where
  "conv_channel ca scales outscale c st =
     (case st of (sptr, outp, m) \<Rightarrow>
       let kptr = padd (a_w ca) (int (c * conv_chi ca * conv_maxk ca))
       in do { acc \<leftarrow> conv_kernel ca m sptr kptr;
               m \<leftarrow> tm_postprocess_sum m [acc] (padd (a_b ca) (4 * int c)) (a_act ca) outp
                      (drop c scales) outscale (a_out_zp ca);
               Some (if a_dmul ca \<noteq> 0 then padd sptr (int (conv_maxk ca)) else sptr, padd outp 1, m) })"

definition conv_pixel ::
  "conv_args \<Rightarrow> int list \<Rightarrow> int list \<Rightarrow> int \<Rightarrow> nat \<Rightarrow> nat \<Rightarrow> ptr \<times> mem \<Rightarrow> (ptr \<times> mem) option" where
  "conv_pixel ca k_oft scales outscale y x st =
     (case st of (outp, m) \<Rightarrow>
       let base = tm_matp (a_in ca) (src_y0 ca y) (src_x0 ca x) 0
       in do { m \<leftarrow> (if \<not> slow_flag ca y x then fill_fast ca k_oft base m
                    else fill_slow ca k_oft (src_y0 ca y) (src_x0 ca x) base m);
               (sptr, outp, m) \<leftarrow> for_upto (conv_cho ca) (conv_channel ca scales outscale) ((R_SBUF, 0), outp, m);
               Some (outp, m) })"

definition tml_conv2d_dwconv2d :: "conv_args \<Rightarrow> mem \<Rightarrow> (tm_err \<times> mem) option" where
  "tml_conv2d_dwconv2d ca m =
     (let pad_flag = (a_pad_top ca \<noteq> 0 \<or> a_pad_bottom ca \<noteq> 0 \<or> a_pad_left ca \<noteq> 0 \<or> a_pad_right ca \<noteq> 0)
      in if a_dx ca \<noteq> 1 \<or> a_dy ca \<noteq> 1 then Some (TM_ERR_TODO, m)
         else if a_act ca \<ge> TM_ACT_MAXCNT then Some (TM_ERR_UNSUPPORT, m)
         else if conv_maxk ca > TM_MAX_KSIZE then Some (TM_ERR_KSIZE, m)
         else if conv_maxk ca = 1 \<and> (pad_flag \<or> a_dmul ca \<noteq> 0) then Some (TM_ERR_UNSUPPORT, m)
         else do { outscale \<leftarrow> conv_outscale (a_out_s ca);
                   scales \<leftarrow> conv_sumscale m (a_ws ca) (a_in_s ca) (conv_cho ca);
                   (outp, m) \<leftarrow>
                     (if conv_maxk ca = 1
                      then for_pixels (a_out ca) (pw_pixel ca scales outscale) (m_data (a_out ca), m)
                      else let k_oft = gen_k_oft (a_kw ca) (a_kh ca) (int (m_w (a_in ca))) (int (m_c (a_in ca)))
                           in for_pixels (a_out ca) (conv_pixel ca k_oft scales outscale) (m_data (a_out ca), m));
                   Some (TM_OK, m) })"

subsection \<open>Global average pooling\<close>

definition gap_step :: "nat \<Rightarrow> mem \<Rightarrow> ptr \<times> int \<Rightarrow> (ptr \<times> int) option" where
  "gap_step out_c m st =
     (case st of (data, acc) \<Rightarrow>
       do { v \<leftarrow> ld_s8 m data; acc \<leftarrow> s32 (acc + v); Some (padd data (int out_c), acc) })"

definition gap_sum :: "tm_mat \<Rightarrow> tm_mat \<Rightarrow> mem \<Rightarrow> nat \<Rightarrow> int option" where
  "gap_sum inp out m c =
     map_option snd
       (for_upto (m_h inp) (\<lambda>y. for_upto (m_w inp) (\<lambda>x. gap_step (m_c out) m)) (padd (m_data inp) (int c), 0))"

text \<open>\<open>(sum/((in->h)*(in->w))-in_zp)*in_s/out_s + out_zp\<close>: an integer division, then floats.\<close>

definition gap_requant :: "int \<Rightarrow> int \<Rightarrow> fp \<Rightarrow> int \<Rightarrow> fp \<Rightarrow> int \<Rightarrow> int option" where
  "gap_requant acc area in_s in_zp out_s out_zp =
     do { q \<leftarrow> cdiv acc area;
          d \<leftarrow> s32 (q - in_zp);
          fp_to_s8 (f32_add (f32_div (f32_mul (f32_of_int d) in_s) out_s) (f32_of_int out_zp)) }"

definition tml_gap :: "tm_mat \<Rightarrow> tm_mat \<Rightarrow> fp \<Rightarrow> int \<Rightarrow> fp \<Rightarrow> int \<Rightarrow> mem \<Rightarrow> (tm_err \<times> mem) option" where
  "tml_gap inp out in_s in_zp out_s out_zp m =
     map_option (Pair TM_OK)
       (for_upto (m_c out) (\<lambda>c m.
          do { acc \<leftarrow> gap_sum inp out m c;
               v \<leftarrow> gap_requant acc (int (m_h inp * m_w inp)) in_s in_zp out_s out_zp;
               st8 m (padd (m_data out) (int c)) (to_s8 v) }) m)"

subsection \<open>Fully connected layer\<close>

definition fc_requant :: "int \<Rightarrow> fp \<Rightarrow> fp \<Rightarrow> fp \<Rightarrow> int \<Rightarrow> int option" where
  "fc_requant acc in_s ws0 out_s out_zp =
     fp_to_s8 (f32_add (f32_div (f32_mul (f32_mul (f32_of_int acc) in_s) ws0) out_s) (f32_of_int out_zp))"

definition fc_value :: "tm_mat \<Rightarrow> ptr \<Rightarrow> ptr \<Rightarrow> ptr \<Rightarrow> fp \<Rightarrow> fp \<Rightarrow> int \<Rightarrow> nat \<Rightarrow> mem \<Rightarrow> int option" where
  "fc_value inp w b ws in_s out_s out_zp c m =
     do { acc \<leftarrow> tm_dot_prod m (m_data inp) (padd w (int (c * m_c inp))) (m_c inp);
          bc \<leftarrow> ld_s32 m (padd b (4 * int c));
          acc \<leftarrow> s32 (acc + bc);
          ws0 \<leftarrow> ld_f32 m ws;
          fc_requant acc in_s ws0 out_s out_zp }"

definition tml_fc ::
  "tm_mat \<Rightarrow> tm_mat \<Rightarrow> ptr \<Rightarrow> ptr \<Rightarrow> ptr \<Rightarrow> fp \<Rightarrow> int \<Rightarrow> fp \<Rightarrow> int \<Rightarrow> mem \<Rightarrow> (tm_err \<times> mem) option" where
  "tml_fc inp out w b ws in_s in_zp out_s out_zp m =
     map_option (Pair TM_OK)
       (for_upto (m_c out) (\<lambda>c m.
          do { v \<leftarrow> fc_value inp w b ws in_s out_s out_zp c m;
               st8 m (padd (m_data out) (int c)) (to_s8 v) }) m)"

subsection \<open>Softmax\<close>

text \<open>
  \<open>dout\<close> is the output buffer read as an array of \<open>float\<close>; the last loop stores the
  quantised bytes over it.
\<close>

definition softmax_dequant :: "tm_mat \<Rightarrow> tm_mat \<Rightarrow> fp \<Rightarrow> int \<Rightarrow> nat \<Rightarrow> fp \<times> mem \<Rightarrow> (fp \<times> mem) option" where
  "softmax_dequant inp out in_s in_zp c st =
     (case st of (dmax, m) \<Rightarrow>
       let dp = padd (m_data out) (4 * int c)
       in do { v \<leftarrow> ld_s8 m (padd (m_data inp) (int c));
               d \<leftarrow> s32 (v - in_zp);
               m \<leftarrow> st_f32 m dp (f32_mul (f32_of_int d) in_s);
               x \<leftarrow> ld_f32 m dp;
               Some (if fp_gt x dmax then x else dmax, m) })"

definition softmax_exp :: "tm_mat \<Rightarrow> fp \<Rightarrow> nat \<Rightarrow> fp \<times> mem \<Rightarrow> (fp \<times> mem) option" where
  "softmax_exp out dmax c st =
     (case st of (acc, m) \<Rightarrow>
       let dp = padd (m_data out) (4 * int c)
       in do { x \<leftarrow> ld_f32 m dp;
               m \<leftarrow> st_f32 m dp (f32_sub x dmax);
               x \<leftarrow> ld_f32 m dp;
               e \<leftarrow> tm_exp x;
               m \<leftarrow> st_f32 m dp e;
               e \<leftarrow> ld_f32 m dp;
               acc \<leftarrow> Some (f32_add acc e);
               m \<leftarrow> st_f32 m dp (f32_sub e (unpack32 0x358637BD));
               Some (acc, m) })"

definition softmax_quant :: "tm_mat \<Rightarrow> fp \<Rightarrow> fp \<Rightarrow> int \<Rightarrow> nat \<Rightarrow> mem \<Rightarrow> mem option" where
  "softmax_quant out acc out_s out_zp c m =
     do { x \<leftarrow> ld_f32 m (padd (m_data out) (4 * int c));
          v \<leftarrow> fp_to_s8 (f32_add (f32_div (f32_div x acc) out_s) (f32_of_int out_zp));
          st8 m (padd (m_data out) (int c)) (to_s8 v) }"

definition tml_softmax :: "tm_mat \<Rightarrow> tm_mat \<Rightarrow> fp \<Rightarrow> int \<Rightarrow> fp \<Rightarrow> int \<Rightarrow> mem \<Rightarrow> (tm_err \<times> mem) option" where
  "tml_softmax inp out in_s in_zp out_s out_zp m =
     do { (dmax, m) \<leftarrow> for_upto (m_c inp) (softmax_dequant inp out in_s in_zp) (fp_neg (unpack32 0x7F7FFFFF), m);
          (acc, m) \<leftarrow> for_upto (m_c inp) (softmax_exp out dmax) (f32_of_int 0, m);
          m \<leftarrow> for_upto (m_c inp) (softmax_quant out acc out_s out_zp) m;
          Some (TM_OK, m) }"

subsection \<open>Reshape and addition\<close>

definition tml_reshape :: "tm_mat \<Rightarrow> tm_mat \<Rightarrow> fp \<Rightarrow> int \<Rightarrow> fp \<Rightarrow> int \<Rightarrow> mem \<Rightarrow> (tm_err \<times> mem) option" where
  "tml_reshape inp out in_s in_zp out_s out_zp m = Some (TM_OK, m)"

definition add_elem ::
  "ptr \<Rightarrow> ptr \<Rightarrow> ptr \<Rightarrow> fp \<Rightarrow> int \<Rightarrow> fp \<Rightarrow> int \<Rightarrow> fp \<Rightarrow> int \<Rightarrow> nat \<Rightarrow> mem \<Rightarrow> mem option" where
  "add_elem d0 d1 res in_s0 in_zp0 in_s1 in_zp1 out_s out_zp i m =
     do { a \<leftarrow> ld_s8 m (padd d0 (int i));
          x \<leftarrow> tm_dequant a in_s0 in_zp0;
          b \<leftarrow> ld_s8 m (padd d1 (int i));
          y \<leftarrow> tm_dequant b in_s1 in_zp1;
          v \<leftarrow> tm_quant (f32_add x y) out_s out_zp;
          st8 m (padd res (int i)) (to_s8 v) }"

text \<open>\<open>for (i=0; i+4<=size; )\<close> with four elements per round.\<close>

function unrolled4 :: "(nat \<Rightarrow> 's \<Rightarrow> 's option) \<Rightarrow> nat \<Rightarrow> nat \<Rightarrow> 's \<Rightarrow> (nat \<times> 's) option" where
  "unrolled4 step n i s =
     (if i + 4 \<le> n
      then do { s \<leftarrow> step i s;
                s \<leftarrow> step (i + 1) s;
                s \<leftarrow> step (i + 2) s;
                s \<leftarrow> step (i + 3) s;
                unrolled4 step n (i + 4) s }
      else Some (i, s))"
  by pat_completeness auto
termination
  by (relation "measure (\<lambda>(step, n, i, s). n - i)") auto

declare unrolled4.simps [simp del]

definition tml_add ::
  "tm_mat \<Rightarrow> tm_mat \<Rightarrow> tm_mat \<Rightarrow> fp \<Rightarrow> int \<Rightarrow> fp \<Rightarrow> int \<Rightarrow> fp \<Rightarrow> int \<Rightarrow> mem \<Rightarrow> (tm_err \<times> mem) option" where
  "tml_add in0 in1 out in_s0 in_zp0 in_s1 in_zp1 out_s out_zp m =
     (let n = m_h in0 * m_w in0 * m_c in0;
          step = add_elem (m_data in0) (m_data in1) (m_data out) in_s0 in_zp0 in_s1 in_zp1 out_s out_zp
      in do { (i, m) \<leftarrow> unrolled4 step n 0 m;
              m \<leftarrow> foldM step [i..<n] m;
              Some (TM_OK, m) })"

end
