(* ===== verification/Conv_Window.thy ===== *)
theory Conv_Window
  imports Tm_Layers
begin

section \<open>The windows of the convolution layer\<close>

text \<open>
  The lemmas on the input side of \<open>tml_conv2d_dwconv2d\<close>: the offset table, the test that
  chooses between the two ways of filling the scratch array, and what the scratch array
  holds afterwards: the taps of the window, with the zero point outside the picture.
\<close>

subsection \<open>The offset table in closed form\<close>

lemma k_oft_row_fold:
  "fold (\<lambda>x (oft, ks). (oft + chi, ks @ [wrap_u32 oft])) [0..<k] (oft, ks) =
   (oft + int k * chi, ks @ map (\<lambda>x. wrap_u32 (oft + int x * chi)) [0..<k])"
  by (induction k) (simp_all add: algebra_simps)

lemma k_oft_row_eq: "k_oft_row kw chi (oft, ks) =
   (oft + int kw * chi, ks @ map (\<lambda>x. wrap_u32 (oft + int x * chi)) [0..<kw])"
  by (simp add: k_oft_row_def k_oft_row_fold)

lemma gen_k_oft_fold:
  "fold (\<lambda>y st. let (oft, ks) = k_oft_row kw chi st in (oft + (w - int kw) * chi, ks)) [0..<k] (0, []) =
   (int k * w * chi,
    concat (map (\<lambda>y. map (\<lambda>x. wrap_u32 ((int y * w + int x) * chi)) [0..<kw]) [0..<k]))"
proof (induction k)
  case 0
  then show ?case by simp
next
  case (Suc k)
  have "k_oft_row kw chi (int k * w * chi, ks) =
      (int k * w * chi + int kw * chi, ks @ map (\<lambda>x. wrap_u32 ((int k * w + int x) * chi)) [0..<kw])" for ks
    by (simp add: k_oft_row_eq algebra_simps)
  with Suc show ?case by (simp add: algebra_simps)
qed

lemma concat_rows_nth:
  "k < n * kw \<Longrightarrow>
   concat (map (\<lambda>y. map (f y) [0..<kw]) [0..<n]) ! k = f (k div kw) (k mod kw)"
proof (induction n)
  case 0
  then show ?case by simp
next
  case (Suc n)
  let ?pre = "concat (map (\<lambda>y. map (f y) [0..<kw]) [0..<n])"
  have len: "length ?pre = n * kw" by (simp add: length_concat sum_list_triv comp_def)
  have kw: "0 < kw" using Suc.prems by (cases kw) auto
  show ?case
  proof (cases "k < n * kw")
    case True
    with Suc.IH len show ?thesis by (simp add: nth_append)
  next
    case False
    define r where "r = k - n * kw"
    have k: "k = n * kw + r" and r: "r < kw" using False Suc.prems by (simp_all add: r_def)
    show ?thesis using len r kw by (simp add: nth_append k)
  qed
qed

lemma length_gen_k_oft: "length (gen_k_oft kw kh w chi) = kh * kw"
  unfolding gen_k_oft_def gen_k_oft_fold by (simp add: length_concat sum_list_triv comp_def)

lemma gen_k_oft_nth:
  "k < kh * kw \<Longrightarrow>
   gen_k_oft kw kh w chi ! k = wrap_u32 ((int (k div kw) * w + int (k mod kw)) * chi)"
  unfolding gen_k_oft_def gen_k_oft_fold snd_conv by (rule concat_rows_nth)

subsection \<open>What a window holds\<close>

text \<open>The reference view of a tap: position \<open>k\<close> of the kernel window of output pixel
  \<open>(y, x)\<close>, read from the channel that window \<open>win\<close> covers; the zero point outside.\<close>

definition src_ch :: "conv_args \<Rightarrow> nat \<Rightarrow> nat" where
  "src_ch ca win = (if a_dmul ca \<noteq> 0 then win div nat (a_dmul ca) else win)"

definition tap_y :: "conv_args \<Rightarrow> nat \<Rightarrow> nat \<Rightarrow> int" where
  "tap_y ca y k = src_y0 ca y + int (k div a_kw ca)"

definition tap_x :: "conv_args \<Rightarrow> nat \<Rightarrow> nat \<Rightarrow> int" where
  "tap_x ca x k = src_x0 ca x + int (k mod a_kw ca)"

definition in_image :: "tm_mat \<Rightarrow> int \<Rightarrow> int \<Rightarrow> bool" where
  "in_image mat y x \<longleftrightarrow> 0 \<le> y \<and> y < int (m_h mat) \<and> 0 \<le> x \<and> x < int (m_w mat)"

definition tap_byte :: "conv_args \<Rightarrow> mem \<Rightarrow> nat \<Rightarrow> nat \<Rightarrow> nat \<Rightarrow> nat \<Rightarrow> byte" where
  "tap_byte ca m y x win k =
     (if in_image (a_in ca) (tap_y ca y k) (tap_x ca x k)
      then the (ld8 m (tm_matp (a_in ca) (tap_y ca y k) (tap_x ca x k) (int (src_ch ca win))))
      else to_s8 (a_in_zp ca))"

definition mat_size :: "tm_mat \<Rightarrow> nat" where
  "mat_size mat = m_h mat * m_w mat * m_c mat"

lemma matp_in_cells:
  assumes "in_image mat y x" "ch < m_c mat"
  shows "tm_matp mat y x (int ch) \<in> cells (m_data mat) (mat_size mat)"
proof -
  obtain y' x' where yx: "y = int y'" "x = int x'" "y' < m_h mat" "x' < m_w mat"
    using assms(1) unfolding in_image_def by (metis int_nat_eq nat_less_iff of_nat_less_iff zero_le_imp_eq_int)
  have "y' * m_w mat + x' < m_h mat * m_w mat"
    using yx(3,4) by (metis add.commute add_less_le_mono mult_Suc mult_le_mono1 Suc_leI less_le_trans nat_add_left_cancel_less)
  then have "(y' * m_w mat + x') * m_c mat + m_c mat \<le> mat_size mat"
    unfolding mat_size_def by (metis Suc_leI mult_Suc mult_le_mono1 add.commute)
  then have "(y' * m_w mat + x') * m_c mat + ch < mat_size mat" using assms(2) by linarith
  moreover have "tm_matp mat y x (int ch) = padd (m_data mat) (int ((y' * m_w mat + x') * m_c mat + ch))"
    by (simp add: tm_matp_def yx)
  ultimately show ?thesis by (simp only: padd_in_cells)
qed

text \<open>The geometry under which the gathering loops are defined.\<close>

definition window_wf :: "conv_args \<Rightarrow> mem \<Rightarrow> bool" where
  "window_wf ca m \<longleftrightarrow>
     0 < a_kw ca \<and> 0 \<le> a_dmul ca \<and>
     (\<forall>win<conv_windows ca. src_ch ca win < m_c (a_in ca)) \<and>
     (a_kh ca * m_w (a_in ca) + a_kw ca) * m_c (a_in ca) < 2 ^ 32 \<and>
     conv_windows ca * conv_maxk ca \<le> length (m R_SBUF) \<and>
     fst (m_data (a_in ca)) \<noteq> R_SBUF \<and>
     in_object m (m_data (a_in ca)) (mat_size (a_in ca))"

abbreviation conv_k_oft :: "conv_args \<Rightarrow> int list" where
  "conv_k_oft ca \<equiv> gen_k_oft (a_kw ca) (a_kh ca) (int (m_w (a_in ca))) (int (m_c (a_in ca)))"

lemma k_oft_ptr:
  assumes wf: "window_wf ca m" and k: "k < conv_maxk ca"
  shows "padd (padd (tm_matp (a_in ca) (src_y0 ca y) (src_x0 ca x) 0) (int c)) (conv_k_oft ca ! k) =
    tm_matp (a_in ca) (tap_y ca y k) (tap_x ca x k) (int c)"
proof -
  let ?w = "m_w (a_in ca)" and ?c = "m_c (a_in ca)"
  have "k div a_kw ca < a_kh ca" "k mod a_kw ca < a_kw ca"
    using k wf by (auto simp: conv_maxk_def window_wf_def div_less_iff_less_mult mult.commute)
  then have "(k div a_kw ca * ?w + k mod a_kw ca) * ?c \<le> (a_kh ca * ?w + a_kw ca) * ?c"
    by (intro mult_right_mono add_mono mult_mono) auto
  moreover have "(a_kh ca * ?w + a_kw ca) * ?c < 2 ^ 32" using wf by (simp add: window_wf_def)
  ultimately have "(k div a_kw ca * ?w + k mod a_kw ca) * ?c < 2 ^ 32" by (rule order_le_less_trans)
  then have "wrap_u32 (int ((k div a_kw ca * ?w + k mod a_kw ca) * ?c)) =
      int ((k div a_kw ca * ?w + k mod a_kw ca) * ?c)"
    unfolding wrap_u32_def by (intro mod_pos_pos_trivial) (simp_all del: of_nat_mult of_nat_add)
  then have "conv_k_oft ca ! k = int ((k div a_kw ca * ?w + k mod a_kw ca) * ?c)"
    using k by (simp add: gen_k_oft_nth conv_maxk_def mult.commute)
  then show ?thesis
    by (simp add: tm_matp_def tap_y_def tap_x_def algebra_simps)
qed

lemma copy_tap_bind: "copy_tap ks sidx sptr k m =
  Option.bind (Option.bind (assert_ub (k < length ks)) (\<lambda>_. ld8 m (padd sptr (ks ! k))))
    (st8 m (R_SBUF, int (sidx + k)))"
  by (simp add: copy_tap_def Option.bind_assoc)

definition sbuf_cells :: "ptr set" where
  "sbuf_cells = {p. fst p = R_SBUF}"

lemma matp_not_sbuf: "fst (m_data mat) \<noteq> R_SBUF \<Longrightarrow> tm_matp mat y x c \<notin> sbuf_cells"
  by (simp add: sbuf_cells_def tm_matp_def)

lemma sbuf_defined:
  "cm.agree_off A m m' \<Longrightarrow> i < length (m R_SBUF) \<Longrightarrow> ld8 m' (R_SBUF, int i) \<noteq> None"
  by (simp add: ld8_def agree_off_length)

text \<open>Copying the taps of one window that lie in the image.\<close>

lemma copy_taps:
  assumes wf: "window_wf ca m" and win: "win < conv_windows ca"
    and ks: "distinct ks" "\<And>k. k \<in> set ks \<Longrightarrow> k < conv_maxk ca \<and> in_image (a_in ca) (tap_y ca y k) (tap_x ca x k)"
    and ag: "cm.agree_off sbuf_cells m m1"
  shows "\<exists>m2. foldM (copy_tap (conv_k_oft ca) (win * conv_maxk ca)
        (padd (tm_matp (a_in ca) (src_y0 ca y) (src_x0 ca x) 0) (int (src_ch ca win)))) ks m1 = Some m2 \<and>
      cm.agree_off ((\<lambda>k. (R_SBUF, int (win * conv_maxk ca + k))) ` set ks) m1 m2 \<and>
      (\<forall>k\<in>set ks. ld8 m2 (R_SBUF, int (win * conv_maxk ca + k)) = Some (tap_byte ca m y x win k))"
  unfolding copy_tap_bind
proof (rule cm.store_fold)
  show "distinct ks" by (rule ks)
  show "inj_on (\<lambda>k. (R_SBUF, int (win * conv_maxk ca + k))) (set ks)" by (rule inj_onI) simp
next
  fix k m'
  assume k: "k \<in> set ks"
    and m': "cm.agree_off ((\<lambda>k. (R_SBUF, int (win * conv_maxk ca + k))) ` set ks -
      {(R_SBUF, int (win * conv_maxk ca + k))}) m1 m'"
  let ?p = "tm_matp (a_in ca) (tap_y ca y k) (tap_x ca x k) (int (src_ch ca win))"
  have img: "in_image (a_in ca) (tap_y ca y k) (tap_x ca x k)" and kk: "k < conv_maxk ca" using ks(2) k by auto
  have c: "src_ch ca win < m_c (a_in ca)" using wf win by (simp add: window_wf_def)
  have p: "?p \<notin> sbuf_cells" using wf by (simp add: window_wf_def matp_not_sbuf)
  then have "ld8 m' ?p = ld8 m1 ?p" by (intro agree_off_ld8 [OF m']) (auto simp: sbuf_cells_def)
  with p have "ld8 m' ?p = ld8 m ?p" using agree_off_ld8 [OF ag] by simp
  moreover have "ld8 m ?p \<noteq> None"
    using matp_in_cells [OF img c] wf by (intro in_object_cells) (auto simp: window_wf_def)
  ultimately have "ld8 m' ?p = Some (tap_byte ca m y x win k)"
    using img by (simp add: tap_byte_def)
  then show "Option.bind (assert_ub (k < length (conv_k_oft ca))) (\<lambda>_. ld8 m' (padd (padd
      (tm_matp (a_in ca) (src_y0 ca y) (src_x0 ca x) 0) (int (src_ch ca win))) (conv_k_oft ca ! k))) =
      Some (tap_byte ca m y x win k)"
    using kk by (simp only: k_oft_ptr [OF wf kk]) (simp add: length_gen_k_oft conv_maxk_def mult.commute)
next
  fix k assume "k \<in> set ks"
  then have "win * conv_maxk ca + k < Suc win * conv_maxk ca" using ks(2) [of k] by simp
  also have "\<dots> \<le> conv_windows ca * conv_maxk ca" using win by (intro mult_right_mono) auto
  also have "\<dots> \<le> length (m R_SBUF)" using wf by (simp add: window_wf_def)
  finally show "ld8 m1 (R_SBUF, int (win * conv_maxk ca + k)) \<noteq> None" by (rule sbuf_defined [OF ag])
qed

subsection \<open>The gathering loops fill the scratch array with the taps\<close>

definition window_cells :: "conv_args \<Rightarrow> nat \<Rightarrow> ptr set" where
  "window_cells ca win = cells (R_SBUF, int (win * conv_maxk ca)) (conv_maxk ca)"

lemma window_cells_image: "window_cells ca win = (\<lambda>k. (R_SBUF, int (win * conv_maxk ca + k))) ` {..<conv_maxk ca}"
  by (auto simp: window_cells_def cells_def padd_def)

lemma window_cells_sbuf: "window_cells ca win \<subseteq> sbuf_cells"
  by (auto simp: window_cells_image sbuf_cells_def)

lemma window_cells_apart:
  assumes "win \<noteq> win'" "k < conv_maxk ca"
  shows "(R_SBUF, int (win * conv_maxk ca + k)) \<notin> window_cells ca win'"
proof -
  have "win * conv_maxk ca + k \<noteq> win' * conv_maxk ca + k'" if "k' < conv_maxk ca" for k'
    using assms that by (metis add_right_cancel div_mult_self3 mod_less mod_mult_self3 div_less add_cancel_right_left add.commute not_less_zero)
  then show ?thesis
    by (auto simp: window_cells_image of_nat_eq_iff simp del: of_nat_add of_nat_mult)
qed

definition tap_inside :: "conv_args \<Rightarrow> nat \<Rightarrow> nat \<Rightarrow> nat \<Rightarrow> bool" where
  "tap_inside ca y x k = in_image (a_in ca) (tap_y ca y k) (tap_x ca x k)"

definition window_filled :: "conv_args \<Rightarrow> mem \<Rightarrow> nat \<Rightarrow> nat \<Rightarrow> nat \<Rightarrow> mem \<Rightarrow> bool" where
  "window_filled ca m y x win m' \<longleftrightarrow>
     (\<forall>k<conv_maxk ca. ld8 m' (R_SBUF, int (win * conv_maxk ca + k)) = Some (tap_byte ca m y x win k))"

definition window_padded :: "conv_args \<Rightarrow> nat \<Rightarrow> nat \<Rightarrow> nat \<Rightarrow> mem \<Rightarrow> bool" where
  "window_padded ca y x win m' \<longleftrightarrow>
     (\<forall>k<conv_maxk ca. \<not> tap_inside ca y x k \<longrightarrow>
        ld8 m' (R_SBUF, int (win * conv_maxk ca + k)) = Some (to_s8 (a_in_zp ca)))"

lemma next_sptr_src_ch:
  "0 \<le> a_dmul ca \<Longrightarrow> next_sptr ca base cc = padd base (int (src_ch ca (Suc cc)))"
  by (auto simp: next_sptr_def src_ch_def sdiv_pos zdiv_int add.commute)

lemma fill_windows_ok:
  assumes wf: "window_wf ca m"
    and step: "\<And>win m1. win < conv_windows ca \<Longrightarrow> cm.agree_off sbuf_cells m m1 \<Longrightarrow>
      window_padded ca y x win m1 \<Longrightarrow>
      \<exists>m2. fill (win * conv_maxk ca) (padd base (int (src_ch ca win))) m1 = Some m2 \<and>
        cm.agree_off (window_cells ca win) m1 m2 \<and> window_filled ca m y x win m2"
    and m0: "cm.agree_off sbuf_cells m m0" "\<And>win. win < conv_windows ca \<Longrightarrow> window_padded ca y x win m0"
  shows "\<exists>m'. fill_windows ca base fill m0 = Some m' \<and> cm.agree_off sbuf_cells m m' \<and>
    (\<forall>win<conv_windows ca. window_filled ca m y x win m')"
proof -
  let ?P = "\<lambda>cc (sidx, sptr, m1). sidx = cc * conv_maxk ca \<and> sptr = padd base (int (src_ch ca cc)) \<and>
    cm.agree_off sbuf_cells m m1 \<and> (\<forall>win<cc. window_filled ca m y x win m1) \<and>
    (\<forall>win<conv_windows ca. cc \<le> win \<longrightarrow> window_padded ca y x win m1)"
  let ?f = "\<lambda>cc (sidx, sptr, m). do { m \<leftarrow> fill sidx sptr m;
      Some (sidx + conv_maxk ca, next_sptr ca base cc, m) }"
  have "\<exists>st. for_upto (conv_windows ca) ?f (0, base, m0) = Some st \<and> ?P (conv_windows ca) st"
  proof (rule for_upto_inv [where P = ?P])
    show "?P 0 (0, base, m0)" using m0 by (simp add: src_ch_def)
  next
    fix cc st
    assume cc: "cc < conv_windows ca" and P: "?P cc st"
    obtain m1 where st: "st = (cc * conv_maxk ca, padd base (int (src_ch ca cc)), m1)"
      and ag: "cm.agree_off sbuf_cells m m1" and fl: "\<forall>win<cc. window_filled ca m y x win m1"
      and pd: "\<forall>win<conv_windows ca. cc \<le> win \<longrightarrow> window_padded ca y x win m1"
      using P by (cases st) auto
    obtain m2 where m2: "fill (cc * conv_maxk ca) (padd base (int (src_ch ca cc))) m1 = Some m2"
      and ag2: "cm.agree_off (window_cells ca cc) m1 m2" and fl2: "window_filled ca m y x cc m2"
      using step [OF cc ag] pd cc by auto
    have other: "ld8 m2 (R_SBUF, int (win * conv_maxk ca + k)) = ld8 m1 (R_SBUF, int (win * conv_maxk ca + k))"
      if "win \<noteq> cc" "k < conv_maxk ca" for win k
      using agree_off_ld8 [OF ag2 window_cells_apart [OF that]] .
    have "cm.agree_off sbuf_cells m m2"
      using cm.agree_off_trans [OF ag ag2] window_cells_sbuf by (auto elim!: cm.agree_off_mono)
    moreover have "\<forall>win<Suc cc. window_filled ca m y x win m2"
      using fl fl2 other by (auto simp: window_filled_def less_Suc_eq)
    moreover have "\<forall>win<conv_windows ca. Suc cc \<le> win \<longrightarrow> window_padded ca y x win m2"
      using pd other by (auto simp: window_padded_def)
    ultimately show "\<exists>st'. ?f cc st = Some st' \<and> ?P (Suc cc) st'"
      using wf by (simp add: st m2 next_sptr_src_ch window_wf_def)
  qed
  then show ?thesis by (auto simp: fill_windows_def)
qed

lemma fill_fast_ok:
  assumes wf: "window_wf ca m" and fast: "\<not> slow_flag ca y x"
  shows "\<exists>m'. fill_fast ca (conv_k_oft ca) (tm_matp (a_in ca) (src_y0 ca y) (src_x0 ca x) 0) m = Some m' \<and>
    cm.agree_off sbuf_cells m m' \<and> (\<forall>win<conv_windows ca. window_filled ca m y x win m')"
  unfolding fill_fast_def
proof (rule fill_windows_ok [OF wf])
  have inside: "tap_inside ca y x k" if "k < conv_maxk ca" for k
  proof -
    have "k div a_kw ca < a_kh ca" "k mod a_kw ca < a_kw ca"
      using that wf by (auto simp: conv_maxk_def window_wf_def div_less_iff_less_mult mult.commute)
    then show ?thesis
      using fast by (auto simp: slow_flag_def tap_inside_def in_image_def tap_y_def tap_x_def)
  qed
  show "window_padded ca y x win m" for win by (simp add: window_padded_def inside)
  show "cm.agree_off sbuf_cells m m" by (rule cm.agree_off_refl)
  fix win m1
  assume win: "win < conv_windows ca" and ag: "cm.agree_off sbuf_cells m m1"
  have set_upt: "set [0..<conv_maxk ca] = {..<conv_maxk ca}" by auto
  from copy_taps [OF wf win _ _ ag, of "[0..<conv_maxk ca]" y x] inside
  show "\<exists>m2. for_upto (conv_maxk ca) (copy_tap (conv_k_oft ca) (win * conv_maxk ca)
        (padd (tm_matp (a_in ca) (src_y0 ca y) (src_x0 ca x) 0) (int (src_ch ca win)))) m1 = Some m2 \<and>
      cm.agree_off (window_cells ca win) m1 m2 \<and> window_filled ca m y x win m2"
    unfolding set_upt window_cells_image for_upto_def window_filled_def
    by (auto simp: tap_inside_def)
qed

text \<open>The clipped loops visit exactly the taps inside the image.\<close>

definition slow_taps :: "conv_args \<Rightarrow> int \<Rightarrow> int \<Rightarrow> nat list" where
  "slow_taps ca y0 x0 =
     (let ky0 = (if y0 < 0 then - y0 else 0);
          kx0 = (if x0 < 0 then - x0 else 0);
          ky1 = (if int (m_h (a_in ca)) - y0 > int (a_kh ca) then int (a_kh ca) else int (m_h (a_in ca)) - y0);
          kx1 = (if int (m_w (a_in ca)) - x0 > int (a_kw ca) then int (a_kw ca) else int (m_w (a_in ca)) - x0)
      in map (\<lambda>(ky, kx). ky * a_kw ca + kx) (List.product [nat ky0..<nat ky1] [nat kx0..<nat kx1]))"

lemma foldM_map: "foldM f (map g xs) s = foldM (\<lambda>x. f (g x)) xs s"
  by (induction xs arbitrary: s) (auto intro: Option.bind_cong)

lemma clip_range:
  "kx < k1 \<Longrightarrow> k1 = nat (if n - x0 > int k then int k else n - x0) \<Longrightarrow> kx < k"
  by (auto split: if_splits)

lemma div_mod_of_sum: "kx < (kw :: nat) \<Longrightarrow> (ky * kw + kx) div kw = ky \<and> (ky * kw + kx) mod kw = kx"
  by simp

lemma slow_taps_distinct: "distinct (slow_taps ca y0 x0)"
proof -
  have "inj_on (\<lambda>(ky, kx). ky * a_kw ca + kx) {(ky, kx). kx < a_kw ca}"
    by (rule inj_onI) (auto, (metis div_mod_of_sum)+)
  then show ?thesis
    unfolding slow_taps_def Let_def
    by (intro distinct_map [THEN iffD2] conjI distinct_product)
       (auto elim!: inj_on_subset dest: clip_range [OF _ refl])
qed

lemma slow_taps_set:
  "0 < a_kw ca \<Longrightarrow> set (slow_taps ca (src_y0 ca y) (src_x0 ca x)) = {k. k < conv_maxk ca \<and> tap_inside ca y x k}"
proof (intro set_eqI iffI)
  fix k
  assume "k \<in> set (slow_taps ca (src_y0 ca y) (src_x0 ca x))" and kw: "0 < a_kw ca"
  then obtain ky kx where k: "k = ky * a_kw ca + kx" and "kx < a_kw ca" "ky < a_kh ca"
    and "0 \<le> src_y0 ca y + int ky" "src_y0 ca y + int ky < int (m_h (a_in ca))"
    and "0 \<le> src_x0 ca x + int kx" "src_x0 ca x + int kx < int (m_w (a_in ca))"
    by (auto simp: slow_taps_def Let_def split: if_splits)
  moreover have "ky * a_kw ca + kx < a_kw ca * a_kh ca"
    using \<open>kx < a_kw ca\<close> \<open>ky < a_kh ca\<close>
    by (metis add.commute add_less_le_mono mult.commute mult_Suc_right mult_le_mono2 Suc_leI less_le_trans nat_add_left_cancel_less)
  ultimately show "k \<in> {k. k < conv_maxk ca \<and> tap_inside ca y x k}"
    by (simp add: conv_maxk_def tap_inside_def in_image_def tap_y_def tap_x_def)
next
  fix k
  assume k: "k \<in> {k. k < conv_maxk ca \<and> tap_inside ca y x k}" and kw: "0 < a_kw ca"
  have "k div a_kw ca < a_kh ca" "k mod a_kw ca < a_kw ca"
    using k kw by (auto simp: conv_maxk_def div_less_iff_less_mult mult.commute)
  moreover have "k = (k div a_kw ca) * a_kw ca + k mod a_kw ca" by simp
  ultimately show "k \<in> set (slow_taps ca (src_y0 ca y) (src_x0 ca x))"
    using k unfolding slow_taps_def Let_def set_map
    by (intro image_eqI [where x = "(k div a_kw ca, k mod a_kw ca)"])
       (auto simp: tap_inside_def in_image_def tap_y_def tap_x_def)
qed

lemma fill_slow_ok:
  assumes wf: "window_wf ca m"
  shows "\<exists>m'. fill_slow ca (conv_k_oft ca) (src_y0 ca y) (src_x0 ca x)
        (tm_matp (a_in ca) (src_y0 ca y) (src_x0 ca x) 0) m = Some m' \<and>
    cm.agree_off sbuf_cells m m' \<and> (\<forall>win<conv_windows ca. window_filled ca m y x win m')"
proof -
  let ?n = "conv_windows ca * conv_maxk ca" and ?z = "to_s8 (a_in_zp ca)"
  let ?base = "tm_matp (a_in ca) (src_y0 ca y) (src_x0 ca x) 0"
  let ?ks = "slow_taps ca (src_y0 ca y) (src_x0 ca x)"
  have kw: "0 < a_kw ca" using wf by (simp add: window_wf_def)
  have "in_object m (R_SBUF, 0) ?n" using wf by (simp add: window_wf_def in_object_def flip: of_nat_mult)
  then obtain m0 where m0: "st_bytes m (R_SBUF, 0) (replicate ?n ?z) = Some m0"
    and ag0: "cm.agree_off (cells (R_SBUF, 0) ?n) m m0" and z: "\<forall>i<?n. ld8 m0 (R_SBUF, int i) = Some ?z"
    using st_bytes_ok [of m "(R_SBUF, 0)" "replicate ?n ?z"] by (auto simp: padd_def)
  have fill: "foldM (\<lambda>ky. foldM (\<lambda>kx. copy_tap (conv_k_oft ca) sidx sptr (ky * a_kw ca + kx)) xs) ys m1 =
      foldM (copy_tap (conv_k_oft ca) sidx sptr) (map (\<lambda>(ky, kx). ky * a_kw ca + kx) (List.product ys xs)) m1"
    for sidx sptr ys xs m1 by (simp add: foldM_product foldM_map case_prod_unfold)
  have "\<exists>m'. fill_windows ca ?base (\<lambda>sidx sptr. foldM (copy_tap (conv_k_oft ca) sidx sptr) ?ks) m0 = Some m' \<and>
      cm.agree_off sbuf_cells m m' \<and> (\<forall>win<conv_windows ca. window_filled ca m y x win m')"
  proof (rule fill_windows_ok [OF wf])
    show "cm.agree_off sbuf_cells m m0"
      using ag0 by (rule cm.agree_off_mono) (auto simp: in_cells sbuf_cells_def)
    show "window_padded ca y x win m0" if "win < conv_windows ca" for win
    proof -
      have "win * conv_maxk ca + k < ?n" if "k < conv_maxk ca" for k
        using that \<open>win < conv_windows ca\<close>
        by (metis add.commute add_less_le_mono mult_Suc mult_le_mono1 Suc_leI less_le_trans nat_add_left_cancel_less)
      with z show ?thesis by (auto simp: window_padded_def simp del: of_nat_add of_nat_mult)
    qed
    fix win m1
    assume win: "win < conv_windows ca" and ag: "cm.agree_off sbuf_cells m m1"
      and pad: "window_padded ca y x win m1"
    obtain m2 where m2: "foldM (copy_tap (conv_k_oft ca) (win * conv_maxk ca)
          (padd ?base (int (src_ch ca win)))) ?ks m1 = Some m2"
      and ag2: "cm.agree_off ((\<lambda>k. (R_SBUF, int (win * conv_maxk ca + k))) ` set ?ks) m1 m2"
      and v: "\<forall>k\<in>set ?ks. ld8 m2 (R_SBUF, int (win * conv_maxk ca + k)) = Some (tap_byte ca m y x win k)"
      using copy_taps [OF wf win slow_taps_distinct _ ag] slow_taps_set [OF kw]
      unfolding tap_inside_def by blast
    have "cm.agree_off (window_cells ca win) m1 m2"
      using ag2 by (rule cm.agree_off_mono) (auto simp: window_cells_image slow_taps_set [OF kw])
    moreover have "window_filled ca m y x win m2"
      unfolding window_filled_def
    proof (intro allI impI)
      fix k assume k: "k < conv_maxk ca"
      show "ld8 m2 (R_SBUF, int (win * conv_maxk ca + k)) = Some (tap_byte ca m y x win k)"
      proof (cases "tap_inside ca y x k")
        case True
        with v k show ?thesis by (simp add: slow_taps_set [OF kw])
      next
        case False
        then have "(R_SBUF, int (win * conv_maxk ca + k)) \<notin> (\<lambda>k. (R_SBUF, int (win * conv_maxk ca + k))) ` set ?ks"
          by (auto simp: slow_taps_set [OF kw])
        then show ?thesis
          using agree_off_ld8 [OF ag2] pad k False by (simp add: window_padded_def tap_byte_def tap_inside_def)
      qed
    qed
    ultimately show "\<exists>m2. foldM (copy_tap (conv_k_oft ca) (win * conv_maxk ca)
          (padd ?base (int (src_ch ca win)))) ?ks m1 = Some m2 \<and>
        cm.agree_off (window_cells ca win) m1 m2 \<and> window_filled ca m y x win m2"
      using m2 by blast
  qed
  moreover have "fill_slow ca (conv_k_oft ca) (src_y0 ca y) (src_x0 ca x) ?base m =
      fill_windows ca ?base (\<lambda>sidx sptr. foldM (copy_tap (conv_k_oft ca) sidx sptr) ?ks) m0"
    unfolding fill_slow_def slow_taps_def Let_def fill m0 by (rule Option.bind.bind_lunit)
  ultimately show ?thesis by simp
qed

text \<open>Either way of gathering, the scratch array holds the windows of the pixel.\<close>

lemma fill_ok:
  assumes "window_wf ca m"
  shows "\<exists>m'. (if \<not> slow_flag ca y x
      then fill_fast ca (conv_k_oft ca) (tm_matp (a_in ca) (src_y0 ca y) (src_x0 ca x) 0) m
      else fill_slow ca (conv_k_oft ca) (src_y0 ca y) (src_x0 ca x)
        (tm_matp (a_in ca) (src_y0 ca y) (src_x0 ca x) 0) m) = Some m' \<and>
    cm.agree_off sbuf_cells m m' \<and> (\<forall>win<conv_windows ca. window_filled ca m y x win m')"
  using fill_fast_ok [OF assms] fill_slow_ok [OF assms] by (cases "slow_flag ca y x") simp_all

end
