(* ===== verification/Conv_Correct.thy ===== *)
theory Conv_Correct
  imports Conv_Window
begin

section \<open>The convolution layer computes the convolution\<close>

text \<open>
  The mathematical layer: the accumulator of output position \<open>(y, x)\<close> and channel \<open>c\<close> is
  the sum over the kernel taps and input channels of input byte times weight, with the
  zero point of the input outside the picture; the output byte is its requantised value.
  The main lemma shows that \<open>tml_conv2d_dwconv2d\<close>, on both of its paths, stores exactly
  these bytes and touches nothing besides the output tensor and the scratch array.
\<close>

definition conv_win0 :: "conv_args \<Rightarrow> nat \<Rightarrow> nat" where
  "conv_win0 ca c = (if a_dmul ca \<noteq> 0 then c else 0)"

definition conv_dot_len :: "conv_args \<Rightarrow> nat" where
  "conv_dot_len ca = conv_maxk ca * conv_chi ca"

definition conv_acc :: "conv_args \<Rightarrow> mem \<Rightarrow> nat \<Rightarrow> nat \<Rightarrow> nat \<Rightarrow> int" where
  "conv_acc ca m y x c =
     (\<Sum>i<conv_dot_len ca.
        sint (tap_byte ca m y x (conv_win0 ca c + i div conv_maxk ca) (i mod conv_maxk ca)) *
        sint (the (ld8 m (padd (a_w ca) (int (c * conv_dot_len ca + i))))))"

definition conv_bias :: "conv_args \<Rightarrow> mem \<Rightarrow> nat \<Rightarrow> int" where
  "conv_bias ca m c = the (ld_s32 m (padd (a_b ca) (4 * int c)))"

text \<open>The value that is converted to \<open>mtype_t\<close>: requantisation in closed form.\<close>

definition requant_ref :: "int \<Rightarrow> int \<Rightarrow> nat \<Rightarrow> int \<Rightarrow> int \<Rightarrow> int \<Rightarrow> int" where
  "requant_ref acc b act scale out_s out_zp =
     sar (tm_activate act (((acc + b) * 256) sdiv scale) * out_s) 16 + out_zp"

definition conv_byte :: "conv_args \<Rightarrow> mem \<Rightarrow> int list \<Rightarrow> int \<Rightarrow> nat \<Rightarrow> nat \<Rightarrow> nat \<Rightarrow> byte" where
  "conv_byte ca m scales outscale y x c =
     to_s8 (requant_ref (conv_acc ca m y x c) (conv_bias ca m c) (a_act ca) (scales ! c) outscale (a_out_zp ca))"

definition out_cells :: "conv_args \<Rightarrow> ptr set" where
  "out_cells ca = cells (m_data (a_out ca)) (mat_size (a_out ca))"

text \<open>Blocks the layer reads lie in objects, away from the scratch array and the output.\<close>

definition operand_ok :: "conv_args \<Rightarrow> mem \<Rightarrow> ptr \<Rightarrow> nat \<Rightarrow> bool" where
  "operand_ok ca m p n \<longleftrightarrow>
     in_object m p n \<and> fst p \<noteq> R_SBUF \<and> apart p n (m_data (a_out ca)) (mat_size (a_out ca))"

definition conv_operands :: "conv_args \<Rightarrow> mem \<Rightarrow> bool" where
  "conv_operands ca m \<longleftrightarrow>
     operand_ok ca m (m_data (a_in ca)) (mat_size (a_in ca)) \<and>
     operand_ok ca m (a_w ca) (conv_cho ca * conv_dot_len ca) \<and>
     operand_ok ca m (a_b ca) (4 * conv_cho ca) \<and>
     in_object m (m_data (a_out ca)) (mat_size (a_out ca)) \<and> fst (m_data (a_out ca)) \<noteq> R_SBUF"

definition conv_arith :: "conv_args \<Rightarrow> mem \<Rightarrow> int list \<Rightarrow> int \<Rightarrow> bool" where
  "conv_arith ca m scales outscale \<longleftrightarrow>
     conv_dot_len ca < 2 ^ 17 \<and> length scales = conv_cho ca \<and>
     (\<forall>c<conv_cho ca. requant_safe (int (conv_dot_len ca) * 2 ^ 14 + \<bar>conv_bias ca m c\<bar>)
        (scales ! c) outscale (a_out_zp ca))"

text \<open>Memories that occur during the layer, and the state of the output loops.\<close>

definition conv_mid :: "conv_args \<Rightarrow> mem \<Rightarrow> mem \<Rightarrow> bool" where
  "conv_mid ca m m' \<longleftrightarrow> cm.agree_off (out_cells ca \<union> sbuf_cells) m m'"

lemma conv_mid_refl: "conv_mid ca m m"
  by (simp add: conv_mid_def cm.agree_off_refl)

lemma conv_mid_trans:
  "conv_mid ca m m1 \<Longrightarrow> cm.agree_off A m1 m2 \<Longrightarrow> A \<subseteq> out_cells ca \<union> sbuf_cells \<Longrightarrow> conv_mid ca m m2"
  unfolding conv_mid_def by (drule (1) cm.agree_off_trans) (auto elim!: cm.agree_off_mono)

lemma operand_cell:
  assumes "operand_ok ca m p n" "conv_mid ca m m'" "i < n"
  shows "ld8 m' (padd p (int i)) = ld8 m (padd p (int i))"
proof (rule agree_off_ld8)
  show "cm.agree_off (out_cells ca \<union> sbuf_cells) m m'" using assms(2) by (simp add: conv_mid_def)
  show "padd p (int i) \<notin> out_cells ca \<union> sbuf_cells"
    using assms(1,3) apart_cells [of p n _ _ "padd p (int i)"]
    by (auto simp: operand_ok_def out_cells_def sbuf_cells_def)
qed

lemma operand_in_object: "operand_ok ca m p n \<Longrightarrow> conv_mid ca m m' \<Longrightarrow> in_object m' p n"
  using in_object_agree by (simp add: operand_ok_def conv_mid_def)

lemma in_object_sub: "in_object m p n \<Longrightarrow> i + k \<le> n \<Longrightarrow> in_object m (padd p (int i)) k"
  by (auto simp: in_object_def)

lemma bias_loaded:
  assumes "conv_operands ca m" "conv_mid ca m m'" "c < conv_cho ca"
  shows "ld_s32 m' (padd (a_b ca) (4 * int c)) = Some (conv_bias ca m c)"
proof -
  have op: "operand_ok ca m (a_b ca) (4 * conv_cho ca)" using assms(1) by (simp add: conv_operands_def)
  have "ld_bytes m' (padd (a_b ca) (4 * int c)) 4 = ld_bytes m (padd (a_b ca) (4 * int c)) 4"
  proof (rule ld_bytes_agree)
    fix i :: nat assume "i < 4"
    then have "4 * c + i < 4 * conv_cho ca" using assms(3) by linarith
    then show "ld8 m' (padd (padd (a_b ca) (4 * int c)) (int i)) = ld8 m (padd (padd (a_b ca) (4 * int c)) (int i))"
      using operand_cell [OF op assms(2), of "4 * c + i"] by simp
  qed
  moreover have "in_object m (padd (a_b ca) (int (4 * c))) 4"
    using op assms(3) by (intro in_object_sub) (auto simp: operand_ok_def)
  then have "in_object m (padd (a_b ca) (4 * int c)) 4" by simp
  then obtain bs where "ld_bytes m (padd (a_b ca) (4 * int c)) 4 = Some bs"
    using ld_bytes_in_object by blast
  ultimately show ?thesis by (simp add: conv_bias_def ld_s32_def ld_u32_def)
qed

text \<open>One call of the postprocessing for one accumulator.\<close>

lemma postprocess_single:
  "tm_postprocess_sum m [acc] bs act outp scales out_s out_zp =
     do { assert_ub (scales \<noteq> []);
          b \<leftarrow> ld_s32 m bs;
          v \<leftarrow> tm_requant acc b act (hd scales) out_s out_zp;
          st8 m outp (to_s8 v) }"
  by (cases scales) (simp_all add: tm_postprocess_sum_def for_upto_Suc)

lemma conv_acc_abs: "\<bar>conv_acc ca m y x c\<bar> \<le> int (conv_dot_len ca) * 2 ^ 14"
proof -
  have "\<bar>conv_acc ca m y x c\<bar> \<le> (\<Sum>i<conv_dot_len ca. 2 ^ 14)"
    unfolding conv_acc_def by (rule order_trans [OF sum_abs sum_mono]) (rule sint_prod_abs)
  then show ?thesis by simp
qed

lemma requant_conv:
  assumes "conv_arith ca m scales outscale" "c < conv_cho ca"
  shows "tm_requant (conv_acc ca m y x c) (conv_bias ca m c) (a_act ca) (scales ! c) outscale (a_out_zp ca) =
    Some (requant_ref (conv_acc ca m y x c) (conv_bias ca m c) (a_act ca) (scales ! c) outscale (a_out_zp ca))"
  unfolding requant_ref_def
proof (rule requant_defined)
  show "requant_safe (int (conv_dot_len ca) * 2 ^ 14 + \<bar>conv_bias ca m c\<bar>) (scales ! c) outscale (a_out_zp ca)"
    using assms by (simp add: conv_arith_def)
  show "\<bar>conv_acc ca m y x c + conv_bias ca m c\<bar> \<le> int (conv_dot_len ca) * 2 ^ 14 + \<bar>conv_bias ca m c\<bar>"
    using conv_acc_abs [of ca m y x c] by linarith
qed

lemma postprocess_conv:
  assumes "conv_operands ca m" "conv_arith ca m scales outscale" "conv_mid ca m m'" "c < conv_cho ca"
    and "ld8 m' outp \<noteq> None"
  shows "\<exists>m2. tm_postprocess_sum m' [conv_acc ca m y x c] (padd (a_b ca) (4 * int c)) (a_act ca) outp
      (drop c scales) outscale (a_out_zp ca) = Some m2 \<and>
    cm.agree_off {outp} m' m2 \<and> ld8 m2 outp = Some (conv_byte ca m scales outscale y x c)"
proof -
  have c: "drop c scales \<noteq> []" "hd (drop c scales) = scales ! c"
    using assms(2,4) by (auto simp: conv_arith_def hd_drop_conv_nth)
  obtain m2 where m2: "st8 m' outp (conv_byte ca m scales outscale y x c) = Some m2"
    using cm.st_defined [OF assms(5)] by blast
  then show ?thesis
    using c bias_loaded [OF assms(1,3,4)] requant_conv [OF assms(2,4)] cm.agree_off_st [OF m2] ld8_st8_same [OF m2]
    by (simp add: postprocess_single conv_byte_def)
qed

subsection \<open>The order of the output bytes\<close>

definition out_index :: "conv_args \<Rightarrow> nat \<Rightarrow> nat \<Rightarrow> nat \<Rightarrow> nat" where
  "out_index ca y x c = (y * m_w (a_out ca) + x) * conv_cho ca + c"

text \<open>The first \<open>n\<close> bytes of the output hold their final values.\<close>

definition out_done :: "conv_args \<Rightarrow> mem \<Rightarrow> int list \<Rightarrow> int \<Rightarrow> nat \<Rightarrow> mem \<Rightarrow> bool" where
  "out_done ca m scales outscale n m' \<longleftrightarrow>
     (\<forall>i<n. ld8 m' (padd (m_data (a_out ca)) (int i)) =
        Some (conv_byte ca m scales outscale (i div conv_cho ca div m_w (a_out ca))
          (i div conv_cho ca mod m_w (a_out ca)) (i mod conv_cho ca)))"

lemma out_index_decode:
  assumes "x < m_w (a_out ca)" "c < conv_cho ca"
  shows "out_index ca y x c mod conv_cho ca = c"
    and "out_index ca y x c div conv_cho ca div m_w (a_out ca) = y"
    and "out_index ca y x c div conv_cho ca mod m_w (a_out ca) = x"
  using assms by (simp_all add: out_index_def)

lemma index_bound: "(a :: nat) < n \<Longrightarrow> b < k \<Longrightarrow> a * k + b < n * k"
  by (metis add.commute add_less_le_mono mult_Suc mult_le_mono1 Suc_leI less_le_trans nat_add_left_cancel_less)

lemma out_index_bound:
  "y < m_h (a_out ca) \<Longrightarrow> x < m_w (a_out ca) \<Longrightarrow> c < conv_cho ca \<Longrightarrow> out_index ca y x c < mat_size (a_out ca)"
  unfolding out_index_def mat_size_def conv_cho_def by (intro index_bound)

lemma out_done_step:
  assumes dn: "out_done ca m scales outscale (out_index ca y x c) m1"
    and ag: "cm.agree_off {padd (m_data (a_out ca)) (int (out_index ca y x c))} m1 m2"
    and v: "ld8 m2 (padd (m_data (a_out ca)) (int (out_index ca y x c))) = Some (conv_byte ca m scales outscale y x c)"
    and x: "x < m_w (a_out ca)" "c < conv_cho ca"
  shows "out_done ca m scales outscale (out_index ca y x (Suc c)) m2"
  unfolding out_done_def
proof (intro allI impI)
  fix i assume "i < out_index ca y x (Suc c)"
  then consider "i = out_index ca y x c" | "i < out_index ca y x c" by (auto simp: out_index_def less_Suc_eq)
  then show "ld8 m2 (padd (m_data (a_out ca)) (int i)) =
        Some (conv_byte ca m scales outscale (i div conv_cho ca div m_w (a_out ca))
          (i div conv_cho ca mod m_w (a_out ca)) (i mod conv_cho ca))"
  proof cases
    case 1
    with v show ?thesis by (simp add: out_index_decode [OF x])
  next
    case 2
    then have "ld8 m2 (padd (m_data (a_out ca)) (int i)) = ld8 m1 (padd (m_data (a_out ca)) (int i))"
      by (intro agree_off_ld8 [OF ag]) simp
    with dn 2 show ?thesis by (simp add: out_done_def)
  qed
qed

text \<open>Filling the scratch array keeps the output.\<close>

lemma out_done_sbuf:
  assumes "out_done ca m scales outscale n m1" "cm.agree_off sbuf_cells m1 m2" "conv_operands ca m"
  shows "out_done ca m scales outscale n m2"
proof -
  have "padd (m_data (a_out ca)) k \<notin> sbuf_cells" for k
    using assms(3) by (simp add: sbuf_cells_def conv_operands_def)
  then have "ld8 m2 (padd (m_data (a_out ca)) k) = ld8 m1 (padd (m_data (a_out ca)) k)" for k
    by (intro agree_off_ld8 [OF assms(2)])
  with assms(1) show ?thesis by (simp add: out_done_def)
qed

text \<open>The invariant of the loops over positions and channels.\<close>

definition out_inv :: "conv_args \<Rightarrow> mem \<Rightarrow> int list \<Rightarrow> int \<Rightarrow> nat \<Rightarrow> ptr \<Rightarrow> mem \<Rightarrow> bool" where
  "out_inv ca m scales outscale n outp m' \<longleftrightarrow>
     outp = padd (m_data (a_out ca)) (int n) \<and> conv_mid ca m m' \<and> out_done ca m scales outscale n m'"

lemma out_inv_postprocess:
  assumes "conv_operands ca m" "conv_arith ca m scales outscale"
    and "out_inv ca m scales outscale (out_index ca y x c) outp m'"
    and "y < m_h (a_out ca)" "x < m_w (a_out ca)" "c < conv_cho ca"
  shows "\<exists>m2. tm_postprocess_sum m' [conv_acc ca m y x c] (padd (a_b ca) (4 * int c)) (a_act ca) outp
      (drop c scales) outscale (a_out_zp ca) = Some m2 \<and>
    cm.agree_off (out_cells ca) m' m2 \<and>
    out_inv ca m scales outscale (out_index ca y x (Suc c)) (padd outp 1) m2"
proof -
  let ?p = "padd (m_data (a_out ca)) (int (out_index ca y x c))"
  have outp: "outp = ?p" and mid: "conv_mid ca m m'"
    and dn: "out_done ca m scales outscale (out_index ca y x c) m'"
    using assms(3) by (auto simp: out_inv_def)
  have cell: "?p \<in> out_cells ca" using out_index_bound [OF assms(4-6)] by (simp add: out_cells_def)
  have "in_object m' (m_data (a_out ca)) (mat_size (a_out ca))"
    using assms(1) mid in_object_agree by (auto simp: conv_operands_def conv_mid_def)
  then have def: "ld8 m' ?p \<noteq> None" using cell in_object_cells unfolding out_cells_def by blast
  obtain m2 where m2: "tm_postprocess_sum m' [conv_acc ca m y x c] (padd (a_b ca) (4 * int c)) (a_act ca) ?p
      (drop c scales) outscale (a_out_zp ca) = Some m2"
    and ag: "cm.agree_off {?p} m' m2" and v: "ld8 m2 ?p = Some (conv_byte ca m scales outscale y x c)"
    using postprocess_conv [OF assms(1,2) mid assms(6) def] by blast
  have ag': "cm.agree_off (out_cells ca) m' m2" using ag by (rule cm.agree_off_mono) (simp add: cell)
  moreover have "out_inv ca m scales outscale (out_index ca y x (Suc c)) (padd outp 1) m2"
    using out_done_step [OF dn ag v assms(5,6)] conv_mid_trans [OF mid ag']
    by (auto simp: out_inv_def outp out_index_def)
  ultimately show ?thesis using m2 outp by blast
qed

subsection \<open>The path with a window\<close>

lemma dot_len_window:
  assumes "i < conv_dot_len ca" "c < conv_cho ca"
  shows "conv_win0 ca c + i div conv_maxk ca < conv_windows ca" and "i mod conv_maxk ca < conv_maxk ca"
    and "conv_win0 ca c * conv_maxk ca + i = (conv_win0 ca c + i div conv_maxk ca) * conv_maxk ca + i mod conv_maxk ca"
proof -
  have pos: "0 < conv_maxk ca" using assms(1) by (cases "conv_maxk ca") (auto simp: conv_dot_len_def)
  then have "i div conv_maxk ca < conv_chi ca"
    using assms(1) by (simp add: conv_dot_len_def div_less_iff_less_mult mult.commute)
  then show "conv_win0 ca c + i div conv_maxk ca < conv_windows ca"
    using assms(2) by (auto simp: conv_windows_def conv_win0_def conv_chi_def split: if_splits)
  show "i mod conv_maxk ca < conv_maxk ca" using pos by simp
  show "conv_win0 ca c * conv_maxk ca + i = (conv_win0 ca c + i div conv_maxk ca) * conv_maxk ca + i mod conv_maxk ca"
    by (simp add: algebra_simps)
qed

lemma window_value:
  assumes "\<forall>win<conv_windows ca. window_filled ca m y x win m'" "i < conv_dot_len ca" "c < conv_cho ca"
  shows "ld8 m' (padd (R_SBUF, int (conv_win0 ca c * conv_maxk ca)) (int i)) =
    Some (tap_byte ca m y x (conv_win0 ca c + i div conv_maxk ca) (i mod conv_maxk ca))"
proof -
  have "padd (R_SBUF, int (conv_win0 ca c * conv_maxk ca)) (int i) =
      (R_SBUF, int ((conv_win0 ca c + i div conv_maxk ca) * conv_maxk ca + i mod conv_maxk ca))"
    using dot_len_window(3) [OF assms(2,3)] by (simp add: padd_def del: of_nat_mult of_nat_add flip: of_nat_add)
  then show ?thesis
    using assms(1) dot_len_window(1,2) [OF assms(2,3)] by (simp add: window_filled_def del: of_nat_mult of_nat_add)
qed

lemma dot_len_sbuf:
  assumes "window_wf ca m" "conv_mid ca m m'" "c < conv_cho ca"
  shows "in_object m' (R_SBUF, int (conv_win0 ca c * conv_maxk ca)) (conv_dot_len ca)"
proof -
  have "conv_win0 ca c * conv_maxk ca + conv_dot_len ca \<le> conv_windows ca * conv_maxk ca"
    using assms(3) mult_le_mono1 [of "Suc c" "conv_cho ca" "conv_maxk ca"]
    by (auto simp: conv_win0_def conv_windows_def conv_dot_len_def conv_chi_def mult.commute)
  also have "\<dots> \<le> length (m' R_SBUF)"
    using assms(1,2) agree_off_length by (simp add: window_wf_def conv_mid_def)
  finally show ?thesis by (simp add: in_object_def flip: of_nat_mult of_nat_add)
qed

lemma weights_block:
  assumes "conv_operands ca m" "conv_mid ca m m'" "c < conv_cho ca"
  shows "in_object m' (padd (a_w ca) (int (c * conv_dot_len ca))) (conv_dot_len ca)"
    and "i < conv_dot_len ca \<Longrightarrow>
      ld8 m' (padd (a_w ca) (int (c * conv_dot_len ca + i))) = ld8 m (padd (a_w ca) (int (c * conv_dot_len ca + i)))"
proof -
  have op: "operand_ok ca m (a_w ca) (conv_cho ca * conv_dot_len ca)"
    using assms(1) by (simp add: conv_operands_def)
  show "in_object m' (padd (a_w ca) (int (c * conv_dot_len ca))) (conv_dot_len ca)"
    using assms(3) mult_le_mono1 [of "Suc c" "conv_cho ca" "conv_dot_len ca"]
    by (intro in_object_sub [OF operand_in_object [OF op assms(2)]]) simp
  show "ld8 m' (padd (a_w ca) (int (c * conv_dot_len ca + i))) = ld8 m (padd (a_w ca) (int (c * conv_dot_len ca + i)))"
    if "i < conv_dot_len ca"
    using operand_cell [OF op assms(2) index_bound [OF assms(3) that]] .
qed

lemma kernel_dot_ref:
  assumes "conv_dot_len ca < 2 ^ 17" "in_object m sptr (conv_dot_len ca)" "in_object m kptr (conv_dot_len ca)"
  shows "conv_kernel ca m sptr kptr = Some (dot_ref m sptr kptr (conv_dot_len ca))"
  using assms dp.kern_ok [OF assms] dp3.kern_ok [of "conv_dot_len ca" m sptr kptr]
  by (auto simp: conv_kernel_def simp flip: conv_dot_len_def)

lemma kernel_conv_acc:
  assumes "window_wf ca m" "conv_operands ca m" "conv_dot_len ca < 2 ^ 17" "conv_mid ca m m'" "c < conv_cho ca"
    and fl: "\<forall>win<conv_windows ca. window_filled ca m y x win m'"
  shows "conv_kernel ca m' (R_SBUF, int (conv_win0 ca c * conv_maxk ca))
      (padd (a_w ca) (int (c * conv_chi ca * conv_maxk ca))) = Some (conv_acc ca m y x c)"
proof -
  have k: "c * conv_chi ca * conv_maxk ca = c * conv_dot_len ca" by (simp add: conv_dot_len_def mult_ac)
  have "dot_ref m' (R_SBUF, int (conv_win0 ca c * conv_maxk ca)) (padd (a_w ca) (int (c * conv_dot_len ca)))
      (conv_dot_len ca) = conv_acc ca m y x c"
    unfolding dot_ref_def conv_acc_def
    using window_value [OF fl _ assms(5)] weights_block(2) [OF assms(2,4,5)]
    by (intro sum.cong) simp_all
  then show ?thesis
    unfolding k
    using kernel_dot_ref [OF assms(3) dot_len_sbuf [OF assms(1,4,5)] weights_block(1) [OF assms(2,4,5)]]
    by simp
qed

text \<open>The channels of one output position.\<close>

lemma conv_channels_ok:
  assumes wf: "window_wf ca m" "conv_operands ca m" "conv_arith ca m scales outscale"
    and yx: "y < m_h (a_out ca)" "x < m_w (a_out ca)"
    and inv: "out_inv ca m scales outscale (out_index ca y x 0) outp m1"
    and fl: "\<forall>win<conv_windows ca. window_filled ca m y x win m1"
  shows "\<exists>sptr outp' m2. for_upto (conv_cho ca) (conv_channel ca scales outscale) ((R_SBUF, 0), outp, m1) =
      Some (sptr, outp', m2) \<and> out_inv ca m scales outscale (out_index ca y x (conv_cho ca)) outp' m2"
proof -
  let ?P = "\<lambda>c (sptr, outp, m'). sptr = (R_SBUF, int (conv_win0 ca c * conv_maxk ca)) \<and>
    out_inv ca m scales outscale (out_index ca y x c) outp m' \<and>
    (\<forall>win<conv_windows ca. window_filled ca m y x win m')"
  have "\<exists>st. for_upto (conv_cho ca) (conv_channel ca scales outscale) ((R_SBUF, 0), outp, m1) = Some st \<and>
      ?P (conv_cho ca) st"
  proof (rule for_upto_inv [where P = ?P])
    show "?P 0 ((R_SBUF, 0), outp, m1)" using inv fl by (simp add: conv_win0_def)
  next
    fix c st
    assume c: "c < conv_cho ca" and P: "?P c st"
    obtain outp' m' where st: "st = ((R_SBUF, int (conv_win0 ca c * conv_maxk ca)), outp', m')"
      and inv': "out_inv ca m scales outscale (out_index ca y x c) outp' m'"
      and fl': "\<forall>win<conv_windows ca. window_filled ca m y x win m'"
      using P by (cases st) auto
    obtain m2 where m2: "tm_postprocess_sum m' [conv_acc ca m y x c] (padd (a_b ca) (4 * int c)) (a_act ca) outp'
        (drop c scales) outscale (a_out_zp ca) = Some m2"
      and ag: "cm.agree_off (out_cells ca) m' m2"
      and inv2: "out_inv ca m scales outscale (out_index ca y x (Suc c)) (padd outp' 1) m2"
      using out_inv_postprocess [OF wf(2,3) inv' yx c] by blast
    have "(R_SBUF, k) \<notin> out_cells ca" for k
      using wf(2) by (auto simp: out_cells_def in_cells conv_operands_def)
    then have "ld8 m2 (R_SBUF, k) = ld8 m' (R_SBUF, k)" for k by (rule agree_off_ld8 [OF ag])
    then have fl2: "\<forall>win<conv_windows ca. window_filled ca m y x win m2"
      using fl' by (simp add: window_filled_def)
    have kern: "conv_kernel ca m' (R_SBUF, int (conv_win0 ca c * conv_maxk ca))
        (padd (a_w ca) (int (c * conv_chi ca * conv_maxk ca))) = Some (conv_acc ca m y x c)"
      using wf(3) inv' by (intro kernel_conv_acc wf c fl') (auto simp: conv_arith_def out_inv_def)
    have nxt: "(if a_dmul ca \<noteq> 0 then padd (R_SBUF, int (conv_win0 ca c * conv_maxk ca)) (int (conv_maxk ca))
        else (R_SBUF, int (conv_win0 ca c * conv_maxk ca))) = (R_SBUF, int (conv_win0 ca (Suc c) * conv_maxk ca))"
      by (simp add: conv_win0_def padd_def algebra_simps)
    have "conv_channel ca scales outscale c st =
        Some ((R_SBUF, int (conv_win0 ca (Suc c) * conv_maxk ca)), padd outp' 1, m2)"
      unfolding st conv_channel_def prod.case Let_def kern Option.bind.bind_lunit m2 nxt ..
    then show "\<exists>st'. conv_channel ca scales outscale c st = Some st' \<and> ?P (Suc c) st'"
      using inv2 fl2 by simp
  qed
  then show ?thesis by auto
qed

text \<open>The output loops never change what the taps read.\<close>

lemma window_wf_mid: "window_wf ca m \<Longrightarrow> conv_mid ca m m' \<Longrightarrow> window_wf ca m'"
  by (simp add: window_wf_def conv_mid_def in_object_agree agree_off_length)

lemma tap_byte_mid:
  assumes "conv_operands ca m" "conv_mid ca m m'" "src_ch ca win < m_c (a_in ca)"
  shows "tap_byte ca m' y x win k = tap_byte ca m y x win k"
proof -
  have op: "operand_ok ca m (m_data (a_in ca)) (mat_size (a_in ca))"
    using assms(1) by (simp add: conv_operands_def)
  have "ld8 m' p = ld8 m p" if "p \<in> cells (m_data (a_in ca)) (mat_size (a_in ca))" for p
    using that operand_cell [OF op assms(2)] by (auto simp: cells_def)
  then show ?thesis using matp_in_cells [OF _ assms(3)] by (simp add: tap_byte_def)
qed

lemma conv_pixel_ok:
  assumes wf: "window_wf ca m" "conv_operands ca m" "conv_arith ca m scales outscale"
    and yx: "y < m_h (a_out ca)" "x < m_w (a_out ca)"
    and inv: "out_inv ca m scales outscale (out_index ca y x 0) outp m1"
  shows "\<exists>outp' m2. conv_pixel ca (conv_k_oft ca) scales outscale y x (outp, m1) = Some (outp', m2) \<and>
      out_inv ca m scales outscale (out_index ca y x (conv_cho ca)) outp' m2"
proof -
  have mid: "conv_mid ca m m1" using inv by (simp add: out_inv_def)
  obtain m' where m': "(if \<not> slow_flag ca y x
      then fill_fast ca (conv_k_oft ca) (tm_matp (a_in ca) (src_y0 ca y) (src_x0 ca x) 0) m1
      else fill_slow ca (conv_k_oft ca) (src_y0 ca y) (src_x0 ca x)
        (tm_matp (a_in ca) (src_y0 ca y) (src_x0 ca x) 0) m1) = Some m'"
    and ag: "cm.agree_off sbuf_cells m1 m'" and fl: "\<forall>win<conv_windows ca. window_filled ca m1 y x win m'"
    using fill_ok [OF window_wf_mid [OF wf(1) mid], of y x] by blast
  have "src_ch ca win < m_c (a_in ca)" if "win < conv_windows ca" for win
    using wf(1) that by (simp add: window_wf_def)
  then have fl': "\<forall>win<conv_windows ca. window_filled ca m y x win m'"
    using fl tap_byte_mid [OF wf(2) mid] by (simp add: window_filled_def)
  have inv': "out_inv ca m scales outscale (out_index ca y x 0) outp m'"
    using inv out_done_sbuf [OF _ ag wf(2)] conv_mid_trans [OF mid ag] by (auto simp: out_inv_def)
  show ?thesis
    using conv_channels_ok [OF wf yx inv' fl'] m' by (auto simp: conv_pixel_def Let_def)
qed

subsection \<open>The loops over the output positions\<close>

lemma for_pixels_ok:
  assumes step: "\<And>y x outp m1. y < m_h (a_out ca) \<Longrightarrow> x < m_w (a_out ca) \<Longrightarrow>
      out_inv ca m scales outscale (out_index ca y x 0) outp m1 \<Longrightarrow>
      \<exists>outp' m2. f y x (outp, m1) = Some (outp', m2) \<and>
        out_inv ca m scales outscale (out_index ca y x (conv_cho ca)) outp' m2"
  shows "\<exists>outp' m2. for_pixels (a_out ca) f (m_data (a_out ca), m) = Some (outp', m2) \<and>
    out_inv ca m scales outscale (mat_size (a_out ca)) outp' m2"
proof -
  let ?P = "\<lambda>n (outp, m'). out_inv ca m scales outscale n outp m'"
  have "\<exists>st. for_upto (m_h (a_out ca)) (\<lambda>y. for_upto (m_w (a_out ca)) (f y)) (m_data (a_out ca), m) = Some st \<and>
      ?P (out_index ca (m_h (a_out ca)) 0 0) st"
  proof (rule for_upto_inv [where P = "\<lambda>y. ?P (out_index ca y 0 0)"])
    show "?P (out_index ca 0 0 0) (m_data (a_out ca), m)"
      by (simp add: out_inv_def out_index_def conv_mid_refl out_done_def)
  next
    fix y st
    assume y: "y < m_h (a_out ca)" and P: "?P (out_index ca y 0 0) st"
    have "\<exists>st'. for_upto (m_w (a_out ca)) (f y) st = Some st' \<and> ?P (out_index ca y (m_w (a_out ca)) 0) st'"
    proof (rule for_upto_inv [where P = "\<lambda>x. ?P (out_index ca y x 0)"])
      fix x t
      assume "x < m_w (a_out ca)" "?P (out_index ca y x 0) t"
      moreover have "out_index ca y x (conv_cho ca) = out_index ca y (Suc x) 0" by (simp add: out_index_def)
      ultimately show "\<exists>t'. f y x t = Some t' \<and> ?P (out_index ca y (Suc x) 0) t'"
        using step [OF y, of x "fst t" "snd t"] by (cases t) fastforce
    qed (use P in simp)
    then show "\<exists>st'. for_upto (m_w (a_out ca)) (f y) st = Some st' \<and> ?P (out_index ca (Suc y) 0 0) st'"
      by (simp add: out_index_def algebra_simps)
  qed
  moreover have "out_index ca (m_h (a_out ca)) 0 0 = mat_size (a_out ca)"
    by (simp add: out_index_def mat_size_def conv_cho_def)
  ultimately show ?thesis by (auto simp: for_pixels_def)
qed

subsection \<open>The pointwise path\<close>

definition pointwise_wf :: "conv_args \<Rightarrow> bool" where
  "pointwise_wf ca \<longleftrightarrow>
     a_kw ca = 1 \<and> a_kh ca = 1 \<and> a_dmul ca = 0 \<and> a_pad_top ca = 0 \<and> a_pad_bottom ca = 0 \<and>
     a_pad_left ca = 0 \<and> a_pad_right ca = 0 \<and>
     (\<forall>y<m_h (a_out ca). a_sy ca * y < m_h (a_in ca)) \<and>
     (\<forall>x<m_w (a_out ca). a_sx ca * x < m_w (a_in ca))"

abbreviation pw_sptr :: "conv_args \<Rightarrow> nat \<Rightarrow> nat \<Rightarrow> ptr" where
  "pw_sptr ca y x \<equiv> tm_matp (a_in ca) (int (a_sy ca * y)) (int (a_sx ca * x)) 0"

lemma pw_dims: "pointwise_wf ca \<Longrightarrow> conv_maxk ca = 1 \<and> conv_chi ca = m_c (a_in ca) \<and> conv_dot_len ca = m_c (a_in ca)"
  by (simp add: pointwise_wf_def conv_maxk_def conv_chi_def conv_dot_len_def)

lemma pw_tap_ptr: "padd (pw_sptr ca y x) (int i) = tm_matp (a_in ca) (int (a_sy ca * y)) (int (a_sx ca * x)) (int i)"
  by (simp add: tm_matp_def)

lemma pw_block:
  assumes pw: "pointwise_wf ca" and ops: "conv_operands ca m" and yx: "y < m_h (a_out ca)" "x < m_w (a_out ca)"
    and mid: "conv_mid ca m m'" and i: "i < m_c (a_in ca)"
  shows "ld8 m' (padd (pw_sptr ca y x) (int i)) = Some (tap_byte ca m y x i 0)"
proof -
  have img: "in_image (a_in ca) (int (a_sy ca * y)) (int (a_sx ca * x))"
    using pw yx by (simp add: in_image_def pointwise_wf_def flip: of_nat_mult)
  have cell: "padd (pw_sptr ca y x) (int i) \<in> cells (m_data (a_in ca)) (mat_size (a_in ca))"
    unfolding pw_tap_ptr by (rule matp_in_cells [OF img i])
  have op: "operand_ok ca m (m_data (a_in ca)) (mat_size (a_in ca))"
    using ops by (simp add: conv_operands_def)
  have "ld8 m' p = ld8 m p" if "p \<in> cells (m_data (a_in ca)) (mat_size (a_in ca))" for p
    using that operand_cell [OF op mid] by (auto simp: cells_def)
  moreover have "ld8 m (padd (pw_sptr ca y x) (int i)) \<noteq> None"
    using op cell in_object_cells unfolding operand_ok_def by blast
  moreover have "tap_y ca y 0 = int (a_sy ca * y)" "tap_x ca x 0 = int (a_sx ca * x)" "src_ch ca i = i"
    using pw by (simp_all add: tap_y_def tap_x_def src_y0_def src_x0_def src_ch_def pointwise_wf_def)
  ultimately show ?thesis
    using img cell by (simp add: tap_byte_def pw_tap_ptr del: of_nat_mult)
qed

lemma pw_source:
  assumes "pointwise_wf ca" "conv_operands ca m" "y < m_h (a_out ca)" "x < m_w (a_out ca)" "conv_mid ca m m'"
  shows "in_object m' (pw_sptr ca y x) (m_c (a_in ca))"
proof (cases "m_c (a_in ca)")
  case 0
  have "in_object m' (m_data (a_in ca)) (mat_size (a_in ca))"
    using assms(2) operand_in_object [OF _ assms(5)] by (simp add: conv_operands_def)
  with 0 show ?thesis by (simp add: tm_matp_def in_object_def)
next
  case (Suc n)
  then have "ld8 m' (padd (pw_sptr ca y x) (int 0)) \<noteq> None" "ld8 m' (padd (pw_sptr ca y x) (int n)) \<noteq> None"
    using pw_block [OF assms, of 0] pw_block [OF assms, of n] by simp_all
  then show ?thesis by (auto simp: in_object_def ld8_def Suc split: if_splits)
qed

lemma pw_dot:
  assumes "pointwise_wf ca" "conv_operands ca m" "y < m_h (a_out ca)" "x < m_w (a_out ca)" "conv_mid ca m m'"
    and c: "c < conv_cho ca"
  shows "dot_ref m' (pw_sptr ca y x) (padd (a_w ca) (int (c * m_c (a_in ca)))) (m_c (a_in ca)) = conv_acc ca m y x c"
  unfolding dot_ref_def conv_acc_def
  using pw_block [OF assms(1-5)] weights_block(2) [OF assms(2,5,6)] pw_dims [OF assms(1)] assms(1)
  by (intro sum.cong) (simp_all add: conv_win0_def pointwise_wf_def)

lemma postprocess_pair:
  "tm_postprocess_sum m [a0, a1] bs act outp scales out_s out_zp =
     do { m \<leftarrow> tm_postprocess_sum m [a0] bs act outp scales out_s out_zp;
          tm_postprocess_sum m [a1] (padd bs 4) act (padd outp 1) (drop 1 scales) out_s out_zp }"
  by (cases scales)
     (simp_all add: tm_postprocess_sum_def for_upto_Suc numeral_2_eq_2 Option.bind_assoc)

text \<open>The pairs, then the odd channel; both advance the weight pointer by whole kernels.\<close>

definition pw_inv :: "conv_args \<Rightarrow> mem \<Rightarrow> int list \<Rightarrow> int \<Rightarrow> nat \<Rightarrow> nat \<Rightarrow> nat \<Rightarrow> ptr \<Rightarrow> ptr \<Rightarrow> mem \<Rightarrow> bool" where
  "pw_inv ca m scales outscale y x c kptr outp m' \<longleftrightarrow>
     kptr = padd (a_w ca) (int (c * m_c (a_in ca))) \<and> c \<le> conv_cho ca \<and>
     out_inv ca m scales outscale (out_index ca y x c) outp m'"

lemma pw_pairs_ok:
  assumes wf: "pointwise_wf ca" "conv_operands ca m" "conv_arith ca m scales outscale"
    and yx: "y < m_h (a_out ca)" "x < m_w (a_out ca)"
  shows "pw_inv ca m scales outscale y x c kptr outp m' \<Longrightarrow>
    \<exists>c' kptr' outp' m2. pw_pairs ca scales outscale (pw_sptr ca y x) c kptr outp m' = Some (c', kptr', outp', m2) \<and>
      pw_inv ca m scales outscale y x c' kptr' outp' m2"
proof (induction "conv_cho ca - c" arbitrary: c kptr outp m' rule: less_induct)
  case less
  let ?n = "m_c (a_in ca)" and ?s = "pw_sptr ca y x"
  show ?case
  proof (cases "int c < int (conv_cho ca) - 2 + 1")
    case False
    with less.prems show ?thesis by (subst pw_pairs.simps) simp
  next
    case True
    then have c: "c < conv_cho ca" "Suc c < conv_cho ca" by linarith+
    have kptr: "kptr = padd (a_w ca) (int (c * ?n))" and inv: "out_inv ca m scales outscale (out_index ca y x c) outp m'"
      using less.prems by (auto simp: pw_inv_def)
    then have mid: "conv_mid ca m m'" by (simp add: out_inv_def)
    have n: "conv_dot_len ca = ?n" using pw_dims [OF wf(1)] by simp
    have "operand_ok ca m (a_w ca) (conv_cho ca * ?n)" using wf(2) n by (simp add: conv_operands_def)
    from operand_in_object [OF this mid] have k2: "in_object m' kptr (2 * ?n)"
      unfolding kptr using c mult_le_mono1 [of "Suc (Suc c)" "conv_cho ca" ?n] by (intro in_object_sub) auto
    have kptr1: "padd kptr (int ?n) = padd (a_w ca) (int (Suc c * ?n))" by (simp add: kptr algebra_simps)
    have n17: "?n < 2 ^ 17" using wf(3) n by (simp add: conv_arith_def)
    have dots: "tm_dot_prod_pack2 m' ?s kptr ?n = Some (conv_acc ca m y x c, conv_acc ca m y x (Suc c))"
      using tm_dot_prod_pack2_ok [OF n17 pw_source [OF wf(1,2) yx mid] k2]
      unfolding kptr1 pw_dot [OF wf(1,2) yx mid c(2)] unfolding kptr pw_dot [OF wf(1,2) yx mid c(1)] .
    obtain m1 where m1: "tm_postprocess_sum m' [conv_acc ca m y x c] (padd (a_b ca) (4 * int c)) (a_act ca) outp
        (drop c scales) outscale (a_out_zp ca) = Some m1"
      and inv1: "out_inv ca m scales outscale (out_index ca y x (Suc c)) (padd outp 1) m1"
      using out_inv_postprocess [OF wf(2,3) inv yx c(1)] by blast
    obtain m2 where m2: "tm_postprocess_sum m1 [conv_acc ca m y x (Suc c)] (padd (a_b ca) (4 * int (Suc c))) (a_act ca)
        (padd outp 1) (drop (Suc c) scales) outscale (a_out_zp ca) = Some m2"
      and inv2: "out_inv ca m scales outscale (out_index ca y x (Suc (Suc c))) (padd (padd outp 1) 1) m2"
      using out_inv_postprocess [OF wf(2,3) inv1 yx c(2)] by blast
    have pair: "tm_postprocess_sum m' [conv_acc ca m y x c, conv_acc ca m y x (Suc c)] (padd (a_b ca) (4 * int c)) (a_act ca)
        outp (drop c scales) outscale (a_out_zp ca) = Some m2"
      using m1 m2 by (simp add: postprocess_pair algebra_simps)
    have "pw_inv ca m scales outscale y x (c + 2) (padd kptr (int (?n * 2))) (padd outp 2) m2"
      using inv2 c by (simp add: pw_inv_def kptr algebra_simps)
    moreover have "conv_cho ca - (c + 2) < conv_cho ca - c" using c by linarith
    ultimately have "\<exists>c' kptr' outp' m3. pw_pairs ca scales outscale ?s (c + 2) (padd kptr (int (?n * 2))) (padd outp 2) m2 =
        Some (c', kptr', outp', m3) \<and> pw_inv ca m scales outscale y x c' kptr' outp' m3"
      by (intro less.hyps)
    moreover have "pw_pairs ca scales outscale ?s c kptr outp m' =
        pw_pairs ca scales outscale ?s (c + 2) (padd kptr (int (?n * 2))) (padd outp 2) m2"
      using True by (subst pw_pairs.simps) (simp only: if_True dots pair Option.bind.bind_lunit prod.case)
    ultimately show ?thesis by simp
  qed
qed

lemma pw_single_ok:
  assumes wf: "pointwise_wf ca" "conv_operands ca m" "conv_arith ca m scales outscale"
    and yx: "y < m_h (a_out ca)" "x < m_w (a_out ca)" and c: "c < conv_cho ca"
    and inv: "pw_inv ca m scales outscale y x c kptr outp m'"
  shows "\<exists>kptr' outp' m2. pw_single ca scales outscale (pw_sptr ca y x) c (kptr, outp, m') = Some (kptr', outp', m2) \<and>
    pw_inv ca m scales outscale y x (Suc c) kptr' outp' m2"
proof -
  let ?n = "m_c (a_in ca)"
  have kptr: "kptr = padd (a_w ca) (int (c * ?n))" and oi: "out_inv ca m scales outscale (out_index ca y x c) outp m'"
    using inv by (auto simp: pw_inv_def)
  then have mid: "conv_mid ca m m'" by (simp add: out_inv_def)
  have n: "conv_dot_len ca = ?n" using pw_dims [OF wf(1)] by simp
  have n17: "?n < 2 ^ 17" using wf(3) n by (simp add: conv_arith_def)
  have "tm_dot_prod m' (pw_sptr ca y x) kptr ?n = Some (conv_acc ca m y x c)"
    using dp.kern_ok [OF n17 pw_source [OF wf(1,2) yx mid] weights_block(1) [OF wf(2) mid c, unfolded n]]
    unfolding kptr pw_dot [OF wf(1,2) yx mid c] .
  moreover obtain m2 where "tm_postprocess_sum m' [conv_acc ca m y x c] (padd (a_b ca) (4 * int c)) (a_act ca) outp
      (drop c scales) outscale (a_out_zp ca) = Some m2"
    and "out_inv ca m scales outscale (out_index ca y x (Suc c)) (padd outp 1) m2"
    using out_inv_postprocess [OF wf(2,3) oi yx c] by blast
  ultimately show ?thesis using c by (simp add: pw_single_def pw_inv_def kptr algebra_simps)
qed

lemma pw_pixel_ok:
  assumes wf: "pointwise_wf ca" "conv_operands ca m" "conv_arith ca m scales outscale"
    and yx: "y < m_h (a_out ca)" "x < m_w (a_out ca)"
    and inv: "out_inv ca m scales outscale (out_index ca y x 0) outp m1"
  shows "\<exists>outp' m2. pw_pixel ca scales outscale y x (outp, m1) = Some (outp', m2) \<and>
      out_inv ca m scales outscale (out_index ca y x (conv_cho ca)) outp' m2"
proof -
  let ?P = "\<lambda>c (kptr, outp, m'). pw_inv ca m scales outscale y x c kptr outp m'"
  have "pw_inv ca m scales outscale y x 0 (a_w ca) outp m1" using inv by (simp add: pw_inv_def)
  from pw_pairs_ok [OF wf yx this]
  obtain c kptr outp1 m' where pairs: "pw_pairs ca scales outscale (pw_sptr ca y x) 0 (a_w ca) outp m1 =
      Some (c, kptr, outp1, m')" and P: "pw_inv ca m scales outscale y x c kptr outp1 m'"
    by blast
  have "\<exists>st. foldM (pw_single ca scales outscale (pw_sptr ca y x)) [c..<conv_cho ca] (kptr, outp1, m') = Some st \<and>
      ?P (conv_cho ca) st"
  proof (rule foldM_upt_inv [where P = ?P])
    show "?P c (kptr, outp1, m')" using P by simp
    show "c \<le> conv_cho ca" using P by (simp add: pw_inv_def)
    show "\<exists>t'. pw_single ca scales outscale (pw_sptr ca y x) j t = Some t' \<and> ?P (Suc j) t'"
      if "j < conv_cho ca" "?P j t" for j t
    proof -
      obtain kp op mm where t: "t = (kp, op, mm)" by (cases t)
      with that(2) have "pw_inv ca m scales outscale y x j kp op mm" by simp
      from pw_single_ok [OF wf yx that(1) this] show ?thesis unfolding t by fast
    qed
  qed
  then show ?thesis
    using pairs by (auto simp: pw_pixel_def Let_def pw_inv_def)
qed

subsection \<open>The layer\<close>

text \<open>The conditions under which the layer runs, all of them computable.\<close>

definition conv_ready :: "conv_args \<Rightarrow> mem \<Rightarrow> int list \<Rightarrow> int \<Rightarrow> bool" where
  "conv_ready ca m scales outscale \<longleftrightarrow>
     a_dx ca = 1 \<and> a_dy ca = 1 \<and> a_act ca < TM_ACT_MAXCNT \<and> conv_maxk ca \<le> TM_MAX_KSIZE \<and>
     conv_outscale (a_out_s ca) = Some outscale \<and>
     conv_sumscale m (a_ws ca) (a_in_s ca) (conv_cho ca) = Some scales \<and>
     conv_operands ca m \<and> conv_arith ca m scales outscale \<and>
     (if conv_maxk ca = 1 then pointwise_wf ca else window_wf ca m)"

lemma conv_layer_loops:
  assumes "conv_ready ca m scales outscale"
  shows "\<exists>outp m'. tml_conv2d_dwconv2d ca m = Some (TM_OK, m') \<and>
    out_inv ca m scales outscale (mat_size (a_out ca)) outp m'"
proof (cases "conv_maxk ca = 1")
  case True
  then have pw: "pointwise_wf ca" "conv_operands ca m" "conv_arith ca m scales outscale"
    using assms by (auto simp: conv_ready_def)
  obtain outp m' where "for_pixels (a_out ca) (pw_pixel ca scales outscale) (m_data (a_out ca), m) = Some (outp, m')"
    and inv: "out_inv ca m scales outscale (mat_size (a_out ca)) outp m'"
    using for_pixels_ok [of ca m scales outscale "pw_pixel ca scales outscale"] pw_pixel_ok [OF pw] by blast
  then have "tml_conv2d_dwconv2d ca m = Some (TM_OK, m')"
    using True assms pw(1) unfolding tml_conv2d_dwconv2d_def
    by (simp add: conv_ready_def pointwise_wf_def TM_MAX_KSIZE_def)
  with inv show ?thesis by blast
next
  case False
  then have win: "window_wf ca m" "conv_operands ca m" "conv_arith ca m scales outscale"
    using assms by (auto simp: conv_ready_def)
  obtain outp m' where "for_pixels (a_out ca) (conv_pixel ca (conv_k_oft ca) scales outscale)
      (m_data (a_out ca), m) = Some (outp, m')"
    and inv: "out_inv ca m scales outscale (mat_size (a_out ca)) outp m'"
    using for_pixels_ok [of ca m scales outscale "conv_pixel ca (conv_k_oft ca) scales outscale"]
      conv_pixel_ok [OF win] by blast
  then have "tml_conv2d_dwconv2d ca m = Some (TM_OK, m')"
    using False assms unfolding tml_conv2d_dwconv2d_def
    by (simp add: conv_ready_def Let_def)
  with inv show ?thesis by blast
qed

lemma out_inv_byte:
  assumes "out_inv ca m scales outscale (mat_size (a_out ca)) outp m'"
    and "y < m_h (a_out ca)" "x < m_w (a_out ca)" "c < m_c (a_out ca)"
  shows "ld8 m' (tm_matp (a_out ca) (int y) (int x) (int c)) = Some (conv_byte ca m scales outscale y x c)"
proof -
  have c: "c < conv_cho ca" using assms(4) by (simp add: conv_cho_def)
  have "tm_matp (a_out ca) (int y) (int x) (int c) = padd (m_data (a_out ca)) (int (out_index ca y x c))"
    by (simp add: tm_matp_def out_index_def conv_cho_def)
  then show ?thesis
    using assms(1) out_index_bound [OF assms(2,3) c] out_index_decode [OF assms(3) c]
    by (simp add: out_inv_def out_done_def)
qed

lemma conv_layer_correct:
  assumes "conv_ready ca m scales outscale"
  shows "\<exists>m'. tml_conv2d_dwconv2d ca m = Some (TM_OK, m') \<and>
    cm.agree_off (out_cells ca \<union> sbuf_cells) m m' \<and>
    (\<forall>y<m_h (a_out ca). \<forall>x<m_w (a_out ca). \<forall>c<m_c (a_out ca).
       ld8 m' (tm_matp (a_out ca) (int y) (int x) (int c)) = Some (conv_byte ca m scales outscale y x c))"
  using conv_layer_loops [OF assms] out_inv_byte by (fastforce simp: out_inv_def conv_mid_def)

end
