(* ===== verification/Layer_Correct.thy ===== *)
theory Layer_Correct
  imports Conv_Correct
begin

section \<open>The other layers compute what they mean\<close>

text \<open>
  Global average pooling, the fully connected layer, softmax and the addition: the
  loops over memory are related to sums and to pure functions of the input bytes.
\<close>

text \<open>A block that a layer reads while it writes another.\<close>

definition readable :: "mem \<Rightarrow> ptr \<Rightarrow> nat \<Rightarrow> ptr \<Rightarrow> nat \<Rightarrow> bool" where
  "readable m p n q k \<longleftrightarrow> in_object m p n \<and> apart p n q k"

lemma readable_cell:
  assumes "readable m p n q k" "cm.agree_off (cells q k) m m'" "i < n"
  shows "ld8 m' (padd p (int i)) = ld8 m (padd p (int i))" and "ld8 m (padd p (int i)) \<noteq> None"
proof -
  show "ld8 m' (padd p (int i)) = ld8 m (padd p (int i))"
    using assms apart_cells [of p n q k "padd p (int i)"]
    by (intro agree_off_ld8 [OF assms(2)]) (simp add: readable_def)
  show "ld8 m (padd p (int i)) \<noteq> None"
    by (rule ld8_in_object [of m p n]) (use assms in \<open>simp_all add: readable_def\<close>)
qed

lemma readable_word:
  assumes "readable m p n q k" "cm.agree_off (cells q k) m m'" "i + 4 \<le> n"
  shows "ld_s32 m' (padd p (int i)) = ld_s32 m (padd p (int i))"
    and "ld_f32 m' (padd p (int i)) = ld_f32 m (padd p (int i))"
    and "ld_s32 m (padd p (int i)) \<noteq> None" and "ld_f32 m (padd p (int i)) \<noteq> None"
proof -
  have off: "padd (padd p (int i)) (int j) \<notin> cells q k" if "j < 4" for j
    using assms(1,3) that apart_cells [of p n q k "padd p (int (i + j))"] padd_in_cells [of p "i + j" n]
    by (simp add: readable_def del: padd_in_cells)
  show "ld_s32 m' (padd p (int i)) = ld_s32 m (padd p (int i))"
    and "ld_f32 m' (padd p (int i)) = ld_f32 m (padd p (int i))"
    using ld_s32_agree_off [OF assms(2) off] by simp_all
  have "in_object m (padd p (int i)) 4"
    using assms(1,3) by (intro in_object_sub) (auto simp: readable_def)
  then obtain bs where "ld_bytes m (padd p (int i)) 4 = Some bs" using ld_bytes_in_object by blast
  then show "ld_s32 m (padd p (int i)) \<noteq> None" and "ld_f32 m (padd p (int i)) \<noteq> None"
    by (simp_all add: ld_s32_def ld_f32_def ld_u32_def)
qed

subsection \<open>Loops that store one byte per channel\<close>

text \<open>The frame of GAP and FC: the value of a channel is computed, then stored.\<close>

lemma channel_loop:
  assumes "in_object m p n"
    and "\<And>c m'. c < n \<Longrightarrow> cm.agree_off (cells p n) m m' \<Longrightarrow> val c m' = Some (v c)"
  shows "\<exists>m'. for_upto n (\<lambda>c m. do { x \<leftarrow> val c m; st8 m (padd p (int c)) (to_s8 x) }) m = Some m' \<and>
    cm.agree_off (cells p n) m m' \<and> (\<forall>c<n. ld8 m' (padd p (int c)) = Some (to_s8 (v c)))"
proof -
  have "\<exists>m'. for_upto n (\<lambda>c m. Option.bind (map_option to_s8 (val c m)) (st8 m (padd p (int c)))) m = Some m' \<and>
    cm.agree_off ((\<lambda>c. padd p (int c)) ` {..<n}) m m' \<and> (\<forall>c<n. ld8 m' (padd p (int c)) = Some (to_s8 (v c)))"
  proof (rule cm.store_loop)
    fix c m'
    assume c: "c < n" and "cm.agree_off ((\<lambda>c. padd p (int c)) ` {..<n} - {padd p (int c)}) m m'"
    then have "cm.agree_off (cells p n) m m'" by (auto simp: cells_def elim!: cm.agree_off_mono)
    with assms(2) [OF c] show "map_option to_s8 (val c m') = Some (to_s8 (v c))" by simp
  qed (use assms(1) ld8_in_object in auto)
  then show ?thesis by (simp add: cells_def Option.bind_map_option comp_def)
qed

subsection \<open>Global average pooling\<close>

definition gap_ref :: "tm_mat \<Rightarrow> tm_mat \<Rightarrow> mem \<Rightarrow> nat \<Rightarrow> nat \<Rightarrow> int" where
  "gap_ref inp out m c n = (\<Sum>k<n. sint (the (ld8 m (padd (m_data inp) (int (k * m_c out + c))))))"

lemma gap_ref_abs: "\<bar>gap_ref inp out m c n\<bar> \<le> int n * 128"
proof -
  have "\<bar>gap_ref inp out m c n\<bar> \<le> (\<Sum>k<n. 128)"
    unfolding gap_ref_def by (rule order_trans [OF sum_abs sum_mono]) (rule sint_byte_abs)
  then show ?thesis by simp
qed

lemma gap_sum_ok:
  assumes "in_object m (m_data inp) (m_h inp * m_w inp * m_c out)" "c < m_c out" "m_h inp * m_w inp < 2 ^ 24"
  shows "gap_sum inp out m c = Some (gap_ref inp out m c (m_h inp * m_w inp))"
proof -
  let ?n = "m_h inp * m_w inp"
  let ?P = "\<lambda>k (data, acc). data = padd (m_data inp) (int (k * m_c out + c)) \<and> acc = gap_ref inp out m c k"
  have step: "\<exists>st'. gap_step (m_c out) m st = Some st' \<and> ?P (Suc k) st'" if k: "k < ?n" and P: "?P k st" for k st
  proof -
    obtain v where v: "ld8 m (padd (m_data inp) (int (k * m_c out + c))) = Some v"
      using ld8_in_object [OF assms(1) index_bound [OF k assms(2)]] by blast
    have "\<bar>gap_ref inp out m c (Suc k)\<bar> \<le> int (Suc k) * 128" by (rule gap_ref_abs)
    also have "\<dots> \<le> int ?n * 128" using k by (intro mult_right_mono) (simp_all del: of_nat_mult)
    also have "\<dots> < 2 ^ 31" using assms(3) by (simp del: of_nat_mult)
    finally have "in_s32 (gap_ref inp out m c (Suc k))" by (rule in_s32_abs)
    moreover have "gap_ref inp out m c (Suc k) = gap_ref inp out m c k + sint v"
      using v by (simp add: gap_ref_def)
    ultimately have "s32 (gap_ref inp out m c k + sint v) = Some (gap_ref inp out m c (Suc k))" by simp
    with P v show ?thesis
      by (cases st) (simp add: gap_step_def ld_s8_def algebra_simps del: s32_Some)
  qed
  have "\<exists>st. for_upto (m_h inp) (\<lambda>y. for_upto (m_w inp) (\<lambda>x. gap_step (m_c out) m))
      (padd (m_data inp) (int c), 0) = Some st \<and> ?P ?n st"
  proof (rule for_upto_inv [where P = "\<lambda>y. ?P (y * m_w inp)"])
    show "?P (0 * m_w inp) (padd (m_data inp) (int c), 0)" by (simp add: gap_ref_def)
    fix y st
    assume y: "y < m_h inp" and P: "?P (y * m_w inp) st"
    have "\<exists>st'. for_upto (m_w inp) (\<lambda>x. gap_step (m_c out) m) st = Some st' \<and> ?P (y * m_w inp + m_w inp) st'"
    proof (rule for_upto_inv [where P = "\<lambda>x. ?P (y * m_w inp + x)"])
      show "?P (y * m_w inp + 0) st" using P by simp
      fix x t
      assume "x < m_w inp" "?P (y * m_w inp + x) t"
      then show "\<exists>t'. gap_step (m_c out) m t = Some t' \<and> ?P (y * m_w inp + Suc x) t'"
        using step [of "y * m_w inp + x" t] index_bound [OF y, of x "m_w inp"] by simp
    qed
    then show "\<exists>st'. for_upto (m_w inp) (\<lambda>x. gap_step (m_c out) m) st = Some st' \<and> ?P (Suc y * m_w inp) st'"
      by (simp only: mult_Suc add.commute)
  qed
  then show ?thesis by (auto simp: gap_sum_def)
qed

definition gap_ready :: "tm_mat \<Rightarrow> tm_mat \<Rightarrow> fp \<Rightarrow> int \<Rightarrow> fp \<Rightarrow> int \<Rightarrow> mem \<Rightarrow> bool" where
  "gap_ready inp out in_s in_zp out_s out_zp m \<longleftrightarrow>
     readable m (m_data inp) (m_h inp * m_w inp * m_c out) (m_data out) (m_c out) \<and>
     in_object m (m_data out) (m_c out) \<and> m_h inp * m_w inp < 2 ^ 24 \<and>
     (\<forall>c<m_c out. gap_requant (gap_ref inp out m c (m_h inp * m_w inp)) (int (m_h inp * m_w inp))
        in_s in_zp out_s out_zp \<noteq> None)"

lemma gap_layer:
  assumes "gap_ready inp out in_s in_zp out_s out_zp m"
  shows "\<exists>m'. tml_gap inp out in_s in_zp out_s out_zp m = Some (TM_OK, m') \<and>
    cm.agree_off (cells (m_data out) (m_c out)) m m' \<and>
    (\<forall>c<m_c out. ld8 m' (padd (m_data out) (int c)) =
       Some (to_s8 (the (gap_requant (gap_ref inp out m c (m_h inp * m_w inp)) (int (m_h inp * m_w inp))
         in_s in_zp out_s out_zp))))"
proof -
  let ?n = "m_h inp * m_w inp"
  have rd: "readable m (m_data inp) (?n * m_c out) (m_data out) (m_c out)" and n: "?n < 2 ^ 24"
    and out: "in_object m (m_data out) (m_c out)"
    using assms by (simp_all add: gap_ready_def)
  let ?val = "\<lambda>c m. do { acc \<leftarrow> gap_sum inp out m c; gap_requant acc (int ?n) in_s in_zp out_s out_zp }"
  have val: "?val c m' = Some (the (gap_requant (gap_ref inp out m c ?n) (int ?n) in_s in_zp out_s out_zp))"
    if c: "c < m_c out" and ag: "cm.agree_off (cells (m_data out) (m_c out)) m m'" for c m'
  proof -
    have "in_object m' (m_data inp) (?n * m_c out)"
      using rd in_object_agree [OF ag] by (simp add: readable_def)
    then have "gap_sum inp out m' c = Some (gap_ref inp out m' c ?n)" by (rule gap_sum_ok) (use c n in auto)
    moreover have "gap_ref inp out m' c ?n = gap_ref inp out m c ?n"
      unfolding gap_ref_def using readable_cell(1) [OF rd ag] index_bound [OF _ c]
      by (intro sum.cong) (auto simp del: of_nat_mult of_nat_add)
    ultimately show ?thesis using assms c by (auto simp: gap_ready_def)
  qed
  show ?thesis
    using channel_loop [of m "m_data out" "m_c out" ?val, OF out val]
    by (auto simp: tml_gap_def Option.bind_assoc)
qed

subsection \<open>Fully connected layer\<close>

definition fc_acc :: "tm_mat \<Rightarrow> ptr \<Rightarrow> ptr \<Rightarrow> mem \<Rightarrow> nat \<Rightarrow> int" where
  "fc_acc inp w b m c =
     dot_ref m (m_data inp) (padd w (int (c * m_c inp))) (m_c inp) + the (ld_s32 m (padd b (int (4 * c))))"

definition fc_ready ::
  "tm_mat \<Rightarrow> tm_mat \<Rightarrow> ptr \<Rightarrow> ptr \<Rightarrow> ptr \<Rightarrow> fp \<Rightarrow> fp \<Rightarrow> int \<Rightarrow> mem \<Rightarrow> bool" where
  "fc_ready inp out w b ws in_s out_s out_zp m \<longleftrightarrow>
     readable m (m_data inp) (m_c inp) (m_data out) (m_c out) \<and>
     readable m w (m_c out * m_c inp) (m_data out) (m_c out) \<and>
     readable m b (4 * m_c out) (m_data out) (m_c out) \<and>
     readable m ws 4 (m_data out) (m_c out) \<and>
     in_object m (m_data out) (m_c out) \<and> m_c inp < 2 ^ 17 \<and>
     (\<forall>c<m_c out. in_s32 (fc_acc inp w b m c) \<and>
        fc_requant (fc_acc inp w b m c) in_s (the (ld_f32 m ws)) out_s out_zp \<noteq> None)"

lemma dot_in_s32: "n < 2 ^ 17 \<Longrightarrow> in_s32 (dot_ref m sp kp n)"
proof -
  assume "n < 2 ^ 17"
  then have "int n * 2 ^ 14 < 2 ^ 31" by simp
  with dot_ref_abs [of m sp kp n] show ?thesis by (intro in_s32_abs) linarith
qed

lemma fc_value_ok:
  assumes rdy: "fc_ready inp out w b ws in_s out_s out_zp m" and c: "c < m_c out"
    and ag: "cm.agree_off (cells (m_data out) (m_c out)) m m'"
  shows "fc_value inp w b ws in_s out_s out_zp c m' =
    Some (the (fc_requant (fc_acc inp w b m c) in_s (the (ld_f32 m ws)) out_s out_zp))"
proof -
  let ?n = "m_c inp" and ?k = "m_c out" and ?w = "padd w (int (c * m_c inp))"
  have ri: "readable m (m_data inp) ?n (m_data out) ?k" and rw: "readable m w (?k * ?n) (m_data out) ?k"
    and rb: "readable m b (4 * ?k) (m_data out) ?k" and rs: "readable m ws 4 (m_data out) ?k"
    and n: "?n < 2 ^ 17"
    using rdy by (simp_all add: fc_ready_def)
  have objs: "in_object m' (m_data inp) ?n" "in_object m' w (?k * ?n)"
    using ri rw in_object_agree [OF ag] by (simp_all add: readable_def)
  have "in_object m' ?w ?n"
    using c mult_le_mono1 [of "Suc c" ?k ?n] by (intro in_object_sub [OF objs(2)]) simp
  from dp.kern_ok [OF n objs(1) this]
  have "tm_dot_prod m' (m_data inp) ?w ?n = Some (dot_ref m' (m_data inp) ?w ?n)" .
  also have "dot_ref m' (m_data inp) ?w ?n = dot_ref m (m_data inp) ?w ?n"
  proof -
    have "ld8 m' (padd ?w (int i)) = ld8 m (padd ?w (int i))" if "i < ?n" for i
      using readable_cell(1) [OF rw ag index_bound [OF c that]] by simp
    then show ?thesis
      unfolding dot_ref_def using readable_cell(1) [OF ri ag] by (intro sum.cong) simp_all
  qed
  finally have dot: "tm_dot_prod m' (m_data inp) ?w ?n = Some (dot_ref m (m_data inp) ?w ?n)" .
  have b4: "4 * c + 4 \<le> 4 * ?k" using c by linarith
  obtain bc where bc: "ld_s32 m (padd b (int (4 * c))) = Some bc"
    using readable_word(3) [OF rb ag b4] by blast
  then have bias: "ld_s32 m' (padd b (4 * int c)) = Some bc"
    using readable_word(1) [OF rb ag b4] by simp
  obtain s where s: "ld_f32 m ws = Some s" using readable_word(4) [OF rs ag, of 0] by auto
  then have scale: "ld_f32 m' ws = Some s" using readable_word(2) [OF rs ag, of 0] by simp
  have "in_s32 (fc_acc inp w b m c)" "fc_requant (fc_acc inp w b m c) in_s s out_s out_zp \<noteq> None"
    using rdy c s by (simp_all add: fc_ready_def)
  moreover have "fc_acc inp w b m c = dot_ref m (m_data inp) ?w ?n + bc" using bc by (simp add: fc_acc_def)
  ultimately show ?thesis
    using dot bias scale s by (auto simp: fc_value_def s32_in)
qed

lemma fc_layer:
  assumes "fc_ready inp out w b ws in_s out_s out_zp m"
  shows "\<exists>m'. tml_fc inp out w b ws in_s in_zp out_s out_zp m = Some (TM_OK, m') \<and>
    cm.agree_off (cells (m_data out) (m_c out)) m m' \<and>
    (\<forall>c<m_c out. ld8 m' (padd (m_data out) (int c)) =
       Some (to_s8 (the (fc_requant (fc_acc inp w b m c) in_s (the (ld_f32 m ws)) out_s out_zp))))"
  using channel_loop [of m "m_data out" "m_c out" "fc_value inp w b ws in_s out_s out_zp",
      OF _ fc_value_ok [OF assms]] assms
  by (auto simp: tml_fc_def fc_ready_def)

subsection \<open>Addition\<close>

text \<open>Four elements per round and a rest: the plain loop.\<close>

lemma upt_add4: "[i..<i + 4] = [i, i + 1, i + 2, i + 3]"
  by (simp add: upt_rec numeral_eq_Suc)

lemma unrolled4_rest:
  "i \<le> n \<Longrightarrow> Option.bind (unrolled4 f n i s) (\<lambda>(i, s). foldM f [i..<n] s) = foldM f [i..<n] s"
proof (induction "n - i" arbitrary: i s rule: less_induct)
  case less
  show ?case
  proof (cases "i + 4 \<le> n")
    case False
    then show ?thesis by (subst unrolled4.simps) simp
  next
    case True
    have IH: "(\<lambda>s. Option.bind (unrolled4 f n (i + 4) s) (\<lambda>(i, s). foldM f [i..<n] s)) = foldM f [i + 4..<n]"
      using True by (intro ext less.hyps) linarith+
    have split: "foldM f [i..<n] s = Option.bind (foldM f [i..<i + 4] s) (foldM f [i + 4..<n])"
      using True by (intro foldM_upt_split) simp_all
    show ?thesis
      unfolding split upt_add4 IH [symmetric]
      by (subst unrolled4.simps) (simp only: True if_True Option.bind_assoc foldM.simps Option.bind.bind_lunit)
  qed
qed

lemma tml_add_plain:
  "tml_add in0 in1 out in_s0 in_zp0 in_s1 in_zp1 out_s out_zp m =
   map_option (Pair TM_OK) (for_upto (mat_size in0)
     (add_elem (m_data in0) (m_data in1) (m_data out) in_s0 in_zp0 in_s1 in_zp1 out_s out_zp) m)"
proof -
  let ?f = "add_elem (m_data in0) (m_data in1) (m_data out) in_s0 in_zp0 in_s1 in_zp1 out_s out_zp"
  have "for_upto (mat_size in0) ?f m =
      Option.bind (unrolled4 ?f (mat_size in0) 0 m) (\<lambda>(i, s). foldM ?f [i..<mat_size in0] s)"
    using unrolled4_rest [of 0 "mat_size in0" ?f m] by (simp add: for_upto_def)
  then show ?thesis
    by (simp add: tml_add_def Let_def mat_size_def Option.map_option_bind comp_def case_prod_unfold
        map_conv_bind_option Option.bind_assoc)
qed

text \<open>Element by element, an operand may be the output itself.\<close>

definition elementwise :: "mem \<Rightarrow> ptr \<Rightarrow> ptr \<Rightarrow> nat \<Rightarrow> bool" where
  "elementwise m p q n \<longleftrightarrow> in_object m p n \<and> (p = q \<or> apart p n q n)"

lemma elementwise_cell:
  assumes "elementwise m p q n" "cm.agree_off ((\<lambda>i. padd q (int i)) ` {..<n} - {padd q (int i)}) m m'" "i < n"
  shows "ld8 m' (padd p (int i)) = ld8 m (padd p (int i))" and "ld8 m (padd p (int i)) \<noteq> None"
proof -
  have "padd p (int i) \<notin> (\<lambda>i. padd q (int i)) ` {..<n} - {padd q (int i)}"
    using assms(1,3) apart_cells [of p n q n "padd p (int i)"]
    by (auto simp: elementwise_def cells_def [symmetric])
  then show "ld8 m' (padd p (int i)) = ld8 m (padd p (int i))" by (rule agree_off_ld8 [OF assms(2)])
  show "ld8 m (padd p (int i)) \<noteq> None"
    by (rule ld8_in_object [of m p n]) (use assms in \<open>simp_all add: elementwise_def\<close>)
qed

definition add_value ::
  "ptr \<Rightarrow> ptr \<Rightarrow> fp \<Rightarrow> int \<Rightarrow> fp \<Rightarrow> int \<Rightarrow> fp \<Rightarrow> int \<Rightarrow> mem \<Rightarrow> nat \<Rightarrow> int option" where
  "add_value d0 d1 in_s0 in_zp0 in_s1 in_zp1 out_s out_zp m i =
     do { a \<leftarrow> ld_s8 m (padd d0 (int i));
          x \<leftarrow> tm_dequant a in_s0 in_zp0;
          b \<leftarrow> ld_s8 m (padd d1 (int i));
          y \<leftarrow> tm_dequant b in_s1 in_zp1;
          tm_quant (f32_add x y) out_s out_zp }"

definition add_ready ::
  "tm_mat \<Rightarrow> tm_mat \<Rightarrow> tm_mat \<Rightarrow> fp \<Rightarrow> int \<Rightarrow> fp \<Rightarrow> int \<Rightarrow> fp \<Rightarrow> int \<Rightarrow> mem \<Rightarrow> bool" where
  "add_ready in0 in1 out in_s0 in_zp0 in_s1 in_zp1 out_s out_zp m \<longleftrightarrow>
     elementwise m (m_data in0) (m_data out) (mat_size in0) \<and>
     elementwise m (m_data in1) (m_data out) (mat_size in0) \<and>
     in_object m (m_data out) (mat_size in0) \<and>
     (\<forall>i<mat_size in0. add_value (m_data in0) (m_data in1) in_s0 in_zp0 in_s1 in_zp1 out_s out_zp m i \<noteq> None)"

lemma add_layer:
  assumes "add_ready in0 in1 out in_s0 in_zp0 in_s1 in_zp1 out_s out_zp m"
  shows "\<exists>m'. tml_add in0 in1 out in_s0 in_zp0 in_s1 in_zp1 out_s out_zp m = Some (TM_OK, m') \<and>
    cm.agree_off (cells (m_data out) (mat_size in0)) m m' \<and>
    (\<forall>i<mat_size in0. ld8 m' (padd (m_data out) (int i)) =
       Some (to_s8 (the (add_value (m_data in0) (m_data in1) in_s0 in_zp0 in_s1 in_zp1 out_s out_zp m i))))"
proof -
  let ?v = "add_value (m_data in0) (m_data in1) in_s0 in_zp0 in_s1 in_zp1 out_s out_zp"
  let ?n = "mat_size in0" and ?a = "\<lambda>i. padd (m_data out) (int i)"
  have e: "elementwise m (m_data in0) (m_data out) ?n" "elementwise m (m_data in1) (m_data out) ?n"
    using assms by (simp_all add: add_ready_def)
  have "\<exists>m'. for_upto ?n (\<lambda>i m. Option.bind (map_option to_s8 (?v m i)) (st8 m (?a i))) m = Some m' \<and>
      cm.agree_off (?a ` {..<?n}) m m' \<and> (\<forall>i<?n. ld8 m' (?a i) = Some (to_s8 (the (?v m i))))"
  proof (rule cm.store_loop)
    fix i m'
    assume i: "i < ?n" and ag: "cm.agree_off (?a ` {..<?n} - {?a i}) m m'"
    have "?v m' i = ?v m i"
      using elementwise_cell(1) [OF e(1) ag i] elementwise_cell(1) [OF e(2) ag i]
      by (simp add: add_value_def ld_s8_def)
    moreover have "?v m i \<noteq> None" using assms i by (simp add: add_ready_def)
    ultimately show "map_option to_s8 (?v m' i) = Some (to_s8 (the (?v m i)))" by auto
  next
    show "ld8 m (?a i) \<noteq> None" if "i < ?n" for i
      by (rule ld8_in_object [of m _ ?n]) (use assms that in \<open>simp_all add: add_ready_def\<close>)
  qed simp
  moreover have "(\<lambda>i m. Option.bind (map_option to_s8 (?v m i)) (st8 m (?a i))) =
      add_elem (m_data in0) (m_data in1) (m_data out) in_s0 in_zp0 in_s1 in_zp1 out_s out_zp"
    by (intro ext) (simp add: add_value_def add_elem_def Option.bind_map_option Option.bind_assoc comp_def)
  ultimately show ?thesis by (simp add: tml_add_plain cells_def)
qed

subsection \<open>Softmax\<close>

text \<open>
  The layer keeps its intermediate values as \<open>float\<close>s in the output buffer, four bytes per
  channel, and finally writes one byte per channel over them. As a pure function:
\<close>

definition f32_stored :: "fp \<Rightarrow> fp" where
  "f32_stored x = unpack32 (pack32 x mod 2 ^ 32)"

definition sm_d :: "mem \<Rightarrow> ptr \<Rightarrow> fp \<Rightarrow> int \<Rightarrow> nat \<Rightarrow> fp" where
  "sm_d m p in_s in_zp c = f32_stored (f32_mul (f32_of_int (sint (the (ld8 m (padd p (int c)))) - in_zp)) in_s)"

definition sm_max :: "fp list \<Rightarrow> fp" where
  "sm_max ds = fold (\<lambda>x dmax. if fp_gt x dmax then x else dmax) ds (fp_neg (unpack32 0x7F7FFFFF))"

definition sm_e :: "fp \<Rightarrow> fp \<Rightarrow> fp option" where
  "sm_e dmax x = map_option f32_stored (tm_exp (f32_stored (f32_sub x dmax)))"

definition sm_sum :: "fp list \<Rightarrow> fp" where
  "sm_sum es = fold (\<lambda>e acc. f32_add acc e) es (f32_of_int 0)"

definition sm_p :: "fp \<Rightarrow> fp" where
  "sm_p e = f32_stored (f32_sub e (unpack32 0x358637BD))"

definition sm_q :: "fp \<Rightarrow> fp \<Rightarrow> int \<Rightarrow> fp \<Rightarrow> int option" where
  "sm_q acc out_s out_zp x = fp_to_s8 (f32_add (f32_div (f32_div x acc) out_s) (f32_of_int out_zp))"

definition softmax_ref :: "fp list \<Rightarrow> fp \<Rightarrow> int \<Rightarrow> int list option" where
  "softmax_ref ds out_s out_zp =
     do { es \<leftarrow> those (map (sm_e (sm_max ds)) ds);
          those (map (\<lambda>e. sm_q (sm_sum es) out_s out_zp (sm_p e)) es) }"

lemma st_f32_ok:
  assumes "in_object m p 4"
  shows "\<exists>m'. st_f32 m p x = Some m' \<and> cm.agree_off (cells p 4) m m' \<and> ld_f32 m' p = Some (f32_stored x)"
proof -
  let ?bs = "nat_le 4 (pack32 x)"
  obtain m' where m': "st_bytes m p ?bs = Some m'" "cm.agree_off (cells p 4) m m'"
    and v: "\<forall>i<4. ld8 m' (padd p (int i)) = Some (?bs ! i)"
    using st_bytes_ok [of m p ?bs] assms by auto
  have "ld_bytes m' p 4 = Some (map (\<lambda>i. ?bs ! i) [0..<4])"
    unfolding ld_bytes_def using v by (intro those_map_Some) auto
  also have "map (\<lambda>i. ?bs ! i) [0..<4] = ?bs" using map_nth [of ?bs] by simp
  finally show ?thesis
    using m' le_nat_nat_le [of 4 "pack32 x"] by (simp add: st_f32_def ld_f32_def ld_u32_def f32_stored_def)
qed

lemma those_map_SomeD:
  "those (map f xs) = Some ys \<Longrightarrow> length ys = length xs \<and> (\<forall>i<length xs. f (xs ! i) = Some (ys ! i))"
proof (induction xs arbitrary: ys)
  case (Cons x xs)
  then obtain z zs where "f x = Some z" "those (map f xs) = Some zs" "ys = z # zs"
    by (auto split: option.splits)
  with Cons.IH show ?case by (auto simp: nth_Cons split: nat.splits)
qed simp

abbreviation sm_slot :: "ptr \<Rightarrow> nat \<Rightarrow> ptr" where
  "sm_slot p c \<equiv> padd p (4 * int c)"

lemma slot_cells: "c < n \<Longrightarrow> cells (sm_slot p c) 4 \<subseteq> cells p (4 * n)"
  by (auto simp: in_cells)

lemma slot_word: "i < 4 \<Longrightarrow> padd (sm_slot p j) (int i) = padd p (int (4 * j + i))"
  by simp

lemma slot_other:
  assumes "cm.agree_off (cells (sm_slot p c) 4) m m'" "j \<noteq> c"
  shows "ld_f32 m' (sm_slot p j) = ld_f32 m (sm_slot p j)"
proof (rule ld_s32_agree_off(3) [OF assms(1)])
  show "padd (sm_slot p j) (int i) \<notin> cells (sm_slot p c) 4" if "i < 4" for i
    using assms(2) that by (auto simp: in_cells)
qed

lemma slot_store:
  assumes "cm.agree_off (cells p (4 * n)) m m'" "in_object m p (4 * n)" "c < n"
  shows "\<exists>m2. st_f32 m' (sm_slot p c) x = Some m2 \<and> cm.agree_off (cells p (4 * n)) m m2 \<and>
    cm.agree_off (cells (sm_slot p c) 4) m' m2 \<and> ld_f32 m2 (sm_slot p c) = Some (f32_stored x)"
proof -
  have "in_object m' (padd p (int (4 * c))) 4"
    using assms in_object_agree [OF assms(1)] by (intro in_object_sub [of m' p "4 * n"]) auto
  then have "in_object m' (sm_slot p c) 4" by simp
  from st_f32_ok [OF this, of x] obtain m2 where m2: "st_f32 m' (sm_slot p c) x = Some m2"
    "cm.agree_off (cells (sm_slot p c) 4) m' m2" "ld_f32 m2 (sm_slot p c) = Some (f32_stored x)" by blast
  moreover have "cm.agree_off (cells p (4 * n)) m m2"
    by (rule cm.agree_off_mono [OF cm.agree_off_trans [OF assms(1) m2(2)]]) (use slot_cells [OF assms(3)] in blast)
  ultimately show ?thesis by blast
qed

definition softmax_ready :: "tm_mat \<Rightarrow> tm_mat \<Rightarrow> fp \<Rightarrow> int \<Rightarrow> mem \<Rightarrow> bool" where
  "softmax_ready inp out in_s in_zp m \<longleftrightarrow>
     readable m (m_data inp) (m_c inp) (m_data out) (4 * m_c inp) \<and>
     in_object m (m_data out) (4 * m_c inp) \<and>
     (\<forall>c<m_c inp. in_s32 (sint (the (ld8 m (padd (m_data inp) (int c)))) - in_zp))"

abbreviation sm_ds :: "mem \<Rightarrow> ptr \<Rightarrow> fp \<Rightarrow> int \<Rightarrow> nat \<Rightarrow> fp list" where
  "sm_ds m p in_s in_zp n \<equiv> map (sm_d m p in_s in_zp) [0..<n]"

lemma sm_max_snoc: "sm_max (ds @ [x]) = (if fp_gt x (sm_max ds) then x else sm_max ds)"
  and sm_sum_snoc: "sm_sum (es @ [x]) = f32_add (sm_sum es) x"
  by (simp_all add: sm_max_def sm_sum_def)

lemma softmax_dequant_loop:
  assumes rdy: "softmax_ready inp out in_s in_zp m"
  defines "n \<equiv> m_c inp" and "d \<equiv> sm_d m (m_data inp) in_s in_zp"
  shows "\<exists>m1. for_upto n (softmax_dequant inp out in_s in_zp) (fp_neg (unpack32 0x7F7FFFFF), m) =
      Some (sm_max (map d [0..<n]), m1) \<and> cm.agree_off (cells (m_data out) (4 * n)) m m1 \<and>
      (\<forall>j<n. ld_f32 m1 (sm_slot (m_data out) j) = Some (d j))"
proof -
  let ?P = "\<lambda>c (dmax, m'). dmax = sm_max (map d [0..<c]) \<and> cm.agree_off (cells (m_data out) (4 * n)) m m' \<and>
    (\<forall>j<c. ld_f32 m' (sm_slot (m_data out) j) = Some (d j))"
  have rd: "readable m (m_data inp) n (m_data out) (4 * n)" and obj: "in_object m (m_data out) (4 * n)"
    using rdy by (simp_all add: softmax_ready_def n_def)
  have "\<exists>st. for_upto n (softmax_dequant inp out in_s in_zp) (fp_neg (unpack32 0x7F7FFFFF), m) = Some st \<and> ?P n st"
  proof (rule for_upto_inv [where P = ?P])
    show "?P 0 (fp_neg (unpack32 0x7F7FFFFF), m)" by (simp add: sm_max_def cm.agree_off_refl)
    fix c st
    assume c: "c < n" and P: "?P c st"
    obtain dmax m' where st: "st = (dmax, m')" and ag: "cm.agree_off (cells (m_data out) (4 * n)) m m'"
      and dm: "dmax = sm_max (map d [0..<c])" and js: "\<forall>j<c. ld_f32 m' (sm_slot (m_data out) j) = Some (d j)"
      using P by (cases st) auto
    obtain b where b: "ld8 m (padd (m_data inp) (int c)) = Some b" using readable_cell(2) [OF rd ag c] by blast
    then have b': "ld8 m' (padd (m_data inp) (int c)) = Some b" using readable_cell(1) [OF rd ag c] by simp
    have dc: "d c = f32_stored (f32_mul (f32_of_int (sint b - in_zp)) in_s)" using b by (simp add: d_def sm_d_def)
    have in32: "in_s32 (sint b - in_zp)" using rdy c b by (auto simp: softmax_ready_def n_def)
    obtain m2 where m2: "st_f32 m' (sm_slot (m_data out) c) (f32_mul (f32_of_int (sint b - in_zp)) in_s) = Some m2"
      and ag2: "cm.agree_off (cells (m_data out) (4 * n)) m m2"
      and sl: "cm.agree_off (cells (sm_slot (m_data out) c) 4) m' m2"
      and v: "ld_f32 m2 (sm_slot (m_data out) c) = Some (d c)"
      using slot_store [OF ag obj c] dc by metis
    have "\<forall>j<Suc c. ld_f32 m2 (sm_slot (m_data out) j) = Some (d j)"
      using js v slot_other [OF sl] by (auto simp: less_Suc_eq)
    moreover have "softmax_dequant inp out in_s in_zp c st =
        Some (if fp_gt (d c) dmax then d c else dmax, m2)"
      by (simp add: st softmax_dequant_def Let_def ld_s8_def b' s32_in in32 m2 v)
    ultimately show "\<exists>st'. softmax_dequant inp out in_s in_zp c st = Some st' \<and> ?P (Suc c) st'"
      using ag2 dm by (simp add: sm_max_snoc)
  qed
  then show ?thesis by auto
qed

lemma softmax_exp_loop:
  assumes ag1: "cm.agree_off (cells (m_data out) (4 * n)) m m1" and obj: "in_object m (m_data out) (4 * n)"
    and ds: "\<forall>j<n. ld_f32 m1 (sm_slot (m_data out) j) = Some (d j)"
    and es: "\<forall>j<n. sm_e dmax (d j) = Some (e j)"
  shows "\<exists>m2. for_upto n (softmax_exp out dmax) (f32_of_int 0, m1) = Some (sm_sum (map e [0..<n]), m2) \<and>
      cm.agree_off (cells (m_data out) (4 * n)) m m2 \<and>
      (\<forall>j<n. ld_f32 m2 (sm_slot (m_data out) j) = Some (sm_p (e j)))"
proof -
  let ?s = "sm_slot (m_data out)" and ?A = "cells (m_data out) (4 * n)"
  let ?P = "\<lambda>c (acc, m'). acc = sm_sum (map e [0..<c]) \<and> cm.agree_off ?A m m' \<and>
    (\<forall>j<c. ld_f32 m' (?s j) = Some (sm_p (e j))) \<and> (\<forall>j<n. c \<le> j \<longrightarrow> ld_f32 m' (?s j) = Some (d j))"
  have "\<exists>st. for_upto n (softmax_exp out dmax) (f32_of_int 0, m1) = Some st \<and> ?P n st"
  proof (rule for_upto_inv [where P = ?P])
    show "?P 0 (f32_of_int 0, m1)" using ag1 ds by (simp add: sm_sum_def)
    fix c st
    assume c: "c < n" and P: "?P c st"
    obtain acc m' where st: "st = (acc, m')" and ag: "cm.agree_off ?A m m'"
      and acc: "acc = sm_sum (map e [0..<c])" and js: "\<forall>j<c. ld_f32 m' (?s j) = Some (sm_p (e j))"
      and rest: "\<forall>j<n. c \<le> j \<longrightarrow> ld_f32 m' (?s j) = Some (d j)"
      using P by (cases st) auto
    obtain t where t: "tm_exp (f32_stored (f32_sub (d c) dmax)) = Some t" and et: "e c = f32_stored t"
      using es c by (auto simp: sm_e_def)
    obtain m2 where m2: "st_f32 m' (?s c) (f32_sub (d c) dmax) = Some m2" "cm.agree_off ?A m m2"
      "cm.agree_off (cells (?s c) 4) m' m2" "ld_f32 m2 (?s c) = Some (f32_stored (f32_sub (d c) dmax))"
      using slot_store [OF ag obj c] by metis
    obtain m3 where m3: "st_f32 m2 (?s c) t = Some m3" "cm.agree_off ?A m m3"
      "cm.agree_off (cells (?s c) 4) m2 m3" "ld_f32 m3 (?s c) = Some (e c)"
      using slot_store [OF m2(2) obj c, of t] et by metis
    obtain m4 where m4: "st_f32 m3 (?s c) (f32_sub (e c) (unpack32 0x358637BD)) = Some m4" "cm.agree_off ?A m m4"
      "cm.agree_off (cells (?s c) 4) m3 m4" "ld_f32 m4 (?s c) = Some (sm_p (e c))"
      using slot_store [OF m3(2) obj c] unfolding sm_p_def by metis
    have other: "ld_f32 m4 (?s j) = ld_f32 m' (?s j)" if "j \<noteq> c" for j
      using slot_other [OF m2(3) that] slot_other [OF m3(3) that] slot_other [OF m4(3) that] by simp
    have "softmax_exp out dmax c st = Some (f32_add acc (e c), m4)"
      using rest c by (simp add: st softmax_exp_def Let_def m2(1,4) t m3(1,4) m4(1))
    moreover have "\<forall>j<Suc c. ld_f32 m4 (?s j) = Some (sm_p (e j))"
      using js m4(4) other by (auto simp: less_Suc_eq)
    moreover have "\<forall>j<n. Suc c \<le> j \<longrightarrow> ld_f32 m4 (?s j) = Some (d j)" using rest other by auto
    ultimately show "\<exists>st'. softmax_exp out dmax c st = Some st' \<and> ?P (Suc c) st'"
      using m4(2) acc by (simp add: sm_sum_snoc)
  qed
  then show ?thesis by auto
qed

text \<open>The bytes overwrite only floats that have been read.\<close>

lemma softmax_quant_loop:
  assumes ag2: "cm.agree_off (cells (m_data out) (4 * n)) m m2" and obj: "in_object m (m_data out) (4 * n)"
    and ps: "\<forall>j<n. ld_f32 m2 (sm_slot (m_data out) j) = Some (p j)"
    and qs: "\<forall>j<n. sm_q acc out_s out_zp (p j) = Some (q j)"
  shows "\<exists>m3. for_upto n (softmax_quant out acc out_s out_zp) m2 = Some m3 \<and>
      cm.agree_off (cells (m_data out) (4 * n)) m m3 \<and>
      (\<forall>j<n. ld8 m3 (padd (m_data out) (int j)) = Some (to_s8 (q j)))"
proof (rule for_upto_inv [where P = "\<lambda>c m'. cm.agree_off (cells (m_data out) (4 * n)) m m' \<and>
    (\<forall>j<c. ld8 m' (padd (m_data out) (int j)) = Some (to_s8 (q j))) \<and>
    (\<forall>j<n. c \<le> j \<longrightarrow> ld_f32 m' (sm_slot (m_data out) j) = Some (p j))", THEN exE])
  let ?s = "sm_slot (m_data out)" and ?A = "cells (m_data out) (4 * n)"
  show "cm.agree_off ?A m m2 \<and> (\<forall>j<0. ld8 m2 (padd (m_data out) (int j)) = Some (to_s8 (q j))) \<and>
    (\<forall>j<n. 0 \<le> j \<longrightarrow> ld_f32 m2 (?s j) = Some (p j))" using ag2 ps by simp
  fix c m'
  assume c: "c < n" and P: "cm.agree_off ?A m m' \<and> (\<forall>j<c. ld8 m' (padd (m_data out) (int j)) = Some (to_s8 (q j))) \<and>
    (\<forall>j<n. c \<le> j \<longrightarrow> ld_f32 m' (?s j) = Some (p j))"
  have "in_object m' (m_data out) (4 * n)" using obj in_object_agree [OF conjunct1 [OF P]] by blast
  then have "ld8 m' (padd (m_data out) (int c)) \<noteq> None" by (rule ld8_in_object) (use c in simp)
  then obtain m3 where m3: "st8 m' (padd (m_data out) (int c)) (to_s8 (q c)) = Some m3"
    using cm.st_defined by blast
  have one: "cm.agree_off {padd (m_data out) (int c)} m' m3" by (rule cm.agree_off_st [OF m3])
  have "cm.agree_off ?A m m3"
    using cm.agree_off_trans [OF conjunct1 [OF P] one] c by (auto elim!: cm.agree_off_mono)
  moreover have "\<forall>j<Suc c. ld8 m3 (padd (m_data out) (int j)) = Some (to_s8 (q j))"
    using P ld8_st8_same [OF m3] agree_off_ld8 [OF one] by (auto simp: less_Suc_eq)
  moreover have "ld_f32 m3 (?s j) = ld_f32 m' (?s j)" if "Suc c \<le> j" for j
    by (rule ld_s32_agree_off(3) [OF one]) (use that in auto)
  moreover have "softmax_quant out acc out_s out_zp c m' = Some m3"
    using P c qs m3 by (simp add: softmax_quant_def sm_q_def)
  ultimately show "\<exists>t'. softmax_quant out acc out_s out_zp c m' = Some t' \<and> cm.agree_off ?A m t' \<and>
    (\<forall>j<Suc c. ld8 t' (padd (m_data out) (int j)) = Some (to_s8 (q j))) \<and>
    (\<forall>j<n. Suc c \<le> j \<longrightarrow> ld_f32 t' (?s j) = Some (p j))"
    using P by auto
qed blast

lemma softmax_layer:
  assumes rdy: "softmax_ready inp out in_s in_zp m"
    and ref: "softmax_ref (sm_ds m (m_data inp) in_s in_zp (m_c inp)) out_s out_zp = Some qs"
  shows "\<exists>m'. tml_softmax inp out in_s in_zp out_s out_zp m = Some (TM_OK, m') \<and>
    cm.agree_off (cells (m_data out) (4 * m_c inp)) m m' \<and>
    (\<forall>c<m_c inp. ld8 m' (padd (m_data out) (int c)) = Some (to_s8 (qs ! c)))"
proof -
  let ?n = "m_c inp" and ?d = "sm_d m (m_data inp) in_s in_zp"
  let ?dmax = "sm_max (map ?d [0..<?n])"
  have obj: "in_object m (m_data out) (4 * ?n)" using rdy by (simp add: softmax_ready_def)
  obtain es where es: "those (map (sm_e ?dmax) (map ?d [0..<?n])) = Some es"
    and qs: "those (map (\<lambda>e. sm_q (sm_sum es) out_s out_zp (sm_p e)) es) = Some qs"
    using ref by (auto simp: softmax_ref_def bind_eq_Some_conv)
  have len: "length es = ?n" and ev: "\<forall>j<?n. sm_e ?dmax (?d j) = Some (es ! j)"
    using those_map_SomeD [OF es] by auto
  have qv: "\<forall>j<?n. sm_q (sm_sum es) out_s out_zp (sm_p (es ! j)) = Some (qs ! j)"
    using those_map_SomeD [OF qs] len by auto
  have esn: "map ((!) es) [0..<?n] = es" using map_nth [of es] len by simp
  from softmax_dequant_loop [OF rdy] obtain m1
    where m1: "for_upto ?n (softmax_dequant inp out in_s in_zp) (fp_neg (unpack32 0x7F7FFFFF), m) = Some (?dmax, m1)"
    and a1: "cm.agree_off (cells (m_data out) (4 * ?n)) m m1"
    and d1: "\<forall>j<?n. ld_f32 m1 (sm_slot (m_data out) j) = Some (?d j)" by blast
  from softmax_exp_loop [OF a1 obj d1 ev] obtain m2
    where m2: "for_upto ?n (softmax_exp out ?dmax) (f32_of_int 0, m1) = Some (sm_sum es, m2)"
    and a2: "cm.agree_off (cells (m_data out) (4 * ?n)) m m2"
    and p2: "\<forall>j<?n. ld_f32 m2 (sm_slot (m_data out) j) = Some (sm_p (es ! j))" unfolding esn by blast
  from softmax_quant_loop [OF a2 obj p2 qv] obtain m3
    where m3: "for_upto ?n (softmax_quant out (sm_sum es) out_s out_zp) m2 = Some m3"
    and rest: "cm.agree_off (cells (m_data out) (4 * ?n)) m m3"
      "\<forall>j<?n. ld8 m3 (padd (m_data out) (int j)) = Some (to_s8 (qs ! j))" by blast
  have "tml_softmax inp out in_s in_zp out_s out_zp m = Some (TM_OK, m3)"
    unfolding tml_softmax_def m1 Option.bind.bind_lunit prod.case m2 m3 ..
  with rest show ?thesis by blast
qed

end
