(* ===== verification/Tm_Model.thy ===== *)
theory Tm_Model
  imports Tm_Layers
begin

section \<open>Loading and running a model (tm_model.c)\<close>

text \<open>
  \<open>tm_load\<close>, \<open>tm_preprocess\<close>, \<open>tm_run\<close> and \<open>tm_unload\<close>. The layer loop is one step
  function, \<open>run_layer\<close>, iterated; \<open>base\<close> is the address of the main buffer, which
  decides where the aligned array of dequantised outputs starts.
\<close>

subsection \<open>tm_load\<close>

text \<open>
  \<open>tm_malloc\<close> is \<open>NULL\<close> in \<open>tm_port.h\<close>. The \<open>memcpy\<close> of \<open>sizeof(tm_mat_t)\<close>, 12 bytes,
  copies the four input dimensions and, over the pointer, the first half of the output
  dimensions; the pointer is overwritten at once.
\<close>

definition tm_malloc :: "nat \<Rightarrow> ptr option" where
  "tm_malloc n = None"

definition tm_load ::
  "mem \<Rightarrow> tm_mdl \<Rightarrow> ptr \<Rightarrow> ptr option \<Rightarrow> bool \<Rightarrow> tm_mat \<Rightarrow> (tm_err \<times> tm_mdl \<times> tm_mat) option" where
  "tm_load m mdl bin buf cb inp =
     do { magic \<leftarrow> mdlbin_magic m bin;
          if magic \<noteq> TM_MDL_MAGIC then Some (TM_ERR_MAGIC, mdl, inp)
          else do {
            ty \<leftarrow> mdlbin_mdl_type m bin;
            if ty \<noteq> TM_MDL_TYPE then Some (TM_ERR_MDLTYPE, mdl, inp)
            else do {
              let mdl = mdl\<lparr>mdl_b := Some bin, mdl_cb := cb\<rparr>;
              bsize \<leftarrow> (if buf = None then mdlbin_buf_size m bin else Some 0);
              let (oom, mdl) =
                (case buf of
                   None \<Rightarrow> (let mdl = mdl\<lparr>mdl_buf := tm_malloc bsize\<rparr>
                            in if mdl_buf mdl = None then (True, mdl)
                               else (False, mdl\<lparr>mdl_main_alloc := 1\<rparr>))
                 | Some p \<Rightarrow> (False, mdl\<lparr>mdl_buf := Some p, mdl_main_alloc := 0\<rparr>));
              if oom then Some (TM_ERR_OOM, mdl, inp)
              else do {
                sub \<leftarrow> mdlbin_sub_size m bin;
                let mdl = mdl\<lparr>mdl_subbuf := (if sub > 0 then tm_malloc sub else None)\<rparr>;
                if sub > 0 \<and> mdl_subbuf mdl = None then Some (TM_ERR_OOM, mdl, inp)
                else do {
                  let mdl = mdl\<lparr>mdl_layer_i := 0, mdl_layer_body := Some (mdlbin_layers_body bin)\<rparr>;
                  bs \<leftarrow> ld_bytes m (mdlbin_in_dims bin) 12;
                  b \<leftarrow> mdl_buf mdl;
                  Some (TM_OK, mdl,
                    \<lparr>m_dims = le_nat (take 2 bs), m_h = le_nat (take 2 (drop 2 bs)),
                     m_w = le_nat (take 2 (drop 4 bs)), m_c = le_nat (take 2 (drop 6 bs)),
                     m_data = b\<rparr>) } } } } }"

definition tm_unload :: "tm_mdl \<Rightarrow> tm_mdl" where
  "tm_unload mdl = mdl"

subsection \<open>tm_preprocess\<close>

definition pre_fp2int :: "tm_mat \<Rightarrow> tm_mat \<Rightarrow> fp \<Rightarrow> int \<Rightarrow> nat \<Rightarrow> mem \<Rightarrow> mem option" where
  "pre_fp2int inp out in_s in_zp i m =
     do { x \<leftarrow> ld_f32 m (padd (m_data inp) (4 * int i));
          v \<leftarrow> fp_to_s8 (f32_add (f32_div x in_s) (f32_of_int in_zp));
          st8 m (padd (m_data out) (int i)) (to_s8 v) }"

text \<open>\<open>((mtype_t)(u8 - 128)) << UINT2INT_SHIFT\<close>, where the shift is 0 for 8-bit models.\<close>

definition pre_uint2int :: "tm_mat \<Rightarrow> tm_mat \<Rightarrow> nat \<Rightarrow> mem \<Rightarrow> mem option" where
  "pre_uint2int inp out i m =
     do { u \<leftarrow> ld_u8 m (padd (m_data inp) (int i));
          st8 m (padd (m_data out) (int i)) (to_s8 (shl_s32 (sint (to_s8 (int u - 128))) 0)) }"

definition tm_preprocess ::
  "mem \<Rightarrow> tm_mdl \<Rightarrow> tm_pp \<Rightarrow> tm_mat \<Rightarrow> tm_mat \<Rightarrow> (tm_err \<times> tm_mat \<times> mem) option" where
  "tm_preprocess m mdl pp inp out =
     do { b \<leftarrow> mdl_b mdl;
          in_s \<leftarrow> ld_f32 m (padd (mdlbin_layers_body b) 32);
          in_zp \<leftarrow> ld_s32 m (padd (mdlbin_layers_body b) 36);
          let in_size = m_h inp * m_w inp * m_c inp;
          case pp of
            TMPP_FP2INT \<Rightarrow>
              map_option (\<lambda>m. (TM_OK, out, m)) (for_upto in_size (pre_fp2int inp out in_s in_zp) m)
          | TMPP_UINT2INT \<Rightarrow>
              map_option (\<lambda>m. (TM_OK, out, m)) (for_upto in_size (pre_uint2int inp out) m)
          | _ \<Rightarrow> Some (TM_OK, out\<lparr>m_data := m_data inp\<rparr>, m) }"

subsection \<open>tm_run\<close>

record run_state =
  r_mem :: mem
  r_mdl :: tm_mdl
  r_in :: tm_mat
  r_outs :: "tm_mat list"
  r_out_idx :: nat

text \<open>\<open>memcpy\<close> of four dimensions into a tensor.\<close>

definition set_dims :: "tm_mat \<Rightarrow> nat list \<Rightarrow> tm_mat" where
  "set_dims mat ds = mat\<lparr>m_dims := ds ! 0, m_h := ds ! 1, m_w := ds ! 2, m_c := ds ! 3\<rparr>"

definition conv_args_of :: "tm_mat \<Rightarrow> tm_mat \<Rightarrow> ptr \<Rightarrow> tml_head \<Rightarrow> tml_conv2d_dw \<Rightarrow> conv_args" where
  "conv_args_of inp out body h l =
     \<lparr>a_in = inp, a_out = out,
      a_w = padd body (int (cv_w_oft l)), a_b = padd body (int (cv_b_oft l)),
      a_kw = cv_kernel_w l, a_kh = cv_kernel_h l, a_sx = cv_stride_w l, a_sy = cv_stride_h l,
      a_dx = cv_dilation_w l, a_dy = cv_dilation_h l, a_act = cv_act l,
      a_pad_top = cv_pad l ! 0, a_pad_bottom = cv_pad l ! 1,
      a_pad_left = cv_pad l ! 2, a_pad_right = cv_pad l ! 3,
      a_dmul = s32_of_nat (cv_depth_mul l), a_ws = padd body (int (cv_ws_oft l)),
      a_in_s = h_in_s h, a_in_zp = h_in_zp h, a_out_s = h_out_s h, a_out_zp = h_out_zp h\<rparr>"

text \<open>The \<open>switch\<close> on the layer type.\<close>

definition dispatch_layer ::
  "mem \<Rightarrow> ptr \<Rightarrow> ptr \<Rightarrow> tml_head \<Rightarrow> tm_mat \<Rightarrow> tm_mat \<Rightarrow> (tm_err \<times> mem) option" where
  "dispatch_layer m buf body h inp out =
     (if h_type h = TML_CONV2D \<or> h_type h = TML_DWCONV2D then
        do { l \<leftarrow> ld_conv m body;
             tml_conv2d_dwconv2d (conv_args_of inp out body h l) m }
      else if h_type h = TML_GAP then
        tml_gap inp out (h_in_s h) (h_in_zp h) (h_out_s h) (h_out_zp h) m
      else if h_type h = TML_FC then
        do { l \<leftarrow> ld_fc m body;
             tml_fc inp out (padd body (int (fc_w_oft l))) (padd body (int (fc_b_oft l)))
               (padd body (int (fc_ws_oft l))) (h_in_s h) (h_in_zp h) (h_out_s h) (h_out_zp h) m }
      else if h_type h = TML_SOFTMAX then
        tml_softmax inp out (h_in_s h) (h_in_zp h) (h_out_s h) (h_out_zp h) m
      else if h_type h = TML_RESHAPE then
        tml_reshape inp out (h_in_s h) (h_in_zp h) (h_out_s h) (h_out_zp h) m
      else if h_type h = TML_ADD then
        do { l \<leftarrow> ld_add m body;
             let in1 = (set_dims inp (h_in_dims h))\<lparr>m_data := padd buf (int (ad_in_oft1 l))\<rparr>;
             tml_add inp in1 out (h_in_s h) (h_in_zp h) (ad_in_s1 l) (ad_in_zp1 l)
               (h_out_s h) (h_out_zp h) m }
      else Some (TM_ERR_LAYERTYPE, m))"

text \<open>An output layer: its tensor, dequantised after the bytes when the model asks for it.\<close>

definition dequant_out :: "tml_head \<Rightarrow> ptr \<Rightarrow> ptr \<Rightarrow> nat \<Rightarrow> mem \<Rightarrow> mem option" where
  "dequant_out h q outf i m =
     do { x \<leftarrow> ld_s8 m (padd q (int i));
          y \<leftarrow> tm_dequant x (h_out_s h) (h_out_zp h);
          st_f32 m (padd outf (4 * int i)) y }"

definition emit_output :: "int \<Rightarrow> ptr \<Rightarrow> ptr \<Rightarrow> tml_head \<Rightarrow> run_state \<Rightarrow> run_state option" where
  "emit_output base b buf h st =
     do { assert_ub (r_out_idx st < length (r_outs st));
          deq \<leftarrow> mdlbin_out_deq (r_mem st) b;
          let o0 = set_dims (r_outs st ! r_out_idx st) (h_out_dims h);
          let q = padd buf (int (h_out_oft h));
          let n = h_out_dims h ! 1 * h_out_dims h ! 2 * h_out_dims h ! 3;
          let outf = (fst q, tm_align (base + snd q + int n) - base);
          (o1, m) \<leftarrow> (if deq = 0 then Some (o0\<lparr>m_data := q\<rparr>, r_mem st)
                      else map_option (Pair (o0\<lparr>m_data := outf\<rparr>))
                             (for_upto n (dequant_out h q outf) (r_mem st)));
          Some (st\<lparr>r_mem := m, r_outs := (r_outs st)[r_out_idx st := o1],
                   r_out_idx := r_out_idx st + 1\<rparr>) }"

text \<open>One iteration of the layer loop; the counter \<open>layer_i\<close> is advanced by the loop.\<close>

definition run_layer :: "int \<Rightarrow> run_state \<Rightarrow> (tm_err \<times> run_state) option" where
  "run_layer base st =
     do { let mdl = r_mdl st;
          b \<leftarrow> mdl_b mdl;
          buf \<leftarrow> mdl_buf mdl;
          body \<leftarrow> mdl_layer_body mdl;
          h \<leftarrow> ld_head (r_mem st) body;
          let inp = (if mdl_layer_i mdl > 0
                     then (set_dims (r_in st) (h_in_dims h))\<lparr>m_data := padd buf (int (h_in_oft h))\<rparr>
                     else r_in st);
          let out = \<lparr>m_dims = h_out_dims h ! 0, m_h = h_out_dims h ! 1, m_w = h_out_dims h ! 2,
                     m_c = h_out_dims h ! 3, m_data = padd buf (int (h_out_oft h))\<rparr>;
          (res, m) \<leftarrow> dispatch_layer (r_mem st) buf body h inp out;
          let st = st\<lparr>r_mem := m, r_in := inp\<rparr>;
          if res \<noteq> TM_OK then Some (res, st)
          else do {
            st \<leftarrow> (if h_is_out h \<noteq> 0 then emit_output base b buf h st else Some st);
            Some (TM_OK, st\<lparr>r_mdl := mdl\<lparr>mdl_layer_i := mdl_layer_i mdl + 1,
                                          mdl_layer_body := Some (padd body (int (h_size h)))\<rparr>\<rparr>) } }"

fun run_layers :: "int \<Rightarrow> nat \<Rightarrow> run_state \<Rightarrow> (tm_err \<times> run_state) option" where
  "run_layers base 0 st = Some (TM_OK, st)"
| "run_layers base (Suc n) st =
     do { (res, st) \<leftarrow> run_layer base st;
          if res \<noteq> TM_OK then Some (res, st) else run_layers base n st }"

text \<open>
  The number of layers is read once here and before every layer in the source; the two agree while a run
  leaves the image alone, which it does whenever the buffer is another object (\<open>tm_run_keeps\<close>).
\<close>

definition tm_run ::
  "int \<Rightarrow> mem \<Rightarrow> tm_mdl \<Rightarrow> tm_mat \<Rightarrow> tm_mat list \<Rightarrow> (tm_err \<times> run_state) option" where
  "tm_run base m mdl inp outs =
     do { b \<leftarrow> mdl_b mdl;
          n \<leftarrow> mdlbin_layer_cnt m b;
          run_layers base n
            \<lparr>r_mem = m,
             r_mdl = mdl\<lparr>mdl_layer_body := Some (mdlbin_layers_body b), mdl_layer_i := 0\<rparr>,
             r_in = inp, r_outs = outs, r_out_idx = 0\<rparr> }"

end
