(* ===== verification/Model_Correct.thy ===== *)
theory Model_Correct
  imports Layer_Correct Tm_Model
begin

section \<open>Loading, preprocessing and running: what the engine promises\<close>

subsection \<open>Objects the engine never writes\<close>

text \<open>
  Every store of a layer goes to the object of its output pointer or to the scratch
  array. \<open>keeps R m m'\<close>: the objects outside \<open>R\<close> are unchanged and no object changes its
  size, whatever the contents of the model.
\<close>

definition keeps :: "region set \<Rightarrow> mem \<Rightarrow> mem \<Rightarrow> bool" where
  "keeps R m m' \<longleftrightarrow> (\<forall>r. r \<notin> R \<longrightarrow> m' r = m r) \<and> (\<forall>r. length (m' r) = length (m r))"

lemma keeps_refl: "keeps R m m"
  by (simp add: keeps_def)

lemma keeps_trans: "keeps R m m1 \<Longrightarrow> keeps R m1 m2 \<Longrightarrow> keeps R m m2"
  by (simp add: keeps_def)

lemma keeps_mono: "keeps R m m' \<Longrightarrow> R \<subseteq> S \<Longrightarrow> keeps S m m'"
  by (auto simp: keeps_def)

lemma keeps_st8: "st8 m p b = Some m' \<Longrightarrow> fst p \<in> R \<Longrightarrow> keeps R m m'"
  by (auto simp: st8_def keeps_def split: if_splits)

lemma keeps_for_upto:
  "for_upto n f s = Some s' \<Longrightarrow> (\<And>x t t'. f x t = Some t' \<Longrightarrow> keeps R (g t) (g t')) \<Longrightarrow> keeps R (g s) (g s')"
  unfolding for_upto_def
  by (rule foldM_rel [where Q = "\<lambda>t t'. keeps R (g t) (g t')"]) (auto intro: keeps_refl keeps_trans)

lemma keeps_st_bytes: "st_bytes m p bs = Some m' \<Longrightarrow> fst p \<in> R \<Longrightarrow> keeps R m m'"
  unfolding st_bytes_def by (drule keeps_for_upto [where g = "\<lambda>m. m" and R = R]) (auto intro: keeps_st8)

lemma keeps_st_f32: "st_f32 m p x = Some m' \<Longrightarrow> fst p \<in> R \<Longrightarrow> keeps R m m'"
  unfolding st_f32_def by (rule keeps_st_bytes)

lemma keeps_postprocess:
  "tm_postprocess_sum m accs bs act outp scales os oz = Some m' \<Longrightarrow> fst outp \<in> R \<Longrightarrow> keeps R m m'"
  unfolding tm_postprocess_sum_def
  by (drule keeps_for_upto [where g = "\<lambda>m. m" and R = R]) (auto simp: bind_eq_Some_conv intro: keeps_st8)

lemma keeps_gap:
  "tml_gap inp out is iz os oz m = Some (e, m') \<Longrightarrow> fst (m_data out) \<in> R \<Longrightarrow> keeps R m m'"
  unfolding tml_gap_def
  by (clarsimp, drule keeps_for_upto [where g = "\<lambda>m. m" and R = R]) (auto simp: bind_eq_Some_conv intro: keeps_st8)

lemma keeps_fc:
  "tml_fc inp out w b ws is iz os oz m = Some (e, m') \<Longrightarrow> fst (m_data out) \<in> R \<Longrightarrow> keeps R m m'"
  unfolding tml_fc_def
  by (clarsimp, drule keeps_for_upto [where g = "\<lambda>m. m" and R = R]) (auto simp: bind_eq_Some_conv intro: keeps_st8)

lemma keeps_softmax_dequant:
  "softmax_dequant inp out is iz c st = Some st' \<Longrightarrow> fst (m_data out) \<in> R \<Longrightarrow> keeps R (snd st) (snd st')"
  by (cases st) (auto simp: softmax_dequant_def Let_def bind_eq_Some_conv intro: keeps_st_f32)

lemma keeps_softmax_exp:
  "softmax_exp out dmax c st = Some st' \<Longrightarrow> fst (m_data out) \<in> R \<Longrightarrow> keeps R (snd st) (snd st')"
proof -
  let ?p = "sm_slot (m_data out) c"
  assume st: "softmax_exp out dmax c st = Some st'" and R: "fst (m_data out) \<in> R"
  obtain acc m where s: "st = (acc, m)" by (cases st)
  then obtain x1 x2 x3 m1 m2 m3 where "st_f32 m ?p x1 = Some m1" "st_f32 m1 ?p x2 = Some m2"
      "st_f32 m2 ?p x3 = Some m3" "m3 = snd st'"
    using st by (auto simp: softmax_exp_def Let_def bind_eq_Some_conv)
  with R s show ?thesis by (metis keeps_st_f32 keeps_trans fst_padd snd_conv)
qed

lemma keeps_softmax:
  assumes "tml_softmax inp out is iz os oz m = Some (e, m')" "fst (m_data out) \<in> R"
  shows "keeps R m m'"
proof -
  obtain dmax m1 acc m2 where m1: "for_upto (m_c inp) (softmax_dequant inp out is iz) (fp_neg (unpack32 0x7F7FFFFF), m) = Some (dmax, m1)"
    and m2: "for_upto (m_c inp) (softmax_exp out dmax) (f32_of_int 0, m1) = Some (acc, m2)"
    and m3: "for_upto (m_c inp) (softmax_quant out acc os oz) m2 = Some m'"
    using assms(1) by (auto simp: tml_softmax_def bind_eq_Some_conv)
  have "keeps R m m1"
    using keeps_for_upto [OF m1, of R snd] keeps_softmax_dequant assms(2) by fastforce
  moreover have "keeps R m1 m2"
    using keeps_for_upto [OF m2, of R snd] keeps_softmax_exp assms(2) by fastforce
  moreover have "keeps R m2 m'"
    using assms(2) by (intro keeps_for_upto [OF m3, of R "\<lambda>m. m"])
      (auto simp: softmax_quant_def bind_eq_Some_conv intro: keeps_st8)
  ultimately show ?thesis by (blast intro: keeps_trans)
qed

lemma keeps_add:
  "tml_add in0 in1 out is0 iz0 is1 iz1 os oz m = Some (e, m') \<Longrightarrow> fst (m_data out) \<in> R \<Longrightarrow> keeps R m m'"
  unfolding tml_add_plain
  by (clarsimp, drule keeps_for_upto [where g = "\<lambda>m. m" and R = R])
     (auto simp: add_elem_def bind_eq_Some_conv intro: keeps_st8)

text \<open>States that carry the output pointer beside the memory.\<close>

definition okeeps :: "region set \<Rightarrow> ptr \<times> mem \<Rightarrow> ptr \<times> mem \<Rightarrow> bool" where
  "okeeps R st st' \<longleftrightarrow> fst (fst st') = fst (fst st) \<and> (fst (fst st) \<in> R \<longrightarrow> keeps R (snd st) (snd st'))"

lemma okeeps_refl: "okeeps R st st"
  by (simp add: okeeps_def keeps_refl)

lemma okeeps_trans: "okeeps R a b \<Longrightarrow> okeeps R b c \<Longrightarrow> okeeps R a c"
  by (auto simp: okeeps_def intro: keeps_trans)

lemma okeeps_foldM:
  "foldM f xs s = Some s' \<Longrightarrow> (\<And>x t t'. f x t = Some t' \<Longrightarrow> okeeps R (g t) (g t')) \<Longrightarrow> okeeps R (g s) (g s')"
  by (rule foldM_rel [where Q = "\<lambda>t t'. okeeps R (g t) (g t')"]) (auto intro: okeeps_refl okeeps_trans)

lemma okeeps_postprocess:
  "tm_postprocess_sum m accs bs act outp scales os oz = Some m' \<Longrightarrow> okeeps R (outp, m) (padd outp k, m')"
  by (simp add: okeeps_def keeps_postprocess)

lemma okeeps_pw_pairs:
  "pw_pairs ca scales os sptr c kptr outp m = Some (c', kptr', outp', m') \<Longrightarrow> okeeps R (outp, m) (outp', m')"
proof (induction "conv_cho ca - c" arbitrary: c kptr outp m rule: less_induct)
  case less
  show ?case
  proof (cases "int c < int (conv_cho ca) - 2 + 1")
    case False
    with less.prems show ?thesis by (subst (asm) pw_pairs.simps) (simp add: okeeps_refl)
  next
    case True
    with less.prems obtain accs m1 where
      m1: "tm_postprocess_sum m accs (padd (a_b ca) (4 * int c)) (a_act ca) outp (drop c scales) os (a_out_zp ca) = Some m1"
      and rest: "pw_pairs ca scales os sptr (c + 2) (padd kptr (int (m_c (a_in ca) * 2))) (padd outp 2) m1 = Some (c', kptr', outp', m')"
      by (subst (asm) pw_pairs.simps) (auto simp: bind_eq_Some_conv)
    from True have "conv_cho ca - (c + 2) < conv_cho ca - c" by linarith
    from okeeps_trans [OF okeeps_postprocess [OF m1] less.hyps [OF this rest]] show ?thesis .
  qed
qed

lemma okeeps_pw_single: "pw_single ca scales os sptr c st = Some st' \<Longrightarrow> okeeps R (snd st) (snd st')"
proof -
  assume s: "pw_single ca scales os sptr c st = Some st'"
  obtain kptr outp m where st: "st = (kptr, outp, m)" by (cases st)
  from s obtain acc m2 where "tm_postprocess_sum m [acc] (padd (a_b ca) (4 * int c)) (a_act ca) outp
      (drop c scales) os (a_out_zp ca) = Some m2" "snd st' = (padd outp 1, m2)"
    by (auto simp: st pw_single_def bind_eq_Some_conv)
  then show ?thesis by (simp add: st okeeps_postprocess)
qed

lemma okeeps_pw_pixel: "pw_pixel ca scales os y x st = Some st' \<Longrightarrow> okeeps R st st'"
proof -
  let ?s = "pw_sptr ca y x"
  assume s: "pw_pixel ca scales os y x st = Some st'"
  obtain outp m where st: "st = (outp, m)" by (cases st)
  obtain c kptr outp1 m1 t where
    p: "pw_pairs ca scales os ?s 0 (a_w ca) outp m = Some (c, kptr, outp1, m1)"
    and f: "foldM (pw_single ca scales os ?s) [c..<conv_cho ca] (kptr, outp1, m1) = Some t" and st': "snd t = st'"
    using s by (auto simp: st pw_pixel_def Let_def bind_eq_Some_conv)
  have "okeeps R (snd (kptr, outp1, m1)) (snd t)" by (rule okeeps_foldM [OF f okeeps_pw_single])
  with okeeps_pw_pairs [OF p] show ?thesis by (auto simp: st st' intro: okeeps_trans)
qed

lemma keeps_copy_tap: "copy_tap ks sidx sptr k m = Some m' \<Longrightarrow> R_SBUF \<in> R \<Longrightarrow> keeps R m m'"
  by (auto simp: copy_tap_def bind_eq_Some_conv intro: keeps_st8)

lemma keeps_fill_windows:
  assumes "fill_windows ca base fill m = Some m'" "\<And>i p t t'. fill i p t = Some t' \<Longrightarrow> keeps R t t'"
  shows "keeps R m m'"
proof -
  obtain st where f: "for_upto (conv_windows ca) (\<lambda>cc (sidx, sptr, m).
      do { m \<leftarrow> fill sidx sptr m; Some (sidx + conv_maxk ca, next_sptr ca base cc, m) }) (0, base, m) = Some st"
    and "m' = snd (snd st)"
    using assms(1) by (auto simp: fill_windows_def)
  moreover have "keeps R (snd (snd (0 :: nat, base, m))) (snd (snd st))"
    using assms(2) by (intro keeps_for_upto [OF f, where g = "\<lambda>st. snd (snd st)"])
      (auto simp: bind_eq_Some_conv split: prod.splits)
  ultimately show ?thesis by simp
qed

lemma keeps_fold_taps:
  "foldM (copy_tap ks sidx sptr) xs m = Some m' \<Longrightarrow> R_SBUF \<in> R \<Longrightarrow> keeps R m m'"
  by (drule foldM_rel [where Q = "keeps R"]) (auto intro: keeps_refl keeps_trans keeps_copy_tap)

lemma keeps_fill_fast: "fill_fast ca ks base m = Some m' \<Longrightarrow> R_SBUF \<in> R \<Longrightarrow> keeps R m m'"
  unfolding fill_fast_def
  by (erule keeps_fill_windows) (auto simp: for_upto_def intro: keeps_fold_taps)

lemma keeps_fill_slow: "fill_slow ca ks y0 x0 base m = Some m' \<Longrightarrow> R_SBUF \<in> R \<Longrightarrow> keeps R m m'"
proof -
  assume f: "fill_slow ca ks y0 x0 base m = Some m'" and R: "R_SBUF \<in> R"
  obtain m1 ys xs where m1: "st_bytes m (R_SBUF, 0) (replicate (conv_windows ca * conv_maxk ca) (to_s8 (a_in_zp ca))) = Some m1"
    and w: "fill_windows ca base (\<lambda>sidx sptr. foldM (\<lambda>ky. foldM (\<lambda>kx. copy_tap ks sidx sptr (ky * a_kw ca + kx)) xs) ys) m1 = Some m'"
    using f by (auto simp: fill_slow_def Let_def bind_eq_Some_conv)
  have "keeps R m m1" using keeps_st_bytes [OF m1] R by simp
  moreover have "keeps R m1 m'"
    by (rule keeps_fill_windows [OF w]) (simp add: foldM_product foldM_map case_prod_unfold,
      erule foldM_rel [where Q = "keeps R"], auto intro: keeps_refl keeps_trans keeps_copy_tap R)
  ultimately show ?thesis by (rule keeps_trans)
qed

lemma okeeps_conv_channel: "conv_channel ca scales os c st = Some st' \<Longrightarrow> okeeps R (snd st) (snd st')"
proof -
  assume s: "conv_channel ca scales os c st = Some st'"
  obtain sptr outp m where st: "st = (sptr, outp, m)" by (cases st)
  from s obtain acc m2 where "tm_postprocess_sum m [acc] (padd (a_b ca) (4 * int c)) (a_act ca) outp
      (drop c scales) os (a_out_zp ca) = Some m2" "snd st' = (padd outp 1, m2)"
    by (auto simp: st conv_channel_def Let_def bind_eq_Some_conv)
  then show ?thesis by (simp add: st okeeps_postprocess)
qed

lemma okeeps_conv_pixel: "conv_pixel ca ks scales os y x st = Some st' \<Longrightarrow> R_SBUF \<in> R \<Longrightarrow> okeeps R st st'"
proof -
  assume s: "conv_pixel ca ks scales os y x st = Some st'" and R: "R_SBUF \<in> R"
  obtain outp m where st: "st = (outp, m)" by (cases st)
  let ?base = "tm_matp (a_in ca) (src_y0 ca y) (src_x0 ca x) 0"
  obtain m1 t where m1: "(if \<not> slow_flag ca y x then fill_fast ca ks ?base m
      else fill_slow ca ks (src_y0 ca y) (src_x0 ca x) ?base m) = Some m1"
    and f: "for_upto (conv_cho ca) (conv_channel ca scales os) ((R_SBUF, 0), outp, m1) = Some t" and st': "snd t = st'"
    using s by (auto simp: st conv_pixel_def Let_def bind_eq_Some_conv)
  have "keeps R m m1" using m1 R keeps_fill_fast keeps_fill_slow by (auto split: if_splits)
  then have "okeeps R st (outp, m1)" by (simp add: okeeps_def st)
  moreover have "okeeps R (outp, m1) (snd t)"
    using okeeps_foldM [where g = snd, OF f [unfolded for_upto_def] okeeps_conv_channel] by simp
  ultimately show ?thesis by (auto simp: st' intro: okeeps_trans)
qed

lemma okeeps_for_pixels:
  assumes "for_pixels out f st = Some st'" "\<And>y x t t'. f y x t = Some t' \<Longrightarrow> okeeps R t t'"
  shows "okeeps R st st'"
proof -
  have row: "for_upto n (f y) t = Some t' \<Longrightarrow> okeeps R t t'" for n y t t'
    unfolding for_upto_def by (erule okeeps_foldM [where g = "\<lambda>t. t"]) (rule assms(2))
  show ?thesis
    using assms(1) unfolding for_pixels_def for_upto_def [of "m_h out"]
    by (rule okeeps_foldM [where g = "\<lambda>t. t"]) (rule row)
qed

lemma keeps_conv:
  assumes "tml_conv2d_dwconv2d ca m = Some (e, m')" "fst (m_data (a_out ca)) \<in> R" "R_SBUF \<in> R"
  shows "keeps R m m'"
proof -
  have pw: "keeps R m m2" if "for_pixels (a_out ca) (pw_pixel ca s os) (m_data (a_out ca), m) = Some (p, m2)" for s os p m2
    using okeeps_for_pixels [OF that, of R, OF okeeps_pw_pixel] assms(2) by (simp add: okeeps_def)
  have win: "keeps R m m2" if "for_pixels (a_out ca) (conv_pixel ca ks s os) (m_data (a_out ca), m) = Some (p, m2)" for ks s os p m2
    using okeeps_for_pixels [OF that, of R, OF okeeps_conv_pixel [OF _ assms(3)]] assms(2) by (simp add: okeeps_def)
  show ?thesis
    using assms(1) pw win
    by (auto simp: tml_conv2d_dwconv2d_def Let_def bind_eq_Some_conv keeps_refl split: if_splits)
qed

lemma keeps_dispatch:
  assumes "dispatch_layer m buf body h inp out = Some (e, m')" "fst (m_data out) \<in> R" "R_SBUF \<in> R"
  shows "keeps R m m'"
  using assms keeps_conv [of "conv_args_of inp out body h l" m e m' R for l]
  by (auto simp: dispatch_layer_def Let_def tml_reshape_def conv_args_of_def bind_eq_Some_conv keeps_refl
      intro: keeps_gap keeps_fc keeps_softmax keeps_add split: if_splits)

lemma keeps_emit_output:
  assumes "emit_output base b buf h st = Some st'" "fst buf \<in> R"
  shows "keeps R (r_mem st) (r_mem st')"
proof -
  have deq: "keeps R m m'" if "for_upto n (dequant_out h q outf) m = Some m'" "fst outf \<in> R" for n q outf m m'
    by (rule keeps_for_upto [OF that(1), where g = "\<lambda>m. m"])
       (auto simp: dequant_out_def bind_eq_Some_conv that(2) elim!: keeps_st_f32)
  from assms show ?thesis
    by (auto simp: emit_output_def Let_def bind_eq_Some_conv keeps_refl intro: deq split: if_splits)
qed

text \<open>The handle keeps its buffers, so the writable objects stay the same along a run.\<close>

definition writable :: "run_state \<Rightarrow> region set" where
  "writable st = {R_SBUF} \<union> (case mdl_buf (r_mdl st) of None \<Rightarrow> {} | Some p \<Rightarrow> {fst p})"

definition layer_moved :: "run_state \<Rightarrow> ptr \<Rightarrow> tml_head \<Rightarrow> run_state \<Rightarrow> run_state" where
  "layer_moved st body h st2 =
     st2\<lparr>r_mdl := (r_mdl st)\<lparr>mdl_layer_i := mdl_layer_i (r_mdl st) + 1,
       mdl_layer_body := Some (padd body (int (h_size h)))\<rparr>\<rparr>"

text \<open>What one iteration does, by the outcome of the layer.\<close>

lemma run_layer_cases:
  assumes "run_layer base st = Some (e, st')"
  obtains b buf body h inp out m st1 where
    "mdl_buf (r_mdl st) = Some buf" "mdl_layer_body (r_mdl st) = Some body"
    "ld_head (r_mem st) body = Some h" "fst (m_data out) = fst buf"
    "st1 = st\<lparr>r_mem := m, r_in := inp\<rparr>"
    "dispatch_layer (r_mem st) buf body h inp out = Some (e, m)"
    "e \<noteq> TM_OK \<and> st' = st1 \<or>
     e = TM_OK \<and> h_is_out h = 0 \<and> st' = layer_moved st body h st1 \<or>
     e = TM_OK \<and> h_is_out h \<noteq> 0 \<and> (\<exists>st2. emit_output base b buf h st1 = Some st2 \<and> st' = layer_moved st body h st2)"
proof -
  obtain b buf body h where b: "mdl_b (r_mdl st) = Some b" and buf: "mdl_buf (r_mdl st) = Some buf"
    and body: "mdl_layer_body (r_mdl st) = Some body" and h: "ld_head (r_mem st) body = Some h"
    using assms by (auto simp: run_layer_def Let_def bind_eq_Some_conv)
  define inp where "inp = (if mdl_layer_i (r_mdl st) > 0
    then (set_dims (r_in st) (h_in_dims h))\<lparr>m_data := padd buf (int (h_in_oft h))\<rparr> else r_in st)"
  define out where "out = \<lparr>m_dims = h_out_dims h ! 0, m_h = h_out_dims h ! 1, m_w = h_out_dims h ! 2,
                     m_c = h_out_dims h ! 3, m_data = padd buf (int (h_out_oft h))\<rparr>"
  obtain res m where d: "dispatch_layer (r_mem st) buf body h inp out = Some (res, m)"
    and rest: "(if res \<noteq> TM_OK then Some (res, st\<lparr>r_mem := m, r_in := inp\<rparr>)
       else do { st2 \<leftarrow> (if h_is_out h \<noteq> 0 then emit_output base b buf h (st\<lparr>r_mem := m, r_in := inp\<rparr>)
                        else Some (st\<lparr>r_mem := m, r_in := inp\<rparr>));
            Some (TM_OK, layer_moved st body h st2) }) = Some (e, st')"
    using assms unfolding run_layer_def Let_def b buf body h Option.bind.bind_lunit inp_def [symmetric]
      out_def [symmetric] layer_moved_def
    by (auto simp: bind_eq_Some_conv)
  have "res = e" using rest by (auto simp: bind_eq_Some_conv split: if_splits)
  with d have "dispatch_layer (r_mem st) buf body h inp out = Some (e, m)" by simp
  moreover have "fst (m_data out) = fst buf" by (simp add: out_def)
  moreover have "e \<noteq> TM_OK \<and> st' = st\<lparr>r_mem := m, r_in := inp\<rparr> \<or>
     e = TM_OK \<and> h_is_out h = 0 \<and> st' = layer_moved st body h (st\<lparr>r_mem := m, r_in := inp\<rparr>) \<or>
     e = TM_OK \<and> h_is_out h \<noteq> 0 \<and>
       (\<exists>st2. emit_output base b buf h (st\<lparr>r_mem := m, r_in := inp\<rparr>) = Some st2 \<and> st' = layer_moved st body h st2)"
    using rest by (cases "res = TM_OK"; cases "h_is_out h = 0") (auto simp: bind_eq_Some_conv)
  ultimately show thesis using that [OF buf body h _ refl] by blast
qed

lemma run_layer_keeps:
  assumes "run_layer base st = Some (e, st')"
  shows "writable st' = writable st \<and> keeps (writable st) (r_mem st) (r_mem st')"
  using assms
proof (rule run_layer_cases)
  fix b buf body h inp out m st1
  assume buf: "mdl_buf (r_mdl st) = Some buf" and out: "fst (m_data out) = fst buf"
    and st1: "st1 = st\<lparr>r_mem := m, r_in := inp\<rparr>"
    and d: "dispatch_layer (r_mem st) buf body h inp out = Some (e, m)"
    and cs: "e \<noteq> TM_OK \<and> st' = st1 \<or> e = TM_OK \<and> h_is_out h = 0 \<and> st' = layer_moved st body h st1 \<or>
     e = TM_OK \<and> h_is_out h \<noteq> 0 \<and> (\<exists>st2. emit_output base b buf h st1 = Some st2 \<and> st' = layer_moved st body h st2)"
  have R: "fst buf \<in> writable st" "R_SBUF \<in> writable st" using buf by (auto simp: writable_def)
  have k1: "keeps (writable st) (r_mem st) (r_mem st1)"
    using keeps_dispatch [OF d, of "writable st"] R out st1 by simp
  have moved: "writable (layer_moved st body h st2) = writable st" for st2
    by (simp add: layer_moved_def writable_def)
  have mem: "r_mem (layer_moved st body h st2) = r_mem st2" for st2 by (simp add: layer_moved_def)
  have same: "writable st1 = writable st" by (simp add: st1 writable_def)
  have k2: "keeps (writable st) (r_mem st1) (r_mem st2)" if "emit_output base b buf h st1 = Some st2" for st2
    using keeps_emit_output [OF that R(1)] .
  from cs show ?thesis
  proof (elim disjE conjE exE)
    fix st2 assume "emit_output base b buf h st1 = Some st2" "st' = layer_moved st body h st2"
    with moved keeps_trans [OF k1 k2] show ?thesis by (simp add: mem)
  qed (use k1 moved same in \<open>simp_all add: mem\<close>)
qed

lemma run_layers_keeps:
  "run_layers base n st = Some (e, st') \<Longrightarrow>
   writable st' = writable st \<and> keeps (writable st) (r_mem st) (r_mem st')"
proof (induction n arbitrary: st)
  case 0
  then show ?case by (simp add: keeps_refl)
next
  case (Suc n)
  then obtain res st1 where l: "run_layer base st = Some (res, st1)"
    and r: "(if res \<noteq> TM_OK then Some (res, st1) else run_layers base n st1) = Some (e, st')"
    by (auto simp: bind_eq_Some_conv)
  show ?case
  proof (cases "res = TM_OK")
    case True
    with r have "run_layers base n st1 = Some (e, st')" by simp
    from Suc.IH [OF this] run_layer_keeps [OF l] show ?thesis by (auto intro: keeps_trans)
  next
    case False
    with r run_layer_keeps [OF l] show ?thesis by simp
  qed
qed

lemma tm_run_keeps:
  assumes "tm_run base m mdl inp outs = Some (e, st)" "mdl_buf mdl = Some buf"
  shows "keeps {fst buf, R_SBUF} m (r_mem st)"
proof -
  obtain b n where "run_layers base n \<lparr>r_mem = m,
      r_mdl = mdl\<lparr>mdl_layer_body := Some (mdlbin_layers_body b), mdl_layer_i := 0\<rparr>,
      r_in = inp, r_outs = outs, r_out_idx = 0\<rparr> = Some (e, st)"
    using assms(1) by (auto simp: tm_run_def bind_eq_Some_conv)
  from run_layers_keeps [OF this] assms(2) show ?thesis
    by (auto simp: writable_def insert_commute)
qed

subsection \<open>Loading\<close>

lemma ld_bytes_sub:
  assumes "ld_bytes m p n = Some bs" "i + k \<le> n"
  shows "ld_bytes m (padd p (int i)) k = Some (take k (drop i bs))"
proof -
  have len: "length bs = n" and v: "\<And>j. j < n \<Longrightarrow> ld8 m (padd p (int j)) = Some (bs ! j)"
    using those_map_SomeD [OF assms(1) [unfolded ld_bytes_def]] by auto
  have "ld_bytes m (padd p (int i)) k = Some (map (\<lambda>j. bs ! (i + j)) [0..<k])"
    unfolding ld_bytes_def using v assms(2) by (intro those_map_Some) (auto simp flip: of_nat_add)
  also have "map (\<lambda>j. bs ! (i + j)) [0..<k] = take k (drop i bs)"
    using len assms(2) by (intro nth_equalityI) auto
  finally show ?thesis .
qed

definition image_dims :: "mem \<Rightarrow> ptr \<Rightarrow> tm_mat \<Rightarrow> tm_mat" where
  "image_dims m bin mat =
     mat\<lparr>m_dims := the (ld_u16 m (padd bin 20)), m_h := the (ld_u16 m (padd bin 22)),
         m_w := the (ld_u16 m (padd bin 24)), m_c := the (ld_u16 m (padd bin 26))\<rparr>"

definition loaded_mdl :: "tm_mdl \<Rightarrow> ptr \<Rightarrow> ptr \<Rightarrow> bool \<Rightarrow> tm_mdl" where
  "loaded_mdl mdl bin buf cb =
     mdl\<lparr>mdl_b := Some bin, mdl_cb := cb, mdl_buf := Some buf, mdl_main_alloc := 0, mdl_subbuf := None\<rparr>"

text \<open>Every outcome of a load into a given buffer, by the header of the image.\<close>

lemma load_outcomes:
  assumes "in_object m bin 64"
  shows "tm_load m mdl bin (Some buf) cb inp = Some
    (if mdlbin_magic m bin \<noteq> Some TM_MDL_MAGIC then (TM_ERR_MAGIC, mdl, inp)
     else if mdlbin_mdl_type m bin \<noteq> Some TM_MDL_TYPE then (TM_ERR_MDLTYPE, mdl, inp)
     else if mdlbin_sub_size m bin \<noteq> Some 0 then (TM_ERR_OOM, loaded_mdl mdl bin buf cb, inp)
     else (TM_OK, (loaded_mdl mdl bin buf cb)\<lparr>mdl_layer_i := 0, mdl_layer_body := Some (padd bin 64)\<rparr>,
           image_dims m bin \<lparr>m_dims = 0, m_h = 0, m_w = 0, m_c = 0, m_data = buf\<rparr>))"
proof -
  have obj: "in_object m (padd bin (int i)) k" if "i + k \<le> 64" for i k
    using assms that by (rule in_object_sub)
  obtain bs where bs: "ld_bytes m bin 64 = Some bs" using ld_bytes_in_object [OF assms] by blast
  have sub: "ld_bytes m (padd bin (int i)) k = Some (take k (drop i bs))" if "i + k \<le> 64" for i k
    using ld_bytes_sub [OF bs that] .
  obtain v where magic: "mdlbin_magic m bin = Some v"
    using sub [of 0 4] by (simp add: mdlbin_magic_def ld_u32_def)
  obtain ss where subs: "mdlbin_sub_size m bin = Some ss"
    using sub [of 16 4] by (simp add: mdlbin_sub_size_def ld_u32_def)
  obtain ty where ty: "mdlbin_mdl_type m bin = Some ty"
    using ld8_in_object [OF assms, of 4] by (auto simp: mdlbin_mdl_type_def ld_u8_def)
  have dims: "ld_bytes m (mdlbin_in_dims bin) 12 = Some (take 12 (drop 20 bs))"
    using sub [of 20 12] by (simp add: mdlbin_in_dims_def)
  have d: "ld_u16 m (padd bin 20) = Some (le_nat (take 2 (drop 20 bs)))"
    "ld_u16 m (padd bin 22) = Some (le_nat (take 2 (drop 22 bs)))"
    "ld_u16 m (padd bin 24) = Some (le_nat (take 2 (drop 24 bs)))"
    "ld_u16 m (padd bin 26) = Some (le_nat (take 2 (drop 26 bs)))"
    using sub [of 20 2] sub [of 22 2] sub [of 24 2] sub [of 26 2] by (simp_all add: ld_u16_def)
  show ?thesis
    unfolding tm_load_def magic ty subs dims
    by (auto simp: Let_def d image_dims_def loaded_mdl_def tm_malloc_def mdlbin_layers_body_def min_def
        take_drop take_take drop_drop)
qed

text \<open>Without a buffer there is no memory to load into.\<close>

lemma load_no_buffer:
  "tm_load m mdl bin None cb inp = Some (e, mdl', inp') \<Longrightarrow>
   e \<in> {TM_ERR_MAGIC, TM_ERR_MDLTYPE, TM_ERR_OOM} \<and> inp' = inp"
  by (auto simp: tm_load_def Let_def tm_malloc_def bind_eq_Some_conv split: if_splits)

subsection \<open>Preprocessing a picture\<close>

lemma preprocess_value: "in_s8 x \<Longrightarrow> sint (to_s8 (shl_s32 (sint (to_s8 x)) 0)) = x"
proof -
  assume r: "in_s8 x"
  then have "in_s32 x" by (auto simp: in_s8_def in_s32_def)
  then have "shl_s32 (sint (to_s8 x)) 0 = x" by (simp add: sint_to_s8 [OF r] shl_s32_def wrap_s32_id)
  then show ?thesis by (simp add: sint_to_s8 [OF r])
qed

lemma byte_minus_128: "in_s8 (int (unat (b :: byte)) - 128)"
  using unat_byte_lt [of b] unfolding in_s8_def by linarith

lemma ld_word_in_object: "in_object m p 4 \<Longrightarrow> \<exists>n. ld_u32 m p = Some n"
  using ld_bytes_in_object [of m p 4] by (auto simp: ld_u32_def)

definition preprocess_ready :: "mem \<Rightarrow> tm_mdl \<Rightarrow> tm_mat \<Rightarrow> tm_mat \<Rightarrow> bool" where
  "preprocess_ready m mdl inp out \<longleftrightarrow>
     (case mdl_b mdl of None \<Rightarrow> False | Some b \<Rightarrow> in_object m (padd (mdlbin_layers_body b) 32) 8) \<and>
     elementwise m (m_data inp) (m_data out) (mat_size inp) \<and> in_object m (m_data out) (mat_size inp)"

lemma preprocess_uint2int:
  assumes rdy: "preprocess_ready m mdl inp out"
  shows "\<exists>m'. tm_preprocess m mdl TMPP_UINT2INT inp out = Some (TM_OK, out, m') \<and>
    cm.agree_off (cells (m_data out) (mat_size inp)) m m' \<and>
    (\<forall>i<mat_size inp. \<exists>b b'. ld8 m (padd (m_data inp) (int i)) = Some b \<and>
       ld8 m' (padd (m_data out) (int i)) = Some b' \<and> sint b' = int (unat b) - 128)"
proof -
  let ?n = "mat_size inp" and ?a = "\<lambda>i. padd (m_data out) (int i)"
  let ?f = "\<lambda>u. to_s8 (shl_s32 (sint (to_s8 (int u - 128))) 0)"
  let ?v = "\<lambda>i. ?f (unat (the (ld8 m (padd (m_data inp) (int i)))))"
  have e: "elementwise m (m_data inp) (m_data out) ?n" using rdy by (simp add: preprocess_ready_def)
  obtain b where b: "mdl_b mdl = Some b" and hd: "in_object m (padd (mdlbin_layers_body b) (int 32)) 8"
    using rdy by (auto simp: preprocess_ready_def split: option.splits)
  have "in_object m (padd (mdlbin_layers_body b) 32) 4" "in_object m (padd (mdlbin_layers_body b) 36) 4"
    using hd by (auto simp: in_object_def)
  from this [THEN ld_word_in_object] obtain x y
    where "ld_u32 m (padd (mdlbin_layers_body b) 32) = Some x" "ld_u32 m (padd (mdlbin_layers_body b) 36) = Some y"
    by blast
  then have q: "ld_f32 m (padd (mdlbin_layers_body b) 32) = Some (unpack32 x)"
    "ld_s32 m (padd (mdlbin_layers_body b) 36) = Some (s32_of_nat y)" by (simp_all add: ld_f32_def ld_s32_def)
  have "\<exists>m'. for_upto ?n (\<lambda>i m. Option.bind (map_option ?f (ld_u8 m (padd (m_data inp) (int i)))) (st8 m (?a i))) m = Some m' \<and>
      cm.agree_off (?a ` {..<?n}) m m' \<and> (\<forall>i<?n. ld8 m' (?a i) = Some (?v i))"
  proof (rule cm.store_loop)
    fix i m'
    assume i: "i < ?n" and ag: "cm.agree_off (?a ` {..<?n} - {?a i}) m m'"
    show "map_option ?f (ld_u8 m' (padd (m_data inp) (int i))) = Some (?v i)"
      using elementwise_cell [OF e ag i] by (auto simp: ld_u8_def)
  next
    show "ld8 m (?a i) \<noteq> None" if "i < ?n" for i
      by (rule ld8_in_object [of m _ ?n]) (use rdy that in \<open>simp_all add: preprocess_ready_def\<close>)
  qed simp
  moreover have "(\<lambda>i m. Option.bind (map_option ?f (ld_u8 m (padd (m_data inp) (int i)))) (st8 m (?a i))) = pre_uint2int inp out"
    by (intro ext) (simp add: pre_uint2int_def Option.bind_map_option comp_def)
  ultimately obtain m' where m': "for_upto ?n (pre_uint2int inp out) m = Some m'"
    "cm.agree_off (cells (m_data out) ?n) m m'" and v: "\<forall>i<?n. ld8 m' (?a i) = Some (?v i)"
    by (auto simp: cells_def)
  have "\<exists>b b'. ld8 m (padd (m_data inp) (int i)) = Some b \<and> ld8 m' (?a i) = Some b' \<and> sint b' = int (unat b) - 128"
    if "i < ?n" for i
  proof -
    have "ld8 m (padd (m_data inp) (int i)) \<noteq> None"
      by (rule ld8_in_object [of m _ ?n]) (use e that in \<open>simp_all add: elementwise_def\<close>)
    then obtain b where b: "ld8 m (padd (m_data inp) (int i)) = Some b" by blast
    with v that have "ld8 m' (?a i) = Some (?f (unat b))" by simp
    with b preprocess_value [OF byte_minus_128, of b] show ?thesis by blast
  qed
  with m' show ?thesis by (auto simp: tm_preprocess_def b q mat_size_def)
qed

subsection \<open>The order of the layers\<close>

text \<open>The headers of the image, found by following the sizes.\<close>

fun layer_heads :: "mem \<Rightarrow> ptr \<Rightarrow> nat \<Rightarrow> tml_head list option" where
  "layer_heads m p 0 = Some []"
| "layer_heads m p (Suc n) =
     do { h \<leftarrow> ld_head m p; hs \<leftarrow> layer_heads m (padd p (int (h_size h))) n; Some (h # hs) }"

definition heads_size :: "tml_head list \<Rightarrow> nat" where
  "heads_size hs = sum_list (map h_size hs)"

definition out_heads :: "tml_head list \<Rightarrow> nat" where
  "out_heads hs = length (filter (\<lambda>h. h_is_out h \<noteq> 0) hs)"

definition known_layer :: "nat \<Rightarrow> bool" where
  "known_layer ty \<longleftrightarrow> ty \<in> {TML_CONV2D, TML_GAP, TML_FC, TML_SOFTMAX, TML_RESHAPE, TML_DWCONV2D, TML_ADD}"

lemma ld_bytes_region: "m' (fst p) = m (fst p) \<Longrightarrow> ld_bytes m' p n = ld_bytes m p n"
  by (rule ld_bytes_agree) (simp add: ld8_def)

lemma ld_head_region:
  assumes "m' (fst p) = m (fst p)"
  shows "ld_head m' p = ld_head m p"
proof -
  have eq: "ld_bytes m' (padd p k) n = ld_bytes m (padd p k) n" for k n
    using assms by (intro ld_bytes_region) simp
  from eq [of 0] have "ld_bytes m' p n = ld_bytes m p n" for n by simp
  with eq show ?thesis
    unfolding ld_head_def ld_dims_def ld_u16_def ld_u32_def ld_s32_def ld_f32_def by (simp only: padd_padd)
qed

lemma layer_heads_region: "m' (fst p) = m (fst p) \<Longrightarrow> layer_heads m' p n = layer_heads m p n"
proof (induction n arbitrary: p)
  case (Suc n)
  then have "layer_heads m' (padd p (int k)) n = layer_heads m (padd p (int k)) n" for k by simp
  then show ?case by (simp add: ld_head_region [of m' p m, OF Suc.prems])
qed simp

lemma dispatch_known:
  "dispatch_layer m buf body h inp out = Some (e, m') \<Longrightarrow> \<not> known_layer (h_type h) \<Longrightarrow> e = TM_ERR_LAYERTYPE \<and> m' = m"
  by (auto simp: dispatch_layer_def known_layer_def split: if_splits)

lemma emit_output_idx:
  "emit_output base b buf h st = Some st' \<Longrightarrow>
   r_out_idx st' = Suc (r_out_idx st) \<and> length (r_outs st') = length (r_outs st) \<and> r_mdl st' = r_mdl st"
  by (auto simp: emit_output_def Let_def bind_eq_Some_conv split: if_splits)

text \<open>One iteration: either it fails and the index stays, or the handle moves to the next layer.\<close>

lemma run_layer_step:
  assumes "run_layer base st = Some (e, st')" "mdl_layer_body (r_mdl st) = Some p"
  shows "\<exists>h. ld_head (r_mem st) p = Some h \<and>
    (if e = TM_OK
     then known_layer (h_type h) \<and>
       mdl_layer_i (r_mdl st') = Suc (mdl_layer_i (r_mdl st)) \<and>
       mdl_layer_body (r_mdl st') = Some (padd p (int (h_size h))) \<and>
       r_out_idx st' = r_out_idx st + (if h_is_out h \<noteq> 0 then 1 else 0)
     else mdl_layer_i (r_mdl st') = mdl_layer_i (r_mdl st))"
  using assms(1)
proof (rule run_layer_cases)
  fix b buf body h inp out m st1
  assume body: "mdl_layer_body (r_mdl st) = Some body" and h: "ld_head (r_mem st) body = Some h"
    and st1: "st1 = st\<lparr>r_mem := m, r_in := inp\<rparr>"
    and d: "dispatch_layer (r_mem st) buf body h inp out = Some (e, m)"
    and cs: "e \<noteq> TM_OK \<and> st' = st1 \<or> e = TM_OK \<and> h_is_out h = 0 \<and> st' = layer_moved st body h st1 \<or>
     e = TM_OK \<and> h_is_out h \<noteq> 0 \<and> (\<exists>st2. emit_output base b buf h st1 = Some st2 \<and> st' = layer_moved st body h st2)"
  have "known_layer (h_type h)" if "e = TM_OK" using dispatch_known [OF d] that by auto
  with cs h body assms(2) show ?thesis
    by (elim disjE conjE exE) (auto simp: layer_moved_def st1 dest: emit_output_idx)
qed

lemma run_layers_order:
  assumes "run_layers base n st = Some (e, st')" "mdl_layer_body (r_mdl st) = Some p" "fst p \<notin> writable st"
  shows "if e = TM_OK
    then \<exists>hs. layer_heads (r_mem st) p n = Some hs \<and> (\<forall>h\<in>set hs. known_layer (h_type h)) \<and>
      mdl_layer_i (r_mdl st') = mdl_layer_i (r_mdl st) + n \<and>
      mdl_layer_body (r_mdl st') = Some (padd p (int (heads_size hs))) \<and>
      r_out_idx st' = r_out_idx st + out_heads hs
    else \<exists>k<n. mdl_layer_i (r_mdl st') = mdl_layer_i (r_mdl st) + k"
  using assms
proof (induction n arbitrary: st p)
  case 0
  then show ?case by (auto simp: heads_size_def out_heads_def)
next
  case (Suc n)
  obtain res st1 where l: "run_layer base st = Some (res, st1)"
    and r: "(if res \<noteq> TM_OK then Some (res, st1) else run_layers base n st1) = Some (e, st')"
    using Suc.prems(1) by (auto simp: bind_eq_Some_conv)
  obtain h where h: "ld_head (r_mem st) p = Some h" and step: "if res = TM_OK
     then known_layer (h_type h) \<and> mdl_layer_i (r_mdl st1) = Suc (mdl_layer_i (r_mdl st)) \<and>
       mdl_layer_body (r_mdl st1) = Some (padd p (int (h_size h))) \<and>
       r_out_idx st1 = r_out_idx st + (if h_is_out h \<noteq> 0 then 1 else 0)
     else mdl_layer_i (r_mdl st1) = mdl_layer_i (r_mdl st)"
    using run_layer_step [OF l Suc.prems(2)] by blast
  show ?case
  proof (cases "res = TM_OK")
    case False
    with r step show ?thesis by auto
  next
    case True
    let ?q = "padd p (int (h_size h))"
    have k: "writable st1 = writable st" "keeps (writable st) (r_mem st) (r_mem st1)"
      using run_layer_keeps [OF l] by auto
    have r1: "run_layers base n st1 = Some (e, st')" using True r by simp
    have hs1: "layer_heads (r_mem st1) ?q n = layer_heads (r_mem st) ?q n"
      using k(2) Suc.prems(3) by (intro layer_heads_region) (simp add: keeps_def)
    have "mdl_layer_body (r_mdl st1) = Some ?q" "fst ?q \<notin> writable st1" using True step k Suc.prems(3) by auto
    from Suc.IH [OF r1 this] show ?thesis
      using True step h unfolding hs1
      by (cases "e = TM_OK") (auto simp: heads_size_def out_heads_def)
  qed
qed

subsection \<open>The handle and the outputs along a run\<close>

definition run_same :: "run_state \<Rightarrow> run_state \<Rightarrow> bool" where
  "run_same st st' \<longleftrightarrow> mdl_b (r_mdl st') = mdl_b (r_mdl st) \<and> mdl_buf (r_mdl st') = mdl_buf (r_mdl st) \<and>
     length (r_outs st') = length (r_outs st)"

lemma run_layer_same: "run_layer base st = Some (e, st') \<Longrightarrow> run_same st st'"
proof (erule run_layer_cases)
  fix b buf body h inp out m st1
  assume st1: "st1 = st\<lparr>r_mem := m, r_in := inp\<rparr>"
    and cs: "e \<noteq> TM_OK \<and> st' = st1 \<or> e = TM_OK \<and> h_is_out h = 0 \<and> st' = layer_moved st body h st1 \<or>
     e = TM_OK \<and> h_is_out h \<noteq> 0 \<and> (\<exists>st2. emit_output base b buf h st1 = Some st2 \<and> st' = layer_moved st body h st2)"
  from cs show "run_same st st'"
    by (elim disjE conjE exE) (auto simp: layer_moved_def st1 run_same_def dest: emit_output_idx)
qed

lemma run_layers_same: "run_layers base n st = Some (e, st') \<Longrightarrow> run_same st st'"
proof (induction n arbitrary: st)
  case (Suc n)
  then obtain res st1 where l: "run_layer base st = Some (res, st1)"
    and r: "(if res \<noteq> TM_OK then Some (res, st1) else run_layers base n st1) = Some (e, st')"
    by (auto simp: bind_eq_Some_conv)
  from run_layer_same [OF l] Suc.IH [of st1] r show ?case
    by (auto simp: run_same_def split: if_splits)
qed (simp add: run_same_def)

lemma tm_run_same:
  "tm_run base m mdl inp outs = Some (e, st) \<Longrightarrow>
   mdl_b (r_mdl st) = mdl_b mdl \<and> mdl_buf (r_mdl st) = mdl_buf mdl \<and> length (r_outs st) = length outs"
  by (auto simp: tm_run_def bind_eq_Some_conv run_same_def dest!: run_layers_same)

lemma keeps_preprocess:
  "tm_preprocess m mdl pp inp out = Some (e, out', m') \<Longrightarrow> fst (m_data out) \<in> R \<Longrightarrow> keeps R m m'"
proof -
  assume p: "tm_preprocess m mdl pp inp out = Some (e, out', m')" and R: "fst (m_data out) \<in> R"
  have "keeps R m m'" if "for_upto n (pre_uint2int inp out) m = Some m'" for n
    by (rule keeps_for_upto [OF that, where g = "\<lambda>m. m"])
       (auto simp: pre_uint2int_def bind_eq_Some_conv R elim!: keeps_st8)
  moreover have "keeps R m m'" if "for_upto n (pre_fp2int inp out s z) m = Some m'" for n s z
    by (rule keeps_for_upto [OF that, where g = "\<lambda>m. m"])
       (auto simp: pre_fp2int_def bind_eq_Some_conv R elim!: keeps_st8)
  ultimately show ?thesis
    using p by (cases pp) (auto simp: tm_preprocess_def Let_def bind_eq_Some_conv keeps_refl)
qed

text \<open>\<open>UINT2INT\<close> keeps the tensor it writes.\<close>

lemma preprocess_same_out: "tm_preprocess m mdl TMPP_UINT2INT inp out = Some (e, out', m') \<Longrightarrow> out' = out \<and> e = TM_OK"
  by (auto simp: tm_preprocess_def Let_def bind_eq_Some_conv)

end
