(* ===== verification/Layer_Order.thy ===== *)
theory Layer_Order
  imports Model_Correct
begin

section \<open>A run of the layers against the image\<close>

text \<open>
  What a run should do, read off the image alone: layer \<open>i\<close> is the one whose header lies behind the bodies of
  the layers before it, its kernel is called on the memory layer \<open>i - 1\<close> has left, with the tensors its header
  describes, and an output layer fills the next output tensor. The theorem of the theory says that \<open>tm_run\<close>
  does this, for every layer before an error or all of them, and nothing else.
\<close>

subsection \<open>The specification\<close>

text \<open>The tensor of the given dimensions at an offset of the main buffer.\<close>

definition tensor_at :: "ptr \<Rightarrow> nat list \<Rightarrow> nat \<Rightarrow> tm_mat" where
  "tensor_at buf ds oft = \<lparr>m_dims = ds ! 0, m_h = ds ! 1, m_w = ds ! 2, m_c = ds ! 3, m_data = padd buf (int oft)\<rparr>"

text \<open>The kernels by the type number of the image format, with the arguments from header and body.\<close>

definition layer_kernel :: "ptr \<Rightarrow> ptr \<Rightarrow> tml_head \<Rightarrow> tm_mat \<Rightarrow> tm_mat \<Rightarrow> mem \<Rightarrow> (tm_err \<times> mem) option" where
  "layer_kernel buf body h inp out m =
     (let scales = (\<lambda>f. f (h_in_s h) (h_in_zp h) (h_out_s h) (h_out_zp h)) in
      if h_type h = 0 \<or> h_type h = 5 then
        (case ld_conv m body of None \<Rightarrow> None | Some l \<Rightarrow> tml_conv2d_dwconv2d (conv_args_of inp out body h l) m)
      else if h_type h = 1 then scales (tml_gap inp out) m
      else if h_type h = 2 then
        (case ld_fc m body of None \<Rightarrow> None
         | Some l \<Rightarrow> scales (tml_fc inp out (padd body (int (fc_w_oft l))) (padd body (int (fc_b_oft l)))
             (padd body (int (fc_ws_oft l)))) m)
      else if h_type h = 3 then scales (tml_softmax inp out) m
      else if h_type h = 4 then scales (tml_reshape inp out) m
      else if h_type h = 6 then
        (case ld_add m body of None \<Rightarrow> None
         | Some l \<Rightarrow> tml_add inp (tensor_at buf (h_in_dims h) (ad_in_oft1 l)) out (h_in_s h) (h_in_zp h)
             (ad_in_s1 l) (ad_in_zp1 l) (h_out_s h) (h_out_zp h) m)
      else Some (TM_ERR_LAYERTYPE, m))"

text \<open>The call of layer \<open>i\<close>: the first layer of a run gets the input of the run.\<close>

definition layer_call :: "ptr \<Rightarrow> ptr \<Rightarrow> tm_mat \<Rightarrow> nat \<Rightarrow> tml_head \<Rightarrow> mem \<Rightarrow> (tm_err \<times> mem) option" where
  "layer_call buf body inp i h =
     layer_kernel buf body h (if i = 0 then inp else tensor_at buf (h_in_dims h) (h_in_oft h))
       (tensor_at buf (h_out_dims h) (h_out_oft h))"

text \<open>The dequantised output begins at the next aligned address behind the bytes of the output.\<close>

definition out_count :: "tml_head \<Rightarrow> nat" where
  "out_count h = h_out_dims h ! 1 * h_out_dims h ! 2 * h_out_dims h ! 3"

definition float_ptr :: "int \<Rightarrow> ptr \<Rightarrow> tml_head \<Rightarrow> ptr" where
  "float_ptr base buf h = (fst buf, tm_align (base + snd (padd buf (int (h_out_oft h))) + int (out_count h)) - base)"

definition output_tensor :: "int \<Rightarrow> ptr \<Rightarrow> nat option \<Rightarrow> tml_head \<Rightarrow> tm_mat" where
  "output_tensor base buf deq h =
     (tensor_at buf (h_out_dims h) (h_out_oft h))
       \<lparr>m_data := (if deq = Some 0 then padd buf (int (h_out_oft h)) else float_ptr base buf h)\<rparr>"

definition output_written :: "int \<Rightarrow> ptr \<Rightarrow> nat option \<Rightarrow> tml_head \<Rightarrow> mem \<Rightarrow> mem \<Rightarrow> bool" where
  "output_written base buf deq h m m' \<longleftrightarrow>
     (if h_is_out h = 0 \<or> deq = Some 0 then m' = m
      else for_upto (out_count h) (dequant_out h (padd buf (int (h_out_oft h))) (float_ptr base buf h)) m = Some m')"

text \<open>The layers \<open>hs\<close> have run, one after the other, on the memories \<open>ms 0\<close>, \<open>ms 1\<close>, \dots; \<open>l\<close> layers ran before.\<close>

definition ran_in_order :: "int \<Rightarrow> ptr \<Rightarrow> nat option \<Rightarrow> ptr \<Rightarrow> tm_mat \<Rightarrow> nat \<Rightarrow> tml_head list \<Rightarrow> (nat \<Rightarrow> mem) \<Rightarrow> bool" where
  "ran_in_order base buf deq p inp l hs ms \<longleftrightarrow>
     (\<forall>i<length hs. \<exists>m. layer_call buf (padd p (int (heads_size (take i hs)))) inp (l + i) (hs ! i) (ms i) = Some (TM_OK, m) \<and>
        output_written base buf deq (hs ! i) m (ms (Suc i)))"

definition outputs_filled :: "int \<Rightarrow> ptr \<Rightarrow> nat option \<Rightarrow> nat \<Rightarrow> tml_head list \<Rightarrow> tm_mat list \<Rightarrow> bool" where
  "outputs_filled base buf deq o0 hs outs \<longleftrightarrow>
     (\<forall>i<length hs. h_is_out (hs ! i) \<noteq> 0 \<longrightarrow> o0 + out_heads (take i hs) < length outs \<and>
        outs ! (o0 + out_heads (take i hs)) = output_tensor base buf deq (hs ! i))"

subsection \<open>One layer\<close>

lemma set_tensor: "(set_dims x ds)\<lparr>m_data := q\<rparr> = \<lparr>m_dims = ds ! 0, m_h = ds ! 1, m_w = ds ! 2, m_c = ds ! 3, m_data = q\<rparr>"
  by (cases x) (simp add: set_dims_def)

lemma dispatch_kernel: "dispatch_layer m buf body h inp out = layer_kernel buf body h inp out m"
  by (simp add: dispatch_layer_def layer_kernel_def Let_def tml_type_defs set_tensor tensor_at_def split: option.split)

lemma run_layer_call:
  assumes r: "run_layer base st = Some (e, st')" and p: "mdl_layer_body (r_mdl st) = Some p"
    and b: "mdl_b (r_mdl st) = Some b" and buf: "mdl_buf (r_mdl st) = Some buf" and image: "fst b \<notin> writable st"
  shows "\<exists>h m. ld_head (r_mem st) p = Some h \<and>
    layer_call buf p (r_in st) (mdl_layer_i (r_mdl st)) h (r_mem st) = Some (e, m) \<and>
    (if e = TM_OK
     then output_written base buf (mdlbin_out_deq (r_mem st) b) h m (r_mem st') \<and>
       r_mdl st' = (r_mdl st)\<lparr>mdl_layer_i := Suc (mdl_layer_i (r_mdl st)), mdl_layer_body := Some (padd p (int (h_size h)))\<rparr> \<and>
       (if h_is_out h = 0 then r_outs st' = r_outs st \<and> r_out_idx st' = r_out_idx st
        else r_out_idx st < length (r_outs st) \<and> r_out_idx st' = Suc (r_out_idx st) \<and>
          r_outs st' = (r_outs st)[r_out_idx st := output_tensor base buf (mdlbin_out_deq (r_mem st) b) h])
     else r_mem st' = m \<and> r_mdl st' = r_mdl st \<and> r_outs st' = r_outs st \<and> r_out_idx st' = r_out_idx st)"
proof -
  let ?inp = "\<lambda>h. if mdl_layer_i (r_mdl st) = 0 then r_in st else tensor_at buf (h_in_dims h) (h_in_oft h)"
  let ?out = "\<lambda>h. tensor_at buf (h_out_dims h) (h_out_oft h)"
  obtain h where h: "ld_head (r_mem st) p = Some h"
    using r by (auto simp: run_layer_def Let_def p bind_eq_Some_conv)
  have inp: "(if mdl_layer_i (r_mdl st) > 0
      then (set_dims (r_in st) (h_in_dims h))\<lparr>m_data := padd buf (int (h_in_oft h))\<rparr> else r_in st) = ?inp h"
    by (simp add: set_tensor tensor_at_def)
  obtain res m where d: "dispatch_layer (r_mem st) buf p h (?inp h) (?out h) = Some (res, m)"
    and rest: "(if res \<noteq> TM_OK then Some (res, st\<lparr>r_mem := m, r_in := ?inp h\<rparr>)
       else do { st2 \<leftarrow> (if h_is_out h \<noteq> 0 then emit_output base b buf h (st\<lparr>r_mem := m, r_in := ?inp h\<rparr>)
                        else Some (st\<lparr>r_mem := m, r_in := ?inp h\<rparr>));
            Some (TM_OK, st2\<lparr>r_mdl := (r_mdl st)\<lparr>mdl_layer_i := mdl_layer_i (r_mdl st) + 1,
                                          mdl_layer_body := Some (padd p (int (h_size h)))\<rparr>\<rparr>) }) = Some (e, st')"
    using r unfolding run_layer_def Let_def b buf p h Option.bind.bind_lunit inp tensor_at_def [symmetric]
    by (auto simp: bind_eq_Some_conv)
  have e: "res = e" using rest by (auto simp: bind_eq_Some_conv split: if_splits)
  have call: "layer_call buf p (r_in st) (mdl_layer_i (r_mdl st)) h (r_mem st) = Some (e, m)"
    using d by (simp add: layer_call_def dispatch_kernel e)
  have "keeps (writable st) (r_mem st) m"
    using keeps_dispatch [OF d, of "writable st"] buf by (simp add: writable_def tensor_at_def)
  then have "m (fst b) = r_mem st (fst b)" using image by (simp add: keeps_def)
  then have deq: "mdlbin_out_deq m b = mdlbin_out_deq (r_mem st) b"
    using ld_bytes_region [of m "padd b k" "r_mem st" for k] by (simp add: mdlbin_out_deq_def ld_u8_def ld8_def)
  show ?thesis
  proof (cases "e = TM_OK \<and> h_is_out h \<noteq> 0")
    case True
    then obtain st2 where em: "emit_output base b buf h (st\<lparr>r_mem := m, r_in := ?inp h\<rparr>) = Some st2"
      and st': "st' = st2\<lparr>r_mdl := (r_mdl st)\<lparr>mdl_layer_i := mdl_layer_i (r_mdl st) + 1,
                                          mdl_layer_body := Some (padd p (int (h_size h)))\<rparr>\<rparr>"
      using rest e by (auto simp: bind_eq_Some_conv)
    obtain y where y: "mdlbin_out_deq (r_mem st) b = Some y" using em by (auto simp: emit_output_def bind_eq_Some_conv deq)
    have "output_written base buf (Some y) h m (r_mem st2) \<and> r_out_idx st < length (r_outs st) \<and>
        r_out_idx st2 = Suc (r_out_idx st) \<and> r_outs st2 = (r_outs st)[r_out_idx st := output_tensor base buf (Some y) h]"
    proof (cases "y = 0")
      case True
      with em \<open>e = TM_OK \<and> h_is_out h \<noteq> 0\<close> show ?thesis
        by (auto simp: emit_output_def Let_def bind_eq_Some_conv deq y output_written_def output_tensor_def set_tensor tensor_at_def)
    next
      case False
      with em \<open>e = TM_OK \<and> h_is_out h \<noteq> 0\<close> show ?thesis
        by (auto simp: emit_output_def Let_def bind_eq_Some_conv deq y output_written_def output_tensor_def float_ptr_def
            out_count_def set_tensor tensor_at_def)
    qed
    then show ?thesis using h call True by (auto simp: st' y)
  next
    case False
    then show ?thesis using h call rest e by (auto simp: output_written_def)
  qed
qed


subsection \<open>The loop\<close>

lemma earlier_outputs_stay:
  "run_layers base n st = Some (e, st') \<Longrightarrow> j < r_out_idx st \<Longrightarrow> r_outs st' ! j = r_outs st ! j"
proof (induction n arbitrary: st)
  case (Suc n)
  then obtain res st1 where l: "run_layer base st = Some (res, st1)"
    and r: "(if res \<noteq> TM_OK then Some (res, st1) else run_layers base n st1) = Some (e, st')"
    by (auto simp: bind_eq_Some_conv)
  from l have "r_outs st1 ! j = r_outs st ! j \<and> r_out_idx st \<le> r_out_idx st1"
  proof (rule run_layer_cases)
    fix b buf body h inp out m st1'
    assume st1: "st1' = st\<lparr>r_mem := m, r_in := inp\<rparr>"
      and cs: "res \<noteq> TM_OK \<and> st1 = st1' \<or> res = TM_OK \<and> h_is_out h = 0 \<and> st1 = layer_moved st body h st1' \<or>
       res = TM_OK \<and> h_is_out h \<noteq> 0 \<and> (\<exists>st2. emit_output base b buf h st1' = Some st2 \<and> st1 = layer_moved st body h st2)"
    from cs Suc.prems(2) show ?thesis
      by (elim disjE conjE exE)
         (auto simp: layer_moved_def st1 emit_output_def Let_def bind_eq_Some_conv split: if_splits)
  qed
  with Suc.IH [of st1] r Suc.prems(2) show ?case by (cases "res = TM_OK") auto
qed simp

lemma ran_in_order_Cons:
  "ran_in_order base buf deq p inp l (h # hs) ms \<longleftrightarrow>
     (\<exists>m. layer_call buf p inp l h (ms 0) = Some (TM_OK, m) \<and> output_written base buf deq h m (ms 1)) \<and>
     ran_in_order base buf deq (padd p (int (h_size h))) inp (Suc l) hs (\<lambda>i. ms (Suc i))"
  by (simp add: ran_in_order_def All_less_Suc2 heads_size_def)

lemma outputs_filled_Cons:
  "outputs_filled base buf deq o0 (h # hs) outs \<longleftrightarrow>
     (h_is_out h \<noteq> 0 \<longrightarrow> o0 < length outs \<and> outs ! o0 = output_tensor base buf deq h) \<and>
     outputs_filled base buf deq (o0 + (if h_is_out h = 0 then 0 else 1)) hs outs"
  by (simp add: outputs_filled_def All_less_Suc2 out_heads_def)

lemma ran_later_input: "0 < l \<Longrightarrow> ran_in_order base buf deq p inp l hs ms \<longleftrightarrow> ran_in_order base buf deq p inp' l hs ms"
  by (simp add: ran_in_order_def layer_call_def)

lemma run_layers_ran:
  assumes "run_layers base n st = Some (e, st')" "mdl_layer_body (r_mdl st) = Some p"
    and "mdl_b (r_mdl st) = Some b" "mdl_buf (r_mdl st) = Some buf" "fst p = fst b" "fst b \<notin> writable st"
  shows "\<exists>hs ms. layer_heads (r_mem st) p (length hs) = Some hs \<and> ms 0 = r_mem st \<and>
    ran_in_order base buf (mdlbin_out_deq (r_mem st) b) p (r_in st) (mdl_layer_i (r_mdl st)) hs ms \<and>
    outputs_filled base buf (mdlbin_out_deq (r_mem st) b) (r_out_idx st) hs (r_outs st') \<and>
    mdl_layer_i (r_mdl st') = mdl_layer_i (r_mdl st) + length hs \<and>
    mdl_layer_body (r_mdl st') = Some (padd p (int (heads_size hs))) \<and>
    r_out_idx st' = r_out_idx st + out_heads hs \<and>
    (if e = TM_OK then length hs = n \<and> r_mem st' = ms n
     else length hs < n \<and> (\<exists>h. ld_head (r_mem st) (padd p (int (heads_size hs))) = Some h \<and>
       layer_call buf (padd p (int (heads_size hs))) (r_in st) (mdl_layer_i (r_mdl st) + length hs) h (ms (length hs)) =
         Some (e, r_mem st')))"
  using assms
proof (induction n arbitrary: st p)
  case 0
  then show ?case
    by (intro exI [of _ "[]"] exI [of _ "\<lambda>i. r_mem st"])
       (auto simp: ran_in_order_def outputs_filled_def heads_size_def out_heads_def)
next
  case (Suc n)
  let ?deq = "mdlbin_out_deq (r_mem st) b" and ?l = "mdl_layer_i (r_mdl st)"
  obtain res st1 where l: "run_layer base st = Some (res, st1)"
    and r: "(if res \<noteq> TM_OK then Some (res, st1) else run_layers base n st1) = Some (e, st')"
    using Suc.prems(1) by (auto simp: bind_eq_Some_conv)
  obtain h m where h: "ld_head (r_mem st) p = Some h" and call: "layer_call buf p (r_in st) ?l h (r_mem st) = Some (res, m)"
    and ok: "res = TM_OK \<Longrightarrow> output_written base buf ?deq h m (r_mem st1) \<and>
       r_mdl st1 = (r_mdl st)\<lparr>mdl_layer_i := Suc ?l, mdl_layer_body := Some (padd p (int (h_size h)))\<rparr> \<and>
       (if h_is_out h = 0 then r_outs st1 = r_outs st \<and> r_out_idx st1 = r_out_idx st
        else r_out_idx st < length (r_outs st) \<and> r_out_idx st1 = Suc (r_out_idx st) \<and>
          r_outs st1 = (r_outs st)[r_out_idx st := output_tensor base buf ?deq h])"
    and bad: "res \<noteq> TM_OK \<Longrightarrow> r_mem st1 = m \<and> r_mdl st1 = r_mdl st \<and> r_outs st1 = r_outs st \<and> r_out_idx st1 = r_out_idx st"
    using run_layer_call [OF l Suc.prems(2,3,4,6)] by metis
  show ?case
  proof (cases "res = TM_OK")
    case False
    then have "e = res" "st' = st1" using r by auto
    then show ?thesis
      using False bad h call Suc.prems(2)
      by (intro exI [of _ "[]"] exI [of _ "\<lambda>i. r_mem st"])
         (auto simp: ran_in_order_def outputs_filled_def heads_size_def out_heads_def)
  next
    case True
    let ?q = "padd p (int (h_size h))"
    have r1: "run_layers base n st1 = Some (e, st')" using True r by simp
    have k: "writable st1 = writable st" "keeps (writable st) (r_mem st) (r_mem st1)"
      using run_layer_keeps [OF l] by auto
    then have img: "r_mem st1 (fst b) = r_mem st (fst b)" using Suc.prems(6) by (simp add: keeps_def)
    then have deq: "mdlbin_out_deq (r_mem st1) b = ?deq" by (simp add: mdlbin_out_deq_def ld_u8_def ld8_def)
    have heads: "layer_heads (r_mem st1) ?q j = layer_heads (r_mem st) ?q j" for j
      using img Suc.prems(5) by (intro layer_heads_region) simp
    have head: "ld_head (r_mem st1) (padd ?q j) = ld_head (r_mem st) (padd ?q j)" for j
      using img Suc.prems(5) by (intro ld_head_region) simp
    have st1: "mdl_layer_body (r_mdl st1) = Some ?q" "mdl_b (r_mdl st1) = Some b" "mdl_buf (r_mdl st1) = Some buf"
      "fst ?q = fst b" "fst b \<notin> writable st1" "mdl_layer_i (r_mdl st1) = Suc ?l"
      using ok [OF True] Suc.prems k by auto
    from Suc.IH [OF r1 st1(1-5)] obtain hs ms where
      hs: "layer_heads (r_mem st) ?q (length hs) = Some hs" "ms 0 = r_mem st1"
        "ran_in_order base buf ?deq ?q (r_in st1) (Suc ?l) hs ms"
        "outputs_filled base buf ?deq (r_out_idx st1) hs (r_outs st')"
        "mdl_layer_i (r_mdl st') = Suc ?l + length hs"
        "mdl_layer_body (r_mdl st') = Some (padd ?q (int (heads_size hs)))"
        "r_out_idx st' = r_out_idx st1 + out_heads hs"
      and fin: "if e = TM_OK then length hs = n \<and> r_mem st' = ms n
        else length hs < n \<and> (\<exists>h'. ld_head (r_mem st) (padd ?q (int (heads_size hs))) = Some h' \<and>
          layer_call buf (padd ?q (int (heads_size hs))) (r_in st1) (Suc ?l + length hs) h' (ms (length hs)) = Some (e, r_mem st'))"
      unfolding deq heads head st1(6) by blast
    let ?ms = "\<lambda>i. case i of 0 \<Rightarrow> r_mem st | Suc j \<Rightarrow> ms j"
    have size: "padd ?q (int (heads_size hs)) = padd p (int (heads_size (h # hs)))" by (simp add: heads_size_def)
    have "ran_in_order base buf ?deq p (r_in st) ?l (h # hs) ?ms"
      using call ok [OF True] True hs(2,3) ran_later_input [of "Suc ?l" base buf ?deq ?q "r_in st1" hs ms "r_in st"]
      by (simp add: ran_in_order_Cons)
    moreover have "outputs_filled base buf ?deq (r_out_idx st) (h # hs) (r_outs st')"
    proof -
      have len: "length (r_outs st') = length (r_outs st1)" using run_layers_same [OF r1] by (simp add: run_same_def)
      have "r_out_idx st < length (r_outs st') \<and> r_outs st' ! r_out_idx st = output_tensor base buf ?deq h" if "h_is_out h \<noteq> 0"
        using ok [OF True] that earlier_outputs_stay [OF r1, of "r_out_idx st"] len by simp
      then show ?thesis using hs(4) ok [OF True] by (simp add: outputs_filled_Cons split: if_splits)
    qed
    moreover have "r_out_idx st' = r_out_idx st + out_heads (h # hs)"
      using hs(7) ok [OF True] by (simp add: out_heads_def split: if_splits)
    moreover have "layer_call buf q (r_in st1) (Suc i) h' m' = layer_call buf q (r_in st) (Suc i) h' m'" for q i h' m'
      by (simp add: layer_call_def)
    ultimately show ?thesis
      using h hs(1,5,6) fin unfolding size
      by (intro exI [of _ "h # hs"] exI [of _ ?ms]) (auto split: if_splits)
  qed
qed

text \<open>A run of the model: it starts with the first layer behind the header of the image.\<close>

lemma tm_run_ran:
  assumes "tm_run base m mdl inp outs = Some (e, st')" "mdl_b mdl = Some b" "mdl_buf mdl = Some buf"
    and "fst b \<noteq> fst buf" "fst b \<noteq> R_SBUF"
  shows "\<exists>n hs ms. mdlbin_layer_cnt m b = Some n \<and> layer_heads m (padd b 64) (length hs) = Some hs \<and> ms 0 = m \<and>
    ran_in_order base buf (mdlbin_out_deq m b) (padd b 64) inp 0 hs ms \<and>
    outputs_filled base buf (mdlbin_out_deq m b) 0 hs (r_outs st') \<and> r_out_idx st' = out_heads hs \<and>
    mdl_layer_i (r_mdl st') = length hs \<and>
    (if e = TM_OK then length hs = n \<and> r_mem st' = ms n
     else length hs < n \<and> (\<exists>h. ld_head m (padd b (64 + int (heads_size hs))) = Some h \<and>
       layer_call buf (padd b (64 + int (heads_size hs))) inp (length hs) h (ms (length hs)) = Some (e, r_mem st')))"
proof -
  obtain n where n: "mdlbin_layer_cnt m b = Some n" and r: "run_layers base n
      \<lparr>r_mem = m, r_mdl = mdl\<lparr>mdl_layer_body := Some (padd b 64), mdl_layer_i := 0\<rparr>, r_in = inp, r_outs = outs, r_out_idx = 0\<rparr>
    = Some (e, st')"
    using assms(1,2) by (auto simp: tm_run_def bind_eq_Some_conv mdlbin_layers_body_def)
  define st0 where "st0 = \<lparr>r_mem = m, r_mdl = mdl\<lparr>mdl_layer_body := Some (padd b 64), mdl_layer_i := 0\<rparr>,
    r_in = inp, r_outs = outs, r_out_idx = 0\<rparr>"
  have st0: "r_mem st0 = m" "r_in st0 = inp" "r_out_idx st0 = 0" "mdl_layer_i (r_mdl st0) = 0"
    and h: "mdl_layer_body (r_mdl st0) = Some (padd b 64)" "mdl_b (r_mdl st0) = Some b" "mdl_buf (r_mdl st0) = Some buf"
      "fst (padd b 64) = fst b" "fst b \<notin> writable st0"
    using assms(2-5) by (simp_all add: st0_def writable_def)
  show ?thesis
    using run_layers_ran [OF r [folded st0_def] h] n unfolding st0 padd_padd add_0 by blast
qed

end
