(* ===== verification/C_Layout.thy ===== *)
theory C_Layout
  imports Prelude
begin

section \<open>The layout of C structures\<close>

text \<open>
  How the compiler of a 32-bit Arm target places the fields of a structure: every field at the next
  multiple of its alignment, and the size rounded up to the largest alignment. A C type is its size and
  its alignment, in bytes. The control blocks of the RTOS and the layer bodies of the model image are
  described with it.
\<close>

type_synonym ctype = "nat \<times> nat"
type_synonym fields = "(string \<times> ctype) list"

abbreviation c_size :: "ctype \<Rightarrow> nat" where "c_size \<equiv> fst"
abbreviation c_align :: "ctype \<Rightarrow> nat" where "c_align \<equiv> snd"

definition c_u8 :: ctype where "c_u8 = (1, 1)"
definition c_u16 :: ctype where "c_u16 = (2, 2)"
definition c_u32 :: ctype where "c_u32 = (4, 4)"
definition c_u64 :: ctype where "c_u64 = (8, 8)"
definition c_ptr :: ctype where "c_ptr = (4, 4)"
definition c_float :: ctype where "c_float = (4, 4)"

definition c_array :: "ctype \<Rightarrow> nat \<Rightarrow> ctype" where
  "c_array t n = (n * c_size t, c_align t)"

definition align_up :: "nat \<Rightarrow> nat \<Rightarrow> nat" where
  "align_up n a = (n + (a - 1)) div a * a"

fun place_fields :: "nat \<Rightarrow> fields \<Rightarrow> (string \<times> nat) list" where
  "place_fields at [] = []"
| "place_fields at ((f, t) # fs) = (let p = align_up at (c_align t) in (f, p) # place_fields (p + c_size t) fs)"

fun end_of_fields :: "nat \<Rightarrow> fields \<Rightarrow> nat" where
  "end_of_fields at [] = at"
| "end_of_fields at ((f, t) # fs) = end_of_fields (align_up at (c_align t) + c_size t) fs"

definition struct_align :: "fields \<Rightarrow> nat" where
  "struct_align fs = fold (\<lambda>(f, t). max (c_align t)) fs 1"

definition c_struct :: "fields \<Rightarrow> ctype" where
  "c_struct fs = (align_up (end_of_fields 0 fs) (struct_align fs), struct_align fs)"

definition field_offset :: "fields \<Rightarrow> string \<Rightarrow> nat option" where
  "field_offset fs = map_of (place_fields 0 fs)"

lemmas c_types = c_u8_def c_u16_def c_u32_def c_u64_def c_ptr_def c_float_def c_array_def
lemmas c_layout = c_types align_up_def struct_align_def c_struct_def field_offset_def Let_def

subsection \<open>Placed fields do not overlap\<close>

text \<open>Alignments are positive in every C type.\<close>

definition fields_ok :: "fields \<Rightarrow> bool" where
  "fields_ok fs \<longleftrightarrow> list_all (\<lambda>(f, t). 0 < c_align t) fs"

lemma align_up_bounds:
  assumes "0 < a"
  shows "n \<le> align_up n a" and "align_up n a < n + a" and "a dvd align_up n a"
proof -
  have "n + (a - 1) = align_up n a + (n + (a - 1)) mod a" by (simp add: align_up_def)
  moreover have "(n + (a - 1)) mod a < a" using assms by simp
  ultimately show "n \<le> align_up n a" "align_up n a < n + a" using assms by linarith+
  show "a dvd align_up n a" by (simp add: align_up_def)
qed

lemma end_of_fields_ge: "fields_ok fs \<Longrightarrow> at \<le> end_of_fields at fs"
proof (induction fs arbitrary: at)
  case (Cons ft fs)
  obtain f t where ft: "ft = (f, t)" by (cases ft)
  have "align_up at (c_align t) + c_size t \<le> end_of_fields (align_up at (c_align t) + c_size t) fs"
    by (rule Cons.IH) (use Cons.prems in \<open>simp add: fields_ok_def\<close>)
  moreover have "at \<le> align_up at (c_align t)"
    by (rule align_up_bounds) (use Cons.prems in \<open>simp add: fields_ok_def ft\<close>)
  ultimately show ?case by (simp add: ft)
qed simp

lemma placed_aligned:
  "fields_ok fs \<Longrightarrow> i < length fs \<Longrightarrow> c_align (snd (fs ! i)) dvd snd (place_fields at fs ! i)"
proof (induction fs arbitrary: at i)
  case (Cons ft fs)
  then show ?case
    by (cases ft; cases i) (simp_all add: Let_def align_up_bounds fields_ok_def)
qed simp

lemma placed_ge: "fields_ok fs \<Longrightarrow> i < length fs \<Longrightarrow> at \<le> snd (place_fields at fs ! i)"
proof (induction fs arbitrary: at i)
  case (Cons ft fs)
  obtain f t where ft: "ft = (f, t)" by (cases ft)
  have p: "at \<le> align_up at (c_align t)"
    by (rule align_up_bounds) (use Cons.prems in \<open>simp add: fields_ok_def ft\<close>)
  show ?case
  proof (cases i)
    case (Suc j)
    have "align_up at (c_align t) + c_size t \<le> snd (place_fields (align_up at (c_align t) + c_size t) fs ! j)"
      by (rule Cons.IH) (use Cons.prems Suc in \<open>simp_all add: fields_ok_def\<close>)
    then show ?thesis using p Suc by (simp add: ft Let_def)
  qed (use p in \<open>simp add: ft Let_def\<close>)
qed simp

lemma placed_apart:
  assumes "fields_ok fs" "i < j" "j < length fs"
  shows "snd (place_fields at fs ! i) + c_size (snd (fs ! i)) \<le> snd (place_fields at fs ! j)"
  using assms
proof (induction fs arbitrary: at i j)
  case (Cons ft fs)
  obtain f t where ft: "ft = (f, t)" by (cases ft)
  obtain k where j: "j = Suc k" using Cons.prems by (cases j) simp_all
  have fs: "fields_ok fs" and k: "k < length fs" using Cons.prems j by (simp_all add: fields_ok_def)
  show ?case
  proof (cases i)
    case 0
    have "align_up at (c_align t) + c_size t \<le> snd (place_fields (align_up at (c_align t) + c_size t) fs ! k)"
      by (rule placed_ge [OF fs k])
    then show ?thesis by (simp add: 0 j ft Let_def)
  next
    case (Suc h)
    then show ?thesis using Cons.IH [OF fs, of h k] Cons.prems j by (simp add: ft Let_def)
  qed
qed simp

lemma placed_inside:
  assumes "fields_ok fs" "i < length fs"
  shows "snd (place_fields at fs ! i) + c_size (snd (fs ! i)) \<le> end_of_fields at fs"
  using assms
proof (induction fs arbitrary: at i)
  case (Cons ft fs)
  obtain f t where ft: "ft = (f, t)" by (cases ft)
  have fs: "fields_ok fs" using Cons.prems by (simp add: fields_ok_def)
  show ?case
  proof (cases i)
    case 0
    then show ?thesis using end_of_fields_ge [OF fs] by (simp add: ft Let_def)
  next
    case (Suc h)
    then show ?thesis using Cons.IH [OF fs] Cons.prems by (simp add: ft Let_def)
  qed
qed simp

lemma struct_align_pos: "0 < struct_align fs"
proof -
  have "0 < n \<Longrightarrow> 0 < fold (\<lambda>(f, t). max (c_align t)) fs n" for n :: nat
    by (induction fs arbitrary: n) auto
  then show ?thesis by (simp add: struct_align_def)
qed

lemma struct_size:
  assumes "fields_ok fs" "i < length fs"
  shows "snd (place_fields 0 fs ! i) + c_size (snd (fs ! i)) \<le> c_size (c_struct fs)"
    and "c_align (c_struct fs) dvd c_size (c_struct fs)"
  using placed_inside [OF assms, of 0] align_up_bounds [OF struct_align_pos [of fs], of "end_of_fields 0 fs"]
  by (simp_all add: c_struct_def)

end
