(* ===== verification/Tm_Header.thy ===== *)
theory Tm_Header
  imports C_Layout Tm_Types
begin

section \<open>The header of the engine: formats, enumerations and layouts\<close>

text \<open>
  The parts of \<open>tinymaix.h\<close> the compiler decides: which C types a model format selects, the numbering of
  the enumerations, and where the fields of the packed structures are. The loader of \<open>Tm_Types\<close> reads the
  image at fixed offsets; here these are shown to be the offsets of the structures.
\<close>

subsection \<open>Model formats\<close>

definition TM_ARCH_CPU :: nat where "TM_ARCH_CPU = 0"
definition TM_ARCH_RV64V :: nat where "TM_ARCH_RV64V = 5"
definition TM_ARCH :: nat where "TM_ARCH = TM_ARCH_CPU"

definition TM_MDL_INT8 :: nat where "TM_MDL_INT8 = 0"
definition TM_MDL_INT16 :: nat where "TM_MDL_INT16 = 1"
definition TM_MDL_FP32 :: nat where "TM_MDL_FP32 = 2"
definition TM_MDL_FP16 :: nat where "TM_MDL_FP16 = 3"
definition TM_MDL_FP8_143 :: nat where "TM_MDL_FP8_143 = 4"
definition TM_MDL_FP8_152 :: nat where "TM_MDL_FP8_152 = 5"

lemmas tm_formats = TM_MDL_INT8_def TM_MDL_INT16_def TM_MDL_FP32_def TM_MDL_FP16_def TM_MDL_FP8_143_def TM_MDL_FP8_152_def

datatype c_num = Int8_t | Int16_t | Int32_t | Uint8_t | Float | Float16_t

record tm_types =
  mtype_t :: c_num
  wtype_t :: c_num
  btype_t :: c_num
  sumtype_t :: c_num
  zptype_t :: c_num

text \<open>The types of a format, or the text of the compiler's error.\<close>

definition model_types :: "nat \<Rightarrow> nat \<Rightarrow> string + tm_types" where
  "model_types arch ty =
     (if ty = TM_MDL_INT8 then
        Inr \<lparr>mtype_t = Int8_t, wtype_t = Int8_t, btype_t = Int32_t, sumtype_t = Int32_t, zptype_t = Int32_t\<rparr>
      else if ty = TM_MDL_INT16 then
        Inr \<lparr>mtype_t = Int16_t, wtype_t = Int16_t, btype_t = Int32_t, sumtype_t = Int32_t, zptype_t = Int32_t\<rparr>
      else if ty = TM_MDL_FP32 then
        Inr \<lparr>mtype_t = Float, wtype_t = Float, btype_t = Float, sumtype_t = Float, zptype_t = Float\<rparr>
      else if ty = TM_MDL_FP16 then
        if arch \<noteq> TM_ARCH_RV64V then Inl ''only support RV64V's float16!''
        else Inr \<lparr>mtype_t = Float16_t, wtype_t = Float16_t, btype_t = Float16_t, sumtype_t = Float16_t, zptype_t = Float16_t\<rparr>
      else if ty = TM_MDL_FP8_143 \<or> ty = TM_MDL_FP8_152 then
        if arch \<noteq> TM_ARCH_CPU then Inl ''only support CPU simulation now!''
        else Inr \<lparr>mtype_t = Uint8_t, wtype_t = Uint8_t, btype_t = Uint8_t, sumtype_t = Float, zptype_t = Float\<rparr>
      else Inl ''Not support this MDL_TYPE!'')"

definition UINT2INT_SHIFT :: "nat \<Rightarrow> nat option" where
  "UINT2INT_SHIFT ty = (if ty = TM_MDL_INT8 then Some 0 else if ty = TM_MDL_INT16 then Some 8 else None)"

text \<open>The bits of the two 8-bit float formats: sign, exponent, mantissa, and the bias.\<close>

definition TM_FP8 :: "nat \<Rightarrow> (nat \<times> nat \<times> nat \<times> nat) option" where
  "TM_FP8 ty = (if ty = TM_MDL_FP8_143 then Some (1, 4, 3, 9)
                else if ty = TM_MDL_FP8_152 then Some (1, 5, 2, 15) else None)"

text \<open>The build of \<open>tm_port.h\<close> is one of them, and its sums are as wide as the model of the kernels assumes.\<close>

lemma build_types:
  "model_types TM_ARCH TM_MDL_TYPE =
     Inr \<lparr>mtype_t = Int8_t, wtype_t = Int8_t, btype_t = Int32_t, sumtype_t = Int32_t, zptype_t = Int32_t\<rparr>"
  "UINT2INT_SHIFT TM_MDL_TYPE = Some 0"
  by (simp_all add: model_types_def UINT2INT_SHIFT_def TM_MDL_TYPE_def tm_formats)

lemma fp8_bits: "TM_FP8 ty = Some (s, e, m, b) \<Longrightarrow> s + e + m = 8 \<and> b < 2 ^ e"
  by (auto simp: TM_FP8_def split: if_splits)

subsection \<open>Enumerations\<close>

datatype tm_layer_type = Conv2d | Gap | Fc | Softmax | Reshape | Dwconv2d | Add | Layer_maxcnt

fun tm_layer_type_code :: "tm_layer_type \<Rightarrow> nat" where
  "tm_layer_type_code Conv2d = TML_CONV2D"
| "tm_layer_type_code Gap = TML_GAP"
| "tm_layer_type_code Fc = TML_FC"
| "tm_layer_type_code Softmax = TML_SOFTMAX"
| "tm_layer_type_code Reshape = TML_RESHAPE"
| "tm_layer_type_code Dwconv2d = TML_DWCONV2D"
| "tm_layer_type_code Add = TML_ADD"
| "tm_layer_type_code Layer_maxcnt = TML_ADD + 1"

datatype tm_pad_type = TM_PAD_VALID | TM_PAD_SAME

fun tm_pad_type_code :: "tm_pad_type \<Rightarrow> nat" where
  "tm_pad_type_code TM_PAD_VALID = 0"
| "tm_pad_type_code TM_PAD_SAME = 1"

datatype tm_act_type = Act_none | Act_relu | Act_relu1 | Act_relu6 | Act_tanh | Act_signbit | Act_maxcnt

fun tm_act_type_code :: "tm_act_type \<Rightarrow> nat" where
  "tm_act_type_code Act_none = 0"
| "tm_act_type_code Act_relu = TM_ACT_RELU"
| "tm_act_type_code Act_relu1 = 2"
| "tm_act_type_code Act_relu6 = TM_ACT_RELU6"
| "tm_act_type_code Act_tanh = 4"
| "tm_act_type_code Act_signbit = 5"
| "tm_act_type_code Act_maxcnt = TM_ACT_MAXCNT"

fun tm_pp_code :: "tm_pp \<Rightarrow> nat" where
  "tm_pp_code TMPP_NONE = 0"
| "tm_pp_code TMPP_FP2INT = 1"
| "tm_pp_code TMPP_UINT2INT = 2"
| "tm_pp_code TMPP_UINT2FP01 = 3"
| "tm_pp_code TMPP_UINT2FPN11 = 4"
| "tm_pp_code TMPP_UINT2DTYPE = 5"
| "tm_pp_code TMPP_MAXCNT = 6"

lemma layer_type_code_inj: "tm_layer_type_code s = tm_layer_type_code t \<Longrightarrow> s = t"
  by (cases s; cases t) (simp_all add: tml_type_defs)

lemma act_type_code_inj: "tm_act_type_code s = tm_act_type_code t \<Longrightarrow> s = t"
  by (cases s; cases t) (simp_all add: tm_act_defs)

subsection \<open>Layouts\<close>

definition tm_mdlbin_fields :: fields where
  "tm_mdlbin_fields =
    [(''magic'', c_u32), (''mdl_type'', c_u8), (''out_deq'', c_u8), (''input_cnt'', c_u16), (''output_cnt'', c_u16),
     (''layer_cnt'', c_u16), (''buf_size'', c_u32), (''sub_size'', c_u32), (''in_dims'', c_array c_u16 4),
     (''out_dims'', c_array c_u16 4), (''reserve'', c_array c_u8 28), (''layers_body'', c_array c_u8 0)]"

definition tm_mdl_fields :: fields where
  "tm_mdl_fields =
    [(''b'', c_ptr), (''cb'', c_ptr), (''buf'', c_ptr), (''subbuf'', c_ptr), (''main_alloc'', c_u16), (''layer_i'', c_u16),
     (''layer_body'', c_ptr)]"

definition tm_mat_fields :: fields where
  "tm_mat_fields = [(''dims'', c_u16), (''h'', c_u16), (''w'', c_u16), (''c'', c_u16), (''data'', c_ptr)]"

definition tml_head_fields :: fields where
  "tml_head_fields =
    [(''type'', c_u16), (''is_out'', c_u16), (''size'', c_u32), (''in_oft'', c_u32), (''out_oft'', c_u32),
     (''in_dims'', c_array c_u16 4), (''out_dims'', c_array c_u16 4), (''in_s'', c_float), (''in_zp'', c_u32),
     (''out_s'', c_float), (''out_zp'', c_u32)]"

definition tml_conv2d_dw_fields :: fields where
  "tml_conv2d_dw_fields =
    [(''h'', c_struct tml_head_fields), (''kernel_w'', c_u8), (''kernel_h'', c_u8), (''stride_w'', c_u8), (''stride_h'', c_u8),
     (''dilation_w'', c_u8), (''dilation_h'', c_u8), (''act'', c_u16), (''pad'', c_array c_u8 4), (''depth_mul'', c_u32),
     (''reserve'', c_u32), (''ws_oft'', c_u32), (''w_oft'', c_u32), (''b_oft'', c_u32)]"

definition tml_gap_fields :: fields where
  "tml_gap_fields = [(''h'', c_struct tml_head_fields)]"

definition tml_fc_fields :: fields where
  "tml_fc_fields =
    [(''h'', c_struct tml_head_fields), (''ws_oft'', c_u32), (''w_oft'', c_u32), (''b_oft'', c_u32), (''reserve'', c_u32)]"

definition tml_softmax_fields :: fields where
  "tml_softmax_fields = [(''h'', c_struct tml_head_fields)]"

definition tml_reshape_fields :: fields where
  "tml_reshape_fields = [(''h'', c_struct tml_head_fields)]"

definition tml_dwconv2d_fields :: fields where
  "tml_dwconv2d_fields =
    [(''h'', c_struct tml_head_fields), (''kernel_w'', c_u8), (''kernel_h'', c_u8), (''stride_w'', c_u8), (''stride_h'', c_u8),
     (''dilation_w'', c_u8), (''dilation_h'', c_u8), (''act'', c_u16), (''pad'', c_array c_u8 4), (''ws_oft'', c_u32),
     (''w_oft'', c_u32), (''b_oft'', c_u32)]"

definition tml_add_fields :: fields where
  "tml_add_fields =
    [(''h'', c_struct tml_head_fields), (''in_oft1'', c_u32), (''in_s1'', c_float), (''in_zp1'', c_u32), (''reserve'', c_u32)]"

lemmas tm_layout_defs = tm_mdlbin_fields_def tm_mdl_fields_def tm_mat_fields_def tml_head_fields_def tml_conv2d_dw_fields_def
  tml_gap_fields_def tml_fc_fields_def tml_softmax_fields_def tml_reshape_fields_def tml_dwconv2d_fields_def tml_add_fields_def

text \<open>The address of a field.\<close>

definition field :: "fields \<Rightarrow> string \<Rightarrow> ptr \<Rightarrow> ptr" where
  "field fs f p = padd p (int (the (field_offset fs f)))"

lemma tm_sizes:
  "c_size (c_struct tm_mdlbin_fields) = 64" "c_size (c_struct tml_head_fields) = 48"
  "c_size (c_struct tml_conv2d_dw_fields) = 80" "c_size (c_struct tml_gap_fields) = 48" "c_size (c_struct tml_fc_fields) = 64"
  "c_size (c_struct tml_softmax_fields) = 48" "c_size (c_struct tml_reshape_fields) = 48"
  "c_size (c_struct tml_dwconv2d_fields) = 72" "c_size (c_struct tml_add_fields) = 64"
  by (simp_all add: tm_layout_defs c_layout)

lemma layers_body_offset: "field tm_mdlbin_fields ''layers_body'' b = padd b (int (c_size (c_struct tm_mdlbin_fields)))"
  by (simp add: tm_sizes field_def) (simp add: tm_mdlbin_fields_def c_layout)

lemma image_fields:
  "mdlbin_magic m b = ld_u32 m (field tm_mdlbin_fields ''magic'' b)"
  "mdlbin_mdl_type m b = ld_u8 m (field tm_mdlbin_fields ''mdl_type'' b)"
  "mdlbin_out_deq m b = ld_u8 m (field tm_mdlbin_fields ''out_deq'' b)"
  "mdlbin_layer_cnt m b = ld_u16 m (field tm_mdlbin_fields ''layer_cnt'' b)"
  "mdlbin_buf_size m b = ld_u32 m (field tm_mdlbin_fields ''buf_size'' b)"
  "mdlbin_sub_size m b = ld_u32 m (field tm_mdlbin_fields ''sub_size'' b)"
  "mdlbin_in_dims b = field tm_mdlbin_fields ''in_dims'' b"
  "mdlbin_layers_body b = field tm_mdlbin_fields ''layers_body'' b"
  by (simp_all add: field_def tm_mdlbin_fields_def c_layout mdlbin_magic_def mdlbin_mdl_type_def mdlbin_out_deq_def
      mdlbin_layer_cnt_def mdlbin_buf_size_def mdlbin_sub_size_def mdlbin_in_dims_def mdlbin_layers_body_def)

lemma head_fields:
  "ld_head m p =
     do { ty \<leftarrow> ld_u16 m (field tml_head_fields ''type'' p);
          io \<leftarrow> ld_u16 m (field tml_head_fields ''is_out'' p);
          sz \<leftarrow> ld_u32 m (field tml_head_fields ''size'' p);
          i_of \<leftarrow> ld_u32 m (field tml_head_fields ''in_oft'' p);
          o_of \<leftarrow> ld_u32 m (field tml_head_fields ''out_oft'' p);
          idims \<leftarrow> ld_dims m (field tml_head_fields ''in_dims'' p);
          odims \<leftarrow> ld_dims m (field tml_head_fields ''out_dims'' p);
          is \<leftarrow> ld_f32 m (field tml_head_fields ''in_s'' p);
          iz \<leftarrow> ld_s32 m (field tml_head_fields ''in_zp'' p);
          os \<leftarrow> ld_f32 m (field tml_head_fields ''out_s'' p);
          oz \<leftarrow> ld_s32 m (field tml_head_fields ''out_zp'' p);
          Some \<lparr>h_type = ty, h_is_out = io, h_size = sz, h_in_oft = i_of, h_out_oft = o_of,
            h_in_dims = idims, h_out_dims = odims, h_in_s = is, h_in_zp = iz, h_out_s = os, h_out_zp = oz\<rparr> }"
  by (simp add: ld_head_def field_def tml_head_fields_def c_layout)

lemma conv_fields:
  "ld_conv m p =
     do { kw \<leftarrow> ld_u8 m (field tml_conv2d_dw_fields ''kernel_w'' p);
          kh \<leftarrow> ld_u8 m (field tml_conv2d_dw_fields ''kernel_h'' p);
          sw \<leftarrow> ld_u8 m (field tml_conv2d_dw_fields ''stride_w'' p);
          sh \<leftarrow> ld_u8 m (field tml_conv2d_dw_fields ''stride_h'' p);
          dw \<leftarrow> ld_u8 m (field tml_conv2d_dw_fields ''dilation_w'' p);
          dh \<leftarrow> ld_u8 m (field tml_conv2d_dw_fields ''dilation_h'' p);
          act \<leftarrow> ld_u16 m (field tml_conv2d_dw_fields ''act'' p);
          p0 \<leftarrow> ld_u8 m (field tml_conv2d_dw_fields ''pad'' p);
          p1 \<leftarrow> ld_u8 m (padd (field tml_conv2d_dw_fields ''pad'' p) 1);
          p2 \<leftarrow> ld_u8 m (padd (field tml_conv2d_dw_fields ''pad'' p) 2);
          p3 \<leftarrow> ld_u8 m (padd (field tml_conv2d_dw_fields ''pad'' p) 3);
          dm \<leftarrow> ld_u32 m (field tml_conv2d_dw_fields ''depth_mul'' p);
          ws \<leftarrow> ld_u32 m (field tml_conv2d_dw_fields ''ws_oft'' p);
          w \<leftarrow> ld_u32 m (field tml_conv2d_dw_fields ''w_oft'' p);
          b \<leftarrow> ld_u32 m (field tml_conv2d_dw_fields ''b_oft'' p);
          Some \<lparr>cv_kernel_w = kw, cv_kernel_h = kh, cv_stride_w = sw, cv_stride_h = sh,
            cv_dilation_w = dw, cv_dilation_h = dh, cv_act = act, cv_pad = [p0, p1, p2, p3],
            cv_depth_mul = dm, cv_ws_oft = ws, cv_w_oft = w, cv_b_oft = b\<rparr> }"
  by (simp add: ld_conv_def field_def padd_padd tml_conv2d_dw_fields_def tml_head_fields_def c_layout)

lemma fc_fields:
  "ld_fc m p =
     do { ws \<leftarrow> ld_u32 m (field tml_fc_fields ''ws_oft'' p);
          w \<leftarrow> ld_u32 m (field tml_fc_fields ''w_oft'' p);
          b \<leftarrow> ld_u32 m (field tml_fc_fields ''b_oft'' p);
          Some \<lparr>fc_ws_oft = ws, fc_w_oft = w, fc_b_oft = b\<rparr> }"
  by (simp add: ld_fc_def field_def tml_fc_fields_def tml_head_fields_def c_layout)

lemma add_fields:
  "ld_add m p =
     do { o1 \<leftarrow> ld_u32 m (field tml_add_fields ''in_oft1'' p);
          s1 \<leftarrow> ld_f32 m (field tml_add_fields ''in_s1'' p);
          z1 \<leftarrow> ld_s32 m (field tml_add_fields ''in_zp1'' p);
          Some \<lparr>ad_in_oft1 = o1, ad_in_s1 = s1, ad_in_zp1 = z1\<rparr> }"
  by (simp add: ld_add_def field_def tml_add_fields_def tml_head_fields_def c_layout)

subsection \<open>The exponential of the port\<close>

text \<open>
  \<open>tm_port.h\<close> has an exponential of its own and defines \<open>tm_exp\<close> as it; \<open>tinymaix.h\<close>, which includes it
  first, defines \<open>tm_exp\<close> anew as its own \<open>_exp\<close>. The two functions are the same.
\<close>

definition tm_exp_local :: "fp \<Rightarrow> fp option" where
  "tm_exp_local x =
     (let p = f32_mul (unpack32 0x3FB8AA3B) x
      in do { w \<leftarrow> fp_to_s32 p;
              let z = f32_add (f32_sub p (f32_of_int w)) (f32_of_int 0);
              i \<leftarrow> fp_to_u32 (f32_mul (f32_of_int 8388608)
                     (f32_sub (f32_add (f32_add p (unpack32 0x42F28C55))
                        (f32_div (unpack32 0x41DDD2FE) (f32_sub (unpack32 0x409AF5F8) z)))
                        (f32_mul (unpack32 0x3FBEBC8D) z)));
              Some (unpack32 (nat i)) })"

lemma tm_exp_either: "tm_exp_local = tm_exp"
  by (simp add: fun_eq_iff tm_exp_local_def tm_exp_def Let_def)

end
