(* ===== verification/Engine_Properties.thy ===== *)
theory Engine_Properties
  imports Layer_Order Model_Correct Tm_Header
begin

section \<open>Properties of the inference engine\<close>

text \<open>
  The theorems that make \<open>tm_layers.c\<close>, \<open>arch_cpu.h\<close> and \<open>tm_model.c\<close> correct, each with a
  witness where it has hypotheses. The witnesses use one small memory: a picture of nine
  bytes in the main buffer, weights, bias and scale in \<open>R_PIC\<close>, and an image of one
  reshape layer in \<open>R_MODEL\<close>.
\<close>

subsection \<open>A small instance\<close>

definition demo_image :: "byte list" where
  "demo_image = [0x4D, 0x41, 0x49, 0x58, 0, 0, 0, 0, 0, 0, 1, 0, 0, 0, 0, 0, 0, 0, 0, 0,
                 3, 0, 3, 0, 3, 0, 1, 0] @ replicate 36 0 @
     [4, 0, 1, 0, 48, 0, 0, 0, 0, 0, 0, 0, 0xE8, 0x03, 0, 0, 0, 0, 0, 0, 0, 0, 0, 0,
      1, 0, 1, 0, 1, 0, 10, 0] @ replicate 16 0"

definition demo_mem :: mem where
  "demo_mem r = (case r of
     R_MODEL \<Rightarrow> demo_image
   | R_PIC \<Rightarrow> [1, 2, 3, 4, 5, 6, 7, 8, 9, 10, 0, 0, 0, 0, 0, 0x80, 0x3d]
   | R_MAIN \<Rightarrow> replicate 16 3
   | R_SBUF \<Rightarrow> replicate 144 0
   | R_NULL \<Rightarrow> [])"

text \<open>A 3 x 3 kernel on the whole picture, with weight and input scale 1/16.\<close>

definition demo_conv :: conv_args where
  "demo_conv =
     \<lparr>a_in = \<lparr>m_dims = 3, m_h = 3, m_w = 3, m_c = 1, m_data = (R_MAIN, 0)\<rparr>,
      a_out = \<lparr>m_dims = 3, m_h = 1, m_w = 1, m_c = 1, m_data = (R_MAIN, 9)\<rparr>,
      a_w = (R_PIC, 0), a_b = (R_PIC, 9), a_kw = 3, a_kh = 3, a_sx = 1, a_sy = 1, a_dx = 1, a_dy = 1,
      a_act = 1, a_pad_top = 0, a_pad_bottom = 0, a_pad_left = 0, a_pad_right = 0, a_dmul = 0,
      a_ws = (R_PIC, 13), a_in_s = unpack32 0x3D800000, a_in_zp = 0,
      a_out_s = unpack32 0x3F800000, a_out_zp = 0\<rparr>"

definition row_mat :: "nat \<Rightarrow> int \<Rightarrow> tm_mat" where
  "row_mat w off = \<lparr>m_dims = 3, m_h = 1, m_w = w, m_c = 1, m_data = (R_MAIN, off)\<rparr>"

definition chan_mat :: "nat \<Rightarrow> int \<Rightarrow> tm_mat" where
  "chan_mat c off = \<lparr>m_dims = 1, m_h = 1, m_w = 1, m_c = c, m_data = (R_MAIN, off)\<rparr>"

definition unit_mat :: "int \<Rightarrow> tm_mat" where
  "unit_mat off = row_mat 1 off"

lemma demo_mat_sel [simp]:
  "m_h (row_mat w off) = 1" "m_w (row_mat w off) = w" "m_c (row_mat w off) = 1" "m_data (row_mat w off) = (R_MAIN, off)"
  "m_h (unit_mat off) = 1" "m_w (unit_mat off) = 1" "m_c (unit_mat off) = 1" "m_data (unit_mat off) = (R_MAIN, off)"
  "m_c (chan_mat c off) = c" "m_data (chan_mat c off) = (R_MAIN, off)"
  by (simp_all add: row_mat_def unit_mat_def chan_mat_def)

lemmas demo_conv_defs = demo_conv_def conv_maxk_def conv_cho_def conv_chi_def conv_dot_len_def
  conv_windows_def mat_size_def

lemma demo_outscale: "conv_outscale (a_out_s demo_conv) = Some 256"
  by (simp add: demo_conv_def conv_outscale_def fp_eval c_int TM_FASTSCALE_SHIFT_def cong: let_weak_cong)

lemma demo_ws: "ld_f32 demo_mem (R_PIC, 13) = Some (unpack32 0x3D800000)"
proof -
  have "ld_u32 demo_mem (R_PIC, 13) = Some 0x3D800000" by (simp add: ld_eval demo_mem_def)
  then show ?thesis by (simp add: ld_f32_def)
qed

lemma demo_scales:
  "conv_sumscale demo_mem (a_ws demo_conv) (a_in_s demo_conv) (conv_cho demo_conv) = Some [256]"
  by (simp add: conv_sumscale_def conv_sumscale_at_def TM_MAX_CSIZE_def demo_conv_def conv_cho_def
      demo_ws upt_rec fp_eval cong: let_weak_cong)

lemma demo_bias: "conv_bias demo_conv demo_mem 0 = 10"
  by (simp add: conv_bias_def demo_conv_def ld_eval demo_mem_def wrap_s32_def)

lemma demo_arith: "conv_arith demo_conv demo_mem [256] 256"
proof -
  have "conv_cho demo_conv = 1" "conv_dot_len demo_conv = 9" "a_out_zp demo_conv = 0"
    by (simp_all add: demo_conv_defs)
  then show ?thesis by (simp add: conv_arith_def demo_bias requant_safe_def)
qed

lemma demo_operands: "conv_operands demo_conv demo_mem"
  by (simp add: conv_operands_def operand_ok_def in_object_def apart_def demo_conv_defs demo_mem_def)

lemma demo_window: "window_wf demo_conv demo_mem"
  by (simp add: window_wf_def in_object_def src_ch_def demo_conv_defs demo_mem_def)

lemma demo_ready: "conv_ready demo_conv demo_mem [256] 256"
  unfolding conv_ready_def
  by (intro conjI demo_outscale demo_scales demo_operands demo_arith)
     (simp_all add: demo_window, simp_all add: demo_conv_defs tm_act_defs tm_size_defs)

subsection \<open>The kernels\<close>

text \<open>C1: the convolution layer stores, on its pointwise and on its windowed path, with and without
  padding, exactly the requantised sums of products at every output position and channel, returns
  \<open>TM_OK\<close> and changes nothing but the output tensor and the scratch array.\<close>

theorem convolution_is_correct:
  assumes "conv_ready ca m scales outscale"
  shows "\<exists>m'. tml_conv2d_dwconv2d ca m = Some (TM_OK, m') \<and>
    cm.agree_off (out_cells ca \<union> sbuf_cells) m m' \<and>
    (\<forall>y<m_h (a_out ca). \<forall>x<m_w (a_out ca). \<forall>c<m_c (a_out ca).
       ld8 m' (tm_matp (a_out ca) (int y) (int x) (int c)) = Some (conv_byte ca m scales outscale y x c))"
  using assms by (rule conv_layer_correct)

theorem convolution_witness:
  "\<exists>m'. tml_conv2d_dwconv2d demo_conv demo_mem = Some (TM_OK, m') \<and>
     ld8 m' (R_MAIN, 9) = Some (conv_byte demo_conv demo_mem [256] 256 0 0 0)"
proof -
  have "m_h (a_out demo_conv) = 1" "m_w (a_out demo_conv) = 1" "m_c (a_out demo_conv) = 1"
    "tm_matp (a_out demo_conv) 0 0 0 = (R_MAIN, 9)"
    by (simp_all add: demo_conv_def tm_matp_def padd_def)
  then show ?thesis using convolution_is_correct [OF demo_ready] by auto
qed

text \<open>C2: the three unrolled dot products are the plain loop: eight products per round and the rest,
  two kernels at once, and the nine products of a depthwise window are, also where a load or a sum
  is undefined, the same accumulation in the same order.\<close>

theorem dot_products_are_plain:
  "tm_dot_prod m sp kp n = foldM (mac m sp kp) [0..<n] 0 \<and>
   tm_dot_prod_pack2 m sp kp n = pair_opt (tm_dot_prod m sp kp n) (tm_dot_prod m sp (padd kp (int n)) n) \<and>
   tm_dot_prod_3x3x1 m sp kp = tm_dot_prod m sp kp 9"
  by (intro conjI tm_dot_prod_plain tm_dot_prod_pack2_plain tm_dot_prod_3x3x1_plain)

text \<open>C3: requantisation of an accumulator within the bound does not overflow in any of its four
  steps, gives the closed form, and a larger accumulator never gives a smaller value.\<close>

theorem requantisation_is_safe:
  assumes "requant_safe bound scale out_s out_zp" "\<bar>acc + b\<bar> \<le> bound" "\<bar>acc' + b\<bar> \<le> bound" "acc \<le> acc'"
  shows "tm_requant acc b act scale out_s out_zp = Some (requant_ref acc b act scale out_s out_zp) \<and>
    requant_ref acc b act scale out_s out_zp \<le> requant_ref acc' b act scale out_s out_zp"
proof -
  have 1: "tm_requant a b act scale out_s out_zp = Some (requant_ref a b act scale out_s out_zp)"
    if "\<bar>a + b\<bar> \<le> bound" for a
    using requant_defined [OF assms(1) that] by (simp add: requant_ref_def)
  from requant_mono [OF assms 1 [OF assms(2)] 1 [OF assms(3)]] 1 [OF assms(2)] show ?thesis by blast
qed

theorem requantisation_witness:
  "tm_requant 135 10 1 256 256 0 = Some (requant_ref 135 10 1 256 256 0) \<and>
   requant_ref 135 10 1 256 256 0 \<le> requant_ref 136 10 1 256 256 0"
  by (rule requantisation_is_safe [of 1000]) (simp_all add: requant_safe_def)

subsection \<open>The other layers\<close>

lemmas demo_layer_defs = readable_def in_object_def apart_def demo_mem_def mat_size_def

lemma demo_load: "ld8 demo_mem (R_MAIN, 0) = Some 3" "ld8 demo_mem (R_MAIN, 1) = Some 3"
  "ld8 demo_mem (R_PIC, 0) = Some 1"
  by (simp_all add: ld8_def demo_mem_def)

lemma demo_bias_word: "ld_s32 demo_mem (R_PIC, 9) = Some 10"
  by (simp add: ld_eval demo_mem_def wrap_s32_def)

text \<open>C4: the fully connected layer stores for every output channel the requantised inner product of
  the input with the channel's weights plus its bias, and changes nothing else.\<close>

theorem fully_connected_is_correct:
  assumes "fc_ready inp out w b ws in_s out_s out_zp m"
  shows "\<exists>m'. tml_fc inp out w b ws in_s in_zp out_s out_zp m = Some (TM_OK, m') \<and>
    cm.agree_off (cells (m_data out) (m_c out)) m m' \<and>
    (\<forall>c<m_c out. ld8 m' (padd (m_data out) (int c)) =
       Some (to_s8 (the (fc_requant (fc_acc inp w b m c) in_s (the (ld_f32 m ws)) out_s out_zp))))"
  using assms by (rule fc_layer)

lemma demo_fc_acc: "fc_acc (unit_mat 0) (R_PIC, 0) (R_PIC, 9) demo_mem 0 = 13"
  by (simp add: fc_acc_def dot_ref_def demo_load demo_bias_word)

lemma demo_fc_requant:
  "fc_requant 13 (unpack32 0x3F800000) (unpack32 0x3D800000) (unpack32 0x3D800000) 5 = Some 18"
  by (simp add: fc_requant_def fp_eval cong: let_weak_cong)

lemma demo_fc: "fc_ready (unit_mat 0) (unit_mat 9) (R_PIC, 0) (R_PIC, 9) (R_PIC, 13)
    (unpack32 0x3F800000) (unpack32 0x3D800000) 5 demo_mem"
  unfolding fc_ready_def
  by (simp add: demo_fc_acc demo_ws demo_fc_requant in_s32_def, simp add: demo_layer_defs)

theorem fully_connected_witness:
  "\<exists>m'. tml_fc (unit_mat 0) (unit_mat 9) (R_PIC, 0) (R_PIC, 9) (R_PIC, 13) (unpack32 0x3F800000) 0
     (unpack32 0x3D800000) 5 demo_mem = Some (TM_OK, m') \<and> ld8 m' (R_MAIN, 9) = Some (to_s8 18)"
  using fully_connected_is_correct [OF demo_fc, of 0] demo_fc_acc demo_ws demo_fc_requant by auto

text \<open>C5: global average pooling stores for every channel the requantised quotient, rounded towards
  zero, of the sum over the picture by its area, and changes nothing else.\<close>

theorem average_pooling_is_correct:
  assumes "gap_ready inp out in_s in_zp out_s out_zp m"
  shows "\<exists>m'. tml_gap inp out in_s in_zp out_s out_zp m = Some (TM_OK, m') \<and>
    cm.agree_off (cells (m_data out) (m_c out)) m m' \<and>
    (\<forall>c<m_c out. ld8 m' (padd (m_data out) (int c)) =
       Some (to_s8 (the (gap_requant (gap_ref inp out m c (m_h inp * m_w inp)) (int (m_h inp * m_w inp))
         in_s in_zp out_s out_zp))))"
  using assms by (rule gap_layer)

lemma demo_gap_ref: "gap_ref (row_mat 2 0) (unit_mat 9) demo_mem 0 2 = 6"
  by (simp add: gap_ref_def demo_load numeral_2_eq_2 padd_def)

lemma demo_gap_requant: "gap_requant 6 2 (unpack32 0x3F800000) 1 (unpack32 0x3F800000) 4 = Some 6"
  by (simp add: gap_requant_def c_int sdiv_pos fp_eval cong: let_weak_cong)

lemma demo_gap: "gap_ready (row_mat 2 0) (unit_mat 9) (unpack32 0x3F800000) 1 (unpack32 0x3F800000) 4 demo_mem"
  unfolding gap_ready_def
  by (simp add: demo_gap_ref demo_gap_requant, simp add: demo_layer_defs)

theorem average_pooling_witness:
  "\<exists>m'. tml_gap (row_mat 2 0) (unit_mat 9) (unpack32 0x3F800000) 1 (unpack32 0x3F800000) 4 demo_mem =
     Some (TM_OK, m') \<and> ld8 m' (R_MAIN, 9) = Some (to_s8 6)"
  using average_pooling_is_correct [OF demo_gap] demo_gap_ref demo_gap_requant by auto

text \<open>C6: the addition layer stores for every element the requantised sum of the two dequantised
  operands, also when it works in place on one of its operands, and changes nothing else.\<close>

theorem addition_is_correct:
  assumes "add_ready in0 in1 out in_s0 in_zp0 in_s1 in_zp1 out_s out_zp m"
  shows "\<exists>m'. tml_add in0 in1 out in_s0 in_zp0 in_s1 in_zp1 out_s out_zp m = Some (TM_OK, m') \<and>
    cm.agree_off (cells (m_data out) (mat_size in0)) m m' \<and>
    (\<forall>i<mat_size in0. ld8 m' (padd (m_data out) (int i)) =
       Some (to_s8 (the (add_value (m_data in0) (m_data in1) in_s0 in_zp0 in_s1 in_zp1 out_s out_zp m i))))"
  using assms by (rule add_layer)

lemma demo_add_value: "add_value (R_MAIN, 0) (R_MAIN, 1) (unpack32 0x3F800000) 1 (unpack32 0x3F800000) 0
    (unpack32 0x3F800000) 4 demo_mem 0 = Some 9"
  by (simp add: add_value_def ld_s8_def demo_load tm_dequant_def tm_quant_def c_int fp_eval cong: let_weak_cong)

lemma demo_add: "add_ready (unit_mat 0) (unit_mat 1) (unit_mat 0) (unpack32 0x3F800000) 1
    (unpack32 0x3F800000) 0 (unpack32 0x3F800000) 4 demo_mem"
  unfolding add_ready_def
  by (simp add: mat_size_def demo_add_value, simp add: elementwise_def demo_layer_defs)

theorem addition_witness:
  "\<exists>m'. tml_add (unit_mat 0) (unit_mat 1) (unit_mat 0) (unpack32 0x3F800000) 1 (unpack32 0x3F800000) 0
     (unpack32 0x3F800000) 4 demo_mem = Some (TM_OK, m') \<and> ld8 m' (R_MAIN, 0) = Some (to_s8 9)"
  using addition_is_correct [OF demo_add] demo_add_value by (auto simp: mat_size_def)

text \<open>C7: the softmax layer, which keeps its intermediate floats in the output block and overwrites them
  from the front with the result bytes, stores the quantised softmax of the dequantised inputs: the
  scores shifted by their maximum, their approximate exponentials, and each divided by their sum.\<close>

theorem softmax_is_correct:
  assumes "softmax_ready inp out in_s in_zp m"
    and "softmax_ref (map (sm_d m (m_data inp) in_s in_zp) [0..<m_c inp]) out_s out_zp = Some qs"
  shows "\<exists>m'. tml_softmax inp out in_s in_zp out_s out_zp m = Some (TM_OK, m') \<and>
    cm.agree_off (cells (m_data out) (4 * m_c inp)) m m' \<and>
    (\<forall>c<m_c inp. ld8 m' (padd (m_data out) (int c)) = Some (to_s8 (qs ! c)))"
  using assms by (rule softmax_layer)

lemma demo_sm: "sm_d demo_mem (R_MAIN, 0) (unpack32 0x3F800000) 0 0 = unpack32 0x40400000"
    "sm_d demo_mem (R_MAIN, 0) (unpack32 0x3F800000) 0 (Suc 0) = unpack32 0x40400000"
  by (simp_all add: sm_d_def f32_stored_def demo_load padd_def fp_eval cong: let_weak_cong)

lemma demo_sm_max: "sm_max [unpack32 0x40400000, unpack32 0x40400000] = unpack32 0x40400000"
  by (simp add: sm_max_def fp_eval cong: let_weak_cong)

lemma demo_sm_e: "sm_e (unpack32 0x40400000) (unpack32 0x40400000) = Some (FNum False 8388864 (-23))"
  by (simp add: sm_e_def f32_stored_def tm_exp_def fp_eval cong: let_weak_cong)

lemma demo_softmax_ref: "softmax_ref [unpack32 0x40400000, unpack32 0x40400000] (unpack32 0x3B800000) (-128) = Some [0, 0]"
  by (simp add: softmax_ref_def demo_sm_max demo_sm_e)
     (simp add: sm_q_def sm_sum_def sm_p_def f32_stored_def fp_eval cong: let_weak_cong)

lemma demo_softmax: "softmax_ready (chan_mat 2 0) (chan_mat 2 2) (unpack32 0x3F800000) 0 demo_mem"
  unfolding softmax_ready_def
  by (simp add: less_Suc_eq numeral_2_eq_2 demo_load padd_def in_s32_def, simp add: demo_layer_defs)

theorem softmax_witness:
  "\<exists>m'. tml_softmax (chan_mat 2 0) (chan_mat 2 2) (unpack32 0x3F800000) 0 (unpack32 0x3B800000) (-128) demo_mem =
     Some (TM_OK, m') \<and> ld8 m' (R_MAIN, 2) = Some 0 \<and> ld8 m' (R_MAIN, 3) = Some 0"
proof -
  have "softmax_ref (map (sm_d demo_mem (m_data (chan_mat 2 0)) (unpack32 0x3F800000) 0) [0..<m_c (chan_mat 2 0)])
      (unpack32 0x3B800000) (-128) = Some [0, 0]"
    using demo_softmax_ref by (simp add: demo_sm upt_rec numeral_2_eq_2)
  from softmax_is_correct [OF demo_softmax this] show ?thesis
    by (auto simp: to_s8_def padd_def less_Suc_eq numeral_2_eq_2)
qed

text \<open>C8: preprocessing a picture of unsigned bytes, in place or into another block, stores every byte
  minus 128 as a signed byte, without overflow, and changes nothing else.\<close>

theorem preprocessing_is_correct:
  assumes "preprocess_ready m mdl inp out"
  shows "\<exists>m'. tm_preprocess m mdl TMPP_UINT2INT inp out = Some (TM_OK, out, m') \<and>
    cm.agree_off (cells (m_data out) (mat_size inp)) m m' \<and>
    (\<forall>i<mat_size inp. \<exists>b b'. ld8 m (padd (m_data inp) (int i)) = Some b \<and>
       ld8 m' (padd (m_data out) (int i)) = Some b' \<and> sint b' = int (unat b) - 128)"
  using assms by (rule preprocess_uint2int)

definition demo_mdl :: tm_mdl where
  "demo_mdl = loaded_mdl tm_mdl_zero (R_MODEL, 0) (R_MAIN, 0) True"

lemma length_demo_image: "length demo_image = 112"
  by (simp add: demo_image_def)

theorem preprocessing_witness:
  "\<exists>m' b'. tm_preprocess demo_mem demo_mdl TMPP_UINT2INT (unit_mat 0) (unit_mat 0) = Some (TM_OK, unit_mat 0, m') \<and>
     ld8 m' (R_MAIN, 0) = Some b' \<and> sint b' = -125"
proof -
  have "preprocess_ready demo_mem demo_mdl (unit_mat 0) (unit_mat 0)"
    by (simp add: preprocess_ready_def demo_mdl_def loaded_mdl_def mdlbin_layers_body_def elementwise_def
        in_object_def mat_size_def demo_mem_def length_demo_image padd_def)
  from preprocessing_is_correct [OF this] show ?thesis
    by (auto simp: mat_size_def demo_load)
qed

subsection \<open>Loading and running\<close>

text \<open>C9: \<open>tm_load\<close> with a buffer returns, on any image that holds a header, the error of the first check
  that fails (magic, model type, a wanted sub-buffer) and otherwise \<open>TM_OK\<close> with the handle at the
  first layer and an input tensor with the dimensions of the image on the buffer.\<close>

theorem load_reports_the_first_error:
  assumes "in_object m bin 64"
  shows "tm_load m mdl bin (Some buf) cb inp = Some
    (if mdlbin_magic m bin \<noteq> Some TM_MDL_MAGIC then (TM_ERR_MAGIC, mdl, inp)
     else if mdlbin_mdl_type m bin \<noteq> Some TM_MDL_TYPE then (TM_ERR_MDLTYPE, mdl, inp)
     else if mdlbin_sub_size m bin \<noteq> Some 0 then (TM_ERR_OOM, loaded_mdl mdl bin buf cb, inp)
     else (TM_OK, (loaded_mdl mdl bin buf cb)\<lparr>mdl_layer_i := 0, mdl_layer_body := Some (padd bin 64)\<rparr>,
           image_dims m bin \<lparr>m_dims = 0, m_h = 0, m_w = 0, m_c = 0, m_data = buf\<rparr>))"
  using assms by (rule load_outcomes)

lemma demo_header:
  assumes "m R_MODEL = demo_image @ rest"
  shows "mdlbin_magic m (R_MODEL, 0) = Some TM_MDL_MAGIC" "mdlbin_mdl_type m (R_MODEL, 0) = Some TM_MDL_TYPE"
    "mdlbin_sub_size m (R_MODEL, 0) = Some 0" "mdlbin_layer_cnt m (R_MODEL, 0) = Some 1"
    "mdlbin_out_deq m (R_MODEL, 0) = Some 0"
  using assms
  by (simp_all add: mdlbin_magic_def mdlbin_mdl_type_def mdlbin_sub_size_def mdlbin_layer_cnt_def
      mdlbin_out_deq_def ld_eval demo_image_def TM_MDL_MAGIC_def TM_MDL_TYPE_def)

lemma demo_mem_image: "demo_mem R_MODEL = demo_image @ []"
  by (simp add: demo_mem_def)

theorem load_witness:
  "\<exists>mdl inp. tm_load demo_mem tm_mdl_zero (R_MODEL, 0) (Some (R_MAIN, 0)) True (unit_mat 0) = Some (TM_OK, mdl, inp) \<and>
     mdl_layer_body mdl = Some (R_MODEL, 64) \<and> mdl_buf mdl = Some (R_MAIN, 0)"
proof -
  have "in_object demo_mem (R_MODEL, 0) 64"
    by (simp add: in_object_def demo_mem_def length_demo_image)
  from load_reports_the_first_error [OF this] show ?thesis
    by (simp add: demo_header [of demo_mem "[]", OF demo_mem_image] loaded_mdl_def padd_def)
qed

text \<open>C10: a run that returns has called, for each layer of the image up to the first error, exactly the kernel
  its header names, in the order in which the sizes in the headers chain the layers: each on the memory the
  one before has left, with the input, output and parameters its header and body describe; every output layer
  has filled the next output tensor, with the floats at the next aligned address when the image asks for them.
  With \<open>TM_OK\<close> these are all layers of the image; with an error the counter of the handle is the number of the
  layer that failed, and it is that layer's kernel that has returned the error.\<close>

theorem layers_run_in_order:
  assumes "tm_run base m mdl inp outs = Some (e, st')" "mdl_b mdl = Some b" "mdl_buf mdl = Some buf"
    and "fst b \<noteq> fst buf" "fst b \<noteq> R_SBUF"
  shows "\<exists>n hs ms. mdlbin_layer_cnt m b = Some n \<and> layer_heads m (padd b 64) (length hs) = Some hs \<and> ms 0 = m \<and>
    ran_in_order base buf (mdlbin_out_deq m b) (padd b 64) inp 0 hs ms \<and>
    outputs_filled base buf (mdlbin_out_deq m b) 0 hs (r_outs st') \<and> r_out_idx st' = out_heads hs \<and>
    mdl_layer_i (r_mdl st') = length hs \<and>
    (if e = TM_OK then length hs = n \<and> r_mem st' = ms n
     else length hs < n \<and> (\<exists>h. ld_head m (padd b (64 + int (heads_size hs))) = Some h \<and>
       layer_call buf (padd b (64 + int (heads_size hs))) inp (length hs) h (ms (length hs)) = Some (e, r_mem st')))"
  using assms by (rule tm_run_ran)

definition demo_run :: run_state where
  "demo_run = \<lparr>r_mem = demo_mem, r_mdl = demo_mdl\<lparr>mdl_layer_body := Some (R_MODEL, 64)\<rparr>,
     r_in = unit_mat 0, r_outs = [unit_mat 0], r_out_idx = 0\<rparr>"

definition demo_head :: tml_head where
  "demo_head = \<lparr>h_type = 4, h_is_out = 1, h_size = 48, h_in_oft = 0, h_out_oft = 1000, h_in_dims = [0, 0, 0, 0],
     h_out_dims = [1, 1, 1, 10], h_in_s = unpack32 0, h_in_zp = 0, h_out_s = unpack32 0, h_out_zp = 0\<rparr>"

lemma demo_head_read: "m R_MODEL = demo_image @ rest \<Longrightarrow> ld_head m (R_MODEL, 64) = Some demo_head"
  by (simp add: demo_head_def ld_head_def ld_dims_def ld_eval ld_f32_def demo_image_def nth_append wrap_s32_def)

text \<open>The one layer passes its input on: the run only sets the output tensor.\<close>

lemma demo_layers:
  assumes "m R_MODEL = demo_image @ rest" "mdl_b mdl = Some (R_MODEL, 0)" "mdl_buf mdl = Some (R_MAIN, 0)"
    "mdl_layer_body mdl = Some (R_MODEL, 64)"
  shows "\<exists>st'. run_layers base (Suc 0) \<lparr>r_mem = m, r_mdl = mdl, r_in = inp, r_outs = [out], r_out_idx = 0\<rparr> =
     Some (TM_OK, st') \<and> r_mem st' = m \<and> map m_data (r_outs st') = [(R_MAIN, 1000)]"
  using assms demo_head_read [of m rest] demo_header [of m rest]
  by (simp add: run_layer_def demo_head_def dispatch_layer_def tml_type_defs tml_reshape_def emit_output_def
      padd_def set_dims_def Let_def)

lemma demo_run_ok: "\<exists>st'. run_layers 0 (Suc 0) demo_run = Some (TM_OK, st')"
  using demo_layers [of demo_mem "[]", OF demo_mem_image, of "r_mdl demo_run" 0 "unit_mat 0" "unit_mat 0"]
  by (auto simp: demo_run_def demo_mdl_def loaded_mdl_def)

lemma demo_tm_run: "tm_run 0 demo_mem demo_mdl (unit_mat 0) [unit_mat 0] = run_layers 0 (Suc 0) demo_run"
  by (simp add: tm_run_def demo_header [of demo_mem "[]", OF demo_mem_image] demo_run_def mdlbin_layers_body_def padd_def demo_mdl_def
      loaded_mdl_def tm_mdl_zero_def)

theorem layers_run_in_order_witness:
  "\<exists>st' hs. tm_run 0 demo_mem demo_mdl (unit_mat 0) [unit_mat 0] = Some (TM_OK, st') \<and>
     layer_heads demo_mem (R_MODEL, 64) 1 = Some hs \<and> mdl_layer_i (r_mdl st') = 1 \<and>
     outputs_filled 0 (R_MAIN, 0) (Some 0) 0 hs (r_outs st')"
proof -
  obtain st' where st': "tm_run 0 demo_mem demo_mdl (unit_mat 0) [unit_mat 0] = Some (TM_OK, st')"
    using demo_run_ok demo_tm_run by metis
  have "mdl_b demo_mdl = Some (R_MODEL, 0)" "mdl_buf demo_mdl = Some (R_MAIN, 0)"
    by (simp_all add: demo_mdl_def loaded_mdl_def)
  from layers_run_in_order [OF st' this] st' show ?thesis
    by (auto simp: demo_header [of demo_mem "[]", OF demo_mem_image] padd_def)
qed

text \<open>C11: whatever the image, a run that meets no undefined behaviour has written only into the main buffer and
  the scratch array, so neither into the image nor into the picture; no object has another size, and the image
  pointer, the buffer and the number of output tensors of the handle are as before. (That a run is free of
  undefined behaviour is not part of the claim: C12 shows an image that is loaded and whose run is not.)\<close>

theorem run_keeps_the_objects:
  assumes "tm_run base m mdl inp outs = Some (e, st)" "mdl_buf mdl = Some buf"
  shows "(\<forall>r. r \<noteq> fst buf \<and> r \<noteq> R_SBUF \<longrightarrow> r_mem st r = m r) \<and> (\<forall>r. length (r_mem st r) = length (m r)) \<and>
    mdl_b (r_mdl st) = mdl_b mdl \<and> mdl_buf (r_mdl st) = mdl_buf mdl \<and> length (r_outs st) = length outs"
  using tm_run_keeps [OF assms] tm_run_same [OF assms(1)] by (auto simp: keeps_def)

theorem run_keeps_the_objects_witness:
  "\<exists>st. tm_run 0 demo_mem demo_mdl (unit_mat 0) [unit_mat 0] = Some (TM_OK, st) \<and>
     r_mem st R_MODEL = demo_image \<and> length (r_mem st R_MAIN) = 16"
proof -
  have buf: "mdl_buf demo_mdl = Some (R_MAIN, 0)" by (simp add: demo_mdl_def loaded_mdl_def)
  obtain st where st: "tm_run 0 demo_mem demo_mdl (unit_mat 0) [unit_mat 0] = Some (TM_OK, st)"
    using demo_run_ok demo_tm_run by metis
  from run_keeps_the_objects [OF st buf] st show ?thesis
    by (auto simp: demo_mem_def)
qed

text \<open>The addition layer, unrolled to four elements per round with a rest loop, treats every element
  of the tensor once and in order, also where an element is undefined.\<close>

theorem addition_is_elementwise:
  "tml_add in0 in1 out in_s0 in_zp0 in_s1 in_zp1 out_s out_zp m =
   map_option (Pair TM_OK) (for_upto (mat_size in0)
     (add_elem (m_data in0) (m_data in1) (m_data out) in_s0 in_zp0 in_s1 in_zp1 out_s out_zp) m)"
  by (rule tml_add_plain)














end
