(* ===== verification/Psa.thy ===== *)
theory Psa
  imports Prelude
begin

section \<open>The PSA interfaces\<close>

text \<open>
  The PSA Crypto API, the PSA service and client API of the secure partition manager and
  the TF-M client extension are not part of the repository. They are a parameter of the
  model: an environment gives, for every history of calls, the response to the next
  call. The model records the calls with their responses, so that a theorem for all
  environments speaks about every behaviour of the other side, and a hypothesis about
  the other side is a predicate on the environment or on the recorded trace.
\<close>

text \<open>Status codes are names: the program never computes with their values.\<close>

datatype psa_status =
  PSA_SUCCESS | PSA_ERROR_GENERIC_ERROR | PSA_ERROR_NOT_SUPPORTED | PSA_ERROR_INVALID_ARGUMENT
| PSA_ERROR_BAD_STATE | PSA_ERROR_BUFFER_TOO_SMALL | PSA_ERROR_ALREADY_EXISTS
| PSA_ERROR_INSUFFICIENT_MEMORY | PSA_ERROR_COMMUNICATION_FAILURE | PSA_ERROR_CONNECTION_REFUSED
| PSA_ERROR_OTHER int

datatype psa_alg = PSA_ALG_CBC_NO_PADDING | PSA_ALG_CBC_PKCS7 | PSA_ALG_SHA_256 | PSA_ALG_HKDF_SHA_256

text \<open>The attributes the program sets before an import.\<close>

record key_attr =
  ka_encrypt :: bool
  ka_decrypt :: bool
  ka_alg :: psa_alg
  ka_bits :: nat

datatype psa_call =
  Crypto_init
| Kdf_setup psa_alg
| Kdf_input_salt "byte list"
| Kdf_input_huk
| Kdf_input_info string
| Kdf_output nat
| Kdf_abort
| Import_key key_attr "byte list"
| Destroy_key int
| Cipher_decrypt_setup int psa_alg
| Cipher_set_iv "byte list"
| Cipher_update "byte list" nat
| Cipher_finish int
| Cipher_abort
| Cipher_encrypt int psa_alg "byte list" nat
| Cipher_decrypt int psa_alg "byte list" nat
| Hash_compute psa_alg "byte list" nat
| Psa_read int nat nat
| Psa_write int nat "byte list"
| Psa_reply int psa_status
| Psa_connect nat nat
| Psa_call int nat "byte list list" "nat list"
| Psa_close int

text \<open>
  A response: the status, the bytes stored through the output pointer, a number (key
  identifier or connection handle).
\<close>

record psa_resp =
  rs_status :: psa_status
  rs_bytes :: "byte list"
  rs_num :: int

type_synonym psa_trace = "(psa_call \<times> psa_resp) list"
type_synonym psa_env = "psa_trace \<Rightarrow> psa_call \<Rightarrow> psa_resp"

definition invoke :: "psa_env \<Rightarrow> psa_call \<Rightarrow> psa_trace \<Rightarrow> psa_resp \<times> psa_trace" where
  "invoke env c tr = (env tr c, tr @ [(c, env tr c)])"

text \<open>A call whose result is not used.\<close>

definition issue :: "psa_env \<Rightarrow> psa_call \<Rightarrow> psa_trace \<Rightarrow> psa_trace" where
  "issue env c tr = snd (invoke env c tr)"

lemma fst_invoke [simp]: "fst (invoke env c tr) = env tr c"
  and snd_invoke [simp]: "snd (invoke env c tr) = tr @ [(c, env tr c)]"
  by (simp_all add: invoke_def)

lemma issue_eq [simp]: "issue env c tr = tr @ [(c, env tr c)]"
  by (simp add: issue_def)

text \<open>The callee writes at most the size it is given, from the start of the buffer.\<close>

definition buf_fill :: "byte list \<Rightarrow> byte list \<Rightarrow> byte list" where
  "buf_fill buf bs = take (length buf) bs @ drop (length bs) buf"

lemma length_buf_fill [simp]: "length (buf_fill buf bs) = length buf"
  by (simp add: buf_fill_def)

lemma buf_fill_exact: "length bs = length buf \<Longrightarrow> buf_fill buf bs = bs"
  by (simp add: buf_fill_def)

subsection \<open>Crypto resources\<close>

text \<open>
  The resources a program is responsible for: the keys it has imported, an active cipher operation, an active
  key derivation. There are two views of them. \<open>owed_after\<close> says what the program still has to ask the release
  of: a release call settles it whatever the implementation answers, as there is nothing more the program can
  do. \<open>live_after\<close> says what exists: a release counts only when it reports success, as a key that could not be
  destroyed may still be there. The two agree on a trace whose release calls all succeed.
\<close>

record crypto_res =
  cr_keys :: "int list"
  cr_cipher :: bool
  cr_kdf :: bool

definition res_idle :: crypto_res where
  "res_idle = \<lparr>cr_keys = [], cr_cipher = False, cr_kdf = False\<rparr>"

fun owed_step :: "psa_call \<times> psa_resp \<Rightarrow> crypto_res \<Rightarrow> crypto_res" where
  "owed_step (Import_key a k, r) s =
     (if rs_status r = PSA_SUCCESS then s\<lparr>cr_keys := rs_num r # cr_keys s\<rparr> else s)"
| "owed_step (Destroy_key k, r) s = s\<lparr>cr_keys := remove1 k (cr_keys s)\<rparr>"
| "owed_step (Cipher_decrypt_setup k a, r) s =
     (if rs_status r = PSA_SUCCESS then s\<lparr>cr_cipher := True\<rparr> else s)"
| "owed_step (Cipher_abort, r) s = s\<lparr>cr_cipher := False\<rparr>"
| "owed_step (Kdf_setup a, r) s =
     (if rs_status r = PSA_SUCCESS then s\<lparr>cr_kdf := True\<rparr> else s)"
| "owed_step (Kdf_abort, r) s = s\<lparr>cr_kdf := False\<rparr>"
| "owed_step (c, r) s = s"

definition owed_after :: "psa_trace \<Rightarrow> crypto_res \<Rightarrow> crypto_res" where
  "owed_after cs s = fold owed_step cs s"

lemma owed_after_append [simp]: "owed_after (cs @ ds) s = owed_after ds (owed_after cs s)"
  and owed_after_Nil [simp]: "owed_after [] s = s"
  and owed_after_Cons [simp]: "owed_after (x # cs) s = owed_after cs (owed_step x s)"
  by (simp_all add: owed_after_def)

fun live_step :: "psa_call \<times> psa_resp \<Rightarrow> crypto_res \<Rightarrow> crypto_res" where
  "live_step (Import_key a k, r) s =
     (if rs_status r = PSA_SUCCESS then s\<lparr>cr_keys := rs_num r # cr_keys s\<rparr> else s)"
| "live_step (Destroy_key k, r) s =
     (if rs_status r = PSA_SUCCESS then s\<lparr>cr_keys := remove1 k (cr_keys s)\<rparr> else s)"
| "live_step (Cipher_decrypt_setup k a, r) s =
     (if rs_status r = PSA_SUCCESS then s\<lparr>cr_cipher := True\<rparr> else s)"
| "live_step (Cipher_abort, r) s = (if rs_status r = PSA_SUCCESS then s\<lparr>cr_cipher := False\<rparr> else s)"
| "live_step (Kdf_setup a, r) s =
     (if rs_status r = PSA_SUCCESS then s\<lparr>cr_kdf := True\<rparr> else s)"
| "live_step (Kdf_abort, r) s = (if rs_status r = PSA_SUCCESS then s\<lparr>cr_kdf := False\<rparr> else s)"
| "live_step (c, r) s = s"

definition live_after :: "psa_trace \<Rightarrow> crypto_res \<Rightarrow> crypto_res" where
  "live_after cs s = fold live_step cs s"

fun release_call :: "psa_call \<Rightarrow> bool" where
  "release_call (Destroy_key k) = True"
| "release_call Cipher_abort = True"
| "release_call Kdf_abort = True"
| "release_call c = False"

definition releases_ok :: "psa_trace \<Rightarrow> bool" where
  "releases_ok cs \<longleftrightarrow> (\<forall>(c, r)\<in>set cs. release_call c \<longrightarrow> rs_status r = PSA_SUCCESS)"

lemma live_step_owed: "(release_call c \<Longrightarrow> rs_status r = PSA_SUCCESS) \<Longrightarrow> live_step (c, r) s = owed_step (c, r) s"
  by (cases c) auto

lemma live_after_owed: "releases_ok cs \<Longrightarrow> live_after cs s = owed_after cs s"
proof (induction cs arbitrary: s)
  case (Cons x cs)
  then have "live_step x s = owed_step x s" by (cases x) (auto simp: releases_ok_def intro!: live_step_owed)
  with Cons show ?case by (simp add: releases_ok_def live_after_def owed_after_def)
qed (simp add: live_after_def)

text \<open>The calls a step adds to the trace.\<close>

definition added :: "psa_trace \<Rightarrow> psa_trace \<Rightarrow> psa_trace" where
  "added tr tr' = drop (length tr) tr'"

definition extends :: "psa_trace \<Rightarrow> psa_trace \<Rightarrow> bool" where
  "extends tr tr' \<longleftrightarrow> tr' = tr @ added tr tr'"

lemma added_append [simp]: "added tr (tr @ cs) = cs"
  by (simp add: added_def)

lemma extends_append [simp]: "extends tr (tr @ cs)"
  by (simp add: extends_def)

lemma extends_refl [simp]: "extends tr tr"
  by (simp add: extends_def added_def)

lemma extends_trans: "extends a b \<Longrightarrow> extends b c \<Longrightarrow> extends a c"
  unfolding extends_def by (metis append.assoc added_append)

lemma added_trans: "extends a b \<Longrightarrow> extends b c \<Longrightarrow> added a c = added a b @ added b c"
  unfolding extends_def by (metis append.assoc added_append)

text \<open>The call results, by position: used to state what a run of calls contains.\<close>

definition calls_of :: "psa_trace \<Rightarrow> psa_call list" where
  "calls_of = map fst"

end
