(* ===== verification/Model_Decrypt.thy ===== *)
theory Model_Decrypt
  imports Psa C_Memory
begin

section \<open>Decrypting the model package (decrypt_model)\<close>

text \<open>
  The part of \<open>tinymaix_inference.c\<close> that turns the encrypted package into the model
  image: the package header, the key derived from the hardware unique key, AES-CBC
  through the PSA operation, and the removal of the PKCS7 padding. Logging is left out.
\<close>

definition TFM_TINYMAIX_MAX_MODEL_SIZE :: nat where "TFM_TINYMAIX_MAX_MODEL_SIZE = 4096"
definition ENCRYPTED_HEADER_MAGIC :: nat where "ENCRYPTED_HEADER_MAGIC = 0x58414D54"
definition ENCRYPTED_HEADER_CBC_SIZE :: nat where "ENCRYPTED_HEADER_CBC_SIZE = 28"
definition DERIVED_KEY_LEN :: nat where "DERIVED_KEY_LEN = 16"

text \<open>\<open>encrypted_tinymaix_header_cbc_t\<close>, packed.\<close>

record enc_header =
  eh_magic :: nat
  eh_version :: nat
  eh_original_size :: nat
  eh_iv :: "byte list"

definition enc_header_of :: "byte list \<Rightarrow> enc_header option" where
  "enc_header_of data =
     do { magic \<leftarrow> field_at data 0 4;
          version \<leftarrow> field_at data 4 4;
          size \<leftarrow> field_at data 8 4;
          assert_ub (28 \<le> length data);
          Some \<lparr>eh_magic = magic, eh_version = version, eh_original_size = size,
            eh_iv = take 16 (drop 12 data)\<rparr> }"

text \<open>\<open>derive_key_from_huk\<close>: the status, the buffer and the calls made.\<close>

definition derive_key_from_huk ::
  "psa_env \<Rightarrow> string \<Rightarrow> byte list \<Rightarrow> psa_trace \<Rightarrow> psa_status \<times> byte list \<times> psa_trace" where
  "derive_key_from_huk env label derived tr =
     (let (r, tr) = invoke env (Kdf_setup PSA_ALG_HKDF_SHA_256) tr
      in if rs_status r \<noteq> PSA_SUCCESS then (rs_status r, derived, tr) else
      let (r, tr) = invoke env (Kdf_input_salt []) tr
      in if rs_status r \<noteq> PSA_SUCCESS then (rs_status r, derived, issue env Kdf_abort tr) else
      let (r, tr) = invoke env Kdf_input_huk tr
      in if rs_status r \<noteq> PSA_SUCCESS then (rs_status r, derived, issue env Kdf_abort tr) else
      let (r, tr) = invoke env (Kdf_input_info label) tr
      in if rs_status r \<noteq> PSA_SUCCESS then (rs_status r, derived, issue env Kdf_abort tr) else
      let (r, tr) = invoke env (Kdf_output (length derived)) tr;
          derived = buf_fill derived (rs_bytes r)
      in if rs_status r \<noteq> PSA_SUCCESS then (rs_status r, derived, issue env Kdf_abort tr) else
      (PSA_SUCCESS, derived, issue env Kdf_abort tr))"

definition huk_label :: string where
  "huk_label = ''pico2w-tinymaix-model-aes128-v1.0''"

definition model_key_attr :: key_attr where
  "model_key_attr = \<lparr>ka_encrypt = False, ka_decrypt = True, ka_alg = PSA_ALG_CBC_NO_PADDING, ka_bits = 128\<rparr>"

subsection \<open>PKCS7 padding\<close>

text \<open>The loop that compares the padding bytes from the end; it stops at the first difference.\<close>

fun pad_check :: "mem \<Rightarrow> int \<Rightarrow> byte \<Rightarrow> nat list \<Rightarrow> bool option" where
  "pad_check m last_off pad [] = Some True"
| "pad_check m last_off pad (i # is) =
     do { b \<leftarrow> ld8 m (R_MODEL, last_off - int i);
          if b \<noteq> pad then Some False else pad_check m last_off pad is }"

text \<open>The size without the padding, or the error of the invalid padding.\<close>

definition strip_padding :: "mem \<Rightarrow> nat \<Rightarrow> (psa_status + nat) option" where
  "strip_padding m output_length =
     (if output_length = 0 then Some (Inl PSA_ERROR_GENERIC_ERROR)
      else do {
        pad \<leftarrow> ld8 m (R_MODEL, int output_length - 1);
        if unat pad = 0 \<or> unat pad > 16 then Some (Inl PSA_ERROR_GENERIC_ERROR)
        else if unat pad > output_length then Some (Inl PSA_ERROR_GENERIC_ERROR)
        else do {
          ok \<leftarrow> pad_check m (int output_length - 1) pad [0..<unat pad];
          if \<not> ok then Some (Inl PSA_ERROR_GENERIC_ERROR)
          else Some (Inr (output_length - unat pad)) } })"

subsection \<open>decrypt_model\<close>

text \<open>The globals of the partition that decryption uses.\<close>

record dec_state =
  d_mem :: mem
  d_size :: nat
  d_key :: "byte list"
  d_tr :: psa_trace

text \<open>The multi-part decryption, after a key is imported: the total length or the error.\<close>

definition cbc_decrypt ::
  "psa_env \<Rightarrow> int \<Rightarrow> byte list \<Rightarrow> byte list \<Rightarrow> mem \<Rightarrow> psa_trace \<Rightarrow>
   ((psa_status + nat) \<times> mem \<times> psa_trace) option" where
  "cbc_decrypt env key_id iv ciphertext m tr =
     (let (r, tr) = invoke env (Cipher_decrypt_setup key_id PSA_ALG_CBC_NO_PADDING) tr
      in if rs_status r \<noteq> PSA_SUCCESS
         then Some (Inl (rs_status r), m, issue env (Destroy_key key_id) tr) else
      let (r, tr) = invoke env (Cipher_set_iv iv) tr
      in if rs_status r \<noteq> PSA_SUCCESS
         then Some (Inl (rs_status r), m, issue env (Destroy_key key_id) (issue env Cipher_abort tr)) else
      let (r, tr) = invoke env (Cipher_update ciphertext TFM_TINYMAIX_MAX_MODEL_SIZE) tr
      in do {
        m \<leftarrow> st_bytes m (R_MODEL, 0) (take TFM_TINYMAIX_MAX_MODEL_SIZE (rs_bytes r));
        let n = length (rs_bytes r);
        (status, n, m, tr) \<leftarrow>
          (if rs_status r = PSA_SUCCESS
           then (let room = wrap_u32 (int TFM_TINYMAIX_MAX_MODEL_SIZE - int n);
                     (f, tr) = invoke env (Cipher_finish room) tr
                 in do { m \<leftarrow> st_bytes m (R_MODEL, int n) (take (nat room) (rs_bytes f));
                         Some (rs_status f, n + length (rs_bytes f), m, tr) })
           else Some (rs_status r, n, m, tr));
        let tr = issue env (Destroy_key key_id) (issue env Cipher_abort tr);
        Some (if status \<noteq> PSA_SUCCESS then Inl status else Inr n, m, tr) })"

text \<open>The checks on the decrypted bytes; \<open>g_decrypted_size\<close> is set before the size check.\<close>

definition check_plaintext :: "enc_header \<Rightarrow> nat \<Rightarrow> dec_state \<Rightarrow> (psa_status \<times> dec_state) option" where
  "check_plaintext hdr output_length st =
     do { stripped \<leftarrow> strip_padding (d_mem st) output_length;
          case stripped of
            Inl e \<Rightarrow> Some (e, st)
          | Inr n \<Rightarrow>
              let st = st\<lparr>d_size := n\<rparr>
              in if n \<noteq> eh_original_size hdr then Some (PSA_ERROR_GENERIC_ERROR, st)
                 else if n \<ge> 4 then do {
                   magic \<leftarrow> ld_u32 (d_mem st) (R_MODEL, 0);
                   Some (if magic = 0x5849414D then PSA_SUCCESS else PSA_ERROR_GENERIC_ERROR, st) }
                 else Some (PSA_SUCCESS, st) }"

definition decrypt_model ::
  "psa_env \<Rightarrow> byte list option \<Rightarrow> nat \<Rightarrow> dec_state \<Rightarrow> (psa_status \<times> dec_state) option" where
  "decrypt_model env encrypted_data encrypted_size st =
     (case encrypted_data of
        None \<Rightarrow> Some (PSA_ERROR_INVALID_ARGUMENT, st)
      | Some data \<Rightarrow>
        if encrypted_size < ENCRYPTED_HEADER_CBC_SIZE then Some (PSA_ERROR_INVALID_ARGUMENT, st)
        else do {
          hdr \<leftarrow> enc_header_of data;
          if eh_magic hdr \<noteq> ENCRYPTED_HEADER_MAGIC \<or> eh_version hdr \<noteq> 3
          then Some (PSA_ERROR_INVALID_ARGUMENT, st)
          else if eh_original_size hdr > TFM_TINYMAIX_MAX_MODEL_SIZE
          then Some (PSA_ERROR_BUFFER_TOO_SMALL, st)
          else let ciphertext_size = encrypted_size - ENCRYPTED_HEADER_CBC_SIZE
          in if ciphertext_size = 0 then Some (PSA_ERROR_INVALID_ARGUMENT, st)
          else let (r, tr) = invoke env Crypto_init (d_tr st); st = st\<lparr>d_tr := tr\<rparr>
          in if rs_status r \<noteq> PSA_SUCCESS \<and> rs_status r \<noteq> PSA_ERROR_ALREADY_EXISTS
          then Some (rs_status r, st)
          else let (e, key, tr) = derive_key_from_huk env huk_label (d_key st) (d_tr st);
                   st = st\<lparr>d_key := key, d_tr := tr\<rparr>
          in if e \<noteq> PSA_SUCCESS then Some (PSA_ERROR_GENERIC_ERROR, st)
          else let (r, tr) = invoke env (Import_key model_key_attr (d_key st)) (d_tr st);
                   st = st\<lparr>d_tr := tr\<rparr>
          in if rs_status r \<noteq> PSA_SUCCESS then Some (rs_status r, st)
          else do {
            assert_ub (encrypted_size \<le> length data);
            (out, m, tr) \<leftarrow> cbc_decrypt env (rs_num r) (eh_iv hdr)
               (take ciphertext_size (drop ENCRYPTED_HEADER_CBC_SIZE data)) (d_mem st) (d_tr st);
            let st = st\<lparr>d_mem := m, d_tr := tr\<rparr>;
            case out of
              Inl e \<Rightarrow> Some (e, st)
            | Inr n \<Rightarrow> check_plaintext hdr n st } })"

end
