(* ===== verification/Inference_Service.thy ===== *)
theory Inference_Service
  imports Model_Decrypt Tm_Model
begin

section \<open>The inference partition (tinymaix_inference.c)\<close>

text \<open>
  The globals of the partition as a record, the handler of one message with its three
  requests, and the service loop over a finite prefix of the arriving messages. The loop
  itself never ends; a message whose \<open>psa_get\<close> fails is skipped, as in the code. Logging
  is left out.
\<close>

subsection \<open>Messages\<close>

datatype psa_msg_type = PSA_IPC_CONNECT | PSA_IPC_DISCONNECT | MSG_CALL nat

text \<open>A call with type 0 is \<open>PSA_IPC_CALL\<close>.\<close>

definition PSA_IPC_CALL :: nat where "PSA_IPC_CALL = 0"

record psa_msg =
  msg_type :: psa_msg_type
  msg_handle :: int
  msg_in_size :: nat
  msg_out_size :: nat

definition TINYMAIX_IPC_LOAD_ENCRYPTED_MODEL :: nat where "TINYMAIX_IPC_LOAD_ENCRYPTED_MODEL = 0x1002"
definition TINYMAIX_IPC_RUN_INFERENCE :: nat where "TINYMAIX_IPC_RUN_INFERENCE = 0x1003"
definition TINYMAIX_IPC_GET_MODEL_KEY :: nat where "TINYMAIX_IPC_GET_MODEL_KEY = 0x1004"

lemmas tinymaix_ipc_defs = TINYMAIX_IPC_LOAD_ENCRYPTED_MODEL_def TINYMAIX_IPC_RUN_INFERENCE_def
  TINYMAIX_IPC_GET_MODEL_KEY_def

definition MDL_BUF_LEN :: nat where "MDL_BUF_LEN = 1464"

definition pic_size :: nat where "pic_size = 28 * 28"

subsection \<open>The globals\<close>

text \<open>The byte objects, the key and the sizes are those of decryption; \<open>g_outs\<close> has one entry.\<close>

record svc =
  g_mdl :: tm_mdl
  g_in_uint8 :: tm_mat
  g_in :: tm_mat
  g_outs :: "tm_mat list"
  g_model_loaded :: bool
  g_dec :: dec_state

abbreviation svc_mem :: "svc \<Rightarrow> mem" where
  "svc_mem st \<equiv> d_mem (g_dec st)"

abbreviation svc_tr :: "svc \<Rightarrow> psa_trace" where
  "svc_tr st \<equiv> d_tr (g_dec st)"

definition set_mem :: "mem \<Rightarrow> svc \<Rightarrow> svc" where
  "set_mem m st = st\<lparr>g_dec := (g_dec st)\<lparr>d_mem := m\<rparr>\<rparr>"

definition set_tr :: "psa_trace \<Rightarrow> svc \<Rightarrow> svc" where
  "set_tr tr st = st\<lparr>g_dec := (g_dec st)\<lparr>d_tr := tr\<rparr>\<rparr>"

text \<open>A call whose result the handler ignores: \<open>psa_reply\<close>, \<open>psa_write\<close>.\<close>

definition svc_issue :: "psa_env \<Rightarrow> psa_call \<Rightarrow> svc \<Rightarrow> svc" where
  "svc_issue env c st = set_tr (issue env c (svc_tr st)) st"

definition tinymaix_inference_init :: "svc \<Rightarrow> psa_status \<times> svc" where
  "tinymaix_inference_init st = (PSA_SUCCESS, st\<lparr>g_model_loaded := False, g_mdl := tm_mdl_zero\<rparr>)"

subsection \<open>Loading\<close>

text \<open>\<open>layer_cb\<close> does nothing and reports \<open>TM_OK\<close>; its address is stored in the handle.\<close>

definition layer_cb :: "tm_mdl \<Rightarrow> tml_head \<Rightarrow> tm_err" where
  "layer_cb mdl lh = TM_OK"

definition load_model :: "psa_env \<Rightarrow> byte list \<Rightarrow> svc \<Rightarrow> (psa_status \<times> svc) option" where
  "load_model env pkg st =
     do { (status, d) \<leftarrow>
            (if length pkg > TFM_TINYMAIX_MAX_MODEL_SIZE then Some (PSA_ERROR_INSUFFICIENT_MEMORY, g_dec st)
             else decrypt_model env (Some pkg) (length pkg) (g_dec st));
          let st = st\<lparr>g_dec := d\<rparr>;
          if status = PSA_SUCCESS then do {
            (res, mdl, inp) \<leftarrow> tm_load (svc_mem st) (g_mdl st) (R_MODEL, 0) (Some (R_MAIN, 0)) True (g_in st);
            let st = st\<lparr>g_mdl := mdl, g_in := inp\<rparr>;
            if res \<noteq> TM_OK then Some (PSA_ERROR_GENERIC_ERROR, st\<lparr>g_model_loaded := False\<rparr>)
            else Some (PSA_SUCCESS, st\<lparr>g_model_loaded := True\<rparr>) }
          else Some (status, st\<lparr>g_model_loaded := False\<rparr>) }"

text \<open>An integer as the four bytes of its object.\<close>

definition int_bytes :: "int \<Rightarrow> byte list" where
  "int_bytes i = nat_le 4 (nat (wrap_u32 i))"

definition handle_load :: "psa_env \<Rightarrow> byte list \<Rightarrow> psa_msg \<Rightarrow> svc \<Rightarrow> svc option" where
  "handle_load env pkg msg st =
     do { (status, st) \<leftarrow> load_model env pkg st;
          let st = (if status = PSA_SUCCESS \<and> msg_out_size msg \<ge> 4
                    then svc_issue env (Psa_write (msg_handle msg) 0 (int_bytes 0)) st else st);
          Some (svc_issue env (Psa_reply (msg_handle msg) status) st) }"

subsection \<open>Inference\<close>

text \<open>\<open>parse_output\<close>: the first index of the largest of ten floats that is above zero, or -1.\<close>

definition parse_step :: "mem \<Rightarrow> ptr \<Rightarrow> nat \<Rightarrow> fp \<times> int \<Rightarrow> (fp \<times> int) option" where
  "parse_step m data i st =
     (case st of (maxp, maxi) \<Rightarrow>
       do { x \<leftarrow> ld_f32 m (padd data (4 * int i));
            Some (if fp_gt x maxp then (x, int i) else (maxp, maxi)) })"

definition parse_output :: "mem \<Rightarrow> tm_mat \<Rightarrow> int option" where
  "parse_output m out = map_option snd (for_upto 10 (parse_step m (m_data out)) (f32_of_int 0, -1))"

text \<open>Preprocess, run and parse, for the picture in \<open>mnist_pic\<close>; \<open>base\<close> is the address of the main buffer.\<close>

definition infer_picture :: "int \<Rightarrow> svc \<Rightarrow> (psa_status \<times> int option \<times> svc) option" where
  "infer_picture base st =
     do { let st = st\<lparr>g_in_uint8 := \<lparr>m_dims = 3, m_h = 28, m_w = 28, m_c = 1, m_data = (R_PIC, 0)\<rparr>\<rparr>;
          (res, inp, m) \<leftarrow> tm_preprocess (svc_mem st) (g_mdl st) TMPP_UINT2INT (g_in_uint8 st) (g_in st);
          let st = (set_mem m st)\<lparr>g_in := inp\<rparr>;
          if res \<noteq> TM_OK then Some (PSA_ERROR_GENERIC_ERROR, None, st)
          else do {
            (res, rs) \<leftarrow> tm_run base (svc_mem st) (g_mdl st) (g_in st) (g_outs st);
            let st = (set_mem (r_mem rs) st)\<lparr>g_mdl := r_mdl rs, g_outs := r_outs rs\<rparr>;
            if res \<noteq> TM_OK then Some (PSA_ERROR_GENERIC_ERROR, None, st)
            else do {
              assert_ub (0 < length (g_outs st));
              result \<leftarrow> parse_output (svc_mem st) (g_outs st ! 0);
              Some (PSA_SUCCESS, Some result, st) } } }"

text \<open>The result is written when the client has room for an \<open>int\<close>.\<close>

definition write_result :: "psa_env \<Rightarrow> psa_msg \<Rightarrow> int option \<Rightarrow> svc \<Rightarrow> svc" where
  "write_result env msg result st =
     (case result of None \<Rightarrow> st
      | Some r \<Rightarrow> if msg_out_size msg \<ge> 4
                  then svc_issue env (Psa_write (msg_handle msg) 0 (int_bytes r)) st else st)"

definition handle_run :: "psa_env \<Rightarrow> int \<Rightarrow> psa_msg \<Rightarrow> svc \<Rightarrow> svc option" where
  "handle_run env base msg st =
     do { (status, st) \<leftarrow>
            (if \<not> g_model_loaded st then Some (PSA_ERROR_BAD_STATE, st)
             else if msg_in_size msg = pic_size then
               (let (r, tr) = invoke env (Psa_read (msg_handle msg) 0 (msg_in_size msg)) (svc_tr st);
                    st = set_tr tr st
                in do {
                  m \<leftarrow> st_bytes (svc_mem st) (R_PIC, 0) (take (msg_in_size msg) (rs_bytes r));
                  let st = set_mem m st;
                  if length (rs_bytes r) \<noteq> msg_in_size msg then Some (PSA_ERROR_COMMUNICATION_FAILURE, st)
                  else do {
                    (status, result, st) \<leftarrow> infer_picture base st;
                    Some (status, write_result env msg result st) } })
             else if msg_in_size msg = 0 then do {
               (status, result, st) \<leftarrow> infer_picture base st;
               Some (status, write_result env msg result st) }
             else Some (PSA_ERROR_INVALID_ARGUMENT, st));
          Some (svc_issue env (Psa_reply (msg_handle msg) status) st) }"

subsection \<open>The key request of development builds\<close>

text \<open>The key buffer on the stack has no value before the derivation; it is zeros here, and nothing
  reads it unless the derivation succeeded.\<close>

definition handle_get_key :: "psa_env \<Rightarrow> psa_msg \<Rightarrow> svc \<Rightarrow> svc option" where
  "handle_get_key env msg st =
     (let (status, st) =
        (if msg_out_size msg < DERIVED_KEY_LEN then (PSA_ERROR_BUFFER_TOO_SMALL, st)
         else let (e, key, tr) = derive_key_from_huk env huk_label (replicate DERIVED_KEY_LEN 0) (svc_tr st);
                  st = set_tr tr st
              in if e = PSA_SUCCESS
                 then (e, svc_issue env (Psa_write (msg_handle msg) 0 key) st) else (e, st))
      in Some (svc_issue env (Psa_reply (msg_handle msg) status) st))"

subsection \<open>One message, and the service loop\<close>

text \<open>\<open>dev\<close> tells whether the partition is built with \<open>DEV_MODE\<close>.\<close>

definition handle_message :: "psa_env \<Rightarrow> bool \<Rightarrow> int \<Rightarrow> byte list \<Rightarrow> psa_msg \<Rightarrow> svc \<Rightarrow> svc option" where
  "handle_message env dev base pkg msg st =
     (case msg_type msg of
        PSA_IPC_CONNECT \<Rightarrow> Some (svc_issue env (Psa_reply (msg_handle msg) PSA_SUCCESS) st)
      | PSA_IPC_DISCONNECT \<Rightarrow> Some (svc_issue env (Psa_reply (msg_handle msg) PSA_SUCCESS) st)
      | MSG_CALL ty \<Rightarrow>
          if ty = TINYMAIX_IPC_LOAD_ENCRYPTED_MODEL then handle_load env pkg msg st
          else if ty = TINYMAIX_IPC_RUN_INFERENCE then handle_run env base msg st
          else if dev \<and> ty = TINYMAIX_IPC_GET_MODEL_KEY then handle_get_key env msg st
          else Some (svc_issue env (Psa_reply (msg_handle msg) PSA_ERROR_NOT_SUPPORTED) st))"

text \<open>The arrivals of the loop: the result of each \<open>psa_get\<close>.\<close>

definition serve_one ::
  "psa_env \<Rightarrow> bool \<Rightarrow> int \<Rightarrow> byte list \<Rightarrow> psa_status \<times> psa_msg \<Rightarrow> svc \<Rightarrow> svc option" where
  "serve_one env dev base pkg arrival st =
     (case arrival of (got, msg) \<Rightarrow>
       if got \<noteq> PSA_SUCCESS then Some st else handle_message env dev base pkg msg st)"

definition tinymaix_inference_entry ::
  "psa_env \<Rightarrow> bool \<Rightarrow> int \<Rightarrow> byte list \<Rightarrow> (psa_status \<times> psa_msg) list \<Rightarrow> svc \<Rightarrow> svc option" where
  "tinymaix_inference_entry env dev base pkg arrivals st =
     foldM (serve_one env dev base pkg) arrivals st"

text \<open>The state at the start of the partition: zeroed globals and the picture.\<close>

definition tm_mat_zero :: tm_mat where
  "tm_mat_zero = \<lparr>m_dims = 0, m_h = 0, m_w = 0, m_c = 0, m_data = (R_NULL, 0)\<rparr>"

definition svc_start :: "byte list \<Rightarrow> svc" where
  "svc_start pic =
     \<lparr>g_mdl = tm_mdl_zero, g_in_uint8 = tm_mat_zero, g_in = tm_mat_zero, g_outs = [tm_mat_zero],
      g_model_loaded = False,
      g_dec = \<lparr>d_mem = (\<lambda>r. case r of R_MAIN \<Rightarrow> replicate MDL_BUF_LEN 0 | R_PIC \<Rightarrow> pic
                 | R_MODEL \<Rightarrow> replicate TFM_TINYMAIX_MAX_MODEL_SIZE 0
                 | R_SBUF \<Rightarrow> replicate TM_MAX_KCSIZE 0 | R_NULL \<Rightarrow> []),
               d_size = 0, d_key = replicate DERIVED_KEY_LEN 0, d_tr = []\<rparr>\<rparr>"

end
