(* ===== verification/Mnist_Data.thy ===== *)
theory Mnist_Data
  imports Inference_Service
begin

section \<open>The shipped network, its encrypted package and the built-in picture\<close>

text \<open>
  The constant arrays of the repository, byte for byte: \<open>mdl_data\<close> of
  \<open>models/mnist_valid_q.h\<close> (the plain model image), \<open>encrypted_mdl_data_data\<close> of
  \<open>models/encrypted_mnist_model_psa.c\<close> (the package the inference partition is built
  with) and the initial contents of \<open>mnist_pic\<close>. Each array is given in blocks of eight
  source lines.
\<close>

definition mdl_data_0 :: "byte list" where
  "mdl_data_0 =
     [0x4d, 0x41, 0x49, 0x58, 0x00, 0x01, 0x01, 0x00, 0x01, 0x00, 0x06, 0x00, 0xb8, 0x05, 0x00, 0x00,
      0x00, 0x00, 0x00, 0x00, 0x03, 0x00, 0x1c, 0x00, 0x1c, 0x00, 0x01, 0x00, 0x01, 0x00, 0x01, 0x00,
      0x01, 0x00, 0x0a, 0x00, 0x00, 0x00, 0x00, 0x00, 0x00, 0x00, 0x00, 0x00, 0x00, 0x00, 0x00, 0x00,
      0x00, 0x00, 0x00, 0x00, 0x00, 0x00, 0x00, 0x00, 0x00, 0x00, 0x00, 0x00, 0x00, 0x00, 0x00, 0x00,
      0x00, 0x00, 0x00, 0x00, 0x98, 0x00, 0x00, 0x00, 0x00, 0x00, 0x00, 0x00, 0x10, 0x03, 0x00, 0x00,
      0x03, 0x00, 0x1c, 0x00, 0x1c, 0x00, 0x01, 0x00, 0x03, 0x00, 0x0d, 0x00, 0x0d, 0x00, 0x04, 0x00,
      0x81, 0x80, 0x80, 0x3b, 0x80, 0xff, 0xff, 0xff, 0x31, 0xe9, 0x84, 0x3c, 0x80, 0xff, 0xff, 0xff,
      0x03, 0x03, 0x02, 0x02, 0x01, 0x01, 0x01, 0x00, 0x00, 0x00, 0x00, 0x00, 0x00, 0x00, 0x00, 0x00]"

definition mdl_data_1 :: "byte list" where
  "mdl_data_1 =
     [0x00, 0x00, 0x00, 0x00, 0x50, 0x00, 0x00, 0x00, 0x60, 0x00, 0x00, 0x00, 0x88, 0x00, 0x00, 0x00,
      0x7d, 0x77, 0x4a, 0x3c, 0x85, 0xad, 0x87, 0x3c, 0x26, 0x92, 0xc5, 0x3b, 0xb9, 0xc9, 0x48, 0x3c,
      0x2f, 0x5e, 0x5b, 0x46, 0x14, 0xc0, 0xb0, 0x81, 0xc8, 0x32, 0x0a, 0xd8, 0x6f, 0x09, 0x81, 0x27,
      0xf6, 0xd6, 0x7f, 0x79, 0x50, 0xf9, 0x16, 0x2b, 0x2b, 0x5e, 0x60, 0xf3, 0x85, 0x99, 0x7a, 0x0a,
      0x81, 0x67, 0x65, 0x19, 0x00, 0x00, 0x00, 0x00, 0x94, 0xfb, 0xff, 0xff, 0x94, 0xfc, 0xff, 0xff,
      0x94, 0x41, 0x01, 0x00, 0xab, 0xfa, 0xff, 0xff, 0x00, 0x00, 0x00, 0x00, 0xb0, 0x01, 0x00, 0x00,
      0x10, 0x03, 0x00, 0x00, 0x00, 0x00, 0x00, 0x00, 0x03, 0x00, 0x0d, 0x00, 0x0d, 0x00, 0x04, 0x00,
      0x03, 0x00, 0x06, 0x00, 0x06, 0x00, 0x08, 0x00, 0x31, 0xe9, 0x84, 0x3c, 0x80, 0xff, 0xff, 0xff]"

definition mdl_data_2 :: "byte list" where
  "mdl_data_2 =
     [0xa0, 0x2a, 0x84, 0x3c, 0x80, 0xff, 0xff, 0xff, 0x03, 0x03, 0x02, 0x02, 0x01, 0x01, 0x01, 0x00,
      0x00, 0x00, 0x00, 0x00, 0x00, 0x00, 0x00, 0x00, 0x00, 0x00, 0x00, 0x00, 0x50, 0x00, 0x00, 0x00,
      0x70, 0x00, 0x00, 0x00, 0x90, 0x01, 0x00, 0x00, 0xb6, 0xe0, 0x8a, 0x3b, 0xe0, 0xa8, 0x36, 0x3b,
      0x50, 0x3d, 0xc9, 0x3b, 0x3e, 0x4f, 0x91, 0x3b, 0x88, 0x9e, 0x57, 0x3b, 0x22, 0xa8, 0x6c, 0x3b,
      0x1f, 0x25, 0x9f, 0x3b, 0xf2, 0x40, 0x71, 0x3b, 0xf1, 0x0d, 0x28, 0x3e, 0x71, 0x3e, 0xa8, 0xda,
      0xef, 0xad, 0x3d, 0x2c, 0x81, 0xb5, 0xcc, 0x0f, 0xf2, 0xdf, 0xdc, 0xdc, 0xbf, 0x9f, 0xd1, 0xe9,
      0xea, 0xe9, 0xd0, 0xc3, 0xc1, 0x99, 0xf2, 0x53, 0x48, 0xe8, 0x1b, 0x34, 0xdd, 0xc3, 0xba, 0xaf,
      0x81, 0xdb, 0xac, 0xb1, 0xeb, 0x2b, 0x13, 0x09, 0x18, 0x1c, 0x20, 0x2f, 0x34, 0x20, 0x56, 0x46]"

definition mdl_data_3 :: "byte list" where
  "mdl_data_3 =
     [0x3d, 0x12, 0xd6, 0xdb, 0xd4, 0xfb, 0x00, 0x3e, 0x5b, 0x3f, 0x48, 0x5d, 0x33, 0x55, 0x3f, 0x10,
      0x81, 0xc0, 0xd3, 0xd6, 0x93, 0xbf, 0xd5, 0xd7, 0xca, 0xc9, 0xf2, 0x1b, 0x02, 0x24, 0xf8, 0x1b,
      0xf9, 0xf7, 0xdf, 0xf8, 0x07, 0xff, 0x50, 0x1c, 0xe6, 0xb8, 0xc7, 0x1a, 0xd2, 0xce, 0x0c, 0x09,
      0x11, 0xe1, 0xf6, 0x0e, 0x1f, 0x2f, 0x20, 0xfa, 0x2e, 0x2b, 0xc7, 0xf8, 0x0e, 0x49, 0x47, 0x19,
      0x2b, 0x11, 0xf7, 0x37, 0x06, 0xe9, 0xb9, 0xb9, 0xe7, 0x7f, 0x42, 0x14, 0xa1, 0xf4, 0x29, 0xd1,
      0xd5, 0x07, 0xf9, 0xfc, 0x0c, 0x1b, 0x2f, 0x2f, 0x25, 0x1e, 0x07, 0x02, 0xeb, 0xdd, 0x08, 0xa8,
      0xb4, 0x2b, 0x1d, 0xe4, 0x16, 0x31, 0x16, 0x1f, 0xf7, 0x5c, 0x17, 0xe0, 0x0a, 0x15, 0x08, 0x25,
      0xa4, 0xd9, 0x1a, 0x19, 0xf9, 0xf7, 0xf9, 0x8d, 0xa9, 0xcb, 0x81, 0xc0, 0xec, 0x18, 0x51, 0xc4]"

definition mdl_data_4 :: "byte list" where
  "mdl_data_4 =
     [0x0c, 0x40, 0x0c, 0x65, 0x24, 0xcd, 0xcd, 0xcd, 0x87, 0x81, 0xcd, 0xc2, 0x9f, 0xe4, 0x75, 0x52,
      0xf8, 0x08, 0x08, 0x0c, 0x8e, 0x8a, 0x90, 0x3a, 0x1c, 0x03, 0x77, 0x3b, 0xf1, 0x45, 0x4b, 0x06,
      0x48, 0x41, 0x10, 0x1a, 0x05, 0xfe, 0x00, 0xff, 0xea, 0xac, 0x81, 0xad, 0xda, 0xb6, 0xcb, 0x13,
      0xef, 0xea, 0xd5, 0xc8, 0xb3, 0x0f, 0xfd, 0xf4, 0xfa, 0xfe, 0x0d, 0x04, 0x4b, 0x4c, 0x1c, 0x4b,
      0x44, 0x09, 0x38, 0x33, 0xb0, 0xd2, 0x17, 0x8d, 0xaf, 0xe6, 0xda, 0xcb, 0xdd, 0x2e, 0x0f, 0x04,
      0x3c, 0x7f, 0x3d, 0x24, 0x53, 0x32, 0xb0, 0xc7, 0xe1, 0xf1, 0x2d, 0x13, 0xe7, 0x4d, 0x24, 0xa1,
      0xd8, 0xf1, 0xb1, 0x83, 0xd0, 0xc5, 0xc0, 0xe2, 0x24, 0x1f, 0xff, 0xff, 0xde, 0xd1, 0x00, 0x00,
      0x57, 0xc8, 0xfe, 0xff, 0x53, 0xcc, 0x00, 0x00, 0xf3, 0x76, 0xff, 0xff, 0x99, 0xfc, 0xff, 0xff]"

definition mdl_data_5 :: "byte list" where
  "mdl_data_5 =
     [0xa0, 0x12, 0x00, 0x00, 0x5e, 0x1b, 0xff, 0xff, 0x00, 0x00, 0x00, 0x00, 0x50, 0x05, 0x00, 0x00,
      0x00, 0x00, 0x00, 0x00, 0x78, 0x05, 0x00, 0x00, 0x03, 0x00, 0x06, 0x00, 0x06, 0x00, 0x08, 0x00,
      0x03, 0x00, 0x02, 0x00, 0x02, 0x00, 0x10, 0x00, 0xa0, 0x2a, 0x84, 0x3c, 0x80, 0xff, 0xff, 0xff,
      0x05, 0x09, 0x68, 0x3d, 0x80, 0xff, 0xff, 0xff, 0x03, 0x03, 0x02, 0x02, 0x01, 0x01, 0x01, 0x00,
      0x00, 0x00, 0x00, 0x00, 0x00, 0x00, 0x00, 0x00, 0x00, 0x00, 0x00, 0x00, 0x50, 0x00, 0x00, 0x00,
      0x90, 0x00, 0x00, 0x00, 0x10, 0x05, 0x00, 0x00, 0xe3, 0x93, 0xad, 0x3c, 0x61, 0x96, 0x68, 0x3c,
      0x71, 0xd9, 0x96, 0x3c, 0xca, 0xa1, 0x4f, 0x3c, 0x7b, 0x9b, 0x6d, 0x3c, 0x35, 0x94, 0xa4, 0x3c,
      0xc1, 0xf4, 0xa1, 0x3c, 0x36, 0xe6, 0x83, 0x3c, 0x93, 0xd4, 0x45, 0x3c, 0x16, 0x82, 0x5f, 0x3c]"

definition mdl_data_6 :: "byte list" where
  "mdl_data_6 =
     [0x39, 0xf8, 0x56, 0x3c, 0x8b, 0xf0, 0xaa, 0x3c, 0x68, 0x39, 0x66, 0x3c, 0x58, 0x1e, 0xa3, 0x3c,
      0xd8, 0x1b, 0x86, 0x3c, 0x38, 0xad, 0x9a, 0x3c, 0xfb, 0xf8, 0x49, 0x99, 0xfb, 0xd6, 0x82, 0xff,
      0x07, 0xdf, 0xfd, 0x16, 0x49, 0x28, 0xfd, 0x03, 0x10, 0x10, 0x0e, 0x13, 0xfe, 0x19, 0x31, 0x23,
      0x0d, 0x81, 0xa5, 0x01, 0xde, 0xfb, 0x18, 0xf8, 0xca, 0xf6, 0xe1, 0xf2, 0x14, 0xf9, 0xff, 0x3d,
      0x49, 0x1f, 0x2d, 0xf8, 0x04, 0x42, 0x05, 0x13, 0xf1, 0x1b, 0x03, 0x2a, 0xfb, 0x17, 0xde, 0xed,
      0xfb, 0xe6, 0xf6, 0xc8, 0x16, 0x05, 0xd5, 0x32, 0x43, 0x10, 0x13, 0x38, 0x40, 0xe9, 0x05, 0x29,
      0xa4, 0xae, 0x2d, 0xab, 0xa1, 0x05, 0xca, 0x81, 0x4a, 0xd0, 0xba, 0xe5, 0x3d, 0xc8, 0xbc, 0x06,
      0xeb, 0x2b, 0x32, 0xf9, 0x12, 0x40, 0x2e, 0xcc, 0x10, 0xe4, 0x04, 0x5e, 0x58, 0x03, 0x2f, 0x1a]"

definition mdl_data_7 :: "byte list" where
  "mdl_data_7 =
     [0x33, 0xd2, 0xf5, 0xf4, 0x11, 0x2c, 0x08, 0xfd, 0xdd, 0x17, 0x11, 0xec, 0x48, 0x82, 0xf2, 0x3e,
      0xe4, 0x22, 0x11, 0x2a, 0xc8, 0x0e, 0x2a, 0x0c, 0x53, 0xb0, 0x4b, 0x0a, 0xcb, 0x09, 0xf9, 0x42,
      0x47, 0x09, 0x6a, 0x30, 0xe2, 0xfc, 0x02, 0xbb, 0x48, 0x0a, 0xf4, 0xdc, 0x7f, 0xd6, 0x9d, 0xfd,
      0xb0, 0x07, 0x12, 0x61, 0x34, 0x11, 0xce, 0x44, 0xc0, 0xfd, 0x0d, 0x19, 0x29, 0xcf, 0xfb, 0xcd,
      0xe0, 0xed, 0xae, 0xde, 0xe9, 0xf7, 0x22, 0x19, 0x11, 0xe9, 0x19, 0x18, 0xd0, 0x52, 0x17, 0xda,
      0x1f, 0xb4, 0x10, 0x23, 0x36, 0xef, 0x08, 0xdd, 0xc2, 0xe8, 0x30, 0xd3, 0x08, 0x23, 0x02, 0x24,
      0x99, 0x1d, 0xed, 0x12, 0x03, 0x11, 0xee, 0xe5, 0xdc, 0xf2, 0x13, 0x0a, 0x26, 0x1a, 0xf2, 0x02,
      0xf8, 0xfc, 0xcb, 0x84, 0x5c, 0xed, 0x1d, 0x99, 0xf2, 0x57, 0x3e, 0xf3, 0x8a, 0xd6, 0xd6, 0xc1]"

definition mdl_data_8 :: "byte list" where
  "mdl_data_8 =
     [0x16, 0x05, 0x81, 0x00, 0xfd, 0x92, 0xd9, 0x36, 0xe7, 0x25, 0x17, 0xe8, 0x05, 0x19, 0x33, 0x0d,
      0x48, 0xac, 0xdf, 0x15, 0xe9, 0xf5, 0xbd, 0xf7, 0xf0, 0x31, 0x72, 0x23, 0x16, 0x65, 0xe2, 0xb5,
      0xf4, 0x0d, 0xea, 0xbc, 0xf3, 0x3b, 0x5a, 0xdf, 0x91, 0x10, 0xe9, 0xf7, 0x20, 0xb2, 0xfb, 0xe9,
      0xfc, 0x0f, 0xb6, 0x3b, 0x04, 0x04, 0x1b, 0x25, 0x95, 0xc6, 0xd5, 0xfa, 0xa1, 0x90, 0xde, 0xb9,
      0x8b, 0x39, 0xe8, 0xc1, 0x09, 0xf9, 0x05, 0x1d, 0x1b, 0x0f, 0x39, 0xff, 0xd5, 0x46, 0xf7, 0x29,
      0x7a, 0x6a, 0xfa, 0xf7, 0x08, 0x3d, 0xaf, 0x07, 0x56, 0x41, 0x02, 0xd7, 0xec, 0xe7, 0x01, 0xe0,
      0xd1, 0xb9, 0xc1, 0x94, 0xd4, 0xeb, 0xca, 0xdd, 0xd6, 0xb2, 0xe1, 0xe1, 0x0c, 0xfc, 0x38, 0x11,
      0x01, 0xea, 0xdd, 0x23, 0x81, 0xe4, 0x10, 0xff, 0x00, 0x20, 0x1a, 0xc7, 0xf4, 0x3b, 0xf9, 0xe5]"

definition mdl_data_9 :: "byte list" where
  "mdl_data_9 =
     [0x81, 0xe7, 0x12, 0xe0, 0xeb, 0x07, 0x0e, 0x37, 0xf6, 0x36, 0xf6, 0xed, 0x27, 0x09, 0x38, 0x0c,
      0x0d, 0xe9, 0x14, 0xee, 0xde, 0x16, 0x1e, 0x2c, 0x22, 0x22, 0xe3, 0xfb, 0x14, 0x45, 0x08, 0xf2,
      0xc7, 0xf8, 0xf9, 0xf4, 0x13, 0xdb, 0xde, 0x10, 0x21, 0xdd, 0x04, 0x06, 0x22, 0x0f, 0x1a, 0x23,
      0x18, 0xef, 0xec, 0x00, 0xde, 0xd9, 0xc4, 0xcf, 0x0b, 0xf0, 0xfe, 0x37, 0xf2, 0xee, 0xf4, 0x4c,
      0x48, 0xec, 0xbd, 0x27, 0xfb, 0xc4, 0xea, 0x09, 0x29, 0x00, 0x0c, 0x2a, 0x2e, 0xdc, 0xf8, 0x03,
      0xd1, 0xb3, 0x16, 0x04, 0x81, 0xd3, 0x09, 0xf7, 0xd3, 0xfa, 0xf5, 0xd3, 0xe0, 0xe0, 0xc6, 0xff,
      0x19, 0xf6, 0x2f, 0x01, 0xf7, 0x0a, 0x26, 0x02, 0xf5, 0x2c, 0x11, 0x0b, 0x22, 0xff, 0xfc, 0x06,
      0xdd, 0xfd, 0x16, 0xd9, 0xeb, 0x4f, 0x1c, 0xe0, 0xe1, 0xe3, 0xd5, 0x15, 0xe8, 0xf6, 0x64, 0x29]"

definition mdl_data_10 :: "byte list" where
  "mdl_data_10 =
     [0x3d, 0xc3, 0x23, 0x49, 0xe1, 0xce, 0xdb, 0xbc, 0xde, 0xd9, 0xe3, 0xd3, 0xb0, 0x0c, 0x22, 0x2a,
      0x2c, 0x08, 0x0d, 0x0c, 0x7f, 0xf6, 0x1b, 0xd3, 0x17, 0xe0, 0x11, 0xf6, 0xdc, 0xfd, 0x08, 0xca,
      0xf6, 0x28, 0xf3, 0xe3, 0xb7, 0x31, 0x09, 0x20, 0x14, 0xa8, 0x18, 0xf2, 0xe3, 0x25, 0x3b, 0xd7,
      0x1a, 0xc5, 0xb8, 0xe2, 0xf2, 0x0b, 0xf8, 0x1e, 0xb9, 0xfa, 0x3f, 0xd1, 0xf4, 0xcd, 0x24, 0xde,
      0x03, 0x41, 0x11, 0x08, 0xfd, 0xe6, 0xdd, 0xfc, 0x22, 0x14, 0x0f, 0x07, 0x0e, 0x25, 0x01, 0xd8,
      0x02, 0x2b, 0xf9, 0x94, 0xdc, 0x1f, 0xfa, 0xfa, 0x7c, 0x71, 0xef, 0x09, 0x4d, 0x9f, 0xb9, 0x81,
      0xe8, 0x20, 0xe6, 0x49, 0x43, 0x16, 0xd0, 0x49, 0x37, 0xdf, 0x00, 0xf2, 0x9a, 0x15, 0x9a, 0x8f,
      0xd8, 0xd3, 0x46, 0xd0, 0xdf, 0xc8, 0xd7, 0xf0, 0x24, 0x12, 0xff, 0x12, 0xf9, 0x42, 0x15, 0xf0]"

definition mdl_data_11 :: "byte list" where
  "mdl_data_11 =
     [0x10, 0x13, 0xae, 0xe4, 0x33, 0xa6, 0x20, 0x1e, 0xb2, 0xdf, 0x24, 0xda, 0x06, 0x71, 0x62, 0x2a,
      0x0a, 0x2c, 0x34, 0xcc, 0x27, 0xeb, 0x3a, 0x62, 0xf0, 0x14, 0x1f, 0x56, 0x2c, 0xcc, 0x4e, 0x36,
      0x48, 0xfc, 0x90, 0x1c, 0x0d, 0xca, 0x1d, 0x58, 0x16, 0x44, 0x1a, 0xeb, 0x88, 0x0f, 0x21, 0xf9,
      0xfb, 0x1e, 0x5a, 0x2e, 0xa7, 0x0d, 0xfb, 0x10, 0xbf, 0xd1, 0x3b, 0xe7, 0x11, 0x2b, 0x3c, 0xdd,
      0xfb, 0x08, 0xe2, 0xa2, 0x81, 0xd2, 0x01, 0xc3, 0xe6, 0x29, 0xae, 0xde, 0x33, 0xf1, 0x05, 0x72,
      0x29, 0xe0, 0x07, 0x05, 0xc1, 0xcf, 0xb7, 0xf2, 0xec, 0x18, 0x51, 0xff, 0xe2, 0x3d, 0x35, 0x0c,
      0xb3, 0x06, 0x32, 0xa5, 0xad, 0x22, 0x3d, 0xeb, 0x7f, 0x45, 0x92, 0x89, 0x0c, 0xc7, 0x20, 0x12,
      0x3b, 0x00, 0x52, 0x1d, 0x08, 0xb0, 0xa3, 0xee, 0xdc, 0x0f, 0x1c, 0xfa, 0x2b, 0x06, 0xfa, 0x03]"

definition mdl_data_12 :: "byte list" where
  "mdl_data_12 =
     [0x04, 0xe1, 0xd2, 0x16, 0xf8, 0xde, 0xe9, 0x39, 0x22, 0x30, 0x3f, 0x36, 0x14, 0x1f, 0x1e, 0xcb,
      0x3e, 0x2b, 0xd4, 0xa7, 0x8c, 0xf1, 0xbd, 0xd0, 0xe0, 0x32, 0x21, 0xff, 0x46, 0x6b, 0xf5, 0xfd,
      0x51, 0x35, 0xc8, 0xce, 0xa7, 0x06, 0xef, 0xba, 0xf8, 0x54, 0x1e, 0x1d, 0x37, 0x27, 0xd6, 0xd2,
      0x81, 0xf6, 0xf9, 0xe0, 0xea, 0xc4, 0xfd, 0xfa, 0xe4, 0x4c, 0x29, 0xfb, 0x2a, 0xd6, 0xc5, 0xc6,
      0x0c, 0x31, 0x24, 0x3c, 0xfc, 0x0e, 0x02, 0x94, 0xf0, 0xea, 0x40, 0x37, 0x22, 0x1f, 0xce, 0xc3,
      0xe2, 0xf0, 0x2a, 0x24, 0xf6, 0xed, 0xdd, 0xd5, 0xe8, 0x2a, 0x4d, 0x59, 0x2e, 0x16, 0x11, 0x1c,
      0x15, 0x2d, 0x18, 0xc5, 0xfa, 0xfd, 0x1f, 0xf8, 0xd3, 0x2b, 0xeb, 0xe7, 0xf6, 0xc9, 0xdc, 0x34,
      0xf8, 0xd7, 0xee, 0xd7, 0x1c, 0x0f, 0x1d, 0x1f, 0x9b, 0x9f, 0xd8, 0x03, 0x30, 0x3a, 0xb4, 0x02]"

definition mdl_data_13 :: "byte list" where
  "mdl_data_13 =
     [0xce, 0x1a, 0x08, 0x43, 0xe5, 0xf8, 0xdf, 0x28, 0xbf, 0xd8, 0xa9, 0x92, 0xe7, 0xbe, 0x18, 0xe9,
      0x6e, 0x60, 0x97, 0x02, 0x2a, 0xfb, 0xcf, 0x07, 0x0b, 0xe8, 0xdc, 0x05, 0x2d, 0x43, 0x3c, 0x34,
      0x47, 0x26, 0x09, 0x97, 0x99, 0xf2, 0xb7, 0x15, 0x9e, 0xb4, 0xd6, 0x8b, 0x0b, 0xba, 0xba, 0xea,
      0xd1, 0x02, 0x7f, 0x38, 0xf1, 0x30, 0x29, 0x33, 0x4c, 0x30, 0x52, 0x1d, 0x01, 0x53, 0x32, 0xbf,
      0xc9, 0xe8, 0x08, 0xd7, 0xc9, 0xe0, 0xf9, 0xc8, 0x2a, 0xcf, 0xe2, 0x3e, 0x08, 0x17, 0xfd, 0x05,
      0xc9, 0xee, 0xf3, 0xd3, 0x05, 0x1a, 0xff, 0x16, 0x03, 0x10, 0xe2, 0x3d, 0x20, 0xee, 0xff, 0xf9,
      0x0a, 0xef, 0x09, 0x0a, 0x02, 0xf9, 0xfd, 0xda, 0xde, 0x2a, 0x09, 0x08, 0x07, 0xd0, 0x02, 0xd3,
      0x7f, 0xdf, 0xee, 0x2c, 0x27, 0xff, 0xe0, 0xf6, 0xf7, 0x0f, 0xe9, 0xf2, 0x22, 0xfb, 0xf5, 0xff]"

definition mdl_data_14 :: "byte list" where
  "mdl_data_14 =
     [0x3d, 0x53, 0x14, 0xeb, 0x15, 0xfe, 0xe4, 0x06, 0xdc, 0x27, 0x11, 0xe3, 0x1b, 0x9d, 0xd8, 0x07,
      0xec, 0xcd, 0xb0, 0xee, 0xf8, 0x05, 0x0d, 0x2c, 0x24, 0xf8, 0xdf, 0xfe, 0xec, 0x1b, 0x69, 0xe6,
      0x04, 0xdb, 0x04, 0x3b, 0x53, 0x1b, 0x3d, 0x20, 0x07, 0x00, 0xc8, 0xdb, 0x47, 0xd7, 0xe0, 0xd8,
      0xc7, 0xde, 0xdc, 0xe6, 0x19, 0xdc, 0xf7, 0xef, 0x14, 0x33, 0xf3, 0x2d, 0xee, 0xac, 0xe1, 0x9c,
      0xfb, 0xd5, 0xfe, 0xff, 0x14, 0x2d, 0x81, 0xfc, 0xf0, 0x03, 0x06, 0xcc, 0xe3, 0x1e, 0xdf, 0xa2,
      0xef, 0xed, 0xeb, 0x21, 0x06, 0x3c, 0x3c, 0x7f, 0x43, 0xf7, 0x16, 0x01, 0x37, 0x2c, 0x4d, 0xc4,
      0xf9, 0xf5, 0x10, 0x2b, 0xfb, 0x02, 0xd1, 0x0c, 0x08, 0x99, 0x2b, 0xfb, 0xb4, 0xfc, 0xe3, 0xd5,
      0xd4, 0x37, 0xcc, 0x04, 0x29, 0xfa, 0x51, 0x16, 0x18, 0x19, 0x03, 0x01, 0x0a, 0xe7, 0x44, 0xbf]"

definition mdl_data_15 :: "byte list" where
  "mdl_data_15 =
     [0x01, 0xf4, 0xf7, 0xf7, 0xe5, 0x2a, 0x6f, 0x36, 0x1f, 0x4c, 0x03, 0x93, 0xdb, 0xd8, 0xe0, 0x3a,
      0x18, 0xf8, 0x08, 0x0e, 0x46, 0x07, 0xe3, 0xce, 0xe8, 0x58, 0x00, 0x00, 0x38, 0x27, 0x00, 0x00,
      0x0c, 0xe2, 0xff, 0xff, 0xdc, 0x6a, 0xff, 0xff, 0x7e, 0x85, 0xfe, 0xff, 0x76, 0x17, 0x00, 0x00,
      0xeb, 0x5a, 0xff, 0xff, 0x46, 0xcb, 0xff, 0xff, 0xb6, 0x80, 0x00, 0x00, 0x31, 0xaf, 0xff, 0xff,
      0xdb, 0x36, 0x00, 0x00, 0xf6, 0xef, 0xff, 0xff, 0x0c, 0x82, 0xff, 0xff, 0x82, 0xe2, 0xff, 0xff,
      0x55, 0x12, 0xff, 0xff, 0xf1, 0xbf, 0x00, 0x00, 0x01, 0x00, 0x00, 0x00, 0x30, 0x00, 0x00, 0x00,
      0x78, 0x05, 0x00, 0x00, 0x00, 0x00, 0x00, 0x00, 0x03, 0x00, 0x02, 0x00, 0x02, 0x00, 0x10, 0x00,
      0x01, 0x00, 0x01, 0x00, 0x01, 0x00, 0x10, 0x00, 0x05, 0x09, 0x68, 0x3d, 0x80, 0xff, 0xff, 0xff]"

definition mdl_data_16 :: "byte list" where
  "mdl_data_16 =
     [0x21, 0x1a, 0xb7, 0x3c, 0x80, 0xff, 0xff, 0xff, 0x02, 0x00, 0x00, 0x00, 0x30, 0x01, 0x00, 0x00,
      0x00, 0x00, 0x00, 0x00, 0xa8, 0x05, 0x00, 0x00, 0x01, 0x00, 0x01, 0x00, 0x01, 0x00, 0x10, 0x00,
      0x01, 0x00, 0x01, 0x00, 0x01, 0x00, 0x0a, 0x00, 0x21, 0x1a, 0xb7, 0x3c, 0x80, 0xff, 0xff, 0xff,
      0xfd, 0x06, 0x1b, 0x3e, 0x2a, 0x00, 0x00, 0x00, 0x40, 0x00, 0x00, 0x00, 0x68, 0x00, 0x00, 0x00,
      0x08, 0x01, 0x00, 0x00, 0x00, 0x00, 0x00, 0x00, 0xe9, 0xe2, 0xaf, 0x3c, 0x00, 0x00, 0x00, 0x00,
      0x00, 0x00, 0x00, 0x00, 0x00, 0x00, 0x00, 0x00, 0x00, 0x00, 0x00, 0x00, 0x00, 0x00, 0x00, 0x00,
      0x00, 0x00, 0x00, 0x00, 0x00, 0x00, 0x00, 0x00, 0x00, 0x00, 0x00, 0x00, 0x00, 0x00, 0x00, 0x00,
      0x2a, 0xe2, 0x29, 0xbf, 0x0b, 0xdd, 0x09, 0xfa, 0x42, 0xb1, 0xf9, 0xc2, 0x46, 0xd2, 0x0f, 0xb5]"

definition mdl_data_17 :: "byte list" where
  "mdl_data_17 =
     [0x34, 0xea, 0xb3, 0x17, 0xdb, 0xfb, 0xbc, 0x0f, 0x24, 0xdf, 0xce, 0xf9, 0x1c, 0xe0, 0xbb, 0x38,
      0xb7, 0xe2, 0x28, 0x0c, 0x04, 0x93, 0x39, 0xe3, 0xf5, 0xee, 0x3c, 0xc6, 0x37, 0xf6, 0xb6, 0x41,
      0xca, 0xba, 0xd7, 0xed, 0xc3, 0xfd, 0x3a, 0x0d, 0xd2, 0x1d, 0x07, 0xa9, 0xe9, 0x06, 0x53, 0x25,
      0x25, 0xd7, 0x1a, 0x31, 0xf0, 0x0e, 0x81, 0x19, 0xef, 0xc0, 0x0a, 0x2d, 0xb5, 0x33, 0xfb, 0xe6,
      0xdc, 0x1d, 0x03, 0x83, 0xe2, 0x48, 0xd9, 0x28, 0x23, 0x31, 0x34, 0xe6, 0xeb, 0xdb, 0xdd, 0xdc,
      0xe7, 0x4e, 0xc0, 0xcf, 0x25, 0x3c, 0x98, 0xb5, 0xec, 0xcc, 0x36, 0xc3, 0x3c, 0x08, 0xf2, 0xe3,
      0x0d, 0xf7, 0x41, 0x44, 0x90, 0x1f, 0x22, 0x07, 0xcb, 0x0b, 0xb8, 0x09, 0xfe, 0xc8, 0xbf, 0x0b,
      0xbd, 0xf5, 0x06, 0xd2, 0x4d, 0xcc, 0x07, 0xdf, 0x1f, 0xfb, 0xf9, 0x2f, 0xe6, 0xa2, 0x26, 0x00]"

definition mdl_data_18 :: "byte list" where
  "mdl_data_18 =
     [0xf0, 0x36, 0xfc, 0xe9, 0xf3, 0xeb, 0x0e, 0xb0, 0xbd, 0x3f, 0xc6, 0x1c, 0xca, 0x4d, 0x02, 0xf4,
      0xbc, 0xb2, 0xff, 0xff, 0x1a, 0xa5, 0xff, 0xff, 0xc5, 0xc3, 0xff, 0xff, 0x1c, 0xaa, 0xff, 0xff,
      0x44, 0xc4, 0xff, 0xff, 0x64, 0xcc, 0xff, 0xff, 0xfb, 0x9c, 0xff, 0xff, 0x62, 0xc3, 0xff, 0xff,
      0x97, 0xbd, 0xff, 0xff, 0xe6, 0xc9, 0xff, 0xff, 0x03, 0x00, 0x01, 0x00, 0x30, 0x00, 0x00, 0x00,
      0xa8, 0x05, 0x00, 0x00, 0x00, 0x00, 0x00, 0x00, 0x01, 0x00, 0x01, 0x00, 0x01, 0x00, 0x0a, 0x00,
      0x01, 0x00, 0x01, 0x00, 0x01, 0x00, 0x0a, 0x00, 0xfd, 0x06, 0x1b, 0x3e, 0x2a, 0x00, 0x00, 0x00,
      0x00, 0x00, 0x80, 0x3b, 0x80, 0xff, 0xff, 0xff]"

definition mdl_data :: "byte list" where
  "mdl_data =
     mdl_data_0 @ mdl_data_1 @ mdl_data_2 @ mdl_data_3 @ mdl_data_4 @ mdl_data_5 @ mdl_data_6
     @ mdl_data_7 @ mdl_data_8 @ mdl_data_9 @ mdl_data_10 @ mdl_data_11 @ mdl_data_12
     @ mdl_data_13 @ mdl_data_14 @ mdl_data_15 @ mdl_data_16 @ mdl_data_17 @ mdl_data_18"

lemmas mdl_data_defs = mdl_data_def mdl_data_0_def mdl_data_1_def mdl_data_2_def mdl_data_3_def mdl_data_4_def mdl_data_5_def mdl_data_6_def mdl_data_7_def mdl_data_8_def mdl_data_9_def mdl_data_10_def mdl_data_11_def mdl_data_12_def mdl_data_13_def mdl_data_14_def mdl_data_15_def mdl_data_16_def mdl_data_17_def mdl_data_18_def

definition encrypted_mdl_data_data_0 :: "byte list" where
  "encrypted_mdl_data_data_0 =
     [0x54, 0x4d, 0x41, 0x58, 0x03, 0x00, 0x00, 0x00, 0x68, 0x09, 0x00, 0x00, 0xea, 0x64, 0x06, 0xa9,
      0xa5, 0x5e, 0xce, 0x4b, 0x35, 0xec, 0x21, 0x5b, 0x49, 0x05, 0x9d, 0xfd, 0xa3, 0xce, 0x61, 0x81,
      0xfe, 0x26, 0x87, 0xe9, 0xee, 0x65, 0x24, 0xd4, 0x74, 0x62, 0x19, 0x40, 0x94, 0xa5, 0xf1, 0x4c,
      0xc0, 0x1b, 0xc6, 0x24, 0xd6, 0x35, 0xae, 0xfe, 0xcd, 0xc1, 0x71, 0x2b, 0x92, 0x01, 0x0c, 0x91,
      0xfa, 0x95, 0xd1, 0x48, 0x33, 0xe1, 0x6d, 0xf6, 0x9c, 0x22, 0x9a, 0x14, 0xd3, 0xec, 0x45, 0x81,
      0x16, 0xdc, 0x85, 0x97, 0xe2, 0x6a, 0x01, 0xde, 0x99, 0xa5, 0x21, 0x52, 0x37, 0x8e, 0x4f, 0xff,
      0x62, 0x86, 0x30, 0x71, 0xb2, 0x50, 0x6c, 0x46, 0xf8, 0xdb, 0x2d, 0x5f, 0x49, 0xc8, 0x2d, 0xf9,
      0xe5, 0xf8, 0xc5, 0xdf, 0xb5, 0xa0, 0x4b, 0x1c, 0xc1, 0x6f, 0x61, 0x02, 0xec, 0xed, 0xec, 0x0d]"

definition encrypted_mdl_data_data_1 :: "byte list" where
  "encrypted_mdl_data_data_1 =
     [0x68, 0xde, 0x1f, 0x7f, 0xd1, 0x41, 0x1c, 0xb8, 0xc8, 0x64, 0x2f, 0x2b, 0xee, 0x3e, 0x8f, 0xdb,
      0x84, 0xdb, 0xec, 0x01, 0x2b, 0xba, 0x2f, 0x24, 0xc9, 0x3e, 0x91, 0x51, 0xe4, 0xb8, 0xc0, 0xc7,
      0xd4, 0x5d, 0x28, 0x75, 0x7a, 0x38, 0xc8, 0x03, 0xaa, 0xdb, 0x07, 0x2c, 0x08, 0xda, 0xd5, 0x23,
      0xf7, 0x59, 0xe7, 0x35, 0x99, 0xec, 0x92, 0xaf, 0x1b, 0x26, 0x2f, 0xce, 0xd7, 0x8f, 0x56, 0xab,
      0x73, 0x40, 0x51, 0x1e, 0xfc, 0x89, 0x94, 0xb3, 0xdd, 0xca, 0xe2, 0x1e, 0x55, 0x9f, 0x15, 0x33,
      0xd2, 0x45, 0x6b, 0x68, 0xd6, 0x9b, 0xd3, 0x3d, 0x52, 0xc6, 0x45, 0x69, 0xd1, 0x0e, 0x88, 0x5d,
      0xe4, 0x39, 0x9c, 0x10, 0x5b, 0xb0, 0x77, 0x6d, 0xae, 0xbb, 0x40, 0x96, 0xa0, 0x9f, 0x52, 0x9e,
      0x73, 0x78, 0xdb, 0x3b, 0x79, 0x6e, 0x8e, 0x61, 0x77, 0xc7, 0xbb, 0xb8, 0x00, 0x19, 0xc8, 0x99]"

definition encrypted_mdl_data_data_2 :: "byte list" where
  "encrypted_mdl_data_data_2 =
     [0x45, 0xa4, 0xc8, 0xb9, 0xbb, 0x2c, 0x14, 0xd5, 0x5a, 0x72, 0x4a, 0xbc, 0x8b, 0xf0, 0x73, 0x72,
      0x6b, 0xe1, 0x71, 0x68, 0xcf, 0xd6, 0x0f, 0xef, 0xe2, 0xa1, 0x91, 0xa8, 0xcc, 0x4f, 0xff, 0x57,
      0xa5, 0x3b, 0x32, 0x10, 0x76, 0x25, 0xf5, 0x32, 0x96, 0x7c, 0xc5, 0x2d, 0x89, 0xa9, 0xbe, 0xd7,
      0x2b, 0x44, 0xf8, 0x19, 0xaa, 0xec, 0xb1, 0x55, 0x48, 0x66, 0x74, 0x12, 0x09, 0x5d, 0x75, 0x58,
      0xf1, 0x01, 0x64, 0x42, 0x3c, 0x7c, 0x26, 0x8f, 0x2a, 0x80, 0x40, 0xf0, 0xab, 0x7e, 0x3b, 0x31,
      0x48, 0x16, 0xb9, 0xd5, 0x35, 0x01, 0xa1, 0x3f, 0xaf, 0x33, 0x29, 0x02, 0xe7, 0xbd, 0x6f, 0x45,
      0x0f, 0x83, 0x30, 0x35, 0x27, 0xe7, 0x1d, 0x04, 0x92, 0xfb, 0xcd, 0xea, 0x47, 0x92, 0x00, 0x4b,
      0x24, 0x01, 0x2b, 0x24, 0x7a, 0x21, 0xa2, 0x85, 0x02, 0xb7, 0x40, 0x78, 0x3a, 0x8c, 0xf3, 0xa0]"

definition encrypted_mdl_data_data_3 :: "byte list" where
  "encrypted_mdl_data_data_3 =
     [0xe5, 0xf1, 0x09, 0x86, 0x22, 0xb7, 0x98, 0x18, 0xf0, 0x70, 0xbd, 0x40, 0xf4, 0x1d, 0xb4, 0x82,
      0x74, 0x26, 0x9e, 0x2d, 0x43, 0x2b, 0xcd, 0x2b, 0x80, 0xfa, 0x75, 0xa6, 0x38, 0x02, 0x7e, 0x20,
      0x92, 0x64, 0xa9, 0x79, 0xc0, 0x51, 0xe8, 0x29, 0x0d, 0x25, 0x57, 0xd3, 0x1b, 0x30, 0xd1, 0x86,
      0xeb, 0x25, 0xb0, 0x77, 0x3b, 0x9e, 0xb9, 0xb4, 0xda, 0x8a, 0x15, 0x47, 0x7d, 0x49, 0x9f, 0x94,
      0xe0, 0x32, 0x6f, 0xac, 0xd7, 0x01, 0x05, 0xee, 0xfd, 0xa4, 0x08, 0x7c, 0xc6, 0x06, 0x7d, 0x49,
      0x69, 0x5a, 0xaa, 0x7a, 0xb8, 0x99, 0x33, 0x22, 0xf0, 0x88, 0xe2, 0xfc, 0x17, 0x7b, 0x25, 0xdb,
      0x9e, 0x6a, 0x20, 0xe3, 0x09, 0x79, 0x5f, 0xa4, 0x0a, 0x04, 0xea, 0xa2, 0x34, 0x69, 0x50, 0x73,
      0xa4, 0xe3, 0x99, 0x0f, 0xc3, 0xd8, 0x68, 0x0b, 0x48, 0x17, 0x82, 0x5d, 0x8e, 0x44, 0x81, 0xc9]"

definition encrypted_mdl_data_data_4 :: "byte list" where
  "encrypted_mdl_data_data_4 =
     [0x1d, 0x4c, 0xf2, 0x6b, 0x84, 0x25, 0xb9, 0x9e, 0xb8, 0x73, 0xd3, 0xf9, 0x7b, 0x7f, 0x3c, 0x2f,
      0x8f, 0xe2, 0xe0, 0x1c, 0x83, 0x2c, 0xb0, 0x4a, 0x61, 0x09, 0x98, 0x40, 0x82, 0x93, 0x7b, 0x10,
      0xb2, 0x5d, 0x04, 0x91, 0x11, 0xf9, 0x1f, 0x95, 0x04, 0x63, 0xf7, 0x0c, 0xe1, 0x0a, 0x70, 0xd5,
      0x08, 0x03, 0x2c, 0x17, 0x35, 0xa2, 0xbb, 0xd3, 0x08, 0x21, 0x72, 0x3d, 0xa4, 0xe8, 0x33, 0x77,
      0x3a, 0xd3, 0xb9, 0xcf, 0xee, 0xaf, 0xa7, 0x3c, 0xa8, 0xc8, 0x74, 0x2f, 0x4e, 0xa2, 0x8b, 0x25,
      0xdd, 0xe1, 0x34, 0x9c, 0xa1, 0x05, 0xc4, 0x16, 0xeb, 0x59, 0xe2, 0xd6, 0xbf, 0xea, 0x93, 0x13,
      0x87, 0x30, 0x23, 0x11, 0x37, 0x0a, 0xfb, 0x71, 0xa9, 0xa0, 0xa4, 0x6b, 0xbb, 0xf4, 0x3b, 0xa3,
      0xdc, 0xed, 0xb6, 0x4a, 0x1a, 0x4a, 0xae, 0x5b, 0xf9, 0xa9, 0xab, 0xbf, 0x4a, 0xe7, 0x18, 0xb3]"

definition encrypted_mdl_data_data_5 :: "byte list" where
  "encrypted_mdl_data_data_5 =
     [0xc5, 0xac, 0x1c, 0xe4, 0x8b, 0x0f, 0xf3, 0x6f, 0x05, 0x1a, 0x07, 0x29, 0xc7, 0x19, 0x1e, 0x70,
      0x07, 0x70, 0xb1, 0xc0, 0x0a, 0xae, 0xa8, 0xbb, 0x57, 0xdc, 0x0c, 0x68, 0xd6, 0xb1, 0x3b, 0xbb,
      0x28, 0x6c, 0x8c, 0x90, 0x38, 0x96, 0x62, 0x53, 0x48, 0xe2, 0x2a, 0x43, 0x0c, 0xeb, 0x6c, 0x08,
      0xe6, 0xca, 0xaa, 0x70, 0xad, 0x98, 0x5e, 0x59, 0x55, 0x5b, 0xb4, 0xed, 0xf0, 0x4c, 0x39, 0x93,
      0x8a, 0x0a, 0xc5, 0x19, 0xa2, 0x45, 0xb9, 0x69, 0x5b, 0x5d, 0xa9, 0xe2, 0x0d, 0x8c, 0x1e, 0x6a,
      0x0e, 0x9e, 0x65, 0x6e, 0xde, 0x1b, 0x74, 0xa0, 0xbc, 0x49, 0xed, 0x4a, 0x22, 0x51, 0x11, 0x33,
      0x03, 0xc6, 0xc1, 0x21, 0x6f, 0x7e, 0x8f, 0x9e, 0x83, 0x38, 0x44, 0x86, 0x20, 0x8a, 0xe8, 0xf2,
      0x6a, 0x5e, 0x65, 0xf4, 0x4d, 0xf2, 0xa6, 0xbf, 0xff, 0x67, 0x1b, 0xd2, 0x36, 0x58, 0xcc, 0x54]"

definition encrypted_mdl_data_data_6 :: "byte list" where
  "encrypted_mdl_data_data_6 =
     [0xfc, 0x5a, 0x26, 0xb6, 0x4d, 0x0d, 0x0f, 0xa8, 0x32, 0xd8, 0x75, 0x60, 0xac, 0xc6, 0xf5, 0xe0,
      0x3e, 0x3c, 0xd9, 0xdd, 0x36, 0xa3, 0x09, 0x3f, 0x1f, 0xaa, 0xbb, 0xb8, 0xdc, 0x10, 0x82, 0xb7,
      0x6a, 0x8a, 0x3a, 0x6b, 0xcf, 0xc3, 0x4d, 0x95, 0x11, 0x0e, 0x82, 0xcf, 0x5e, 0x27, 0x5d, 0x18,
      0x39, 0x6c, 0x08, 0x36, 0x6c, 0x0d, 0x7e, 0x31, 0x2d, 0xd6, 0xcb, 0x54, 0x1f, 0x06, 0x29, 0xf2,
      0xd5, 0xd9, 0x13, 0x46, 0xa3, 0xc6, 0x4f, 0xe1, 0xd5, 0xe6, 0x6a, 0x4c, 0xf9, 0x77, 0x61, 0x10,
      0xbb, 0x79, 0x8e, 0x08, 0x90, 0xa9, 0xd3, 0x7c, 0x48, 0x6d, 0x9d, 0x6d, 0x20, 0x17, 0x58, 0xe9,
      0xfc, 0x22, 0xd1, 0x22, 0x58, 0xec, 0xd0, 0x05, 0x8c, 0xab, 0x89, 0xd4, 0x31, 0xdd, 0x67, 0xe9,
      0x93, 0x85, 0x72, 0xb7, 0x58, 0x9d, 0x27, 0x09, 0xe8, 0x07, 0xdb, 0x57, 0x96, 0x2f, 0x29, 0x26]"

definition encrypted_mdl_data_data_7 :: "byte list" where
  "encrypted_mdl_data_data_7 =
     [0x9c, 0x7e, 0xd2, 0x96, 0xdc, 0x41, 0x03, 0xa4, 0xe7, 0x14, 0x59, 0x02, 0x44, 0x2f, 0xd1, 0x40,
      0xa1, 0xe1, 0x1a, 0xa7, 0xd8, 0x85, 0xcc, 0xcc, 0x13, 0xa0, 0x80, 0x6f, 0x04, 0xbc, 0x28, 0x5d,
      0xd8, 0x3a, 0xa0, 0xaa, 0xc0, 0x1d, 0xbf, 0x22, 0x06, 0x65, 0xc9, 0xce, 0x1e, 0x78, 0xe3, 0xa8,
      0xeb, 0xf6, 0xde, 0xa1, 0xf1, 0x25, 0x18, 0xe3, 0xd2, 0x43, 0xa1, 0x32, 0xf4, 0x05, 0x7d, 0x1e,
      0x38, 0xc3, 0xa9, 0x06, 0xc2, 0xe7, 0xfe, 0x1b, 0x3d, 0x75, 0xe7, 0x34, 0x27, 0x90, 0x37, 0xed,
      0xf7, 0x77, 0x86, 0xca, 0x8c, 0x41, 0x26, 0x1a, 0xa2, 0x95, 0xc7, 0xdf, 0x45, 0x39, 0x69, 0xcc,
      0x39, 0xa5, 0x93, 0x82, 0xab, 0xf3, 0x5d, 0x82, 0x25, 0x6c, 0x8c, 0xf5, 0x32, 0x2f, 0x05, 0x19,
      0xe5, 0xae, 0x04, 0xf7, 0xf5, 0xed, 0x8e, 0x6a, 0x5c, 0xfe, 0x82, 0xcc, 0x4d, 0xc4, 0x67, 0x1e]"

definition encrypted_mdl_data_data_8 :: "byte list" where
  "encrypted_mdl_data_data_8 =
     [0xf3, 0x6c, 0xf4, 0xe3, 0x1a, 0xd6, 0x49, 0x5a, 0xc1, 0xd7, 0xc9, 0xae, 0x21, 0xd8, 0x8b, 0x5f,
      0xc0, 0xb7, 0x0e, 0x4c, 0xf3, 0xe0, 0xff, 0x34, 0x76, 0x2a, 0x5b, 0xd8, 0xfd, 0x96, 0x1d, 0x27,
      0x23, 0x94, 0x40, 0xf4, 0xdf, 0x7c, 0x75, 0x56, 0x31, 0xe3, 0x0d, 0xfa, 0xa3, 0xa7, 0xe4, 0x96,
      0x1d, 0x86, 0x62, 0xd0, 0xfc, 0xc2, 0xb4, 0x00, 0x0e, 0x07, 0x81, 0xcc, 0xc5, 0xe9, 0x1b, 0x32,
      0xaf, 0x73, 0xa0, 0xa9, 0xc6, 0x1b, 0x66, 0x3a, 0x87, 0x11, 0x28, 0xf5, 0x15, 0xee, 0xa6, 0xdb,
      0x14, 0xf5, 0x24, 0xdb, 0xc1, 0xcc, 0x3a, 0x6e, 0x9f, 0xfd, 0x20, 0xaa, 0x6a, 0x83, 0x97, 0x77,
      0xe7, 0x7d, 0xa0, 0xb6, 0x0c, 0x92, 0x31, 0x4d, 0x14, 0xfb, 0x97, 0xc7, 0xff, 0xf9, 0x86, 0xda,
      0x6a, 0x55, 0x54, 0x8d, 0x5f, 0x76, 0xb8, 0x63, 0x9c, 0x30, 0xda, 0x3f, 0x31, 0x92, 0x20, 0xcd]"

definition encrypted_mdl_data_data_9 :: "byte list" where
  "encrypted_mdl_data_data_9 =
     [0x74, 0xdd, 0xeb, 0xd7, 0x3a, 0x18, 0x4f, 0x63, 0x77, 0x05, 0xc6, 0xc8, 0x3c, 0xa9, 0x82, 0x4a,
      0x22, 0x51, 0xb4, 0x51, 0x45, 0xdb, 0x3a, 0x2c, 0xf6, 0x8f, 0x6d, 0xeb, 0x75, 0xa8, 0x1d, 0x4f,
      0x5d, 0xbf, 0xe3, 0x14, 0x04, 0x3a, 0xf8, 0x25, 0xbb, 0xdb, 0xb4, 0x1e, 0xdc, 0x9b, 0xde, 0xd9,
      0xb9, 0xaf, 0xf9, 0x9c, 0x35, 0xc0, 0x4d, 0xd6, 0x05, 0xf0, 0x4b, 0x73, 0x7d, 0xfd, 0x3e, 0x63,
      0x82, 0x99, 0xe1, 0x20, 0x8f, 0xc5, 0x87, 0x6a, 0x3f, 0xaf, 0x62, 0xf0, 0x22, 0xff, 0xf1, 0x5b,
      0xae, 0xef, 0x32, 0xd9, 0x72, 0xf3, 0x27, 0x95, 0x7b, 0xc7, 0x31, 0x00, 0xe3, 0x50, 0x7a, 0x07,
      0x46, 0xd2, 0xce, 0x45, 0x3d, 0xa5, 0x86, 0x23, 0xd7, 0x69, 0x6c, 0x52, 0x83, 0x55, 0xf8, 0x25,
      0x97, 0xcf, 0x3d, 0x88, 0x66, 0x3b, 0xab, 0x79, 0x97, 0x07, 0xf7, 0x90, 0x43, 0x5e, 0xb5, 0xf0]"

definition encrypted_mdl_data_data_10 :: "byte list" where
  "encrypted_mdl_data_data_10 =
     [0x05, 0x45, 0x57, 0xe0, 0x4f, 0xbe, 0xbd, 0x57, 0xab, 0xc8, 0x0d, 0x88, 0x19, 0xfd, 0xad, 0x76,
      0x21, 0x01, 0xff, 0x83, 0x76, 0x2d, 0xb8, 0xb7, 0xa2, 0xbf, 0x41, 0x5f, 0xcc, 0xee, 0x11, 0x1f,
      0x86, 0x0b, 0x41, 0xdc, 0x42, 0x2d, 0x0e, 0xb7, 0xc2, 0xef, 0x56, 0x57, 0xc6, 0x78, 0x85, 0xbf,
      0x92, 0xfc, 0x5d, 0xb1, 0xb7, 0x5d, 0xe6, 0x60, 0x46, 0xa9, 0x31, 0xfa, 0x50, 0xce, 0x4d, 0xec,
      0x9b, 0xbf, 0xcc, 0x79, 0x79, 0x8f, 0xd9, 0x3a, 0x00, 0x17, 0x14, 0xed, 0x9c, 0x0c, 0x26, 0x24,
      0x01, 0xba, 0xae, 0xa8, 0x55, 0xcb, 0x54, 0xde, 0xaf, 0x06, 0x49, 0xe4, 0x96, 0x04, 0x77, 0xcb,
      0xef, 0xcf, 0x58, 0x80, 0x20, 0x83, 0x64, 0x46, 0x56, 0x4d, 0xd4, 0x2b, 0x63, 0xbd, 0x92, 0xef,
      0x97, 0xb1, 0x61, 0x0a, 0xa9, 0xea, 0x64, 0xbf, 0x30, 0x6b, 0x2d, 0x55, 0x80, 0xad, 0x51, 0x54]"

definition encrypted_mdl_data_data_11 :: "byte list" where
  "encrypted_mdl_data_data_11 =
     [0x0d, 0x2f, 0x97, 0x34, 0x08, 0xc4, 0x8b, 0xf4, 0x31, 0x76, 0xa0, 0xa1, 0x1d, 0x21, 0x05, 0x36,
      0x04, 0xfd, 0x69, 0x93, 0x08, 0x31, 0x0f, 0x7e, 0x4a, 0xe7, 0x7d, 0x01, 0xe4, 0xdb, 0x81, 0x1b,
      0xe1, 0x75, 0xaf, 0x08, 0xaf, 0x7b, 0xa1, 0x9f, 0x20, 0xdb, 0xef, 0x67, 0x32, 0x01, 0xc3, 0xc1,
      0x64, 0x95, 0x75, 0x06, 0x1b, 0xff, 0xe0, 0xe5, 0xb5, 0x36, 0x40, 0x7a, 0x71, 0xea, 0x5c, 0x97,
      0x01, 0x9b, 0xc8, 0x2b, 0x9a, 0x43, 0x57, 0x81, 0x7b, 0x23, 0xb8, 0x8b, 0xa7, 0x17, 0xbb, 0x43,
      0x35, 0xd8, 0x30, 0xef, 0x78, 0x6f, 0x32, 0xbc, 0xc7, 0x3c, 0xb3, 0xa4, 0xd6, 0x49, 0xa4, 0x09,
      0x90, 0x68, 0xd9, 0x29, 0xd7, 0x40, 0x47, 0x45, 0xee, 0x1c, 0x3f, 0x96, 0xce, 0x16, 0xbf, 0x7d,
      0x65, 0xa4, 0x5a, 0xf3, 0x28, 0x43, 0xeb, 0x6c, 0x7d, 0xe5, 0xb9, 0xba, 0xd8, 0xc7, 0x82, 0x20]"

definition encrypted_mdl_data_data_12 :: "byte list" where
  "encrypted_mdl_data_data_12 =
     [0x07, 0x6c, 0xc3, 0xe6, 0x08, 0x59, 0x6e, 0x47, 0xd9, 0x5e, 0xbc, 0xa5, 0x88, 0x8e, 0xaa, 0xef,
      0x22, 0xa6, 0xcb, 0xa4, 0x6d, 0x15, 0x5d, 0x67, 0xab, 0x23, 0x32, 0x7e, 0xe1, 0x9d, 0xb8, 0xb1,
      0x7f, 0x9a, 0x8c, 0xb8, 0x5f, 0xc4, 0x7b, 0xce, 0x72, 0x2d, 0x60, 0x0b, 0xfa, 0x9e, 0x38, 0xa5,
      0x81, 0x90, 0x43, 0x0d, 0x13, 0x24, 0xc9, 0xc2, 0x66, 0x07, 0xd1, 0xd4, 0xae, 0x99, 0x69, 0x86,
      0xb6, 0xa8, 0x71, 0x7d, 0x89, 0xcf, 0xd9, 0x36, 0x99, 0x56, 0xb6, 0x1e, 0x99, 0xa5, 0xe4, 0x1f,
      0x48, 0x40, 0x1a, 0xdd, 0xb9, 0xdd, 0x4a, 0x16, 0x81, 0x3b, 0x63, 0x29, 0xb5, 0x2e, 0x8b, 0x8f,
      0x83, 0xa1, 0x7c, 0x0b, 0x66, 0x82, 0x52, 0xa3, 0x80, 0xb8, 0x32, 0x86, 0xcc, 0xd8, 0x42, 0xf5,
      0x3b, 0x23, 0x9c, 0xa5, 0x47, 0x31, 0x2e, 0x55, 0x35, 0xaa, 0x10, 0x20, 0x30, 0x55, 0x85, 0x83]"

definition encrypted_mdl_data_data_13 :: "byte list" where
  "encrypted_mdl_data_data_13 =
     [0xa5, 0xa6, 0xc1, 0x23, 0xa5, 0x86, 0x3d, 0xb4, 0x05, 0xf4, 0x18, 0x9c, 0xd6, 0xbf, 0x72, 0x9d,
      0x13, 0x07, 0xd7, 0x44, 0x5d, 0x51, 0xd8, 0x23, 0x08, 0xdb, 0xb9, 0x49, 0xd1, 0x67, 0xe2, 0xd5,
      0x86, 0xd4, 0x8d, 0xc6, 0x48, 0xa4, 0xbd, 0x3a, 0x0d, 0xcd, 0xd6, 0xf4, 0xde, 0x13, 0xd6, 0x01,
      0x2f, 0x9c, 0x2c, 0x1c, 0x18, 0xcf, 0xa5, 0x78, 0xd5, 0x88, 0x29, 0x00, 0x9a, 0x1b, 0x6c, 0xa3,
      0x9c, 0x05, 0x9f, 0x87, 0xce, 0x6a, 0x6e, 0x52, 0x0e, 0x56, 0x49, 0x15, 0x60, 0xa1, 0x4c, 0x57,
      0x6a, 0x83, 0x31, 0x01, 0xb2, 0x78, 0xe5, 0x61, 0xd1, 0x5b, 0x92, 0x78, 0x90, 0xf9, 0x61, 0xca,
      0x04, 0x6b, 0xc2, 0xe5, 0x85, 0x33, 0xc7, 0x2b, 0x76, 0x58, 0xba, 0x14, 0xc7, 0xdb, 0xb2, 0xb9,
      0x25, 0x5d, 0x6d, 0xd4, 0x5e, 0x82, 0xee, 0x7e, 0x95, 0x51, 0xa9, 0x54, 0xf1, 0xb0, 0xfb, 0x71]"

definition encrypted_mdl_data_data_14 :: "byte list" where
  "encrypted_mdl_data_data_14 =
     [0xa2, 0x00, 0x12, 0x74, 0x9c, 0xa7, 0xe0, 0x2e, 0x2f, 0x14, 0x82, 0xb4, 0xb9, 0x85, 0x1d, 0x60,
      0xf1, 0x51, 0xb4, 0x28, 0x2d, 0x12, 0x2c, 0x1d, 0x9f, 0x5c, 0x26, 0x7e, 0x70, 0x74, 0x16, 0xff,
      0xaa, 0xee, 0x88, 0x36, 0xab, 0x3f, 0x5e, 0xe3, 0x34, 0xc2, 0x17, 0xf0, 0xb1, 0xfa, 0x12, 0x09,
      0x0e, 0x92, 0x3d, 0x26, 0x8b, 0xd6, 0x4b, 0x39, 0xbb, 0x3d, 0x8a, 0xc0, 0xa4, 0xd2, 0x22, 0x9b,
      0xc3, 0x7e, 0xe6, 0xc8, 0xf2, 0xaf, 0xfe, 0xd0, 0x0d, 0xf3, 0x1d, 0x47, 0xa7, 0x55, 0x40, 0x89,
      0xec, 0x3e, 0x92, 0xa6, 0x3a, 0x45, 0x62, 0xbf, 0x45, 0x30, 0x8b, 0x98, 0x1e, 0xf9, 0x84, 0x1d,
      0x1d, 0x9f, 0xf4, 0x67, 0xd4, 0x93, 0x07, 0xbe, 0xc0, 0xf0, 0xff, 0x22, 0xdb, 0x3d, 0xa6, 0x45,
      0x2b, 0x1a, 0x98, 0x89, 0xf5, 0xa0, 0x3f, 0x02, 0xce, 0xb1, 0x71, 0xbe, 0x04, 0xe5, 0x4c, 0x43]"

definition encrypted_mdl_data_data_15 :: "byte list" where
  "encrypted_mdl_data_data_15 =
     [0x2f, 0x05, 0x59, 0x8c, 0xa6, 0xec, 0xe9, 0x0d, 0x59, 0x6f, 0xe3, 0x44, 0x68, 0x21, 0xbc, 0xa3,
      0xb6, 0x94, 0xd2, 0x21, 0x41, 0x36, 0x61, 0xd4, 0xbc, 0x53, 0xbc, 0x89, 0x40, 0x5b, 0xa4, 0x4f,
      0x78, 0x87, 0x91, 0xa1, 0x30, 0xd5, 0x6e, 0xc3, 0xe0, 0xc8, 0xd7, 0xbd, 0xe8, 0xe1, 0xbf, 0xd4,
      0x8d, 0xc9, 0xc3, 0x96, 0x70, 0xcd, 0x39, 0x1f, 0x0f, 0xfe, 0x71, 0xae, 0x7c, 0x87, 0x0e, 0x2c,
      0x39, 0xc5, 0x94, 0x9b, 0x9c, 0x92, 0xb9, 0x87, 0xfe, 0xf3, 0x7f, 0xa3, 0x91, 0x68, 0xde, 0x98,
      0x74, 0xd8, 0xdf, 0xbd, 0x42, 0x01, 0x35, 0x4d, 0x0b, 0x79, 0x9e, 0xf0, 0x43, 0xb7, 0xae, 0xf4,
      0x33, 0xad, 0x71, 0x1f, 0xbe, 0x1e, 0x7d, 0xee, 0xc4, 0x9c, 0x27, 0x03, 0x1c, 0xf7, 0xa3, 0x25,
      0xc2, 0x0e, 0x49, 0x1e, 0xcf, 0x7f, 0x95, 0xd1, 0xc9, 0xa9, 0x33, 0x05, 0x38, 0x36, 0x70, 0x85]"

definition encrypted_mdl_data_data_16 :: "byte list" where
  "encrypted_mdl_data_data_16 =
     [0x95, 0xc1, 0xba, 0x95, 0x6b, 0xd9, 0x3a, 0x5e, 0x87, 0x0a, 0xd1, 0x29, 0x81, 0x28, 0x8c, 0xc8,
      0xea, 0xc4, 0x50, 0x41, 0x70, 0xb3, 0x13, 0x66, 0xcc, 0x11, 0xea, 0x3c, 0xa1, 0x60, 0xae, 0x9e,
      0xd7, 0x6c, 0xb0, 0x6c, 0xc7, 0xcf, 0x07, 0x45, 0xff, 0xc0, 0xe5, 0x47, 0xf8, 0x02, 0x2a, 0x70,
      0xd5, 0x84, 0x14, 0x92, 0x02, 0x7e, 0xa6, 0x09, 0x79, 0xbd, 0x47, 0xf0, 0xe2, 0x38, 0x33, 0xb6,
      0xe7, 0x80, 0x72, 0x56, 0xbf, 0xcb, 0x64, 0xf2, 0x7d, 0x34, 0xcd, 0x75, 0xee, 0x0d, 0xb1, 0xe1,
      0x92, 0x8e, 0xde, 0x1d, 0x4f, 0xc6, 0x3f, 0x67, 0x95, 0xa0, 0x4f, 0x74, 0x03, 0x05, 0x5e, 0xe2,
      0xee, 0xbb, 0xdf, 0x8b, 0xd0, 0x53, 0xdc, 0xed, 0xc2, 0x8b, 0x81, 0x3c, 0x47, 0x96, 0x12, 0xa9,
      0x14, 0x7f, 0xb8, 0x52, 0xc0, 0xde, 0x12, 0x4d, 0x96, 0x70, 0x60, 0x89, 0x80, 0xc9, 0x85, 0xce]"

definition encrypted_mdl_data_data_17 :: "byte list" where
  "encrypted_mdl_data_data_17 =
     [0xe5, 0x6b, 0x93, 0x07, 0x44, 0x48, 0xd4, 0x99, 0xb1, 0xed, 0x96, 0x72, 0x23, 0x19, 0xfd, 0x72,
      0xbd, 0x00, 0x69, 0x36, 0x3c, 0xfb, 0x58, 0x9e, 0x7e, 0xc4, 0xb5, 0xb4, 0x08, 0xf3, 0xa7, 0xec,
      0x2a, 0xc0, 0x90, 0x9f, 0xc1, 0xb5, 0xe8, 0xc8, 0x9d, 0xde, 0x94, 0xa6, 0xdd, 0x10, 0x10, 0xcc,
      0xe2, 0x14, 0x9c, 0x5e, 0xa9, 0x18, 0xda, 0x58, 0x75, 0x9d, 0xf4, 0xbf, 0xbd, 0xce, 0x09, 0xbc,
      0x8b, 0x26, 0xa7, 0x46, 0x59, 0x19, 0x8c, 0xf5, 0xe6, 0xcf, 0xd6, 0xbb, 0x5a, 0x17, 0x5e, 0x0c,
      0x5e, 0xf3, 0x3a, 0x55, 0x7a, 0xfb, 0x93, 0x66, 0x18, 0xfd, 0x51, 0x3d, 0xdc, 0xba, 0x79, 0x98,
      0x95, 0x3a, 0x79, 0xbf, 0xee, 0x77, 0x67, 0xfd, 0xc3, 0x07, 0xef, 0x4c, 0x3d, 0x56, 0xbb, 0x5b,
      0x22, 0x51, 0x8b, 0x47, 0xee, 0x20, 0x1f, 0xef, 0xb4, 0x67, 0xe9, 0x07, 0xec, 0x28, 0x40, 0xd1]"

definition encrypted_mdl_data_data_18 :: "byte list" where
  "encrypted_mdl_data_data_18 =
     [0x5d, 0xf5, 0x74, 0xc9, 0xda, 0xbf, 0x04, 0x00, 0xa1, 0xa1, 0x54, 0x4c, 0x0e, 0x9f, 0x35, 0xd6,
      0x00, 0x74, 0xb2, 0x62, 0x4e, 0x3f, 0x88, 0xa3, 0x23, 0x17, 0xb0, 0x80, 0x94, 0x5a, 0x8c, 0xcb,
      0x9a, 0x0b, 0x32, 0x77, 0x8d, 0xce, 0x3b, 0x34, 0x2b, 0x76, 0xf0, 0x8c, 0x4e, 0x1d, 0x49, 0xca,
      0x19, 0x9f, 0x41, 0xf0, 0x99, 0x86, 0x21, 0x56, 0x6e, 0xe1, 0xe9, 0xb2, 0x71, 0x82, 0xa8, 0x05,
      0xe2, 0xaa, 0x0a, 0x39, 0x76, 0x26, 0x78, 0xaf, 0x58, 0x2c, 0xe0, 0xe0, 0x78, 0x03, 0x5a, 0xba,
      0x9e, 0x8d, 0x9c, 0x89, 0x38, 0x8b, 0x6c, 0xb9, 0x12, 0x6c, 0x4d, 0xc5, 0x57, 0x24, 0xe6, 0x69,
      0x47, 0xb3, 0x3e, 0xf5, 0x1f, 0x13, 0xa6, 0x58, 0x99, 0x32, 0x0a, 0xf8, 0x47, 0x05, 0x76, 0x62,
      0x03, 0xe6, 0xaa, 0xe6, 0xe7, 0x03, 0x46, 0xbb, 0x7e, 0x1b, 0xba, 0x1a, 0xbc, 0xa2, 0xfd, 0xe2]"

definition encrypted_mdl_data_data_19 :: "byte list" where
  "encrypted_mdl_data_data_19 =
     [0xee, 0xf3, 0x3b, 0x8a, 0x61, 0x1a, 0xe4, 0xc1, 0x8d, 0x9c, 0x47, 0x38]"

definition encrypted_mdl_data_data :: "byte list" where
  "encrypted_mdl_data_data =
     encrypted_mdl_data_data_0 @ encrypted_mdl_data_data_1 @ encrypted_mdl_data_data_2
     @ encrypted_mdl_data_data_3 @ encrypted_mdl_data_data_4 @ encrypted_mdl_data_data_5
     @ encrypted_mdl_data_data_6 @ encrypted_mdl_data_data_7 @ encrypted_mdl_data_data_8
     @ encrypted_mdl_data_data_9 @ encrypted_mdl_data_data_10 @ encrypted_mdl_data_data_11
     @ encrypted_mdl_data_data_12 @ encrypted_mdl_data_data_13 @ encrypted_mdl_data_data_14
     @ encrypted_mdl_data_data_15 @ encrypted_mdl_data_data_16 @ encrypted_mdl_data_data_17
     @ encrypted_mdl_data_data_18 @ encrypted_mdl_data_data_19"

lemmas encrypted_mdl_data_data_defs = encrypted_mdl_data_data_def encrypted_mdl_data_data_0_def encrypted_mdl_data_data_1_def encrypted_mdl_data_data_2_def encrypted_mdl_data_data_3_def encrypted_mdl_data_data_4_def encrypted_mdl_data_data_5_def encrypted_mdl_data_data_6_def encrypted_mdl_data_data_7_def encrypted_mdl_data_data_8_def encrypted_mdl_data_data_9_def encrypted_mdl_data_data_10_def encrypted_mdl_data_data_11_def encrypted_mdl_data_data_12_def encrypted_mdl_data_data_13_def encrypted_mdl_data_data_14_def encrypted_mdl_data_data_15_def encrypted_mdl_data_data_16_def encrypted_mdl_data_data_17_def encrypted_mdl_data_data_18_def encrypted_mdl_data_data_19_def

definition encrypted_mdl_data_size :: nat where
  "encrypted_mdl_data_size = length encrypted_mdl_data_data"

definition mnist_pic_0 :: "byte list" where
  "mnist_pic_0 =
     [0, 0, 0, 0, 0, 0, 0, 0, 0, 0, 0, 0, 0, 0, 0, 0, 0, 0, 0, 0, 0, 0, 0, 0, 0, 0, 0, 0,
      0, 0, 0, 0, 0, 0, 0, 0, 0, 0, 0, 0, 0, 0, 0, 0, 0, 0, 0, 0, 0, 0, 0, 0, 0, 0, 0, 0,
      0, 0, 0, 0, 0, 0, 0, 0, 0, 0, 0, 0, 0, 0, 0, 0, 0, 0, 0, 0, 0, 0, 0, 0, 0, 0, 0, 0,
      0, 0, 0, 0, 0, 0, 0, 0, 0, 0, 116, 125, 171, 255, 255, 150, 93, 0, 0, 0, 0, 0, 0, 0, 0, 0, 0, 0,
      0, 0, 0, 0, 0, 0, 0, 0, 0, 169, 253, 253, 253, 253, 253, 253, 218, 30, 0, 0, 0, 0, 0, 0, 0, 0, 0, 0,
      0, 0, 0, 0, 0, 0, 0, 0, 169, 253, 253, 253, 213, 142, 176, 253, 253, 122, 0, 0, 0, 0, 0, 0, 0, 0, 0, 0,
      0, 0, 0, 0, 0, 0, 0, 52, 250, 253, 210, 32, 12, 0, 6, 206, 253, 140, 0, 0, 0, 0, 0, 0, 0, 0, 0, 0]"

definition mnist_pic_1 :: "byte list" where
  "mnist_pic_1 =
     [0, 0, 0, 0, 0, 0, 0, 77, 251, 210, 25, 0, 0, 0, 122, 248, 253, 65, 0, 0, 0, 0, 0, 0, 0, 0, 0, 0,
      0, 0, 0, 0, 0, 0, 0, 0, 31, 18, 0, 0, 0, 0, 209, 253, 253, 65, 0, 0, 0, 0, 0, 0, 0, 0, 0, 0,
      0, 0, 0, 0, 0, 0, 0, 0, 0, 0, 0, 0, 0, 117, 247, 253, 198, 10, 0, 0, 0, 0, 0, 0, 0, 0, 0, 0,
      0, 0, 0, 0, 0, 0, 0, 0, 0, 0, 0, 0, 76, 247, 253, 231, 63, 0, 0, 0, 0, 0, 0, 0, 0, 0, 0, 0,
      0, 0, 0, 0, 0, 0, 0, 0, 0, 0, 0, 0, 128, 253, 253, 144, 0, 0, 0, 0, 0, 0, 0, 0, 0, 0, 0, 0,
      0, 0, 0, 0, 0, 0, 0, 0, 0, 0, 0, 176, 246, 253, 159, 12, 0, 0, 0, 0, 0, 0, 0, 0, 0, 0, 0, 0,
      0, 0, 0, 0, 0, 0, 0, 0, 0, 0, 25, 234, 253, 233, 35, 0, 0, 0, 0, 0, 0, 0, 0, 0, 0, 0, 0, 0]"

definition mnist_pic_2 :: "byte list" where
  "mnist_pic_2 =
     [0, 0, 0, 0, 0, 0, 0, 0, 0, 0, 198, 253, 253, 141, 0, 0, 0, 0, 0, 0, 0, 0, 0, 0, 0, 0, 0, 0,
      0, 0, 0, 0, 0, 0, 0, 0, 0, 78, 248, 253, 189, 12, 0, 0, 0, 0, 0, 0, 0, 0, 0, 0, 0, 0, 0, 0,
      0, 0, 0, 0, 0, 0, 0, 0, 19, 200, 253, 253, 141, 0, 0, 0, 0, 0, 0, 0, 0, 0, 0, 0, 0, 0, 0, 0,
      0, 0, 0, 0, 0, 0, 0, 0, 134, 253, 253, 173, 12, 0, 0, 0, 0, 0, 0, 0, 0, 0, 0, 0, 0, 0, 0, 0,
      0, 0, 0, 0, 0, 0, 0, 0, 248, 253, 253, 25, 0, 0, 0, 0, 0, 0, 0, 0, 0, 0, 0, 0, 0, 0, 0, 0,
      0, 0, 0, 0, 0, 0, 0, 0, 248, 253, 253, 43, 20, 20, 20, 20, 5, 0, 5, 20, 20, 37, 150, 150, 150, 147, 10, 0,
      0, 0, 0, 0, 0, 0, 0, 0, 248, 253, 253, 253, 253, 253, 253, 253, 168, 143, 166, 253, 253, 253, 253, 253, 253, 253, 123, 0]"

definition mnist_pic_3 :: "byte list" where
  "mnist_pic_3 =
     [0, 0, 0, 0, 0, 0, 0, 0, 174, 253, 253, 253, 253, 253, 253, 253, 253, 253, 253, 253, 249, 247, 247, 169, 117, 117, 57, 0,
      0, 0, 0, 0, 0, 0, 0, 0, 0, 118, 123, 123, 123, 166, 253, 253, 253, 155, 123, 123, 41, 0, 0, 0, 0, 0, 0, 0,
      0, 0, 0, 0, 0, 0, 0, 0, 0, 0, 0, 0, 0, 0, 0, 0, 0, 0, 0, 0, 0, 0, 0, 0, 0, 0, 0, 0,
      0, 0, 0, 0, 0, 0, 0, 0, 0, 0, 0, 0, 0, 0, 0, 0, 0, 0, 0, 0, 0, 0, 0, 0, 0, 0, 0, 0,
      0, 0, 0, 0, 0, 0, 0, 0, 0, 0, 0, 0, 0, 0, 0, 0, 0, 0, 0, 0, 0, 0, 0, 0, 0, 0, 0, 0,
      0, 0, 0, 0, 0, 0, 0, 0, 0, 0, 0, 0, 0, 0, 0, 0, 0, 0, 0, 0, 0, 0, 0, 0, 0, 0, 0, 0,
      0, 0, 0, 0, 0, 0, 0, 0, 0, 0, 0, 0, 0, 0, 0, 0, 0, 0, 0, 0, 0, 0, 0, 0, 0, 0, 0, 0]"

definition mnist_pic :: "byte list" where
  "mnist_pic =
     mnist_pic_0 @ mnist_pic_1 @ mnist_pic_2 @ mnist_pic_3"

lemmas mnist_pic_defs = mnist_pic_def mnist_pic_0_def mnist_pic_1_def mnist_pic_2_def mnist_pic_3_def

end
