(* ===== verification/Service_Loop.thy ===== *)
theory Service_Loop
  imports Inference_Service
begin

section \<open>The loop of a partition\<close>

text \<open>
  Both partitions take messages in a loop, skip a message whose \<open>psa_get\<close> fails, and answer the others. What
  the loop promises follows from what the handler of one message promises: that is the interface \<open>service\<close>,
  extended by \<open>total_service\<close> for a handler that is always defined.
\<close>

definition reply_handles :: "psa_trace \<Rightarrow> int list" where
  "reply_handles cs = concat (map (\<lambda>(c, r). case c of Psa_reply h s \<Rightarrow> [h] | _ \<Rightarrow> []) cs)"

text \<open>The messages the loop takes, in order.\<close>

definition taken :: "(psa_status \<times> 'm) list \<Rightarrow> 'm list" where
  "taken arrivals = map snd (filter (\<lambda>a. fst a = PSA_SUCCESS) arrivals)"

lemma reply_handles_append [simp]: "reply_handles (xs @ ys) = reply_handles xs @ reply_handles ys"
  and reply_handles_Nil [simp]: "reply_handles [] = []"
  and reply_handles_reply [simp]: "reply_handles [(Psa_reply h s, r)] = [h]"
  and taken_simps [simp]: "taken [] = []"
    "taken (a # as) = (if fst a = PSA_SUCCESS then snd a # taken as else taken as)"
  by (auto simp: reply_handles_def taken_def)

definition serve_arrival :: "('m \<Rightarrow> 's \<Rightarrow> 's option) \<Rightarrow> psa_status \<times> 'm \<Rightarrow> 's \<Rightarrow> 's option" where
  "serve_arrival serve a s = (if fst a \<noteq> PSA_SUCCESS then Some s else serve (snd a) s)"

text \<open>A handler adds calls to the trace, among them one reply, to its message, and keeps a condition \<open>good\<close>
  on them that is closed under sequences.\<close>

locale service =
  fixes serve :: "'m \<Rightarrow> 's \<Rightarrow> 's option" and handle_of :: "'m \<Rightarrow> int" and trace :: "'s \<Rightarrow> psa_trace"
    and good :: "psa_trace \<Rightarrow> bool"
  assumes answers: "serve m s = Some s' \<Longrightarrow> \<exists>cs. trace s' = trace s @ cs \<and> reply_handles cs = [handle_of m] \<and> good cs"
    and good_Nil: "good []"
    and good_append: "good cs \<Longrightarrow> good ds \<Longrightarrow> good (cs @ ds)"
begin

lemma loop_answers:
  "foldM (serve_arrival serve) arrivals s = Some s' \<Longrightarrow>
   \<exists>cs. trace s' = trace s @ cs \<and> reply_handles cs = map handle_of (taken arrivals) \<and> good cs"
proof (induction arrivals arbitrary: s)
  case Nil
  then show ?case using good_Nil by simp
next
  case (Cons a as)
  obtain s1 where 1: "serve_arrival serve a s = Some s1" and 2: "foldM (serve_arrival serve) as s1 = Some s'"
    using Cons.prems by (auto simp: bind_eq_Some_conv)
  obtain ds where ds: "trace s' = trace s1 @ ds" "reply_handles ds = map handle_of (taken as)" "good ds"
    using Cons.IH [OF 2] by blast
  show ?case
  proof (cases "fst a = PSA_SUCCESS")
    case False
    then show ?thesis using 1 ds by (auto simp: serve_arrival_def)
  next
    case True
    then have "serve (snd a) s = Some s1" using 1 by (simp add: serve_arrival_def)
    from answers [OF this] obtain cs where cs: "trace s1 = trace s @ cs" "reply_handles cs = [handle_of (snd a)]" "good cs"
      by blast
    then show ?thesis using True ds good_append [OF cs(3) ds(3)] by (intro exI [of _ "cs @ ds"]) simp
  qed
qed

end

locale total_service = service +
  fixes ready :: "'m \<Rightarrow> bool"
  assumes defined: "ready m \<Longrightarrow> serve m s \<noteq> None"
begin

lemma loop_defined:
  "\<forall>a\<in>set arrivals. ready (snd a) \<Longrightarrow> \<exists>s'. foldM (serve_arrival serve) arrivals s = Some s'"
proof (induction arrivals arbitrary: s)
  case (Cons a as)
  have "\<exists>s1. serve_arrival serve a s = Some s1"
    using Cons.prems defined [of "snd a" s] by (auto simp: serve_arrival_def)
  with Cons show ?case by auto
qed simp

end

end
