(* ===== verification/Decrypt_Correct.thy ===== *)
theory Decrypt_Correct
  imports Model_Decrypt
begin

section \<open>Decryption: padding, resources, outcome\<close>

text \<open>
  What \<open>decrypt_model\<close> promises: the padding check is PKCS#7, no branch leaves a key or an
  operation behind, only the model buffer is written, and success means that header, size,
  padding and plaintext were all accepted.
\<close>

subsection \<open>Contents of an object after a copy\<close>

lemma mem_eqI: "(\<And>p. ld8 m p = ld8 m' p) \<Longrightarrow> m = m'"
proof (rule ext)
  fix r assume eq: "\<And>p. ld8 m p = ld8 m' p"
  have len: "length (m' r) = length (m r)"
    by (rule agree_off_length [of "{}"]) (use eq in \<open>simp add: cm.agree_off_def\<close>)
  show "m r = m' r"
  proof (rule nth_equalityI)
    fix i assume "i < length (m r)"
    with eq [of "(r, int i)"] len show "m r ! i = m' r ! i" by (simp add: ld8_def)
  qed (simp add: len)
qed

lemma st_bytes_splice:
  assumes "off + length bs \<le> length (m r)"
  shows "st_bytes m (r, int off) bs = Some (m(r := take off (m r) @ bs @ drop (off + length bs) (m r)))"
proof -
  obtain m' where m': "st_bytes m (r, int off) bs = Some m'"
    and ag: "cm.agree_off (cells (r, int off) (length bs)) m m'"
    and v: "\<forall>i<length bs. ld8 m' (padd (r, int off) (int i)) = Some (bs ! i)"
    using st_bytes_ok [of m "(r, int off)" bs] assms by (auto simp: in_object_def)
  let ?m = "m(r := take off (m r) @ bs @ drop (off + length bs) (m r))"
  have len: "length (?m q) = length (m q)" for q using assms by auto
  have "m' = ?m"
  proof (rule mem_eqI)
    fix p :: ptr
    show "ld8 m' p = ld8 ?m p"
    proof (cases "p \<in> cells (r, int off) (length bs)")
      case True
      then obtain i where i: "i < length bs" "p = padd (r, int off) (int i)" by (auto simp: cells_def)
      with v assms show ?thesis by (auto simp: ld8_def padd_def nth_append nat_add_distrib)
    next
      case False
      then have "ld8 m' p = ld8 m p" by (rule agree_off_ld8 [OF ag])
      also have "\<dots> = ld8 ?m p"
      proof (cases "fst p = r \<and> 0 \<le> snd p \<and> snd p < int (length (m r))")
        case inside: True
        define i where "i = nat (snd p)"
        have i: "snd p = int i" "i < length (m r)" using inside by (auto simp: i_def)
        have "i < off \<or> off + length bs \<le> i" using False inside i by (auto simp: in_cells)
        then have "?m r ! i = m r ! i" using assms i(2) by (auto simp: nth_append)
        then show ?thesis using inside i len [of r] by (simp add: ld8_def)
      next
        case outside: False
        then show ?thesis using len [of r] by (cases "fst p = r") (auto simp: ld8_def)
      qed
      finally show ?thesis .
    qed
  qed
  with m' show ?thesis by simp
qed

subsection \<open>PKCS7\<close>

definition pkcs7_pad :: "byte list \<Rightarrow> byte list" where
  "pkcs7_pad xs = (let k = 16 - length xs mod 16 in xs @ replicate k (of_nat k))"

lemma pad_check_True:
  "pad_check m off pad is = Some True \<longleftrightarrow> (\<forall>i\<in>set is. ld8 m (R_MODEL, off - int i) = Some pad)"
  by (induction "is") (auto simp: bind_eq_Some_conv)

text \<open>Stripping succeeds exactly on data that ends in 1 to 16 copies of their number.\<close>

lemma strip_padding_iff:
  assumes "n \<le> length (m R_MODEL)"
  shows "strip_padding m n = Some (Inr k) \<longleftrightarrow>
    (\<exists>pad. 1 \<le> unat pad \<and> unat pad \<le> 16 \<and> n = k + unat pad \<and>
       take n (m R_MODEL) = take k (m R_MODEL) @ replicate (unat pad) pad)"
    (is "?L = (\<exists>pad. ?R pad)")
proof -
  let ?d = "m R_MODEL"
  have rd: "ld8 m (R_MODEL, int n - 1 - int i) = Some pad \<longleftrightarrow> ?d ! (n - 1 - i) = pad" if "i < n" for i pad
  proof -
    have off: "int n - 1 - int i = int (n - 1 - i)" using that by linarith
    have "ld8 m (R_MODEL, int j) = Some (?d ! j)" if "j < n" for j using assms that by (simp add: ld8_def)
    from this [of "n - 1 - i"] that show ?thesis unfolding off by auto
  qed
  have tail: "(\<forall>i<j. ?d ! (n - 1 - i) = pad) \<longleftrightarrow> take n ?d = take (n - j) ?d @ replicate j pad" if j: "j \<le> n" for j pad
  proof -
    have split: "take n ?d = take (n - j) ?d @ take j (drop (n - j) ?d)"
      using j by (metis le_add_diff_inverse2 take_add)
    have "(\<forall>i<j. ?d ! (n - 1 - i) = pad) \<longleftrightarrow> (\<forall>i<j. ?d ! (n - j + i) = pad)"
    proof
      assume l: "\<forall>i<j. ?d ! (n - 1 - i) = pad"
      show "\<forall>i<j. ?d ! (n - j + i) = pad"
      proof (intro allI impI)
        fix i assume i: "i < j"
        then have "n - 1 - (j - 1 - i) = n - j + i" using j by linarith
        with l [rule_format, of "j - 1 - i"] i show "?d ! (n - j + i) = pad" by simp
      qed
    next
      assume r: "\<forall>i<j. ?d ! (n - j + i) = pad"
      show "\<forall>i<j. ?d ! (n - 1 - i) = pad"
      proof (intro allI impI)
        fix i assume i: "i < j"
        then have "n - j + (j - 1 - i) = n - 1 - i" using j by linarith
        with r [rule_format, of "j - 1 - i"] i show "?d ! (n - 1 - i) = pad" by simp
      qed
    qed
    also have "\<dots> \<longleftrightarrow> take j (drop (n - j) ?d) = replicate j pad"
      using assms j by (auto simp: list_eq_iff_nth_eq)
    finally show ?thesis unfolding split by simp
  qed
  show ?thesis
  proof
    assume L: ?L
    then obtain pad where pad: "ld8 m (R_MODEL, int n - 1) = Some pad" "1 \<le> unat pad" "unat pad \<le> 16" "unat pad \<le> n"
      "pad_check m (int n - 1) pad [0..<unat pad] = Some True" "k = n - unat pad"
      by (auto simp: strip_padding_def bind_eq_Some_conv split: if_splits)
    have "\<forall>i<unat pad. ?d ! (n - 1 - i) = pad"
      using pad(4,5) rd by (auto simp: pad_check_True)
    with tail [OF pad(4)] pad show "\<exists>pad. ?R pad" by auto
  next
    assume "\<exists>pad. ?R pad"
    then obtain pad where pad: "1 \<le> unat pad" "unat pad \<le> 16" "n = k + unat pad"
      "take n ?d = take k ?d @ replicate (unat pad) pad" by blast
    have j: "unat pad \<le> n" and k: "n - unat pad = k" using pad(3) by auto
    have all: "\<forall>i<unat pad. ?d ! (n - 1 - i) = pad" using tail [OF j] pad(4) k by simp
    then have last: "ld8 m (R_MODEL, int n - 1) = Some pad" using rd [of 0] pad(1) j by simp
    have "pad_check m (int n - 1) pad [0..<unat pad] = Some True"
      using all rd j by (auto simp: pad_check_True)
    with last pad j show ?L by (auto simp: strip_padding_def)
  qed
qed

lemma strip_pkcs7_pad:
  assumes "take (length (pkcs7_pad xs)) (m R_MODEL) = pkcs7_pad xs"
  shows "strip_padding m (length (pkcs7_pad xs)) = Some (Inr (length xs))"
proof -
  define k where "k = 16 - length xs mod 16"
  have k: "1 \<le> k" "k \<le> 16" by (auto simp: k_def)
  have uk: "unat (of_nat k :: byte) = k" using k by (simp add: unat_of_nat)
  have p: "pkcs7_pad xs = xs @ replicate k (of_nat k)" by (simp add: pkcs7_pad_def k_def Let_def)
  have len: "length (pkcs7_pad xs) \<le> length (m R_MODEL)" using arg_cong [OF assms, of length] by simp
  have "take (length xs) (m R_MODEL) = xs"
    using arg_cong [OF assms, of "take (length xs)"] by (simp add: p min_def)
  then show ?thesis
    unfolding strip_padding_iff [of _ m, OF len] using assms k uk by (intro exI [of _ "of_nat k"]) (simp add: p)
qed

subsection \<open>Every crypto resource is given back\<close>

definition res_quiet :: "crypto_res \<Rightarrow> bool" where
  "res_quiet s \<longleftrightarrow> \<not> cr_cipher s \<and> \<not> cr_kdf s"

text \<open>Only crypto calls are made while decrypting.\<close>

fun crypto_call :: "psa_call \<Rightarrow> bool" where
  "crypto_call (Psa_read h i n) = False"
| "crypto_call (Psa_write h i bs) = False"
| "crypto_call (Psa_reply h s) = False"
| "crypto_call (Psa_connect s v) = False"
| "crypto_call (Psa_call h t is os) = False"
| "crypto_call (Psa_close h) = False"
| "crypto_call c = True"

definition all_crypto :: "psa_trace \<Rightarrow> bool" where
  "all_crypto cs \<longleftrightarrow> (\<forall>(c, r)\<in>set cs. crypto_call c)"

lemma all_crypto_append [simp]: "all_crypto (cs @ ds) \<longleftrightarrow> all_crypto cs \<and> all_crypto ds"
  and all_crypto_Cons [simp]: "all_crypto ((c, r) # cs) \<longleftrightarrow> crypto_call c \<and> all_crypto cs"
  and all_crypto_Nil [simp]: "all_crypto []"
  by (auto simp: all_crypto_def)

lemma derive_key_resources:
  assumes "derive_key_from_huk env label key tr = (e, key', tr')" "res_quiet s"
  shows "extends tr tr' \<and> owed_after (added tr tr') s = s \<and> all_crypto (added tr tr') \<and> length key' = length key"
  using assms
  by (auto simp: derive_key_from_huk_def Let_def case_prod_unfold res_quiet_def split: if_splits)

lemma cbc_decrypt_resources:
  assumes "cbc_decrypt env key iv ct m tr = Some (out, m', tr')" "\<not> cr_cipher s"
  shows "extends tr tr' \<and> all_crypto (added tr tr') \<and>
    owed_after (added tr tr') s = s\<lparr>cr_keys := remove1 key (cr_keys s)\<rparr>"
  using assms
  by (auto simp: cbc_decrypt_def Let_def case_prod_unfold bind_eq_Some_conv split: if_splits)

lemma check_plaintext_cases:
  assumes "check_plaintext hdr n st = Some (e, st')"
  shows "strip_padding (d_mem st) n = Some (Inl e) \<and> st' = st \<or>
    (\<exists>k. strip_padding (d_mem st) n = Some (Inr k) \<and> st' = st\<lparr>d_size := k\<rparr> \<and>
       (if k \<noteq> eh_original_size hdr then e = PSA_ERROR_GENERIC_ERROR
        else k < 4 \<and> e = PSA_SUCCESS \<or>
          (\<exists>magic. 4 \<le> k \<and> ld_u32 (d_mem st) (R_MODEL, 0) = Some magic \<and>
             e = (if magic = 0x5849414D then PSA_SUCCESS else PSA_ERROR_GENERIC_ERROR))))"
proof (cases "strip_padding (d_mem st) n")
  case None
  with assms show ?thesis by (simp add: check_plaintext_def)
next
  case (Some r)
  with assms show ?thesis
    by (cases r) (auto simp: check_plaintext_def Let_def bind_eq_Some_conv split: if_splits)
qed

lemma check_plaintext_trace: "check_plaintext hdr n st = Some (e, st') \<Longrightarrow> d_tr st' = d_tr st \<and> d_mem st' = d_mem st"
  by (drule check_plaintext_cases) auto

lemma check_plaintext_key: "check_plaintext hdr n st = Some (e, st') \<Longrightarrow> d_key st' = d_key st"
  by (drule check_plaintext_cases) auto

lemma added_refl [simp]: "added tr tr = []"
  by (simp add: added_def)

text \<open>
  The stages of a decryption: the checks of the source before any call, and what follows. \<open>package_checks\<close>
  states them on the bytes of the package.
\<close>

definition package_error :: "byte list option \<Rightarrow> nat \<Rightarrow> psa_status option" where
  "package_error d n =
     (case d of None \<Rightarrow> Some PSA_ERROR_INVALID_ARGUMENT
      | Some data \<Rightarrow>
        if n < ENCRYPTED_HEADER_CBC_SIZE then Some PSA_ERROR_INVALID_ARGUMENT
        else (case enc_header_of data of None \<Rightarrow> None | Some hdr \<Rightarrow>
          if eh_magic hdr \<noteq> ENCRYPTED_HEADER_MAGIC \<or> eh_version hdr \<noteq> 3 then Some PSA_ERROR_INVALID_ARGUMENT
          else if eh_original_size hdr > TFM_TINYMAIX_MAX_MODEL_SIZE then Some PSA_ERROR_BUFFER_TOO_SMALL
          else if n = ENCRYPTED_HEADER_CBC_SIZE then Some PSA_ERROR_INVALID_ARGUMENT else None))"

lemma decrypt_package_error: "package_error d n = Some e \<Longrightarrow> decrypt_model env d n st = Some (e, st)"
  by (auto simp: package_error_def decrypt_model_def split: option.splits if_splits)

text \<open>After the header is accepted.\<close>

definition decrypt_body :: "psa_env \<Rightarrow> enc_header \<Rightarrow> byte list \<Rightarrow> nat \<Rightarrow> dec_state \<Rightarrow> (psa_status \<times> dec_state) option" where
  "decrypt_body env hdr data n st =
    (let (r, tr) = invoke env Crypto_init (d_tr st); st = st\<lparr>d_tr := tr\<rparr>
     in if rs_status r \<noteq> PSA_SUCCESS \<and> rs_status r \<noteq> PSA_ERROR_ALREADY_EXISTS then Some (rs_status r, st)
     else let (e, key, tr) = derive_key_from_huk env huk_label (d_key st) (d_tr st); st = st\<lparr>d_key := key, d_tr := tr\<rparr>
     in if e \<noteq> PSA_SUCCESS then Some (PSA_ERROR_GENERIC_ERROR, st)
     else let (r, tr) = invoke env (Import_key model_key_attr (d_key st)) (d_tr st); st = st\<lparr>d_tr := tr\<rparr>
     in if rs_status r \<noteq> PSA_SUCCESS then Some (rs_status r, st)
     else do {
       assert_ub (n \<le> length data);
       (out, m, tr) \<leftarrow> cbc_decrypt env (rs_num r) (eh_iv hdr)
          (take (n - ENCRYPTED_HEADER_CBC_SIZE) (drop ENCRYPTED_HEADER_CBC_SIZE data)) (d_mem st) (d_tr st);
       let st = st\<lparr>d_mem := m, d_tr := tr\<rparr>;
       case out of Inl e \<Rightarrow> Some (e, st) | Inr n \<Rightarrow> check_plaintext hdr n st })"

lemma decrypt_body_eq:
  assumes r0: "env (d_tr st) Crypto_init = r0"
    and k: "derive_key_from_huk env huk_label (d_key st) (d_tr st @ [(Crypto_init, r0)]) = (e1, key, tr1)"
    and r2: "env tr1 (Import_key model_key_attr key) = r2"
  shows "decrypt_body env hdr data n st =
    (if rs_status r0 \<noteq> PSA_SUCCESS \<and> rs_status r0 \<noteq> PSA_ERROR_ALREADY_EXISTS
     then Some (rs_status r0, st\<lparr>d_tr := d_tr st @ [(Crypto_init, r0)]\<rparr>)
     else if e1 \<noteq> PSA_SUCCESS then Some (PSA_ERROR_GENERIC_ERROR, st\<lparr>d_key := key, d_tr := tr1\<rparr>)
     else if rs_status r2 \<noteq> PSA_SUCCESS
     then Some (rs_status r2, st\<lparr>d_key := key, d_tr := tr1 @ [(Import_key model_key_attr key, r2)]\<rparr>)
     else do {
       assert_ub (n \<le> length data);
       (out, m, tr) \<leftarrow> cbc_decrypt env (rs_num r2) (eh_iv hdr)
          (take (n - ENCRYPTED_HEADER_CBC_SIZE) (drop ENCRYPTED_HEADER_CBC_SIZE data))
          (d_mem st) (tr1 @ [(Import_key model_key_attr key, r2)]);
       let st = st\<lparr>d_key := key, d_mem := m, d_tr := tr\<rparr>;
       case out of Inl e \<Rightarrow> Some (e, st) | Inr n \<Rightarrow> check_plaintext hdr n st })"
  by (simp add: decrypt_body_def invoke_def Let_def r0 k r2)

lemma sum_case_Some:
  "(case x of Inl a \<Rightarrow> f a | Inr b \<Rightarrow> g b) = Some y \<longleftrightarrow>
   (\<exists>a. x = Inl a \<and> f a = Some y) \<or> (\<exists>b. x = Inr b \<and> g b = Some y)"
  by (cases x) auto

lemma decrypt_stages:
  assumes "package_error d n = None" "decrypt_model env d n st = Some (e, st')"
  obtains data hdr where "d = Some data" "enc_header_of data = Some hdr"
    "eh_original_size hdr \<le> TFM_TINYMAIX_MAX_MODEL_SIZE" "decrypt_body env hdr data n st = Some (e, st')"
  using assms
  by (auto simp: package_error_def decrypt_model_def decrypt_body_def Let_def bind_eq_Some_conv
      split: option.splits if_splits)

lemma decrypt_resources:
  assumes d: "decrypt_model env d n st = Some (e, st')" and s: "res_quiet s"
  shows "extends (d_tr st) (d_tr st') \<and> all_crypto (added (d_tr st) (d_tr st')) \<and>
    owed_after (added (d_tr st) (d_tr st')) s = s"
proof (cases "package_error d n")
  case (Some e')
  with decrypt_package_error [OF Some, of env st] d show ?thesis by simp
next
  case None
  then obtain data hdr where b: "decrypt_body env hdr data n st = Some (e, st')"
    using d by (rule decrypt_stages)
  define r0 tr0 where "r0 = env (d_tr st) Crypto_init" and "tr0 = d_tr st @ [(Crypto_init, r0)]"
  obtain e1 key tr1 where k: "derive_key_from_huk env huk_label (d_key st) tr0 = (e1, key, tr1)" by (metis prod_cases3)
  define r2 tr2 where "r2 = env tr1 (Import_key model_key_attr key)" and "tr2 = tr1 @ [(Import_key model_key_attr key, r2)]"
  have x0: "extends (d_tr st) tr0 \<and> all_crypto (added (d_tr st) tr0) \<and> owed_after (added (d_tr st) tr0) s = s" by (simp add: tr0_def)
  have x1: "extends tr0 tr1 \<and> all_crypto (added tr0 tr1) \<and> owed_after (added tr0 tr1) s = s" using derive_key_resources [OF k s] by simp
  have x2: "extends tr1 tr2 \<and> all_crypto (added tr1 tr2) \<and> (rs_status r2 \<noteq> PSA_SUCCESS \<longrightarrow> owed_after (added tr1 tr2) s = s) \<and>
      (rs_status r2 = PSA_SUCCESS \<longrightarrow> owed_after (added tr1 tr2) s = s\<lparr>cr_keys := rs_num r2 # cr_keys s\<rparr>)"
    by (simp add: tr2_def)
  have body: "(if rs_status r0 \<noteq> PSA_SUCCESS \<and> rs_status r0 \<noteq> PSA_ERROR_ALREADY_EXISTS then d_tr st' = tr0
     else if e1 \<noteq> PSA_SUCCESS then d_tr st' = tr1
     else if rs_status r2 \<noteq> PSA_SUCCESS then d_tr st' = tr2
     else (\<exists>iv ct m out m'. cbc_decrypt env (rs_num r2) iv ct m tr2 = Some (out, m', d_tr st')))"
    using b unfolding decrypt_body_eq [OF r0_def [symmetric] k [unfolded tr0_def] r2_def [symmetric]]
    by (auto simp: tr0_def tr2_def Let_def bind_eq_Some_conv sum_case_Some split: if_splits dest!: check_plaintext_trace)
      blast+
  have x3: "extends tr2 (d_tr st') \<and> all_crypto (added tr2 (d_tr st')) \<and> owed_after (added tr2 (d_tr st')) (s\<lparr>cr_keys := rs_num r2 # cr_keys s\<rparr>) = s"
    if "cbc_decrypt env (rs_num r2) iv ct m tr2 = Some (out, m', d_tr st')" for iv ct m out m'
    using cbc_decrypt_resources [OF that, of "s\<lparr>cr_keys := rs_num r2 # cr_keys s\<rparr>"] s
    by (simp add: res_quiet_def)
  have y1: "extends (d_tr st) tr1 \<and> all_crypto (added (d_tr st) tr1) \<and> owed_after (added (d_tr st) tr1) s = s"
    using x0 x1 extends_trans added_trans [of "d_tr st" tr0 tr1] by auto
  have y2: "extends (d_tr st) tr2 \<and> all_crypto (added (d_tr st) tr2) \<and> owed_after (added (d_tr st) tr2) s =
      (if rs_status r2 = PSA_SUCCESS then s\<lparr>cr_keys := rs_num r2 # cr_keys s\<rparr> else s)"
    using y1 x2 extends_trans added_trans [of "d_tr st" tr1 tr2] by auto
  show ?thesis
    using body x0 y1 y2 x3 extends_trans [of "d_tr st" tr2] added_trans [of "d_tr st" tr2 "d_tr st'"]
    by (auto split: if_splits)
qed

text \<open>A package that passes the checks before any call: then the crypto implementation is initialised first.\<close>

lemma derive_key_extends: "derive_key_from_huk env label key tr = (e, key', tr') \<Longrightarrow> extends tr tr'"
  by (auto simp: derive_key_from_huk_def Let_def case_prod_unfold split: if_splits)

lemma cbc_decrypt_extends: "cbc_decrypt env key iv ct m tr = Some (out, m', tr') \<Longrightarrow> extends tr tr'"
  by (auto simp: cbc_decrypt_def Let_def case_prod_unfold bind_eq_Some_conv split: if_splits)

lemma decrypt_initialises_first:
  assumes p: "package_error d n = None" and d: "decrypt_model env d n st = Some (e, st')"
  shows "\<exists>cs. d_tr st' = d_tr st @ (Crypto_init, env (d_tr st) Crypto_init) # cs"
proof -
  obtain data hdr where b: "decrypt_body env hdr data n st = Some (e, st')"
    using p d by (rule decrypt_stages)
  define r0 tr0 where "r0 = env (d_tr st) Crypto_init" and "tr0 = d_tr st @ [(Crypto_init, r0)]"
  obtain e1 key tr1 where k: "derive_key_from_huk env huk_label (d_key st) tr0 = (e1, key, tr1)" by (metis prod_cases3)
  define r2 tr2 where "r2 = env tr1 (Import_key model_key_attr key)" and "tr2 = tr1 @ [(Import_key model_key_attr key, r2)]"
  have body: "d_tr st' \<in> {tr0, tr1, tr2} \<or> (\<exists>iv ct m out m'. cbc_decrypt env (rs_num r2) iv ct m tr2 = Some (out, m', d_tr st'))"
    using b unfolding decrypt_body_eq [OF r0_def [symmetric] k [unfolded tr0_def] r2_def [symmetric]]
    by (auto simp: tr0_def tr2_def Let_def bind_eq_Some_conv sum_case_Some split: if_splits dest!: check_plaintext_trace)
  have 1: "extends tr0 tr1" "extends tr1 tr2" using derive_key_extends [OF k] by (simp_all add: tr2_def)
  then have 2: "extends tr0 tr2" using extends_trans by blast
  have "extends tr0 (d_tr st')"
    using body 1(1) 2 extends_refl [of tr0] cbc_decrypt_extends extends_trans [OF 2] by blast
  then show ?thesis unfolding extends_def tr0_def r0_def by (metis append.assoc append_Cons append_Nil)
qed

text \<open>The checks before any call, on the bytes of the package.\<close>

lemma package_checks:
  assumes "n \<le> length data"
  shows "package_error (Some data) n =
    (if n < 28 \<or> le_nat (take 4 data) \<noteq> 0x58414D54 \<or> le_nat (take 4 (drop 4 data)) \<noteq> 3 then Some PSA_ERROR_INVALID_ARGUMENT
     else if 4096 < le_nat (take 4 (drop 8 data)) then Some PSA_ERROR_BUFFER_TOO_SMALL
     else if n = 28 then Some PSA_ERROR_INVALID_ARGUMENT else None)"
  using assms
  by (auto simp: package_error_def enc_header_of_def field_at_def ENCRYPTED_HEADER_CBC_SIZE_def ENCRYPTED_HEADER_MAGIC_def
      TFM_TINYMAIX_MAX_MODEL_SIZE_def)

subsection \<open>The outcome\<close>

text \<open>The callee of a decryption reports no more than the room it is given.\<close>

definition output_fits :: "psa_env \<Rightarrow> bool" where
  "output_fits env \<longleftrightarrow>
     (\<forall>tr ct n. length (rs_bytes (env tr (Cipher_update ct n))) \<le> n) \<and>
     (\<forall>tr n. 0 \<le> n \<longrightarrow> int (length (rs_bytes (env tr (Cipher_finish n)))) \<le> n)"

definition cbc_plain :: "psa_env \<Rightarrow> int \<Rightarrow> byte list \<Rightarrow> byte list \<Rightarrow> psa_trace \<Rightarrow> byte list" where
  "cbc_plain env key iv ct tr =
     (let tr = issue env (Cipher_set_iv iv) (issue env (Cipher_decrypt_setup key PSA_ALG_CBC_NO_PADDING) tr);
          u = env tr (Cipher_update ct TFM_TINYMAIX_MAX_MODEL_SIZE);
          tr = issue env (Cipher_update ct TFM_TINYMAIX_MAX_MODEL_SIZE) tr;
          f = env tr (Cipher_finish (int TFM_TINYMAIX_MAX_MODEL_SIZE - int (length (rs_bytes u))))
      in rs_bytes u @ rs_bytes f)"

lemma cbc_decrypt_output:
  assumes fits: "output_fits env" and len: "length (m R_MODEL) = TFM_TINYMAIX_MAX_MODEL_SIZE"
  shows "\<exists>out m' tr'. cbc_decrypt env key iv ct m tr = Some (out, m', tr') \<and>
    (\<forall>r. length (m' r) = length (m r)) \<and> (\<forall>r. r \<noteq> R_MODEL \<longrightarrow> m' r = m r) \<and>
    (\<forall>e. out = Inl e \<longrightarrow> e \<noteq> PSA_SUCCESS \<and> (\<exists>tr c. rs_status (env tr c) = e)) \<and>
    (\<forall>n. out = Inr n \<longrightarrow> n = length (cbc_plain env key iv ct tr) \<and> n \<le> TFM_TINYMAIX_MAX_MODEL_SIZE \<and>
       take n (m' R_MODEL) = cbc_plain env key iv ct tr)"
proof -
  let ?M = TFM_TINYMAIX_MAX_MODEL_SIZE
  define r1 tr1 where "r1 = env tr (Cipher_decrypt_setup key PSA_ALG_CBC_NO_PADDING)"
    and "tr1 = tr @ [(Cipher_decrypt_setup key PSA_ALG_CBC_NO_PADDING, r1)]"
  define r2 tr2 where "r2 = env tr1 (Cipher_set_iv iv)" and "tr2 = tr1 @ [(Cipher_set_iv iv, r2)]"
  define u tr3 where "u = env tr2 (Cipher_update ct ?M)" and "tr3 = tr2 @ [(Cipher_update ct ?M, u)]"
  let ?n = "length (rs_bytes u)"
  define f where "f = env tr3 (Cipher_finish (int ?M - int ?n))"
  have un: "?n \<le> ?M" using fits by (simp add: output_fits_def u_def)
  then have fn: "int (length (rs_bytes f)) \<le> int ?M - int ?n" using fits by (simp add: output_fits_def f_def)
  have room: "wrap_u32 (int ?M - int ?n) = int ?M - int ?n"
    using un by (simp add: wrap_u32_def TFM_TINYMAIX_MAX_MODEL_SIZE_def)
  have plain: "cbc_plain env key iv ct tr = rs_bytes u @ rs_bytes f"
    by (simp add: cbc_plain_def Let_def r1_def [symmetric] tr1_def [symmetric] r2_def [symmetric] tr2_def [symmetric]
        u_def [symmetric] tr3_def [symmetric] f_def [symmetric])
  let ?m1 = "m(R_MODEL := rs_bytes u @ drop ?n (m R_MODEL))"
  have s1: "st_bytes m (R_MODEL, 0) (rs_bytes u) = Some ?m1"
    using st_bytes_splice [of 0 "rs_bytes u" m R_MODEL] un len by simp
  let ?m2 = "?m1(R_MODEL := rs_bytes u @ rs_bytes f @ drop (?n + length (rs_bytes f)) (?m1 R_MODEL))"
  have s2: "st_bytes ?m1 (R_MODEL, int ?n) (rs_bytes f) = Some ?m2"
    using st_bytes_splice [of ?n "rs_bytes f" ?m1 R_MODEL] un fn len by simp
  have eq: "cbc_decrypt env key iv ct m tr =
    (if rs_status r1 \<noteq> PSA_SUCCESS then Some (Inl (rs_status r1), m, issue env (Destroy_key key) tr1)
     else if rs_status r2 \<noteq> PSA_SUCCESS
     then Some (Inl (rs_status r2), m, issue env (Destroy_key key) (issue env Cipher_abort tr2))
     else if rs_status u \<noteq> PSA_SUCCESS
     then Some (Inl (rs_status u), ?m1, issue env (Destroy_key key) (issue env Cipher_abort tr3))
     else Some (if rs_status f \<noteq> PSA_SUCCESS then Inl (rs_status f) else Inr (?n + length (rs_bytes f)), ?m2,
       issue env (Destroy_key key) (issue env Cipher_abort (tr3 @ [(Cipher_finish (int ?M - int ?n), f)]))))"
    using s1 s2 un fn room
    by (simp add: cbc_decrypt_def Let_def invoke_def r1_def tr1_def r2_def tr2_def u_def tr3_def f_def)
  have lens: "length (?m1 r) = length (m r)" "length (?m2 r) = length (m r)" for r
    using un fn len by auto
  have "?n + length (rs_bytes f) \<le> ?M" using un fn by linarith
  moreover have "\<exists>tr c. rs_status (env tr c) = rs_status r1" "\<exists>tr c. rs_status (env tr c) = rs_status r2"
    "\<exists>tr c. rs_status (env tr c) = rs_status u" "\<exists>tr c. rs_status (env tr c) = rs_status f"
    unfolding r1_def r2_def u_def f_def by blast+
  ultimately show ?thesis
    unfolding eq plain using lens by auto
qed

lemma pad_check_defined:
  "(\<And>i. i \<in> set is \<Longrightarrow> ld8 m (R_MODEL, off - int i) \<noteq> None) \<Longrightarrow> pad_check m off pad is \<noteq> None"
proof (induction "is")
  case (Cons i "is")
  then obtain b c where "ld8 m (R_MODEL, off - int i) = Some b" "pad_check m off pad is = Some c" by fastforce
  then show ?case by (cases "b = pad") auto
qed simp

lemma strip_padding_defined: "n \<le> length (m R_MODEL) \<Longrightarrow> \<exists>r. strip_padding m n = Some r"
proof -
  assume n: "n \<le> length (m R_MODEL)"
  have rd: "ld8 m (R_MODEL, int n - 1 - int i) \<noteq> None" if "i < n" for i
    using n that by (simp add: ld8_def)
  show ?thesis
  proof (cases "n = 0")
    case False
    then obtain p where p: "ld8 m (R_MODEL, int n - 1) = Some p" using rd [of 0] by auto
    show ?thesis
    proof (cases "unat p \<le> n")
      case True
      then have "pad_check m (int n - 1) p [0..<unat p] \<noteq> None" using rd by (intro pad_check_defined) auto
      then show ?thesis using False by (auto simp: strip_padding_def p)
    qed (simp add: strip_padding_def p)
  qed (simp add: strip_padding_def)
qed

text \<open>What the last checks establish.\<close>

lemma check_plaintext_outcome:
  assumes n: "n \<le> length (d_mem st R_MODEL)"
  shows "\<exists>e st'. check_plaintext hdr n st = Some (e, st') \<and> (e = PSA_SUCCESS \<longrightarrow>
    d_size st' = eh_original_size hdr \<and> strip_padding (d_mem st) n = Some (Inr (d_size st')) \<and>
    (4 \<le> d_size st' \<longrightarrow> ld_u32 (d_mem st) (R_MODEL, 0) = Some 0x5849414D))"
proof -
  obtain r where r: "strip_padding (d_mem st) n = Some r" using strip_padding_defined [of n "d_mem st"] n by blast
  show ?thesis
  proof (cases r)
    case (Inl e)
    have "e \<noteq> PSA_SUCCESS"
      using r Inl by (auto simp: strip_padding_def bind_eq_Some_conv split: if_splits)
    with r Inl show ?thesis by (simp add: check_plaintext_def)
  next
    case (Inr k)
    then obtain pad where "n = k + unat (pad :: byte)" using strip_padding_iff [of n "d_mem st" k] n r by auto
    then have "in_object (d_mem st) (R_MODEL, 0) 4" if "4 \<le> k" using n that by (simp add: in_object_def)
    then obtain v where "4 \<le> k \<longrightarrow> ld_u32 (d_mem st) (R_MODEL, 0) = Some v"
      using ld_bytes_in_object [of "d_mem st" "(R_MODEL, 0)" 4] by (cases "4 \<le> k") (auto simp: ld_u32_def)
    then show ?thesis using r Inr by (auto simp: check_plaintext_def Let_def)
  qed
qed

definition model_object :: "mem \<Rightarrow> bool" where
  "model_object m \<longleftrightarrow> length (m R_MODEL) = TFM_TINYMAIX_MAX_MODEL_SIZE"

text \<open>
  Decryption returns, changes no other object, and succeeds only on a checked plaintext: what the cipher has
  made of the bytes behind the header, under the initialisation vector of the header and the key that the
  import of the derived key has returned.
\<close>

definition checked_plaintext :: "psa_env \<Rightarrow> byte list \<Rightarrow> nat \<Rightarrow> dec_state \<Rightarrow> bool" where
  "checked_plaintext env data n st' \<longleftrightarrow> (\<exists>hdr pad tr r.
     enc_header_of data = Some hdr \<and> 28 < n \<and> eh_magic hdr = 0x58414D54 \<and> eh_version hdr = 3 \<and>
     eh_original_size hdr \<le> TFM_TINYMAIX_MAX_MODEL_SIZE \<and> r = env tr (Import_key model_key_attr (d_key st')) \<and> rs_status r = PSA_SUCCESS \<and>
     extends (tr @ [(Import_key model_key_attr (d_key st'), r)]) (d_tr st') \<and> d_size st' = eh_original_size hdr \<and> 1 \<le> unat pad \<and> unat pad \<le> 16 \<and>
     d_size st' + unat pad \<le> TFM_TINYMAIX_MAX_MODEL_SIZE \<and>
     cbc_plain env (rs_num r) (eh_iv hdr) (take (n - 28) (drop 28 data))
       (tr @ [(Import_key model_key_attr (d_key st'), r)]) =
       take (d_size st') (d_mem st' R_MODEL) @ replicate (unat pad) (pad :: byte) \<and>
     (4 \<le> d_size st' \<longrightarrow> ld_u32 (d_mem st') (R_MODEL, 0) = Some 0x5849414D))"

lemma decrypt_outcome:
  assumes fits: "output_fits env" and obj: "model_object (d_mem st)" and len: "n \<le> length data"
  shows "\<exists>e st'. decrypt_model env (Some data) n st = Some (e, st') \<and>
    (\<forall>r. length (d_mem st' r) = length (d_mem st r)) \<and> (\<forall>r. r \<noteq> R_MODEL \<longrightarrow> d_mem st' r = d_mem st r) \<and>
    (e = PSA_SUCCESS \<longrightarrow> checked_plaintext env data n st')"
proof (cases "package_error (Some data) n")
  case (Some e)
  have "e \<noteq> PSA_SUCCESS" using Some by (auto simp: package_error_def split: if_splits option.splits)
  with decrypt_package_error [OF Some, of env st] show ?thesis by auto
next
  case None
  have "28 \<le> n" using None by (auto simp: package_error_def ENCRYPTED_HEADER_CBC_SIZE_def split: if_splits)
  then obtain hdr where hdr: "enc_header_of data = Some hdr"
    using len by (auto simp: enc_header_of_def field_at_def)
  have body: "decrypt_model env (Some data) n st = decrypt_body env hdr data n st"
    using None hdr by (auto simp: package_error_def decrypt_model_def decrypt_body_def Let_def split: if_splits)
  define r0 where "r0 = env (d_tr st) Crypto_init"
  obtain e1 key tr1 where k: "derive_key_from_huk env huk_label (d_key st) (d_tr st @ [(Crypto_init, r0)]) = (e1, key, tr1)"
    by (metis prod_cases3)
  define r2 where "r2 = env tr1 (Import_key model_key_attr key)"
  let ?tr2 = "tr1 @ [(Import_key model_key_attr key, r2)]"
  let ?ct = "take (n - ENCRYPTED_HEADER_CBC_SIZE) (drop ENCRYPTED_HEADER_CBC_SIZE data)"
  obtain out m tr where c: "cbc_decrypt env (rs_num r2) (eh_iv hdr) ?ct (d_mem st) ?tr2 = Some (out, m, tr)"
    and same: "\<forall>r. length (m r) = length (d_mem st r)" "\<forall>r. r \<noteq> R_MODEL \<longrightarrow> m r = d_mem st r"
    and bad: "\<forall>e. out = Inl e \<longrightarrow> e \<noteq> PSA_SUCCESS"
    and good: "\<forall>k. out = Inr k \<longrightarrow> k \<le> TFM_TINYMAIX_MAX_MODEL_SIZE \<and>
       take k (m R_MODEL) = cbc_plain env (rs_num r2) (eh_iv hdr) ?ct ?tr2"
    using cbc_decrypt_output [OF fits, of "d_mem st" "rs_num r2" "eh_iv hdr" ?ct ?tr2] obj
    by (auto simp: model_object_def)
  let ?st = "st\<lparr>d_key := key, d_mem := m, d_tr := tr\<rparr>"
  note eq = decrypt_body_eq [OF r0_def [symmetric] k r2_def [symmetric], of hdr data n]
  show ?thesis
  proof (cases "(rs_status r0 = PSA_SUCCESS \<or> rs_status r0 = PSA_ERROR_ALREADY_EXISTS) \<and> e1 = PSA_SUCCESS \<and> rs_status r2 = PSA_SUCCESS")
    case False
    then show ?thesis unfolding body eq by auto
  next
    case True
    show ?thesis
    proof (cases out)
      case (Inl e)
      with True bad same len show ?thesis unfolding body eq by (simp add: c)
    next
      case (Inr k)
      have kM: "k \<le> length (m R_MODEL)" using good Inr same obj by (simp add: model_object_def)
      obtain e st' where ch: "check_plaintext hdr k ?st = Some (e, st')"
        and ok: "e = PSA_SUCCESS \<longrightarrow> d_size st' = eh_original_size hdr \<and> strip_padding m k = Some (Inr (d_size st')) \<and>
          (4 \<le> d_size st' \<longrightarrow> ld_u32 m (R_MODEL, 0) = Some 0x5849414D)"
        using check_plaintext_outcome [of k ?st hdr] kM by auto
      have mem: "d_mem st' = m" using check_plaintext_trace [OF ch] by simp
      have res: "decrypt_model env (Some data) n st = Some (e, st')"
        unfolding body eq using True Inr ch len by (auto simp: c)
      have dk: "d_key st' = key" using check_plaintext_key [OF ch] by simp
      have ex: "extends ?tr2 (d_tr st')" using cbc_decrypt_extends [OF c] check_plaintext_trace [OF ch] by simp
      have "checked_plaintext env data n st'" if e: "e = PSA_SUCCESS"
      proof -
        obtain pad where pad: "1 \<le> unat (pad :: byte)" "unat pad \<le> 16" "k = d_size st' + unat pad"
          "take k (m R_MODEL) = take (d_size st') (m R_MODEL) @ replicate (unat pad) pad"
          using strip_padding_iff [of k m "d_size st'", OF kM] ok e by auto
        have acc: "28 < n" "eh_magic hdr = 0x58414D54" "eh_version hdr = 3" "eh_original_size hdr \<le> TFM_TINYMAIX_MAX_MODEL_SIZE"
          using None hdr by (auto simp: package_error_def ENCRYPTED_HEADER_CBC_SIZE_def ENCRYPTED_HEADER_MAGIC_def split: if_splits)
        show ?thesis
          using acc hdr ok e pad good Inr True r2_def ex unfolding mem dk checked_plaintext_def ENCRYPTED_HEADER_CBC_SIZE_def
          by (intro exI [of _ hdr] exI [of _ pad] exI [of _ tr1] exI [of _ r2]) auto
      qed
      then show ?thesis using res same mem by (intro exI [of _ e] exI [of _ st'] conjI impI) auto
    qed
  qed
qed

text \<open>Conversely, a padded model under a matching header is accepted.\<close>

definition crypto_succeeds :: "psa_env \<Rightarrow> bool" where
  "crypto_succeeds env \<longleftrightarrow> (\<forall>tr c. rs_status (env tr c) = PSA_SUCCESS)"

definition decrypts_to :: "psa_env \<Rightarrow> byte list \<Rightarrow> byte list \<Rightarrow> byte list \<Rightarrow> bool" where
  "decrypts_to env iv ct p \<longleftrightarrow> (\<forall>key tr. cbc_plain env key iv ct tr = p)"

lemma derive_key_succeeds: "crypto_succeeds env \<Longrightarrow> fst (derive_key_from_huk env label key tr) = PSA_SUCCESS"
  by (simp add: crypto_succeeds_def derive_key_from_huk_def Let_def case_prod_unfold)

lemma ld_u32_prefix:
  assumes "take n (m R_MODEL) = p" "n = length p" "4 \<le> n"
  shows "ld_u32 m (R_MODEL, 0) = Some (le_nat (take 4 p))"
proof -
  have len: "n \<le> length (m R_MODEL)" using arg_cong [OF assms(1), of length] assms(2) by simp
  have "ld_bytes m (R_MODEL, 0) 4 = Some (map (\<lambda>i. p ! i) [0..<4])"
  proof -
    have "p ! i = m R_MODEL ! i" if "i < 4" for i
      using assms that nth_take [of i n "m R_MODEL"] by simp
    then show ?thesis
      unfolding ld_bytes_def using len assms(3) by (intro those_map_Some) (auto simp: ld8_def)
  qed
  also have "map (\<lambda>i. p ! i) [0..<4] = take 4 p" using assms(2,3) by (intro nth_equalityI) auto
  finally show ?thesis by (simp add: ld_u32_def)
qed

lemma decrypt_accepts:
  assumes fits: "output_fits env" and obj: "model_object (d_mem st)" and len: "n \<le> length data"
    and pkg: "package_error (Some data) n = None" and hdr: "enc_header_of data = Some hdr"
    and ok: "crypto_succeeds env"
    and dec: "decrypts_to env (eh_iv hdr) (take (n - ENCRYPTED_HEADER_CBC_SIZE) (drop ENCRYPTED_HEADER_CBC_SIZE data)) (pkcs7_pad p)"
    and size_p: "length p = eh_original_size hdr" and magic: "4 \<le> length p \<longrightarrow> le_nat (take 4 p) = 0x5849414D"
  shows "\<exists>st'. decrypt_model env (Some data) n st = Some (PSA_SUCCESS, st') \<and>
    d_size st' = length p \<and> take (length p) (d_mem st' R_MODEL) = p"
proof -
  have body: "decrypt_model env (Some data) n st = decrypt_body env hdr data n st"
    using pkg hdr by (auto simp: package_error_def decrypt_model_def decrypt_body_def Let_def split: if_splits)
  define r0 where "r0 = env (d_tr st) Crypto_init"
  obtain e1 key tr1 where k: "derive_key_from_huk env huk_label (d_key st) (d_tr st @ [(Crypto_init, r0)]) = (e1, key, tr1)"
    by (metis prod_cases3)
  define r2 where "r2 = env tr1 (Import_key model_key_attr key)"
  have e1: "e1 = PSA_SUCCESS"
    using derive_key_succeeds [OF ok, of huk_label "d_key st" "d_tr st @ [(Crypto_init, r0)]"] k by simp
  have st: "rs_status r0 = PSA_SUCCESS" "rs_status r2 = PSA_SUCCESS"
    using ok by (simp_all add: crypto_succeeds_def r0_def r2_def)
  let ?tr2 = "tr1 @ [(Import_key model_key_attr key, r2)]"
  let ?ct = "take (n - ENCRYPTED_HEADER_CBC_SIZE) (drop ENCRYPTED_HEADER_CBC_SIZE data)"
  obtain out m tr where c: "cbc_decrypt env (rs_num r2) (eh_iv hdr) ?ct (d_mem st) ?tr2 = Some (out, m, tr)"
    and bad: "\<forall>e. out = Inl e \<longrightarrow> e \<noteq> PSA_SUCCESS \<and> (\<exists>tr c. rs_status (env tr c) = e)"
    and good: "\<forall>k. out = Inr k \<longrightarrow> k = length (cbc_plain env (rs_num r2) (eh_iv hdr) ?ct ?tr2) \<and>
       take k (m R_MODEL) = cbc_plain env (rs_num r2) (eh_iv hdr) ?ct ?tr2"
    using cbc_decrypt_output [OF fits, of "d_mem st" "rs_num r2" "eh_iv hdr" ?ct ?tr2] obj
    by (auto simp: model_object_def)
  have dp: "cbc_plain env (rs_num r2) (eh_iv hdr) ?ct ?tr2 = pkcs7_pad p"
    using dec unfolding decrypts_to_def by blast
  have "out \<noteq> Inl e" for e using bad ok unfolding crypto_succeeds_def by metis
  then obtain k where k': "out = Inr k" by (cases out) blast
  have out: "out = Inr (length (pkcs7_pad p))" and plain: "take (length (pkcs7_pad p)) (m R_MODEL) = pkcs7_pad p"
  proof -
    have "k = length (pkcs7_pad p)" "take k (m R_MODEL) = pkcs7_pad p"
      using good [rule_format, OF k'] unfolding dp by blast+
    with k' show "out = Inr (length (pkcs7_pad p))" "take (length (pkcs7_pad p)) (m R_MODEL) = pkcs7_pad p"
      by blast+
  qed
  have pre: "take (length p) (m R_MODEL) = p"
  proof -
    have "pkcs7_pad p = p @ drop (length p) (pkcs7_pad p)" by (simp add: pkcs7_pad_def Let_def)
    moreover have "length p \<le> length (pkcs7_pad p)" by (simp add: pkcs7_pad_def Let_def)
    ultimately show ?thesis
      by (metis plain append_eq_conv_conj min.absorb1 take_take)
  qed
  let ?st = "st\<lparr>d_key := key, d_mem := m, d_tr := tr\<rparr>"
  have "4 \<le> length p \<longrightarrow> ld_u32 m (R_MODEL, 0) = Some 0x5849414D"
    using ld_u32_prefix [of "length p" m p] pre magic by auto
  then have "check_plaintext hdr (length (pkcs7_pad p)) ?st = Some (PSA_SUCCESS, ?st\<lparr>d_size := length p\<rparr>)"
    using strip_pkcs7_pad [of p m, OF plain] size_p by (auto simp: check_plaintext_def Let_def)
  then have "decrypt_model env (Some data) n st = Some (PSA_SUCCESS, ?st\<lparr>d_size := length p\<rparr>)"
    unfolding body decrypt_body_eq [OF r0_def [symmetric] k r2_def [symmetric], of hdr data n]
    unfolding c Option.bind.bind_lunit prod.case out sum.case Let_def using st e1 len by simp
  with pre show ?thesis by simp
qed

end
