(* ===== verification/Float_Facts.thy ===== *)
theory Float_Facts
  imports Soft_Float Complex_Main "HOL-Library.Product_Lexorder"
begin

section \<open>The order of the floats\<close>

text \<open>
  The comparison of the model, which aligns the exponents in integers, is the order of
  the rational values, with the infinities at the ends; NaN is related to nothing.
\<close>

definition fp_val :: "bool \<Rightarrow> nat \<Rightarrow> int \<Rightarrow> rat" where
  "fp_val s m e = of_int (signed_mant s m) * 2 powi e"

fun fp_rank :: "fp \<Rightarrow> int \<times> rat" where
  "fp_rank FNaN = (0, 0)"
| "fp_rank (FInf s) = (if s then -1 else 1, 0)"
| "fp_rank (FNum s m e) = (0, fp_val s m e)"

lemma scaled_val:
  "g \<le> e \<Longrightarrow> of_int (signed_mant s m * 2 ^ nat (e - g)) * 2 powi g = fp_val s m e"
proof -
  assume g: "g \<le> e"
  define k where "k = nat (e - g)"
  have e: "e = int k + g" using g by (simp add: k_def)
  have "(2 :: rat) powi e = 2 ^ k * 2 powi g" unfolding e by (simp add: power_int_add)
  then show ?thesis unfolding k_def [symmetric] by (simp add: fp_val_def)
qed

lemma fp_lt_num: "fp_lt (FNum s m e) (FNum t n f) \<longleftrightarrow> fp_val s m e < fp_val t n f"
proof -
  let ?g = "min e f"
  let ?a = "signed_mant s m * 2 ^ nat (e - ?g)" and ?b = "signed_mant t n * 2 ^ nat (f - ?g)"
  have "fp_val s m e < fp_val t n f \<longleftrightarrow> (of_int ?a :: rat) * 2 powi ?g < of_int ?b * 2 powi ?g"
    by (simp only: scaled_val [of ?g e s m] scaled_val [of ?g f t n] min.cobounded1 min.cobounded2)
  also have "\<dots> \<longleftrightarrow> (of_int ?a :: rat) < of_int ?b"
    by (rule mult_less_cancel_right_pos) (simp add: zero_less_power_int)
  also have "\<dots> \<longleftrightarrow> ?a < ?b" by (rule of_int_less_iff)
  finally show ?thesis by (simp add: Let_def)
qed

lemma fp_lt_rank: "fp_lt x y \<longleftrightarrow> x \<noteq> FNaN \<and> y \<noteq> FNaN \<and> fp_rank x < fp_rank y"
proof -
  have lt: "fp_lt (FNum s m e) (FNum t n f) \<longleftrightarrow> fp_val s m e < fp_val t n f" for s m e t n f by (rule fp_lt_num)
  show ?thesis
    by (cases x; cases y) (simp_all only: lt fp_lt.simps(1-5) fp_rank.simps less_prod_simp, auto)
qed

lemma fp_gt_trans: "fp_gt x y \<Longrightarrow> fp_gt y z \<Longrightarrow> fp_gt x z"
  by (auto simp: fp_gt_def fp_lt_rank)

lemma fp_gt_irrefl: "\<not> fp_gt x x"
  by (simp add: fp_gt_def fp_lt_rank)

lemma fp_gt_not_gt: "fp_gt x y \<Longrightarrow> \<not> fp_gt z y \<Longrightarrow> z \<noteq> FNaN \<Longrightarrow> fp_gt x z"
  by (auto simp: fp_gt_def fp_lt_rank)

end
