(* ===== verification/Service_Correct.thy ===== *)
theory Service_Correct
  imports Service_Loop Decrypt_Correct Model_Correct Float_Facts
begin

section \<open>What the inference partition guarantees\<close>

text \<open>
  For every environment, every sequence of messages and every package: the state
  invariant of the partition, one reply per message as its last call, every crypto resource
  given back, nothing but results written to clients in production builds.
\<close>

subsection \<open>Frame facts\<close>

lemma svc_issue_simps [simp]:
  "g_mdl (svc_issue env c st) = g_mdl st" "g_in (svc_issue env c st) = g_in st"
  "g_outs (svc_issue env c st) = g_outs st" "g_model_loaded (svc_issue env c st) = g_model_loaded st"
  "svc_mem (svc_issue env c st) = svc_mem st" "d_size (g_dec (svc_issue env c st)) = d_size (g_dec st)"
  "svc_tr (svc_issue env c st) = svc_tr st @ [(c, env (svc_tr st) c)]"
  by (simp_all add: svc_issue_def set_tr_def)

lemma set_mem_simps [simp]:
  "g_mdl (set_mem m st) = g_mdl st" "g_in (set_mem m st) = g_in st" "g_outs (set_mem m st) = g_outs st"
  "g_model_loaded (set_mem m st) = g_model_loaded st" "svc_mem (set_mem m st) = m" "svc_tr (set_mem m st) = svc_tr st"
  by (simp_all add: set_mem_def)

lemma set_tr_simps [simp]:
  "g_mdl (set_tr tr st) = g_mdl st" "g_in (set_tr tr st) = g_in st" "g_outs (set_tr tr st) = g_outs st"
  "g_model_loaded (set_tr tr st) = g_model_loaded st" "svc_mem (set_tr tr st) = svc_mem st" "svc_tr (set_tr tr st) = tr"
  by (simp_all add: set_tr_def)

lemma keeps_st_model: "st_bytes m (R_MODEL, off) bs = Some m' \<Longrightarrow> keeps {R_MODEL} m m'"
  using keeps_st_bytes [of m "(R_MODEL, off)" bs m' "{R_MODEL}"] by simp

lemma cbc_decrypt_keeps: "cbc_decrypt env key iv ct m tr = Some (out, m', tr') \<Longrightarrow> keeps {R_MODEL} m m'"
  by (auto simp: cbc_decrypt_def Let_def case_prod_unfold bind_eq_Some_conv keeps_refl
      split: if_splits dest!: keeps_st_model intro: keeps_trans)

lemma decrypt_keeps: "decrypt_model env d n st = Some (e, st') \<Longrightarrow> keeps {R_MODEL} (d_mem st) (d_mem st')"
proof (cases "package_error d n")
  case (Some e')
  assume "decrypt_model env d n st = Some (e, st')"
  with decrypt_package_error [OF Some, of env st] show ?thesis by (simp add: keeps_refl)
next
  case None
  assume "decrypt_model env d n st = Some (e, st')"
  with None obtain data hdr where b: "decrypt_body env hdr data n st = Some (e, st')" by (rule decrypt_stages)
  obtain e1 key tr1 where k: "derive_key_from_huk env huk_label (d_key st)
      (d_tr st @ [(Crypto_init, env (d_tr st) Crypto_init)]) = (e1, key, tr1)" by (metis prod_cases3)
  show ?thesis
    using b unfolding decrypt_body_eq [OF refl k refl]
    by (auto simp: Let_def bind_eq_Some_conv sum_case_Some keeps_refl split: if_splits
        dest!: check_plaintext_trace cbc_decrypt_keeps)
qed

subsection \<open>The state invariant\<close>

definition svc_sizes :: "mem \<Rightarrow> bool" where
  "svc_sizes m \<longleftrightarrow> length (m R_MAIN) = MDL_BUF_LEN \<and> length (m R_PIC) = pic_size \<and>
     length (m R_MODEL) = TFM_TINYMAIX_MAX_MODEL_SIZE \<and> length (m R_SBUF) = TM_MAX_KCSIZE \<and> m R_NULL = []"

definition engine_ready :: "svc \<Rightarrow> bool" where
  "engine_ready st \<longleftrightarrow>
     mdl_b (g_mdl st) = Some (R_MODEL, 0) \<and> mdl_buf (g_mdl st) = Some (R_MAIN, 0) \<and>
     m_data (g_in st) = (R_MAIN, 0) \<and>
     mdlbin_magic (svc_mem st) (R_MODEL, 0) = Some TM_MDL_MAGIC \<and>
     mdlbin_mdl_type (svc_mem st) (R_MODEL, 0) = Some TM_MDL_TYPE"

definition svc_ok :: "svc \<Rightarrow> bool" where
  "svc_ok st \<longleftrightarrow> svc_sizes (svc_mem st) \<and> length (g_outs st) = 1 \<and> (g_model_loaded st \<longrightarrow> engine_ready st)"

lemma keeps_sizes: "keeps R m m' \<Longrightarrow> svc_sizes m \<Longrightarrow> svc_sizes m'"
  by (auto simp: keeps_def svc_sizes_def) (metis length_0_conv)

lemma keeps_header:
  assumes "keeps R m m'" "R_MODEL \<notin> R"
  shows "mdlbin_magic m' (R_MODEL, 0) = mdlbin_magic m (R_MODEL, 0)"
    and "mdlbin_mdl_type m' (R_MODEL, 0) = mdlbin_mdl_type m (R_MODEL, 0)"
proof -
  have "m' R_MODEL = m R_MODEL" using assms by (simp add: keeps_def)
  then show "mdlbin_magic m' (R_MODEL, 0) = mdlbin_magic m (R_MODEL, 0)"
    and "mdlbin_mdl_type m' (R_MODEL, 0) = mdlbin_mdl_type m (R_MODEL, 0)"
    using ld_bytes_region [of m' "(R_MODEL, 0)" m]
    by (simp_all add: mdlbin_magic_def mdlbin_mdl_type_def ld_u32_def ld_u8_def ld8_def)
qed

lemma svc_ok_issue [simp]: "svc_ok (svc_issue env c st) \<longleftrightarrow> svc_ok st"
  by (simp add: svc_ok_def engine_ready_def)

lemma load_model_ok:
  assumes ok: "svc_ok st" and l: "load_model env pkg st = Some (status, st')"
  shows "svc_ok st' \<and> (g_model_loaded st' \<longleftrightarrow> status = PSA_SUCCESS)"
proof -
  obtain e d where d: "(if length pkg > TFM_TINYMAIX_MAX_MODEL_SIZE then Some (PSA_ERROR_INSUFFICIENT_MEMORY, g_dec st)
      else decrypt_model env (Some pkg) (length pkg) (g_dec st)) = Some (e, d)"
    and rest: "(let st = st\<lparr>g_dec := d\<rparr> in if e = PSA_SUCCESS then do {
            (res, mdl, inp) \<leftarrow> tm_load (svc_mem st) (g_mdl st) (R_MODEL, 0) (Some (R_MAIN, 0)) True (g_in st);
            let st = st\<lparr>g_mdl := mdl, g_in := inp\<rparr>;
            if res \<noteq> TM_OK then Some (PSA_ERROR_GENERIC_ERROR, st\<lparr>g_model_loaded := False\<rparr>)
            else Some (PSA_SUCCESS, st\<lparr>g_model_loaded := True\<rparr>) }
          else Some (e, st\<lparr>g_model_loaded := False\<rparr>)) = Some (status, st')"
    using l unfolding load_model_def bind_eq_Some_conv by (elim exE conjE) (simp only: split: prod.split_asm)
  have "keeps {R_MODEL} (svc_mem st) (d_mem d)"
    using d by (auto split: if_splits intro: keeps_refl decrypt_keeps)
  then have sz: "svc_sizes (d_mem d)" using ok keeps_sizes by (auto simp: svc_ok_def)
  then have "in_object (d_mem d) (R_MODEL, 0) 64"
    by (simp add: in_object_def svc_sizes_def TFM_TINYMAIX_MAX_MODEL_SIZE_def)
  note load = load_outcomes [OF this, of "g_mdl st" "(R_MAIN, 0)" True "g_in st"]
  show ?thesis
  proof (cases "e = PSA_SUCCESS")
    case False
    with rest sz ok show ?thesis by (auto simp: svc_ok_def Let_def)
  next
    case True
    with rest sz ok load show ?thesis
      by (auto simp: Let_def svc_ok_def engine_ready_def loaded_mdl_def image_dims_def split: if_splits)
  qed
qed

lemma handle_load_inv: "svc_ok st \<Longrightarrow> handle_load env pkg msg st = Some st' \<Longrightarrow> svc_ok st'"
proof -
  assume ok: "svc_ok st" and h: "handle_load env pkg msg st = Some st'"
  obtain status st1 where l: "load_model env pkg st = Some (status, st1)"
    and st': "st' = svc_issue env (Psa_reply (msg_handle msg) status)
      (if status = PSA_SUCCESS \<and> msg_out_size msg \<ge> 4
       then svc_issue env (Psa_write (msg_handle msg) 0 (int_bytes 0)) st1 else st1)"
    using h by (auto simp: handle_load_def Let_def bind_eq_Some_conv)
  from load_model_ok [OF ok l] show ?thesis by (simp add: st')
qed

text \<open>An inference keeps the picture, the image and the handle's bindings.\<close>

lemma infer_picture_frame:
  assumes er: "engine_ready st" and i: "infer_picture base st = Some (status, result, st')"
  shows "keeps {R_MAIN, R_SBUF} (svc_mem st) (svc_mem st') \<and> engine_ready st' \<and>
    length (g_outs st') = length (g_outs st) \<and> g_model_loaded st' = g_model_loaded st \<and> svc_tr st' = svc_tr st"
proof -
  let ?pic = "\<lparr>m_dims = 3, m_h = 28, m_w = 28, m_c = 1, m_data = (R_PIC, 0)\<rparr>"
  obtain res inp m where p: "tm_preprocess (svc_mem st) (g_mdl st) TMPP_UINT2INT ?pic (g_in st) = Some (res, inp, m)"
    using i by (auto simp: infer_picture_def Let_def bind_eq_Some_conv simp del: One_nat_def)
  have res: "res = TM_OK" "inp = g_in st" using preprocess_same_out [OF p] by auto
  have k1: "keeps {R_MAIN, R_SBUF} (svc_mem st) m"
    using keeps_preprocess [OF p, of "{R_MAIN, R_SBUF}"] er by (simp add: engine_ready_def)
  obtain e rs where r: "tm_run base m (g_mdl st) (g_in st) (g_outs st) = Some (e, rs)"
    and st': "g_mdl st' = r_mdl rs" "g_outs st' = r_outs rs" "g_in st' = g_in st"
      "g_model_loaded st' = g_model_loaded st" "svc_tr st' = svc_tr st" "svc_mem st' = r_mem rs"
    using i res by (auto simp: infer_picture_def Let_def bind_eq_Some_conv p simp del: One_nat_def split: if_splits)
  have k2: "keeps {R_MAIN, R_SBUF} m (r_mem rs)"
    using tm_run_keeps [OF r, of "(R_MAIN, 0)"] er by (simp add: engine_ready_def)
  have k: "keeps {R_MAIN, R_SBUF} (svc_mem st) (svc_mem st')" using keeps_trans [OF k1 k2] st' by simp
  from tm_run_same [OF r] er st' keeps_header [OF k] show ?thesis
    using k by (simp add: engine_ready_def)
qed

lemma handle_run_cases:
  assumes "handle_run env base msg st = Some st'"
  obtains
    (refused) status where "status \<noteq> PSA_SUCCESS" "st' = svc_issue env (Psa_reply (msg_handle msg) status) st"
      "\<not> g_model_loaded st \<and> status = PSA_ERROR_BAD_STATE \<or>
       g_model_loaded st \<and> msg_in_size msg \<notin> {0, pic_size} \<and> status = PSA_ERROR_INVALID_ARGUMENT"
  | (short) m st1 where "g_model_loaded st" "msg_in_size msg = pic_size"
      "st_bytes (svc_mem st) (R_PIC, 0)
         (take pic_size (rs_bytes (env (svc_tr st) (Psa_read (msg_handle msg) 0 pic_size)))) = Some m"
      "length (rs_bytes (env (svc_tr st) (Psa_read (msg_handle msg) 0 pic_size))) \<noteq> pic_size"
      "st1 = set_mem m (svc_issue env (Psa_read (msg_handle msg) 0 pic_size) st)"
      "st' = svc_issue env (Psa_reply (msg_handle msg) PSA_ERROR_COMMUNICATION_FAILURE) st1"
  | (custom) m st1 status result st2 where "g_model_loaded st" "msg_in_size msg = pic_size"
      "st_bytes (svc_mem st) (R_PIC, 0) (rs_bytes (env (svc_tr st) (Psa_read (msg_handle msg) 0 pic_size))) = Some m"
      "length (rs_bytes (env (svc_tr st) (Psa_read (msg_handle msg) 0 pic_size))) = pic_size"
      "st1 = set_mem m (svc_issue env (Psa_read (msg_handle msg) 0 pic_size) st)"
      "infer_picture base st1 = Some (status, result, st2)"
      "st' = svc_issue env (Psa_reply (msg_handle msg) status) (write_result env msg result st2)"
  | (builtin) status result st2 where "g_model_loaded st" "msg_in_size msg = 0"
      "infer_picture base st = Some (status, result, st2)"
      "st' = svc_issue env (Psa_reply (msg_handle msg) status) (write_result env msg result st2)"
proof -
  consider "\<not> g_model_loaded st" | "g_model_loaded st" "msg_in_size msg \<notin> {0, pic_size}"
    | "g_model_loaded st" "msg_in_size msg = pic_size" | "g_model_loaded st" "msg_in_size msg = 0" by blast
  then show thesis
  proof cases
    case 1
    then show thesis using assms by (intro refused [of PSA_ERROR_BAD_STATE]) (auto simp: handle_run_def)
  next
    case 2
    then show thesis using assms by (intro refused [of PSA_ERROR_INVALID_ARGUMENT]) (auto simp: handle_run_def)
  next
    case 3
    let ?bs = "rs_bytes (env (svc_tr st) (Psa_read (msg_handle msg) 0 pic_size))"
    from assms 3 obtain m where m: "st_bytes (svc_mem st) (R_PIC, 0) (take pic_size ?bs) = Some m"
      by (auto simp: handle_run_def Let_def invoke_def bind_eq_Some_conv)
    show thesis
    proof (cases "length ?bs = pic_size")
      case True
      with m have m': "st_bytes (svc_mem st) (R_PIC, 0) ?bs = Some m" by simp
      show thesis
        using assms 3 True m' by (auto simp: handle_run_def Let_def invoke_def bind_eq_Some_conv svc_issue_def
            intro: custom [OF 3 m' True refl])
    next
      case False
      show thesis
        using assms 3 False by (intro short [OF 3 m False refl])
          (auto simp: handle_run_def Let_def invoke_def bind_eq_Some_conv svc_issue_def m)
    qed
  next
    case 4
    have "pic_size \<noteq> 0" by (simp add: pic_size_def)
    then show thesis using assms 4 by (auto simp: handle_run_def bind_eq_Some_conv intro: builtin [OF 4])
  qed
qed

lemma svc_ok_write_result [simp]: "svc_ok (write_result env msg result st) \<longleftrightarrow> svc_ok st"
  by (simp add: write_result_def split: option.split)

lemma infer_picture_ok:
  "svc_ok st \<Longrightarrow> g_model_loaded st \<Longrightarrow> infer_picture base st = Some (status, result, st') \<Longrightarrow> svc_ok st'"
  using infer_picture_frame keeps_sizes by (fastforce simp: svc_ok_def)

lemma picture_read_ok:
  assumes ok: "svc_ok st" and m: "st_bytes (svc_mem st) (R_PIC, 0) bs = Some m"
  shows "svc_ok (set_mem m (svc_issue env c st))"
proof -
  have k: "keeps {R_PIC} (svc_mem st) m" using keeps_st_bytes [OF m, of "{R_PIC}"] by simp
  with ok keeps_sizes keeps_header [OF k] show ?thesis by (auto simp: svc_ok_def engine_ready_def)
qed

lemma handle_run_inv: "svc_ok st \<Longrightarrow> handle_run env base msg st = Some st' \<Longrightarrow> svc_ok st'"
proof (erule handle_run_cases)
  fix m st1 assume "svc_ok st" "st_bytes (svc_mem st) (R_PIC, 0)
         (take pic_size (rs_bytes (env (svc_tr st) (Psa_read (msg_handle msg) 0 pic_size)))) = Some m"
      "st1 = set_mem m (svc_issue env (Psa_read (msg_handle msg) 0 pic_size) st)"
      "st' = svc_issue env (Psa_reply (msg_handle msg) PSA_ERROR_COMMUNICATION_FAILURE) st1"
  then show "svc_ok st'" using picture_read_ok by simp
next
  fix m st1 status result st2 assume ok: "svc_ok st" and l: "g_model_loaded st" and m: "st_bytes (svc_mem st) (R_PIC, 0)
         (rs_bytes (env (svc_tr st) (Psa_read (msg_handle msg) 0 pic_size))) = Some m"
    and st1: "st1 = set_mem m (svc_issue env (Psa_read (msg_handle msg) 0 pic_size) st)"
    and i: "infer_picture base st1 = Some (status, result, st2)"
    and st': "st' = svc_issue env (Psa_reply (msg_handle msg) status) (write_result env msg result st2)"
  have "svc_ok st1" "g_model_loaded st1" using picture_read_ok [OF ok m] l by (simp_all add: st1)
  from infer_picture_ok [OF this i] show "svc_ok st'" by (simp add: st')
qed (simp_all add: infer_picture_ok)

lemma svc_ok_set_tr [simp]: "svc_ok (set_tr tr st) \<longleftrightarrow> svc_ok st"
  by (simp add: svc_ok_def engine_ready_def)

lemma handle_get_key_inv: "svc_ok st \<Longrightarrow> handle_get_key env msg st = Some st' \<Longrightarrow> svc_ok st'"
  by (auto simp: handle_get_key_def Let_def case_prod_unfold)

lemma handle_message_inv:
  "svc_ok st \<Longrightarrow> handle_message env dev base pkg msg st = Some st' \<Longrightarrow> svc_ok st'"
  by (auto simp: handle_message_def split: psa_msg_type.splits if_splits
      dest: handle_load_inv handle_run_inv handle_get_key_inv)

lemma serve_inv:
  "svc_ok st \<Longrightarrow> tinymaix_inference_entry env dev base pkg arrivals st = Some st' \<Longrightarrow> svc_ok st'"
proof (induction arrivals arbitrary: st)
  case (Cons a arrivals)
  then obtain st1 where "serve_one env dev base pkg a st = Some st1"
    "tinymaix_inference_entry env dev base pkg arrivals st1 = Some st'"
    by (auto simp: tinymaix_inference_entry_def bind_eq_Some_conv)
  moreover from this(1) Cons.prems(1) have "svc_ok st1"
    by (auto simp: serve_one_def split: prod.splits if_splits intro: handle_message_inv)
  ultimately show ?case using Cons.IH by blast
qed (simp add: tinymaix_inference_entry_def)

lemma svc_start_ok: "length pic = pic_size \<Longrightarrow> svc_ok (snd (tinymaix_inference_init (svc_start pic)))"
  by (simp add: tinymaix_inference_init_def svc_start_def svc_ok_def svc_sizes_def)

subsection \<open>The calls of one message\<close>

text \<open>A result is a class of the ten, or -1.\<close>

lemma parse_output_range: "parse_output m out = Some r \<Longrightarrow> -1 \<le> r \<and> r \<le> 9"
proof -
  assume p: "parse_output m out = Some r"
  then obtain st where f: "for_upto 10 (parse_step m (m_data out)) (f32_of_int 0, -1) = Some st" and r: "r = snd st"
    by (auto simp: parse_output_def)
  have "-1 \<le> snd st \<and> snd st < int 10"
    by (rule for_upto_SomeI [where P = "\<lambda>n st. -1 \<le> snd st \<and> snd st < int n", OF _ f])
       (auto simp: parse_step_def bind_eq_Some_conv split: prod.splits if_splits)
  then show ?thesis by (simp add: r)
qed

lemma infer_result:
  "infer_picture base st = Some (status, result, st') \<Longrightarrow>
   if status = PSA_SUCCESS then \<exists>r. result = Some r \<and> -1 \<le> r \<and> r \<le> 9 else result = None"
  by (auto simp: infer_picture_def Let_def bind_eq_Some_conv dest: parse_output_range split: if_splits)

definition result_bytes :: "byte list \<Rightarrow> bool" where
  "result_bytes bs \<longleftrightarrow> (\<exists>r. bs = int_bytes r \<and> -1 \<le> r \<and> r \<le> 9)"

lemma length_int_bytes [simp]: "length (int_bytes i) = 4"
  by (simp add: int_bytes_def)

lemma result_bytes_0 [simp]: "result_bytes (int_bytes 0)"
  unfolding result_bytes_def by (rule exI [of _ 0]) simp

lemma length_result_bytes: "result_bytes bs \<Longrightarrow> length bs = 4"
  by (auto simp: result_bytes_def)

definition allowed_call :: "bool \<Rightarrow> psa_msg \<Rightarrow> psa_call \<Rightarrow> bool" where
  "allowed_call dev msg c =
     (case c of
        Psa_read h i n \<Rightarrow> h = msg_handle msg \<and> i = 0 \<and> n = msg_in_size msg
      | Psa_write h i bs \<Rightarrow> h = msg_handle msg \<and> i = 0 \<and> length bs \<le> msg_out_size msg \<and>
          (result_bytes bs \<or> dev \<and> length bs = DERIVED_KEY_LEN)
      | _ \<Rightarrow> crypto_call c)"

lemma crypto_allowed: "crypto_call c \<Longrightarrow> allowed_call dev msg c"
  by (cases c) (auto simp: allowed_call_def)

definition quiet_step :: "bool \<Rightarrow> psa_msg \<Rightarrow> psa_trace \<Rightarrow> psa_trace \<Rightarrow> bool" where
  "quiet_step dev msg tr tr' \<longleftrightarrow> extends tr tr' \<and> (\<forall>(c, r)\<in>set (added tr tr'). allowed_call dev msg c) \<and>
     owed_after (added tr tr') res_idle = res_idle"

lemma quiet_step_refl: "quiet_step dev msg tr tr"
  by (simp add: quiet_step_def)

lemma quiet_step_trans: "quiet_step dev msg a b \<Longrightarrow> quiet_step dev msg b c \<Longrightarrow> quiet_step dev msg a c"
  using extends_trans [of a b c] added_trans [of a b c] by (auto simp: quiet_step_def)

lemma quiet_step_one:
  "allowed_call dev msg c \<Longrightarrow> owed_step (c, r) res_idle = res_idle \<Longrightarrow> quiet_step dev msg tr (tr @ [(c, r)])"
  by (simp add: quiet_step_def)

lemma res_quiet_idle: "res_quiet res_idle"
  by (simp add: res_quiet_def res_idle_def)

lemma quiet_step_crypto:
  "extends tr tr' \<Longrightarrow> all_crypto (added tr tr') \<Longrightarrow> owed_after (added tr tr') res_idle = res_idle \<Longrightarrow>
   quiet_step dev msg tr tr'"
  by (auto simp: quiet_step_def all_crypto_def crypto_allowed)

lemma load_model_trace:
  assumes "load_model env pkg st = Some (status, st')"
  shows "quiet_step dev msg (svc_tr st) (svc_tr st')"
proof -
  obtain e d where d: "(if length pkg > TFM_TINYMAIX_MAX_MODEL_SIZE then Some (PSA_ERROR_INSUFFICIENT_MEMORY, g_dec st)
      else decrypt_model env (Some pkg) (length pkg) (g_dec st)) = Some (e, d)" and "svc_tr st' = d_tr d"
    using assms by (auto simp: load_model_def Let_def bind_eq_Some_conv split: if_splits)
  moreover have "quiet_step dev msg (svc_tr st) (d_tr d)"
    using d decrypt_resources [OF _ res_quiet_idle, of env "Some pkg" "length pkg" "g_dec st" e d]
    by (auto split: if_splits intro: quiet_step_refl quiet_step_crypto)
  ultimately show ?thesis by simp
qed

definition one_reply :: "bool \<Rightarrow> psa_msg \<Rightarrow> psa_trace \<Rightarrow> psa_trace \<Rightarrow> bool" where
  "one_reply dev msg tr tr' \<longleftrightarrow>
     (\<exists>mid status r. quiet_step dev msg tr mid \<and> tr' = mid @ [(Psa_reply (msg_handle msg) status, r)])"

lemma one_reply_issue:
  "quiet_step dev msg (svc_tr st) (svc_tr st1) \<Longrightarrow>
   one_reply dev msg (svc_tr st) (svc_tr (svc_issue env (Psa_reply (msg_handle msg) status) st1))"
  by (auto simp: one_reply_def)

lemma write_quiet:
  "result_bytes bs \<or> dev \<and> length bs = DERIVED_KEY_LEN \<Longrightarrow> length bs \<le> msg_out_size msg \<Longrightarrow>
   quiet_step dev msg (svc_tr st) (svc_tr (svc_issue env (Psa_write (msg_handle msg) 0 bs) st))"
  by (auto simp: allowed_call_def intro!: quiet_step_one)

lemma write_result_quiet:
  "infer_picture base st = Some (status, result, st') \<Longrightarrow> quiet_step dev msg (svc_tr st') (svc_tr (write_result env msg result st'))"
  using infer_result [of base st status result st']
  by (auto simp: write_result_def allowed_call_def result_bytes_def intro: quiet_step_refl intro!: quiet_step_one
      split: option.split if_splits)

lemma handle_load_reply: "handle_load env pkg msg st = Some st' \<Longrightarrow> one_reply dev msg (svc_tr st) (svc_tr st')"
proof -
  assume h: "handle_load env pkg msg st = Some st'"
  obtain status st1 where l: "load_model env pkg st = Some (status, st1)"
    and st': "st' = svc_issue env (Psa_reply (msg_handle msg) status)
      (if status = PSA_SUCCESS \<and> msg_out_size msg \<ge> 4
       then svc_issue env (Psa_write (msg_handle msg) 0 (int_bytes 0)) st1 else st1)"
    using h by (auto simp: handle_load_def Let_def bind_eq_Some_conv)
  have "quiet_step dev msg (svc_tr st1) (svc_tr (if status = PSA_SUCCESS \<and> msg_out_size msg \<ge> 4
       then svc_issue env (Psa_write (msg_handle msg) 0 (int_bytes 0)) st1 else st1))"
    using write_quiet [of "int_bytes 0" dev msg st1 env]
    by (auto intro: quiet_step_refl simp del: svc_issue_simps(7))
  from quiet_step_trans [OF load_model_trace [OF l] this] show ?thesis unfolding st' by (rule one_reply_issue)
qed

lemma infer_picture_trace: "infer_picture base st = Some (status, result, st') \<Longrightarrow> svc_tr st' = svc_tr st"
  by (auto simp: infer_picture_def Let_def bind_eq_Some_conv split: if_splits)

lemma read_quiet: "msg_in_size msg = n \<Longrightarrow>
  quiet_step dev msg (svc_tr st) (svc_tr (svc_issue env (Psa_read (msg_handle msg) 0 n) st))"
  by (auto simp: allowed_call_def intro!: quiet_step_one)

lemma handle_run_reply: "handle_run env base msg st = Some st' \<Longrightarrow> one_reply dev msg (svc_tr st) (svc_tr st')"
proof (erule handle_run_cases)
  fix m st1 assume "msg_in_size msg = pic_size" "st1 = set_mem m (svc_issue env (Psa_read (msg_handle msg) 0 pic_size) st)"
    and st': "st' = svc_issue env (Psa_reply (msg_handle msg) PSA_ERROR_COMMUNICATION_FAILURE) st1"
  then have "quiet_step dev msg (svc_tr st) (svc_tr st1)" using read_quiet by simp
  then show "one_reply dev msg (svc_tr st) (svc_tr st')" unfolding st' by (rule one_reply_issue)
next
  fix m st1 status result st2
  assume n: "msg_in_size msg = pic_size" and st1: "st1 = set_mem m (svc_issue env (Psa_read (msg_handle msg) 0 pic_size) st)"
    and i: "infer_picture base st1 = Some (status, result, st2)"
    and st': "st' = svc_issue env (Psa_reply (msg_handle msg) status) (write_result env msg result st2)"
  have "quiet_step dev msg (svc_tr st) (svc_tr st1)" using read_quiet [OF n] by (simp add: st1)
  from quiet_step_trans [OF this, of "svc_tr (write_result env msg result st2)"] write_result_quiet [OF i, of dev msg env]
  show "one_reply dev msg (svc_tr st) (svc_tr st')"
    unfolding st' infer_picture_trace [OF i] by (intro one_reply_issue) simp
next
  fix status result st2
  assume i: "infer_picture base st = Some (status, result, st2)"
    and st': "st' = svc_issue env (Psa_reply (msg_handle msg) status) (write_result env msg result st2)"
  from write_result_quiet [OF i, of dev msg env] show "one_reply dev msg (svc_tr st) (svc_tr st')"
    unfolding st' infer_picture_trace [OF i] by (intro one_reply_issue) simp
qed (auto simp: one_reply_def intro: quiet_step_refl)

lemma handle_get_key_reply:
  "handle_get_key env msg st = Some st' \<Longrightarrow> one_reply True msg (svc_tr st) (svc_tr st')"
proof -
  assume h: "handle_get_key env msg st = Some st'"
  obtain e key tr where k: "derive_key_from_huk env huk_label (replicate DERIVED_KEY_LEN 0) (svc_tr st) = (e, key, tr)"
    by (metis prod_cases3)
  have q: "quiet_step True msg (svc_tr st) (svc_tr (set_tr tr st))" and len: "length key = DERIVED_KEY_LEN"
    using derive_key_resources [OF k res_quiet_idle] by (auto intro: quiet_step_crypto)
  show ?thesis
  proof (cases "msg_out_size msg < DERIVED_KEY_LEN")
    case True
    with h have "st' = svc_issue env (Psa_reply (msg_handle msg) PSA_ERROR_BUFFER_TOO_SMALL) st"
      by (simp add: handle_get_key_def)
    then show ?thesis by (simp only: one_reply_issue [OF quiet_step_refl])
  next
    case False
    have w: "quiet_step True msg (svc_tr st) (svc_tr (svc_issue env (Psa_write (msg_handle msg) 0 key) (set_tr tr st)))"
      using quiet_step_trans [OF q write_quiet [of key True msg "set_tr tr st" env]] len False by simp
    from h False k have "st' = svc_issue env (Psa_reply (msg_handle msg) e)
        (if e = PSA_SUCCESS then svc_issue env (Psa_write (msg_handle msg) 0 key) (set_tr tr st) else set_tr tr st)"
      by (auto simp: handle_get_key_def)
    with one_reply_issue [OF q] one_reply_issue [OF w] show ?thesis by (simp split: if_splits)
  qed
qed

lemma handle_message_reply:
  assumes "handle_message env dev base pkg msg st = Some st'"
  shows "one_reply dev msg (svc_tr st) (svc_tr st')"
proof -
  have plain: "one_reply dev msg (svc_tr st) (svc_tr (svc_issue env (Psa_reply (msg_handle msg) s) st))" for s
    by (rule one_reply_issue [OF quiet_step_refl])
  from assms show ?thesis
    by (auto simp: handle_message_def simp del: svc_issue_simps(7) split: psa_msg_type.splits if_splits
        intro: plain handle_load_reply handle_run_reply dest: handle_get_key_reply)
qed

subsection \<open>A whole run of the service loop\<close>

definition result_writes :: "psa_trace \<Rightarrow> bool" where
  "result_writes cs \<longleftrightarrow> (\<forall>(c, r)\<in>set cs. case c of Psa_write h i bs \<Rightarrow> result_bytes bs | _ \<Rightarrow> True)"

lemma result_writes_append [simp]: "result_writes (xs @ ys) \<longleftrightarrow> result_writes xs \<and> result_writes ys"
  and result_writes_Nil [simp]: "result_writes []"
  by (auto simp: result_writes_def)

lemma quiet_no_reply: "quiet_step dev msg tr tr' \<Longrightarrow> reply_handles (added tr tr') = []"
  by (fastforce simp: quiet_step_def reply_handles_def allowed_call_def split: psa_call.splits)

lemma quiet_result_writes: "quiet_step False msg tr tr' \<Longrightarrow> result_writes (added tr tr')"
  by (fastforce simp: quiet_step_def result_writes_def allowed_call_def split: psa_call.splits)

lemma one_reply_effect:
  assumes "one_reply dev msg tr tr'"
  shows "extends tr tr' \<and> reply_handles (added tr tr') = [msg_handle msg] \<and>
    owed_after (added tr tr') res_idle = res_idle \<and> (\<not> dev \<longrightarrow> result_writes (added tr tr'))"
proof -
  from assms obtain mid status r where q: "quiet_step dev msg tr mid"
    and tr': "tr' = mid @ [(Psa_reply (msg_handle msg) status, r)]" by (auto simp: one_reply_def)
  from q have mid: "mid = tr @ added tr mid" by (simp add: quiet_step_def extends_def)
  then have "added tr tr' = added tr mid @ [(Psa_reply (msg_handle msg) status, r)]"
    unfolding tr' by (metis added_append append.assoc)
  moreover have "extends tr tr'" unfolding tr' by (subst mid) simp
  moreover have "result_writes [(Psa_reply h s, r)]" "reply_handles [(Psa_reply h s, r)] = [h]" for h s
    by (simp_all add: result_writes_def reply_handles_def)
  moreover have "\<not> dev \<Longrightarrow> result_writes (added tr mid)" using q quiet_result_writes by (cases dev) auto
  ultimately show ?thesis using q quiet_no_reply [OF q] by (auto simp: quiet_step_def)
qed

text \<open>The partition is a service whose calls leave no resource behind and, without \<open>DEV_MODE\<close>, write results only.\<close>

interpretation partition: service "handle_message env dev base pkg" msg_handle svc_tr
    "\<lambda>cs. owed_after cs res_idle = res_idle \<and> (\<not> dev \<longrightarrow> result_writes cs)"
  for env dev base pkg
proof unfold_locales
  fix m s s'
  assume "handle_message env dev base pkg m s = Some s'"
  from one_reply_effect [OF handle_message_reply [OF this]]
  show "\<exists>cs. svc_tr s' = svc_tr s @ cs \<and> reply_handles cs = [msg_handle m] \<and>
      owed_after cs res_idle = res_idle \<and> (\<not> dev \<longrightarrow> result_writes cs)"
    unfolding extends_def by blast
qed auto

lemma serve_one_arrival: "serve_one env dev base pkg = serve_arrival (handle_message env dev base pkg)"
  by (auto simp: fun_eq_iff serve_one_def serve_arrival_def)

lemma entry_trace:
  assumes "tinymaix_inference_entry env dev base pkg arrivals st = Some st'"
  shows "extends (svc_tr st) (svc_tr st') \<and>
    reply_handles (added (svc_tr st) (svc_tr st')) = map msg_handle (taken arrivals) \<and>
    owed_after (added (svc_tr st) (svc_tr st')) res_idle = res_idle \<and>
    (releases_ok (added (svc_tr st) (svc_tr st')) \<longrightarrow> live_after (added (svc_tr st) (svc_tr st')) res_idle = res_idle) \<and>
    (\<not> dev \<longrightarrow> result_writes (added (svc_tr st) (svc_tr st')))"
  using partition.loop_answers [of env dev base pkg arrivals st st'] assms
  by (auto simp: tinymaix_inference_entry_def serve_one_arrival live_after_owed)

subsection \<open>Particular requests\<close>

text \<open>A load that ends well has decrypted the package to a checked plaintext.\<close>

definition model_from :: "psa_env \<Rightarrow> byte list \<Rightarrow> svc \<Rightarrow> bool" where
  "model_from env pkg st \<longleftrightarrow> length pkg \<le> TFM_TINYMAIX_MAX_MODEL_SIZE \<and>
     (\<exists>d. checked_plaintext env pkg (length pkg) d \<and> d_mem d = svc_mem st \<and> d_size d = d_size (g_dec st))"

lemma load_model_result:
  assumes "svc_ok st" "output_fits env"
  shows "\<exists>status st'. load_model env pkg st = Some (status, st') \<and> svc_ok st' \<and>
    (g_model_loaded st' \<longleftrightarrow> status = PSA_SUCCESS) \<and> (status = PSA_SUCCESS \<longrightarrow> model_from env pkg st') \<and>
    extends (svc_tr st) (svc_tr st') \<and> all_crypto (added (svc_tr st) (svc_tr st'))"
proof -
  let ?dec = "if length pkg > TFM_TINYMAIX_MAX_MODEL_SIZE then Some (PSA_ERROR_INSUFFICIENT_MEMORY, g_dec st)
      else decrypt_model env (Some pkg) (length pkg) (g_dec st)"
  have obj: "model_object (svc_mem st)" using assms(1) by (simp add: svc_ok_def svc_sizes_def model_object_def)
  obtain e d where d: "?dec = Some (e, d)"
    and good: "e = PSA_SUCCESS \<longrightarrow> length pkg \<le> TFM_TINYMAIX_MAX_MODEL_SIZE \<and> checked_plaintext env pkg (length pkg) d"
    using decrypt_outcome [OF assms(2) obj, of "length pkg" pkg]
    by (cases "length pkg > TFM_TINYMAIX_MAX_MODEL_SIZE") auto
  have t: "extends (svc_tr st) (d_tr d) \<and> all_crypto (added (svc_tr st) (d_tr d))"
    using d decrypt_resources [OF _ res_quiet_idle, of env "Some pkg" "length pkg" "g_dec st" e d]
    by (auto split: if_splits)
  have k: "keeps {R_MODEL} (svc_mem st) (d_mem d)"
    using d by (auto split: if_splits intro: keeps_refl decrypt_keeps)
  then have "svc_sizes (d_mem d)" using assms(1) keeps_sizes by (auto simp: svc_ok_def)
  then have "in_object (d_mem d) (R_MODEL, 0) 64"
    by (simp add: in_object_def svc_sizes_def TFM_TINYMAIX_MAX_MODEL_SIZE_def)
  from load_outcomes [OF this, of "g_mdl st" "(R_MAIN, 0)" True "g_in st"]
  obtain res mdl inp where ld: "tm_load (d_mem d) (g_mdl st) (R_MODEL, 0) (Some (R_MAIN, 0)) True (g_in st) = Some (res, mdl, inp)"
    by (metis prod_cases3)
  have "\<exists>status st'. load_model env pkg st = Some (status, st') \<and> g_dec st' = d \<and> (status = PSA_SUCCESS \<longrightarrow> e = PSA_SUCCESS)"
    unfolding load_model_def d by (simp add: ld Let_def)
  then obtain status st' where l: "load_model env pkg st = Some (status, st')" "g_dec st' = d" "status = PSA_SUCCESS \<longrightarrow> e = PSA_SUCCESS"
    by blast
  from load_model_ok [OF assms(1) l(1)] l good t show ?thesis by (auto simp: model_from_def)
qed

text \<open>The whole answer to a load request: the calls of the decryption, the result if it succeeded and there is
  room for it, the reply.\<close>

definition load_answered :: "psa_env \<Rightarrow> byte list \<Rightarrow> psa_msg \<Rightarrow> svc \<Rightarrow> svc \<Rightarrow> psa_status \<Rightarrow> bool" where
  "load_answered env pkg msg st st' status \<longleftrightarrow>
     (\<exists>cs. all_crypto cs \<and> map fst (added (svc_tr st) (svc_tr st')) = map fst cs @
        (if status = PSA_SUCCESS \<and> 4 \<le> msg_out_size msg then [Psa_write (msg_handle msg) 0 (int_bytes 0)] else []) @
        [Psa_reply (msg_handle msg) status])"

lemma handle_load_result:
  assumes "svc_ok st" "output_fits env"
  shows "\<exists>status st'. handle_load env pkg msg st = Some st' \<and> svc_ok st' \<and> extends (svc_tr st) (svc_tr st') \<and>
    load_answered env pkg msg st st' status \<and>
    (g_model_loaded st' \<longleftrightarrow> status = PSA_SUCCESS) \<and> (status = PSA_SUCCESS \<longrightarrow> model_from env pkg st')"
proof -
  obtain status s1 where l: "load_model env pkg st = Some (status, s1)" and s1: "svc_ok s1"
      "g_model_loaded s1 \<longleftrightarrow> status = PSA_SUCCESS" "status = PSA_SUCCESS \<longrightarrow> model_from env pkg s1"
      "extends (svc_tr st) (svc_tr s1)" "all_crypto (added (svc_tr st) (svc_tr s1))"
    using load_model_result [OF assms] by blast
  let ?s2 = "if status = PSA_SUCCESS \<and> 4 \<le> msg_out_size msg then svc_issue env (Psa_write (msg_handle msg) 0 (int_bytes 0)) s1 else s1"
  let ?s3 = "svc_issue env (Psa_reply (msg_handle msg) status) ?s2"
  have h: "handle_load env pkg msg st = Some ?s3" by (simp add: handle_load_def l Let_def)
  obtain cs where cs: "svc_tr s1 = svc_tr st @ cs" "all_crypto cs"
    using s1(4,5) by (metis extends_def)
  have "svc_ok ?s3" "g_model_loaded ?s3 \<longleftrightarrow> status = PSA_SUCCESS" "model_from env pkg ?s3 = model_from env pkg s1"
    using s1 by (simp_all add: model_from_def)
  moreover have "extends (svc_tr st) (svc_tr ?s3)" "load_answered env pkg msg st ?s3 status"
    using cs by (auto simp: load_answered_def)
  ultimately show ?thesis using h s1(3) by blast
qed

lemma run_refused:
  "\<not> g_model_loaded st \<Longrightarrow> handle_run env base msg st =
     Some (svc_issue env (Psa_reply (msg_handle msg) PSA_ERROR_BAD_STATE) st)"
  by (simp add: handle_run_def)

text \<open>The picture of a custom request stays where the built-in request looks for it.\<close>

lemma custom_picture_stays:
  assumes ok: "svc_ok st" and l: "g_model_loaded st" and n: "msg_in_size msg = pic_size"
    and bs: "rs_bytes (env (svc_tr st) (Psa_read (msg_handle msg) 0 pic_size)) = bs" "length bs = pic_size"
    and r: "handle_run env base msg st = Some st'"
  shows "svc_mem st' R_PIC = bs"
  using r
proof (rule handle_run_cases)
  fix m st1 status result st2
  assume m: "st_bytes (svc_mem st) (R_PIC, 0) (rs_bytes (env (svc_tr st) (Psa_read (msg_handle msg) 0 pic_size))) = Some m"
    and st1: "st1 = set_mem m (svc_issue env (Psa_read (msg_handle msg) 0 pic_size) st)"
    and i: "infer_picture base st1 = Some (status, result, st2)"
    and st': "st' = svc_issue env (Psa_reply (msg_handle msg) status) (write_result env msg result st2)"
  have "length (svc_mem st R_PIC) = pic_size" using ok by (simp add: svc_ok_def svc_sizes_def)
  then have "m R_PIC = bs"
    using m st_bytes_splice [of 0 bs "svc_mem st" R_PIC] bs by simp
  moreover have "svc_ok st1" using picture_read_ok [OF ok m] st1 by simp
  then have "engine_ready st1" using l st1 by (simp add: svc_ok_def)
  from infer_picture_frame [OF this i] have "svc_mem st2 R_PIC = svc_mem st1 R_PIC" by (simp add: keeps_def)
  moreover have "svc_mem (write_result env msg result st2) = svc_mem st2"
    by (simp add: write_result_def split: option.split)
  ultimately show ?thesis by (simp add: st' st1)
qed (use l n bs in \<open>auto simp: pic_size_def\<close>)

text \<open>Messages without a picture leave the stored one alone.\<close>

definition sends_picture :: "psa_msg \<Rightarrow> bool" where
  "sends_picture msg \<longleftrightarrow> msg_type msg = MSG_CALL TINYMAIX_IPC_RUN_INFERENCE \<and> msg_in_size msg = pic_size"

lemma load_keeps_picture:
  assumes "load_model env pkg st = Some (status, st')"
  shows "svc_mem st' R_PIC = svc_mem st R_PIC"
proof -
  have "d_mem d R_PIC = svc_mem st R_PIC" if "decrypt_model env (Some pkg) (length pkg) (g_dec st) = Some (e, d)" for e d
    using decrypt_keeps [OF that] by (simp add: keeps_def)
  then show ?thesis using assms by (auto simp: load_model_def Let_def bind_eq_Some_conv split: if_splits)
qed

lemma handle_load_keeps_picture:
  "handle_load env pkg msg st = Some st' \<Longrightarrow> svc_mem st' R_PIC = svc_mem st R_PIC"
  by (auto simp: handle_load_def Let_def bind_eq_Some_conv dest: load_keeps_picture)

lemma write_result_mem [simp]: "svc_mem (write_result env msg result st) = svc_mem st"
  by (simp add: write_result_def split: option.split)

lemma run_keeps_picture:
  assumes ok: "svc_ok st" and n: "msg_in_size msg \<noteq> pic_size" and r: "handle_run env base msg st = Some st'"
  shows "svc_mem st' R_PIC = svc_mem st R_PIC"
  using r
proof (rule handle_run_cases)
  fix status result st2
  assume l: "g_model_loaded st" and i: "infer_picture base st = Some (status, result, st2)"
    and st': "st' = svc_issue env (Psa_reply (msg_handle msg) status) (write_result env msg result st2)"
  have "engine_ready st" using ok l by (simp add: svc_ok_def)
  from infer_picture_frame [OF this i] show ?thesis by (simp add: keeps_def st')
qed (use n in auto)

lemma message_keeps_picture:
  assumes "svc_ok st" "\<not> sends_picture msg" "handle_message env dev base pkg msg st = Some st'"
  shows "svc_mem st' R_PIC = svc_mem st R_PIC"
  using assms
  by (auto simp: handle_message_def handle_get_key_def case_prod_unfold Let_def sends_picture_def tinymaix_ipc_defs
      split: psa_msg_type.splits if_splits dest: handle_load_keeps_picture run_keeps_picture)

lemma loop_keeps_picture:
  "svc_ok st \<Longrightarrow> \<forall>a\<in>set arrivals. \<not> sends_picture (snd a) \<Longrightarrow>
   tinymaix_inference_entry env dev base pkg arrivals st = Some st' \<Longrightarrow>
   svc_ok st' \<and> svc_mem st' R_PIC = svc_mem st R_PIC"
proof (induction arrivals arbitrary: st)
  case (Cons a arrivals)
  then obtain st1 where 1: "serve_one env dev base pkg a st = Some st1"
    and 2: "tinymaix_inference_entry env dev base pkg arrivals st1 = Some st'"
    by (auto simp: tinymaix_inference_entry_def bind_eq_Some_conv)
  have "svc_ok st1 \<and> svc_mem st1 R_PIC = svc_mem st R_PIC"
    using 1 Cons.prems(1,2) handle_message_inv message_keeps_picture
    by (cases a) (auto simp: serve_one_def split: if_splits)
  with Cons.IH [OF _ _ 2] Cons.prems(2) show ?case by simp
qed (simp add: tinymaix_inference_entry_def)

text \<open>An inference does not depend on the calls made before.\<close>

lemma infer_picture_set_tr:
  "infer_picture base (set_tr tr st) = map_option (\<lambda>(status, result, st'). (status, result, set_tr tr st')) (infer_picture base st)"
proof -
  let ?pic = "\<lparr>m_dims = 3, m_h = 28, m_w = 28, m_c = 1, m_data = (R_PIC, 0)\<rparr>"
  show ?thesis
  proof (cases "tm_preprocess (svc_mem st) (g_mdl st) TMPP_UINT2INT ?pic (g_in st)")
    case None
    then show ?thesis by (simp add: infer_picture_def del: One_nat_def)
  next
    case (Some x)
    obtain res inp m where x: "x = (res, inp, m)" by (rule prod_cases3)
    show ?thesis
    proof (cases "tm_run base m (g_mdl st) inp (g_outs st)")
      case None
      then show ?thesis by (simp add: infer_picture_def Let_def Some x set_tr_def set_mem_def del: One_nat_def)
    next
      case run: (Some y)
      obtain e rs where y: "y = (e, rs)" by (rule prod.exhaust)
      show ?thesis
        by (cases "r_outs rs"; cases "parse_output (r_mem rs) (r_outs rs ! 0)")
          (simp_all add: infer_picture_def Let_def Some x run y set_tr_def set_mem_def del: One_nat_def)
    qed
  qed
qed

subsection \<open>The predicted class\<close>

definition top_class :: "(nat \<Rightarrow> fp) \<Rightarrow> nat \<Rightarrow> int \<Rightarrow> bool" where
  "top_class d n r \<longleftrightarrow>
     (if r = -1 then \<forall>i<n. \<not> fp_gt (d i) (f32_of_int 0)
      else 0 \<le> r \<and> r < int n \<and> fp_gt (d (nat r)) (f32_of_int 0) \<and>
        (\<forall>i<n. \<not> fp_gt (d i) (d (nat r))) \<and>
        (\<forall>i<nat r. d i \<noteq> FNaN \<longrightarrow> fp_gt (d (nat r)) (d i)))"

lemma top_class_step:
  assumes "top_class d n r" "maxp = (if r = -1 then f32_of_int 0 else d (nat r))"
  shows "top_class d (Suc n) (if fp_gt (d n) maxp then int n else r)"
proof (cases "fp_gt (d n) maxp")
  case False
  with assms show ?thesis by (auto simp: top_class_def less_Suc_eq split: if_splits)
next
  case True
  have zero: "fp_gt (d n) (f32_of_int 0)"
    using True assms fp_gt_trans by (auto simp: top_class_def split: if_splits)
  have below: "\<not> fp_gt (d i) maxp" if "i < n" for i
    using assms that by (auto simp: top_class_def split: if_splits)
  then have "\<not> fp_gt (d i) (d n)" if "i < n" for i
    using that True fp_gt_trans by blast
  moreover have "fp_gt (d n) (d i)" if "i < n" "d i \<noteq> FNaN" for i
    using fp_gt_not_gt [OF True below [OF that(1)] that(2)] .
  ultimately show ?thesis
    using True zero fp_gt_irrefl by (auto simp: top_class_def less_Suc_eq)
qed

lemma parse_output_top:
  assumes "\<And>i. i < 10 \<Longrightarrow> ld_f32 m (padd (m_data out) (4 * int i)) = Some (d i)"
  shows "\<exists>r. parse_output m out = Some r \<and> top_class d 10 r"
proof -
  let ?P = "\<lambda>n (maxp, r). top_class d n r \<and> maxp = (if r = -1 then f32_of_int 0 else d (nat r))"
  have "\<exists>st. for_upto 10 (parse_step m (m_data out)) (f32_of_int 0, -1) = Some st \<and> ?P 10 st"
  proof (rule for_upto_inv [where P = ?P])
    show "?P 0 (f32_of_int 0, -1)" by (simp add: top_class_def)
    fix n st
    assume "n < (10 :: nat)" "?P n st"
    then show "\<exists>st'. parse_step m (m_data out) n st = Some st' \<and> ?P (Suc n) st'"
      using assms [of n] top_class_step [of d n "snd st" "fst st"]
      by (cases st) (auto simp: parse_step_def)
  qed
  then show ?thesis by (auto simp: parse_output_def)
qed

end
