(* ===== verification/Shipped_Model.thy ===== *)
theory Shipped_Model
  imports Mnist_Data Service_Correct
begin

section \<open>The shipped package and the shipped network\<close>

text \<open>
  What the constant data of the repository mean to the code: the header of the package the
  partition is built with, and, for a memory that holds the plain image \<open>mdl_data\<close>, the
  fields the engine reads from it. Bytes of the image are looked up once, by number.
\<close>

subsection \<open>The package\<close>

lemma length_package: "length encrypted_mdl_data_data = 2444"
  by (simp add: encrypted_mdl_data_data_defs)

lemma length_mdl_data: "length mdl_data = 2408"
  by (simp add: mdl_data_defs)

lemma length_mnist_pic: "length mnist_pic = pic_size"
  by (simp add: mnist_pic_defs pic_size_def)

definition package_iv :: "byte list" where
  "package_iv = take 16 (drop 12 encrypted_mdl_data_data)"

definition package_ciphertext :: "byte list" where
  "package_ciphertext = take (encrypted_mdl_data_size - 28) (drop 28 encrypted_mdl_data_data)"

lemma package_fields:
  "field_at encrypted_mdl_data_data 0 4 = Some ENCRYPTED_HEADER_MAGIC"
  "field_at encrypted_mdl_data_data 4 4 = Some 3"
  "field_at encrypted_mdl_data_data 8 4 = Some (length mdl_data)"
  by (simp_all add: field_at_def length_package length_mdl_data)
     (simp_all add: encrypted_mdl_data_data_def encrypted_mdl_data_data_0_def ENCRYPTED_HEADER_MAGIC_def)

lemma package_header: "enc_header_of encrypted_mdl_data_data =
    Some \<lparr>eh_magic = ENCRYPTED_HEADER_MAGIC, eh_version = 3, eh_original_size = length mdl_data, eh_iv = package_iv\<rparr>"
  by (simp add: enc_header_of_def package_fields length_package package_iv_def)

lemma package_accepted: "package_error (Some encrypted_mdl_data_data) (length encrypted_mdl_data_data) = None"
  by (simp add: package_error_def package_header length_package length_mdl_data ENCRYPTED_HEADER_CBC_SIZE_def
      TFM_TINYMAIX_MAX_MODEL_SIZE_def)

subsection \<open>Bytes of the image in memory\<close>

definition holds_image :: "mem \<Rightarrow> bool" where
  "holds_image m \<longleftrightarrow> take (length mdl_data) (m R_MODEL) = mdl_data"

lemma holds_image_length: "holds_image m \<Longrightarrow> 2408 \<le> length (m R_MODEL)"
proof -
  assume "holds_image m"
  then have "length (take (length mdl_data) (m R_MODEL)) = length mdl_data" by (simp only: holds_image_def)
  then show ?thesis by (simp add: length_mdl_data)
qed

lemma image_byte: "holds_image m \<Longrightarrow> k < 2408 \<Longrightarrow> ld8 m (R_MODEL, int k) = Some (mdl_data ! k)"
proof -
  assume h: "holds_image m" and k: "k < 2408"
  have "mdl_data ! k = take (length mdl_data) (m R_MODEL) ! k" using h by (simp add: holds_image_def)
  also have "\<dots> = m R_MODEL ! k" using k by (simp add: length_mdl_data)
  finally show ?thesis using holds_image_length [OF h] k by (simp add: ld8_def)
qed

lemma image_at: "holds_image m \<Longrightarrow> numeral k < (2408 :: nat) \<Longrightarrow>
    ld8 m (R_MODEL, numeral k) = Some (mdl_data ! numeral k)"
  using image_byte [of m "numeral k"] by simp

lemma length_blocks:
  "length mdl_data_0 = 128" "length mdl_data_1 = 128" "length mdl_data_2 = 128" "length mdl_data_3 = 128"
  "length mdl_data_4 = 128" "length mdl_data_5 = 128" "length mdl_data_6 = 128" "length mdl_data_7 = 128"
  "length mdl_data_8 = 128" "length mdl_data_9 = 128" "length mdl_data_10 = 128" "length mdl_data_11 = 128"
  "length mdl_data_12 = 128" "length mdl_data_13 = 128" "length mdl_data_14 = 128" "length mdl_data_15 = 128"
  "length mdl_data_16 = 128" "length mdl_data_17 = 128" "length mdl_data_18 = 104"
  by (simp_all add: mdl_data_defs)

lemmas nth_mdl_data = mdl_data_def nth_append length_blocks

lemmas image_eval = image_at ld_s8_def ld_u8_def ld_bytes_2 ld_bytes_4 ld_u16_def ld_u32_def ld_s32_def
  ld_f32_def s32_of_nat_def padd_def nth_mdl_data

subsection \<open>The headers\<close>

lemma image_header:
  assumes "holds_image m"
  shows "mdlbin_mdl_type m (R_MODEL, 0) = Some TM_MDL_TYPE"
    "mdlbin_sub_size m (R_MODEL, 0) = Some 0" "mdlbin_buf_size m (R_MODEL, 0) = Some MDL_BUF_LEN"
    "mdlbin_layer_cnt m (R_MODEL, 0) = Some 6" "mdlbin_out_deq m (R_MODEL, 0) = Some 1"
  using assms
  by (simp_all add: mdlbin_mdl_type_def mdlbin_sub_size_def mdlbin_layer_cnt_def mdlbin_buf_size_def
      mdlbin_out_deq_def image_eval mdl_data_0_def TM_MDL_TYPE_def MDL_BUF_LEN_def)

text \<open>The six layers, as the engine reads their headers and the three convolutions.\<close>

definition net_head0 :: tml_head where
  "net_head0 = \<lparr>h_type = TML_CONV2D, h_is_out = 0, h_size = 152, h_in_oft = 0, h_out_oft = 784,
     h_in_dims = [3, 28, 28, 1], h_out_dims = [3, 13, 13, 4], h_in_s = unpack32 0x3B808081, h_in_zp = -128,
     h_out_s = unpack32 0x3C84E931, h_out_zp = -128\<rparr>"

lemma net_head0_read: "holds_image m \<Longrightarrow> ld_head m (R_MODEL, 64) = Some net_head0"
  by (simp add: ld_head_def ld_dims_def image_eval mdl_data_0_def wrap_s32_def tml_type_defs net_head0_def)

definition net_head1 :: tml_head where
  "net_head1 = \<lparr>h_type = TML_CONV2D, h_is_out = 0, h_size = 432, h_in_oft = 784, h_out_oft = 0,
     h_in_dims = [3, 13, 13, 4], h_out_dims = [3, 6, 6, 8], h_in_s = unpack32 0x3C84E931, h_in_zp = -128,
     h_out_s = unpack32 0x3C842AA0, h_out_zp = -128\<rparr>"

lemma net_head1_read: "holds_image m \<Longrightarrow> ld_head m (R_MODEL, 216) = Some net_head1"
  by (simp add: ld_head_def ld_dims_def image_eval mdl_data_1_def mdl_data_2_def wrap_s32_def tml_type_defs net_head1_def)

definition net_head2 :: tml_head where
  "net_head2 = \<lparr>h_type = TML_CONV2D, h_is_out = 0, h_size = 1360, h_in_oft = 0, h_out_oft = 1400,
     h_in_dims = [3, 6, 6, 8], h_out_dims = [3, 2, 2, 16], h_in_s = unpack32 0x3C842AA0, h_in_zp = -128,
     h_out_s = unpack32 0x3D680905, h_out_zp = -128\<rparr>"

lemma net_head2_read: "holds_image m \<Longrightarrow> ld_head m (R_MODEL, 648) = Some net_head2"
  by (simp add: ld_head_def ld_dims_def image_eval mdl_data_5_def wrap_s32_def tml_type_defs net_head2_def)

definition net_head3 :: tml_head where
  "net_head3 = \<lparr>h_type = TML_GAP, h_is_out = 0, h_size = 48, h_in_oft = 1400, h_out_oft = 0,
     h_in_dims = [3, 2, 2, 16], h_out_dims = [1, 1, 1, 16], h_in_s = unpack32 0x3D680905, h_in_zp = -128,
     h_out_s = unpack32 0x3CB71A21, h_out_zp = -128\<rparr>"

lemma net_head3_read: "holds_image m \<Longrightarrow> ld_head m (R_MODEL, 2008) = Some net_head3"
  by (simp add: ld_head_def ld_dims_def image_eval mdl_data_15_def mdl_data_16_def wrap_s32_def tml_type_defs net_head3_def)

definition net_head4 :: tml_head where
  "net_head4 = \<lparr>h_type = TML_FC, h_is_out = 0, h_size = 304, h_in_oft = 0, h_out_oft = 1448,
     h_in_dims = [1, 1, 1, 16], h_out_dims = [1, 1, 1, 10], h_in_s = unpack32 0x3CB71A21, h_in_zp = -128,
     h_out_s = unpack32 0x3E1B06FD, h_out_zp = 42\<rparr>"

lemma net_head4_read: "holds_image m \<Longrightarrow> ld_head m (R_MODEL, 2056) = Some net_head4"
  by (simp add: ld_head_def ld_dims_def image_eval mdl_data_16_def wrap_s32_def tml_type_defs net_head4_def)

definition net_head5 :: tml_head where
  "net_head5 = \<lparr>h_type = TML_SOFTMAX, h_is_out = 1, h_size = 48, h_in_oft = 1448, h_out_oft = 0,
     h_in_dims = [1, 1, 1, 10], h_out_dims = [1, 1, 1, 10], h_in_s = unpack32 0x3E1B06FD, h_in_zp = 42,
     h_out_s = unpack32 0x3B800000, h_out_zp = -128\<rparr>"

lemma net_head5_read: "holds_image m \<Longrightarrow> ld_head m (R_MODEL, 2360) = Some net_head5"
  by (simp add: ld_head_def ld_dims_def image_eval mdl_data_18_def wrap_s32_def tml_type_defs net_head5_def)

definition net_conv0 :: tml_conv2d_dw where
  "net_conv0 = \<lparr>cv_kernel_w = 3, cv_kernel_h = 3, cv_stride_w = 2, cv_stride_h = 2, cv_dilation_w = 1,
     cv_dilation_h = 1, cv_act = 1, cv_pad = [0, 0, 0, 0], cv_depth_mul = 0, cv_ws_oft = 80, cv_w_oft = 96, cv_b_oft = 136\<rparr>"

lemma net_conv0_read: "holds_image m \<Longrightarrow> ld_conv m (R_MODEL, 64) = Some net_conv0"
  by (simp add: ld_conv_def image_eval mdl_data_0_def mdl_data_1_def net_conv0_def)

definition net_conv1 :: tml_conv2d_dw where
  "net_conv1 = \<lparr>cv_kernel_w = 3, cv_kernel_h = 3, cv_stride_w = 2, cv_stride_h = 2, cv_dilation_w = 1,
     cv_dilation_h = 1, cv_act = 1, cv_pad = [0, 0, 0, 0], cv_depth_mul = 0, cv_ws_oft = 80, cv_w_oft = 112, cv_b_oft = 400\<rparr>"

lemma net_conv1_read: "holds_image m \<Longrightarrow> ld_conv m (R_MODEL, 216) = Some net_conv1"
  by (simp add: ld_conv_def image_eval mdl_data_2_def net_conv1_def)

definition net_conv2 :: tml_conv2d_dw where
  "net_conv2 = \<lparr>cv_kernel_w = 3, cv_kernel_h = 3, cv_stride_w = 2, cv_stride_h = 2, cv_dilation_w = 1,
     cv_dilation_h = 1, cv_act = 1, cv_pad = [0, 0, 0, 0], cv_depth_mul = 0, cv_ws_oft = 80, cv_w_oft = 144, cv_b_oft = 1296\<rparr>"

lemma net_conv2_read: "holds_image m \<Longrightarrow> ld_conv m (R_MODEL, 648) = Some net_conv2"
  by (simp add: ld_conv_def image_eval mdl_data_5_def net_conv2_def)


definition net_heads :: "tml_head list" where
  "net_heads = [net_head0, net_head1, net_head2, net_head3, net_head4, net_head5]"

lemma net_sizes: "h_size net_head0 = 152" "h_size net_head1 = 432" "h_size net_head2 = 1360"
  "h_size net_head3 = 48" "h_size net_head4 = 304"
  by (simp_all add: net_head0_def net_head1_def net_head2_def net_head3_def net_head4_def)

lemmas net_head_read = net_head0_read net_head1_read net_head2_read net_head3_read net_head4_read net_head5_read

lemma net_heads_read: "holds_image m \<Longrightarrow> layer_heads m (R_MODEL, 64) 6 = Some net_heads"
proof -
  have six: "6 = Suc (Suc (Suc (Suc (Suc (Suc 0)))))" by simp
  assume "holds_image m"
  then show ?thesis
    unfolding six by (simp add: net_head_read net_sizes net_heads_def padd_def)
qed

subsection \<open>Loading the shipped package\<close>

lemma image_magic: "holds_image m \<Longrightarrow> mdlbin_magic m (R_MODEL, 0) = Some TM_MDL_MAGIC"
proof -
  assume h: "holds_image m"
  have "le_nat (take 4 mdl_data) = TM_MDL_MAGIC" by (simp add: mdl_data_def mdl_data_0_def TM_MDL_MAGIC_def)
  then show ?thesis
    using ld_u32_prefix [of "length mdl_data" m mdl_data] h
    by (simp add: mdlbin_magic_def holds_image_def length_mdl_data)
qed

lemma image_dims_28: "holds_image m \<Longrightarrow> image_dims m (R_MODEL, 0) mat = mat\<lparr>m_dims := 3, m_h := 28, m_w := 28, m_c := 1\<rparr>"
  by (simp add: image_dims_def image_eval mdl_data_0_def)

definition image_handle :: "tm_mdl \<Rightarrow> bool" where
  "image_handle mdl \<longleftrightarrow> mdl_b mdl = Some (R_MODEL, 0) \<and> mdl_buf mdl = Some (R_MAIN, 0)"

definition net_input :: tm_mat where
  "net_input = \<lparr>m_dims = 3, m_h = 28, m_w = 28, m_c = 1, m_data = (R_MAIN, 0)\<rparr>"

text \<open>The PSA implementation decrypts the shipped ciphertext to the padded plain image.\<close>

definition decrypts_package :: "psa_env \<Rightarrow> bool" where
  "decrypts_package env \<longleftrightarrow> output_fits env \<and> crypto_succeeds env \<and>
     decrypts_to env package_iv package_ciphertext (pkcs7_pad mdl_data)"

lemma shipped_load:
  assumes ok: "svc_ok st" and env: "decrypts_package env"
  shows "\<exists>st'. load_model env encrypted_mdl_data_data st = Some (PSA_SUCCESS, st') \<and> svc_ok st' \<and>
    g_model_loaded st' \<and> holds_image (svc_mem st') \<and> image_handle (g_mdl st') \<and> g_in st' = net_input"
proof -
  let ?p = encrypted_mdl_data_data
  have obj: "model_object (svc_mem st)" using ok by (simp add: svc_ok_def svc_sizes_def model_object_def)
  have ct: "take (length ?p - ENCRYPTED_HEADER_CBC_SIZE) (drop ENCRYPTED_HEADER_CBC_SIZE ?p) = package_ciphertext"
    by (simp add: package_ciphertext_def length_package encrypted_mdl_data_size_def ENCRYPTED_HEADER_CBC_SIZE_def)
  have magic: "4 \<le> length mdl_data \<longrightarrow> le_nat (take 4 mdl_data) = 0x5849414D"
    by (simp add: mdl_data_def mdl_data_0_def)
  obtain d where d: "decrypt_model env (Some ?p) (length ?p) (g_dec st) = Some (PSA_SUCCESS, d)"
    and img: "holds_image (d_mem d)"
    using decrypt_accepts [OF _ obj le_refl package_accepted package_header, of env mdl_data]
      env magic by (auto simp: decrypts_package_def ct holds_image_def)
  have "svc_sizes (d_mem d)" using ok keeps_sizes [OF decrypt_keeps [OF d]] by (simp add: svc_ok_def)
  then have "in_object (d_mem d) (R_MODEL, 0) 64"
    by (simp add: in_object_def svc_sizes_def TFM_TINYMAIX_MAX_MODEL_SIZE_def)
  note ld = load_outcomes [OF this, of "g_mdl st" "(R_MAIN, 0)" True "g_in st"]
  have "length ?p \<le> TFM_TINYMAIX_MAX_MODEL_SIZE" by (simp add: length_package TFM_TINYMAIX_MAX_MODEL_SIZE_def)
  then have "\<exists>st'. load_model env ?p st = Some (PSA_SUCCESS, st') \<and> g_model_loaded st' \<and> holds_image (svc_mem st') \<and>
      image_handle (g_mdl st') \<and> g_in st' = net_input"
    unfolding load_model_def
    by (simp add: d Let_def ld image_magic [OF img] image_header [OF img] img image_dims_28 [OF img] loaded_mdl_def
        image_handle_def net_input_def)
  then show ?thesis using load_model_ok [OF ok] by blast
qed

end
