(* ===== verification/Shipped_Net.thy ===== *)
theory Shipped_Net
  imports Shipped_Model
begin

section \<open>The convolutions of the shipped network\<close>

text \<open>
  For a memory that holds the shipped image, with the objects of the partition and any
  contents of the main buffer, the three convolution layers meet every precondition of
  their correctness theorem: the scales are positive and fit, no accumulator, product or
  requantised value overflows, and all operands lie inside their objects, apart from the
  output. The scales and biases are evaluated channel by channel.
\<close>

lemma upt_4: "[0..<4] = [0, 1, 2, 3]"
  by code_simp

lemma all_less_4: "(\<forall>c<(4::nat). P c) \<longleftrightarrow> (\<forall>c\<in>set [0, 1, 2, 3]. P c)"
  unfolding upt_4 [symmetric] set_upt by auto

lemma upt_8: "[0..<8] = [0, 1, 2, 3, 4, 5, 6, 7]"
  by code_simp

lemma all_less_8: "(\<forall>c<(8::nat). P c) \<longleftrightarrow> (\<forall>c\<in>set [0, 1, 2, 3, 4, 5, 6, 7]. P c)"
  unfolding upt_8 [symmetric] set_upt by auto

lemma upt_16: "[0..<16] = [0, 1, 2, 3, 4, 5, 6, 7, 8, 9, 10, 11, 12, 13, 14, 15]"
  by code_simp

lemma all_less_16: "(\<forall>c<(16::nat). P c) \<longleftrightarrow> (\<forall>c\<in>set [0, 1, 2, 3, 4, 5, 6, 7, 8, 9, 10, 11, 12, 13, 14, 15]. P c)"
  unfolding upt_16 [symmetric] set_upt by auto

subsection \<open>Layer 0\<close>

definition net_ca0 :: conv_args where
  "net_ca0 = conv_args_of net_input
     \<lparr>m_dims = 3, m_h = 13, m_w = 13, m_c = 4, m_data = (R_MAIN, 784)\<rparr> (R_MODEL, 64) net_head0 net_conv0"

lemma net_ca0_sel [simp]:
  "a_in net_ca0 = \<lparr>m_dims = 3, m_h = 28, m_w = 28, m_c = 1, m_data = (R_MAIN, 0)\<rparr>"
  "a_out net_ca0 = \<lparr>m_dims = 3, m_h = 13, m_w = 13, m_c = 4, m_data = (R_MAIN, 784)\<rparr>"
  "a_w net_ca0 = (R_MODEL, 160)" "a_b net_ca0 = (R_MODEL, 200)" "a_ws net_ca0 = (R_MODEL, 144)"
  "a_kw net_ca0 = 3" "a_kh net_ca0 = 3" "a_sx net_ca0 = 2" "a_sy net_ca0 = 2" "a_dx net_ca0 = 1" "a_dy net_ca0 = 1"
  "a_act net_ca0 = 1" "a_pad_top net_ca0 = 0" "a_pad_bottom net_ca0 = 0" "a_pad_left net_ca0 = 0"
  "a_pad_right net_ca0 = 0" "a_dmul net_ca0 = 0" "a_in_s net_ca0 = unpack32 0x3B808081"
  "a_in_zp net_ca0 = -128" "a_out_s net_ca0 = unpack32 0x3C84E931" "a_out_zp net_ca0 = -128"
  by (simp_all add: net_ca0_def conv_args_of_def net_input_def net_head0_def net_conv0_def padd_def s32_of_nat_def wrap_s32_def)

lemma net_sizes0 [simp]: "conv_maxk net_ca0 = 9" "conv_cho net_ca0 = 4" "conv_chi net_ca0 = 1"
  "conv_dot_len net_ca0 = 9" "conv_windows net_ca0 = 1" "mat_size (a_in net_ca0) = 784" "mat_size (a_out net_ca0) = 676"
  by (simp_all add: conv_maxk_def conv_cho_def conv_chi_def conv_dot_len_def conv_windows_def mat_size_def)

lemma net_outscale0: "conv_outscale (unpack32 0x3C84E931) = Some 15778"
  by (simp add: conv_outscale_def fp_eval c_int TM_FASTSCALE_SHIFT_def cong: let_weak_cong)

lemma net_ws0:
  assumes "holds_image m"
  shows "ld_f32 m (R_MODEL, 144) = Some (unpack32 0x3C4A777D)"
    "ld_f32 m (R_MODEL, 148) = Some (unpack32 0x3C87AD85)"
    "ld_f32 m (R_MODEL, 152) = Some (unpack32 0x3BC59226)"
    "ld_f32 m (R_MODEL, 156) = Some (unpack32 0x3C48C9B9)"
  using assms by (simp_all add: image_eval mdl_data_1_def)

lemma net_scale0:
  "fp_to_s32 (f64_div (f64_div (FNum False 1 0) (unpack32 0x3C4A777D)) (unpack32 0x3B808081)) = Some 20635"
  "fp_to_s32 (f64_div (f64_div (FNum False 1 0) (unpack32 0x3C87AD85)) (unpack32 0x3B808081)) = Some 15396"
  "fp_to_s32 (f64_div (f64_div (FNum False 1 0) (unpack32 0x3BC59226)) (unpack32 0x3B808081)) = Some 42292"
  "fp_to_s32 (f64_div (f64_div (FNum False 1 0) (unpack32 0x3C48C9B9)) (unpack32 0x3B808081)) = Some 20807"
  by (simp_all add: fp_eval cong: let_weak_cong)

definition net_scales0 :: "int list" where
  "net_scales0 = [20635, 15396, 42292, 20807]"

lemma net_sumscale0: "holds_image m \<Longrightarrow> conv_sumscale m (R_MODEL, 144) (unpack32 0x3B808081) 4 = Some net_scales0"
  by (simp add: conv_sumscale_def conv_sumscale_at_def TM_MAX_CSIZE_def upt_4 padd_def net_ws0 net_scale0 net_scales0_def del: One_nat_def)

lemma net_bias0:
  assumes "holds_image m"
  shows "conv_bias net_ca0 m 0 = -1132"
    "conv_bias net_ca0 m 1 = -876"
    "conv_bias net_ca0 m 2 = 82324"
    "conv_bias net_ca0 m 3 = -1365"
  using assms by (simp_all add: conv_bias_def image_eval mdl_data_1_def wrap_s32_def)

lemma net_arith0: "holds_image m \<Longrightarrow> conv_arith net_ca0 m net_scales0 15778"
  by (simp add: conv_arith_def all_less_4 net_bias0 net_scales0_def requant_safe_def del: One_nat_def)

lemma net_operands0: "svc_sizes m \<Longrightarrow> conv_operands net_ca0 m"
  by (simp add: conv_operands_def operand_ok_def in_object_def apart_def svc_sizes_def mat_size_def
      MDL_BUF_LEN_def TFM_TINYMAIX_MAX_MODEL_SIZE_def)

lemma net_window0: "svc_sizes m \<Longrightarrow> window_wf net_ca0 m"
  by (simp add: window_wf_def in_object_def svc_sizes_def mat_size_def src_ch_def MDL_BUF_LEN_def TM_MAX_KCSIZE_def)

lemma net_ready0: "holds_image m \<Longrightarrow> svc_sizes m \<Longrightarrow> conv_ready net_ca0 m net_scales0 15778"
  by (simp add: conv_ready_def net_outscale0 net_sumscale0 net_operands0 net_arith0 net_window0 tm_act_defs tm_size_defs)

subsection \<open>Layer 1\<close>

definition net_ca1 :: conv_args where
  "net_ca1 = conv_args_of \<lparr>m_dims = 3, m_h = 13, m_w = 13, m_c = 4, m_data = (R_MAIN, 784)\<rparr>
     \<lparr>m_dims = 3, m_h = 6, m_w = 6, m_c = 8, m_data = (R_MAIN, 0)\<rparr> (R_MODEL, 216) net_head1 net_conv1"

lemma net_ca1_sel [simp]:
  "a_in net_ca1 = \<lparr>m_dims = 3, m_h = 13, m_w = 13, m_c = 4, m_data = (R_MAIN, 784)\<rparr>"
  "a_out net_ca1 = \<lparr>m_dims = 3, m_h = 6, m_w = 6, m_c = 8, m_data = (R_MAIN, 0)\<rparr>"
  "a_w net_ca1 = (R_MODEL, 328)" "a_b net_ca1 = (R_MODEL, 616)" "a_ws net_ca1 = (R_MODEL, 296)"
  "a_kw net_ca1 = 3" "a_kh net_ca1 = 3" "a_sx net_ca1 = 2" "a_sy net_ca1 = 2" "a_dx net_ca1 = 1" "a_dy net_ca1 = 1"
  "a_act net_ca1 = 1" "a_pad_top net_ca1 = 0" "a_pad_bottom net_ca1 = 0" "a_pad_left net_ca1 = 0"
  "a_pad_right net_ca1 = 0" "a_dmul net_ca1 = 0" "a_in_s net_ca1 = unpack32 0x3C84E931"
  "a_in_zp net_ca1 = -128" "a_out_s net_ca1 = unpack32 0x3C842AA0" "a_out_zp net_ca1 = -128"
  by (simp_all add: net_ca1_def conv_args_of_def net_input_def net_head1_def net_conv1_def padd_def s32_of_nat_def wrap_s32_def)

lemma net_sizes1 [simp]: "conv_maxk net_ca1 = 9" "conv_cho net_ca1 = 8" "conv_chi net_ca1 = 4"
  "conv_dot_len net_ca1 = 36" "conv_windows net_ca1 = 4" "mat_size (a_in net_ca1) = 676" "mat_size (a_out net_ca1) = 288"
  by (simp_all add: conv_maxk_def conv_cho_def conv_chi_def conv_dot_len_def conv_windows_def mat_size_def)

lemma net_outscale1: "conv_outscale (unpack32 0x3C842AA0) = Some 15867"
  by (simp add: conv_outscale_def fp_eval c_int TM_FASTSCALE_SHIFT_def cong: let_weak_cong)

lemma net_ws1:
  assumes "holds_image m"
  shows "ld_f32 m (R_MODEL, 296) = Some (unpack32 0x3B8AE0B6)"
    "ld_f32 m (R_MODEL, 300) = Some (unpack32 0x3B36A8E0)"
    "ld_f32 m (R_MODEL, 304) = Some (unpack32 0x3BC93D50)"
    "ld_f32 m (R_MODEL, 308) = Some (unpack32 0x3B914F3E)"
    "ld_f32 m (R_MODEL, 312) = Some (unpack32 0x3B579E88)"
    "ld_f32 m (R_MODEL, 316) = Some (unpack32 0x3B6CA822)"
    "ld_f32 m (R_MODEL, 320) = Some (unpack32 0x3B9F251F)"
    "ld_f32 m (R_MODEL, 324) = Some (unpack32 0x3B7140F2)"
  using assms by (simp_all add: image_eval mdl_data_2_def)

lemma net_scale1:
  "fp_to_s32 (f64_div (f64_div (FNum False 1 0) (unpack32 0x3B8AE0B6)) (unpack32 0x3C84E931)) = Some 14542"
  "fp_to_s32 (f64_div (f64_div (FNum False 1 0) (unpack32 0x3B36A8E0)) (unpack32 0x3C84E931)) = Some 22113"
  "fp_to_s32 (f64_div (f64_div (FNum False 1 0) (unpack32 0x3BC93D50)) (unpack32 0x3C84E931)) = Some 10036"
  "fp_to_s32 (f64_div (f64_div (FNum False 1 0) (unpack32 0x3B914F3E)) (unpack32 0x3C84E931)) = Some 13899"
  "fp_to_s32 (f64_div (f64_div (FNum False 1 0) (unpack32 0x3B579E88)) (unpack32 0x3C84E931)) = Some 18733"
  "fp_to_s32 (f64_div (f64_div (FNum False 1 0) (unpack32 0x3B6CA822)) (unpack32 0x3C84E931)) = Some 17068"
  "fp_to_s32 (f64_div (f64_div (FNum False 1 0) (unpack32 0x3B9F251F)) (unpack32 0x3C84E931)) = Some 12690"
  "fp_to_s32 (f64_div (f64_div (FNum False 1 0) (unpack32 0x3B7140F2)) (unpack32 0x3C84E931)) = Some 16743"
  by (simp_all add: fp_eval cong: let_weak_cong)

definition net_scales1 :: "int list" where
  "net_scales1 = [14542, 22113, 10036, 13899, 18733, 17068, 12690, 16743]"

lemma net_sumscale1: "holds_image m \<Longrightarrow> conv_sumscale m (R_MODEL, 296) (unpack32 0x3C84E931) 8 = Some net_scales1"
  by (simp add: conv_sumscale_def conv_sumscale_at_def TM_MAX_CSIZE_def upt_8 padd_def net_ws1 net_scale1 net_scales1_def del: One_nat_def)

lemma net_bias1:
  assumes "holds_image m"
  shows "conv_bias net_ca1 m 0 = -57564"
    "conv_bias net_ca1 m 1 = 53726"
    "conv_bias net_ca1 m 2 = -79785"
    "conv_bias net_ca1 m 3 = 52307"
    "conv_bias net_ca1 m 4 = -35085"
    "conv_bias net_ca1 m 5 = -871"
    "conv_bias net_ca1 m 6 = 4768"
    "conv_bias net_ca1 m 7 = -58530"
  using assms by (simp_all add: conv_bias_def image_eval mdl_data_4_def mdl_data_5_def wrap_s32_def)

lemma net_arith1: "holds_image m \<Longrightarrow> conv_arith net_ca1 m net_scales1 15867"
  by (simp add: conv_arith_def all_less_8 net_bias1 net_scales1_def requant_safe_def del: One_nat_def)

lemma net_operands1: "svc_sizes m \<Longrightarrow> conv_operands net_ca1 m"
  by (simp add: conv_operands_def operand_ok_def in_object_def apart_def svc_sizes_def mat_size_def
      MDL_BUF_LEN_def TFM_TINYMAIX_MAX_MODEL_SIZE_def)

lemma net_window1: "svc_sizes m \<Longrightarrow> window_wf net_ca1 m"
  by (simp add: window_wf_def in_object_def svc_sizes_def mat_size_def src_ch_def MDL_BUF_LEN_def TM_MAX_KCSIZE_def)

lemma net_ready1: "holds_image m \<Longrightarrow> svc_sizes m \<Longrightarrow> conv_ready net_ca1 m net_scales1 15867"
  by (simp add: conv_ready_def net_outscale1 net_sumscale1 net_operands1 net_arith1 net_window1 tm_act_defs tm_size_defs)

subsection \<open>Layer 2\<close>

definition net_ca2 :: conv_args where
  "net_ca2 = conv_args_of \<lparr>m_dims = 3, m_h = 6, m_w = 6, m_c = 8, m_data = (R_MAIN, 0)\<rparr>
     \<lparr>m_dims = 3, m_h = 2, m_w = 2, m_c = 16, m_data = (R_MAIN, 1400)\<rparr> (R_MODEL, 648) net_head2 net_conv2"

lemma net_ca2_sel [simp]:
  "a_in net_ca2 = \<lparr>m_dims = 3, m_h = 6, m_w = 6, m_c = 8, m_data = (R_MAIN, 0)\<rparr>"
  "a_out net_ca2 = \<lparr>m_dims = 3, m_h = 2, m_w = 2, m_c = 16, m_data = (R_MAIN, 1400)\<rparr>"
  "a_w net_ca2 = (R_MODEL, 792)" "a_b net_ca2 = (R_MODEL, 1944)" "a_ws net_ca2 = (R_MODEL, 728)"
  "a_kw net_ca2 = 3" "a_kh net_ca2 = 3" "a_sx net_ca2 = 2" "a_sy net_ca2 = 2" "a_dx net_ca2 = 1" "a_dy net_ca2 = 1"
  "a_act net_ca2 = 1" "a_pad_top net_ca2 = 0" "a_pad_bottom net_ca2 = 0" "a_pad_left net_ca2 = 0"
  "a_pad_right net_ca2 = 0" "a_dmul net_ca2 = 0" "a_in_s net_ca2 = unpack32 0x3C842AA0"
  "a_in_zp net_ca2 = -128" "a_out_s net_ca2 = unpack32 0x3D680905" "a_out_zp net_ca2 = -128"
  by (simp_all add: net_ca2_def conv_args_of_def net_input_def net_head2_def net_conv2_def padd_def s32_of_nat_def wrap_s32_def)

lemma net_sizes2 [simp]: "conv_maxk net_ca2 = 9" "conv_cho net_ca2 = 16" "conv_chi net_ca2 = 8"
  "conv_dot_len net_ca2 = 72" "conv_windows net_ca2 = 8" "mat_size (a_in net_ca2) = 288" "mat_size (a_out net_ca2) = 64"
  by (simp_all add: conv_maxk_def conv_cho_def conv_chi_def conv_dot_len_def conv_windows_def mat_size_def)

lemma net_outscale2: "conv_outscale (unpack32 0x3D680905) = Some 4519"
  by (simp add: conv_outscale_def fp_eval c_int TM_FASTSCALE_SHIFT_def cong: let_weak_cong)

lemma net_ws2:
  assumes "holds_image m"
  shows "ld_f32 m (R_MODEL, 728) = Some (unpack32 0x3CAD93E3)"
    "ld_f32 m (R_MODEL, 732) = Some (unpack32 0x3C689661)"
    "ld_f32 m (R_MODEL, 736) = Some (unpack32 0x3C96D971)"
    "ld_f32 m (R_MODEL, 740) = Some (unpack32 0x3C4FA1CA)"
    "ld_f32 m (R_MODEL, 744) = Some (unpack32 0x3C6D9B7B)"
    "ld_f32 m (R_MODEL, 748) = Some (unpack32 0x3CA49435)"
    "ld_f32 m (R_MODEL, 752) = Some (unpack32 0x3CA1F4C1)"
    "ld_f32 m (R_MODEL, 756) = Some (unpack32 0x3C83E636)"
    "ld_f32 m (R_MODEL, 760) = Some (unpack32 0x3C45D493)"
    "ld_f32 m (R_MODEL, 764) = Some (unpack32 0x3C5F8216)"
    "ld_f32 m (R_MODEL, 768) = Some (unpack32 0x3C56F839)"
    "ld_f32 m (R_MODEL, 772) = Some (unpack32 0x3CAAF08B)"
    "ld_f32 m (R_MODEL, 776) = Some (unpack32 0x3C663968)"
    "ld_f32 m (R_MODEL, 780) = Some (unpack32 0x3CA31E58)"
    "ld_f32 m (R_MODEL, 784) = Some (unpack32 0x3C861BD8)"
    "ld_f32 m (R_MODEL, 788) = Some (unpack32 0x3C9AAD38)"
  using assms by (simp_all add: image_eval mdl_data_5_def mdl_data_6_def)

lemma net_scale2:
  "fp_to_s32 (f64_div (f64_div (FNum False 1 0) (unpack32 0x3CAD93E3)) (unpack32 0x3C842AA0)) = Some 2925"
  "fp_to_s32 (f64_div (f64_div (FNum False 1 0) (unpack32 0x3C689661)) (unpack32 0x3C842AA0)) = Some 4366"
  "fp_to_s32 (f64_div (f64_div (FNum False 1 0) (unpack32 0x3C96D971)) (unpack32 0x3C842AA0)) = Some 3366"
  "fp_to_s32 (f64_div (f64_div (FNum False 1 0) (unpack32 0x3C4FA1CA)) (unpack32 0x3C842AA0)) = Some 4890"
  "fp_to_s32 (f64_div (f64_div (FNum False 1 0) (unpack32 0x3C6D9B7B)) (unpack32 0x3C842AA0)) = Some 4273"
  "fp_to_s32 (f64_div (f64_div (FNum False 1 0) (unpack32 0x3CA49435)) (unpack32 0x3C842AA0)) = Some 3085"
  "fp_to_s32 (f64_div (f64_div (FNum False 1 0) (unpack32 0x3CA1F4C1)) (unpack32 0x3C842AA0)) = Some 3135"
  "fp_to_s32 (f64_div (f64_div (FNum False 1 0) (unpack32 0x3C83E636)) (unpack32 0x3C842AA0)) = Some 3849"
  "fp_to_s32 (f64_div (f64_div (FNum False 1 0) (unpack32 0x3C45D493)) (unpack32 0x3C842AA0)) = Some 5133"
  "fp_to_s32 (f64_div (f64_div (FNum False 1 0) (unpack32 0x3C5F8216)) (unpack32 0x3C842AA0)) = Some 4543"
  "fp_to_s32 (f64_div (f64_div (FNum False 1 0) (unpack32 0x3C56F839)) (unpack32 0x3C842AA0)) = Some 4724"
  "fp_to_s32 (f64_div (f64_div (FNum False 1 0) (unpack32 0x3CAAF08B)) (unpack32 0x3C842AA0)) = Some 2970"
  "fp_to_s32 (f64_div (f64_div (FNum False 1 0) (unpack32 0x3C663968)) (unpack32 0x3C842AA0)) = Some 4411"
  "fp_to_s32 (f64_div (f64_div (FNum False 1 0) (unpack32 0x3CA31E58)) (unpack32 0x3C842AA0)) = Some 3112"
  "fp_to_s32 (f64_div (f64_div (FNum False 1 0) (unpack32 0x3C861BD8)) (unpack32 0x3C842AA0)) = Some 3786"
  "fp_to_s32 (f64_div (f64_div (FNum False 1 0) (unpack32 0x3C9AAD38)) (unpack32 0x3C842AA0)) = Some 3282"
  by (simp_all add: fp_eval cong: let_weak_cong)

definition net_scales2 :: "int list" where
  "net_scales2 = [2925, 4366, 3366, 4890, 4273, 3085, 3135, 3849, 5133, 4543, 4724, 2970, 4411, 3112, 3786, 3282]"

lemma net_sumscale2: "holds_image m \<Longrightarrow> conv_sumscale m (R_MODEL, 728) (unpack32 0x3C842AA0) 16 = Some net_scales2"
  by (simp add: conv_sumscale_def conv_sumscale_at_def TM_MAX_CSIZE_def upt_16 padd_def net_ws2 net_scale2 net_scales2_def del: One_nat_def)

lemma net_bias2:
  assumes "holds_image m"
  shows "conv_bias net_ca2 m 0 = 22760"
    "conv_bias net_ca2 m 1 = 10040"
    "conv_bias net_ca2 m 2 = -7668"
    "conv_bias net_ca2 m 3 = -38180"
    "conv_bias net_ca2 m 4 = -96898"
    "conv_bias net_ca2 m 5 = 6006"
    "conv_bias net_ca2 m 6 = -42261"
    "conv_bias net_ca2 m 7 = -13498"
    "conv_bias net_ca2 m 8 = 32950"
    "conv_bias net_ca2 m 9 = -20687"
    "conv_bias net_ca2 m 10 = 14043"
    "conv_bias net_ca2 m 11 = -4106"
    "conv_bias net_ca2 m 12 = -32244"
    "conv_bias net_ca2 m 13 = -7550"
    "conv_bias net_ca2 m 14 = -60843"
    "conv_bias net_ca2 m 15 = 49137"
  using assms by (simp_all add: conv_bias_def image_eval mdl_data_15_def wrap_s32_def)

lemma net_arith2: "holds_image m \<Longrightarrow> conv_arith net_ca2 m net_scales2 4519"
  by (simp add: conv_arith_def all_less_16 net_bias2 net_scales2_def requant_safe_def del: One_nat_def)

lemma net_operands2: "svc_sizes m \<Longrightarrow> conv_operands net_ca2 m"
  by (simp add: conv_operands_def operand_ok_def in_object_def apart_def svc_sizes_def mat_size_def
      MDL_BUF_LEN_def TFM_TINYMAIX_MAX_MODEL_SIZE_def)

lemma net_window2: "svc_sizes m \<Longrightarrow> window_wf net_ca2 m"
  by (simp add: window_wf_def in_object_def svc_sizes_def mat_size_def src_ch_def MDL_BUF_LEN_def TM_MAX_KCSIZE_def)

lemma net_ready2: "holds_image m \<Longrightarrow> svc_sizes m \<Longrightarrow> conv_ready net_ca2 m net_scales2 4519"
  by (simp add: conv_ready_def net_outscale2 net_sumscale2 net_operands2 net_arith2 net_window2 tm_act_defs tm_size_defs)

subsection \<open>The three layers in a run\<close>

text \<open>One convolution done: its output tensor is computed, everything but it and the scratch array is kept.\<close>

definition conv_done :: "conv_args \<Rightarrow> int list \<Rightarrow> int \<Rightarrow> mem \<Rightarrow> mem \<Rightarrow> bool" where
  "conv_done ca scales outscale m m' \<longleftrightarrow>
     cm.agree_off (out_cells ca \<union> sbuf_cells) m m' \<and>
     (\<forall>y<m_h (a_out ca). \<forall>x<m_w (a_out ca). \<forall>c<m_c (a_out ca).
       ld8 m' (tm_matp (a_out ca) (int y) (int x) (int c)) = Some (conv_byte ca m scales outscale y x c))"

text \<open>The state of a run of the network before its layer \<open>k\<close>, at offset \<open>off\<close> of the image.\<close>

definition net_at :: "mem \<Rightarrow> tm_mdl \<Rightarrow> tm_mat list \<Rightarrow> tm_mat \<Rightarrow> nat \<Rightarrow> int \<Rightarrow> run_state" where
  "net_at m mdl outs inp k off =
     \<lparr>r_mem = m, r_mdl = mdl\<lparr>mdl_layer_body := Some (R_MODEL, off), mdl_layer_i := k\<rparr>,
      r_in = inp, r_outs = outs, r_out_idx = 0\<rparr>"

definition head_mat :: "nat list \<Rightarrow> nat \<Rightarrow> tm_mat" where
  "head_mat ds oft = \<lparr>m_dims = ds ! 0, m_h = ds ! 1, m_w = ds ! 2, m_c = ds ! 3, m_data = (R_MAIN, int oft)\<rparr>"

lemma set_dims_all: "(set_dims mat ds)\<lparr>m_data := (R_MAIN, int oft)\<rparr> = head_mat ds oft"
  by (cases mat) (simp add: set_dims_def head_mat_def)

lemma net_step:
  assumes mdl: "image_handle mdl"
    and h: "ld_head m (R_MODEL, off) = Some h" "h_type h = TML_CONV2D" "h_is_out h = 0"
    and l: "ld_conv m (R_MODEL, off) = Some l"
    and ca: "conv_args_of (if k = 0 then inp else head_mat (h_in_dims h) (h_in_oft h))
               (head_mat (h_out_dims h) (h_out_oft h)) (R_MODEL, off) h l = ca"
    and rdy: "conv_ready ca m scales outscale" and off': "off + int (h_size h) = off'"
  shows "\<exists>m'. run_layer base (net_at m mdl outs inp k off) = Some (TM_OK, net_at m' mdl outs (a_in ca) (Suc k) off') \<and>
    conv_done ca scales outscale m m'"
proof -
  obtain m' where m': "tml_conv2d_dwconv2d ca m = Some (TM_OK, m')" "conv_done ca scales outscale m m'"
    using conv_layer_correct [OF rdy] by (auto simp: conv_done_def)
  have ain: "a_in ca = (if k = 0 then inp else head_mat (h_in_dims h) (h_in_oft h))"
    unfolding ca [symmetric] by (simp add: conv_args_of_def)
  have "dispatch_layer m (R_MAIN, 0) (R_MODEL, off) h (if k = 0 then inp else head_mat (h_in_dims h) (h_in_oft h))
      \<lparr>m_dims = h_out_dims h ! 0, m_h = h_out_dims h ! 1, m_w = h_out_dims h ! 2, m_c = h_out_dims h ! 3,
       m_data = (R_MAIN, int (h_out_oft h))\<rparr> = Some (TM_OK, m')"
    unfolding head_mat_def [symmetric]
    by (simp add: dispatch_layer_def h(2) l ca m'(1) split del: if_split)
  then show ?thesis
    using mdl h m'(2) off' ain
    by (auto simp: run_layer_def image_handle_def net_at_def padd_def set_dims_all Let_def
        split: if_splits)
qed

text \<open>A convolution of the network writes to the main buffer and the scratch array only.\<close>

lemma conv_done_keeps:
  assumes "conv_done ca scales os m m'" "fst (m_data (a_out ca)) = R_MAIN"
  shows "svc_sizes m' = svc_sizes m" and "holds_image m' = holds_image m" and "m' R_PIC = m R_PIC"
proof -
  have a: "cm.agree_off (out_cells ca \<union> sbuf_cells) m m'" using assms(1) by (simp add: conv_done_def)
  have len: "length (m' r) = length (m r)" for r by (rule agree_off_length [OF a])
  have same: "m' r = m r" if "r = R_MODEL \<or> r = R_PIC" for r
  proof (rule nth_equalityI)
    fix i assume i: "i < length (m' r)"
    have "(r, int i) \<notin> out_cells ca \<union> sbuf_cells"
      using that assms(2) by (auto simp: out_cells_def sbuf_cells_def in_cells)
    then have "ld8 m' (r, int i) = ld8 m (r, int i)" by (rule agree_off_ld8 [OF a])
    with i len [of r] show "m' r ! i = m r ! i" by (simp add: ld8_def)
  qed (rule len)
  have "m' R_NULL = [] \<longleftrightarrow> m R_NULL = []" using len [of R_NULL] by (metis length_0_conv)
  then show "svc_sizes m' = svc_sizes m" by (simp add: svc_sizes_def len)
  show "holds_image m' = holds_image m" "m' R_PIC = m R_PIC" using same by (simp_all add: holds_image_def)
qed

lemma run_layers_ok: "run_layer base st = Some (TM_OK, st1) \<Longrightarrow> run_layers base (Suc n) st = run_layers base n st1"
  by simp

lemma net_plain: "h_type net_head0 = TML_CONV2D" "h_is_out net_head0 = 0" "h_type net_head1 = TML_CONV2D"
  "h_is_out net_head1 = 0" "h_type net_head2 = TML_CONV2D" "h_is_out net_head2 = 0"
  by (simp_all add: net_head0_def net_head1_def net_head2_def)

lemma net_args:
  "conv_args_of (if (0::nat) = 0 then net_input else head_mat (h_in_dims net_head0) (h_in_oft net_head0))
     (head_mat (h_out_dims net_head0) (h_out_oft net_head0)) (R_MODEL, 64) net_head0 net_conv0 = net_ca0"
  "conv_args_of (if (1::nat) = 0 then a_in net_ca0 else head_mat (h_in_dims net_head1) (h_in_oft net_head1))
     (head_mat (h_out_dims net_head1) (h_out_oft net_head1)) (R_MODEL, 216) net_head1 net_conv1 = net_ca1"
  "conv_args_of (if (2::nat) = 0 then a_in net_ca1 else head_mat (h_in_dims net_head2) (h_in_oft net_head2))
     (head_mat (h_out_dims net_head2) (h_out_oft net_head2)) (R_MODEL, 648) net_head2 net_conv2 = net_ca2"
  by (simp_all add: net_ca0_def net_ca1_def net_ca2_def head_mat_def net_head0_def net_head1_def net_head2_def)

lemma shipped_convolutions:
  assumes m: "holds_image m" "svc_sizes m" and mdl: "image_handle mdl"
  shows "\<exists>m1 m2 m3. run_layers base 3 (net_at m mdl outs net_input 0 64) = Some (TM_OK, net_at m3 mdl outs (a_in net_ca2) 3 2008) \<and>
    conv_done net_ca0 net_scales0 15778 m m1 \<and> conv_done net_ca1 net_scales1 15867 m1 m2 \<and>
    conv_done net_ca2 net_scales2 4519 m2 m3"
proof -
  obtain m1 where r0: "run_layer base (net_at m mdl outs net_input 0 64) = Some (TM_OK, net_at m1 mdl outs (a_in net_ca0) 1 216)"
    and d0: "conv_done net_ca0 net_scales0 15778 m m1"
    using net_step [where base = base and outs = outs, OF mdl net_head0_read [OF m(1)] net_plain(1,2) net_conv0_read [OF m(1)]
        net_args(1) net_ready0 [OF m] refl]
    by (auto simp: net_sizes)
  have m1: "holds_image m1" "svc_sizes m1" using conv_done_keeps [OF d0] m by simp_all
  obtain m2 where r1: "run_layer base (net_at m1 mdl outs (a_in net_ca0) 1 216) = Some (TM_OK, net_at m2 mdl outs (a_in net_ca1) 2 648)"
    and d1: "conv_done net_ca1 net_scales1 15867 m1 m2"
    using net_step [where base = base and outs = outs, OF mdl net_head1_read [OF m1(1)]
        net_plain(3,4) net_conv1_read [OF m1(1)] net_args(2) net_ready1 [OF m1] refl]
    by (auto simp: net_sizes numeral_2_eq_2)
  have m2: "holds_image m2" "svc_sizes m2" using conv_done_keeps [OF d1] m1 by simp_all
  obtain m3 where r2: "run_layer base (net_at m2 mdl outs (a_in net_ca1) 2 648) = Some (TM_OK, net_at m3 mdl outs (a_in net_ca2) 3 2008)"
    and d2: "conv_done net_ca2 net_scales2 4519 m2 m3"
    using net_step [where base = base and outs = outs, OF mdl net_head2_read [OF m2(1)]
        net_plain(5,6) net_conv2_read [OF m2(1)] net_args(3) net_ready2 [OF m2] refl]
    by (auto simp: net_sizes numeral_3_eq_3)
  have "run_layers base (Suc (Suc (Suc 0))) (net_at m mdl outs net_input 0 64) = Some (TM_OK, net_at m3 mdl outs (a_in net_ca2) 3 2008)"
    by (simp only: run_layers_ok [OF r0] run_layers_ok [OF r1] run_layers_ok [OF r2] run_layers.simps(1))
  then show ?thesis using d0 d1 d2 by (auto simp: numeral_3_eq_3)
qed

end
