(* ===== verification/Conv_Eval.thy ===== *)
theory Conv_Eval
  imports Shipped_Net
begin

section \<open>Evaluating convolutions\<close>

text \<open>
  The closed form of a convolution is a sum over bytes of memory. For a kernel of 3 x 3 taps, stride
  2 and no padding, as in the shipped network, this theory computes a whole output tensor from lists of
  integers: \<open>conv_rows\<close> slides over the rows of the input and is equal to the closed form.
\<close>

subsection \<open>Integers held in memory\<close>

definition holds_ints :: "mem \<Rightarrow> ptr \<Rightarrow> int list \<Rightarrow> bool" where
  "holds_ints m p vs \<longleftrightarrow> (\<forall>i<length vs. ld8 m (padd p (int i)) = Some (to_s8 (vs ! i)))"

lemma holds_ints_nth: "holds_ints m p vs \<Longrightarrow> list_all in_s8 vs \<Longrightarrow> i < length vs \<Longrightarrow>
    sint (the (ld8 m (padd p (int i)))) = vs ! i"
  by (simp add: holds_ints_def sint_to_s8 list_all_length)

lemma length_concat_rows: "\<forall>r\<in>set rows. length r = n \<Longrightarrow> length (concat rows) = length rows * n"
  by (induction rows) auto

lemma rows_concat_nth:
  "\<forall>r\<in>set rows. length r = n \<Longrightarrow> r < length rows \<Longrightarrow> j < n \<Longrightarrow> concat rows ! (r * n + j) = rows ! r ! j"
proof (induction rows arbitrary: r)
  case (Cons a rows)
  then show ?case by (cases r) (auto simp: nth_append)
qed simp

lemma row_index: "r < k \<Longrightarrow> j < n \<Longrightarrow> r * n + j < k * (n :: nat)"
proof -
  assume "r < k" "j < n"
  then have "r * n + j < Suc r * n" "Suc r * n \<le> k * n" by (simp, metis Suc_leI mult_le_mono1)
  then show ?thesis by linarith
qed

subsection \<open>Sums in two loops\<close>

lemma sum_two_loops: "(\<Sum>i<a * b. g i) = (\<Sum>p<a. \<Sum>q<b. g (p * b + q :: nat) :: int)"
proof (induction a)
  case (Suc a)
  have "(\<Sum>i<a * b + k. g i) = (\<Sum>i<a * b. g i) + (\<Sum>q<k. g (a * b + q))" for k
    by (induction k) simp_all
  from this [of b] Suc show ?case by (simp add: add.commute)
qed simp

lemma sum_kernel_order:
  "(\<Sum>i<chi * 9. g (i div 9) (i mod 9)) = (\<Sum>ky<3. \<Sum>j<3 * (chi :: nat). g (j mod chi) (ky * 3 + j div chi) :: int)"
proof -
  have "(\<Sum>i<chi * 9. g (i div 9) (i mod 9)) = (\<Sum>ch<chi. \<Sum>k<9. g ch k)"
    unfolding sum_two_loops [of _ chi 9] by (intro sum.cong refl) simp
  also have "\<dots> = (\<Sum>ch<chi. \<Sum>ky<3. \<Sum>kx<3. g ch (ky * 3 + kx))"
  proof (rule sum.cong [OF refl])
    fix ch
    show "(\<Sum>k<9. g ch k) = (\<Sum>ky<3. \<Sum>kx<3. g ch (ky * 3 + kx))"
      using sum_two_loops [of "g ch" 3 3] by simp
  qed
  also have "\<dots> = (\<Sum>ky<3. \<Sum>kx<3. \<Sum>ch<chi. g ch (ky * 3 + kx))"
    by (subst sum.swap) (rule sum.cong [OF refl], rule sum.swap)
  also have "\<dots> = (\<Sum>ky<3. \<Sum>j<3 * chi. g (j mod chi) (ky * 3 + j div chi))"
    unfolding sum_two_loops by (intro sum.cong refl) simp
  finally show ?thesis .
qed

subsection \<open>The sliding window\<close>

fun row_dot :: "int list \<Rightarrow> int list \<Rightarrow> int" where
  "row_dot (a # as) (w # ws) = a * w + row_dot as ws"
| "row_dot _ _ = 0"

lemma row_dot_sum: "length ws \<le> length as \<Longrightarrow> row_dot as ws = (\<Sum>j<length ws. as ! j * ws ! j)"
proof (induction as ws rule: row_dot.induct)
  case (1 a as w ws)
  then show ?case by (simp add: sum.lessThan_Suc_shift del: sum.lessThan_Suc)
qed auto

text \<open>The weights of one output channel: its three kernel rows, its bias and its scale.\<close>

type_synonym channel = "(int list \<times> int list \<times> int list) \<times> int \<times> int"

definition kernel_row :: "nat \<Rightarrow> int list \<Rightarrow> nat \<Rightarrow> int list" where
  "kernel_row chi w ky = map (\<lambda>j. w ! (j mod chi * 9 + (ky * 3 + j div chi))) [0..<3 * chi]"

fun channels :: "nat \<Rightarrow> int list \<Rightarrow> int list \<Rightarrow> int list \<Rightarrow> channel list" where
  "channels chi w (b # bs) (s # ss) =
     ((kernel_row chi w 0, kernel_row chi w 1, kernel_row chi w 2), b, s) # channels chi (drop (9 * chi) w) bs ss"
| "channels chi w _ _ = []"

fun pixel :: "nat \<Rightarrow> int \<Rightarrow> int \<Rightarrow> int list \<Rightarrow> int list \<Rightarrow> int list \<Rightarrow> channel \<Rightarrow> int" where
  "pixel act os zp r0 r1 r2 ((w0, w1, w2), b, s) =
     requant_ref (row_dot r0 w0 + row_dot r1 w1 + row_dot r2 w2) b act s os zp"

fun conv_row :: "nat \<Rightarrow> int \<Rightarrow> int \<Rightarrow> channel list \<Rightarrow> nat \<Rightarrow> nat \<Rightarrow> int list \<Rightarrow> int list \<Rightarrow> int list \<Rightarrow> int list" where
  "conv_row act os zp cs step 0 r0 r1 r2 = []"
| "conv_row act os zp cs step (Suc n) r0 r1 r2 =
     map (pixel act os zp r0 r1 r2) cs @ conv_row act os zp cs step n (drop step r0) (drop step r1) (drop step r2)"

fun conv_rows :: "nat \<Rightarrow> int \<Rightarrow> int \<Rightarrow> channel list \<Rightarrow> nat \<Rightarrow> nat \<Rightarrow> int list list \<Rightarrow> int list list" where
  "conv_rows act os zp cs step n (r0 # r1 # r2 # rs) =
     conv_row act os zp cs step n r0 r1 r2 # conv_rows act os zp cs step n (r2 # rs)"
| "conv_rows act os zp cs step n _ = []"

lemma channels_nth:
  "length bs = length ss \<Longrightarrow> c < length bs \<Longrightarrow> channels chi w bs ss ! c =
     ((kernel_row chi (drop (c * (9 * chi)) w) 0, kernel_row chi (drop (c * (9 * chi)) w) 1,
       kernel_row chi (drop (c * (9 * chi)) w) 2), bs ! c, ss ! c)"
proof (induction chi w bs ss arbitrary: c rule: channels.induct)
  case (1 chi w b bs s ss)
  then show ?case by (cases c) (simp_all add: add.commute)
qed auto

lemma kernel_row_take: "ky < 3 \<Longrightarrow> kernel_row chi (take (9 * chi) w) ky = kernel_row chi w ky"
proof -
  assume ky: "ky < 3"
  have "j mod chi * 9 + (ky * 3 + j div chi) < chi * 9" if "j < 3 * chi" for j
  proof (rule row_index)
    show "j mod chi < chi" using that by (cases chi) simp_all
    have "j div chi < 3" using that by (simp add: less_mult_imp_div_less)
    then show "ky * 3 + j div chi < 9" using ky by linarith
  qed
  then show ?thesis by (simp add: kernel_row_def mult.commute)
qed

lemma channels_eval: "channels chi w (b # bs) (s # ss) =
    ((kernel_row chi (take (9 * chi) w) 0, kernel_row chi (take (9 * chi) w) 1, kernel_row chi (take (9 * chi) w) 2), b, s) #
    channels chi (drop (9 * chi) w) bs ss"
  by (simp add: kernel_row_take)

lemma length_channels: "length bs = length ss \<Longrightarrow> length (channels chi w bs ss) = length bs"
  by (induction chi w bs ss rule: channels.induct) auto

lemma length_conv_row: "length (conv_row act os zp cs step n r0 r1 r2) = n * length cs"
  by (induction n arbitrary: r0 r1 r2) simp_all

lemma conv_row_nth:
  "x < n \<Longrightarrow> c < length cs \<Longrightarrow> conv_row act os zp cs step n r0 r1 r2 ! (x * length cs + c) =
     pixel act os zp (drop (x * step) r0) (drop (x * step) r1) (drop (x * step) r2) (cs ! c)"
proof (induction n arbitrary: x r0 r1 r2)
  case (Suc n)
  then show ?case
    by (cases x) (simp_all add: nth_append add.commute)
qed simp

lemma length_conv_rows: "length (conv_rows act os zp cs step n rows) = (length rows - 1) div 2"
  by (induction act os zp cs step n rows rule: conv_rows.induct) auto

lemma conv_rows_nth:
  "2 * y + 2 < length rows \<Longrightarrow> conv_rows act os zp cs step n rows ! y =
     conv_row act os zp cs step n (rows ! (2 * y)) (rows ! (2 * y + 1)) (rows ! (2 * y + 2))"
proof (induction act os zp cs step n rows arbitrary: y rule: conv_rows.induct)
  case (1 act os zp cs step n r0 r1 r2 rs)
  show ?case
  proof (cases y)
    case (Suc y')
    then have "2 * y' + 2 < length (r2 # rs)" using 1(2) by simp
    from 1(1) [OF this] Suc show ?thesis by simp
  qed simp
qed auto

subsection \<open>The closed form of the layer, computed\<close>

definition plain3x3 :: "conv_args \<Rightarrow> bool" where
  "plain3x3 ca \<longleftrightarrow> a_kw ca = 3 \<and> a_kh ca = 3 \<and> a_sx ca = 2 \<and> a_sy ca = 2 \<and>
     a_pad_top ca = 0 \<and> a_pad_left ca = 0 \<and> a_dmul ca = 0"

text \<open>The input tensor as its rows, the weights as the integers of their block.\<close>

definition holds_rows :: "mem \<Rightarrow> tm_mat \<Rightarrow> int list list \<Rightarrow> bool" where
  "holds_rows m mat rows \<longleftrightarrow> holds_ints m (m_data mat) (concat rows) \<and> list_all in_s8 (concat rows) \<and>
     length rows = m_h mat \<and> (\<forall>r\<in>set rows. length r = m_w mat * m_c mat)"

lemma tap_rows:
  assumes k: "plain3x3 ca" and r: "holds_rows m (a_in ca) rows"
    and "2 * y + 2 < m_h (a_in ca)" "2 * x + 2 < m_w (a_in ca)" "ch < m_c (a_in ca)" "tap < 9"
  shows "sint (tap_byte ca m y x ch tap) = rows ! (2 * y + tap div 3) ! (2 * x * m_c (a_in ca) + (tap mod 3 * m_c (a_in ca) + ch))"
proof -
  let ?w = "m_w (a_in ca)" and ?n = "m_c (a_in ca)"
  let ?y = "2 * y + tap div 3" and ?x = "2 * x + tap mod 3"
  have b: "?y < m_h (a_in ca)" "?x < ?w" using assms(3,4,6) by presburger+
  have j: "?x * ?n + ch < ?w * ?n" by (rule row_index [OF b(2) assms(5)])
  have lc: "length (concat rows) = length rows * (?w * ?n)"
    by (rule length_concat_rows) (use r in \<open>simp add: holds_rows_def\<close>)
  have i: "?y * (?w * ?n) + (?x * ?n + ch) < length (concat rows)"
    unfolding lc by (rule row_index [OF _ j]) (use r b in \<open>simp add: holds_rows_def\<close>)
  have img: "in_image (a_in ca) (tap_y ca y tap) (tap_x ca x tap)"
    using k b by (simp add: in_image_def tap_y_def tap_x_def src_y0_def src_x0_def plain3x3_def)
  have "tm_matp (a_in ca) (tap_y ca y tap) (tap_x ca x tap) (int ch) =
      padd (m_data (a_in ca)) (int (?y * (?w * ?n) + (?x * ?n + ch)))"
    using k by (simp add: tm_matp_def tap_y_def tap_x_def src_y0_def src_x0_def plain3x3_def algebra_simps)
  then have "sint (tap_byte ca m y x ch tap) =
      sint (the (ld8 m (padd (m_data (a_in ca)) (int (?y * (?w * ?n) + (?x * ?n + ch))))))"
    using k img by (simp add: tap_byte_def src_ch_def plain3x3_def)
  also have "\<dots> = concat rows ! (?y * (?w * ?n) + (?x * ?n + ch))"
    by (rule holds_ints_nth [OF _ _ i]) (use r in \<open>simp_all add: holds_rows_def\<close>)
  also have "\<dots> = rows ! ?y ! (?x * ?n + ch)"
    by (rule rows_concat_nth [OF _ _ j]) (use r b in \<open>simp_all add: holds_rows_def\<close>)
  finally show ?thesis by (simp add: algebra_simps)
qed

lemma acc_rows:
  assumes k: "plain3x3 ca" and r: "holds_rows m (a_in ca) rows"
    and yx: "2 * y + 2 < m_h (a_in ca)" "2 * x + 2 < m_w (a_in ca)"
    and w: "\<And>i. i < 9 * m_c (a_in ca) \<Longrightarrow> sint (the (ld8 m (padd (a_w ca) (int (c * (9 * m_c (a_in ca)) + i))))) = w ! i"
  shows "conv_acc ca m y x c =
    (\<Sum>ky<3. row_dot (drop (x * (2 * m_c (a_in ca))) (rows ! (2 * y + ky))) (kernel_row (m_c (a_in ca)) w ky))"
proof -
  let ?n = "m_c (a_in ca)" and ?g = "\<lambda>ch tap. rows ! (2 * y + tap div 3) ! (2 * x * m_c (a_in ca) + (tap mod 3 * m_c (a_in ca) + ch))"
  have len: "conv_maxk ca = 9" "conv_dot_len ca = ?n * 9" "conv_win0 ca c = 0"
    using k by (simp_all add: conv_maxk_def conv_dot_len_def conv_chi_def conv_win0_def plain3x3_def)
  have "conv_acc ca m y x c = (\<Sum>i<?n * 9. ?g (i div 9) (i mod 9) * w ! (i div 9 * 9 + i mod 9))"
    unfolding conv_acc_def len(2)
  proof (intro sum.cong refl)
    fix i assume "i \<in> {..<?n * 9}"
    then have "i div 9 < ?n" "i mod 9 < 9" "i < 9 * ?n" by (auto simp: less_mult_imp_div_less)
    from tap_rows [OF k r yx this(1,2)] w [OF this(3)]
    show "sint (tap_byte ca m y x (conv_win0 ca c + i div conv_maxk ca) (i mod conv_maxk ca)) *
        sint (the (ld8 m (padd (a_w ca) (int (c * (?n * 9) + i))))) = ?g (i div 9) (i mod 9) * w ! (i div 9 * 9 + i mod 9)"
      by (simp add: len mult.commute)
  qed
  also have "\<dots> = (\<Sum>ky<3. \<Sum>j<3 * ?n. ?g (j mod ?n) (ky * 3 + j div ?n) * w ! (j mod ?n * 9 + (ky * 3 + j div ?n)))"
    by (rule sum_kernel_order [of "\<lambda>ch tap. ?g ch tap * w ! (ch * 9 + tap)"])
  also have "\<dots> = (\<Sum>ky<3. row_dot (drop (x * (2 * ?n)) (rows ! (2 * y + ky))) (kernel_row ?n w ky))"
  proof (intro sum.cong refl)
    fix ky :: nat assume ky: "ky \<in> {..<3}"
    have y: "2 * y + ky < length rows" using yx ky r by (auto simp: holds_rows_def)
    then have l: "length (rows ! (2 * y + ky)) = m_w (a_in ca) * ?n" using r by (simp add: holds_rows_def)
    have "(2 * x + 3) * ?n \<le> m_w (a_in ca) * ?n" by (rule mult_le_mono1) (use yx(2) in simp)
    then have fits: "x * (2 * ?n) + 3 * ?n \<le> length (rows ! (2 * y + ky))"
      unfolding l by (simp add: algebra_simps)
    then have le: "length (kernel_row ?n w ky) \<le> length (drop (x * (2 * ?n)) (rows ! (2 * y + ky)))"
      by (simp add: kernel_row_def)
    have "(\<Sum>j<3 * ?n. ?g (j mod ?n) (ky * 3 + j div ?n) * w ! (j mod ?n * 9 + (ky * 3 + j div ?n))) =
        (\<Sum>j<3 * ?n. drop (x * (2 * ?n)) (rows ! (2 * y + ky)) ! j * kernel_row ?n w ky ! j)"
    proof (intro sum.cong refl)
      fix j assume "j \<in> {..<3 * ?n}"
      then have j: "j < 3 * ?n" by simp
      then have q: "j div ?n < 3" by (simp add: less_mult_imp_div_less)
      then have "(ky * 3 + j div ?n) div 3 = ky" "(ky * 3 + j div ?n) mod 3 = j div ?n" by simp_all
      then show "?g (j mod ?n) (ky * 3 + j div ?n) * w ! (j mod ?n * 9 + (ky * 3 + j div ?n)) =
          drop (x * (2 * ?n)) (rows ! (2 * y + ky)) ! j * kernel_row ?n w ky ! j"
        using j fits by (simp add: kernel_row_def ac_simps)
    qed
    then show "(\<Sum>j<3 * ?n. ?g (j mod ?n) (ky * 3 + j div ?n) * w ! (j mod ?n * 9 + (ky * 3 + j div ?n))) =
        row_dot (drop (x * (2 * ?n)) (rows ! (2 * y + ky))) (kernel_row ?n w ky)"
      using row_dot_sum [OF le] by (simp add: kernel_row_def)
  qed
  finally show ?thesis .
qed

text \<open>The whole output tensor: what \<open>conv_rows\<close> computes from the rows of the input.\<close>

lemma conv_eval:
  assumes cd: "conv_done ca scales os m m'" and k: "plain3x3 ca" and r: "holds_rows m (a_in ca) rows"
    and dims: "m_h (a_out ca) = (m_h (a_in ca) - 1) div 2" "m_w (a_out ca) = (m_w (a_in ca) - 1) div 2"
    and w: "\<And>i. i < m_c (a_out ca) * (9 * m_c (a_in ca)) \<Longrightarrow> sint (the (ld8 m (padd (a_w ca) (int i)))) = ws ! i"
    and lens: "length ws = m_c (a_out ca) * (9 * m_c (a_in ca))" "length bs = m_c (a_out ca)" "length scales = m_c (a_out ca)"
    and b: "\<And>c. c < m_c (a_out ca) \<Longrightarrow> conv_bias ca m c = bs ! c"
  defines "outs \<equiv> conv_rows (a_act ca) os (a_out_zp ca) (channels (m_c (a_in ca)) ws bs scales)
    (2 * m_c (a_in ca)) (m_w (a_out ca)) rows"
  assumes s8: "list_all in_s8 (concat outs)"
  shows "holds_rows m' (a_out ca) outs"
proof -
  let ?n = "m_c (a_in ca)" and ?o = "m_c (a_out ca)" and ?cs = "channels (m_c (a_in ca)) ws bs scales"
  have lo: "length outs = m_h (a_out ca)" using r by (simp add: outs_def length_conv_rows dims holds_rows_def)
  have row: "outs ! y = conv_row (a_act ca) os (a_out_zp ca) ?cs (2 * ?n) (m_w (a_out ca)) (rows ! (2 * y)) (rows ! (2 * y + 1)) (rows ! (2 * y + 2))"
    if "y < m_h (a_out ca)" for y
    unfolding outs_def by (rule conv_rows_nth) (use that r dims in \<open>simp add: holds_rows_def\<close>)
  have lcs: "length ?cs = ?o" using lens by (simp add: length_channels)
  have lrow: "\<forall>r\<in>set outs. length r = m_w (a_out ca) * ?o"
    using row lo lcs by (auto simp: in_set_conv_nth length_conv_row)
  have px: "ld8 m' (padd (m_data (a_out ca)) (int (y * (m_w (a_out ca) * ?o) + (x * ?o + c)))) =
      Some (to_s8 (outs ! y ! (x * ?o + c)))"
    if y: "y < m_h (a_out ca)" and x: "x < m_w (a_out ca)" and c: "c < ?o" for y x c
  proof -
    let ?w = "drop (c * (9 * ?n)) ws"
    have in_w: "c * (9 * ?n) + i < ?o * (9 * ?n)" if "i < 9 * ?n" for i by (rule row_index [OF c that])
    have yx: "2 * y + 2 < m_h (a_in ca)" "2 * x + 2 < m_w (a_in ca)" using y x dims by simp_all
    have "conv_acc ca m y x c =
        (\<Sum>ky<3. row_dot (drop (x * (2 * ?n)) (rows ! (2 * y + ky))) (kernel_row ?n ?w ky))"
    proof (rule acc_rows [OF k r yx])
      fix i assume "i < 9 * ?n"
      note lt = in_w [OF this]
      have "c * (9 * ?n) \<le> length ws" using lt unfolding lens(1) by linarith
      then show "sint (the (ld8 m (padd (a_w ca) (int (c * (9 * ?n) + i))))) = ?w ! i"
        unfolding w [OF lt] by simp
    qed
    also have "\<dots> = row_dot (drop (x * (2 * ?n)) (rows ! (2 * y))) (kernel_row ?n ?w 0) +
        row_dot (drop (x * (2 * ?n)) (rows ! (2 * y + 1))) (kernel_row ?n ?w 1) +
        row_dot (drop (x * (2 * ?n)) (rows ! (2 * y + 2))) (kernel_row ?n ?w 2)"
      by (simp add: numeral_3_eq_3 numeral_2_eq_2)
    finally have "conv_byte ca m scales os y x c = to_s8 (outs ! y ! (x * ?o + c))"
      using conv_row_nth [of x "m_w (a_out ca)" c ?cs "a_act ca" os "a_out_zp ca" "2 * ?n" "rows ! (2 * y)" "rows ! (2 * y + 1)" "rows ! (2 * y + 2)"]
        x c lcs lens b by (simp add: conv_byte_def row [OF y] channels_nth)
    moreover have "tm_matp (a_out ca) (int y) (int x) (int c) =
        padd (m_data (a_out ca)) (int (y * (m_w (a_out ca) * ?o) + (x * ?o + c)))"
      by (simp add: tm_matp_def algebra_simps)
    moreover have "ld8 m' (tm_matp (a_out ca) (int y) (int x) (int c)) = Some (conv_byte ca m scales os y x c)"
      using cd y x c by (simp add: conv_done_def)
    ultimately show ?thesis by (simp only:)
  qed
  have "ld8 m' (padd (m_data (a_out ca)) (int i)) = Some (to_s8 (concat outs ! i))" if i: "i < length (concat outs)" for i
  proof -
    let ?k = "m_w (a_out ca) * ?o"
    have lc: "length (concat outs) = m_h (a_out ca) * ?k" using length_concat_rows [OF lrow] lo by simp
    with i have pos: "0 < ?k" by (cases "?k = 0") simp_all
    then have "0 < ?o" by simp
    define y x c where "y = i div ?k" and "x = i mod ?k div ?o" and "c = i mod ?k mod ?o"
    have "y < m_h (a_out ca)" using i lc by (simp add: y_def less_mult_imp_div_less)
    moreover have "x < m_w (a_out ca)" using pos by (simp add: x_def less_mult_imp_div_less)
    moreover have "c < ?o" using \<open>0 < ?o\<close> by (simp add: c_def)
    moreover have ix: "i = y * ?k + (x * ?o + c)" by (simp only: y_def x_def c_def div_mult_mod_eq)
    moreover have "x * ?o + c < ?k" using pos by (simp only: x_def c_def div_mult_mod_eq mod_less_divisor)
    ultimately show ?thesis using px [of y x c] rows_concat_nth [OF lrow, of y "x * ?o + c"] lo by simp
  qed
  then show ?thesis using s8 lo lrow by (simp only: holds_rows_def holds_ints_def) blast
qed

end
