(* ===== verification/Digit_Rows.thy ===== *)
theory Digit_Rows
  imports Conv_Eval
begin

section \<open>The built-in picture in the convolutions of the shipped network\<close>

text \<open>
  The built-in picture as rows of integers, the weights of the three convolutions of the shipped
  network as integers, and what each convolution computes from the rows it gets, evaluated row by
  row. The weights are related to the bytes of \<open>mdl_data\<close>, the picture to \<open>mnist_pic\<close>.
\<close>

lemma upt_kernel: "[0..<3] = [0, 1, 2]" "[0..<12] = [0, 1, 2, 3, 4, 5, 6, 7, 8, 9, 10, 11]"
  "[0..<24] = [0, 1, 2, 3, 4, 5, 6, 7, 8, 9, 10, 11, 12, 13, 14, 15, 16, 17, 18, 19, 20, 21, 22, 23]"
  by (simp_all add: upt_rec)

definition net_rows0 :: "int list list" where
  "net_rows0 =
    [[-128, -128, -128, -128, -128, -128, -128, -128, -128, -128, -128, -128, -128, -128, -128, -128, -128, -128,
      -128, -128, -128, -128, -128, -128, -128, -128, -128, -128],
     [-128, -128, -128, -128, -128, -128, -128, -128, -128, -128, -128, -128, -128, -128, -128, -128, -128, -128,
      -128, -128, -128, -128, -128, -128, -128, -128, -128, -128],
     [-128, -128, -128, -128, -128, -128, -128, -128, -128, -128, -128, -128, -128, -128, -128, -128, -128, -128,
      -128, -128, -128, -128, -128, -128, -128, -128, -128, -128],
     [-128, -128, -128, -128, -128, -128, -128, -128, -128, -128, -12, -3, 43, 127, 127, 22, -35, -128, -128, -128,
      -128, -128, -128, -128, -128, -128, -128, -128],
     [-128, -128, -128, -128, -128, -128, -128, -128, -128, 41, 125, 125, 125, 125, 125, 125, 90, -98, -128, -128,
      -128, -128, -128, -128, -128, -128, -128, -128],
     [-128, -128, -128, -128, -128, -128, -128, -128, 41, 125, 125, 125, 85, 14, 48, 125, 125, -6, -128, -128,
      -128, -128, -128, -128, -128, -128, -128, -128],
     [-128, -128, -128, -128, -128, -128, -128, -76, 122, 125, 82, -96, -116, -128, -122, 78, 125, 12, -128, -128,
      -128, -128, -128, -128, -128, -128, -128, -128],
     [-128, -128, -128, -128, -128, -128, -128, -51, 123, 82, -103, -128, -128, -128, -6, 120, 125, -63, -128,
      -128, -128, -128, -128, -128, -128, -128, -128, -128],
     [-128, -128, -128, -128, -128, -128, -128, -128, -97, -110, -128, -128, -128, -128, 81, 125, 125, -63, -128,
      -128, -128, -128, -128, -128, -128, -128, -128, -128],
     [-128, -128, -128, -128, -128, -128, -128, -128, -128, -128, -128, -128, -128, -11, 119, 125, 70, -118, -128,
      -128, -128, -128, -128, -128, -128, -128, -128, -128],
     [-128, -128, -128, -128, -128, -128, -128, -128, -128, -128, -128, -128, -52, 119, 125, 103, -65, -128, -128,
      -128, -128, -128, -128, -128, -128, -128, -128, -128],
     [-128, -128, -128, -128, -128, -128, -128, -128, -128, -128, -128, -128, 0, 125, 125, 16, -128, -128, -128,
      -128, -128, -128, -128, -128, -128, -128, -128, -128],
     [-128, -128, -128, -128, -128, -128, -128, -128, -128, -128, -128, 48, 118, 125, 31, -116, -128, -128, -128,
      -128, -128, -128, -128, -128, -128, -128, -128, -128],
     [-128, -128, -128, -128, -128, -128, -128, -128, -128, -128, -103, 106, 125, 105, -93, -128, -128, -128, -128,
      -128, -128, -128, -128, -128, -128, -128, -128, -128],
     [-128, -128, -128, -128, -128, -128, -128, -128, -128, -128, 70, 125, 125, 13, -128, -128, -128, -128, -128,
      -128, -128, -128, -128, -128, -128, -128, -128, -128],
     [-128, -128, -128, -128, -128, -128, -128, -128, -128, -50, 120, 125, 61, -116, -128, -128, -128, -128, -128,
      -128, -128, -128, -128, -128, -128, -128, -128, -128],
     [-128, -128, -128, -128, -128, -128, -128, -128, -109, 72, 125, 125, 13, -128, -128, -128, -128, -128, -128,
      -128, -128, -128, -128, -128, -128, -128, -128, -128],
     [-128, -128, -128, -128, -128, -128, -128, -128, 6, 125, 125, 45, -116, -128, -128, -128, -128, -128, -128,
      -128, -128, -128, -128, -128, -128, -128, -128, -128],
     [-128, -128, -128, -128, -128, -128, -128, -128, 120, 125, 125, -103, -128, -128, -128, -128, -128, -128,
      -128, -128, -128, -128, -128, -128, -128, -128, -128, -128],
     [-128, -128, -128, -128, -128, -128, -128, -128, 120, 125, 125, -85, -108, -108, -108, -108, -123, -128, -123,
      -108, -108, -91, 22, 22, 22, 19, -118, -128],
     [-128, -128, -128, -128, -128, -128, -128, -128, 120, 125, 125, 125, 125, 125, 125, 125, 40, 15, 38, 125, 125,
      125, 125, 125, 125, 125, -5, -128],
     [-128, -128, -128, -128, -128, -128, -128, -128, 46, 125, 125, 125, 125, 125, 125, 125, 125, 125, 125, 125,
      121, 119, 119, 41, -11, -11, -71, -128],
     [-128, -128, -128, -128, -128, -128, -128, -128, -128, -10, -5, -5, -5, 38, 125, 125, 125, 27, -5, -5, -87,
      -128, -128, -128, -128, -128, -128, -128],
     [-128, -128, -128, -128, -128, -128, -128, -128, -128, -128, -128, -128, -128, -128, -128, -128, -128, -128,
      -128, -128, -128, -128, -128, -128, -128, -128, -128, -128],
     [-128, -128, -128, -128, -128, -128, -128, -128, -128, -128, -128, -128, -128, -128, -128, -128, -128, -128,
      -128, -128, -128, -128, -128, -128, -128, -128, -128, -128],
     [-128, -128, -128, -128, -128, -128, -128, -128, -128, -128, -128, -128, -128, -128, -128, -128, -128, -128,
      -128, -128, -128, -128, -128, -128, -128, -128, -128, -128],
     [-128, -128, -128, -128, -128, -128, -128, -128, -128, -128, -128, -128, -128, -128, -128, -128, -128, -128,
      -128, -128, -128, -128, -128, -128, -128, -128, -128, -128],
     [-128, -128, -128, -128, -128, -128, -128, -128, -128, -128, -128, -128, -128, -128, -128, -128, -128, -128,
      -128, -128, -128, -128, -128, -128, -128, -128, -128, -128]]"

definition net_rows1 :: "int list list" where
  "net_rows1 =
    [[-128, -128, -124, -128, -128, -128, -124, -128, -128, -128, -124, -128, -128, -128, -124, -128, -128, -128,
      -124, -128, -128, -128, -124, -128, -128, -128, -124, -128, -128, -128, -124, -128, -128, -128, -124, -128,
      -128, -128, -124, -128, -128, -128, -124, -128, -128, -128, -124, -128, -128, -128, -124, -128],
     [-128, -128, -124, -128, -128, -128, -124, -128, -128, -128, -124, -128, -128, -128, -124, -128, -128, -128,
      -58, -105, -128, -128, -25, 22, -128, -128, -16, 14, -128, -68, -35, 100, -128, -58, -107, -22, -128, -128,
      -124, -128, -128, -128, -124, -128, -128, -128, -124, -128, -128, -128, -124, -128],
     [-128, -128, -124, -128, -128, -128, -124, -128, -128, -128, -124, -128, -128, -128, -71, -128, -128, -128,
      37, -128, 8, -69, 35, -128, 61, -101, 12, -128, -83, -128, 79, -128, -128, 63, -42, 64, -128, -128, -124,
      -128, -128, -128, -124, -128, -128, -128, -124, -128, -128, -128, -124, -128],
     [-128, -128, -124, -128, -128, -128, -124, -128, -128, -128, -124, -128, -96, -128, -63, -128, 79, 5, 2, -128,
      -83, -80, -78, -128, -128, -128, -84, -128, -128, -128, 48, -128, -83, 76, -28, -2, -128, -128, -124, -128,
      -128, -128, -124, -128, -128, -128, -124, -128, -128, -128, -124, -128],
     [-128, -128, -124, -128, -128, -128, -124, -128, -128, -128, -124, -128, -122, -128, -121, -128, -121, -125,
      -115, -128, -128, -128, -114, -125, -128, -128, -6, -128, -91, -83, 63, -128, -49, 19, -63, -73, -128, -128,
      -124, -128, -128, -128, -124, -128, -128, -128, -124, -128, -128, -128, -124, -128],
     [-128, -128, -124, -128, -128, -128, -124, -128, -128, -128, -124, -128, -128, -128, -124, -128, -128, -128,
      -124, -128, -128, -128, -49, -128, -128, -128, 58, -128, 6, 60, -16, -96, -121, -120, -112, -128, -128, -128,
      -124, -128, -128, -128, -124, -128, -128, -128, -124, -128, -128, -128, -124, -128],
     [-128, -128, -124, -128, -128, -128, -124, -128, -128, -128, -124, -128, -128, -128, -124, -128, -128, -128,
      -95, -126, -128, -128, 41, -128, -35, 39, 27, -76, -97, -84, -93, -128, -128, -128, -124, -128, -128, -128,
      -124, -128, -128, -128, -124, -128, -128, -128, -124, -128, -128, -128, -124, -128],
     [-128, -128, -124, -128, -128, -128, -124, -128, -128, -128, -124, -128, -128, -128, -122, -128, -128, -128,
      -19, -128, -112, -94, 74, -118, -48, 31, -45, -80, -128, -128, -124, -128, -128, -128, -124, -128, -128, -128,
      -124, -128, -128, -128, -124, -128, -128, -128, -124, -128, -128, -128, -124, -128],
     [-128, -128, -124, -128, -128, -128, -124, -128, -128, -128, -124, -128, -128, -128, -79, -128, -128, -128,
      52, -128, 6, 57, 7, -99, -108, -99, -98, -128, -128, -128, -124, -128, -128, -128, -124, -128, -128, -128,
      -124, -128, -128, -128, -124, -128, -128, -128, -124, -128, -128, -128, -124, -128],
     [-128, -128, -124, -128, -128, -128, -124, -128, -128, -128, -124, -128, -128, -128, -45, -128, -128, -128,
      103, -128, -128, 10, 13, 107, -128, -128, -37, 41, -128, -124, -49, 41, -128, -128, -70, -24, -128, -128, -42,
      9, -128, -128, -28, -7, -128, -128, -25, 43, -128, -57, -53, 86],
     [-128, -128, -124, -128, -128, -128, -124, -128, -128, -128, -124, -128, -96, -128, -84, -128, -18, -128, 51,
      -128, -32, -125, 60, -128, -70, -128, 84, -128, -128, -119, 94, -109, -128, -114, 27, -103, -30, -127, 32,
      -128, 55, -111, 20, -128, 85, -56, 7, -128, 30, -64, -12, -128],
     [-128, -128, -124, -128, -128, -128, -124, -128, -128, -128, -124, -128, -128, -128, -124, -128, -63, -128,
      -89, -128, -45, -122, -65, -128, 2, -128, -43, -128, 45, -112, -3, -128, -18, -95, -36, -128, -67, -109, -75,
      -128, -124, -124, -116, -128, -128, -128, -124, -128, -128, -128, -124, -128],
     [-128, -128, -124, -128, -128, -128, -124, -128, -128, -128, -124, -128, -128, -128, -124, -128, -128, -128,
      -124, -128, -128, -128, -124, -128, -128, -128, -124, -128, -128, -128, -124, -128, -128, -128, -124, -128,
      -128, -128, -124, -128, -128, -128, -124, -128, -128, -128, -124, -128, -128, -128, -124, -128]]"

definition net_rows2 :: "int list list" where
  "net_rows2 =
    [[-75, -118, -45, -128, -90, -82, -78, -83, -113, -122, -111, -101, -81, -128, -65, -46, -128, -126, -128,
      -101, -128, -128, -2, -128, -128, -56, -128, -123, -128, -128, 55, -128, -128, -30, -54, -80, -125, -95, -52,
      -123, -75, -118, -45, -128, -90, -82, -78, -83],
     [-75, -118, -45, -128, -90, -82, -78, -83, -116, -123, -108, -98, -92, -40, -128, -92, -128, -128, -128, -36,
      -33, -91, -128, -128, -128, -20, -128, -128, -128, -128, -128, -122, -128, -2, -113, -54, -33, -125, -128,
      -128, -75, -118, -45, -128, -90, -82, -78, -83],
     [-75, -118, -45, -128, -90, -82, -78, -83, -82, -118, -58, -128, -87, -91, -79, -81, -128, -115, -128, -108,
      -62, -128, -128, -1, -128, -85, -128, -51, -128, -128, -128, -119, -128, -84, -128, -99, -49, -82, -122, -121,
      -75, -118, -45, -128, -90, -82, -78, -83],
     [-75, -118, -45, -128, -90, -82, -78, -83, -128, -125, -107, -98, -67, -128, -84, -42, -128, -91, -128, -110,
      -128, -128, -128, -27, -128, -57, -128, -53, -23, -121, -128, -128, -75, -118, -45, -128, -90, -82, -78, -83,
      -75, -118, -45, -128, -90, -82, -78, -83],
     [-75, -118, -45, -128, -90, -82, -78, -83, -128, -126, -85, -90, -86, -123, -128, -69, -128, -46, -128, -29,
      -128, -128, -128, -128, -128, -62, -128, -128, -128, -128, 42, -128, -128, -105, -128, -104, -128, -128, 7,
      -128, -128, -127, -128, -128, -128, -99, 28, -128],
     [-75, -118, -45, -128, -90, -82, -78, -83, -96, -118, -102, -128, -86, -23, -128, -111, -124, -114, -128,
      -128, -70, 82, -128, -128, -128, -113, -128, -128, -86, 62, -128, -128, -128, -118, -128, -117, -63, 47, -128,
      -128, -101, -117, -128, -101, -37, 36, -119, -128]]"

definition net_rows3 :: "int list list" where
  "net_rows3 =
    [[-128, -90, -128, -119, -100, -126, -84, -81, -128, -128, -94, -89, -128, -104, -128, -128, -128, -101, -80,
      -1, -77, -128, 43, -94, -128, -116, -128, -113, -128, -94, -128, -10],
     [-83, -128, -109, -110, -73, -128, -128, -128, -90, -128, -50, -108, -75, -77, -128, -38, -57, -75, -112,
      -128, -62, -43, -128, -128, -112, -48, -106, -128, 125, -128, -72, -128]]"

lemma picture_rows: "map (\<lambda>b. int (unat b) - 128) mnist_pic = concat net_rows0"
  by (simp add: mnist_pic_defs net_rows0_def)

lemma net_rows_shape:
  "length net_rows0 = 28" "\<forall>r\<in>set net_rows0. length r = 28"
  "list_all in_s8 (concat net_rows0)" "list_all in_s8 (concat net_rows1)"
  "list_all in_s8 (concat net_rows2)" "list_all in_s8 (concat net_rows3)"
  by (simp_all add: net_rows0_def net_rows1_def net_rows2_def net_rows3_def in_s8_def)

subsection \<open>Layer 0\<close>

definition net_w0 :: "int list" where
  "net_w0 =
    [47, 94, 91, 70, 20, -64, -80, -127, -56, 50, 10, -40, 111, 9, -127, 39, -10, -42, 127, 121, 80, -7, 22, 43,
     43, 94, 96, -13, -123, -103, 122, 10, -127, 103, 101, 25]"

lemma net_w0: "map sint (take 36 (drop 160 mdl_data)) = net_w0"
  by (simp add: mdl_data_def length_blocks mdl_data_1_def net_w0_def)

definition net_b0 :: "int list" where
  "net_b0 = [-1132, -876, 82324, -1365]"

definition net_chans0 :: "channel list" where
  "net_chans0 =
    [(([47, 94, 91],
       [70, 20, -64],
       [-80, -127, -56]), -1132, 20635),
     (([50, 10, -40],
       [111, 9, -127],
       [39, -10, -42]), -876, 15396),
     (([127, 121, 80],
       [-7, 22, 43],
       [43, 94, 96]), 82324, 42292),
     (([-13, -123, -103],
       [122, 10, -127],
       [103, 101, 25]), -1365, 20807)]"

lemma net_chans0: "channels 1 net_w0 net_b0 net_scales0 = net_chans0"
  by (simp add: channels_eval kernel_row_def upt_kernel net_w0_def net_b0_def net_scales0_def net_chans0_def del: channels.simps(1))

lemma net_row0_0:
  "conv_row 1 15778 (-128) net_chans0 2 13
     [-128, -128, -128, -128, -128, -128, -128, -128, -128, -128, -128, -128, -128, -128, -128, -128, -128, -128,
     -128, -128, -128, -128, -128, -128, -128, -128, -128, -128]
     [-128, -128, -128, -128, -128, -128, -128, -128, -128, -128, -128, -128, -128, -128, -128, -128, -128, -128,
     -128, -128, -128, -128, -128, -128, -128, -128, -128, -128]
     [-128, -128, -128, -128, -128, -128, -128, -128, -128, -128, -128, -128, -128, -128, -128, -128, -128, -128,
     -128, -128, -128, -128, -128, -128, -128, -128, -128, -128] =
     [-128, -128, -124, -128, -128, -128, -124, -128, -128, -128, -124, -128, -128, -128, -124, -128, -128, -128,
     -124, -128, -128, -128, -124, -128, -128, -128, -124, -128, -128, -128, -124, -128, -128, -128, -124, -128,
     -128, -128, -124, -128, -128, -128, -124, -128, -128, -128, -124, -128, -128, -128, -124, -128]"
  by code_simp

lemma net_row0_1:
  "conv_row 1 15778 (-128) net_chans0 2 13
     [-128, -128, -128, -128, -128, -128, -128, -128, -128, -128, -128, -128, -128, -128, -128, -128, -128, -128,
     -128, -128, -128, -128, -128, -128, -128, -128, -128, -128]
     [-128, -128, -128, -128, -128, -128, -128, -128, -128, -128, -12, -3, 43, 127, 127, 22, -35, -128, -128, -128,
     -128, -128, -128, -128, -128, -128, -128, -128]
     [-128, -128, -128, -128, -128, -128, -128, -128, -128, 41, 125, 125, 125, 125, 125, 125, 90, -98, -128, -128,
     -128, -128, -128, -128, -128, -128, -128, -128] =
     [-128, -128, -124, -128, -128, -128, -124, -128, -128, -128, -124, -128, -128, -128, -124, -128, -128, -128,
     -58, -105, -128, -128, -25, 22, -128, -128, -16, 14, -128, -68, -35, 100, -128, -58, -107, -22, -128, -128,
     -124, -128, -128, -128, -124, -128, -128, -128, -124, -128, -128, -128, -124, -128]"
  by code_simp

lemma net_row0_2:
  "conv_row 1 15778 (-128) net_chans0 2 13
     [-128, -128, -128, -128, -128, -128, -128, -128, -128, 41, 125, 125, 125, 125, 125, 125, 90, -98, -128, -128,
     -128, -128, -128, -128, -128, -128, -128, -128]
     [-128, -128, -128, -128, -128, -128, -128, -128, 41, 125, 125, 125, 85, 14, 48, 125, 125, -6, -128, -128,
     -128, -128, -128, -128, -128, -128, -128, -128]
     [-128, -128, -128, -128, -128, -128, -128, -76, 122, 125, 82, -96, -116, -128, -122, 78, 125, 12, -128, -128,
     -128, -128, -128, -128, -128, -128, -128, -128] =
     [-128, -128, -124, -128, -128, -128, -124, -128, -128, -128, -124, -128, -128, -128, -71, -128, -128, -128,
     37, -128, 8, -69, 35, -128, 61, -101, 12, -128, -83, -128, 79, -128, -128, 63, -42, 64, -128, -128, -124,
     -128, -128, -128, -124, -128, -128, -128, -124, -128, -128, -128, -124, -128]"
  by code_simp

lemma net_row0_3:
  "conv_row 1 15778 (-128) net_chans0 2 13
     [-128, -128, -128, -128, -128, -128, -128, -76, 122, 125, 82, -96, -116, -128, -122, 78, 125, 12, -128, -128,
     -128, -128, -128, -128, -128, -128, -128, -128]
     [-128, -128, -128, -128, -128, -128, -128, -51, 123, 82, -103, -128, -128, -128, -6, 120, 125, -63, -128,
     -128, -128, -128, -128, -128, -128, -128, -128, -128]
     [-128, -128, -128, -128, -128, -128, -128, -128, -97, -110, -128, -128, -128, -128, 81, 125, 125, -63, -128,
     -128, -128, -128, -128, -128, -128, -128, -128, -128] =
     [-128, -128, -124, -128, -128, -128, -124, -128, -128, -128, -124, -128, -96, -128, -63, -128, 79, 5, 2, -128,
     -83, -80, -78, -128, -128, -128, -84, -128, -128, -128, 48, -128, -83, 76, -28, -2, -128, -128, -124, -128,
     -128, -128, -124, -128, -128, -128, -124, -128, -128, -128, -124, -128]"
  by code_simp

lemma net_row0_4:
  "conv_row 1 15778 (-128) net_chans0 2 13
     [-128, -128, -128, -128, -128, -128, -128, -128, -97, -110, -128, -128, -128, -128, 81, 125, 125, -63, -128,
     -128, -128, -128, -128, -128, -128, -128, -128, -128]
     [-128, -128, -128, -128, -128, -128, -128, -128, -128, -128, -128, -128, -128, -11, 119, 125, 70, -118, -128,
     -128, -128, -128, -128, -128, -128, -128, -128, -128]
     [-128, -128, -128, -128, -128, -128, -128, -128, -128, -128, -128, -128, -52, 119, 125, 103, -65, -128, -128,
     -128, -128, -128, -128, -128, -128, -128, -128, -128] =
     [-128, -128, -124, -128, -128, -128, -124, -128, -128, -128, -124, -128, -122, -128, -121, -128, -121, -125,
     -115, -128, -128, -128, -114, -125, -128, -128, -6, -128, -91, -83, 63, -128, -49, 19, -63, -73, -128, -128,
     -124, -128, -128, -128, -124, -128, -128, -128, -124, -128, -128, -128, -124, -128]"
  by code_simp

lemma net_row0_5:
  "conv_row 1 15778 (-128) net_chans0 2 13
     [-128, -128, -128, -128, -128, -128, -128, -128, -128, -128, -128, -128, -52, 119, 125, 103, -65, -128, -128,
     -128, -128, -128, -128, -128, -128, -128, -128, -128]
     [-128, -128, -128, -128, -128, -128, -128, -128, -128, -128, -128, -128, 0, 125, 125, 16, -128, -128, -128,
     -128, -128, -128, -128, -128, -128, -128, -128, -128]
     [-128, -128, -128, -128, -128, -128, -128, -128, -128, -128, -128, 48, 118, 125, 31, -116, -128, -128, -128,
     -128, -128, -128, -128, -128, -128, -128, -128, -128] =
     [-128, -128, -124, -128, -128, -128, -124, -128, -128, -128, -124, -128, -128, -128, -124, -128, -128, -128,
     -124, -128, -128, -128, -49, -128, -128, -128, 58, -128, 6, 60, -16, -96, -121, -120, -112, -128, -128, -128,
     -124, -128, -128, -128, -124, -128, -128, -128, -124, -128, -128, -128, -124, -128]"
  by code_simp

lemma net_row0_6:
  "conv_row 1 15778 (-128) net_chans0 2 13
     [-128, -128, -128, -128, -128, -128, -128, -128, -128, -128, -128, 48, 118, 125, 31, -116, -128, -128, -128,
     -128, -128, -128, -128, -128, -128, -128, -128, -128]
     [-128, -128, -128, -128, -128, -128, -128, -128, -128, -128, -103, 106, 125, 105, -93, -128, -128, -128, -128,
     -128, -128, -128, -128, -128, -128, -128, -128, -128]
     [-128, -128, -128, -128, -128, -128, -128, -128, -128, -128, 70, 125, 125, 13, -128, -128, -128, -128, -128,
     -128, -128, -128, -128, -128, -128, -128, -128, -128] =
     [-128, -128, -124, -128, -128, -128, -124, -128, -128, -128, -124, -128, -128, -128, -124, -128, -128, -128,
     -95, -126, -128, -128, 41, -128, -35, 39, 27, -76, -97, -84, -93, -128, -128, -128, -124, -128, -128, -128,
     -124, -128, -128, -128, -124, -128, -128, -128, -124, -128, -128, -128, -124, -128]"
  by code_simp

lemma net_row0_7:
  "conv_row 1 15778 (-128) net_chans0 2 13
     [-128, -128, -128, -128, -128, -128, -128, -128, -128, -128, 70, 125, 125, 13, -128, -128, -128, -128, -128,
     -128, -128, -128, -128, -128, -128, -128, -128, -128]
     [-128, -128, -128, -128, -128, -128, -128, -128, -128, -50, 120, 125, 61, -116, -128, -128, -128, -128, -128,
     -128, -128, -128, -128, -128, -128, -128, -128, -128]
     [-128, -128, -128, -128, -128, -128, -128, -128, -109, 72, 125, 125, 13, -128, -128, -128, -128, -128, -128,
     -128, -128, -128, -128, -128, -128, -128, -128, -128] =
     [-128, -128, -124, -128, -128, -128, -124, -128, -128, -128, -124, -128, -128, -128, -122, -128, -128, -128,
     -19, -128, -112, -94, 74, -118, -48, 31, -45, -80, -128, -128, -124, -128, -128, -128, -124, -128, -128, -128,
     -124, -128, -128, -128, -124, -128, -128, -128, -124, -128, -128, -128, -124, -128]"
  by code_simp

lemma net_row0_8:
  "conv_row 1 15778 (-128) net_chans0 2 13
     [-128, -128, -128, -128, -128, -128, -128, -128, -109, 72, 125, 125, 13, -128, -128, -128, -128, -128, -128,
     -128, -128, -128, -128, -128, -128, -128, -128, -128]
     [-128, -128, -128, -128, -128, -128, -128, -128, 6, 125, 125, 45, -116, -128, -128, -128, -128, -128, -128,
     -128, -128, -128, -128, -128, -128, -128, -128, -128]
     [-128, -128, -128, -128, -128, -128, -128, -128, 120, 125, 125, -103, -128, -128, -128, -128, -128, -128,
     -128, -128, -128, -128, -128, -128, -128, -128, -128, -128] =
     [-128, -128, -124, -128, -128, -128, -124, -128, -128, -128, -124, -128, -128, -128, -79, -128, -128, -128,
     52, -128, 6, 57, 7, -99, -108, -99, -98, -128, -128, -128, -124, -128, -128, -128, -124, -128, -128, -128,
     -124, -128, -128, -128, -124, -128, -128, -128, -124, -128, -128, -128, -124, -128]"
  by code_simp

lemma net_row0_9:
  "conv_row 1 15778 (-128) net_chans0 2 13
     [-128, -128, -128, -128, -128, -128, -128, -128, 120, 125, 125, -103, -128, -128, -128, -128, -128, -128,
     -128, -128, -128, -128, -128, -128, -128, -128, -128, -128]
     [-128, -128, -128, -128, -128, -128, -128, -128, 120, 125, 125, -85, -108, -108, -108, -108, -123, -128, -123,
     -108, -108, -91, 22, 22, 22, 19, -118, -128]
     [-128, -128, -128, -128, -128, -128, -128, -128, 120, 125, 125, 125, 125, 125, 125, 125, 40, 15, 38, 125, 125,
     125, 125, 125, 125, 125, -5, -128] =
     [-128, -128, -124, -128, -128, -128, -124, -128, -128, -128, -124, -128, -128, -128, -45, -128, -128, -128,
     103, -128, -128, 10, 13, 107, -128, -128, -37, 41, -128, -124, -49, 41, -128, -128, -70, -24, -128, -128, -42,
     9, -128, -128, -28, -7, -128, -128, -25, 43, -128, -57, -53, 86]"
  by code_simp

lemma net_row0_10:
  "conv_row 1 15778 (-128) net_chans0 2 13
     [-128, -128, -128, -128, -128, -128, -128, -128, 120, 125, 125, 125, 125, 125, 125, 125, 40, 15, 38, 125, 125,
     125, 125, 125, 125, 125, -5, -128]
     [-128, -128, -128, -128, -128, -128, -128, -128, 46, 125, 125, 125, 125, 125, 125, 125, 125, 125, 125, 125,
     121, 119, 119, 41, -11, -11, -71, -128]
     [-128, -128, -128, -128, -128, -128, -128, -128, -128, -10, -5, -5, -5, 38, 125, 125, 125, 27, -5, -5, -87,
     -128, -128, -128, -128, -128, -128, -128] =
     [-128, -128, -124, -128, -128, -128, -124, -128, -128, -128, -124, -128, -96, -128, -84, -128, -18, -128, 51,
     -128, -32, -125, 60, -128, -70, -128, 84, -128, -128, -119, 94, -109, -128, -114, 27, -103, -30, -127, 32,
     -128, 55, -111, 20, -128, 85, -56, 7, -128, 30, -64, -12, -128]"
  by code_simp

lemma net_row0_11:
  "conv_row 1 15778 (-128) net_chans0 2 13
     [-128, -128, -128, -128, -128, -128, -128, -128, -128, -10, -5, -5, -5, 38, 125, 125, 125, 27, -5, -5, -87,
     -128, -128, -128, -128, -128, -128, -128]
     [-128, -128, -128, -128, -128, -128, -128, -128, -128, -128, -128, -128, -128, -128, -128, -128, -128, -128,
     -128, -128, -128, -128, -128, -128, -128, -128, -128, -128]
     [-128, -128, -128, -128, -128, -128, -128, -128, -128, -128, -128, -128, -128, -128, -128, -128, -128, -128,
     -128, -128, -128, -128, -128, -128, -128, -128, -128, -128] =
     [-128, -128, -124, -128, -128, -128, -124, -128, -128, -128, -124, -128, -128, -128, -124, -128, -63, -128,
     -89, -128, -45, -122, -65, -128, 2, -128, -43, -128, 45, -112, -3, -128, -18, -95, -36, -128, -67, -109, -75,
     -128, -124, -124, -116, -128, -128, -128, -124, -128, -128, -128, -124, -128]"
  by code_simp

lemma net_rows_step0: "conv_rows 1 15778 (-128) net_chans0 2 13 net_rows0 = net_rows1"
  unfolding net_rows0_def net_rows1_def conv_rows.simps
    net_row0_0 net_row0_1 net_row0_2 net_row0_3 net_row0_4 net_row0_5 net_row0_6 net_row0_7 net_row0_8
    net_row0_9 net_row0_10 net_row0_11
  by (rule refl)

subsection \<open>Layer 1\<close>

definition net_w1 :: "int list" where
  "net_w1 =
    [-15, 13, 40, 62, 113, 62, -88, -38, -17, -83, 61, 44, -127, -75, -52, 15, -14, -33, -36, -36, -65, -97, -47,
     -23, -22, -23, -48, -61, -63, -103, -14, 83, 72, -24, 27, 52, -35, -61, -70, -81, -127, -37, -84, -79, -21,
     43, 19, 9, 24, 28, 32, 47, 52, 32, 86, 70, 61, 18, -42, -37, -44, -5, 0, 62, 91, 63, 72, 93, 51, 85, 63, 16,
     -127, -64, -45, -42, -109, -65, -43, -41, -54, -55, -14, 27, 2, 36, -8, 27, -7, -9, -33, -8, 7, -1, 80, 28,
     -26, -72, -57, 26, -46, -50, 12, 9, 17, -31, -10, 14, 31, 47, 32, -6, 46, 43, -57, -8, 14, 73, 71, 25, 43, 17,
     -9, 55, 6, -23, -71, -71, -25, 127, 66, 20, -95, -12, 41, -47, -43, 7, -7, -4, 12, 27, 47, 47, 37, 30, 7, 2,
     -21, -35, 8, -88, -76, 43, 29, -28, 22, 49, 22, 31, -9, 92, 23, -32, 10, 21, 8, 37, -92, -39, 26, 25, -7, -9,
     -7, -115, -87, -53, -127, -64, -20, 24, 81, -60, 12, 64, 12, 101, 36, -51, -51, -51, -121, -127, -51, -62,
     -97, -28, 117, 82, -8, 8, 8, 12, -114, -118, -112, 58, 28, 3, 119, 59, -15, 69, 75, 6, 72, 65, 16, 26, 5, -2,
     0, -1, -22, -84, -127, -83, -38, -74, -53, 19, -17, -22, -43, -56, -77, 15, -3, -12, -6, -2, 13, 4, 75, 76,
     28, 75, 68, 9, 56, 51, -80, -46, 23, -115, -81, -26, -38, -53, -35, 46, 15, 4, 60, 127, 61, 36, 83, 50, -80,
     -57, -31, -15, 45, 19, -25, 77, 36, -95, -40, -15, -79, -125, -48, -59, -64, -30]"

lemma net_w1: "map sint (take 288 (drop 328 mdl_data)) = net_w1"
  by (simp add: mdl_data_def length_blocks mdl_data_2_def mdl_data_3_def mdl_data_4_def net_w1_def)

definition net_b1 :: "int list" where
  "net_b1 = [-57564, 53726, -79785, 52307, -35085, -871, 4768, -58530]"

definition net_chans1 :: "channel list" where
  "net_chans1 =
    [(([-15, -83, -36, -61, 13, 61, -36, -63, 40, 44, -65, -103],
       [62, -127, -97, -14, 113, -75, -47, 83, 62, -52, -23, 72],
       [-88, 15, -22, -24, -38, -14, -23, 27, -17, -33, -48, 52]), -57564, 14542),
     (([-35, 43, 86, 62, -61, 19, 70, 91, -70, 9, 61, 63],
       [-81, 24, 18, 72, -127, 28, -42, 93, -37, 32, -37, 51],
       [-84, 47, -44, 85, -79, 52, -5, 63, -21, 32, 0, 16]), 53726, 22113),
     (([-127, -55, -33, 26, -64, -14, -8, -46, -45, 27, 7, -50],
       [-42, 2, -1, 12, -109, 36, 80, 9, -65, -8, 28, 17],
       [-43, 27, -26, -31, -41, -7, -72, -10, -54, -9, -57, 14]), -79785, 10036),
     (([31, 73, -71, -47, 47, 71, -71, -43, 32, 25, -25, 7],
       [-6, 43, 127, -7, 46, 17, 66, -4, 43, -9, 20, 12],
       [-57, 55, -95, 27, -8, 6, -12, 47, 14, -23, 41, 47]), 52307, 13899),
     (([37, 43, 23, 25, 30, 29, -32, -7, 7, -28, 10, -9],
       [2, 22, 21, -7, -21, 49, 8, -115, -35, 22, 37, -87],
       [8, 31, -92, -53, -88, -9, -39, -127, -76, 92, 26, -64]), -35085, 18733),
     (([-20, -51, 117, 58, 24, -51, 82, 28, 81, -51, -8, 3],
       [-60, -121, 8, 119, 12, -127, 8, 59, 64, -51, 12, -15],
       [12, -62, -114, 69, 101, -97, -118, 75, 36, -28, -112, 6]), -871, 17068),
     (([72, -84, -43, 4, 65, -127, -56, 75, 16, -83, -77, 76],
       [26, -38, 15, 28, 5, -74, -3, 75, -2, -53, -12, 68],
       [0, 19, -6, 9, -1, -17, -2, 56, -22, -22, 13, 51]), 4768, 12690),
     (([-80, 46, -80, -95, -46, 15, -57, -40, 23, 4, -31, -15],
       [-115, 60, -15, -79, -81, 127, 45, -125, -26, 61, 19, -48],
       [-38, 36, -25, -59, -53, 83, 77, -64, -35, 50, 36, -30]), -58530, 16743)]"

lemma net_chans1: "channels 4 net_w1 net_b1 net_scales1 = net_chans1"
  by (simp add: channels_eval kernel_row_def upt_kernel net_w1_def net_b1_def net_scales1_def net_chans1_def del: channels.simps(1))

lemma net_row1_0:
  "conv_row 1 15867 (-128) net_chans1 8 6
     [-128, -128, -124, -128, -128, -128, -124, -128, -128, -128, -124, -128, -128, -128, -124, -128, -128, -128,
     -124, -128, -128, -128, -124, -128, -128, -128, -124, -128, -128, -128, -124, -128, -128, -128, -124, -128,
     -128, -128, -124, -128, -128, -128, -124, -128, -128, -128, -124, -128, -128, -128, -124, -128]
     [-128, -128, -124, -128, -128, -128, -124, -128, -128, -128, -124, -128, -128, -128, -124, -128, -128, -128,
     -58, -105, -128, -128, -25, 22, -128, -128, -16, 14, -128, -68, -35, 100, -128, -58, -107, -22, -128, -128,
     -124, -128, -128, -128, -124, -128, -128, -128, -124, -128, -128, -128, -124, -128]
     [-128, -128, -124, -128, -128, -128, -124, -128, -128, -128, -124, -128, -128, -128, -71, -128, -128, -128,
     37, -128, 8, -69, 35, -128, 61, -101, 12, -128, -83, -128, 79, -128, -128, 63, -42, 64, -128, -128, -124,
     -128, -128, -128, -124, -128, -128, -128, -124, -128, -128, -128, -124, -128] =
     [-75, -118, -45, -128, -90, -82, -78, -83, -113, -122, -111, -101, -81, -128, -65, -46, -128, -126, -128,
     -101, -128, -128, -2, -128, -128, -56, -128, -123, -128, -128, 55, -128, -128, -30, -54, -80, -125, -95, -52,
     -123, -75, -118, -45, -128, -90, -82, -78, -83]"
  by code_simp

lemma net_row1_1:
  "conv_row 1 15867 (-128) net_chans1 8 6
     [-128, -128, -124, -128, -128, -128, -124, -128, -128, -128, -124, -128, -128, -128, -71, -128, -128, -128,
     37, -128, 8, -69, 35, -128, 61, -101, 12, -128, -83, -128, 79, -128, -128, 63, -42, 64, -128, -128, -124,
     -128, -128, -128, -124, -128, -128, -128, -124, -128, -128, -128, -124, -128]
     [-128, -128, -124, -128, -128, -128, -124, -128, -128, -128, -124, -128, -96, -128, -63, -128, 79, 5, 2, -128,
     -83, -80, -78, -128, -128, -128, -84, -128, -128, -128, 48, -128, -83, 76, -28, -2, -128, -128, -124, -128,
     -128, -128, -124, -128, -128, -128, -124, -128, -128, -128, -124, -128]
     [-128, -128, -124, -128, -128, -128, -124, -128, -128, -128, -124, -128, -122, -128, -121, -128, -121, -125,
     -115, -128, -128, -128, -114, -125, -128, -128, -6, -128, -91, -83, 63, -128, -49, 19, -63, -73, -128, -128,
     -124, -128, -128, -128, -124, -128, -128, -128, -124, -128, -128, -128, -124, -128] =
     [-75, -118, -45, -128, -90, -82, -78, -83, -116, -123, -108, -98, -92, -40, -128, -92, -128, -128, -128, -36,
     -33, -91, -128, -128, -128, -20, -128, -128, -128, -128, -128, -122, -128, -2, -113, -54, -33, -125, -128,
     -128, -75, -118, -45, -128, -90, -82, -78, -83]"
  by code_simp

lemma net_row1_2:
  "conv_row 1 15867 (-128) net_chans1 8 6
     [-128, -128, -124, -128, -128, -128, -124, -128, -128, -128, -124, -128, -122, -128, -121, -128, -121, -125,
     -115, -128, -128, -128, -114, -125, -128, -128, -6, -128, -91, -83, 63, -128, -49, 19, -63, -73, -128, -128,
     -124, -128, -128, -128, -124, -128, -128, -128, -124, -128, -128, -128, -124, -128]
     [-128, -128, -124, -128, -128, -128, -124, -128, -128, -128, -124, -128, -128, -128, -124, -128, -128, -128,
     -124, -128, -128, -128, -49, -128, -128, -128, 58, -128, 6, 60, -16, -96, -121, -120, -112, -128, -128, -128,
     -124, -128, -128, -128, -124, -128, -128, -128, -124, -128, -128, -128, -124, -128]
     [-128, -128, -124, -128, -128, -128, -124, -128, -128, -128, -124, -128, -128, -128, -124, -128, -128, -128,
     -95, -126, -128, -128, 41, -128, -35, 39, 27, -76, -97, -84, -93, -128, -128, -128, -124, -128, -128, -128,
     -124, -128, -128, -128, -124, -128, -128, -128, -124, -128, -128, -128, -124, -128] =
     [-75, -118, -45, -128, -90, -82, -78, -83, -82, -118, -58, -128, -87, -91, -79, -81, -128, -115, -128, -108,
     -62, -128, -128, -1, -128, -85, -128, -51, -128, -128, -128, -119, -128, -84, -128, -99, -49, -82, -122, -121,
     -75, -118, -45, -128, -90, -82, -78, -83]"
  by code_simp

lemma net_row1_3:
  "conv_row 1 15867 (-128) net_chans1 8 6
     [-128, -128, -124, -128, -128, -128, -124, -128, -128, -128, -124, -128, -128, -128, -124, -128, -128, -128,
     -95, -126, -128, -128, 41, -128, -35, 39, 27, -76, -97, -84, -93, -128, -128, -128, -124, -128, -128, -128,
     -124, -128, -128, -128, -124, -128, -128, -128, -124, -128, -128, -128, -124, -128]
     [-128, -128, -124, -128, -128, -128, -124, -128, -128, -128, -124, -128, -128, -128, -122, -128, -128, -128,
     -19, -128, -112, -94, 74, -118, -48, 31, -45, -80, -128, -128, -124, -128, -128, -128, -124, -128, -128, -128,
     -124, -128, -128, -128, -124, -128, -128, -128, -124, -128, -128, -128, -124, -128]
     [-128, -128, -124, -128, -128, -128, -124, -128, -128, -128, -124, -128, -128, -128, -79, -128, -128, -128,
     52, -128, 6, 57, 7, -99, -108, -99, -98, -128, -128, -128, -124, -128, -128, -128, -124, -128, -128, -128,
     -124, -128, -128, -128, -124, -128, -128, -128, -124, -128, -128, -128, -124, -128] =
     [-75, -118, -45, -128, -90, -82, -78, -83, -128, -125, -107, -98, -67, -128, -84, -42, -128, -91, -128, -110,
     -128, -128, -128, -27, -128, -57, -128, -53, -23, -121, -128, -128, -75, -118, -45, -128, -90, -82, -78, -83,
     -75, -118, -45, -128, -90, -82, -78, -83]"
  by code_simp

lemma net_row1_4:
  "conv_row 1 15867 (-128) net_chans1 8 6
     [-128, -128, -124, -128, -128, -128, -124, -128, -128, -128, -124, -128, -128, -128, -79, -128, -128, -128,
     52, -128, 6, 57, 7, -99, -108, -99, -98, -128, -128, -128, -124, -128, -128, -128, -124, -128, -128, -128,
     -124, -128, -128, -128, -124, -128, -128, -128, -124, -128, -128, -128, -124, -128]
     [-128, -128, -124, -128, -128, -128, -124, -128, -128, -128, -124, -128, -128, -128, -45, -128, -128, -128,
     103, -128, -128, 10, 13, 107, -128, -128, -37, 41, -128, -124, -49, 41, -128, -128, -70, -24, -128, -128, -42,
     9, -128, -128, -28, -7, -128, -128, -25, 43, -128, -57, -53, 86]
     [-128, -128, -124, -128, -128, -128, -124, -128, -128, -128, -124, -128, -96, -128, -84, -128, -18, -128, 51,
     -128, -32, -125, 60, -128, -70, -128, 84, -128, -128, -119, 94, -109, -128, -114, 27, -103, -30, -127, 32,
     -128, 55, -111, 20, -128, 85, -56, 7, -128, 30, -64, -12, -128] =
     [-75, -118, -45, -128, -90, -82, -78, -83, -128, -126, -85, -90, -86, -123, -128, -69, -128, -46, -128, -29,
     -128, -128, -128, -128, -128, -62, -128, -128, -128, -128, 42, -128, -128, -105, -128, -104, -128, -128, 7,
     -128, -128, -127, -128, -128, -128, -99, 28, -128]"
  by code_simp

lemma net_row1_5:
  "conv_row 1 15867 (-128) net_chans1 8 6
     [-128, -128, -124, -128, -128, -128, -124, -128, -128, -128, -124, -128, -96, -128, -84, -128, -18, -128, 51,
     -128, -32, -125, 60, -128, -70, -128, 84, -128, -128, -119, 94, -109, -128, -114, 27, -103, -30, -127, 32,
     -128, 55, -111, 20, -128, 85, -56, 7, -128, 30, -64, -12, -128]
     [-128, -128, -124, -128, -128, -128, -124, -128, -128, -128, -124, -128, -128, -128, -124, -128, -63, -128,
     -89, -128, -45, -122, -65, -128, 2, -128, -43, -128, 45, -112, -3, -128, -18, -95, -36, -128, -67, -109, -75,
     -128, -124, -124, -116, -128, -128, -128, -124, -128, -128, -128, -124, -128]
     [-128, -128, -124, -128, -128, -128, -124, -128, -128, -128, -124, -128, -128, -128, -124, -128, -128, -128,
     -124, -128, -128, -128, -124, -128, -128, -128, -124, -128, -128, -128, -124, -128, -128, -128, -124, -128,
     -128, -128, -124, -128, -128, -128, -124, -128, -128, -128, -124, -128, -128, -128, -124, -128] =
     [-75, -118, -45, -128, -90, -82, -78, -83, -96, -118, -102, -128, -86, -23, -128, -111, -124, -114, -128,
     -128, -70, 82, -128, -128, -128, -113, -128, -128, -86, 62, -128, -128, -128, -118, -128, -117, -63, 47, -128,
     -128, -101, -117, -128, -101, -37, 36, -119, -128]"
  by code_simp

lemma net_rows_step1: "conv_rows 1 15867 (-128) net_chans1 8 6 net_rows1 = net_rows2"
  unfolding net_rows1_def net_rows2_def conv_rows.simps
    net_row1_0 net_row1_1 net_row1_2 net_row1_3 net_row1_4 net_row1_5
  by (rule refl)

subsection \<open>Layer 2\<close>

definition net_w2 :: "int list" where
  "net_w2 =
    [-5, -8, 73, -103, -5, -42, -126, -1, 7, -33, -3, 22, 73, 40, -3, 3, 16, 16, 14, 19, -2, 25, 49, 35, 13, -127,
     -91, 1, -34, -5, 24, -8, -54, -10, -31, -14, 20, -7, -1, 61, 73, 31, 45, -8, 4, 66, 5, 19, -15, 27, 3, 42, -5,
     23, -34, -19, -5, -26, -10, -56, 22, 5, -43, 50, 67, 16, 19, 56, 64, -23, 5, 41, -92, -82, 45, -85, -95, 5,
     -54, -127, 74, -48, -70, -27, 61, -56, -68, 6, -21, 43, 50, -7, 18, 64, 46, -52, 16, -28, 4, 94, 88, 3, 47,
     26, 51, -46, -11, -12, 17, 44, 8, -3, -35, 23, 17, -20, 72, -126, -14, 62, -28, 34, 17, 42, -56, 14, 42, 12,
     83, -80, 75, 10, -53, 9, -7, 66, 71, 9, 106, 48, -30, -4, 2, -69, 72, 10, -12, -36, 127, -42, -99, -3, -80, 7,
     18, 97, 52, 17, -50, 68, -64, -3, 13, 25, 41, -49, -5, -51, -32, -19, -82, -34, -23, -9, 34, 25, 17, -23, 25,
     24, -48, 82, 23, -38, 31, -76, 16, 35, 54, -17, 8, -35, -62, -24, 48, -45, 8, 35, 2, 36, -103, 29, -19, 18, 3,
     17, -18, -27, -36, -14, 19, 10, 38, 26, -14, 2, -8, -4, -53, -124, 92, -19, 29, -103, -14, 87, 62, -13, -118,
     -42, -42, -63, 22, 5, -127, 0, -3, -110, -39, 54, -25, 37, 23, -24, 5, 25, 51, 13, 72, -84, -33, 21, -23, -11,
     -67, -9, -16, 49, 114, 35, 22, 101, -30, -75, -12, 13, -22, -68, -13, 59, 90, -33, -111, 16, -23, -9, 32, -78,
     -5, -23, -4, 15, -74, 59, 4, 4, 27, 37, -107, -58, -43, -6, -95, -112, -34, -71, -117, 57, -24, -63, 9, -7, 5,
     29, 27, 15, 57, -1, -43, 70, -9, 41, 122, 106, -6, -9, 8, 61, -81, 7, 86, 65, 2, -41, -20, -25, 1, -32, -47,
     -71, -63, -108, -44, -21, -54, -35, -42, -78, -31, -31, 12, -4, 56, 17, 1, -22, -35, 35, -127, -28, 16, -1, 0,
     32, 26, -57, -12, 59, -7, -27, -127, -25, 18, -32, -21, 7, 14, 55, -10, 54, -10, -19, 39, 9, 56, 12, 13, -23,
     20, -18, -34, 22, 30, 44, 34, 34, -29, -5, 20, 69, 8, -14, -57, -8, -7, -12, 19, -37, -34, 16, 33, -35, 4, 6,
     34, 15, 26, 35, 24, -17, -20, 0, -34, -39, -60, -49, 11, -16, -2, 55, -14, -18, -12, 76, 72, -20, -67, 39, -5,
     -60, -22, 9, 41, 0, 12, 42, 46, -36, -8, 3, -47, -77, 22, 4, -127, -45, 9, -9, -45, -6, -11, -45, -32, -32,
     -58, -1, 25, -10, 47, 1, -9, 10, 38, 2, -11, 44, 17, 11, 34, -1, -4, 6, -35, -3, 22, -39, -21, 79, 28, -32,
     -31, -29, -43, 21, -24, -10, 100, 41, 61, -61, 35, 73, -31, -50, -37, -68, -34, -39, -29, -45, -80, 12, 34,
     42, 44, 8, 13, 12, 127, -10, 27, -45, 23, -32, 17, -10, -36, -3, 8, -54, -10, 40, -13, -29, -73, 49, 9, 32,
     20, -88, 24, -14, -29, 37, 59, -41, 26, -59, -72, -30, -14, 11, -8, 30, -71, -6, 63, -47, -12, -51, 36, -34,
     3, 65, 17, 8, -3, -26, -35, -4, 34, 20, 15, 7, 14, 37, 1, -40, 2, 43, -7, -108, -36, 31, -6, -6, 124, 113,
     -17, 9, 77, -97, -71, -127, -24, 32, -26, 73, 67, 22, -48, 73, 55, -33, 0, -14, -102, 21, -102, -113, -40,
     -45, 70, -48, -33, -56, -41, -16, 36, 18, -1, 18, -7, 66, 21, -16, 16, 19, -82, -28, 51, -90, 32, 30, -78,
     -33, 36, -38, 6, 113, 98, 42, 10, 44, 52, -52, 39, -21, 58, 98, -16, 20, 31, 86, 44, -52, 78, 54, 72, -4,
     -112, 28, 13, -54, 29, 88, 22, 68, 26, -21, -120, 15, 33, -7, -5, 30, 90, 46, -89, 13, -5, 16, -65, -47, 59,
     -25, 17, 43, 60, -35, -5, 8, -30, -94, -127, -46, 1, -61, -26, 41, -82, -34, 51, -15, 5, 114, 41, -32, 7, 5,
     -63, -49, -73, -14, -20, 24, 81, -1, -30, 61, 53, 12, -77, 6, 50, -91, -83, 34, 61, -21, 127, 69, -110, -119,
     12, -57, 32, 18, 59, 0, 82, 29, 8, -80, -93, -18, -36, 15, 28, -6, 43, 6, -6, 3, 4, -31, -46, 22, -8, -34,
     -23, 57, 34, 48, 63, 54, 20, 31, 30, -53, 62, 43, -44, -89, -116, -15, -67, -48, -32, 50, 33, -1, 70, 107,
     -11, -3, 81, 53, -56, -50, -89, 6, -17, -70, -8, 84, 30, 29, 55, 39, -42, -46, -127, -10, -7, -32, -22, -60,
     -3, -6, -28, 76, 41, -5, 42, -42, -59, -58, 12, 49, 36, 60, -4, 14, 2, -108, -16, -22, 64, 55, 34, 31, -50,
     -61, -30, -16, 42, 36, -10, -19, -35, -43, -24, 42, 77, 89, 46, 22, 17, 28, 21, 45, 24, -59, -6, -3, 31, -8,
     -45, 43, -21, -25, -10, -55, -36, 52, -8, -41, -18, -41, 28, 15, 29, 31, -101, -97, -40, 3, 48, 58, -76, 2,
     -50, 26, 8, 67, -27, -8, -33, 40, -65, -40, -87, -110, -25, -66, 24, -23, 110, 96, -105, 2, 42, -5, -49, 7,
     11, -24, -36, 5, 45, 67, 60, 52, 71, 38, 9, -105, -103, -14, -73, 21, -98, -76, -42, -117, 11, -70, -70, -22,
     -47, 2, 127, 56, -15, 48, 41, 51, 76, 48, 82, 29, 1, 83, 50, -65, -55, -24, 8, -41, -55, -32, -7, -56, 42,
     -49, -30, 62, 8, 23, -3, 5, -55, -18, -13, -45, 5, 26, -1, 22, 3, 16, -30, 61, 32, -18, -1, -7, 10, -17, 9,
     10, 2, -7, -3, -38, -34, 42, 9, 8, 7, -48, 2, -45, 127, -33, -18, 44, 39, -1, -32, -10, -9, 15, -23, -14, 34,
     -5, -11, -1, 61, 83, 20, -21, 21, -2, -28, 6, -36, 39, 17, -29, 27, -99, -40, 7, -20, -51, -80, -18, -8, 5,
     13, 44, 36, -8, -33, -2, -20, 27, 105, -26, 4, -37, 4, 59, 83, 27, 61, 32, 7, 0, -56, -37, 71, -41, -32, -40,
     -57, -34, -36, -26, 25, -36, -9, -17, 20, 51, -13, 45, -18, -84, -31, -100, -5, -43, -2, -1, 20, 45, -127, -4,
     -16, 3, 6, -52, -29, 30, -33, -94, -17, -19, -21, 33, 6, 60, 60, 127, 67, -9, 22, 1, 55, 44, 77, -60, -7, -11,
     16, 43, -5, 2, -47, 12, 8, -103, 43, -5, -76, -4, -29, -43, -44, 55, -52, 4, 41, -6, 81, 22, 24, 25, 3, 1, 10,
     -25, 68, -65, 1, -12, -9, -9, -27, 42, 111, 54, 31, 76, 3, -109, -37, -40, -32, 58, 24, -8, 8, 14, 70, 7, -29,
     -50]"

lemma net_w2: "map sint (take 1152 (drop 792 mdl_data)) = net_w2"
  by (simp add: mdl_data_def length_blocks mdl_data_6_def mdl_data_7_def mdl_data_8_def mdl_data_9_def mdl_data_10_def mdl_data_11_def mdl_data_12_def mdl_data_13_def mdl_data_14_def mdl_data_15_def net_w2_def)

definition net_b2 :: "int list" where
  "net_b2 = [22760, 10040, -7668, -38180, -96898, 6006, -42261, -13498, 32950, -20687, 14043, -4106, -32244, -7550,
     -60843, 49137]"

definition net_chans2 :: "channel list" where
  "net_chans2 =
    [(([-5, -33, 14, 1, 20, 66, -34, 50, -8, -3, 19, -34, -7, 5, -19, 67, 73, 22, -2, -5, -1, 19, -5, 16],
       [-103, 73, 25, 24, 61, -15, -26, 19, -5, 40, 49, -8, 73, 27, -10, 56, -42, -3, 35, -54, 31, 3, -56, 64],
       [-126, 3, 13, -10, 45, 42, 22, -23, -1, 16, -127, -31, -8, -5, 5, 5, 7, 16, -91, -14, 4, 23, -43, 41]), 22760, 2925),
     (([-92, -48, 50, 94, 17, -126, 42, 66, -82, -70, -7, 88, 44, -14, 12, 71, 45, -27, 18, 3, 8, 62, 83, 9],
       [-85, 61, 64, 47, -3, -28, -80, 106, -95, -56, 46, 26, -35, 34, 75, 48, 5, -68, -52, 51, 23, 17, 10, -30],
       [-54, 6, 16, -46, 17, 42, -53, -4, -127, -21, -28, -11, -20, -56, 9, 2, 74, 43, 4, -12, 72, 14, -7, -69]), 10040, 4366),
     (([72, 7, 13, -34, -48, -17, 2, -27, 10, 18, 25, -23, 82, 8, 36, -36, -12, 97, 41, -9, 23, -35, -103, -14],
       [-36, 52, -49, 34, -38, -62, 29, 19, 127, 17, -5, 25, 31, -24, -19, 10, -42, -50, -51, 17, -76, 48, 18, 38],
       [-99, 68, -32, -23, 16, -45, 3, 26, -3, -64, -19, 25, 35, 8, 17, -14, -80, -3, -82, 24, 54, 35, -18, 2]), -7668, 3366),
     (([-8, 87, -127, -24, -23, 101, 90, -23, -4, 62, 0, 5, -11, -30, -33, -4, -53, -13, -3, 25, -67, -75, -111, 15],
       [-124, -118, -110, 51, -9, -12, 16, -74, 92, -42, -39, 13, -16, 13, -23, 59, -19, -42, 54, 72, 49, -22, -9, 4],
       [29, -63, -25, -84, 114, -68, 32, 4, -103, 22, 37, -33, 35, -13, -78, 27, -14, 5, 23, 21, 22, 59, -5, 37]), -38180, 4890),
     (([-107, 57, 57, -9, -20, -21, 56, -1, -58, -24, -1, 8, -25, -54, 17, 0, -43, -63, -43, 61, 1, -35, 1, 32],
       [-6, 9, 70, -81, -32, -42, -22, 26, -95, -7, -9, 7, -47, -78, -35, -57, -112, 5, 41, 86, -71, -31, 35, -12],
       [-34, 29, 122, 65, -63, -31, -127, 59, -71, 27, 106, 2, -108, 12, -28, -7, -117, 15, -6, -41, -44, -4, 16,
        -27]), -96898, 4273),
     (([-127, 54, 20, -5, 19, 15, -60, 76, -25, -10, -18, 20, -37, 26, -49, 72, 18, -19, -34, 69, -34, 35, 11, -20],
       [-32, 39, 22, 8, 16, 24, -16, -67, -21, 9, 30, -14, 33, -17, -2, 39, 7, 56, 44, -57, -35, -20, 55, -5],
       [14, 12, 34, -8, 4, 0, -14, -60, 55, 13, 34, -7, 6, -34, -18, -22, -10, -23, -29, -12, 34, -39, -12, 9]), 6006, 3085),
     (([41, -77, -11, 1, 34, 79, 100, -68, 0, 22, -45, -9, -1, 28, 41, -34, 12, 4, -32, 10, -4, -32, 61, -39],
       [42, -127, -32, 38, 6, -31, -61, -29, 46, -45, -58, 2, -35, -29, 35, -45, -36, 9, -1, -11, -3, -43, 73, -80],
       [-8, -9, 25, 44, 22, 21, -31, 12, 3, -45, -10, 17, -39, -24, -50, 34, -47, -6, 47, 11, -21, -10, -37, 42]), -42261, 3135),
     (([44, -32, -13, -14, -14, -51, -35, -40, 8, 17, -29, -29, 11, 36, -4, 2, 13, -10, -73, 37, -8, -34, 34, 43],
       [12, -36, 49, 59, 30, 3, 20, -7, 127, -3, 9, -41, -71, 65, 15, -108, -10, 8, 32, 26, -6, 17, 7, -36],
       [27, -54, 20, -59, 63, 8, 14, 31, -45, -10, -88, -72, -47, -3, 37, -6, 23, 40, 24, -30, -12, -26, 1, -6]), -13498, 3849),
     (([124, 32, 0, -48, -7, -90, 98, 98, 113, -26, -14, -33, 66, 32, 42, -16, -17, 73, -102, -56, 21, 30, 10, 20],
       [9, 67, 21, -41, -16, -78, 44, 31, 77, 22, -102, -16, 16, -33, 52, 86, -97, -48, -113, 36, 19, 36, -52, 44],
       [-71, 73, -40, 18, -82, -38, 39, -52, -127, 55, -45, -1, -28, 6, -21, 78, -24, -33, 70, 18, 51, 113, 58, 54]), 32950, 5133),
     (([72, 68, 90, -25, -127, -15, -73, 12, -4, 26, 46, 17, -46, 5, -14, -77, -112, -21, -89, 43, 1, 114, -20, 6],
       [28, -120, 13, 60, -61, 41, 24, 50, 13, 15, -5, -35, -26, -32, 81, -91, -54, 33, 16, -5, 41, 7, -1, -83],
       [29, -7, -65, 8, -82, 5, -30, 34, 88, -5, -47, -30, -34, -63, 61, 61, 22, 30, 59, -94, 51, -49, 53, -21]), -20687, 4543),
     (([127, 0, 28, 22, 20, -15, -11, -70, 69, 82, -6, -8, 31, -67, -3, -8, -110, 29, 43, -34, 30, -48, 81, 84],
       [-119, 8, 6, -23, -53, -32, 53, 30, 12, -80, -6, 57, 62, 50, -56, 29, -57, -93, 3, 34, 43, 33, -50, 55],
       [32, -18, 4, 48, -44, -1, -89, 39, 18, -36, -31, 63, -89, 70, 6, -42, 59, 15, -46, 54, -116, 107, -17, -46]), 14043, 4724),
     (([-127, 76, 36, 55, -10, 22, 31, 52, -10, 41, 60, 34, -19, 17, -8, -8, -7, -5, -4, 31, -35, 28, -45, -41],
       [-32, 42, 14, -50, -43, 21, 43, -18, -22, -42, 2, -61, -24, 45, -21, -41, -60, -59, -108, -30, 42, 24, -25,
        28],
       [-3, -58, -16, -16, 77, -59, -10, 15, -6, 12, -22, 42, 89, -6, -55, 29, -28, 49, 64, 36, 46, -3, -36, 31]), -4106, 2970),
     (([-101, 26, -87, 2, 45, -14, -70, 51, -97, 8, -110, 42, 67, -73, -22, 76, -40, 67, -25, -5, 60, 21, -47, 48],
       [3, -27, -66, -49, 52, -98, 2, 82, 48, -8, 24, 7, 71, -76, 127, 29, 58, -33, -23, 11, 38, -42, 56, 1],
       [-76, 40, 110, -24, 9, -117, -15, 83, 2, -65, 96, -36, -105, 11, 48, 50, -50, -40, -105, 5, -103, -70, 41,
        -65]), -32244, 4411),
     (([-55, -49, -13, 61, 2, -48, -32, -1, -24, -30, -45, 32, -7, 2, -10, 61, 8, 62, 5, -18, -3, -45, -9, 83],
       [-41, 8, 26, -1, -38, 127, 15, 20, -55, 23, -1, -7, -34, -33, -23, -21, -32, -3, 22, 10, 42, -18, -14, 21],
       [-7, 5, 3, -17, 9, 44, 34, -2, -56, -55, 16, 9, 8, 39, -5, -28, 42, -18, -30, 10, 7, -1, -11, 6]), -7550, 3112),
     (([-36, -51, -33, 59, 71, -36, -31, -4, 39, -80, -2, 83, -41, -9, -100, -16, 17, -18, -20, 27, -32, -17, -5, 3],
       [-29, -8, 27, 61, -40, 20, -43, 6, 27, 5, 105, 32, -57, 51, -2, -52, -99, 13, -26, 7, -34, -13, -1, -29],
       [-40, 44, 4, 0, -36, 45, 20, 30, 7, 36, -37, -56, -26, -18, 45, -33, -20, -8, 4, -37, 25, -84, -127, -94]), -60843, 3786),
     (([-17, -9, 16, -5, 41, -25, 111, 58, -19, 22, 43, -76, -6, 68, 54, 24, -21, 1, -5, -4, 81, -65, 31, -8],
       [33, 55, 2, -29, 22, 1, 76, 8, 6, 44, -47, -43, 24, -12, 3, 14, 60, 77, 12, -44, 25, -9, -109, 70],
       [60, -60, 8, 55, 3, -9, -37, 7, 127, -7, -103, -52, 1, -27, -40, -29, 67, -11, 43, 4, 10, 42, -32, -50]), 49137, 3282)]"

lemma net_chans2: "channels 8 net_w2 net_b2 net_scales2 = net_chans2"
  by (simp add: channels_eval kernel_row_def upt_kernel net_w2_def net_b2_def net_scales2_def net_chans2_def del: channels.simps(1))

lemma net_row2_0:
  "conv_row 1 4519 (-128) net_chans2 16 2
     [-75, -118, -45, -128, -90, -82, -78, -83, -113, -122, -111, -101, -81, -128, -65, -46, -128, -126, -128,
     -101, -128, -128, -2, -128, -128, -56, -128, -123, -128, -128, 55, -128, -128, -30, -54, -80, -125, -95, -52,
     -123, -75, -118, -45, -128, -90, -82, -78, -83]
     [-75, -118, -45, -128, -90, -82, -78, -83, -116, -123, -108, -98, -92, -40, -128, -92, -128, -128, -128, -36,
     -33, -91, -128, -128, -128, -20, -128, -128, -128, -128, -128, -122, -128, -2, -113, -54, -33, -125, -128,
     -128, -75, -118, -45, -128, -90, -82, -78, -83]
     [-75, -118, -45, -128, -90, -82, -78, -83, -82, -118, -58, -128, -87, -91, -79, -81, -128, -115, -128, -108,
     -62, -128, -128, -1, -128, -85, -128, -51, -128, -128, -128, -119, -128, -84, -128, -99, -49, -82, -122, -121,
     -75, -118, -45, -128, -90, -82, -78, -83] =
     [-128, -90, -128, -119, -100, -126, -84, -81, -128, -128, -94, -89, -128, -104, -128, -128, -128, -101, -80,
     -1, -77, -128, 43, -94, -128, -116, -128, -113, -128, -94, -128, -10]"
  by code_simp

lemma net_row2_1:
  "conv_row 1 4519 (-128) net_chans2 16 2
     [-75, -118, -45, -128, -90, -82, -78, -83, -82, -118, -58, -128, -87, -91, -79, -81, -128, -115, -128, -108,
     -62, -128, -128, -1, -128, -85, -128, -51, -128, -128, -128, -119, -128, -84, -128, -99, -49, -82, -122, -121,
     -75, -118, -45, -128, -90, -82, -78, -83]
     [-75, -118, -45, -128, -90, -82, -78, -83, -128, -125, -107, -98, -67, -128, -84, -42, -128, -91, -128, -110,
     -128, -128, -128, -27, -128, -57, -128, -53, -23, -121, -128, -128, -75, -118, -45, -128, -90, -82, -78, -83,
     -75, -118, -45, -128, -90, -82, -78, -83]
     [-75, -118, -45, -128, -90, -82, -78, -83, -128, -126, -85, -90, -86, -123, -128, -69, -128, -46, -128, -29,
     -128, -128, -128, -128, -128, -62, -128, -128, -128, -128, 42, -128, -128, -105, -128, -104, -128, -128, 7,
     -128, -128, -127, -128, -128, -128, -99, 28, -128] =
     [-83, -128, -109, -110, -73, -128, -128, -128, -90, -128, -50, -108, -75, -77, -128, -38, -57, -75, -112,
     -128, -62, -43, -128, -128, -112, -48, -106, -128, 125, -128, -72, -128]"
  by code_simp

lemma net_rows_step2: "conv_rows 1 4519 (-128) net_chans2 16 2 net_rows2 = net_rows3"
  unfolding net_rows2_def net_rows3_def conv_rows.simps
    net_row2_0 net_row2_1
  by (rule refl)

end
