(* ===== verification/Digit_Values.thy ===== *)
theory Digit_Values
  imports Digit_Rows
begin

section \<open>The built-in picture in the other layers of the shipped network\<close>

text \<open>
  The values of the pooling, fully connected and softmax layers on the output of the convolutions,
  evaluated in the arithmetic of \<open>Soft_Float\<close>: the averages, the ten scores, their approximate
  exponentials and the ten probabilities, of which the third is the greatest.
\<close>

lemmas float_eval = fp_eval c_int

lemma sum_less_4: "(\<Sum>k<4. g k) = g 0 + g 1 + g 2 + g (3 :: nat)"
  by (simp add: eval_nat_numeral)

lemma upt_channels: "[0..<10] = [0, 1, 2, 3, 4, 5, 6, 7, 8, 9]"
  "[0..<16] = [0, 1, 2, 3, 4, 5, 6, 7, 8, 9, 10, 11, 12, 13, 14, 15]"
  by (simp_all add: upt_rec)

definition net_pool :: "int list" where
  "net_pool = [-54, -51, -74, -29, -1, -72, 8, -74, -92, -69, -41, -79, 67, -57, -92, 3]"

definition net_scores :: "int list" where
  "net_scores = [15, 12, 82, 1, -46, -23, 14, 11, 5, 0]"

definition net_probs :: "int list" where
  "net_probs = [-127, -127, 127, -127, -128, -128, -127, -127, -127, -127]"

definition net_ds :: "fp list" where
  "net_ds =
    [unpack32 0xC082CDE5, unpack32 0xC091568D, unpack32 0x40C1C8BC, unpack32 0xC0C6A0F4, unpack32 0xC155299C,
     unpack32 0xC11D7319, unpack32 0xC087A61D, unpack32 0xC0962EC5, unpack32 0xC0B34015, unpack32 0xC0CB792C]"

definition net_es :: "fp list" where
  "net_es =
    [unpack32 0x3852F100, unpack32 0x37E8DA40, unpack32 0x3F800100, unpack32 0x36CFCC40, unpack32 0x31C31840,
     unpack32 0x34441CC0, unpack32 0x3847C980, unpack32 0x37DA51C0, unpack32 0x374968C0, unpack32 0x36C52680]"

definition net_ps :: "fp list" where
  "net_ps =
    [unpack32 0x384EBF42, unpack32 0x37E076C4, unpack32 0x3F8000F8, unpack32 0x36AE3E51, unpack32 0xB58574A5,
     unpack32 0xB55B684A, unpack32 0x384397C2, unpack32 0x37D1EE44, unpack32 0x3738A1C8, unpack32 0x36A39891]"

definition net_out :: "fp list" where
  "net_out =
    [unpack32 0x3B800000, unpack32 0x3B800000, unpack32 0x3F7F0000, unpack32 0x3B800000, unpack32 0x00000000,
     unpack32 0x00000000, unpack32 0x3B800000, unpack32 0x3B800000, unpack32 0x3B800000, unpack32 0x3B800000]"

lemma pool_values:
  "map (\<lambda>c. gap_requant (\<Sum>k<4. concat net_rows3 ! (k * 16 + c)) 4 (unpack32 0x3D680905) (-128) (unpack32 0x3CB71A21) (-128)) [0..<16] =
     map Some net_pool"
  by (simp add: upt_channels sum_less_4 net_rows3_def net_pool_def del: One_nat_def)
     (simp add: gap_requant_def float_eval cong: let_weak_cong)

definition net_wfc :: "int list" where
  "net_wfc =
    [42, -30, 41, -65, 11, -35, 9, -6, 66, -79, -7, -62, 70, -46, 15, -75, 52, -22, -77, 23, -37, -5, -68, 15, 36,
     -33, -50, -7, 28, -32, -69, 56, -73, -30, 40, 12, 4, -109, 57, -29, -11, -18, 60, -58, 55, -10, -74, 65, -54,
     -70, -41, -19, -61, -3, 58, 13, -46, 29, 7, -87, -23, 6, 83, 37, 37, -41, 26, 49, -16, 14, -127, 25, -17, -64,
     10, 45, -75, 51, -5, -26, -36, 29, 3, -125, -30, 72, -39, 40, 35, 49, 52, -26, -21, -37, -35, -36, -25, 78,
     -64, -49, 37, 60, -104, -75, -20, -52, 54, -61, 60, 8, -14, -29, 13, -9, 65, 68, -112, 31, 34, 7, -53, 11,
     -72, 9, -2, -56, -65, 11, -67, -11, 6, -46, 77, -52, 7, -33, 31, -5, -7, 47, -26, -94, 38, 0, -16, 54, -4,
     -23, -13, -21, 14, -80, -67, 63, -58, 28, -54, 77, 2, -12]"

lemma net_wfc: "map sint (take 160 (drop 2160 mdl_data)) = net_wfc"
  by (simp add: mdl_data_def length_blocks mdl_data_16_def mdl_data_17_def mdl_data_18_def net_wfc_def)

definition net_bfc :: "int list" where
  "net_bfc = [-19780, -23270, -15419, -21988, -15292, -13212, -25349, -15518, -17001, -13850]"

lemma score_values:
  "map (\<lambda>c. fc_requant (row_dot net_pool (take 16 (drop (c * 16) net_wfc)) + net_bfc ! c) (unpack32 0x3CB71A21)
       (unpack32 0x3CAFE2E9) (unpack32 0x3E1B06FD) 42) [0..<10] = map Some net_scores"
  by (simp add: upt_channels net_wfc_def net_pool_def net_bfc_def net_scores_def del: One_nat_def)
     (simp add: fc_requant_def float_eval cong: let_weak_cong)

lemma dequant_values:
  "map (\<lambda>q. f32_stored (f32_mul (f32_of_int (q - 42)) (unpack32 0x3E1B06FD))) net_scores = net_ds"
  by (simp add: net_scores_def net_ds_def f32_stored_def)
     (simp add: float_eval cong: let_weak_cong)

lemma exp_values:
  "sm_max net_ds = unpack32 0x40C1C8BC"
  "map (sm_e (unpack32 0x40C1C8BC)) net_ds = map Some net_es"
  "sm_sum net_es = unpack32 0x3F8006C5"
  "map sm_p net_es = net_ps"
  by (simp_all add: net_ds_def net_es_def net_ps_def sm_max_def sm_e_def sm_sum_def sm_p_def f32_stored_def tm_exp_def
        float_eval cong: let_weak_cong)

lemma prob_values:
  "map (sm_q (unpack32 0x3F8006C5) (unpack32 0x3B800000) (-128)) net_ps = map Some net_probs"
  by (simp add: net_ps_def net_probs_def sm_q_def float_eval cong: let_weak_cong)

lemma out_values:
  "map (\<lambda>q. map_option f32_stored (tm_dequant q (unpack32 0x3B800000) (-128))) net_probs = map Some net_out"
  by (simp add: net_out_def net_probs_def tm_dequant_def f32_stored_def float_eval cong: let_weak_cong)

end
