(* ===== verification/Digit_Layers.thy ===== *)
theory Digit_Layers
  imports Digit_Values
begin

section \<open>The layers of the shipped network on the built-in picture\<close>

text \<open>
  The values computed in the theories before, tied to the engine: with the shipped model in memory and
  the picture in the input tensor, the convolutions, the pooling and the fully connected layer are defined
  and store these values.
\<close>

subsection \<open>The convolutions\<close>

lemma image_ints:
  assumes "holds_image m" "map sint (take n (drop off mdl_data)) = ws" "off + n \<le> 2408" "i < n"
  shows "sint (the (ld8 m (padd (R_MODEL, int off) (int i)))) = ws ! i"
proof -
  have "ld8 m (R_MODEL, int (off + i)) = Some (mdl_data ! (off + i))" by (rule image_byte) (use assms in simp_all)
  then show ?thesis using assms by (auto simp: padd_def length_mdl_data)
qed

lemma digit_rows1:
  assumes "holds_image m" "conv_done net_ca0 net_scales0 15778 m m1" "holds_rows m (a_in net_ca0) net_rows0"
  shows "holds_rows m1 (a_out net_ca0) net_rows1"
proof -
  have b: "\<forall>c<4. conv_bias net_ca0 m c = net_b0 ! c"
    by (simp add: all_less_4 net_bias0 [OF assms(1)] net_b0_def del: One_nat_def)
  have len: "length net_w0 = 36" "length net_b0 = 4" "length net_scales0 = 4"
    by (simp_all add: net_w0_def net_b0_def net_scales0_def)
  have out: "conv_rows (a_act net_ca0) 15778 (a_out_zp net_ca0)
      (channels (m_c (a_in net_ca0)) net_w0 net_b0 net_scales0) (2 * m_c (a_in net_ca0)) (m_w (a_out net_ca0)) net_rows0 = net_rows1"
    by (simp add: net_chans0 net_rows_step0 del: One_nat_def)
  have "plain3x3 net_ca0" by (simp add: plain3x3_def)
  from conv_eval [OF assms(2) this assms(3), where ws = net_w0 and bs = net_b0, unfolded out]
  show ?thesis using image_ints [OF assms(1) net_w0] b len net_rows_shape by simp
qed

lemma digit_rows2:
  assumes "holds_image m" "conv_done net_ca1 net_scales1 15867 m m1" "holds_rows m (a_in net_ca1) net_rows1"
  shows "holds_rows m1 (a_out net_ca1) net_rows2"
proof -
  have b: "\<forall>c<8. conv_bias net_ca1 m c = net_b1 ! c"
    by (simp add: all_less_8 net_bias1 [OF assms(1)] net_b1_def del: One_nat_def)
  have len: "length net_w1 = 288" "length net_b1 = 8" "length net_scales1 = 8"
    by (simp_all add: net_w1_def net_b1_def net_scales1_def)
  have out: "conv_rows (a_act net_ca1) 15867 (a_out_zp net_ca1)
      (channels (m_c (a_in net_ca1)) net_w1 net_b1 net_scales1) (2 * m_c (a_in net_ca1)) (m_w (a_out net_ca1)) net_rows1 = net_rows2"
    by (simp add: net_chans1 net_rows_step1 del: One_nat_def)
  have "plain3x3 net_ca1" by (simp add: plain3x3_def)
  from conv_eval [OF assms(2) this assms(3), where ws = net_w1 and bs = net_b1, unfolded out]
  show ?thesis using image_ints [OF assms(1) net_w1] b len net_rows_shape by simp
qed

lemma digit_rows3:
  assumes "holds_image m" "conv_done net_ca2 net_scales2 4519 m m1" "holds_rows m (a_in net_ca2) net_rows2"
  shows "holds_rows m1 (a_out net_ca2) net_rows3"
proof -
  have b: "\<forall>c<16. conv_bias net_ca2 m c = net_b2 ! c"
    by (simp add: all_less_16 net_bias2 [OF assms(1)] net_b2_def del: One_nat_def)
  have len: "length net_w2 = 1152" "length net_b2 = 16" "length net_scales2 = 16"
    by (simp_all add: net_w2_def net_b2_def net_scales2_def)
  have out: "conv_rows (a_act net_ca2) 4519 (a_out_zp net_ca2)
      (channels (m_c (a_in net_ca2)) net_w2 net_b2 net_scales2) (2 * m_c (a_in net_ca2)) (m_w (a_out net_ca2)) net_rows2 = net_rows3"
    by (simp add: net_chans2 net_rows_step2 del: One_nat_def)
  have "plain3x3 net_ca2" by (simp add: plain3x3_def)
  from conv_eval [OF assms(2) this assms(3), where ws = net_w2 and bs = net_b2, unfolded out]
  show ?thesis using image_ints [OF assms(1) net_w2] b len net_rows_shape by simp
qed

lemma digit_convolutions:
  assumes m: "holds_image m" "svc_sizes m" and mdl: "image_handle mdl" and r: "holds_rows m net_input net_rows0"
  shows "\<exists>m3. run_layers base 3 (net_at m mdl outs net_input 0 64) = Some (TM_OK, net_at m3 mdl outs (a_in net_ca2) 3 2008) \<and>
    holds_image m3 \<and> svc_sizes m3 \<and> holds_ints m3 (R_MAIN, 1400) (concat net_rows3)"
proof -
  obtain m1 m2 m3 where run: "run_layers base 3 (net_at m mdl outs net_input 0 64) = Some (TM_OK, net_at m3 mdl outs (a_in net_ca2) 3 2008)"
    and d: "conv_done net_ca0 net_scales0 15778 m m1" "conv_done net_ca1 net_scales1 15867 m1 m2"
      "conv_done net_ca2 net_scales2 4519 m2 m3"
    using shipped_convolutions [OF m mdl] by blast
  have 1: "holds_image m1" "svc_sizes m1" using conv_done_keeps [OF d(1)] m by simp_all
  have 2: "holds_image m2" "svc_sizes m2" using conv_done_keeps [OF d(2)] 1 by simp_all
  have 3: "holds_image m3" "svc_sizes m3" using conv_done_keeps [OF d(3)] 2 by simp_all
  have "holds_rows m1 (a_out net_ca0) net_rows1" by (rule digit_rows1 [OF m(1) d(1)]) (use r in \<open>simp add: net_input_def\<close>)
  then have "holds_rows m2 (a_out net_ca1) net_rows2" by (intro digit_rows2 [OF 1(1) d(2)]) simp
  then have "holds_rows m3 (a_out net_ca2) net_rows3" by (intro digit_rows3 [OF 2(1) d(3)]) simp
  then show ?thesis using run 3 by (auto simp: holds_rows_def)
qed

subsection \<open>Pooling, scores and probabilities\<close>

text \<open>A layer that is not a convolution and no output.\<close>

lemma plain_step:
  assumes mdl: "image_handle mdl" and k: "0 < k" and h: "ld_head m (R_MODEL, off) = Some h" "h_is_out h = 0"
    and d: "dispatch_layer m (R_MAIN, 0) (R_MODEL, off) h (head_mat (h_in_dims h) (h_in_oft h))
              (head_mat (h_out_dims h) (h_out_oft h)) = Some (TM_OK, m')"
  shows "run_layer base (net_at m mdl outs inp k off) =
    Some (TM_OK, net_at m' mdl outs (head_mat (h_in_dims h) (h_in_oft h)) (Suc k) (off + int (h_size h)))"
proof -
  have "dispatch_layer m (R_MAIN, 0) (R_MODEL, off) h (head_mat (h_in_dims h) (h_in_oft h))
      \<lparr>m_dims = h_out_dims h ! 0, m_h = h_out_dims h ! 1, m_w = h_out_dims h ! 2, m_c = h_out_dims h ! 3,
       m_data = (R_MAIN, int (h_out_oft h))\<rparr> = Some (TM_OK, m')"
    unfolding head_mat_def [symmetric] by (rule d)
  then show ?thesis
    using mdl k h
    by (auto simp: run_layer_def image_handle_def net_at_def padd_def set_dims_all Let_def split: if_splits)
qed

lemma main_write_keeps:
  assumes a: "cm.agree_off (cells (R_MAIN, off) n) m m'"
  shows "svc_sizes m' = svc_sizes m" and "holds_image m' = holds_image m"
proof -
  have len: "length (m' r) = length (m r)" for r by (rule agree_off_length [OF a])
  have "m' R_MODEL = m R_MODEL"
  proof (rule nth_equalityI)
    fix i assume i: "i < length (m' R_MODEL)"
    have "ld8 m' (R_MODEL, int i) = ld8 m (R_MODEL, int i)" by (rule agree_off_ld8 [OF a]) (simp add: in_cells)
    with i len [of R_MODEL] show "m' R_MODEL ! i = m R_MODEL ! i" by (simp add: ld8_def)
  qed (rule len)
  moreover have "m' R_NULL = [] \<longleftrightarrow> m R_NULL = []" using len [of R_NULL] by (metis length_0_conv)
  ultimately show "svc_sizes m' = svc_sizes m" "holds_image m' = holds_image m"
    by (simp_all add: svc_sizes_def holds_image_def len)
qed

lemma map_upt_Some: "map f [0..<n] = map Some vs \<Longrightarrow> c < n \<Longrightarrow> f c = Some (vs ! c)"
proof -
  assume e: "map f [0..<n] = map Some vs" and c: "c < n"
  have "length vs = n" using arg_cong [OF e, of length] by simp
  with c arg_cong [OF e, of "\<lambda>xs. xs ! c"] show ?thesis by simp
qed

lemma digit_pool:
  assumes m: "holds_image m" "svc_sizes m" and v: "holds_ints m (R_MAIN, 1400) (concat net_rows3)" and mdl: "image_handle mdl"
  shows "\<exists>m'. run_layer base (net_at m mdl outs inp 3 2008) = Some (TM_OK, net_at m' mdl outs (head_mat [3, 2, 2, 16] 1400) 4 2056) \<and>
    holds_image m' \<and> svc_sizes m' \<and> holds_ints m' (R_MAIN, 0) net_pool"
proof -
  let ?in = "head_mat [3, 2, 2, 16] 1400" and ?out = "head_mat [1, 1, 1, 16] 0"
  have len: "length (concat net_rows3) = 64" by (simp add: net_rows3_def)
  have ref: "gap_ref ?in ?out m c 4 = (\<Sum>k<4. concat net_rows3 ! (k * 16 + c))" if "c < 16" for c
    unfolding gap_ref_def
  proof (rule sum.cong [OF refl])
    fix k :: nat assume "k \<in> {..<4}"
    with that have "k * 16 + c < length (concat net_rows3)" by (simp add: len)
    from holds_ints_nth [OF v net_rows_shape(6) this]
    show "sint (the (ld8 m (padd (m_data ?in) (int (k * m_c ?out + c))))) = concat net_rows3 ! (k * 16 + c)"
      by (simp add: head_mat_def)
  qed
  note val = map_upt_Some [OF pool_values]
  have "gap_ready ?in ?out (unpack32 0x3D680905) (-128) (unpack32 0x3CB71A21) (-128) m"
    using m(2) ref val by (auto simp: gap_ready_def readable_def head_mat_def in_object_def apart_def svc_sizes_def MDL_BUF_LEN_def)
  from gap_layer [OF this] obtain m' where run: "tml_gap ?in ?out (unpack32 0x3D680905) (-128) (unpack32 0x3CB71A21) (-128) m = Some (TM_OK, m')"
    and ag: "cm.agree_off (cells (R_MAIN, 0) 16) m m'"
    and out: "\<forall>c<16. ld8 m' (padd (R_MAIN, 0) (int c)) = Some (to_s8 (the (gap_requant (gap_ref ?in ?out m c 4) 4
       (unpack32 0x3D680905) (-128) (unpack32 0x3CB71A21) (-128))))"
    by (auto simp: head_mat_def)
  have "length net_pool = 16" by (simp add: net_pool_def)
  then have "holds_ints m' (R_MAIN, 0) net_pool" using out ref val by (simp add: holds_ints_def)
  moreover have "run_layer base (net_at m mdl outs inp 3 2008) = Some (TM_OK, net_at m' mdl outs ?in (Suc 3) (2008 + int (h_size net_head3)))"
    using plain_step [OF mdl _ net_head3_read [OF m(1)], of 3 m' base outs inp] run
    by (simp add: dispatch_layer_def net_head3_def tml_type_defs)
  ultimately show ?thesis using main_write_keeps [OF ag] m by (auto simp: net_sizes)
qed

definition net_fc :: tml_fc_layer where
  "net_fc = \<lparr>fc_ws_oft = 64, fc_w_oft = 104, fc_b_oft = 264\<rparr>"

lemma net_fc_read: "holds_image m \<Longrightarrow> ld_fc m (R_MODEL, 2056) = Some net_fc"
  by (simp add: ld_fc_def image_eval mdl_data_16_def net_fc_def)

lemma net_fc_scale: "holds_image m \<Longrightarrow> ld_f32 m (R_MODEL, 2120) = Some (unpack32 0x3CAFE2E9)"
proof -
  assume "holds_image m"
  then have "ld_u32 m (R_MODEL, 2120) = Some 0x3CAFE2E9" by (simp add: image_eval mdl_data_16_def)
  then show ?thesis by (simp add: ld_f32_def)
qed

lemma all_less_10: "(\<forall>c<(10::nat). P c) \<longleftrightarrow> (\<forall>c\<in>set [0, 1, 2, 3, 4, 5, 6, 7, 8, 9]. P c)"
  unfolding upt_channels [symmetric] by auto

lemma net_fc_words:
  assumes "holds_image m"
  shows "ld_s32 m (R_MODEL, 2320) = Some (-19780)"
    "ld_s32 m (R_MODEL, 2324) = Some (-23270)"
    "ld_s32 m (R_MODEL, 2328) = Some (-15419)"
    "ld_s32 m (R_MODEL, 2332) = Some (-21988)"
    "ld_s32 m (R_MODEL, 2336) = Some (-15292)"
    "ld_s32 m (R_MODEL, 2340) = Some (-13212)"
    "ld_s32 m (R_MODEL, 2344) = Some (-25349)"
    "ld_s32 m (R_MODEL, 2348) = Some (-15518)"
    "ld_s32 m (R_MODEL, 2352) = Some (-17001)"
    "ld_s32 m (R_MODEL, 2356) = Some (-13850)"
  using assms by (simp_all add: image_eval mdl_data_18_def wrap_s32_def)

lemma net_fc_bias: "holds_image m \<Longrightarrow> \<forall>c<10. the (ld_s32 m (padd (R_MODEL, 2320) (int (4 * c)))) = net_bfc ! c"
  by (simp add: all_less_10 padd_def net_fc_words net_bfc_def del: One_nat_def)

lemma digit_scores:
  assumes m: "holds_image m" "svc_sizes m" and v: "holds_ints m (R_MAIN, 0) net_pool" and mdl: "image_handle mdl"
  shows "\<exists>m'. run_layer base (net_at m mdl outs inp 4 2056) = Some (TM_OK, net_at m' mdl outs (head_mat [1, 1, 1, 16] 0) 5 2360) \<and>
    holds_image m' \<and> svc_sizes m' \<and> holds_ints m' (R_MAIN, 1448) net_scores"
proof -
  let ?in = "head_mat [1, 1, 1, 16] 0" and ?out = "head_mat [1, 1, 1, 10] 1448"
  let ?w = "(R_MODEL, 2160)" and ?b = "(R_MODEL, 2320)" and ?ws = "(R_MODEL, 2120)"
  let ?acc = "\<lambda>c. row_dot net_pool (take 16 (drop (c * 16) net_wfc)) + net_bfc ! c"
  have pool: "length net_pool = 16" "list_all in_s8 net_pool" by (simp_all add: net_pool_def in_s8_def)
  have wfc: "length net_wfc = 160" by (simp add: net_wfc_def)
  have acc: "fc_acc ?in ?w ?b m c = ?acc c" if c: "c < 10" for c
  proof -
    have "sint (the (ld8 m (padd ?w (int (c * 16 + i))))) = net_wfc ! (c * 16 + i)" if "i < 16" for i
      using image_ints [OF m(1) net_wfc, of "c * 16 + i"] c that by simp
    then have "dot_ref m (R_MAIN, 0) (padd ?w (int (c * 16))) 16 = (\<Sum>i<16. net_pool ! i * net_wfc ! (c * 16 + i))"
      using holds_ints_nth [OF v pool(2)] pool(1) by (simp add: dot_ref_def)
    also have "\<dots> = row_dot net_pool (take 16 (drop (c * 16) net_wfc))"
      using row_dot_sum [of "take 16 (drop (c * 16) net_wfc)" net_pool] pool wfc c by simp
    finally show ?thesis using net_fc_bias [OF m(1)] c by (simp add: fc_acc_def head_mat_def)
  qed
  note val = map_upt_Some [OF score_values]
  have rng: "in_s32 (?acc c)" if "c < 10" for c
  proof -
    have "\<forall>c<10. in_s32 (?acc c)"
      by (simp add: all_less_10 net_wfc_def net_pool_def net_bfc_def in_s32_def del: One_nat_def)
    with that show ?thesis by blast
  qed
  have "fc_ready ?in ?out ?w ?b ?ws (unpack32 0x3CB71A21) (unpack32 0x3E1B06FD) 42 m"
    using m(2) acc val rng net_fc_scale [OF m(1)]
    by (auto simp: fc_ready_def readable_def head_mat_def in_object_def apart_def svc_sizes_def MDL_BUF_LEN_def
        TFM_TINYMAIX_MAX_MODEL_SIZE_def)
  from fc_layer [OF this, of "-128"] obtain m' where run: "tml_fc ?in ?out ?w ?b ?ws (unpack32 0x3CB71A21) (-128) (unpack32 0x3E1B06FD) 42 m = Some (TM_OK, m')"
    and ag: "cm.agree_off (cells (R_MAIN, 1448) 10) m m'"
    and out: "\<forall>c<10. ld8 m' (padd (R_MAIN, 1448) (int c)) = Some (to_s8 (the (fc_requant (fc_acc ?in ?w ?b m c)
       (unpack32 0x3CB71A21) (the (ld_f32 m ?ws)) (unpack32 0x3E1B06FD) 42)))"
    by (auto simp: head_mat_def)
  have "length net_scores = 10" by (simp add: net_scores_def)
  then have "holds_ints m' (R_MAIN, 1448) net_scores"
    using out acc val net_fc_scale [OF m(1)] by (simp add: holds_ints_def)
  moreover have "run_layer base (net_at m mdl outs inp 4 2056) = Some (TM_OK, net_at m' mdl outs ?in (Suc 4) (2056 + int (h_size net_head4)))"
    using plain_step [OF mdl _ net_head4_read [OF m(1)], of 4 m' base outs inp] run net_fc_read [OF m(1)]
    by (simp add: dispatch_layer_def net_head4_def tml_type_defs net_fc_def padd_def)
  ultimately show ?thesis using main_write_keeps [OF ag] m by (auto simp: net_sizes)
qed

end
