(* ===== verification/Shipped_Run.thy ===== *)
theory Shipped_Run
  imports Digit_Layers
begin

section \<open>The shipped network recognises the built-in picture\<close>

text \<open>
  The output layer with its floats, the class read from them, and the whole way of the picture: loading the
  shipped package, preprocessing, the six layers, and the answer to an inference request.
\<close>

subsection \<open>Probabilities\<close>

lemma those_map_Somes: "those (map Some xs) = Some xs"
  by (induction xs) simp_all

lemma digit_softmax_ref: "softmax_ref net_ds (unpack32 0x3B800000) (-128) = Some net_probs"
proof -
  have "map (\<lambda>e. sm_q (sm_sum net_es) (unpack32 0x3B800000) (-128) (sm_p e)) net_es =
      map (sm_q (unpack32 0x3F8006C5) (unpack32 0x3B800000) (-128)) (map sm_p net_es)"
    by (simp only: exp_values(3) map_map comp_def)
  also have "\<dots> = map Some net_probs" by (simp only: exp_values(4) prob_values)
  finally have "those (map (\<lambda>e. sm_q (sm_sum net_es) (unpack32 0x3B800000) (-128) (sm_p e)) net_es) = Some net_probs"
    by (simp only: those_map_Somes)
  then show ?thesis
    by (simp only: softmax_ref_def exp_values(1,2) those_map_Somes Option.bind.bind_lunit)
qed

lemma digit_sm_ds:
  assumes "holds_ints m p net_scores"
  shows "sm_ds m p (unpack32 0x3E1B06FD) 42 10 = net_ds"
proof -
  let ?f = "\<lambda>q. f32_stored (f32_mul (f32_of_int (q - 42)) (unpack32 0x3E1B06FD))"
  have len: "length net_scores = 10" and rng: "list_all in_s8 net_scores" by (simp_all add: net_scores_def in_s8_def)
  have "sm_ds m p (unpack32 0x3E1B06FD) 42 10 = map (\<lambda>c. ?f (net_scores ! c)) [0..<10]"
    by (rule map_cong [OF refl]) (use holds_ints_nth [OF assms rng] len in \<open>simp add: sm_d_def\<close>)
  also have "\<dots> = map ?f (map ((!) net_scores) [0..<10])" by simp
  also have "\<dots> = net_ds" using dequant_values map_nth [of net_scores] by (simp only: len)
  finally show ?thesis .
qed

subsection \<open>The output as floats\<close>

definition holds_floats :: "mem \<Rightarrow> ptr \<Rightarrow> fp list \<Rightarrow> bool" where
  "holds_floats m p xs \<longleftrightarrow> (\<forall>i<length xs. ld_f32 m (padd p (4 * int i)) = Some (xs ! i))"

lemma dequant_loop:
  assumes ints: "holds_ints m q qs" "list_all in_s8 qs" and n: "length qs = n"
    and val: "\<forall>i<n. map_option f32_stored (tm_dequant (qs ! i) (h_out_s h) (h_out_zp h)) = Some (xs ! i)"
    and obj: "in_object m outf (4 * n)" and apart: "\<forall>i<n. padd q (int i) \<notin> cells outf (4 * n)"
  shows "\<exists>m'. for_upto n (dequant_out h q outf) m = Some m' \<and> cm.agree_off (cells outf (4 * n)) m m' \<and>
    (\<forall>j<n. ld_f32 m' (sm_slot outf j) = Some (xs ! j))"
proof (rule for_upto_inv [where P = "\<lambda>c m'. cm.agree_off (cells outf (4 * n)) m m' \<and>
    (\<forall>j<c. ld_f32 m' (sm_slot outf j) = Some (xs ! j))"])
  fix c m'
  assume c: "c < n" and P: "cm.agree_off (cells outf (4 * n)) m m' \<and> (\<forall>j<c. ld_f32 m' (sm_slot outf j) = Some (xs ! j))"
  then have ag: "cm.agree_off (cells outf (4 * n)) m m'" by blast
  have "ld8 m' (padd q (int c)) = Some (to_s8 (qs ! c))"
    using ints(1) apart c n agree_off_ld8 [OF ag] by (simp add: holds_ints_def)
  then have q: "ld_s8 m' (padd q (int c)) = Some (qs ! c)"
    using ints(2) c n by (simp add: ld_s8_def sint_to_s8 list_all_length)
  obtain y where y: "tm_dequant (qs ! c) (h_out_s h) (h_out_zp h) = Some y" "f32_stored y = xs ! c"
    using val c by auto
  obtain m2 where m2: "st_f32 m' (sm_slot outf c) y = Some m2" "cm.agree_off (cells outf (4 * n)) m m2"
    "cm.agree_off (cells (sm_slot outf c) 4) m' m2" "ld_f32 m2 (sm_slot outf c) = Some (f32_stored y)"
    using slot_store [OF ag obj c] by metis
  have "ld_f32 m2 (sm_slot outf j) = Some (xs ! j)" if "j < Suc c" for j
    using that P m2(4) y(2) slot_other [OF m2(3), of j] by (cases "j = c") auto
  with m2(1,2) q y show "\<exists>t'. dequant_out h q outf c m' = Some t' \<and> cm.agree_off (cells outf (4 * n)) m t' \<and>
      (\<forall>j<Suc c. ld_f32 t' (sm_slot outf j) = Some (xs ! j))"
    by (simp add: dequant_out_def)
qed (simp add: cm.agree_off_refl)

subsection \<open>The class\<close>

lemma digit_class:
  assumes "holds_floats m (m_data out) net_out"
  shows "parse_output m out = Some 2"
proof -
  have len: "length net_out = 10" by (simp add: net_out_def)
  have "\<exists>r. parse_output m out = Some r \<and> top_class ((!) net_out) 10 r"
    by (rule parse_output_top) (use assms len in \<open>simp add: holds_floats_def\<close>)
  then obtain r where r: "parse_output m out = Some r" "top_class ((!) net_out) 10 r" by blast
  have top: "\<forall>i<10. fp_gt (net_out ! 2) (net_out ! i) = (i \<noteq> 2)"
    by (simp add: all_less_10 net_out_def fp_eval del: One_nat_def cong: let_weak_cong)
  have pos: "fp_gt (net_out ! 2) (f32_of_int 0)" by (simp add: net_out_def fp_eval cong: let_weak_cong)
  have "r = 2"
  proof (rule ccontr)
    assume ne: "r \<noteq> 2"
    have "r = -1 \<or> 0 \<le> r \<and> r < 10" using r(2) by (auto simp: top_class_def)
    then show False
    proof
      assume "r = -1"
      then show False using r(2) pos by (auto simp: top_class_def)
    next
      assume b: "0 \<le> r \<and> r < 10"
      then have "fp_gt (net_out ! 2) (net_out ! nat r)" using top ne by auto
      then show False using r(2) b ne fp_gt_trans fp_gt_irrefl by (auto simp: top_class_def)
    qed
  qed
  with r show ?thesis by simp
qed

text \<open>The floats of the output lie behind its ten bytes, aligned.\<close>

definition digit_outf :: "int \<Rightarrow> ptr" where
  "digit_outf base = (R_MAIN, tm_align (base + 10) - base)"

lemma digit_probabilities:
  assumes m: "holds_image m" "svc_sizes m" and v: "holds_ints m (R_MAIN, 1448) net_scores" and mdl: "image_handle mdl"
    and outs: "outs \<noteq> []"
  shows "\<exists>st. run_layer base (net_at m mdl outs inp 5 2360) = Some (TM_OK, st) \<and>
    r_outs st = outs[0 := head_mat [1, 1, 1, 10] 0 \<lparr>m_data := digit_outf base\<rparr>] \<and>
    holds_floats (r_mem st) (digit_outf base) net_out"
proof -
  let ?in = "head_mat [1, 1, 1, 10] 1448" and ?out = "head_mat [1, 1, 1, 10] 0" and ?f = "digit_outf base"
  have bounds: "10 \<le> snd ?f" "snd ?f < 18" "fst ?f = R_MAIN"
    using tm_align_bounds [of "base + 10"] by (simp_all add: digit_outf_def)
  have rng: "in_s32 (net_scores ! c - 42)" if "c < 10" for c
    using that by (simp add: net_scores_def in_s32_def nth_Cons split: nat.splits)
  have len: "length net_scores = 10" "length net_probs = 10" "length net_out = 10" and
    s8: "list_all in_s8 net_scores" "list_all in_s8 net_probs"
    by (simp_all add: net_scores_def net_probs_def net_out_def in_s8_def)
  have rdy: "softmax_ready ?in ?out (unpack32 0x3E1B06FD) 42 m"
    using m(2) rng holds_ints_nth [OF v s8(1)] len
    by (simp add: softmax_ready_def readable_def head_mat_def in_object_def apart_def svc_sizes_def MDL_BUF_LEN_def)
  have ref: "softmax_ref (sm_ds m (m_data ?in) (unpack32 0x3E1B06FD) 42 (m_c ?in)) (unpack32 0x3B800000) (-128) = Some net_probs"
    using digit_sm_ds [OF v] digit_softmax_ref by (simp add: head_mat_def)
  from softmax_layer [OF rdy ref] obtain m1 where
    run: "tml_softmax ?in ?out (unpack32 0x3E1B06FD) 42 (unpack32 0x3B800000) (-128) m = Some (TM_OK, m1)"
    and ag: "cm.agree_off (cells (R_MAIN, 0) 40) m m1"
    and probs: "\<forall>c<10. ld8 m1 (padd (R_MAIN, 0) (int c)) = Some (to_s8 (net_probs ! c))"
    by (auto simp: head_mat_def)
  have m1: "holds_image m1" "svc_sizes m1" using main_write_keeps [OF ag] m by simp_all
  have "\<exists>m2. for_upto 10 (dequant_out net_head5 (R_MAIN, 0) ?f) m1 = Some m2 \<and> cm.agree_off (cells ?f (4 * 10)) m1 m2 \<and>
      (\<forall>j<10. ld_f32 m2 (sm_slot ?f j) = Some (net_out ! j))"
  proof (rule dequant_loop)
    show "holds_ints m1 (R_MAIN, 0) net_probs" using probs len by (simp add: holds_ints_def)
    show "\<forall>i<10. map_option f32_stored (tm_dequant (net_probs ! i) (h_out_s net_head5) (h_out_zp net_head5)) = Some (net_out ! i)"
    proof (intro allI impI)
      fix i :: nat assume "i < 10"
      then show "map_option f32_stored (tm_dequant (net_probs ! i) (h_out_s net_head5) (h_out_zp net_head5)) = Some (net_out ! i)"
        using arg_cong [OF out_values, of "\<lambda>xs. xs ! i"] len by (simp add: net_head5_def)
    qed
    show "in_object m1 ?f (4 * 10)"
      using m1(2) bounds by (simp add: in_object_def svc_sizes_def MDL_BUF_LEN_def)
    show "\<forall>i<10. padd (R_MAIN, 0) (int i) \<notin> cells ?f (4 * 10)" using bounds by (auto simp: in_cells padd_def)
  qed (use s8 len in simp_all)
  then obtain m2 where loop: "for_upto 10 (dequant_out net_head5 (R_MAIN, 0) ?f) m1 = Some m2"
    and out: "holds_floats m2 ?f net_out"
    using len by (auto simp: holds_floats_def)
  have disp: "dispatch_layer m (R_MAIN, 0) (R_MODEL, 2360) net_head5 ?in
      \<lparr>m_dims = h_out_dims net_head5 ! 0, m_h = h_out_dims net_head5 ! 1, m_w = h_out_dims net_head5 ! 2,
       m_c = h_out_dims net_head5 ! 3, m_data = (R_MAIN, int (h_out_oft net_head5))\<rparr> = Some (TM_OK, m1)"
    unfolding head_mat_def [symmetric] using run by (simp add: dispatch_layer_def net_head5_def tml_type_defs)
  have emit: "emit_output base (R_MODEL, 0) (R_MAIN, 0) net_head5
      (net_at m mdl outs inp 5 2360\<lparr>r_mem := m1, r_in := ?in\<rparr>) =
    Some (net_at m2 mdl (outs[0 := ?out\<lparr>m_data := ?f\<rparr>]) ?in 5 2360\<lparr>r_out_idx := 1\<rparr>)"
    using loop outs image_header(5) [OF m1(1)]
    by (cases "outs ! 0")
       (simp add: emit_output_def net_at_def net_head5_def padd_def set_dims_def head_mat_def digit_outf_def Let_def)
  have h5: "h_is_out net_head5 = 1" "(set_dims inp (h_in_dims net_head5))\<lparr>m_data := (R_MAIN, int (h_in_oft net_head5))\<rparr> = ?in"
    by (simp_all add: set_dims_all) (simp_all add: net_head5_def)
  have "run_layer base (net_at m mdl outs inp 5 2360) =
      Some (TM_OK, net_at m2 mdl (outs[0 := ?out\<lparr>m_data := ?f\<rparr>]) ?in 6 2408\<lparr>r_out_idx := 1\<rparr>)"
    using mdl net_head5_read [OF m(1)] disp emit h5
    by (simp add: run_layer_def image_handle_def net_at_def padd_def Let_def net_head5_def)
  with out show ?thesis by (simp add: net_at_def)
qed

subsection \<open>The run\<close>

lemma run_layers_add:
  "run_layers base n st = Some (TM_OK, st1) \<Longrightarrow> run_layers base (n + k) st = run_layers base k st1"
  by (induction n arbitrary: st) (auto simp: bind_eq_Some_conv split: if_splits)

lemma digit_layers:
  assumes m: "holds_image m" "svc_sizes m" and mdl: "image_handle mdl" and outs: "outs \<noteq> []"
    and r: "holds_rows m net_input net_rows0"
  shows "\<exists>st. run_layers base 6 (net_at m mdl outs net_input 0 64) = Some (TM_OK, st) \<and>
    r_outs st = outs[0 := head_mat [1, 1, 1, 10] 0 \<lparr>m_data := digit_outf base\<rparr>] \<and>
    holds_floats (r_mem st) (digit_outf base) net_out"
proof -
  obtain m3 where c: "run_layers base 3 (net_at m mdl outs net_input 0 64) = Some (TM_OK, net_at m3 mdl outs (a_in net_ca2) 3 2008)"
    and m3: "holds_image m3" "svc_sizes m3" "holds_ints m3 (R_MAIN, 1400) (concat net_rows3)"
    using digit_convolutions [OF m mdl r] by blast
  obtain m4 inp4 where p: "run_layer base (net_at m3 mdl outs (a_in net_ca2) 3 2008) = Some (TM_OK, net_at m4 mdl outs inp4 4 2056)"
    and m4: "holds_image m4" "svc_sizes m4" "holds_ints m4 (R_MAIN, 0) net_pool"
    using digit_pool [OF m3 mdl] by blast
  obtain m5 inp5 where f: "run_layer base (net_at m4 mdl outs inp4 4 2056) = Some (TM_OK, net_at m5 mdl outs inp5 5 2360)"
    and m5: "holds_image m5" "svc_sizes m5" "holds_ints m5 (R_MAIN, 1448) net_scores"
    using digit_scores [OF m4 mdl] by blast
  obtain st where s: "run_layer base (net_at m5 mdl outs inp5 5 2360) = Some (TM_OK, st)"
    "r_outs st = outs[0 := head_mat [1, 1, 1, 10] 0 \<lparr>m_data := digit_outf base\<rparr>]"
    "holds_floats (r_mem st) (digit_outf base) net_out"
    using digit_probabilities [OF m5 mdl outs] by blast
  have "run_layers base (3 + Suc (Suc (Suc 0))) (net_at m mdl outs net_input 0 64) = Some (TM_OK, st)"
    by (simp only: run_layers_add [OF c] run_layers_ok [OF p] run_layers_ok [OF f] run_layers_ok [OF s(1)] run_layers.simps(1))
  then show ?thesis using s(2,3) by (simp add: eval_nat_numeral)
qed

lemma digit_preprocess:
  assumes m: "holds_image m" "svc_sizes m" and pic: "m R_PIC = mnist_pic" and mdl: "image_handle mdl"
  shows "\<exists>m'. tm_preprocess m mdl TMPP_UINT2INT \<lparr>m_dims = 3, m_h = 28, m_w = 28, m_c = 1, m_data = (R_PIC, 0)\<rparr> net_input =
      Some (TM_OK, net_input, m') \<and> holds_image m' \<and> svc_sizes m' \<and> holds_rows m' net_input net_rows0"
proof -
  let ?pic = "\<lparr>m_dims = 3, m_h = 28, m_w = 28, m_c = 1, m_data = (R_PIC, 0)\<rparr>"
  have "preprocess_ready m mdl ?pic net_input"
    using m(2) mdl
    by (simp add: preprocess_ready_def image_handle_def mdlbin_layers_body_def padd_def net_input_def in_object_def
        elementwise_def apart_def svc_sizes_def mat_size_def TFM_TINYMAIX_MAX_MODEL_SIZE_def MDL_BUF_LEN_def pic_size_def)
  from preprocess_uint2int [OF this] obtain m' where run: "tm_preprocess m mdl TMPP_UINT2INT ?pic net_input = Some (TM_OK, net_input, m')"
    and ag: "cm.agree_off (cells (R_MAIN, 0) 784) m m'"
    and v: "\<forall>i<784. \<exists>b b'. ld8 m (padd (R_PIC, 0) (int i)) = Some b \<and>
       ld8 m' (padd (R_MAIN, 0) (int i)) = Some b' \<and> sint b' = int (unat b) - 128"
    by (auto simp: mat_size_def net_input_def)
  have "length (concat net_rows0) = length mnist_pic" by (metis length_map picture_rows)
  then have len: "length (concat net_rows0) = 784" by (simp add: length_mnist_pic pic_size_def)
  have "ld8 m' (padd (R_MAIN, 0) (int i)) = Some (to_s8 (concat net_rows0 ! i))" if i: "i < 784" for i
  proof -
    obtain b b' where b: "ld8 m (padd (R_PIC, 0) (int i)) = Some b" "ld8 m' (padd (R_MAIN, 0) (int i)) = Some b'"
      "sint b' = int (unat b) - 128" using v i by blast
    have "b = mnist_pic ! i" using b(1) pic by (simp add: ld8_def padd_def split: if_splits)
    moreover have "concat net_rows0 ! i = int (unat (mnist_pic ! i)) - 128"
      using arg_cong [OF picture_rows, of "\<lambda>xs. xs ! i"] i by (simp add: length_mnist_pic pic_size_def)
    ultimately have "concat net_rows0 ! i = sint b'" using b(3) by simp
    with b(2) show ?thesis by (simp add: to_s8_def)
  qed
  then have "holds_rows m' net_input net_rows0"
    using net_rows_shape len by (simp add: holds_rows_def holds_ints_def net_input_def)
  with run main_write_keeps [OF ag] m show ?thesis by auto
qed

text \<open>The address of the main buffer is free: the engine aligns the floats of the output relative to it.\<close>

lemma digit_inference:
  assumes ok: "svc_ok st" and img: "holds_image (svc_mem st)" "image_handle (g_mdl st)" "g_in st = net_input"
    and pic: "svc_mem st R_PIC = mnist_pic"
  shows "\<exists>st'. infer_picture base st = Some (PSA_SUCCESS, Some 2, st')"
proof -
  let ?pic = "\<lparr>m_dims = 3, m_h = 28, m_w = 28, m_c = 1, m_data = (R_PIC, 0)\<rparr>"
  have sz: "svc_sizes (svc_mem st)" and outs: "g_outs st \<noteq> []" using ok by (auto simp: svc_ok_def)
  obtain m where pre: "tm_preprocess (svc_mem st) (g_mdl st) TMPP_UINT2INT ?pic net_input = Some (TM_OK, net_input, m)"
    and m: "holds_image m" "svc_sizes m" "holds_rows m net_input net_rows0"
    using digit_preprocess [OF img(1) sz pic img(2)] by blast
  obtain rs where run: "run_layers base 6 (net_at m (g_mdl st) (g_outs st) net_input 0 64) = Some (TM_OK, rs)"
    and o: "r_outs rs = (g_outs st)[0 := head_mat [1, 1, 1, 10] 0 \<lparr>m_data := digit_outf base\<rparr>]"
    and out: "holds_floats (r_mem rs) (digit_outf base) net_out"
    using digit_layers [OF m(1,2) img(2) outs m(3)] by blast
  have "tm_run base m (g_mdl st) net_input (g_outs st) = Some (TM_OK, rs)"
    using run img(2) image_header(4) [OF m(1)]
    by (simp add: tm_run_def image_handle_def mdlbin_layers_body_def padd_def net_at_def)
  moreover have "parse_output (r_mem rs) (r_outs rs ! 0) = Some 2"
    by (rule digit_class) (use out outs o in simp)
  moreover have "r_outs rs \<noteq> []" using o outs by simp
  ultimately show ?thesis
    using pre img(3) by (simp add: infer_picture_def Let_def set_mem_simps)
qed

subsection \<open>The two requests\<close>

lemma digit_requests:
  assumes ok: "svc_ok st" "svc_mem st R_PIC = mnist_pic" and env: "decrypts_package env"
    and load: "msg_type load = MSG_CALL TINYMAIX_IPC_LOAD_ENCRYPTED_MODEL"
    and run: "msg_type run = MSG_CALL TINYMAIX_IPC_RUN_INFERENCE" "msg_in_size run = 0" "4 \<le> msg_out_size run"
  shows "\<exists>st' cs r1 r2. tinymaix_inference_entry env dev base encrypted_mdl_data_data
      [(PSA_SUCCESS, load), (PSA_SUCCESS, run)] st = Some st' \<and>
    svc_tr st' = cs @ [(Psa_write (msg_handle run) 0 (int_bytes 2), r1), (Psa_reply (msg_handle run) PSA_SUCCESS, r2)]"
proof -
  obtain s1 where l: "load_model env encrypted_mdl_data_data st = Some (PSA_SUCCESS, s1)" "svc_ok s1" "g_model_loaded s1"
    "holds_image (svc_mem s1)" "image_handle (g_mdl s1)" "g_in s1 = net_input"
    using shipped_load [OF ok(1) env] by blast
  define s2 where "s2 = svc_issue env (Psa_reply (msg_handle load) PSA_SUCCESS)
    (if 4 \<le> msg_out_size load then svc_issue env (Psa_write (msg_handle load) 0 (int_bytes 0)) s1 else s1)"
  have h: "serve_one env dev base encrypted_mdl_data_data (PSA_SUCCESS, load) st = Some s2"
    using load l(1) by (simp add: serve_one_def handle_message_def handle_load_def s2_def)
  have s2: "svc_ok s2" "g_model_loaded s2" "holds_image (svc_mem s2)" "image_handle (g_mdl s2)" "g_in s2 = net_input"
    "svc_mem s2 R_PIC = mnist_pic"
    using l load_keeps_picture [OF l(1)] ok(2) by (simp_all add: s2_def svc_ok_issue)
  obtain s3 where i: "infer_picture base s2 = Some (PSA_SUCCESS, Some 2, s3)"
    using digit_inference [OF s2(1,3-6)] by blast
  have "serve_one env dev base encrypted_mdl_data_data (PSA_SUCCESS, run) s2 =
      Some (svc_issue env (Psa_reply (msg_handle run) PSA_SUCCESS)
        (svc_issue env (Psa_write (msg_handle run) 0 (int_bytes 2)) s3))"
    using run s2(2) i
    by (simp add: serve_one_def handle_message_def handle_run_def tinymaix_ipc_defs pic_size_def write_result_def Let_def)
  with h show ?thesis
    by (simp add: tinymaix_inference_entry_def svc_issue_def set_tr_def issue_eq)
qed

end
