(* ===== verification/Echo_Service.thy ===== *)
theory Echo_Service
  imports Service_Loop
begin

section \<open>The echo partition and its client\<close>

text \<open>
  \<open>echo_service.c\<close> and \<open>tfm_echo_api.c\<close>. The handler is a function of the environment,
  the message and the trace; its two stack buffers are a parameter, since their initial
  contents are indeterminate.
\<close>

definition TFM_ECHO_MAX_DATA_SIZE :: nat where "TFM_ECHO_MAX_DATA_SIZE = 256"
definition TFM_ECHO_SERVICE_SID :: nat where "TFM_ECHO_SERVICE_SID = 0x105"
definition TFM_ECHO_SERVICE_VERSION :: nat where "TFM_ECHO_SERVICE_VERSION = 1"

lemmas tfm_echo_defs = TFM_ECHO_MAX_DATA_SIZE_def TFM_ECHO_SERVICE_SID_def TFM_ECHO_SERVICE_VERSION_def

definition echo_service_init :: psa_status where
  "echo_service_init = PSA_SUCCESS"

text \<open>\<open>psa_read\<close> of at most \<open>n\<close> bytes into a buffer, and \<open>memcpy\<close>; past the end is undefined.\<close>

definition copy_into :: "byte list \<Rightarrow> byte list \<Rightarrow> byte list option" where
  "copy_into buf bs = do { assert_ub (length bs \<le> length buf); Some (bs @ drop (length bs) buf) }"

definition echo_call :: "psa_env \<Rightarrow> psa_msg \<Rightarrow> byte list \<times> byte list \<Rightarrow> psa_trace \<Rightarrow> (psa_status \<times> psa_trace) option" where
  "echo_call env msg bufs tr =
     (case bufs of (input_buffer, output_buffer) \<Rightarrow>
       if msg_in_size msg > TFM_ECHO_MAX_DATA_SIZE then Some (PSA_ERROR_INVALID_ARGUMENT, tr)
       else if msg_out_size msg < msg_in_size msg then Some (PSA_ERROR_BUFFER_TOO_SMALL, tr)
       else let (r, tr) = invoke env (Psa_read (msg_handle msg) 0 (msg_in_size msg)) tr
       in do {
         input_buffer \<leftarrow> copy_into input_buffer (take (msg_in_size msg) (rs_bytes r));
         let bytes_read = length (rs_bytes r);
         if bytes_read \<noteq> msg_in_size msg then Some (PSA_ERROR_COMMUNICATION_FAILURE, tr)
         else do {
           output_buffer \<leftarrow> copy_into output_buffer (take bytes_read input_buffer);
           Some (PSA_SUCCESS, issue env (Psa_write (msg_handle msg) 0 (take bytes_read output_buffer)) tr) } })"

definition echo_handle :: "psa_env \<Rightarrow> byte list \<times> byte list \<Rightarrow> psa_msg \<Rightarrow> psa_trace \<Rightarrow> psa_trace option" where
  "echo_handle env bufs msg tr =
     (case msg_type msg of
        PSA_IPC_CONNECT \<Rightarrow> Some (issue env (Psa_reply (msg_handle msg) PSA_SUCCESS) tr)
      | PSA_IPC_DISCONNECT \<Rightarrow> Some (issue env (Psa_reply (msg_handle msg) PSA_SUCCESS) tr)
      | MSG_CALL ty \<Rightarrow>
          if ty = PSA_IPC_CALL then do {
            (status, tr) \<leftarrow> echo_call env msg bufs tr;
            Some (issue env (Psa_reply (msg_handle msg) status) tr) }
          else Some (issue env (Psa_reply (msg_handle msg) PSA_ERROR_NOT_SUPPORTED) tr))"

text \<open>The service loop over the arrivals; each message comes with the buffer contents it finds.\<close>

definition echo_service_entry ::
  "psa_env \<Rightarrow> (psa_status \<times> psa_msg \<times> byte list \<times> byte list) list \<Rightarrow> psa_trace \<Rightarrow> psa_trace option" where
  "echo_service_entry env arrivals tr =
     foldM (\<lambda>(got, msg, bufs) tr. if got \<noteq> PSA_SUCCESS then Some tr else echo_handle env bufs msg tr) arrivals tr"

subsection \<open>The client\<close>

text \<open>
  \<open>tfm_echo_service\<close>: null pointers are \<open>None\<close>; the result is the status, the output
  buffer, the reported size (if written) and the trace. The partition manager stores
  what the service writes at the start of the output buffer and its length in the
  output vector.
\<close>

definition tfm_echo_service ::
  "psa_env \<Rightarrow> byte list option \<Rightarrow> nat \<Rightarrow> byte list option \<Rightarrow> nat \<Rightarrow> bool \<Rightarrow> psa_trace \<Rightarrow>
   (psa_status \<times> byte list option \<times> nat option \<times> psa_trace) option" where
  "tfm_echo_service env data data_len out_data out_len has_size tr =
     (case (data, out_data) of
        (Some d, Some out) \<Rightarrow>
          if \<not> has_size then Some (PSA_ERROR_INVALID_ARGUMENT, out_data, None, tr)
          else if data_len > TFM_ECHO_MAX_DATA_SIZE \<or> out_len < data_len
          then Some (PSA_ERROR_INVALID_ARGUMENT, out_data, None, tr)
          else let (r, tr) = invoke env (Psa_connect TFM_ECHO_SERVICE_SID TFM_ECHO_SERVICE_VERSION) tr;
                   handle = rs_num r
          in if handle \<le> 0 then Some (PSA_ERROR_CONNECTION_REFUSED, out_data, None, tr)
          else do {
            assert_ub (data_len \<le> length d);
            let (r, tr) = invoke env (Psa_call handle PSA_IPC_CALL [take data_len d] [out_len]) tr;
            out \<leftarrow> copy_into out (rs_bytes r);
            let out_size = (if rs_status r = PSA_SUCCESS then Some (length (rs_bytes r)) else None);
            Some (rs_status r, Some out, out_size, issue env (Psa_close handle) tr) }
      | _ \<Rightarrow> Some (PSA_ERROR_INVALID_ARGUMENT, out_data, None, tr))"

subsection \<open>What the service does with one call\<close>

text \<open>What a run of the service delivers: the last status, and the bytes written to vector 0.\<close>

definition reply_status :: "psa_trace \<Rightarrow> psa_status option" where
  "reply_status cs =
     (case rev cs of (Psa_reply h s, r) # _ \<Rightarrow> Some s | _ \<Rightarrow> None)"

fun written :: "psa_trace \<Rightarrow> byte list" where
  "written [] = []"
| "written ((Psa_write h i bs, r) # cs) = (if i = 0 then bs else []) @ written cs"
| "written (x # cs) = written cs"

text \<open>An environment of the service in which the client's vector is read as it is.\<close>

definition delivers :: "psa_env \<Rightarrow> byte list \<Rightarrow> bool" where
  "delivers env data \<longleftrightarrow> (\<forall>tr h n. rs_bytes (env tr (Psa_read h 0 n)) = take n data)"

definition echo_buffers :: "byte list \<times> byte list \<Rightarrow> bool" where
  "echo_buffers bufs \<longleftrightarrow> length (fst bufs) = TFM_ECHO_MAX_DATA_SIZE \<and> length (snd bufs) = TFM_ECHO_MAX_DATA_SIZE"

definition call_msg :: "nat \<Rightarrow> int \<Rightarrow> nat \<Rightarrow> nat \<Rightarrow> psa_msg" where
  "call_msg ty h n_in n_out = \<lparr>msg_type = MSG_CALL ty, msg_handle = h, msg_in_size = n_in, msg_out_size = n_out\<rparr>"

lemma echo_call_echoes:
  assumes "delivers env data" "echo_buffers bufs"
    and "length data \<le> TFM_ECHO_MAX_DATA_SIZE" "length data \<le> n_out"
  shows "echo_handle env bufs (call_msg PSA_IPC_CALL h (length data) n_out) tr =
    Some (issue env (Psa_reply h PSA_SUCCESS) (issue env (Psa_write h 0 data)
      (issue env (Psa_read h 0 (length data)) tr)))"
proof -
  obtain ib ob where b: "bufs = (ib, ob)" by (cases bufs)
  have "rs_bytes (env tr (Psa_read h 0 (length data))) = data" using assms(1) by (simp add: delivers_def)
  then show ?thesis
    using assms(2-4) by (simp add: echo_handle_def echo_call_def call_msg_def b echo_buffers_def copy_into_def invoke_def)
qed

text \<open>Any message gets exactly one reply, and at most the client's own bytes are written back.\<close>

lemma echo_one_reply:
  assumes "echo_handle env bufs msg tr = Some tr'"
  shows "\<exists>cs status r. tr' = tr @ cs @ [(Psa_reply (msg_handle msg) status, r)] \<and>
    (cs = [] \<or>
     (\<exists>rd. cs = [(Psa_read (msg_handle msg) 0 (msg_in_size msg), rd)] \<and> status = PSA_ERROR_COMMUNICATION_FAILURE) \<or>
     (\<exists>rd rw. cs = [(Psa_read (msg_handle msg) 0 (msg_in_size msg), rd), (Psa_write (msg_handle msg) 0 (rs_bytes rd), rw)] \<and>
        length (rs_bytes rd) = msg_in_size msg \<and> msg_in_size msg \<le> msg_out_size msg \<and> status = PSA_SUCCESS))"
  using assms
  by (auto simp: echo_handle_def echo_call_def copy_into_def invoke_def Let_def bind_eq_Some_conv
      split: psa_msg_type.splits if_splits prod.splits)

lemma echo_defined:
  assumes "echo_buffers bufs"
  shows "echo_handle env bufs msg tr \<noteq> None"
proof -
  obtain ib ob where b: "bufs = (ib, ob)" by (cases bufs)
  show ?thesis
    using assms by (auto simp: b echo_handle_def echo_call_def copy_into_def invoke_def Let_def echo_buffers_def
        min_def split: psa_msg_type.splits)
qed

subsection \<open>The loop\<close>

text \<open>What is written back is what was read right before, over the same connection.\<close>

fun writes_back_after :: "(psa_call \<times> psa_resp) option \<Rightarrow> psa_trace \<Rightarrow> bool" where
  "writes_back_after prev [] \<longleftrightarrow> True"
| "writes_back_after prev (x # cs) \<longleftrightarrow>
     (case fst x of
        Psa_write h i bs \<Rightarrow>
          (case prev of Some (Psa_read h' i' n, r) \<Rightarrow> h' = h \<and> i' = i \<and> bs = rs_bytes r \<and> length bs = n | _ \<Rightarrow> False)
      | _ \<Rightarrow> True) \<and> writes_back_after (Some x) cs"

definition writes_back :: "psa_trace \<Rightarrow> bool" where
  "writes_back cs \<longleftrightarrow> writes_back_after None cs"

lemma writes_back_after_append:
  "writes_back_after p (cs @ ds) \<longleftrightarrow> writes_back_after p cs \<and> writes_back_after (if cs = [] then p else Some (last cs)) ds"
  by (induction cs arbitrary: p) auto

lemma writes_back_any: "writes_back_after None ds \<Longrightarrow> writes_back_after p ds"
  by (cases ds) (auto split: psa_call.splits)

lemma writes_back_append: "writes_back cs \<Longrightarrow> writes_back ds \<Longrightarrow> writes_back (cs @ ds)"
  by (simp add: writes_back_def writes_back_after_append writes_back_any)

abbreviation echo_serve :: "psa_env \<Rightarrow> psa_msg \<times> byte list \<times> byte list \<Rightarrow> psa_trace \<Rightarrow> psa_trace option" where
  "echo_serve env m \<equiv> echo_handle env (snd m) (fst m)"

interpretation echo: total_service "echo_serve env" "\<lambda>m. msg_handle (fst m)" "\<lambda>tr. tr" writes_back "\<lambda>m. echo_buffers (snd m)"
  for env
proof unfold_locales
  fix m s s'
  assume "echo_serve env m s = Some s'"
  from echo_one_reply [OF this]
  show "\<exists>cs. s' = s @ cs \<and> reply_handles cs = [msg_handle (fst m)] \<and> writes_back cs"
    by (auto simp: reply_handles_def writes_back_def)
next
  show "writes_back []" by (simp add: writes_back_def)
qed (auto intro: writes_back_append simp: echo_defined)

lemma echo_entry_arrivals: "echo_service_entry env arrivals tr = foldM (serve_arrival (echo_serve env)) arrivals tr"
  unfolding echo_service_entry_def
  by (rule arg_cong [where f = "\<lambda>f. foldM f arrivals tr"]) (auto simp: fun_eq_iff serve_arrival_def)

lemma echo_loop:
  assumes "\<forall>a\<in>set arrivals. echo_buffers (snd (snd a))"
  shows "\<exists>cs. echo_service_entry env arrivals tr = Some (tr @ cs) \<and>
    reply_handles cs = map (\<lambda>m. msg_handle (fst m)) (taken arrivals) \<and> writes_back cs"
proof -
  obtain tr' where "foldM (serve_arrival (echo_serve env)) arrivals tr = Some tr'"
    using echo.loop_defined [OF assms] by blast
  with echo.loop_answers [OF this] show ?thesis by (auto simp: echo_entry_arrivals)
qed

subsection \<open>Client and service together\<close>

text \<open>
  What the partition manager does for a call of the client, as a predicate on the client's
  environment: the service runs on a message with the sizes of the vectors, reads the
  client's bytes, and what it writes and replies is what the client gets.
\<close>

definition serves_echo :: "psa_env \<Rightarrow> bool" where
  "serves_echo env \<longleftrightarrow>
     (\<forall>tr h data n. \<exists>senv bufs str str'.
        delivers senv data \<and> echo_buffers bufs \<and>
        echo_handle senv bufs (call_msg PSA_IPC_CALL h (length data) n) str = Some str' \<and>
        reply_status (added str str') = Some (rs_status (env tr (Psa_call h PSA_IPC_CALL [data] [n]))) \<and>
        rs_bytes (env tr (Psa_call h PSA_IPC_CALL [data] [n])) = take n (written (added str str')))"

definition connects :: "psa_env \<Rightarrow> bool" where
  "connects env \<longleftrightarrow> (\<forall>tr sid v. 0 < rs_num (env tr (Psa_connect sid v)))"

lemma serves_echo_call:
  assumes "serves_echo env" "length data \<le> TFM_ECHO_MAX_DATA_SIZE" "length data \<le> n"
  shows "rs_status (env tr (Psa_call h PSA_IPC_CALL [data] [n])) = PSA_SUCCESS \<and>
    rs_bytes (env tr (Psa_call h PSA_IPC_CALL [data] [n])) = data"
proof -
  obtain senv bufs str str' where s: "delivers senv data" "echo_buffers bufs"
    "echo_handle senv bufs (call_msg PSA_IPC_CALL h (length data) n) str = Some str'"
    "reply_status (added str str') = Some (rs_status (env tr (Psa_call h PSA_IPC_CALL [data] [n])))"
    "rs_bytes (env tr (Psa_call h PSA_IPC_CALL [data] [n])) = take n (written (added str str'))"
    using assms(1) unfolding serves_echo_def by blast
  from s(3) echo_call_echoes [OF s(1,2) assms(2,3), of h str]
  have "str' = str @ [(Psa_read h 0 (length data), senv str (Psa_read h 0 (length data))),
      (Psa_write h 0 data, senv (str @ [(Psa_read h 0 (length data), senv str (Psa_read h 0 (length data)))]) (Psa_write h 0 data)),
      (Psa_reply h PSA_SUCCESS, senv (str @ [(Psa_read h 0 (length data), senv str (Psa_read h 0 (length data))),
      (Psa_write h 0 data, senv (str @ [(Psa_read h 0 (length data), senv str (Psa_read h 0 (length data)))]) (Psa_write h 0 data))])
        (Psa_reply h PSA_SUCCESS))]" by simp
  with s(4,5) assms(3) show ?thesis by (simp add: reply_status_def)
qed

lemma echo_client_echoes:
  assumes "serves_echo env" "connects env"
    and "data_len \<le> TFM_ECHO_MAX_DATA_SIZE" "data_len \<le> out_len" "data_len \<le> length d" "out_len \<le> length out"
  shows "\<exists>tr'. tfm_echo_service env (Some d) data_len (Some out) out_len True tr =
    Some (PSA_SUCCESS, Some (take data_len d @ drop data_len out), Some data_len, tr')"
proof -
  have len: "length (take data_len d) = data_len" using assms(5) by simp
  have c: "rs_status (env t (Psa_call h PSA_IPC_CALL [take data_len d] [out_len])) = PSA_SUCCESS \<and>
      rs_bytes (env t (Psa_call h PSA_IPC_CALL [take data_len d] [out_len])) = take data_len d" for t h
    by (rule serves_echo_call [OF assms(1)]) (use assms len in simp_all)
  have h: "\<not> rs_num (env t (Psa_connect s v)) \<le> 0" for t s v
    using assms(2) unfolding connects_def by (metis not_le)
  show ?thesis
    using assms(3-6) len c h by (simp add: tfm_echo_service_def invoke_def copy_into_def min_def Let_def)
qed

text \<open>The connection is closed on every path that opened it.\<close>

lemma echo_client_closes:
  assumes "tfm_echo_service env data n out k b tr = Some (s, out', osz, tr')"
  shows "tr' = tr \<or>
    (\<exists>c. tr' = tr @ [(Psa_connect TFM_ECHO_SERVICE_SID TFM_ECHO_SERVICE_VERSION, c)] \<and> rs_num c \<le> 0 \<and>
       s = PSA_ERROR_CONNECTION_REFUSED) \<or>
    (\<exists>c d r q. tr' = tr @ [(Psa_connect TFM_ECHO_SERVICE_SID TFM_ECHO_SERVICE_VERSION, c),
       (Psa_call (rs_num c) PSA_IPC_CALL [d] [k], r), (Psa_close (rs_num c), q)] \<and> 0 < rs_num c \<and> s = rs_status r)"
  using assms
  by (auto simp: tfm_echo_service_def invoke_def Let_def bind_eq_Some_conv split: option.splits if_splits)

subsection \<open>A concrete partition manager\<close>

text \<open>An environment that runs the service for every call: it shows that the hypotheses can hold.\<close>

definition reader_env :: "byte list \<Rightarrow> psa_env" where
  "reader_env data tr c =
     (case c of Psa_read h i n \<Rightarrow> \<lparr>rs_status = PSA_SUCCESS, rs_bytes = take n data, rs_num = 0\<rparr>
      | _ \<Rightarrow> \<lparr>rs_status = PSA_SUCCESS, rs_bytes = [], rs_num = 0\<rparr>)"

definition echo_env :: psa_env where
  "echo_env tr c =
     (case c of
        Psa_call h ty ins outs \<Rightarrow>
          (case echo_handle (reader_env (hd ins)) (replicate TFM_ECHO_MAX_DATA_SIZE 0, replicate TFM_ECHO_MAX_DATA_SIZE 0)
                  (call_msg ty h (length (hd ins)) (hd outs)) [] of
             None \<Rightarrow> \<lparr>rs_status = PSA_ERROR_GENERIC_ERROR, rs_bytes = [], rs_num = 0\<rparr>
           | Some cs \<Rightarrow> \<lparr>rs_status = the (reply_status cs), rs_bytes = take (hd outs) (written cs), rs_num = 0\<rparr>)
      | _ \<Rightarrow> \<lparr>rs_status = PSA_SUCCESS, rs_bytes = [], rs_num = 1\<rparr>)"

lemma added_nil [simp]: "added [] cs = cs"
  by (simp add: added_def)

lemma echo_env_serves: "serves_echo echo_env" "connects echo_env"
proof -
  show "connects echo_env" by (simp add: connects_def echo_env_def)
  show "serves_echo echo_env"
    unfolding serves_echo_def
  proof (intro allI)
    fix tr h and data :: "byte list" and n
    let ?bufs = "(replicate TFM_ECHO_MAX_DATA_SIZE 0, replicate TFM_ECHO_MAX_DATA_SIZE 0) :: byte list \<times> byte list"
    have b: "echo_buffers ?bufs" by (simp add: echo_buffers_def)
    let ?msg = "call_msg PSA_IPC_CALL h (length data) n"
    obtain cs where cs: "echo_handle (reader_env data) ?bufs ?msg [] = Some cs" using echo_defined [OF b] by blast
    obtain s where "reply_status cs = Some s"
      using echo_one_reply [OF cs] by (auto simp: reply_status_def)
    with cs b show "\<exists>senv bufs str str'. delivers senv data \<and> echo_buffers bufs \<and>
        echo_handle senv bufs (call_msg PSA_IPC_CALL h (length data) n) str = Some str' \<and>
        reply_status (added str str') = Some (rs_status (echo_env tr (Psa_call h PSA_IPC_CALL [data] [n]))) \<and>
        rs_bytes (echo_env tr (Psa_call h PSA_IPC_CALL [data] [n])) = take n (written (added str str'))"
      by (intro exI [of _ "reader_env data"] exI [of _ ?bufs] exI [of _ "[]"] exI [of _ cs])
         (simp add: delivers_def reader_env_def echo_env_def)
  qed
qed

end
