(* ===== verification/Clients.thy ===== *)
theory Clients
  imports Echo_Service
begin

section \<open>The client of the inference partition and the test applications\<close>

text \<open>
  \<open>tfm_tinymaix_inference_api.c\<close> and the programs under \<open>nspe/\<close>. Printing is left
  out; a test function returns what it reports.
\<close>

subsection \<open>tfm_tinymaix_inference_api.c\<close>

datatype tfm_tinymaix_status =
  TINYMAIX_STATUS_SUCCESS | TINYMAIX_STATUS_ERROR_INVALID_PARAM | TINYMAIX_STATUS_ERROR_MODEL_LOAD_FAILED
| TINYMAIX_STATUS_ERROR_INFERENCE_FAILED | TINYMAIX_STATUS_ERROR_GENERIC

fun tinymaix_status_code :: "tfm_tinymaix_status \<Rightarrow> int" where
  "tinymaix_status_code TINYMAIX_STATUS_SUCCESS = 0"
| "tinymaix_status_code TINYMAIX_STATUS_ERROR_INVALID_PARAM = -1"
| "tinymaix_status_code TINYMAIX_STATUS_ERROR_MODEL_LOAD_FAILED = -3"
| "tinymaix_status_code TINYMAIX_STATUS_ERROR_INFERENCE_FAILED = -4"
| "tinymaix_status_code TINYMAIX_STATUS_ERROR_GENERIC = -100"

definition TFM_TINYMAIX_INFERENCE_SID :: nat where "TFM_TINYMAIX_INFERENCE_SID = 0x107"

text \<open>An \<open>int\<close> variable after the partition manager stored bytes over its object.\<close>

definition int_of_bytes :: "byte list \<Rightarrow> int" where
  "int_of_bytes bs = s32_of_nat (le_nat bs)"

definition tfm_tinymaix_load_encrypted_model :: "psa_env \<Rightarrow> psa_trace \<Rightarrow> tfm_tinymaix_status \<times> psa_trace" where
  "tfm_tinymaix_load_encrypted_model env tr =
     (let (c, tr) = invoke env (Psa_connect TFM_TINYMAIX_INFERENCE_SID 1) tr; handle = rs_num c
      in if handle \<le> 0 then (TINYMAIX_STATUS_ERROR_GENERIC, tr)
      else let (r, tr) = invoke env (Psa_call handle TINYMAIX_IPC_LOAD_ENCRYPTED_MODEL [] [4]) tr;
               result = le_nat (buf_fill (nat_le 4 1) (rs_bytes r));
               tr = issue env (Psa_close handle) tr
      in if rs_status r \<noteq> PSA_SUCCESS \<or> result \<noteq> 0 then (TINYMAIX_STATUS_ERROR_MODEL_LOAD_FAILED, tr)
         else (TINYMAIX_STATUS_SUCCESS, tr))"

text \<open>\<open>predicted_class\<close> is \<open>None\<close> for a null pointer, otherwise the value it points to.\<close>

definition tfm_tinymaix_run_inference_with_data ::
  "psa_env \<Rightarrow> byte list option \<Rightarrow> nat \<Rightarrow> int option \<Rightarrow> psa_trace \<Rightarrow> tfm_tinymaix_status \<times> int option \<times> psa_trace" where
  "tfm_tinymaix_run_inference_with_data env image_data image_size predicted_class tr =
     (if predicted_class = None then (TINYMAIX_STATUS_ERROR_INVALID_PARAM, predicted_class, tr)
      else let (c, tr) = invoke env (Psa_connect TFM_TINYMAIX_INFERENCE_SID 1) tr; handle = rs_num c
      in if handle \<le> 0 then (TINYMAIX_STATUS_ERROR_GENERIC, predicted_class, tr)
      else let (r, tr) = invoke env (Psa_call handle TINYMAIX_IPC_RUN_INFERENCE [] [4]) tr;
               result = int_of_bytes (buf_fill (int_bytes (-1)) (rs_bytes r));
               tr = issue env (Psa_close handle) tr
      in if rs_status r \<noteq> PSA_SUCCESS \<or> result < 0
         then (TINYMAIX_STATUS_ERROR_INFERENCE_FAILED, predicted_class, tr)
         else (TINYMAIX_STATUS_SUCCESS, Some result, tr))"

definition tfm_tinymaix_run_inference ::
  "psa_env \<Rightarrow> int option \<Rightarrow> psa_trace \<Rightarrow> tfm_tinymaix_status \<times> int option \<times> psa_trace" where
  "tfm_tinymaix_run_inference env predicted_class tr =
     tfm_tinymaix_run_inference_with_data env None 0 predicted_class tr"

definition tfm_tinymaix_get_model_key ::
  "psa_env \<Rightarrow> byte list option \<Rightarrow> nat \<Rightarrow> psa_trace \<Rightarrow> (tfm_tinymaix_status \<times> byte list option \<times> psa_trace) option" where
  "tfm_tinymaix_get_model_key env key_buffer key_buffer_size tr =
     (case key_buffer of
        None \<Rightarrow> Some (TINYMAIX_STATUS_ERROR_INVALID_PARAM, None, tr)
      | Some buf \<Rightarrow>
          if key_buffer_size < 16 then Some (TINYMAIX_STATUS_ERROR_INVALID_PARAM, key_buffer, tr)
          else let (c, tr) = invoke env (Psa_connect TFM_TINYMAIX_INFERENCE_SID 1) tr; handle = rs_num c
          in if handle \<le> 0 then Some (TINYMAIX_STATUS_ERROR_GENERIC, key_buffer, tr)
          else let (r, tr) = invoke env (Psa_call handle TINYMAIX_IPC_GET_MODEL_KEY [] [key_buffer_size]) tr
          in do {
            buf \<leftarrow> copy_into buf (take key_buffer_size (rs_bytes r));
            let tr = issue env (Psa_close handle) tr;
            Some (if rs_status r \<noteq> PSA_SUCCESS then TINYMAIX_STATUS_ERROR_GENERIC else TINYMAIX_STATUS_SUCCESS,
              Some buf, tr) })"

subsection \<open>echo_test_app.c\<close>

definition bytes_of_string :: "string \<Rightarrow> byte list" where
  "bytes_of_string s = map of_char s"

definition echo_test_string :: string where
  "echo_test_string = ''Hello, TF-M Echo Service!''"

definition BUFFER_SIZE :: nat where "BUFFER_SIZE = 256"

text \<open>\<open>strncpy\<close> fills up with zeros; \<open>strlen\<close> of what it wrote.\<close>

definition strncpy_bytes :: "byte list \<Rightarrow> string \<Rightarrow> nat \<Rightarrow> byte list" where
  "strncpy_bytes dst src n =
     take n (bytes_of_string src) @ replicate (n - length src) 0 @ drop n dst"

definition strlen_bytes :: "byte list \<Rightarrow> nat option" where
  "strlen_bytes bs = do { assert_ub (0 \<in> set bs); Some (length (takeWhile (\<lambda>b. b \<noteq> 0) bs)) }"

text \<open>The four tests; the verdicts are \<open>PASSED\<close> or not. \<open>input\<close> and \<open>output\<close> are the stack buffers.\<close>

definition test_echo_service ::
  "psa_env \<Rightarrow> byte list \<Rightarrow> byte list \<Rightarrow> psa_trace \<Rightarrow> (bool list \<times> psa_trace) option" where
  "test_echo_service env input output tr =
     do { let input = (strncpy_bytes input echo_test_string (BUFFER_SIZE - 1))[BUFFER_SIZE - 1 := 0];
          input_len \<leftarrow> strlen_bytes input;
          let output = replicate BUFFER_SIZE 0;
          (status, out1, size1, tr) \<leftarrow> tfm_echo_service env (Some input) input_len (Some output) BUFFER_SIZE True tr;
          let output = the out1;
          let p1 = (status = PSA_SUCCESS \<and> take input_len input = take input_len output \<and> size1 = Some input_len);
          (status, out2, size2, tr) \<leftarrow> tfm_echo_service env None 0 (Some output) BUFFER_SIZE True tr;
          let p2 = (status = PSA_ERROR_INVALID_ARGUMENT);
          let input = replicate TFM_ECHO_MAX_DATA_SIZE (of_char (CHR ''A'')) @ drop TFM_ECHO_MAX_DATA_SIZE input;
          (status, out3, size3, tr) \<leftarrow> tfm_echo_service env (Some input) TFM_ECHO_MAX_DATA_SIZE (Some output) BUFFER_SIZE True tr;
          let output = the out3;
          let p3 = (status = PSA_SUCCESS \<and> size3 = Some TFM_ECHO_MAX_DATA_SIZE);
          (status, out4, size4, tr) \<leftarrow> tfm_echo_service env (Some input) (TFM_ECHO_MAX_DATA_SIZE + 1) (Some output) BUFFER_SIZE True tr;
          let p4 = (status = PSA_ERROR_INVALID_ARGUMENT);
          Some ([p1, p2, p3, p4], tr) }"

subsection \<open>psa_crypto_test.c\<close>

definition crypto_test_text :: string where
  "crypto_test_text = ''Hello PSA Crypto! This is a test message for encryption.''"

definition crypto_test_key :: "byte list" where
  "crypto_test_key = [0x2b, 0x7e, 0x15, 0x16, 0x28, 0xae, 0xd2, 0xa6, 0xab, 0xf7, 0x15, 0x88, 0x09, 0xcf, 0x4f, 0x3c]"

definition TEST_DATA_SIZE :: nat where "TEST_DATA_SIZE = 64"

definition crypto_test_attr :: key_attr where
  "crypto_test_attr = \<lparr>ka_encrypt = True, ka_decrypt = True, ka_alg = PSA_ALG_CBC_PKCS7, ka_bits = 128\<rparr>"

text \<open>
  \<open>None\<close> where the code is undefined: the terminator is written at the reported length of
  the decrypted text. The verdict is missing when the test stops early. The plaintext
  array is the literal padded with zeros to 64 bytes.
\<close>

definition test_psa_encryption :: "psa_env \<Rightarrow> psa_trace \<Rightarrow> (bool option \<times> psa_trace) option" where
  "test_psa_encryption env tr =
     (let plaintext = bytes_of_string crypto_test_text; n = length plaintext;
          (r, tr) = invoke env Crypto_init tr
      in if rs_status r \<noteq> PSA_SUCCESS then Some (None, tr)
      else let (r, tr) = invoke env (Import_key crypto_test_attr crypto_test_key) tr; key_id = rs_num r
      in if rs_status r \<noteq> PSA_SUCCESS then Some (None, tr)
      else let (r, tr) = invoke env (Cipher_encrypt key_id PSA_ALG_CBC_PKCS7 plaintext (TEST_DATA_SIZE + 16)) tr;
               ciphertext = take (TEST_DATA_SIZE + 16) (rs_bytes r)
      in if rs_status r \<noteq> PSA_SUCCESS then Some (None, issue env (Destroy_key key_id) tr)
      else let (r, tr) = invoke env (Cipher_decrypt key_id PSA_ALG_CBC_PKCS7 ciphertext TEST_DATA_SIZE) tr
      in if rs_status r \<noteq> PSA_SUCCESS then Some (None, issue env (Destroy_key key_id) tr)
      else do {
        assert_ub (length (rs_bytes r) < TEST_DATA_SIZE);
        Some (Some (n = length (rs_bytes r) \<and> take (length (rs_bytes r)) plaintext = rs_bytes r),
          issue env (Destroy_key key_id) tr) })"

definition test_psa_hash :: "psa_env \<Rightarrow> psa_trace \<Rightarrow> byte list option \<times> psa_trace" where
  "test_psa_hash env tr =
     (let (r, tr) = invoke env (Hash_compute PSA_ALG_SHA_256 (bytes_of_string ''Hello PSA Hash!'') 32) tr
      in (if rs_status r \<noteq> PSA_SUCCESS then None else Some (rs_bytes r), tr))"

subsection \<open>tinymaix_inference_test.c\<close>

text \<open>The custom picture of the test, drawn pixel by pixel.\<close>

definition custom_pixel :: "nat \<Rightarrow> nat \<Rightarrow> bool" where
  "custom_pixel y x \<longleftrightarrow>
     (y = 0 \<and> 10 \<le> x \<and> x \<le> 17) \<or> (y = 1 \<and> x = 17) \<or> (2 \<le> y \<and> y \<le> 6 \<and> x = 17) \<or>
     (y = 7 \<and> 10 \<le> x \<and> x \<le> 17)"

definition custom_image :: "byte list" where
  "custom_image = map (\<lambda>i. if custom_pixel (i div 28) (i mod 28) then 255 else 0) [0..<28 * 28]"

text \<open>The three steps; a failing step ends the test. The result lists the predicted classes.\<close>

definition test_tinymaix_basic_functionality :: "psa_env \<Rightarrow> psa_trace \<Rightarrow> bool \<times> int list \<times> psa_trace" where
  "test_tinymaix_basic_functionality env tr =
     (let (status, tr) = tfm_tinymaix_load_encrypted_model env tr
      in if status \<noteq> TINYMAIX_STATUS_SUCCESS then (False, [], tr)
      else let (status, cls, tr) = tfm_tinymaix_run_inference env (Some (-1)) tr
      in if status \<noteq> TINYMAIX_STATUS_SUCCESS then (False, [], tr)
      else let (status, cls2, tr) = tfm_tinymaix_run_inference_with_data env (Some custom_image) (28 * 28) cls tr
      in if status \<noteq> TINYMAIX_STATUS_SUCCESS then (False, [the cls], tr)
      else (True, [the cls, the cls2], tr))"

definition test_tinymaix_get_model_key :: "psa_env \<Rightarrow> byte list \<Rightarrow> psa_trace \<Rightarrow> (byte list option \<times> psa_trace) option" where
  "test_tinymaix_get_model_key env key_buffer tr =
     do { (status, buf, tr) \<leftarrow> tfm_tinymaix_get_model_key env (Some key_buffer) 16 tr;
          Some (if status = TINYMAIX_STATUS_SUCCESS then buf else None, tr) }"

subsection \<open>test_runner.c\<close>

text \<open>The test thread, with the stack buffers of the tests; \<open>dev\<close> selects the build.\<close>

definition test_tinymaix_comprehensive_suite :: "psa_env \<Rightarrow> bool \<Rightarrow> byte list \<Rightarrow> psa_trace \<Rightarrow> psa_trace option" where
  "test_tinymaix_comprehensive_suite env dev key_buffer tr =
     (if dev then map_option snd (test_tinymaix_get_model_key env key_buffer tr)
      else Some (snd (snd (test_tinymaix_basic_functionality env tr))))"

definition run_all_tests :: "psa_env \<Rightarrow> bool \<Rightarrow> byte list \<Rightarrow> byte list \<Rightarrow> byte list \<Rightarrow> psa_trace \<Rightarrow> psa_trace option" where
  "run_all_tests env dev input output key_buffer tr =
     (if dev then test_tinymaix_comprehensive_suite env dev key_buffer tr
      else do { (verdicts, tr) \<leftarrow> test_echo_service env input output tr;
                (verdict, tr) \<leftarrow> test_psa_encryption env tr;
                (h, tr) \<leftarrow> Some (test_psa_hash env tr);
                test_tinymaix_comprehensive_suite env dev key_buffer tr })"

end
