(* ===== verification/Client_Correct.thy ===== *)
theory Client_Correct
  imports Service_Correct Clients
begin

section \<open>Clients, services and tests together\<close>

text \<open>
  The client functions and the tests of the application, run against partition managers that
  forward to the models of the partitions.
\<close>

subsection \<open>An integer across the boundary\<close>

lemma int_bytes_roundtrip: "in_s32 i \<Longrightarrow> int_of_bytes (int_bytes i) = i"
proof -
  assume i: "in_s32 i"
  have "0 \<le> wrap_u32 i" "wrap_u32 i < 2 ^ 32" by (simp_all add: wrap_u32_def)
  then have "le_nat (int_bytes i) = nat (wrap_u32 i)" by (simp add: int_bytes_def le_nat_nat_le)
  then have "int_of_bytes (int_bytes i) = wrap_s32 (i mod 2 ^ 32)"
    by (simp add: int_of_bytes_def s32_of_nat_def wrap_u32_def)
  also have "\<dots> = wrap_s32 i" by (simp add: wrap_s32_def mod_add_left_eq)
  finally show ?thesis by (simp add: wrap_s32_id [OF i])
qed

text \<open>What the client of a handler gets: the reply and the bytes written, when the handler is defined.\<close>

definition delivered :: "svc \<Rightarrow> svc option \<Rightarrow> (psa_status option \<times> byte list) option" where
  "delivered st r =
     map_option (\<lambda>st'. (reply_status (added (svc_tr st) (svc_tr st')), written (added (svc_tr st) (svc_tr st')))) r"

lemma delivered_issue:
  "svc_tr s = svc_tr st @ cs \<Longrightarrow> written cs = [] \<Longrightarrow>
   delivered st (Some (svc_issue env (Psa_reply h status) (write_result env msg result s))) =
     Some (Some status, case result of Some r \<Rightarrow> if 4 \<le> msg_out_size msg then int_bytes r else [] | None \<Rightarrow> [])"
proof -
  assume tr: "svc_tr s = svc_tr st @ cs" and w: "written cs = []"
  have "written (cs @ ds) = written ds" for ds
    using w by (induction cs rule: written.induct) auto
  with tr show ?thesis
    by (auto simp: delivered_def write_result_def reply_status_def split: option.split)
qed

text \<open>A request with the stored picture and one that sends the same bytes again get the same answer.\<close>

lemma stored_picture_answer:
  assumes ok: "svc_ok st" and pic: "svc_mem st R_PIC = bs" and n: "msg_in_size msg = 0"
    and rd: "rs_bytes (env' (svc_tr st) (Psa_read (msg_handle msg) 0 pic_size)) = bs"
  shows "delivered st (handle_run env' base (msg\<lparr>msg_in_size := pic_size\<rparr>) st) = delivered st (handle_run env base msg st)"
proof -
  have len: "length bs = pic_size" using ok pic by (auto simp: svc_ok_def svc_sizes_def)
  have pos: "pic_size \<noteq> 0" by (simp add: pic_size_def)
  let ?c = "Psa_read (msg_handle msg) 0 pic_size"
  let ?tr = "svc_tr st @ [(?c, env' (svc_tr st) ?c)]"
  have "(svc_mem st)(R_PIC := bs) = svc_mem st" using pic by auto
  then have st: "st_bytes (svc_mem st) (R_PIC, 0) bs = Some (svc_mem st)"
    using st_bytes_splice [of 0 bs "svc_mem st" R_PIC] len pic by simp
  have same: "set_mem (svc_mem st) (set_tr ?tr st) = set_tr ?tr st" by (simp add: set_mem_def set_tr_def)
  show ?thesis
  proof (cases "g_model_loaded st")
    case False
    then show ?thesis by (simp add: handle_run_def delivered_def reply_status_def)
  next
    case True
    have run1: "handle_run env base msg st = do { (status, result, s) \<leftarrow> infer_picture base st;
        Some (svc_issue env (Psa_reply (msg_handle msg) status) (write_result env msg result s)) }"
      using True n pos by (simp add: handle_run_def split_def)
    have run2: "handle_run env' base (msg\<lparr>msg_in_size := pic_size\<rparr>) st = do { (status, result, s) \<leftarrow> infer_picture base (set_tr ?tr st);
        Some (svc_issue env' (Psa_reply (msg_handle msg) status) (write_result env' (msg\<lparr>msg_in_size := pic_size\<rparr>) result s)) }"
      using True pos st len by (simp add: handle_run_def Let_def invoke_def rd same split_def)
    show ?thesis
    proof (cases "infer_picture base st")
      case None
      then show ?thesis by (simp add: run1 run2 infer_picture_set_tr delivered_def)
    next
      case (Some x)
      obtain status result s where x: "x = (status, result, s)" by (rule prod_cases3)
      have tr: "svc_tr s = svc_tr st" using infer_picture_trace [OF Some [unfolded x]] .
      have "delivered st (handle_run env base msg st) =
          Some (Some status, case result of Some r \<Rightarrow> if 4 \<le> msg_out_size msg then int_bytes r else [] | None \<Rightarrow> [])"
        using delivered_issue [of s st "[]"] tr by (simp add: run1 Some x)
      moreover have "delivered st (handle_run env' base (msg\<lparr>msg_in_size := pic_size\<rparr>) st) =
          Some (Some status, case result of Some r \<Rightarrow> if 4 \<le> msg_out_size msg then int_bytes r else [] | None \<Rightarrow> [])"
        using delivered_issue [of "set_tr ?tr s" st "[(?c, env' (svc_tr st) ?c)]" env' "msg_handle msg" status "msg\<lparr>msg_in_size := pic_size\<rparr>" result]
        by (cases result) (simp_all add: run2 infer_picture_set_tr Some x)
      ultimately show ?thesis by simp
    qed
  qed
qed

text \<open>What a client of an inference request gets from the service.\<close>

lemma run_delivers:
  assumes msg: "msg = call_msg TINYMAIX_IPC_RUN_INFERENCE h n 4" and r: "handle_run env base msg st = Some st'"
  shows "\<exists>status. reply_status (added (svc_tr st) (svc_tr st')) = Some status \<and>
    (if status = PSA_SUCCESS then \<exists>r. -1 \<le> r \<and> r \<le> 9 \<and> written (added (svc_tr st) (svc_tr st')) = int_bytes r
     else written (added (svc_tr st) (svc_tr st')) = [])"
proof -
  have h: "msg_handle msg = h" "msg_out_size msg = 4" by (simp_all add: msg call_msg_def)
  have fin: "\<exists>status'. reply_status (added tr0 (svc_tr (svc_issue env (Psa_reply h status) (write_result env msg result st2)))) = Some status' \<and>
    (if status' = PSA_SUCCESS
     then \<exists>r. -1 \<le> r \<and> r \<le> 9 \<and> written (added tr0 (svc_tr (svc_issue env (Psa_reply h status) (write_result env msg result st2)))) = int_bytes r
     else written (added tr0 (svc_tr (svc_issue env (Psa_reply h status) (write_result env msg result st2)))) = [])"
    if i: "infer_picture base st1 = Some (status, result, st2)" and tr: "svc_tr st1 = tr0 @ cs" and w: "written cs = []"
    for st1 status result st2 tr0 cs
  proof (cases "status = PSA_SUCCESS")
    case True
    with infer_result [OF i] obtain v where v: "result = Some v" "-1 \<le> v" "v \<le> 9" by auto
    have "written (cs @ ds) = written ds" for ds
      using w by (induction cs rule: written.induct) auto
    with True v show ?thesis
      by (auto simp: write_result_def h infer_picture_trace [OF i] tr reply_status_def)
  next
    case False
    with infer_result [OF i] have "result = None" by simp
    have "written (cs @ ds) = written ds" for ds
      using w by (induction cs rule: written.induct) auto
    with False \<open>result = None\<close> show ?thesis
      by (simp add: write_result_def infer_picture_trace [OF i] tr reply_status_def)
  qed
  show ?thesis
    using r
  proof (rule handle_run_cases)
    fix status assume "status \<noteq> PSA_SUCCESS" "st' = svc_issue env (Psa_reply (msg_handle msg) status) st"
    then show ?thesis by (simp add: reply_status_def)
  next
    fix m st1 assume "st1 = set_mem m (svc_issue env (Psa_read (msg_handle msg) 0 pic_size) st)"
      "st' = svc_issue env (Psa_reply (msg_handle msg) PSA_ERROR_COMMUNICATION_FAILURE) st1"
    then show ?thesis by (simp add: reply_status_def)
  next
    fix m st1 status result st2
    assume st1: "st1 = set_mem m (svc_issue env (Psa_read (msg_handle msg) 0 pic_size) st)"
      and i: "infer_picture base st1 = Some (status, result, st2)"
      and st': "st' = svc_issue env (Psa_reply (msg_handle msg) status) (write_result env msg result st2)"
    show ?thesis unfolding st' h(1)
      by (rule fin [OF i, of _ "[(Psa_read h 0 pic_size, env (svc_tr st) (Psa_read h 0 pic_size))]"]) (simp_all add: st1 h)
  next
    fix status result st2
    assume i: "infer_picture base st = Some (status, result, st2)"
      and st': "st' = svc_issue env (Psa_reply (msg_handle msg) status) (write_result env msg result st2)"
    show ?thesis unfolding st' h(1) by (rule fin [OF i, of _ "[]"]) simp_all
  qed
qed

text \<open>The partition manager in front of the inference partition.\<close>

definition serves_inference :: "int \<Rightarrow> psa_env \<Rightarrow> bool" where
  "serves_inference base env \<longleftrightarrow>
     (\<forall>tr h. \<exists>senv st st'.
        handle_run senv base (call_msg TINYMAIX_IPC_RUN_INFERENCE h 0 4) st = Some st' \<and>
        reply_status (added (svc_tr st) (svc_tr st')) =
          Some (rs_status (env tr (Psa_call h TINYMAIX_IPC_RUN_INFERENCE [] [4]))) \<and>
        rs_bytes (env tr (Psa_call h TINYMAIX_IPC_RUN_INFERENCE [] [4])) = take 4 (written (added (svc_tr st) (svc_tr st'))))"

lemma client_class:
  assumes srv: "serves_inference base env"
    and run: "tfm_tinymaix_run_inference_with_data env img n pc tr = (status, pc', tr')"
  shows "if status = TINYMAIX_STATUS_SUCCESS then \<exists>c. pc' = Some c \<and> 0 \<le> c \<and> c \<le> 9 else pc' = pc"
proof -
  let ?call = "\<lambda>h. Psa_call h TINYMAIX_IPC_RUN_INFERENCE [] [4]"
  have got: "\<exists>v. -1 \<le> v \<and> v \<le> 9 \<and> int_of_bytes (buf_fill (int_bytes (-1)) (rs_bytes (env t (?call h)))) = v" 
    if ok: "rs_status (env t (?call h)) = PSA_SUCCESS" for t h
  proof -
    obtain senv st st' where s: "handle_run senv base (call_msg TINYMAIX_IPC_RUN_INFERENCE h 0 4) st = Some st'"
      "reply_status (added (svc_tr st) (svc_tr st')) = Some (rs_status (env t (?call h)))"
      "rs_bytes (env t (?call h)) = take 4 (written (added (svc_tr st) (svc_tr st')))"
      using srv unfolding serves_inference_def by blast
    from run_delivers [OF refl s(1)] s(2) ok obtain v where v: "-1 \<le> v" "v \<le> 9"
      "written (added (svc_tr st) (svc_tr st')) = int_bytes v" by auto
    then have "in_s32 v" by (simp add: in_s32_def)
    with v s(3) show ?thesis by (auto simp: buf_fill_exact int_bytes_roundtrip)
  qed
  show ?thesis
  proof (cases "pc = None \<or> rs_num (env tr (Psa_connect TFM_TINYMAIX_INFERENCE_SID 1)) \<le> 0")
    case True
    with run show ?thesis
      by (auto simp: tfm_tinymaix_run_inference_with_data_def invoke_def Let_def split: if_splits)
  next
    case False
    define tr1 where "tr1 = tr @ [(Psa_connect TFM_TINYMAIX_INFERENCE_SID 1, env tr (Psa_connect TFM_TINYMAIX_INFERENCE_SID 1))]"
    define r where "r = env tr1 (?call (rs_num (env tr (Psa_connect TFM_TINYMAIX_INFERENCE_SID 1))))"
    from run False have "(status, pc') = (if rs_status r \<noteq> PSA_SUCCESS \<or> int_of_bytes (buf_fill (int_bytes (-1)) (rs_bytes r)) < 0
         then (TINYMAIX_STATUS_ERROR_INFERENCE_FAILED, pc)
         else (TINYMAIX_STATUS_SUCCESS, Some (int_of_bytes (buf_fill (int_bytes (-1)) (rs_bytes r)))))"
      by (auto simp: tfm_tinymaix_run_inference_with_data_def invoke_def Let_def r_def tr1_def split: if_splits)
    with got [of tr1 "rs_num (env tr (Psa_connect TFM_TINYMAIX_INFERENCE_SID 1))"] show ?thesis
      by (auto simp: r_def split: if_splits)
  qed
qed

subsection \<open>The test applications\<close>

lemma echo_test_buffer:
  assumes "length input = BUFFER_SIZE"
  shows "length ((strncpy_bytes input echo_test_string (BUFFER_SIZE - 1))[BUFFER_SIZE - 1 := 0]) = 256"
    and "strlen_bytes ((strncpy_bytes input echo_test_string (BUFFER_SIZE - 1))[BUFFER_SIZE - 1 := 0]) = Some 25"
proof -
  let ?s = "bytes_of_string echo_test_string"
  have s: "length ?s = 25" "length echo_test_string = 25" "\<forall>b\<in>set ?s. b \<noteq> 0"
    by (simp_all add: bytes_of_string_def echo_test_string_def)
  let ?t = "replicate (255 - 25) 0 @ drop 255 input"
  have buf: "(strncpy_bytes input echo_test_string (BUFFER_SIZE - 1))[BUFFER_SIZE - 1 := 0] = ?s @ (?t[230 := 0])"
    using s assms by (simp add: strncpy_bytes_def BUFFER_SIZE_def list_update_append)
  have "replicate 230 (0 :: byte) = 0 # replicate 229 0"
    using replicate_Suc [of 229 "0 :: byte"] by simp
  then have t: "?t[230 := 0] = 0 # tl (?t[230 := 0])"
    by (simp add: list_update_append)
  show "length ((strncpy_bytes input echo_test_string (BUFFER_SIZE - 1))[BUFFER_SIZE - 1 := 0]) = 256"
    unfolding buf using s assms by (simp add: BUFFER_SIZE_def)
  have "takeWhile (\<lambda>b. b \<noteq> 0) (?s @ (?t[230 := 0])) = ?s"
    using s(3) by (subst t) (simp add: takeWhile_append2)
  moreover have "0 \<in> set (?s @ (?t[230 := 0]))" by (subst t) simp
  ultimately show "strlen_bytes ((strncpy_bytes input echo_test_string (BUFFER_SIZE - 1))[BUFFER_SIZE - 1 := 0]) = Some 25"
    unfolding buf strlen_bytes_def using s by simp
qed

lemma echo_tests_pass:
  assumes "serves_echo env" "connects env" "length input = BUFFER_SIZE"
  shows "\<exists>tr'. test_echo_service env input output tr = Some ([True, True, True, True], tr')"
proof -
  note E = echo_client_echoes [OF assms(1,2)]
  let ?in = "(strncpy_bytes input echo_test_string (BUFFER_SIZE - 1))[BUFFER_SIZE - 1 := 0]"
  note len = echo_test_buffer(1) [OF assms(3)] and strl = echo_test_buffer(2) [OF assms(3)]
  obtain tr1 where e1: "tfm_echo_service env (Some ?in) 25 (Some (replicate BUFFER_SIZE 0)) BUFFER_SIZE True tr =
      Some (PSA_SUCCESS, Some (take 25 ?in @ drop 25 (replicate BUFFER_SIZE 0)), Some 25, tr1)"
    using E [of 25 BUFFER_SIZE ?in "replicate BUFFER_SIZE 0" tr] len
    by (auto simp: TFM_ECHO_MAX_DATA_SIZE_def BUFFER_SIZE_def)
  let ?out = "take 25 ?in @ drop 25 (replicate BUFFER_SIZE (0 :: byte))"
  have lo: "length ?out = 256" "take 25 ?out = take 25 ?in" using len by (simp_all add: BUFFER_SIZE_def)
  have e2: "tfm_echo_service env None 0 (Some ?out) BUFFER_SIZE True tr1 =
      Some (PSA_ERROR_INVALID_ARGUMENT, Some ?out, None, tr1)" by (simp add: tfm_echo_service_def)
  let ?in3 = "replicate TFM_ECHO_MAX_DATA_SIZE (of_char (CHR ''A'')) @ drop TFM_ECHO_MAX_DATA_SIZE ?in"
  obtain out3 tr3 where e3: "tfm_echo_service env (Some ?in3) TFM_ECHO_MAX_DATA_SIZE (Some ?out) BUFFER_SIZE True tr1 =
      Some (PSA_SUCCESS, Some out3, Some TFM_ECHO_MAX_DATA_SIZE, tr3)"
    using E [of TFM_ECHO_MAX_DATA_SIZE BUFFER_SIZE ?in3 ?out tr1] len lo
    by (auto simp: TFM_ECHO_MAX_DATA_SIZE_def BUFFER_SIZE_def)
  have e4: "tfm_echo_service env (Some ?in3) (TFM_ECHO_MAX_DATA_SIZE + 1) (Some out3) BUFFER_SIZE True tr3 =
      Some (PSA_ERROR_INVALID_ARGUMENT, Some out3, None, tr3)" by (simp add: tfm_echo_service_def)
  show ?thesis
    unfolding test_echo_service_def Let_def strl Option.bind.bind_lunit e1 prod.case option.sel e2 e3 e4
    using lo(2) by simp
qed

text \<open>The crypto test leaves no key behind, whatever the crypto service answers.\<close>

lemma crypto_test_resources:
  assumes "test_psa_encryption env tr = Some (v, tr')"
  shows "extends tr tr' \<and> owed_after (added tr tr') res_idle = res_idle"
  using assms
  by (auto simp: test_psa_encryption_def Let_def invoke_def bind_eq_Some_conv res_idle_def split: if_splits)

text \<open>A cipher that decrypts what it encrypted passes the test.\<close>

definition cipher_inverts :: "psa_env \<Rightarrow> byte list \<Rightarrow> bool" where
  "cipher_inverts env pt \<longleftrightarrow>
     (\<forall>tr tr' key n m. rs_bytes (env tr' (Cipher_decrypt key PSA_ALG_CBC_PKCS7
        (take n (rs_bytes (env tr (Cipher_encrypt key PSA_ALG_CBC_PKCS7 pt n)))) m)) = pt)"

lemma crypto_test_passes:
  assumes "crypto_succeeds env" "cipher_inverts env (bytes_of_string crypto_test_text)"
  shows "\<exists>tr'. test_psa_encryption env tr = Some (Some True, tr')"
proof -
  have "length (bytes_of_string crypto_test_text) = 56" by (simp add: bytes_of_string_def crypto_test_text_def)
  then show ?thesis
    using assms by (simp add: test_psa_encryption_def Let_def invoke_def crypto_succeeds_def cipher_inverts_def TEST_DATA_SIZE_def)
qed

end
