(* ===== verification/System_Run.thy ===== *)
theory System_Run
  imports Shipped_Run Client_Correct
begin

section \<open>The application, the partition manager and the partition together\<close>

text \<open>
  The partition manager turns the calls of the application into messages, and the partition works on them one
  by one. This theory keeps the whole history: the answer to a call is what the partition does with it in the
  state all earlier messages have left it in. With the shipped package and the built-in picture, the TinyMaix test
  of the application passes and sees class 2 twice.
\<close>

subsection \<open>Messages of a history of calls\<close>

text \<open>The size of the first vector of a call, 0 without one.\<close>

definition first_size :: "nat list \<Rightarrow> nat" where
  "first_size ns = (case ns of [] \<Rightarrow> 0 | n # _ \<Rightarrow> n)"

text \<open>The open connections to the partition and the messages so far; calls on other connections are skipped.\<close>

fun session_step :: "int list \<times> psa_msg list \<Rightarrow> psa_call \<times> psa_resp \<Rightarrow> int list \<times> psa_msg list" where
  "session_step (hs, ms) (Psa_connect sid v, r) =
     (if sid = TFM_TINYMAIX_INFERENCE_SID \<and> 0 < rs_num r
      then (rs_num r # hs, ms @ [\<lparr>msg_type = PSA_IPC_CONNECT, msg_handle = rs_num r, msg_in_size = 0, msg_out_size = 0\<rparr>])
      else (hs, ms))"
| "session_step (hs, ms) (Psa_call h ty ins outs, r) =
     (if h \<in> set hs then (hs, ms @ [call_msg ty h (first_size (map length ins)) (first_size outs)]) else (hs, ms))"
| "session_step (hs, ms) (Psa_close h, r) =
     (if h \<in> set hs
      then (remove1 h hs, ms @ [\<lparr>msg_type = PSA_IPC_DISCONNECT, msg_handle = h, msg_in_size = 0, msg_out_size = 0\<rparr>])
      else (hs, ms))"
| "session_step (hs, ms) _ = (hs, ms)"

definition session :: "psa_trace \<Rightarrow> int list \<times> psa_msg list" where
  "session tr = fold (\<lambda>e s. session_step s e) tr ([], [])"

lemma session_snoc [simp]: "session (tr @ [e]) = session_step (session tr) e"
  by (simp add: session_def)

text \<open>The partition after a history, in a build without \<open>DEV_MODE\<close>.\<close>

definition partition_after :: "psa_env \<Rightarrow> int \<Rightarrow> psa_trace \<Rightarrow> svc option" where
  "partition_after senv base tr =
     tinymaix_inference_entry senv False base encrypted_mdl_data_data (map (Pair PSA_SUCCESS) (snd (session tr)))
       (snd (tinymaix_inference_init (svc_start mnist_pic)))"

text \<open>The manager forwards a call without input to the partition: its status and its bytes come back.\<close>

definition forwards :: "psa_env \<Rightarrow> int \<Rightarrow> psa_env \<Rightarrow> bool" where
  "forwards senv base env \<longleftrightarrow>
     (\<forall>tr h ty n st st'. h \<in> set (fst (session tr)) \<longrightarrow> partition_after senv base tr = Some st \<longrightarrow>
        handle_message senv False base encrypted_mdl_data_data (call_msg ty h 0 n) st = Some st' \<longrightarrow>
        reply_status (added (svc_tr st) (svc_tr st')) = Some (rs_status (env tr (Psa_call h ty [] [n]))) \<and>
        rs_bytes (env tr (Psa_call h ty [] [n])) = take n (written (added (svc_tr st) (svc_tr st'))))"

lemma partition_snoc:
  assumes "partition_after senv base tr = Some st" "snd (session (tr @ [e])) = snd (session tr) @ [msg]"
  shows "partition_after senv base (tr @ [e]) = handle_message senv False base encrypted_mdl_data_data msg st"
  using assms
  by (cases "handle_message senv False base encrypted_mdl_data_data msg st")
     (simp_all add: partition_after_def tinymaix_inference_entry_def foldM_append serve_one_def)

subsection \<open>The partition with the shipped network\<close>

definition picture_ready :: "svc \<Rightarrow> bool" where
  "picture_ready st \<longleftrightarrow> svc_ok st \<and> svc_mem st R_PIC = mnist_pic"

definition digit_ready :: "svc \<Rightarrow> bool" where
  "digit_ready st \<longleftrightarrow> picture_ready st \<and> g_model_loaded st \<and> holds_image (svc_mem st) \<and> image_handle (g_mdl st) \<and>
     g_in st = net_input"

lemma ready_issue [simp]:
  "picture_ready (svc_issue env c st) = picture_ready st" "digit_ready (svc_issue env c st) = digit_ready st"
  by (simp_all add: picture_ready_def digit_ready_def svc_ok_issue)

lemma start_ready: "picture_ready (snd (tinymaix_inference_init (svc_start mnist_pic)))"
  using svc_start_ok [OF length_mnist_pic] by (simp add: picture_ready_def tinymaix_inference_init_def svc_start_def)

lemma quiet_writes_nothing:
  assumes "quiet_step False msg tr tr'" "msg_out_size msg = 0"
  shows "written (added tr tr') = []"
proof -
  have "written cs = []" if "\<forall>(c, r)\<in>set cs. allowed_call False msg c" for cs
    using that assms(2) by (induction cs rule: written.induct) (auto simp: allowed_call_def dest!: length_result_bytes)
  then show ?thesis using assms(1) by (simp add: quiet_step_def)
qed

lemma written_append: "written (cs @ ds) = written cs @ written ds"
  by (induction cs rule: written.induct) auto

lemma load_answer:
  assumes st: "picture_ready st" and env: "decrypts_package senv"
  shows "\<exists>st'. handle_message senv False base encrypted_mdl_data_data (call_msg TINYMAIX_IPC_LOAD_ENCRYPTED_MODEL h 0 4) st = Some st' \<and>
    digit_ready st' \<and> reply_status (added (svc_tr st) (svc_tr st')) = Some PSA_SUCCESS \<and>
    written (added (svc_tr st) (svc_tr st')) = int_bytes 0"
proof -
  obtain s1 where l: "load_model senv encrypted_mdl_data_data st = Some (PSA_SUCCESS, s1)" "svc_ok s1" "g_model_loaded s1"
    "holds_image (svc_mem s1)" "image_handle (g_mdl s1)" "g_in s1 = net_input"
    using shipped_load [OF _ env] st by (auto simp: picture_ready_def)
  have q: "quiet_step False (call_msg TINYMAIX_IPC_LOAD_ENCRYPTED_MODEL h 0 0) (svc_tr st) (svc_tr s1)"
    by (rule load_model_trace [OF l(1)])
  then have tr: "svc_tr s1 = svc_tr st @ added (svc_tr st) (svc_tr s1)" by (simp add: quiet_step_def extends_def)
  have w: "written (added (svc_tr st) (svc_tr s1)) = []" by (rule quiet_writes_nothing [OF q]) (simp add: call_msg_def)
  define s2 where "s2 = svc_issue senv (Psa_reply h PSA_SUCCESS) (svc_issue senv (Psa_write h 0 (int_bytes 0)) s1)"
  have "digit_ready s2"
    using l st load_keeps_picture [OF l(1)] by (simp add: s2_def digit_ready_def picture_ready_def)
  moreover have "handle_message senv False base encrypted_mdl_data_data (call_msg TINYMAIX_IPC_LOAD_ENCRYPTED_MODEL h 0 4) st = Some s2"
    using l(1) by (simp add: handle_message_def handle_load_def call_msg_def s2_def)
  moreover have "\<exists>r1 r2. added (svc_tr st) (svc_tr s2) =
      added (svc_tr st) (svc_tr s1) @ [(Psa_write h 0 (int_bytes 0), r1), (Psa_reply h PSA_SUCCESS, r2)]"
    unfolding s2_def svc_issue_simps using tr by (metis added_append append.assoc append_Cons append_Nil)
  ultimately show ?thesis using w by (auto simp: written_append reply_status_def)
qed

lemma infer_picture_input: "infer_picture base st = Some (status, result, st') \<Longrightarrow> g_in st' = g_in st"
  by (auto simp: infer_picture_def Let_def bind_eq_Some_conv dest!: preprocess_same_out split: if_splits)

lemma run_answer:
  assumes st: "digit_ready st"
  shows "\<exists>st'. handle_message senv False base encrypted_mdl_data_data (call_msg TINYMAIX_IPC_RUN_INFERENCE h 0 4) st = Some st' \<and>
    digit_ready st' \<and> reply_status (added (svc_tr st) (svc_tr st')) = Some PSA_SUCCESS \<and>
    written (added (svc_tr st) (svc_tr st')) = int_bytes 2"
proof -
  have r: "svc_ok st" "holds_image (svc_mem st)" "image_handle (g_mdl st)" "g_in st = net_input" "svc_mem st R_PIC = mnist_pic"
    "g_model_loaded st" using st by (auto simp: digit_ready_def picture_ready_def)
  obtain s1 where i: "infer_picture base st = Some (PSA_SUCCESS, Some 2, s1)" using digit_inference [OF r(1-5)] by blast
  have "engine_ready st" using r(1,6) by (simp add: svc_ok_def)
  note frame = infer_picture_frame [OF this i]
  have ok: "svc_ok s1" by (rule infer_picture_ok [OF r(1,6) i])
  have same: "svc_mem s1 R_MODEL = svc_mem st R_MODEL" "svc_mem s1 R_PIC = svc_mem st R_PIC"
    using frame by (simp_all add: keeps_def)
  have "digit_ready s1"
    using ok frame same r infer_picture_input [OF i]
    by (auto simp: digit_ready_def picture_ready_def holds_image_def engine_ready_def image_handle_def)
  moreover have "handle_message senv False base encrypted_mdl_data_data (call_msg TINYMAIX_IPC_RUN_INFERENCE h 0 4) st =
      Some (svc_issue senv (Psa_reply h PSA_SUCCESS) (svc_issue senv (Psa_write h 0 (int_bytes 2)) s1))"
    using i r(6)
    by (simp add: handle_message_def handle_run_def call_msg_def tinymaix_ipc_defs pic_size_def write_result_def)
  ultimately show ?thesis using infer_picture_trace [OF i] by (simp add: reply_status_def)
qed

subsection \<open>A request of the client\<close>

text \<open>Connect, call, close: what one request does, for a condition \<open>R\<close> on the partition before and \<open>R'\<close> after.\<close>

definition after_request :: "psa_env \<Rightarrow> nat \<Rightarrow> psa_trace \<Rightarrow> psa_trace" where
  "after_request env ty tr =
     (let c = Psa_connect TFM_TINYMAIX_INFERENCE_SID 1; h = rs_num (env tr c); tr = tr @ [(c, env tr c)];
          d = Psa_call h ty [] [4]; tr = tr @ [(d, env tr d)]
      in tr @ [(Psa_close h, env tr (Psa_close h))])"

lemma request:
  fixes env :: psa_env and tr :: psa_trace
  defines "c \<equiv> Psa_connect TFM_TINYMAIX_INFERENCE_SID 1"
  defines "h \<equiv> rs_num (env tr c)"
  assumes conn: "connects env" and fwd: "forwards senv base env"
    and tr: "fst (session tr) = []" "partition_after senv base tr = Some st" "R st"
    and issue: "\<And>c st. R (svc_issue senv c st) = R st" "\<And>c st. R' (svc_issue senv c st) = R' st"
    and answer: "\<And>st. R st \<Longrightarrow> \<exists>st'. handle_message senv False base encrypted_mdl_data_data (call_msg ty h 0 4) st = Some st' \<and>
      R' st' \<and> reply_status (added (svc_tr st) (svc_tr st')) = Some PSA_SUCCESS \<and> written (added (svc_tr st) (svc_tr st')) = bs"
  shows "0 < h" and "rs_status (env (tr @ [(c, env tr c)]) (Psa_call h ty [] [4])) = PSA_SUCCESS"
    and "rs_bytes (env (tr @ [(c, env tr c)]) (Psa_call h ty [] [4])) = take 4 bs"
    and "fst (session (after_request env ty tr)) = []"
    and "\<exists>st'. partition_after senv base (after_request env ty tr) = Some st' \<and> R' st'"
proof -
  let ?tr1 = "tr @ [(c, env tr c)]"
  let ?d = "Psa_call h ty [] [4]"
  let ?tr2 = "?tr1 @ [(?d, env ?tr1 ?d)]"
  let ?e = "(Psa_close h, env ?tr2 (Psa_close h))"
  show h: "0 < h" using conn by (simp add: connects_def h_def c_def)
  obtain ms where s0: "session tr = ([], ms)" using tr(1) by (cases "session tr") auto
  let ?m1 = "\<lparr>msg_type = PSA_IPC_CONNECT, msg_handle = h, msg_in_size = 0, msg_out_size = 0\<rparr>"
  let ?m3 = "\<lparr>msg_type = PSA_IPC_DISCONNECT, msg_handle = h, msg_in_size = 0, msg_out_size = 0\<rparr>"
  have s1: "session ?tr1 = ([h], ms @ [?m1])" using s0 h by (simp add: c_def h_def)
  have s2: "session ?tr2 = ([h], (ms @ [?m1]) @ [call_msg ty h 0 4])"
    unfolding session_snoc [of ?tr1] s1 by (simp add: first_size_def)
  have s3: "session (?tr2 @ [?e]) = ([], ((ms @ [?m1]) @ [call_msg ty h 0 4]) @ [?m3])"
    unfolding session_snoc [of ?tr2] s2 by simp
  define st1 where "st1 = svc_issue senv (Psa_reply h PSA_SUCCESS) st"
  have p1: "partition_after senv base ?tr1 = Some st1"
    using partition_snoc [OF tr(2), of "(c, env tr c)" ?m1] s0 s1 by (simp add: handle_message_def st1_def)
  have "R st1" using tr(3) issue(1) by (simp add: st1_def)
  from answer [OF this] obtain st2
    where a: "handle_message senv False base encrypted_mdl_data_data (call_msg ty h 0 4) st1 = Some st2" "R' st2"
      "reply_status (added (svc_tr st1) (svc_tr st2)) = Some PSA_SUCCESS" "written (added (svc_tr st1) (svc_tr st2)) = bs"
    by blast
  have "h \<in> set (fst (session ?tr1))" unfolding s1 by simp
  from fwd [unfolded forwards_def, rule_format, OF this p1 a(1)] a(3,4)
  show "rs_status (env ?tr1 ?d) = PSA_SUCCESS" "rs_bytes (env ?tr1 ?d) = take 4 bs" by simp_all
  have p2: "partition_after senv base ?tr2 = Some st2"
    using partition_snoc [OF p1, of "(?d, env ?tr1 ?d)" "call_msg ty h 0 4"] s1 s2 a(1) by simp
  have "partition_after senv base (?tr2 @ [?e]) = Some (svc_issue senv (Psa_reply h PSA_SUCCESS) st2)"
    using partition_snoc [OF p2, of ?e ?m3] s2 s3 by (simp add: handle_message_def)
  moreover have "after_request env ty tr = ?tr2 @ [?e]" by (simp add: after_request_def Let_def c_def h_def)
  ultimately show "fst (session (after_request env ty tr)) = []"
    "\<exists>st'. partition_after senv base (after_request env ty tr) = Some st' \<and> R' st'"
    using s3 a(2) issue(2) by auto
qed

lemma client_load:
  assumes "connects env" "forwards senv base env" "decrypts_package senv"
    and "fst (session tr) = []" "partition_after senv base tr = Some st" "picture_ready st"
  shows "\<exists>tr' st'. tfm_tinymaix_load_encrypted_model env tr = (TINYMAIX_STATUS_SUCCESS, tr') \<and>
    fst (session tr') = [] \<and> partition_after senv base tr' = Some st' \<and> digit_ready st'"
proof -
  let ?c = "Psa_connect TFM_TINYMAIX_INFERENCE_SID 1"
  note req = request [where R = picture_ready and R' = digit_ready and ty = TINYMAIX_IPC_LOAD_ENCRYPTED_MODEL and bs = "int_bytes 0",
      OF assms(1,2,4-6) ready_issue load_answer [OF _ assms(3)]]
  have "le_nat (int_bytes 0) = 0" by (simp add: int_bytes_def le_nat_nat_le wrap_u32_def)
  then have "tfm_tinymaix_load_encrypted_model env tr =
      (TINYMAIX_STATUS_SUCCESS, after_request env TINYMAIX_IPC_LOAD_ENCRYPTED_MODEL tr)"
    using req(1-3)
    by (simp add: tfm_tinymaix_load_encrypted_model_def after_request_def invoke_def issue_eq Let_def buf_fill_exact)
  with req(4,5) show ?thesis by blast
qed

lemma client_run:
  assumes "connects env" "forwards senv base env"
    and "fst (session tr) = []" "partition_after senv base tr = Some st" "digit_ready st"
  shows "\<exists>tr' st'. tfm_tinymaix_run_inference_with_data env img n (Some p) tr = (TINYMAIX_STATUS_SUCCESS, Some 2, tr') \<and>
    fst (session tr') = [] \<and> partition_after senv base tr' = Some st' \<and> digit_ready st'"
proof -
  note req = request [where R = digit_ready and R' = digit_ready and ty = TINYMAIX_IPC_RUN_INFERENCE and bs = "int_bytes 2",
      OF assms ready_issue(2) ready_issue(2) run_answer]
  have "int_of_bytes (int_bytes 2) = 2" by (rule int_bytes_roundtrip) (simp add: in_s32_def)
  then have "tfm_tinymaix_run_inference_with_data env img n (Some p) tr =
      (TINYMAIX_STATUS_SUCCESS, Some 2, after_request env TINYMAIX_IPC_RUN_INFERENCE tr)"
    using req(1-3)
    by (simp add: tfm_tinymaix_run_inference_with_data_def after_request_def invoke_def issue_eq Let_def buf_fill_exact)
  with req(4,5) show ?thesis by blast
qed

lemma application_test:
  assumes env: "connects env" "forwards senv base env" "decrypts_package senv"
    and tr: "session tr = ([], [])"
  shows "\<exists>tr'. test_tinymaix_basic_functionality env tr = (True, [2, 2], tr')"
proof -
  have "partition_after senv base tr = Some (snd (tinymaix_inference_init (svc_start mnist_pic)))"
    using tr by (simp add: partition_after_def tinymaix_inference_entry_def)
  from client_load [OF env _ this start_ready] tr obtain tr1 st1
    where 1: "tfm_tinymaix_load_encrypted_model env tr = (TINYMAIX_STATUS_SUCCESS, tr1)"
      "fst (session tr1) = []" "partition_after senv base tr1 = Some st1" "digit_ready st1" by auto
  from client_run [OF env(1,2) 1(2-4), of None 0 "-1"] obtain tr2 st2
    where 2: "tfm_tinymaix_run_inference_with_data env None 0 (Some (-1)) tr1 = (TINYMAIX_STATUS_SUCCESS, Some 2, tr2)"
      "fst (session tr2) = []" "partition_after senv base tr2 = Some st2" "digit_ready st2" by auto
  from client_run [OF env(1,2) 2(2-4), of "Some custom_image" "28 * 28" 2] obtain tr3
    where 3: "tfm_tinymaix_run_inference_with_data env (Some custom_image) (28 * 28) (Some 2) tr2 =
      (TINYMAIX_STATUS_SUCCESS, Some 2, tr3)" by auto
  show ?thesis
    using 1(1) 2(1) 3 by (simp add: test_tinymaix_basic_functionality_def tfm_tinymaix_run_inference_def)
qed

subsection \<open>A partition manager\<close>

text \<open>A manager that keeps its promise, over any PSA implementation: it computes the answer from the history.\<close>

definition manager :: "psa_env \<Rightarrow> int \<Rightarrow> psa_env" where
  "manager senv base tr c =
     (case c of
        Psa_call h ty ins outs \<Rightarrow>
          (case do { st \<leftarrow> partition_after senv base tr;
                     st' \<leftarrow> handle_message senv False base encrypted_mdl_data_data
                       (call_msg ty h (first_size (map length ins)) (first_size outs)) st;
                     Some (added (svc_tr st) (svc_tr st')) } of
             None \<Rightarrow> \<lparr>rs_status = PSA_ERROR_GENERIC_ERROR, rs_bytes = [], rs_num = 0\<rparr>
           | Some cs \<Rightarrow> \<lparr>rs_status = the (reply_status cs), rs_bytes = take (first_size outs) (written cs), rs_num = 0\<rparr>)
      | _ \<Rightarrow> \<lparr>rs_status = PSA_SUCCESS, rs_bytes = [], rs_num = 1\<rparr>)"

lemma manager_forwards: "connects (manager senv base)" "forwards senv base (manager senv base)"
proof -
  show "connects (manager senv base)" by (simp add: connects_def manager_def)
  show "forwards senv base (manager senv base)"
    unfolding forwards_def
  proof (intro allI impI)
    fix tr h ty n st st'
    assume p: "partition_after senv base tr = Some st"
      and m: "handle_message senv False base encrypted_mdl_data_data (call_msg ty h 0 n) st = Some st'"
    obtain mid status r where mid: "quiet_step False (call_msg ty h 0 n) (svc_tr st) mid"
      "svc_tr st' = mid @ [(Psa_reply h status, r)]"
      using handle_message_reply [OF m] by (auto simp: one_reply_def call_msg_def)
    then have "svc_tr st' = svc_tr st @ added (svc_tr st) mid @ [(Psa_reply h status, r)]"
      by (metis quiet_step_def extends_def append.assoc)
    then have "reply_status (added (svc_tr st) (svc_tr st')) = Some status"
      by (simp only: added_append) (simp add: reply_status_def)
    with p m show "reply_status (added (svc_tr st) (svc_tr st')) = Some (rs_status (manager senv base tr (Psa_call h ty [] [n]))) \<and>
        rs_bytes (manager senv base tr (Psa_call h ty [] [n])) = take n (written (added (svc_tr st) (svc_tr st')))"
      by (simp add: manager_def first_size_def)
  qed
qed

end
