(* ===== verification/Service_Properties.thy ===== *)
theory Service_Properties
  imports Engine_Properties System_Run
begin

section \<open>Properties of the inference partition and its clients\<close>

text \<open>
  The theorems about \<open>tinymaix_inference.c\<close>, the echo service, their clients and the tests.
  The witnesses use a PSA implementation \<open>pkg_env\<close> that succeeds everywhere and decrypts
  to the shipped image, the partition at start-up with the built-in picture, and a loaded
  partition \<open>demo_svc\<close> whose one-layer model hands a block of the main buffer on.
\<close>

subsection \<open>Concrete environments and states\<close>

definition pkg_env :: psa_env where
  "pkg_env tr c =
     (case c of
        Cipher_update ct n \<Rightarrow> \<lparr>rs_status = PSA_SUCCESS, rs_bytes = take n (pkcs7_pad mdl_data), rs_num = 1\<rparr>
      | Psa_read h i n \<Rightarrow> \<lparr>rs_status = PSA_SUCCESS, rs_bytes = replicate n 0, rs_num = 1\<rparr>
      | _ \<Rightarrow> \<lparr>rs_status = PSA_SUCCESS, rs_bytes = [], rs_num = 1\<rparr>)"

definition svc_init :: svc where
  "svc_init = snd (tinymaix_inference_init (svc_start mnist_pic))"

lemma pkg_env_fits: "output_fits pkg_env"
  by (simp add: output_fits_def pkg_env_def)

lemma pkg_env_succeeds: "crypto_succeeds pkg_env"
  by (auto simp: crypto_succeeds_def pkg_env_def split: psa_call.split)

lemma length_padded_model: "length (pkcs7_pad mdl_data) = 2416"
  by (simp add: pkcs7_pad_def length_mdl_data Let_def)

lemma pkg_env_decrypts: "decrypts_package pkg_env"
  unfolding decrypts_package_def decrypts_to_def
  by (simp add: pkg_env_fits pkg_env_succeeds cbc_plain_def length_padded_model TFM_TINYMAIX_MAX_MODEL_SIZE_def
      pkg_env_def Let_def)

lemma svc_init_ok: "svc_ok svc_init"
  unfolding svc_init_def by (rule svc_start_ok [OF length_mnist_pic])

lemma svc_init_model: "model_object (svc_mem svc_init)"
  using svc_init_ok by (simp add: svc_ok_def svc_sizes_def model_object_def)

subsection \<open>Decryption\<close>

text \<open>C13: the padding check accepts a buffer exactly when it ends in a valid PKCS7 padding, that is in
  between 1 and 16 bytes that all hold their number, and reports the length without it.\<close>

theorem padding_is_pkcs7:
  assumes "n \<le> length (m R_MODEL)"
  shows "strip_padding m n = Some (Inr k) \<longleftrightarrow>
    (\<exists>pad. 1 \<le> unat pad \<and> unat pad \<le> 16 \<and> n = k + unat pad \<and>
       take n (m R_MODEL) = take k (m R_MODEL) @ replicate (unat pad) pad)"
  using assms by (rule strip_padding_iff)

theorem padding_is_pkcs7_witness: "strip_padding (\<lambda>r. [7, 2, 2]) 3 = Some (Inr 1)"
proof (rule padding_is_pkcs7 [THEN iffD2])
  have two: "unat (2 :: byte) = 2" "replicate 2 (2 :: byte) = [2, 2]" by simp (simp add: numeral_2_eq_2)
  show "\<exists>pad. 1 \<le> unat pad \<and> unat pad \<le> 16 \<and> 3 = 1 + unat pad \<and>
      take 3 [7, 2, 2] = take 1 [7, 2, 2] @ replicate (unat pad) (pad :: byte)"
    by (rule exI [of _ 2]) (simp add: two)
qed simp

text \<open>Stripping undoes padding: the length found in a padded block is the length of the plain text.\<close>

theorem padding_roundtrip:
  assumes "take (length (pkcs7_pad xs)) (m R_MODEL) = pkcs7_pad xs"
  shows "strip_padding m (length (pkcs7_pad xs)) = Some (Inr (length xs))"
  using assms by (rule strip_pkcs7_pad)

theorem padding_roundtrip_witness:
  "strip_padding (\<lambda>r. pkcs7_pad [1, 2, 3] @ [9]) 16 = Some (Inr 3)"
  using padding_roundtrip [of "[1, 2, 3]" "\<lambda>r. pkcs7_pad [1, 2, 3] @ [9]"] by (simp add: pkcs7_pad_def Let_def)

text \<open>C14: on whichever branch decryption ends, and whatever the crypto implementation answers, it makes crypto
  calls only and has asked for the release of all it has acquired: it owes no destruction of a key and no end
  of a cipher operation or a derivation. If the release calls it has made report success, then no key, no
  cipher operation and no derivation is left. (It does not look at their status: a key whose destruction
  fails stays, and decryption does not tell.)\<close>

theorem decryption_releases_everything:
  assumes "decrypt_model env d n st = Some (e, st')" "res_quiet s"
  shows "extends (d_tr st) (d_tr st') \<and> all_crypto (added (d_tr st) (d_tr st')) \<and>
    owed_after (added (d_tr st) (d_tr st')) s = s \<and>
    (releases_ok (added (d_tr st) (d_tr st')) \<longrightarrow> live_after (added (d_tr st) (d_tr st')) s = s)"
  using decrypt_resources [OF assms] by (simp add: live_after_owed)

theorem decryption_releases_everything_witness:
  "\<exists>e st'. decrypt_model pkg_env (Some encrypted_mdl_data_data) 2444 (g_dec svc_init) = Some (e, st') \<and>
     owed_after (added [] (d_tr st')) res_idle = res_idle"
proof -
  obtain e st' where d: "decrypt_model pkg_env (Some encrypted_mdl_data_data) 2444 (g_dec svc_init) = Some (e, st')"
    using decrypt_outcome [OF pkg_env_fits svc_init_model, of 2444 encrypted_mdl_data_data] by (auto simp: length_package)
  have "d_tr (g_dec svc_init) = []" by (simp add: svc_init_def tinymaix_inference_init_def svc_start_def)
  with decryption_releases_everything [OF d res_quiet_idle] d show ?thesis by simp
qed



text \<open>C16: before any crypto call, and without a change of the state, decryption refuses a missing package, one
  that is shorter than a header, that has another magic, another version than 3, or nothing behind the
  header, with \<open>PSA_ERROR_INVALID_ARGUMENT\<close>, and one that announces more than 4096 bytes with
  \<open>PSA_ERROR_BUFFER_TOO_SMALL\<close>; the checks come in the order of the statement. For every other package the first thing it
  does is to initialise the crypto implementation.\<close>

theorem malformed_package_is_refused:
  assumes "n \<le> length data"
  shows "decrypt_model env None n st = Some (PSA_ERROR_INVALID_ARGUMENT, st) \<and>
    (if n < 28 \<or> le_nat (take 4 data) \<noteq> 0x58414D54 \<or> le_nat (take 4 (drop 4 data)) \<noteq> 3
     then decrypt_model env (Some data) n st = Some (PSA_ERROR_INVALID_ARGUMENT, st)
     else if 4096 < le_nat (take 4 (drop 8 data))
     then decrypt_model env (Some data) n st = Some (PSA_ERROR_BUFFER_TOO_SMALL, st)
     else if n = 28 then decrypt_model env (Some data) n st = Some (PSA_ERROR_INVALID_ARGUMENT, st)
     else \<forall>e st'. decrypt_model env (Some data) n st = Some (e, st') \<longrightarrow>
       (\<exists>cs. d_tr st' = d_tr st @ (Crypto_init, env (d_tr st) Crypto_init) # cs))"
proof -
  note checks = package_checks [OF assms]
  have "decrypt_model env (Some data) n st = Some (e, st)" if "package_error (Some data) n = Some e" for e
    by (rule decrypt_package_error [OF that])
  moreover have "\<exists>cs. d_tr st' = d_tr st @ (Crypto_init, env (d_tr st) Crypto_init) # cs"
    if "package_error (Some data) n = None" "decrypt_model env (Some data) n st = Some (e, st')" for e st'
    by (rule decrypt_initialises_first [OF that])
  ultimately show ?thesis unfolding checks by (auto simp: decrypt_model_def split: if_splits)
qed

theorem malformed_package_witness:
  "decrypt_model pkg_env (Some (take 100 mdl_data)) 100 (g_dec svc_init) = Some (PSA_ERROR_INVALID_ARGUMENT, g_dec svc_init)"
proof -
  have n: "100 \<le> length (take 100 mdl_data)" by (simp add: length_mdl_data)
  have "take 4 (take 100 mdl_data) = [0x4d, 0x41, 0x49, 0x58]" by (simp add: mdl_data_def mdl_data_0_def)
  then have "le_nat (take 4 (take 100 mdl_data)) \<noteq> 0x58414D54" by simp
  with malformed_package_is_refused [OF n, of pkg_env "g_dec svc_init"] show ?thesis by simp
qed

subsection \<open>The shipped data\<close>

text \<open>C17: the package the partition is built with is accepted, in every state the invariant C20 allows: with a crypto implementation that
  decrypts its body to the padded plain model, a load ends in success, with the plain model in
  memory, the handle on it, and a 28 x 28 x 1 input tensor on the main buffer.\<close>

theorem shipped_package_loads:
  assumes "svc_ok st" "decrypts_package env"
  shows "\<exists>st'. load_model env encrypted_mdl_data_data st = Some (PSA_SUCCESS, st') \<and> svc_ok st' \<and>
    g_model_loaded st' \<and> holds_image (svc_mem st') \<and> image_handle (g_mdl st') \<and> g_in st' = net_input"
  using assms by (rule shipped_load)

theorem shipped_package_witness:
  "\<exists>st'. load_model pkg_env encrypted_mdl_data_data svc_init = Some (PSA_SUCCESS, st') \<and>
     take 2408 (svc_mem st' R_MODEL) = mdl_data"
  using shipped_package_loads [OF svc_init_ok pkg_env_decrypts] by (auto simp: holds_image_def length_mdl_data)

text \<open>C18: with the shipped model in memory, its three convolution layers run without overflow or access
  outside an object for every input in the main buffer, and each computes its convolution.\<close>

theorem shipped_convolutions_run:
  assumes "holds_image m" "svc_sizes m" "image_handle mdl"
  shows "\<exists>m1 m2 m3. run_layers base 3 (net_at m mdl outs net_input 0 64) = Some (TM_OK, net_at m3 mdl outs (a_in net_ca2) 3 2008) \<and>
    conv_done net_ca0 net_scales0 15778 m m1 \<and> conv_done net_ca1 net_scales1 15867 m1 m2 \<and>
    conv_done net_ca2 net_scales2 4519 m2 m3"
  using assms by (rule shipped_convolutions)

theorem shipped_convolutions_witness:
  "\<exists>st' r. load_model pkg_env encrypted_mdl_data_data svc_init = Some (PSA_SUCCESS, st') \<and>
     run_layers 0 3 (net_at (svc_mem st') (g_mdl st') (g_outs st') net_input 0 64) = Some (TM_OK, r)"
proof -
  obtain st' where 1: "load_model pkg_env encrypted_mdl_data_data svc_init = Some (PSA_SUCCESS, st')" "svc_ok st'"
      "holds_image (svc_mem st')" "image_handle (g_mdl st')"
    using shipped_load [OF svc_init_ok pkg_env_decrypts] by blast
  from 1(2) have "svc_sizes (svc_mem st')" by (simp add: svc_ok_def)
  from shipped_convolutions_run [OF 1(3) this 1(4), of 0 "g_outs st'"] 1(1) show ?thesis by blast
qed

text \<open>C19: a partition that has just started and gets a request to load the shipped package and then one to
  classify the built-in picture answers the second with success and the class 2, wherever the main
  buffer lies in memory, provided that the PSA implementation decrypts the package to the network.\<close>

theorem digit_is_recognised:
  assumes "decrypts_package env"
    and "msg_type load = MSG_CALL TINYMAIX_IPC_LOAD_ENCRYPTED_MODEL"
    and "msg_type run = MSG_CALL TINYMAIX_IPC_RUN_INFERENCE" "msg_in_size run = 0" "4 \<le> msg_out_size run"
  shows "\<exists>st' cs r1 r2. tinymaix_inference_entry env dev base encrypted_mdl_data_data
      [(PSA_SUCCESS, load), (PSA_SUCCESS, run)] (snd (tinymaix_inference_init (svc_start mnist_pic))) = Some st' \<and>
    svc_tr st' = cs @ [(Psa_write (msg_handle run) 0 (int_bytes 2), r1), (Psa_reply (msg_handle run) PSA_SUCCESS, r2)]"
proof (rule digit_requests [OF _ _ assms])
  show "svc_ok (snd (tinymaix_inference_init (svc_start mnist_pic)))" by (rule svc_start_ok [OF length_mnist_pic])
  show "svc_mem (snd (tinymaix_inference_init (svc_start mnist_pic))) R_PIC = mnist_pic"
    by (simp add: tinymaix_inference_init_def svc_start_def)
qed

theorem digit_is_recognised_witness:
  "\<exists>st' cs r1 r2. tinymaix_inference_entry pkg_env False 0x20000000 encrypted_mdl_data_data
      [(PSA_SUCCESS, call_msg TINYMAIX_IPC_LOAD_ENCRYPTED_MODEL 1 0 4),
       (PSA_SUCCESS, call_msg TINYMAIX_IPC_RUN_INFERENCE 2 0 4)]
      (snd (tinymaix_inference_init (svc_start mnist_pic))) = Some st' \<and>
    svc_tr st' = cs @ [(Psa_write 2 0 (int_bytes 2), r1), (Psa_reply 2 PSA_SUCCESS, r2)]"
  using digit_is_recognised [OF pkg_env_decrypts, 
      where load = "call_msg TINYMAIX_IPC_LOAD_ENCRYPTED_MODEL 1 0 4" and run = "call_msg TINYMAIX_IPC_RUN_INFERENCE 2 0 4"
        and dev = False and base = "0x20000000"]
  by (simp add: call_msg_def)

subsection \<open>The partition\<close>

text \<open>C20: from the start of the partition, after any sequence of messages from any clients, all objects
  have their sizes, there is one output tensor, and when a model counts as loaded the handle points
  to an image with the right magic and type and the input tensor to the main buffer.\<close>

theorem partition_invariant:
  assumes "length pic = pic_size"
    and "tinymaix_inference_entry env dev base pkg arrivals (snd (tinymaix_inference_init (svc_start pic))) = Some st'"
  shows "svc_sizes (svc_mem st') \<and> length (g_outs st') = 1 \<and> (g_model_loaded st' \<longrightarrow> engine_ready st')"
  using serve_inv [OF svc_start_ok [OF assms(1)] assms(2)] by (simp add: svc_ok_def)

text \<open>A run of the partition: a connection, a load request, a failed \<open>psa_get\<close>, an unknown request.\<close>

definition demo_arrivals :: "(psa_status \<times> psa_msg) list" where
  "demo_arrivals =
     [(PSA_SUCCESS, \<lparr>msg_type = PSA_IPC_CONNECT, msg_handle = 5, msg_in_size = 0, msg_out_size = 0\<rparr>),
      (PSA_SUCCESS, call_msg TINYMAIX_IPC_LOAD_ENCRYPTED_MODEL 5 0 4),
      (PSA_ERROR_GENERIC_ERROR, call_msg 0 6 0 0),
      (PSA_SUCCESS, call_msg TINYMAIX_IPC_GET_MODEL_KEY 7 0 16)]"

lemma load_request_defined: "svc_ok st \<Longrightarrow> \<exists>st'. handle_load pkg_env encrypted_mdl_data_data msg st = Some st'"
  using shipped_load [OF _ pkg_env_decrypts] by (fastforce simp: handle_load_def Let_def)

lemma demo_entry: "\<exists>st'. tinymaix_inference_entry pkg_env False 0 encrypted_mdl_data_data demo_arrivals svc_init = Some st'"
proof -
  obtain st1 where 1: "handle_load pkg_env encrypted_mdl_data_data (call_msg TINYMAIX_IPC_LOAD_ENCRYPTED_MODEL 5 0 4)
      (svc_issue pkg_env (Psa_reply 5 PSA_SUCCESS) svc_init) = Some st1"
    using load_request_defined svc_init_ok by (metis svc_ok_issue)
  then show ?thesis
    by (simp add: tinymaix_inference_entry_def demo_arrivals_def serve_one_def handle_message_def call_msg_def
        tinymaix_ipc_defs)
qed

theorem partition_invariant_witness:
  "\<exists>st'. tinymaix_inference_entry pkg_env False 0 encrypted_mdl_data_data demo_arrivals svc_init = Some st' \<and>
     length (svc_mem st' R_MAIN) = 1464"
proof -
  obtain st' where st': "tinymaix_inference_entry pkg_env False 0 encrypted_mdl_data_data demo_arrivals svc_init = Some st'"
    using demo_entry by blast
  from partition_invariant [OF length_mnist_pic st' [unfolded svc_init_def]] st' show ?thesis
    by (simp add: svc_sizes_def MDL_BUF_LEN_def)
qed

text \<open>C21: in every run of the service loop without undefined behaviour, each message it takes is answered exactly
  once, in order, to its sender. The loop owes no release of a crypto resource at the end, and if the release
  calls report success none is left. Without \<open>DEV_MODE\<close> all it writes to clients are results, each the four
  bytes of a number between -1 and 9: so never a key.\<close>

theorem every_message_is_answered_once:
  assumes "tinymaix_inference_entry env dev base pkg arrivals st = Some st'"
  shows "extends (svc_tr st) (svc_tr st') \<and>
    reply_handles (added (svc_tr st) (svc_tr st')) = map msg_handle (taken arrivals) \<and>
    owed_after (added (svc_tr st) (svc_tr st')) res_idle = res_idle \<and>
    (releases_ok (added (svc_tr st) (svc_tr st')) \<longrightarrow> live_after (added (svc_tr st) (svc_tr st')) res_idle = res_idle) \<and>
    (\<not> dev \<longrightarrow> (\<forall>h i bs r. (Psa_write h i bs, r) \<in> set (added (svc_tr st) (svc_tr st')) \<longrightarrow>
       (\<exists>v. bs = int_bytes v \<and> -1 \<le> v \<and> v \<le> 9)))"
  using entry_trace [OF assms] by (auto simp: result_writes_def result_bytes_def)

theorem every_message_is_answered_once_witness:
  "\<exists>st'. tinymaix_inference_entry pkg_env False 0 encrypted_mdl_data_data demo_arrivals svc_init = Some st' \<and>
     reply_handles (added (svc_tr svc_init) (svc_tr st')) = [5, 5, 7]"
proof -
  obtain st' where st': "tinymaix_inference_entry pkg_env False 0 encrypted_mdl_data_data demo_arrivals svc_init = Some st'"
    using demo_entry by blast
  from every_message_is_answered_once [OF st'] st' show ?thesis by (simp add: demo_arrivals_def call_msg_def)
qed



text \<open>An inference request without a loaded model is answered with \<open>PSA_ERROR_BAD_STATE\<close>, one whose
  input is neither empty nor a picture with \<open>PSA_ERROR_INVALID_ARGUMENT\<close>; nothing else happens.\<close>

theorem bad_inference_request_is_refused:
  assumes "\<not> g_model_loaded st \<or> msg_in_size msg \<noteq> 0 \<and> msg_in_size msg \<noteq> pic_size"
  shows "handle_run env base msg st = Some (svc_issue env (Psa_reply (msg_handle msg)
     (if \<not> g_model_loaded st then PSA_ERROR_BAD_STATE else PSA_ERROR_INVALID_ARGUMENT)) st)"
  using assms by (auto simp: handle_run_def)

theorem bad_inference_request_witness:
  "handle_run pkg_env 0 (call_msg TINYMAIX_IPC_RUN_INFERENCE 9 784 4) svc_init =
     Some (svc_issue pkg_env (Psa_reply 9 PSA_ERROR_BAD_STATE) svc_init)"
  using bad_inference_request_is_refused [of svc_init "call_msg TINYMAIX_IPC_RUN_INFERENCE 9 784 4" pkg_env 0]
  by (simp add: svc_init_def tinymaix_inference_init_def call_msg_def)

text \<open>C23: the answer is the first index of the greatest of the ten scores, if that score is positive, and
  -1 if no score is; scores that are not numbers are never chosen.\<close>

theorem answer_is_the_best_class:
  assumes "\<forall>i<10. ld_f32 m (padd (m_data out) (4 * int i)) = Some (d i)"
  shows "\<exists>r. parse_output m out = Some r \<and> top_class d 10 r"
  using parse_output_top [of m out d] assms by simp

theorem answer_witness: "\<exists>r. parse_output (\<lambda>r. replicate 40 0) (unit_mat 0) = Some r \<and> top_class (\<lambda>i. unpack32 0) 10 r"
proof (rule answer_is_the_best_class, intro allI impI)
  fix i :: nat assume "i < 10"
  then have "ld8 (\<lambda>r. replicate 40 0) (padd (padd (R_MAIN, 0) (4 * int i)) j) = Some 0" if "j \<in> {0, 1, 2, 3}" for j
    using that by (auto simp: ld8_def padd_def)
  from this [of 0] this [of 1] this [of 2] this [of 3]
  show "ld_f32 (\<lambda>r. replicate 40 0) (padd (m_data (unit_mat 0)) (4 * int i)) = Some (unpack32 0)"
    by (simp add: ld_f32_def ld_u32_def ld_bytes_4)
qed

subsection \<open>Requests to a loaded partition\<close>

lemma parse_defined:
  assumes "in_object m (m_data out) 40" shows "\<exists>r. parse_output m out = Some r"
proof -
  have "ld_f32 m (padd (m_data out) (4 * int i)) = Some (the (ld_f32 m (padd (m_data out) (4 * int i))))" if "i < 10" for i
  proof -
    have "in_object m (padd (m_data out) (4 * int i)) 4" using assms that by (simp add: in_object_def)
    from ld_bytes_in_object [OF this] show ?thesis by (auto simp: ld_f32_def ld_u32_def)
  qed
  from parse_output_top [OF this] show ?thesis by blast
qed

lemma demo_infer:
  assumes img: "svc_mem st R_MODEL = demo_image @ rest" and sz: "svc_sizes (svc_mem st)"
    and g: "g_mdl st = demo_mdl" "g_in st = net_input" "g_outs st = [out]"
  shows "\<exists>r st'. infer_picture base st = Some (PSA_SUCCESS, Some r, st')"
proof -
  let ?pic = "\<lparr>m_dims = 3, m_h = 28, m_w = 28, m_c = 1, m_data = (R_PIC, 0)\<rparr>"
  have mdl: "mdl_b demo_mdl = Some (R_MODEL, 0)" "mdl_buf demo_mdl = Some (R_MAIN, 0)"
    by (simp_all add: demo_mdl_def loaded_mdl_def)
  have "preprocess_ready (svc_mem st) demo_mdl ?pic net_input"
    using sz by (simp add: preprocess_ready_def mdl mdlbin_layers_body_def padd_def in_object_def svc_sizes_def
        elementwise_def apart_def net_input_def mat_size_def pic_size_def MDL_BUF_LEN_def TFM_TINYMAIX_MAX_MODEL_SIZE_def)
  from preprocess_uint2int [OF this] obtain m'
    where pre: "tm_preprocess (svc_mem st) demo_mdl TMPP_UINT2INT ?pic net_input = Some (TM_OK, net_input, m')" by blast
  from keeps_preprocess [OF pre] have k: "keeps {R_MAIN} (svc_mem st) m'" by (simp add: net_input_def)
  then have img': "m' R_MODEL = demo_image @ rest" using img by (simp add: keeps_def)
  have "length (m' R_MAIN) = 1464" using k sz by (simp add: keeps_def svc_sizes_def MDL_BUF_LEN_def)
  moreover from demo_layers [of m' rest, OF img', of "demo_mdl\<lparr>mdl_layer_body := Some (R_MODEL, 64), mdl_layer_i := 0\<rparr>" base net_input out]
  obtain st' o1 where "tm_run base m' demo_mdl net_input [out] = Some (TM_OK, st')" "r_mem st' = m'" "r_outs st' = [o1]" "m_data o1 = (R_MAIN, 1000)"
    by (auto simp: tm_run_def mdl demo_header [of m' rest, OF img'] mdlbin_layers_body_def padd_def)
  ultimately show ?thesis
    using parse_defined [of m' o1] pre
    by (auto simp: infer_picture_def g Let_def set_mem_def in_object_def simp del: One_nat_def)
qed

text \<open>The loaded partition: the model hands on a block that holds 1.0 in its fourth place.\<close>

definition demo_svc :: svc where
  "demo_svc =
     (set_mem ((svc_mem svc_init)(R_MODEL := demo_image @ replicate 3984 0,
        R_MAIN := replicate 1012 0 @ [0, 0, 0x80, 0x3F] @ replicate 448 0)) svc_init)
     \<lparr>g_mdl := demo_mdl, g_in := net_input, g_model_loaded := True\<rparr>"

lemma demo_svc_sizes: "svc_sizes (svc_mem demo_svc)"
  using svc_init_ok by (simp add: demo_svc_def svc_ok_def svc_sizes_def set_mem_def length_demo_image
      MDL_BUF_LEN_def TFM_TINYMAIX_MAX_MODEL_SIZE_def)

lemma demo_svc_state: "g_model_loaded demo_svc" "svc_mem demo_svc R_MODEL = demo_image @ replicate 3984 0"
  "g_mdl demo_svc = demo_mdl" "g_in demo_svc = net_input" "\<exists>out. g_outs demo_svc = [out]" "svc_tr demo_svc = []"
  by (simp_all add: demo_svc_def set_mem_def svc_init_def tinymaix_inference_init_def svc_start_def)

lemma demo_svc_ok: "svc_ok demo_svc"
  using demo_svc_sizes demo_svc_state demo_header [of "svc_mem demo_svc" "replicate 3984 0", OF demo_svc_state(2)]
  by (auto simp: svc_ok_def engine_ready_def demo_mdl_def loaded_mdl_def net_input_def)

lemma demo_run_request:
  assumes "msg_in_size msg = 0 \<or> msg_in_size msg = pic_size"
  shows "\<exists>st'. handle_run pkg_env base msg demo_svc = Some st'"
proof -
  obtain out where out: "g_outs demo_svc = [out]" using demo_svc_state(5) by blast
  obtain m' where m': "st_bytes (svc_mem demo_svc) (R_PIC, 0) (replicate pic_size 0) = Some m'"
    and ag: "cm.agree_off (cells (R_PIC, 0) pic_size) (svc_mem demo_svc) m'"
    using st_bytes_ok [of "svc_mem demo_svc" "(R_PIC, 0)" "replicate pic_size 0"] demo_svc_sizes
    by (auto simp: in_object_def svc_sizes_def)
  have k: "keeps {R_PIC} (svc_mem demo_svc) m'" by (rule keeps_st_bytes [OF m']) simp
  then have "svc_sizes m'" "m' R_MODEL = demo_image @ replicate 3984 0"
    using keeps_sizes demo_svc_sizes demo_svc_state(2) by (auto simp: keeps_def)
  then have pic: "\<exists>r st'. infer_picture base (set_mem m' (set_tr tr demo_svc)) = Some (PSA_SUCCESS, Some r, st')" for tr
    using demo_svc_state out by (intro demo_infer) auto
  have plain: "\<exists>r st'. infer_picture base demo_svc = Some (PSA_SUCCESS, Some r, st')"
    using demo_svc_state out demo_svc_sizes by (intro demo_infer) auto
  have rd: "rs_bytes (pkg_env tr (Psa_read h 0 pic_size)) = replicate pic_size 0" for tr h
    by (simp add: pkg_env_def)
  have "pic_size \<noteq> 0" by (simp add: pic_size_def)
  with assms show ?thesis
  proof (elim disjE)
    assume n: "msg_in_size msg = pic_size"
    obtain r st' where "infer_picture base (set_mem m' (set_tr (svc_tr demo_svc @ [(Psa_read (msg_handle msg) 0 pic_size,
        pkg_env (svc_tr demo_svc) (Psa_read (msg_handle msg) 0 pic_size))]) demo_svc)) = Some (PSA_SUCCESS, Some r, st')"
      using pic by blast
    then show ?thesis using n m' demo_svc_state(1) by (simp add: handle_run_def Let_def rd invoke_def)
  qed (use plain demo_svc_state(1) in \<open>auto simp: handle_run_def\<close>)
qed

text \<open>C24: a picture sent with an inference request replaces the built-in picture: it is still there after any
  further messages that send no picture, as long as they are handled without undefined behaviour, and a later
  request without a picture is then answered exactly as if it had sent that picture again.\<close>

theorem custom_picture_replaces_builtin:
  assumes "svc_ok st" "g_model_loaded st" "msg_in_size msg = pic_size"
    and "rs_bytes (env (svc_tr st) (Psa_read (msg_handle msg) 0 pic_size)) = bs" "length bs = pic_size"
    and "handle_run env base msg st = Some st1"
    and "tinymaix_inference_entry env dev base pkg arrivals st1 = Some st2" "\<forall>a\<in>set arrivals. \<not> sends_picture (snd a)"
    and "msg_in_size later = 0" "rs_bytes (env' (svc_tr st2) (Psa_read (msg_handle later) 0 pic_size)) = bs"
  shows "svc_mem st2 R_PIC = bs \<and>
    delivered st2 (handle_run env base later st2) = delivered st2 (handle_run env' base (later\<lparr>msg_in_size := pic_size\<rparr>) st2)"
proof -
  have "svc_ok st1" "svc_mem st1 R_PIC = bs"
    using handle_run_inv [OF assms(1,6)] custom_picture_stays [OF assms(1-6)] by blast+
  with loop_keeps_picture [OF _ assms(8,7)] have 2: "svc_ok st2" "svc_mem st2 R_PIC = bs" by auto
  have "delivered st2 (handle_run env' base (later\<lparr>msg_in_size := pic_size\<rparr>) st2) = delivered st2 (handle_run env base later st2)"
    using 2 assms(9,10) by (rule stored_picture_answer)
  with 2 show ?thesis by simp
qed

theorem custom_picture_witness:
  "\<exists>st1 st2. handle_run pkg_env 0 (call_msg TINYMAIX_IPC_RUN_INFERENCE 9 pic_size 4) demo_svc = Some st1 \<and>
     tinymaix_inference_entry pkg_env False 0 [] [(PSA_SUCCESS, call_msg 0 9 0 0)] st1 = Some st2 \<and>
     svc_mem st2 R_PIC = replicate pic_size 0"
proof -
  let ?msg = "call_msg TINYMAIX_IPC_RUN_INFERENCE 9 pic_size 4"
  have n: "msg_in_size ?msg = pic_size" by (simp add: call_msg_def)
  obtain st1 where st1: "handle_run pkg_env 0 ?msg demo_svc = Some st1" using demo_run_request n by blast
  have rd: "rs_bytes (pkg_env tr (Psa_read h 0 pic_size)) = replicate pic_size 0" for tr h
    by (simp add: pkg_env_def)
  obtain st2 where st2: "tinymaix_inference_entry pkg_env False 0 [] [(PSA_SUCCESS, call_msg 0 9 0 0)] st1 = Some st2"
    by (simp add: tinymaix_inference_entry_def serve_one_def handle_message_def call_msg_def tinymaix_ipc_defs)
  have "\<forall>a\<in>set [(PSA_SUCCESS, call_msg 0 9 0 0)]. \<not> sends_picture (snd a)"
    by (simp add: sends_picture_def call_msg_def tinymaix_ipc_defs)
  moreover have "msg_in_size (call_msg TINYMAIX_IPC_RUN_INFERENCE 9 0 4) = 0" by (simp add: call_msg_def)
  ultimately have "svc_mem st2 R_PIC = replicate pic_size 0"
    using custom_picture_replaces_builtin [of demo_svc ?msg pkg_env "replicate pic_size 0" 0 st1 False "[]"
        "[(PSA_SUCCESS, call_msg 0 9 0 0)]" st2 "call_msg TINYMAIX_IPC_RUN_INFERENCE 9 0 4" pkg_env]
      demo_svc_ok demo_svc_state(1) n rd st1 st2 by simp
  with st1 st2 show ?thesis by blast
qed

subsection \<open>The clients\<close>

text \<open>C25: against a partition manager that forwards to the inference partition, a client that gets
  \<open>TINYMAIX_STATUS_SUCCESS\<close> has a class between 0 and 9, and on every error its variable is
  untouched.\<close>

theorem client_gets_a_class:
  assumes "serves_inference base env"
    and "tfm_tinymaix_run_inference_with_data env img n pc tr = (status, pc', tr')"
  shows "if status = TINYMAIX_STATUS_SUCCESS then \<exists>c. pc' = Some c \<and> 0 \<le> c \<and> c \<le> 9 else pc' = pc"
  using assms by (rule client_class)

definition inference_env :: psa_env where
  "inference_env tr c =
     (case c of
        Psa_call h ty ins outs \<Rightarrow>
          (let cs = svc_tr (the (handle_run pkg_env 0 (call_msg TINYMAIX_IPC_RUN_INFERENCE h 0 4) demo_svc))
           in \<lparr>rs_status = the (reply_status cs), rs_bytes = take 4 (written cs), rs_num = 0\<rparr>)
      | _ \<Rightarrow> \<lparr>rs_status = PSA_SUCCESS, rs_bytes = [], rs_num = 1\<rparr>)"

lemma inference_env_serves: "serves_inference 0 inference_env"
  unfolding serves_inference_def
proof (intro allI)
  fix tr :: psa_trace and h
  let ?msg = "call_msg TINYMAIX_IPC_RUN_INFERENCE h 0 4"
  obtain st' where st': "handle_run pkg_env 0 ?msg demo_svc = Some st'"
    using demo_run_request [of ?msg 0] by (auto simp: call_msg_def)
  obtain status where "reply_status (added (svc_tr demo_svc) (svc_tr st')) = Some status"
    using run_delivers [OF refl st'] by blast
  with st' show "\<exists>senv st st'. handle_run senv 0 ?msg st = Some st' \<and>
      reply_status (added (svc_tr st) (svc_tr st')) =
        Some (rs_status (inference_env tr (Psa_call h TINYMAIX_IPC_RUN_INFERENCE [] [4]))) \<and>
      rs_bytes (inference_env tr (Psa_call h TINYMAIX_IPC_RUN_INFERENCE [] [4])) = take 4 (written (added (svc_tr st) (svc_tr st')))"
    by (intro exI [of _ pkg_env] exI [of _ demo_svc] exI [of _ st'])
       (simp add: inference_env_def demo_svc_state(6) Let_def)
qed

theorem client_gets_a_class_witness:
  "\<exists>status pc' tr'. tfm_tinymaix_run_inference_with_data inference_env None 0 (Some 77) [] = (status, pc', tr') \<and>
     (if status = TINYMAIX_STATUS_SUCCESS then \<exists>c. pc' = Some c \<and> 0 \<le> c \<and> c \<le> 9 else pc' = Some 77)"
proof -
  obtain status pc' tr' where r: "tfm_tinymaix_run_inference_with_data inference_env None 0 (Some 77) [] = (status, pc', tr')"
    by (metis prod_cases3)
  from client_gets_a_class [OF inference_env_serves r] r show ?thesis by blast
qed

text \<open>C26: the TinyMaix test of the application passes and reports class 2 twice, when the partition manager
  forwards every call to the partition in the state all earlier calls have left it in and the PSA
  implementation decrypts the shipped package. The second 2 is the answer to the picture of a 7 the test draws
  itself: it never reaches the partition, which classifies its built-in picture again.\<close>

theorem application_recognises_the_digit:
  assumes "connects env" "forwards senv base env" "decrypts_package senv" "session tr = ([], [])"
  shows "\<exists>tr'. test_tinymaix_basic_functionality env tr = (True, [2, 2], tr')"
  using assms by (rule application_test)

theorem application_recognises_the_digit_witness:
  "\<exists>tr'. test_tinymaix_basic_functionality (manager pkg_env 0x20000000) [] = (True, [2, 2], tr')"
  by (rule application_recognises_the_digit [OF manager_forwards pkg_env_decrypts]) (simp add: session_def)

text \<open>An \<open>int\<close> the partition writes as four bytes is read back by the client as the same number.\<close>

theorem result_bytes_roundtrip:
  assumes "in_s32 i"
  shows "int_of_bytes (int_bytes i) = i"
  using assms by (rule int_bytes_roundtrip)

theorem result_bytes_witness: "int_of_bytes (int_bytes (-1)) = -1"
  by (rule result_bytes_roundtrip) (simp add: in_s32_def)

text \<open>C27: through a partition manager that forwards to the echo partition, the echo client succeeds, gets
  back exactly the bytes it sent at the front of its buffer, and their number.\<close>

theorem echo_returns_the_data:
  assumes "serves_echo env" "connects env"
    and "data_len \<le> TFM_ECHO_MAX_DATA_SIZE" "data_len \<le> out_len" "data_len \<le> length d" "out_len \<le> length out"
  shows "\<exists>tr'. tfm_echo_service env (Some d) data_len (Some out) out_len True tr =
    Some (PSA_SUCCESS, Some (take data_len d @ drop data_len out), Some data_len, tr')"
  using assms by (rule echo_client_echoes)

theorem echo_witness:
  "\<exists>tr'. tfm_echo_service echo_env (Some [1, 2, 3]) 2 (Some [9, 9, 9, 9]) 4 True [] =
     Some (PSA_SUCCESS, Some [1, 2, 9, 9], Some 2, tr')"
  using echo_returns_the_data [OF echo_env_serves, of 2 4 "[1, 2, 3]" "[9, 9, 9, 9]" "[]"]
  by (simp add: TFM_ECHO_MAX_DATA_SIZE_def numeral_2_eq_2)

text \<open>C28: for any sequence of arrivals and any behaviour of the partition manager, the loop of the echo partition
  is defined, replies to each message it takes exactly once and in order, and writes back only what it has
  read right before over the same connection, all of it.\<close>

theorem echo_loop_answers:
  assumes "\<forall>a\<in>set arrivals. echo_buffers (snd (snd a))"
  shows "\<exists>cs. echo_service_entry env arrivals tr = Some (tr @ cs) \<and>
    reply_handles cs = map (\<lambda>m. msg_handle (fst m)) (taken arrivals) \<and> writes_back cs"
  using assms by (rule echo_loop)

theorem echo_loop_answers_witness:
  "\<exists>cs. echo_service_entry pkg_env
      [(PSA_SUCCESS, call_msg PSA_IPC_CALL 3 5 9, replicate 256 0, replicate 256 0),
       (PSA_ERROR_GENERIC_ERROR, call_msg PSA_IPC_CALL 4 5 9, replicate 256 0, replicate 256 0),
       (PSA_SUCCESS, call_msg PSA_IPC_CALL 8 300 9, replicate 256 1, replicate 256 1)] [] = Some cs \<and>
     reply_handles cs = [3, 8] \<and> writes_back cs"
  using echo_loop_answers [of "[(PSA_SUCCESS, call_msg PSA_IPC_CALL 3 5 9, replicate 256 0, replicate 256 0),
       (PSA_ERROR_GENERIC_ERROR, call_msg PSA_IPC_CALL 4 5 9, replicate 256 0, replicate 256 0),
       (PSA_SUCCESS, call_msg PSA_IPC_CALL 8 300 9, replicate 256 1, replicate 256 1)]" pkg_env "[]"]
  by (simp add: echo_buffers_def TFM_ECHO_MAX_DATA_SIZE_def call_msg_def)

text \<open>The echo partition answers a message with exactly one reply; before it, it at most reads the
  input once and writes once, what it writes is what it read, and never more than the client has
  room for.\<close>

theorem echo_answers_once:
  assumes "echo_handle env bufs msg tr = Some tr'"
  shows "\<exists>cs status r. tr' = tr @ cs @ [(Psa_reply (msg_handle msg) status, r)] \<and>
    (cs = [] \<or>
     (\<exists>rd. cs = [(Psa_read (msg_handle msg) 0 (msg_in_size msg), rd)] \<and> status = PSA_ERROR_COMMUNICATION_FAILURE) \<or>
     (\<exists>rd rw. cs = [(Psa_read (msg_handle msg) 0 (msg_in_size msg), rd), (Psa_write (msg_handle msg) 0 (rs_bytes rd), rw)] \<and>
        length (rs_bytes rd) = msg_in_size msg \<and> msg_in_size msg \<le> msg_out_size msg \<and> status = PSA_SUCCESS))"
  using assms by (rule echo_one_reply)

theorem echo_answers_once_witness:
  "\<exists>tr' cs status r. echo_handle pkg_env (replicate 256 0, replicate 256 0) (call_msg PSA_IPC_CALL 3 300 300) [] = Some tr' \<and>
     tr' = cs @ [(Psa_reply 3 status, r)]"
proof -
  have e: "echo_handle pkg_env (replicate 256 0, replicate 256 0) (call_msg PSA_IPC_CALL 3 300 300) [] =
     Some [(Psa_reply 3 PSA_ERROR_INVALID_ARGUMENT, pkg_env [] (Psa_reply 3 PSA_ERROR_INVALID_ARGUMENT))]"
    by (simp add: echo_handle_def echo_call_def call_msg_def TFM_ECHO_MAX_DATA_SIZE_def)
  from echo_answers_once [OF e] show ?thesis unfolding e by (auto simp: call_msg_def)
qed

text \<open>The encryption test of the application destroys the key it imports on every path, and it ends
  with the verdict \<open>PASSED\<close> against an implementation that succeeds and whose decryption inverts its
  encryption.\<close>

theorem crypto_test_is_clean:
  assumes "test_psa_encryption env tr = Some (v, tr')"
  shows "extends tr tr' \<and> owed_after (added tr tr') res_idle = res_idle \<and>
    (crypto_succeeds env \<and> cipher_inverts env (bytes_of_string crypto_test_text) \<longrightarrow> v = Some True)"
  using crypto_test_resources [OF assms] crypto_test_passes [of env tr] assms by auto

definition plain_env :: psa_env where
  "plain_env tr c =
     (case c of
        Cipher_decrypt k a ct n \<Rightarrow> \<lparr>rs_status = PSA_SUCCESS, rs_bytes = bytes_of_string crypto_test_text, rs_num = 1\<rparr>
      | _ \<Rightarrow> \<lparr>rs_status = PSA_SUCCESS, rs_bytes = [], rs_num = 1\<rparr>)"

theorem crypto_test_witness: "\<exists>tr'. test_psa_encryption plain_env [] = Some (Some True, tr') \<and> owed_after tr' res_idle = res_idle"
proof -
  have e: "crypto_succeeds plain_env" "cipher_inverts plain_env (bytes_of_string crypto_test_text)"
    by (auto simp: crypto_succeeds_def cipher_inverts_def plain_env_def split: psa_call.split)
  then obtain v tr' where r: "test_psa_encryption plain_env [] = Some (v, tr')" using crypto_test_passes by blast
  from crypto_test_is_clean [OF r] e r show ?thesis by simp
qed

end
