(* ===== verification/Build_Options.thy ===== *)
theory Build_Options
  imports Prelude
begin

section \<open>Options of a build\<close>

text \<open>
  The configuration headers of the repository give an option a value where the build has not already defined
  it (\<open>#ifndef\<close>, \<open>#define\<close>, \<open>#endif\<close>). The build is a map from macro names to numbers.
\<close>

definition macro :: "(string \<Rightarrow> nat option) \<Rightarrow> string \<Rightarrow> nat \<Rightarrow> nat" where
  "macro build name value = (case build name of Some v \<Rightarrow> v | None \<Rightarrow> value)"

text \<open>A build that leaves the option alone gets the value of the header.\<close>

lemma macro_default [simp]: "build name = None \<Longrightarrow> macro build name value = value"
  and macro_given [simp]: "build name = Some v \<Longrightarrow> macro build name value = v"
  by (simp_all add: macro_def)

end
