(* ===== verification/Secure_Config.thy ===== *)
theory Secure_Config
  imports Build_Options
begin

section \<open>The configuration of the secure side\<close>

text \<open>
  \<open>spe/config/config_tinyml.h\<close> selects the algorithms and key types of the PSA Crypto implementation and sizes
  the secure partitions of TF-M. The partitions themselves are not part of the repository, so what
  they do with the options is not modelled: the theory holds the values a build gets, by \<open>macro\<close> of
  \<open>Build_Options\<close> those of the build where it sets them and the defaults of the header elsewhere.
\<close>

subsection \<open>Algorithms and key types\<close>

text \<open>The macros the header defines as 1, whatever the build says.\<close>

definition psa_wants :: "string list" where
  "psa_wants =
     [''PSA_WANT_ALG_SHA_256'', ''PSA_WANT_ALG_HKDF'', ''PSA_WANT_ALG_HMAC'', ''PSA_WANT_ALG_CCM'', ''PSA_WANT_ALG_GCM'',
      ''PSA_WANT_KEY_TYPE_RAW_DATA'', ''PSA_WANT_KEY_TYPE_DERIVE'', ''PSA_WANT_KEY_TYPE_HMAC'', ''PSA_WANT_KEY_TYPE_AES'']"

subsection \<open>Partition options\<close>

record platform_options =
  PLATFORM_SERVICE_INPUT_BUFFER_SIZE :: nat
  PLATFORM_SERVICE_OUTPUT_BUFFER_SIZE :: nat
  PLATFORM_SP_STACK_SIZE :: nat
  PLATFORM_NV_COUNTER_MODULE_DISABLED :: nat

definition platform_config :: "(string \<Rightarrow> nat option) \<Rightarrow> platform_options" where
  "platform_config build = \<lparr>
     PLATFORM_SERVICE_INPUT_BUFFER_SIZE = macro build ''PLATFORM_SERVICE_INPUT_BUFFER_SIZE'' 64,
     PLATFORM_SERVICE_OUTPUT_BUFFER_SIZE = macro build ''PLATFORM_SERVICE_OUTPUT_BUFFER_SIZE'' 64,
     PLATFORM_SP_STACK_SIZE = macro build ''PLATFORM_SP_STACK_SIZE'' 0x500,
     PLATFORM_NV_COUNTER_MODULE_DISABLED = macro build ''PLATFORM_NV_COUNTER_MODULE_DISABLED'' 0\<rparr>"

record crypto_options =
  CRYPTO_ENGINE_BUF_SIZE :: nat
  CRYPTO_CONC_OPER_NUM :: nat
  CRYPTO_RNG_MODULE_ENABLED :: nat
  CRYPTO_KEY_MODULE_ENABLED :: nat
  CRYPTO_AEAD_MODULE_ENABLED :: nat
  CRYPTO_MAC_MODULE_ENABLED :: nat
  CRYPTO_HASH_MODULE_ENABLED :: nat
  CRYPTO_CIPHER_MODULE_ENABLED :: nat
  CRYPTO_ASYM_SIGN_MODULE_ENABLED :: nat
  CRYPTO_ASYM_ENCRYPT_MODULE_ENABLED :: nat
  CRYPTO_KEY_DERIVATION_MODULE_ENABLED :: nat
  CRYPTO_IOVEC_BUFFER_SIZE :: nat
  CRYPTO_NV_SEED :: nat
  CRYPTO_SINGLE_PART_FUNCS_DISABLED :: nat
  CRYPTO_STACK_SIZE :: nat

definition crypto_config :: "(string \<Rightarrow> nat option) \<Rightarrow> crypto_options" where
  "crypto_config build = \<lparr>
     CRYPTO_ENGINE_BUF_SIZE = macro build ''CRYPTO_ENGINE_BUF_SIZE'' 0x8000,
     CRYPTO_CONC_OPER_NUM = macro build ''CRYPTO_CONC_OPER_NUM'' 8,
     CRYPTO_RNG_MODULE_ENABLED = macro build ''CRYPTO_RNG_MODULE_ENABLED'' 1,
     CRYPTO_KEY_MODULE_ENABLED = macro build ''CRYPTO_KEY_MODULE_ENABLED'' 1,
     CRYPTO_AEAD_MODULE_ENABLED = macro build ''CRYPTO_AEAD_MODULE_ENABLED'' 1,
     CRYPTO_MAC_MODULE_ENABLED = macro build ''CRYPTO_MAC_MODULE_ENABLED'' 1,
     CRYPTO_HASH_MODULE_ENABLED = macro build ''CRYPTO_HASH_MODULE_ENABLED'' 1,
     CRYPTO_CIPHER_MODULE_ENABLED = macro build ''CRYPTO_CIPHER_MODULE_ENABLED'' 1,
     CRYPTO_ASYM_SIGN_MODULE_ENABLED = macro build ''CRYPTO_ASYM_SIGN_MODULE_ENABLED'' 0,
     CRYPTO_ASYM_ENCRYPT_MODULE_ENABLED = macro build ''CRYPTO_ASYM_ENCRYPT_MODULE_ENABLED'' 0,
     CRYPTO_KEY_DERIVATION_MODULE_ENABLED = macro build ''CRYPTO_KEY_DERIVATION_MODULE_ENABLED'' 1,
     CRYPTO_IOVEC_BUFFER_SIZE = macro build ''CRYPTO_IOVEC_BUFFER_SIZE'' 8192,
     CRYPTO_NV_SEED = macro build ''CRYPTO_NV_SEED'' 1,
     CRYPTO_SINGLE_PART_FUNCS_DISABLED = macro build ''CRYPTO_SINGLE_PART_FUNCS_DISABLED'' 0,
     CRYPTO_STACK_SIZE = macro build ''CRYPTO_STACK_SIZE'' 0x3000\<rparr>"

record its_options =
  ITS_CREATE_FLASH_LAYOUT :: nat
  ITS_RAM_FS :: nat
  ITS_VALIDATE_METADATA_FROM_FLASH :: nat
  ITS_MAX_ASSET_SIZE :: nat
  ITS_BUF_SIZE :: nat
  ITS_NUM_ASSETS :: nat
  ITS_STACK_SIZE :: nat

text \<open>The transfer buffer takes the size of the largest asset, as the build or the header gives it.\<close>

definition its_config :: "(string \<Rightarrow> nat option) \<Rightarrow> its_options" where
  "its_config build =
     (let max_asset = macro build ''ITS_MAX_ASSET_SIZE'' 512 in \<lparr>
     ITS_CREATE_FLASH_LAYOUT = macro build ''ITS_CREATE_FLASH_LAYOUT'' 1,
     ITS_RAM_FS = macro build ''ITS_RAM_FS'' 0,
     ITS_VALIDATE_METADATA_FROM_FLASH = macro build ''ITS_VALIDATE_METADATA_FROM_FLASH'' 1,
     ITS_MAX_ASSET_SIZE = max_asset,
     ITS_BUF_SIZE = macro build ''ITS_BUF_SIZE'' max_asset,
     ITS_NUM_ASSETS = macro build ''ITS_NUM_ASSETS'' 10,
     ITS_STACK_SIZE = macro build ''ITS_STACK_SIZE'' 0x720\<rparr>)"

text \<open>The number of connections has a value only in a build with the connection pool.\<close>

record spm_options =
  CONFIG_TFM_CONN_HANDLE_MAX_NUM :: "nat option"
  CONFIG_TFM_DOORBELL_API :: nat

definition spm_config :: "(string \<Rightarrow> nat option) \<Rightarrow> spm_options" where
  "spm_config build = \<lparr>
     CONFIG_TFM_CONN_HANDLE_MAX_NUM =
       (if build ''CONFIG_TFM_CONNECTION_POOL_ENABLE'' \<noteq> None
        then Some (macro build ''CONFIG_TFM_CONN_HANDLE_MAX_NUM'' 8)
        else build ''CONFIG_TFM_CONN_HANDLE_MAX_NUM''),
     CONFIG_TFM_DOORBELL_API = macro build ''CONFIG_TFM_DOORBELL_API'' 0\<rparr>"

text \<open>A request for an asset of any size is served in one iteration, unless the build says otherwise.\<close>

lemma asset_in_one_iteration:
  "build ''ITS_BUF_SIZE'' = None \<Longrightarrow> ITS_BUF_SIZE (its_config build) = ITS_MAX_ASSET_SIZE (its_config build)"
  by (simp add: its_config_def Let_def)

end
