(* ===== verification/Nsid_Manager.thy ===== *)
theory Nsid_Manager
  imports Prelude
begin

section \<open>Non-secure client identities: the token table and the thread names\<close>

text \<open>
  \<open>lib/nsid_manager/tfm_nsid_manager.c\<close> keeps a table from tokens of the secure side to
  client identities (NSIDs); \<open>app_broker/tfm_nsid_map_table.c\<close> gives the identity of a
  thread by its name. The value of \<open>TFM_NS_CLIENT_INVALID_TOKEN\<close> is declared in a
  header of TF-M, so it is the parameter \<open>itok\<close> of every operation here.
\<close>

subsection \<open>tfm_nsid_manager.c\<close>

definition THREAD_NUM_MAX :: nat where "THREAD_NUM_MAX = 10"
definition TFM_DEFAULT_NSID :: "32 word" where "TFM_DEFAULT_NSID = -1"
definition TFM_INVALID_NSID_MIN :: "32 word" where "TFM_INVALID_NSID_MIN = 0"

datatype nsid_mgr_err =
  NSID_MGR_ERR_SUCCESS | NSID_MGR_ERR_INVALID_NSID | NSID_MGR_ERR_INVALID_TOKEN | NSID_MGR_ERR_NO_FREE_ENTRY

fun nsid_mgr_err_code :: "nsid_mgr_err \<Rightarrow> 8 word" where
  "nsid_mgr_err_code NSID_MGR_ERR_SUCCESS = 0"
| "nsid_mgr_err_code NSID_MGR_ERR_INVALID_NSID = 1"
| "nsid_mgr_err_code NSID_MGR_ERR_INVALID_TOKEN = 2"
| "nsid_mgr_err_code NSID_MGR_ERR_NO_FREE_ENTRY = 3"

record nsid_token_pair =
  np_token :: "32 word"
  np_nsid :: "32 word"

type_synonym nsid_table = "nsid_token_pair list"

definition no_pair :: "32 word \<Rightarrow> nsid_token_pair" where
  "no_pair itok = \<lparr>np_token = itok, np_nsid = TFM_INVALID_NSID_MIN\<rparr>"

text \<open>The loop of the initialisation overwrites every entry, whatever the table held.\<close>

definition nsid_mgr_init :: "32 word \<Rightarrow> nsid_table \<Rightarrow> nsid_mgr_err \<times> nsid_table" where
  "nsid_mgr_init itok tab =
     (NSID_MGR_ERR_SUCCESS, foldl (\<lambda>t i. t[i := no_pair itok]) tab [0..<THREAD_NUM_MAX])"

text \<open>A loop that returns at the first entry it accepts is a recursion over the entries.\<close>

fun add_loop :: "32 word \<Rightarrow> nsid_token_pair \<Rightarrow> nsid_table \<Rightarrow> nsid_table option" where
  "add_loop itok p [] = None"
| "add_loop itok p (e # es) =
     (if np_token e = itok then Some (p # es) else map_option ((#) e) (add_loop itok p es))"

definition nsid_mgr_add_entry ::
  "32 word \<Rightarrow> 32 word \<Rightarrow> 32 word \<Rightarrow> nsid_table \<Rightarrow> nsid_mgr_err \<times> nsid_table" where
  "nsid_mgr_add_entry itok nsid token tab =
     (if sint nsid \<ge> sint TFM_INVALID_NSID_MIN then (NSID_MGR_ERR_INVALID_NSID, tab)
      else if token = itok then (NSID_MGR_ERR_INVALID_TOKEN, tab)
      else case add_loop itok \<lparr>np_token = token, np_nsid = nsid\<rparr> tab of
             Some tab' \<Rightarrow> (NSID_MGR_ERR_SUCCESS, tab')
           | None \<Rightarrow> (NSID_MGR_ERR_NO_FREE_ENTRY, tab))"

fun remove_loop :: "32 word \<Rightarrow> 32 word \<Rightarrow> nsid_table \<Rightarrow> nsid_table option" where
  "remove_loop itok token [] = None"
| "remove_loop itok token (e # es) =
     (if np_token e = token then Some (no_pair itok # es)
      else map_option ((#) e) (remove_loop itok token es))"

definition nsid_mgr_remove_entry :: "32 word \<Rightarrow> 32 word \<Rightarrow> nsid_table \<Rightarrow> nsid_mgr_err \<times> nsid_table" where
  "nsid_mgr_remove_entry itok token tab =
     (if token = itok then (NSID_MGR_ERR_INVALID_TOKEN, tab)
      else case remove_loop itok token tab of
             Some tab' \<Rightarrow> (NSID_MGR_ERR_SUCCESS, tab')
           | None \<Rightarrow> (NSID_MGR_ERR_INVALID_TOKEN, tab))"

fun query_loop :: "32 word \<Rightarrow> nsid_table \<Rightarrow> 32 word" where
  "query_loop token [] = TFM_INVALID_NSID_MIN"
| "query_loop token (e # es) = (if np_token e = token then np_nsid e else query_loop token es)"

definition nsid_mgr_query_nsid :: "32 word \<Rightarrow> 32 word \<Rightarrow> nsid_table \<Rightarrow> 32 word" where
  "nsid_mgr_query_nsid itok token tab =
     (if token = itok then TFM_INVALID_NSID_MIN else query_loop token tab)"

subsection \<open>tfm_nsid_map_table.c\<close>

text \<open>A C string is the bytes up to a zero; reading past the last byte has no value.\<close>

fun str_cmp_from :: "nat \<Rightarrow> byte list \<Rightarrow> byte list \<Rightarrow> int option" where
  "str_cmp_from 0 a b = None"
| "str_cmp_from (Suc fuel) a b =
     (case (a, b) of
        (x # a', y # b') \<Rightarrow>
          if x \<noteq> 0 \<or> y \<noteq> 0 then (if x \<noteq> y then Some 1 else str_cmp_from fuel a' b')
          else Some 0
      | _ \<Rightarrow> None)"

definition str_cmp :: "byte list \<Rightarrow> byte list \<Rightarrow> int option" where
  "str_cmp a b = str_cmp_from (Suc (length a)) a b"

definition c_string :: "string \<Rightarrow> byte list" where
  "c_string s = map of_char s @ [0]"

definition test_ns_nsid_table :: "bool \<Rightarrow> (string \<times> 32 word) list" where
  "test_ns_nsid_table psa_api_test_ns =
     [(''Thread_A'', -2), (''Thread_B'', -3), (''Thread_C'', -4), (''Thread_D'', -5),
      (''seq_task'', -6), (''mid_task'', -7), (''pri_task'', -8)] @
     (if psa_api_test_ns then [(''psa_api_test'', -9)] else [])"

fun name_loop :: "(string \<times> 32 word) list \<Rightarrow> byte list \<Rightarrow> (32 word) option" where
  "name_loop [] name = Some TFM_DEFAULT_NSID"
| "name_loop ((t, n) # ts) name =
     do { c \<leftarrow> str_cmp (c_string t) name;
          if c = 0 then Some n else name_loop ts name }"

text \<open>The name is \<open>None\<close> for a null pointer.\<close>

definition nsid_mgr_get_thread_nsid :: "bool \<Rightarrow> byte list option \<Rightarrow> (32 word) option" where
  "nsid_mgr_get_thread_nsid psa_api_test_ns t_name =
     (case t_name of
        None \<Rightarrow> Some TFM_DEFAULT_NSID
      | Some name \<Rightarrow> name_loop (test_ns_nsid_table psa_api_test_ns) name)"

subsection \<open>The contract of a token table\<close>

text \<open>
  What the context shim relies on: the table is a finite map from tokens to negative
  identities. \<open>view\<close> is that map, \<open>ok\<close> the invariant of the representation.
\<close>

locale token_store =
  fixes itok :: "32 word"
    and ok :: "'s \<Rightarrow> bool"
    and view :: "'s \<Rightarrow> 32 word \<Rightarrow> (32 word) option"
    and add :: "32 word \<Rightarrow> 32 word \<Rightarrow> 's \<Rightarrow> nsid_mgr_err \<times> 's"
    and remove :: "32 word \<Rightarrow> 's \<Rightarrow> nsid_mgr_err \<times> 's"
    and query :: "32 word \<Rightarrow> 's \<Rightarrow> 32 word"
  assumes view_valid: "ok s \<Longrightarrow> view s t = Some n \<Longrightarrow> sint n < 0 \<and> t \<noteq> itok"
    and query_view: "ok s \<Longrightarrow> query t s = (case view s t of None \<Rightarrow> 0 | Some n \<Rightarrow> n)"
    and add_view: "ok s \<Longrightarrow> view s t = None \<Longrightarrow> add n t s = (NSID_MGR_ERR_SUCCESS, s') \<Longrightarrow>
                   ok s' \<and> view s' = (view s)(t \<mapsto> n)"
    and add_error: "add n t s = (e, s') \<Longrightarrow> e \<noteq> NSID_MGR_ERR_SUCCESS \<Longrightarrow> s' = s"
    and remove_view: "ok s \<Longrightarrow> remove t s = (e, s') \<Longrightarrow>
                      ok s' \<and> view s' = (view s)(t := None) \<and>
                      (e = NSID_MGR_ERR_SUCCESS \<longleftrightarrow> view s t \<noteq> None)"
begin

lemma query_known: "ok s \<Longrightarrow> view s t \<noteq> None \<longleftrightarrow> sint (query t s) < 0"
  using view_valid [of s t] by (cases "view s t") (auto simp: query_view)

lemma added_is_found:
  assumes "ok s" "view s t = None" "add n t s = (NSID_MGR_ERR_SUCCESS, s')"
  shows "query t s' = n"
  using add_view [OF assms] by (simp add: query_view)

lemma add_keeps_the_others:
  assumes "ok s" "view s t = None" "add n t s = (e, s')" "u \<noteq> t"
  shows "query u s' = query u s"
proof (cases "e = NSID_MGR_ERR_SUCCESS")
  case True
  then have "ok s'" "view s' = (view s)(t \<mapsto> n)" using add_view [OF assms(1,2)] assms(3) by simp_all
  then show ?thesis using assms by (simp add: query_view)
qed (use add_error [OF assms(3)] in simp)

lemma removed_is_gone:
  assumes "ok s" "remove t s = (e, s')"
  shows "query t s' = 0"
  using remove_view [OF assms] by (simp add: query_view)

lemma remove_keeps_the_others:
  assumes "ok s" "remove t s = (e, s')" "u \<noteq> t"
  shows "query u s' = query u s"
  using remove_view [OF assms(1,2)] assms by (simp add: query_view)

lemma remove_twice_fails:
  assumes "ok s" "remove t s = (e, s')" "remove t s' = (e', s'')"
  shows "e' \<noteq> NSID_MGR_ERR_SUCCESS"
proof -
  have "ok s'" "view s' t = None" using remove_view [OF assms(1,2)] by simp_all
  then show ?thesis using remove_view [OF _ assms(3)] by blast
qed

lemma add_keeps_ok:
  assumes "ok s" "view s t = None" "add n t s = (e, s')"
  shows "ok s'"
proof (cases "e = NSID_MGR_ERR_SUCCESS")
  case True
  then show ?thesis using add_view [OF assms(1,2)] assms(3) by blast
qed (use add_error [OF assms(3)] assms(1) in simp)

end

subsection \<open>The table implements the contract\<close>

definition used :: "32 word \<Rightarrow> nsid_table \<Rightarrow> nsid_table" where
  "used itok tab = filter (\<lambda>e. np_token e \<noteq> itok) tab"

definition table_ok :: "32 word \<Rightarrow> nsid_table \<Rightarrow> bool" where
  "table_ok itok tab \<longleftrightarrow> length tab = THREAD_NUM_MAX \<and>
     distinct (map np_token (used itok tab)) \<and>
     (\<forall>e \<in> set tab. if np_token e = itok then np_nsid e = 0 else sint (np_nsid e) < 0)"

definition token_map :: "32 word \<Rightarrow> nsid_table \<Rightarrow> 32 word \<Rightarrow> (32 word) option" where
  "token_map itok tab = map_of (map (\<lambda>e. (np_token e, np_nsid e)) (used itok tab))"

lemma used_simps [simp]:
  "used itok [] = []"
  "used itok (e # es) = (if np_token e = itok then used itok es else e # used itok es)"
  by (simp_all add: used_def)

lemma token_map_Nil [simp]: "token_map itok [] = Map.empty"
  by (simp add: token_map_def)

lemma token_map_Cons [simp]:
  "token_map itok (e # es) = (if np_token e = itok then token_map itok es
                             else (token_map itok es)(np_token e \<mapsto> np_nsid e))"
  by (simp add: token_map_def)

lemma token_map_dom: "dom (token_map itok tab) = np_token ` set (used itok tab)"
  by (simp add: token_map_def dom_map_of_conv_image_fst image_image)

lemma token_map_inv [simp]: "token_map itok tab itok = None"
  by (induction tab) auto

lemma token_map_not_in: "token_map itok tab t = None \<longleftrightarrow> t \<notin> np_token ` set (used itok tab)"
  using token_map_dom [of itok tab] by auto

lemma query_loop_map: "t \<noteq> itok \<Longrightarrow> query_loop t tab = (case token_map itok tab t of None \<Rightarrow> 0 | Some n \<Rightarrow> n)"
  by (induction tab) (auto simp: TFM_INVALID_NSID_MIN_def)

lemma nsid_mgr_query_map:
  "nsid_mgr_query_nsid itok t tab = (case token_map itok tab t of None \<Rightarrow> 0 | Some n \<Rightarrow> n)"
  by (simp add: nsid_mgr_query_nsid_def query_loop_map TFM_INVALID_NSID_MIN_def)

lemma used_append [simp]: "used itok (xs @ ys) = used itok xs @ used itok ys"
  by (simp add: used_def)

lemma token_map_append: "token_map itok (xs @ ys) = token_map itok ys ++ token_map itok xs"
  by (simp add: token_map_def)

lemma used_all: "\<forall>e \<in> set xs. np_token e \<noteq> itok \<Longrightarrow> used itok xs = xs"
  by (simp add: used_def)

lemma add_loop_None: "add_loop itok p tab = None \<longleftrightarrow> (\<forall>e \<in> set tab. np_token e \<noteq> itok)"
  by (induction tab) auto

lemma add_loop_split:
  "add_loop itok p tab = Some tab' \<Longrightarrow>
   \<exists>xs e ys. tab = xs @ e # ys \<and> np_token e = itok \<and> tab' = xs @ p # ys"
proof (induction tab arbitrary: tab')
  case (Cons e es)
  show ?case
  proof (cases "np_token e = itok")
    case True
    with Cons.prems have "e # es = [] @ e # es \<and> np_token e = itok \<and> tab' = [] @ p # es" by simp
    then show ?thesis by blast
  next
    case False
    with Cons.prems obtain z where z: "add_loop itok p es = Some z" "tab' = e # z" by auto
    from Cons.IH [OF z(1)] obtain xs f ys
      where "es = xs @ f # ys \<and> np_token f = itok \<and> z = xs @ p # ys" by blast
    then have "e # es = (e # xs) @ f # ys \<and> np_token f = itok \<and> tab' = (e # xs) @ p # ys"
      using z(2) by simp
    then show ?thesis by blast
  qed
qed simp

lemma remove_loop_None: "remove_loop itok t tab = None \<longleftrightarrow> (\<forall>e \<in> set tab. np_token e \<noteq> t)"
  by (induction tab) auto

lemma remove_loop_split:
  "remove_loop itok t tab = Some tab' \<Longrightarrow>
   \<exists>xs e ys. tab = xs @ e # ys \<and> np_token e = t \<and> tab' = xs @ no_pair itok # ys"
proof (induction tab arbitrary: tab')
  case (Cons e es)
  show ?case
  proof (cases "np_token e = t")
    case True
    with Cons.prems have "e # es = [] @ e # es \<and> np_token e = t \<and> tab' = [] @ no_pair itok # es" by simp
    then show ?thesis by blast
  next
    case False
    with Cons.prems obtain z where z: "remove_loop itok t es = Some z" "tab' = e # z" by auto
    from Cons.IH [OF z(1)] obtain xs f ys
      where "es = xs @ f # ys \<and> np_token f = t \<and> z = xs @ no_pair itok # ys" by blast
    then have "e # es = (e # xs) @ f # ys \<and> np_token f = t \<and> tab' = (e # xs) @ no_pair itok # ys"
      using z(2) by simp
    then show ?thesis by blast
  qed
qed simp

lemma np_token_no_pair [simp]: "np_token (no_pair itok) = itok" "np_nsid (no_pair itok) = 0"
  by (simp_all add: no_pair_def TFM_INVALID_NSID_MIN_def)

text \<open>What a successful insertion and a successful removal do to the map and the invariant.\<close>

lemma add_success:
  assumes ok: "table_ok itok tab" and new: "token_map itok tab token = None"
    and add: "nsid_mgr_add_entry itok nsid token tab = (NSID_MGR_ERR_SUCCESS, tab')"
  shows "table_ok itok tab' \<and> token_map itok tab' = (token_map itok tab)(token \<mapsto> nsid)"
proof -
  let ?p = "\<lparr>np_token = token, np_nsid = nsid\<rparr>"
  from add have t: "token \<noteq> itok" and n: "sint nsid < 0" and l: "add_loop itok ?p tab = Some tab'"
    by (auto simp: nsid_mgr_add_entry_def TFM_INVALID_NSID_MIN_def split: if_splits option.splits)
  from add_loop_split [OF l] obtain xs e ys
    where tab: "tab = xs @ e # ys" and e: "np_token e = itok" and tab': "tab' = xs @ ?p # ys" by blast
  from new have fresh: "token \<notin> np_token ` set (used itok xs)" "token \<notin> np_token ` set (used itok ys)"
    by (simp_all add: token_map_not_in tab e image_Un)
  then have "token_map itok xs token = None" "token_map itok ys token = None"
    by (simp_all add: token_map_not_in)
  then have "token_map itok tab' = (token_map itok tab)(token \<mapsto> nsid)"
    by (auto simp: fun_eq_iff tab tab' e t token_map_append map_add_def split: option.split)
  moreover have "table_ok itok tab'"
    using ok t n fresh by (auto simp: table_ok_def tab tab' e)
  ultimately show ?thesis by simp
qed

lemma remove_result:
  assumes ok: "table_ok itok tab" and rem: "nsid_mgr_remove_entry itok token tab = (err, tab')"
  shows "table_ok itok tab' \<and> token_map itok tab' = (token_map itok tab)(token := None) \<and>
         (err = NSID_MGR_ERR_SUCCESS \<longleftrightarrow> token_map itok tab token \<noteq> None)"
proof (cases "token = itok \<or> remove_loop itok token tab = None")
  case True
  then have none: "token_map itok tab token = None"
    by (auto simp: remove_loop_None token_map_not_in used_def)
  have "tab' = tab \<and> err = NSID_MGR_ERR_INVALID_TOKEN"
    using True rem by (simp add: nsid_mgr_remove_entry_def split: if_splits)
  with none show ?thesis using ok by (simp add: fun_upd_idem)
next
  case False
  then have t: "token \<noteq> itok" and l: "remove_loop itok token tab = Some tab'" and err: "err = NSID_MGR_ERR_SUCCESS"
    using rem by (auto simp: nsid_mgr_remove_entry_def split: option.splits)
  from remove_loop_split [OF l] obtain xs e ys
    where tab: "tab = xs @ e # ys" and e: "np_token e = token" and tab': "tab' = xs @ no_pair itok # ys" by blast
  from ok have d: "distinct (map np_token (used itok (xs @ e # ys)))" by (simp add: table_ok_def tab)
  then have fresh: "token \<notin> np_token ` set (used itok xs)" "token \<notin> np_token ` set (used itok ys)"
    using e t by auto
  then have "token_map itok xs token = None" "token_map itok ys token = None"
    by (simp_all add: token_map_not_in)
  then have "token_map itok tab' = (token_map itok tab)(token := None)" "token_map itok tab token \<noteq> None"
    by (auto simp: fun_eq_iff tab tab' e t token_map_append map_add_def split: option.split)
  moreover have "table_ok itok tab'"
    using ok t d e by (auto simp: table_ok_def tab tab')
  ultimately show ?thesis by (simp add: err)
qed

lemma add_unchanged:
  "nsid_mgr_add_entry itok n t tab = (e, tab') \<Longrightarrow> e \<noteq> NSID_MGR_ERR_SUCCESS \<Longrightarrow> tab' = tab"
  by (auto simp: nsid_mgr_add_entry_def split: if_splits option.splits)

lemma token_map_valid:
  assumes "table_ok itok tab" "token_map itok tab t = Some n"
  shows "sint n < 0 \<and> t \<noteq> itok"
proof -
  from assms(2) obtain e where "e \<in> set (used itok tab)" "np_token e = t" "np_nsid e = n"
    by (auto simp: token_map_def dest!: map_of_SomeD)
  then show ?thesis using assms(1) by (auto simp: table_ok_def used_def)
qed

interpretation nsids: token_store itok "table_ok itok" "token_map itok" "nsid_mgr_add_entry itok"
  "nsid_mgr_remove_entry itok" "nsid_mgr_query_nsid itok" for itok
proof unfold_locales
  fix s :: nsid_table and t n :: "32 word"
  show "table_ok itok s \<Longrightarrow> token_map itok s t = Some n \<Longrightarrow> sint n < 0 \<and> t \<noteq> itok"
    by (rule token_map_valid)
  show "nsid_mgr_query_nsid itok t s = (case token_map itok s t of None \<Rightarrow> 0 | Some n \<Rightarrow> n)"
    by (rule nsid_mgr_query_map)
next
  fix s s' :: nsid_table and t n :: "32 word"
  show "table_ok itok s \<Longrightarrow> token_map itok s t = None \<Longrightarrow>
        nsid_mgr_add_entry itok n t s = (NSID_MGR_ERR_SUCCESS, s') \<Longrightarrow>
        table_ok itok s' \<and> token_map itok s' = (token_map itok s)(t \<mapsto> n)"
    by (rule add_success)
next
  fix s s' :: nsid_table and t n :: "32 word" and e
  show "nsid_mgr_add_entry itok n t s = (e, s') \<Longrightarrow> e \<noteq> NSID_MGR_ERR_SUCCESS \<Longrightarrow> s' = s"
    by (rule add_unchanged)
  show "table_ok itok s \<Longrightarrow> nsid_mgr_remove_entry itok t s = (e, s') \<Longrightarrow>
        table_ok itok s' \<and> token_map itok s' = (token_map itok s)(t := None) \<and>
        (e = NSID_MGR_ERR_SUCCESS \<longleftrightarrow> token_map itok s t \<noteq> None)"
    by (rule remove_result)
qed

text \<open>Capacity: an insertion with valid arguments fails exactly when ten tokens are mapped.\<close>

lemma mapped_tokens: "table_ok itok tab \<Longrightarrow> card (dom (token_map itok tab)) = length (used itok tab)"
  unfolding token_map_dom table_ok_def
  by (metis distinct_card image_set length_map)

lemma used_length: "length (used itok tab) = length tab \<longleftrightarrow> (\<forall>e \<in> set tab. np_token e \<noteq> itok)"
proof (cases "\<forall>e \<in> set tab. np_token e \<noteq> itok")
  case False
  then obtain e where "e \<in> set tab" "\<not> np_token e \<noteq> itok" by blast
  then have "length (used itok tab) < length tab"
    unfolding used_def by (rule length_filter_less)
  with False show ?thesis by simp
qed (simp add: used_all)

lemma add_full:
  assumes ok: "table_ok itok tab" and n: "sint nsid < 0" and t: "token \<noteq> itok"
  shows "fst (nsid_mgr_add_entry itok nsid token tab) =
     (if card (dom (token_map itok tab)) = THREAD_NUM_MAX then NSID_MGR_ERR_NO_FREE_ENTRY
      else NSID_MGR_ERR_SUCCESS)"
proof -
  have len: "length tab = THREAD_NUM_MAX" using ok by (simp add: table_ok_def)
  have full: "add_loop itok p tab = None \<longleftrightarrow> card (dom (token_map itok tab)) = THREAD_NUM_MAX" for p
    unfolding add_loop_None mapped_tokens [OF ok] len [symmetric] used_length ..
  show ?thesis
  proof (cases "add_loop itok \<lparr>np_token = token, np_nsid = nsid\<rparr> tab")
    case None
    then show ?thesis using n t full by (simp add: nsid_mgr_add_entry_def TFM_INVALID_NSID_MIN_def)
  next
    case (Some tab')
    then have "card (dom (token_map itok tab)) \<noteq> THREAD_NUM_MAX"
      using full [of "\<lparr>np_token = token, np_nsid = nsid\<rparr>"] by simp
    with Some show ?thesis using n t by (simp add: nsid_mgr_add_entry_def TFM_INVALID_NSID_MIN_def)
  qed
qed

lemma init_table:
  assumes "length tab = THREAD_NUM_MAX"
  shows "nsid_mgr_init itok tab = (NSID_MGR_ERR_SUCCESS, replicate THREAD_NUM_MAX (no_pair itok))"
proof -
  have "k \<le> length tab \<Longrightarrow> foldl (\<lambda>t i. t[i := no_pair itok]) tab [0..<k] =
        replicate k (no_pair itok) @ drop k tab" for k
  proof (induction k)
    case (Suc k)
    then have "drop k tab = tab ! k # drop (Suc k) tab" by (simp add: Cons_nth_drop_Suc)
    with Suc show ?case by (simp add: list_update_append replicate_append_same)
  qed simp
  then show ?thesis using assms by (simp add: nsid_mgr_init_def)
qed

lemma init_ok: "length tab = THREAD_NUM_MAX \<Longrightarrow> table_ok itok (snd (nsid_mgr_init itok tab))"
  and init_empty: "length tab = THREAD_NUM_MAX \<Longrightarrow> token_map itok (snd (nsid_mgr_init itok tab)) = Map.empty"
  by (simp_all add: init_table table_ok_def used_def token_map_def)

subsection \<open>Thread names\<close>

text \<open>The comparison loop decides equality of the strings, whatever follows their terminators.\<close>

lemma str_cmp_from_strings:
  assumes "0 \<notin> set a" "0 \<notin> set b" "length a < fuel"
  shows "str_cmp_from fuel (a @ 0 # junk) (b @ 0 # junk') = Some (if a = b then 0 else 1)"
  using assms
proof (induction fuel arbitrary: a b)
  case (Suc fuel)
  then show ?case by (cases a; cases b) auto
qed simp

lemma str_cmp_strings:
  "0 \<notin> set a \<Longrightarrow> 0 \<notin> set b \<Longrightarrow>
   str_cmp (a @ 0 # junk) (b @ 0 # junk') = Some (if a = b then 0 else 1)"
  by (simp add: str_cmp_def str_cmp_from_strings del: str_cmp_from.simps)

definition names_ok :: "(string \<times> 32 word) list \<Rightarrow> bool" where
  "names_ok ts \<longleftrightarrow> (\<forall>(t, n) \<in> set ts. 0 \<notin> set (map of_char t :: byte list))"

lemma name_loop_lookup:
  assumes "names_ok ts" "0 \<notin> set name"
  shows "name_loop ts (name @ 0 # junk) =
     Some (case map_of (map (\<lambda>(t, n). (map of_char t, n)) ts) name of None \<Rightarrow> -1 | Some n \<Rightarrow> n)"
  using assms(1)
proof (induction ts)
  case (Cons e ts)
  obtain t n where e: "e = (t, n)" by fastforce
  from Cons.prems have "0 \<notin> set (map of_char t :: byte list)" and ok: "names_ok ts"
    by (auto simp: names_ok_def e)
  then have "str_cmp (c_string t) (name @ 0 # junk) = Some (if map of_char t = name then 0 else 1)"
    using str_cmp_strings [of "map of_char t" name "[]" junk] assms(2) by (simp add: c_string_def)
  with Cons.IH [OF ok] show ?case by (auto simp: e)
qed (simp add: TFM_DEFAULT_NSID_def)

lemma test_names_ok: "names_ok (test_ns_nsid_table f)"
  by (cases f) (simp_all add: names_ok_def test_ns_nsid_table_def)

text \<open>The identities of the named threads: negative, never the default, one per name.\<close>

lemma test_ids: "(t, n) \<in> set (test_ns_nsid_table f) \<Longrightarrow> sint n < -1"
  by (cases f) (auto simp: test_ns_nsid_table_def)

lemma test_ids_distinct: "distinct (map snd (test_ns_nsid_table f)) \<and> distinct (map fst (test_ns_nsid_table f))"
  by (cases f) (simp_all add: test_ns_nsid_table_def)

end
