(* ===== verification/Tz_Shim.thy ===== *)
theory Tz_Shim
  imports Nsid_Manager
begin

section \<open>The thread context shim\<close>

text \<open>
  \<open>lib/nsid_manager/tz_shim_layer.c\<close>: the functions the RTOS calls when it creates, switches
  and deletes threads. The secure side (\<open>tfm_nsce_*\<close>) is the parameter \<open>sec\<close>: it answers
  each call from the history of the calls made before. The build options
  \<open>TFM_NS_MANAGE_NSID\<close> and \<open>TEST_NS_MANAGE_NSID\<close> are part of the record \<open>tz_conf\<close>, together
  with the constants of the header \<open>tfm_ns_client_ext.h\<close>.
\<close>

subsection \<open>The secure side and the state\<close>

datatype nsce_call =
  Nsce_init "32 word"
| Nsce_acquire "8 word" "8 word"
| Nsce_release "32 word"
| Nsce_load "32 word" "32 word"
| Nsce_save "32 word"

type_synonym nsce_trace = "(nsce_call \<times> 32 word) list"
type_synonym nsce_env = "nsce_trace \<Rightarrow> nsce_call \<Rightarrow> 32 word"

record tz_conf =
  tz_manage :: bool
  tz_test :: bool
  tz_invalid :: "32 word"
  tz_success :: "32 word"

record tz_state =
  tz_table :: nsid_table
  tz_thread_id :: "8 word"
  tz_active :: "32 word"
  tz_calls :: nsce_trace

definition NSID_MGR_THREAD_ID_MAX :: "8 word" where "NSID_MGR_THREAD_ID_MAX = 0xFF"
definition NSID_MGR_GROUP_ID_DEFAULT :: "8 word" where "NSID_MGR_GROUP_ID_DEFAULT = 0"

definition nsce :: "nsce_env \<Rightarrow> nsce_call \<Rightarrow> tz_state \<Rightarrow> 32 word \<times> tz_state" where
  "nsce sec c s = (let r = sec (tz_calls s) c in (r, s\<lparr>tz_calls := tz_calls s @ [(c, r)]\<rparr>))"

text \<open>Statics at start-up: zeroed table and token, first thread id 1.\<close>

definition tz_start :: tz_state where
  "tz_start = \<lparr>tz_table = replicate THREAD_NUM_MAX \<lparr>np_token = 0, np_nsid = 0\<rparr>,
               tz_thread_id = 1, tz_active = 0, tz_calls = []\<rparr>"

subsection \<open>The five functions\<close>

definition TZ_InitContextSystem_S :: "tz_conf \<Rightarrow> nsce_env \<Rightarrow> tz_state \<Rightarrow> 32 word \<times> tz_state" where
  "TZ_InitContextSystem_S cf sec s =
     (if \<not> tz_manage cf then (1, s)
      else let (r, s) = nsce sec (Nsce_init 0) s
      in if r = 0 then (0, s)
      else let (e, tab) = nsid_mgr_init (tz_invalid cf) (tz_table s); s = s\<lparr>tz_table := tab\<rparr>
      in if e = NSID_MGR_ERR_SUCCESS
         then (1, if tz_test cf then s\<lparr>tz_active := tz_invalid cf\<rparr> else s)
         else (0, s))"

definition TZ_AllocModuleContext_S :: "tz_conf \<Rightarrow> nsce_env \<Rightarrow> 32 word \<Rightarrow> tz_state \<Rightarrow> 32 word \<times> tz_state" where
  "TZ_AllocModuleContext_S cf sec module s =
     (if \<not> tz_manage cf then (1, s)
      else let nsid = module
      in if tz_thread_id s \<ge> NSID_MGR_THREAD_ID_MAX then (0, s)
      else let tid = tz_thread_id s; s = s\<lparr>tz_thread_id := tid + 1\<rparr>;
               (token, s) = nsce sec (Nsce_acquire NSID_MGR_GROUP_ID_DEFAULT tid) s;
               (e, tab) = nsid_mgr_add_entry (tz_invalid cf) nsid token (tz_table s);
               s = s\<lparr>tz_table := tab\<rparr>
      in if e = NSID_MGR_ERR_SUCCESS then (token, s) else (0, s))"

definition drop_active :: "tz_conf \<Rightarrow> tz_state \<Rightarrow> tz_state" where
  "drop_active cf s =
     (if tz_test cf \<and> tz_active s \<noteq> tz_invalid cf then s\<lparr>tz_active := tz_invalid cf\<rparr> else s)"

definition TZ_FreeModuleContext_S :: "tz_conf \<Rightarrow> nsce_env \<Rightarrow> 32 word \<Rightarrow> tz_state \<Rightarrow> 32 word \<times> tz_state" where
  "TZ_FreeModuleContext_S cf sec token s =
     (if \<not> tz_manage cf then (1, s)
      else let (e, tab) = nsid_mgr_remove_entry (tz_invalid cf) token (tz_table s); s = s\<lparr>tz_table := tab\<rparr>
      in if e \<noteq> NSID_MGR_ERR_SUCCESS then (0, s)
      else let (r, s) = nsce sec (Nsce_release token) s
      in if r = tz_success cf then (1, drop_active cf s) else (0, s))"

definition TZ_LoadContext_S :: "tz_conf \<Rightarrow> nsce_env \<Rightarrow> 32 word \<Rightarrow> tz_state \<Rightarrow> 32 word \<times> tz_state" where
  "TZ_LoadContext_S cf sec token s =
     (if \<not> tz_manage cf then (1, s)
      else let nsid = nsid_mgr_query_nsid (tz_invalid cf) token (tz_table s)
      in if sint nsid \<ge> sint TFM_INVALID_NSID_MIN then (0, s)
      else let (r, s) = nsce sec (Nsce_load token nsid) s
      in if r = tz_success cf then (1, if tz_test cf then s\<lparr>tz_active := token\<rparr> else s)
         else (0, s))"

definition TZ_StoreContext_S :: "tz_conf \<Rightarrow> nsce_env \<Rightarrow> 32 word \<Rightarrow> tz_state \<Rightarrow> 32 word \<times> tz_state" where
  "TZ_StoreContext_S cf sec token s =
     (if \<not> tz_manage cf then (1, s)
      else let (r, s) = nsce sec (Nsce_save token) s
      in if r = tz_success cf then (1, drop_active cf s) else (0, s))"

subsection \<open>The RTOS calls them in any order\<close>

datatype tz_op = Tz_alloc "32 word" | Tz_free "32 word" | Tz_load "32 word" | Tz_store "32 word"

fun tz_do :: "tz_conf \<Rightarrow> nsce_env \<Rightarrow> tz_op \<Rightarrow> tz_state \<Rightarrow> 32 word \<times> tz_state" where
  "tz_do cf sec (Tz_alloc m) s = TZ_AllocModuleContext_S cf sec m s"
| "tz_do cf sec (Tz_free t) s = TZ_FreeModuleContext_S cf sec t s"
| "tz_do cf sec (Tz_load t) s = TZ_LoadContext_S cf sec t s"
| "tz_do cf sec (Tz_store t) s = TZ_StoreContext_S cf sec t s"

definition tz_ops :: "tz_conf \<Rightarrow> nsce_env \<Rightarrow> tz_op list \<Rightarrow> tz_state \<Rightarrow> tz_state" where
  "tz_ops cf sec ops s = foldl (\<lambda>s oper. snd (tz_do cf sec oper s)) s ops"

lemma tz_ops_simps [simp]:
  "tz_ops cf sec [] s = s"
  "tz_ops cf sec (x # xs) s = tz_ops cf sec xs (snd (tz_do cf sec x s))"
  by (simp_all add: tz_ops_def)

lemmas tz_defs = TZ_InitContextSystem_S_def TZ_AllocModuleContext_S_def TZ_FreeModuleContext_S_def
  TZ_LoadContext_S_def TZ_StoreContext_S_def nsce_def drop_active_def Let_def

subsection \<open>What the secure side is told\<close>

text \<open>
  The documented behaviour of the secure side the shim relies on: an acquired token is
  not one that is still in use. A load always carries the identity the table holds.
\<close>

definition fresh_tokens :: "tz_conf \<Rightarrow> nsce_env \<Rightarrow> tz_state \<Rightarrow> bool" where
  "fresh_tokens cf sec s \<longleftrightarrow>
     (\<forall>g i. token_map (tz_invalid cf) (tz_table s) (sec (tz_calls s) (Nsce_acquire g i)) = None)"

fun fresh_run :: "tz_conf \<Rightarrow> nsce_env \<Rightarrow> tz_op list \<Rightarrow> tz_state \<Rightarrow> bool" where
  "fresh_run cf sec [] s = True"
| "fresh_run cf sec (x # xs) s \<longleftrightarrow> fresh_tokens cf sec s \<and> fresh_run cf sec xs (snd (tz_do cf sec x s))"

definition call_ok :: "tz_conf \<Rightarrow> nsce_call \<Rightarrow> bool" where
  "call_ok cf c = (case c of Nsce_load t n \<Rightarrow> sint n < 0 \<and> t \<noteq> tz_invalid cf
                           | Nsce_release t \<Rightarrow> t \<noteq> tz_invalid cf | _ \<Rightarrow> True)"

definition tz_inv :: "tz_conf \<Rightarrow> tz_state \<Rightarrow> bool" where
  "tz_inv cf s \<longleftrightarrow> table_ok (tz_invalid cf) (tz_table s) \<and> 1 \<le> tz_thread_id s \<and>
     (\<forall>e \<in> set (tz_calls s). call_ok cf (fst e))"

abbreviation tz_map :: "tz_conf \<Rightarrow> tz_state \<Rightarrow> 32 word \<Rightarrow> (32 word) option" where
  "tz_map cf s \<equiv> token_map (tz_invalid cf) (tz_table s)"

lemma call_ok_simps [simp]:
  "call_ok cf (Nsce_init v)" "call_ok cf (Nsce_acquire g i)" "call_ok cf (Nsce_save t)"
  "call_ok cf (Nsce_load t n) \<longleftrightarrow> sint n < 0 \<and> t \<noteq> tz_invalid cf"
  "call_ok cf (Nsce_release t) \<longleftrightarrow> t \<noteq> tz_invalid cf"
  by (simp_all add: call_ok_def)

lemma unat_byte: "unat (i :: 8 word) \<le> 255"
  using unat_byte_lt [of i] by linarith

lemma alloc_cases:
  assumes m: "tz_manage cf" and r: "TZ_AllocModuleContext_S cf sec module s = (ret, s')"
  obtains (no_id) "tz_thread_id s = 0xFF" "ret = 0" "s' = s"
  | (fails) e where "tz_thread_id s < 0xFF" "ret = 0" "e \<noteq> NSID_MGR_ERR_SUCCESS"
      "tz_table s' = tz_table s" "tz_thread_id s' = tz_thread_id s + 1" "tz_active s' = tz_active s"
      "tz_calls s' = tz_calls s @ [(Nsce_acquire 0 (tz_thread_id s), sec (tz_calls s) (Nsce_acquire 0 (tz_thread_id s)))]"
      "fst (nsid_mgr_add_entry (tz_invalid cf) module (sec (tz_calls s) (Nsce_acquire 0 (tz_thread_id s))) (tz_table s)) = e"
  | (works) "tz_thread_id s < 0xFF" "ret = sec (tz_calls s) (Nsce_acquire 0 (tz_thread_id s))"
      "nsid_mgr_add_entry (tz_invalid cf) module ret (tz_table s) = (NSID_MGR_ERR_SUCCESS, tz_table s')"
      "tz_thread_id s' = tz_thread_id s + 1" "tz_active s' = tz_active s"
      "tz_calls s' = tz_calls s @ [(Nsce_acquire 0 (tz_thread_id s), ret)]"
proof (cases "tz_thread_id s \<ge> NSID_MGR_THREAD_ID_MAX")
  case True
  then have "255 \<le> unat (tz_thread_id s)" by (simp add: NSID_MGR_THREAD_ID_MAX_def word_le_nat_alt)
  then have "tz_thread_id s = 0xFF"
    using unat_byte [of "tz_thread_id s"] by (simp add: word_unat_eq_iff)
  with r m True no_id show thesis by (simp add: TZ_AllocModuleContext_S_def)
next
  case False
  let ?t = "sec (tz_calls s) (Nsce_acquire 0 (tz_thread_id s))"
  obtain e tab where add: "nsid_mgr_add_entry (tz_invalid cf) module ?t (tz_table s) = (e, tab)"
    by fastforce
  from False have lt: "tz_thread_id s < 0xFF" by (simp add: NSID_MGR_THREAD_ID_MAX_def)
  show thesis
  proof (cases "e = NSID_MGR_ERR_SUCCESS")
    case True
    show thesis
      by (rule works) (use lt r m False add True in \<open>auto simp: tz_defs NSID_MGR_GROUP_ID_DEFAULT_def\<close>)
  next
    case e: False
    from add have "tab = tz_table s" using e by (rule add_unchanged)
    then show thesis
      using fails [of e] lt r m False add e by (auto simp: tz_defs NSID_MGR_GROUP_ID_DEFAULT_def)
  qed
qed

lemma tz_unmanaged: "\<not> tz_manage cf \<Longrightarrow> tz_do cf sec x s = (1, s)"
  by (cases x) (simp_all add: tz_defs)

lemma thread_id_next: "i < 0xFF \<Longrightarrow> unat (i + 1 :: 8 word) = unat i + 1"
  by (simp add: word_less_nat_alt unat_word_ariths)

subsection \<open>Invariants\<close>

lemma tz_init_inv:
  assumes "length (tz_table s) = THREAD_NUM_MAX" "1 \<le> tz_thread_id s" "\<forall>e \<in> set (tz_calls s). call_ok cf (fst e)"
    and "TZ_InitContextSystem_S cf sec s = (1, s')" "tz_manage cf"
  shows "tz_inv cf s' \<and> tz_map cf s' = Map.empty"
  using assms init_ok [of "tz_table s" "tz_invalid cf"] init_empty [of "tz_table s" "tz_invalid cf"]
  by (auto simp: tz_defs tz_inv_def split: if_splits prod.splits)

lemma alloc_inv:
  assumes inv: "tz_inv cf s" and f: "fresh_tokens cf sec s" and r: "TZ_AllocModuleContext_S cf sec m s = (ret, s')"
  shows "tz_inv cf s'"
proof (cases "tz_manage cf")
  case True
  have calls: "\<forall>e \<in> set (tz_calls s). call_ok cf (fst e)" and tab: "table_ok (tz_invalid cf) (tz_table s)"
    and id: "1 \<le> tz_thread_id s"
    using inv by (simp_all add: tz_inv_def)
  have up: "1 \<le> tz_thread_id s + 1" if "tz_thread_id s < 0xFF"
    using thread_id_next [OF that] by (simp add: word_le_nat_alt)
  from True r show ?thesis
  proof (cases rule: alloc_cases)
    case no_id
    then show ?thesis using inv by simp
  next
    case (fails e)
    then show ?thesis using calls tab up by (simp add: tz_inv_def)
  next
    case works
    have "tz_map cf s ret = None" using f by (simp add: fresh_tokens_def works)
    from add_success [OF tab this works(3)] show ?thesis
      using works calls up by (simp add: tz_inv_def)
  qed
qed (use r inv in \<open>simp add: tz_defs\<close>)

lemma free_result:
  assumes tab: "table_ok (tz_invalid cf) (tz_table s)" and m: "tz_manage cf"
    and r: "TZ_FreeModuleContext_S cf sec t s = (ret, s')"
  shows "table_ok (tz_invalid cf) (tz_table s') \<and> tz_map cf s' = (tz_map cf s)(t := None) \<and>
     tz_thread_id s' = tz_thread_id s \<and>
     tz_calls s' = tz_calls s @ (if tz_map cf s t = None then [] else [(Nsce_release t, sec (tz_calls s) (Nsce_release t))])"
proof -
  obtain e tab' where rem: "nsid_mgr_remove_entry (tz_invalid cf) t (tz_table s) = (e, tab')" by fastforce
  from remove_result [OF tab rem] show ?thesis
    using r m rem by (auto simp: tz_defs split: if_splits)
qed

lemma free_inv:
  assumes inv: "tz_inv cf s" and r: "TZ_FreeModuleContext_S cf sec t s = (ret, s')"
  shows "tz_inv cf s'"
proof (cases "tz_manage cf")
  case True
  from inv have tab: "table_ok (tz_invalid cf) (tz_table s)" by (simp add: tz_inv_def)
  from free_result [OF tab True r] show ?thesis
    using inv token_map_valid [OF tab, of t]
    by (auto simp: tz_inv_def split: if_splits)
qed (use r inv in \<open>simp add: tz_defs\<close>)

lemma load_result:
  assumes tab: "table_ok (tz_invalid cf) (tz_table s)" and m: "tz_manage cf"
    and r: "TZ_LoadContext_S cf sec t s = (ret, s')"
  shows "tz_table s' = tz_table s \<and> tz_thread_id s' = tz_thread_id s \<and>
     (case tz_map cf s t of
        None \<Rightarrow> ret = 0 \<and> s' = s
      | Some n \<Rightarrow> tz_calls s' = tz_calls s @ [(Nsce_load t n, sec (tz_calls s) (Nsce_load t n))] \<and>
                  (ret = 1 \<longleftrightarrow> sec (tz_calls s) (Nsce_load t n) = tz_success cf))"
proof (cases "tz_map cf s t")
  case None
  then show ?thesis using r m by (simp add: tz_defs nsid_mgr_query_map TFM_INVALID_NSID_MIN_def)
next
  case (Some n)
  then show ?thesis using r m token_map_valid [OF tab Some]
    by (auto simp: tz_defs nsid_mgr_query_map TFM_INVALID_NSID_MIN_def split: if_splits)
qed

lemma load_inv:
  assumes inv: "tz_inv cf s" and r: "TZ_LoadContext_S cf sec t s = (ret, s')"
  shows "tz_inv cf s'"
proof (cases "tz_manage cf")
  case True
  from inv have tab: "table_ok (tz_invalid cf) (tz_table s)" by (simp add: tz_inv_def)
  from load_result [OF tab True r] show ?thesis
    using inv token_map_valid [OF tab, of t]
    by (auto simp: tz_inv_def split: option.splits)
qed (use r inv in \<open>simp add: tz_defs\<close>)

lemma store_inv:
  assumes inv: "tz_inv cf s" and r: "TZ_StoreContext_S cf sec t s = (ret, s')"
  shows "tz_inv cf s'"
  using assms by (auto simp: tz_defs tz_inv_def split: if_splits)

lemma tz_do_inv:
  assumes "tz_inv cf s" "fresh_tokens cf sec s"
  shows "tz_inv cf (snd (tz_do cf sec x s))"
  using assms by (cases x)
    (auto intro: alloc_inv free_inv load_inv store_inv prod.collapse [symmetric])

lemma tz_ops_inv: "tz_inv cf s \<Longrightarrow> fresh_run cf sec ops s \<Longrightarrow> tz_inv cf (tz_ops cf sec ops s)"
  by (induction ops arbitrary: s) (simp_all add: tz_do_inv)

subsection \<open>Thread ids\<close>

definition acquired_ids :: "nsce_trace \<Rightarrow> (8 word) list" where
  "acquired_ids tr = concat (map (\<lambda>(c, r). case c of Nsce_acquire g i \<Rightarrow> [i] | _ \<Rightarrow> []) tr)"

definition ids_inv :: "tz_state \<Rightarrow> bool" where
  "ids_inv s \<longleftrightarrow> 1 \<le> tz_thread_id s \<and>
     map unat (acquired_ids (tz_calls s)) = [1..<unat (tz_thread_id s)]"

definition is_alloc :: "tz_op \<Rightarrow> bool" where
  "is_alloc x = (case x of Tz_alloc m \<Rightarrow> True | _ \<Rightarrow> False)"

lemma acquired_ids_append [simp]: "acquired_ids (xs @ ys) = acquired_ids xs @ acquired_ids ys"
  and acquired_ids_Nil [simp]: "acquired_ids [] = []"
  and acquired_ids_Cons [simp]: "acquired_ids ((c, r) # xs) =
        (case c of Nsce_acquire g i \<Rightarrow> [i] | _ \<Rightarrow> []) @ acquired_ids xs"
  by (simp_all add: acquired_ids_def)

lemma tz_do_id:
  assumes "tz_manage cf" "tz_do cf sec x s = (ret, s')"
  shows "(if is_alloc x \<and> tz_thread_id s < 0xFF
          then tz_thread_id s' = tz_thread_id s + 1 \<and>
               acquired_ids (tz_calls s') = acquired_ids (tz_calls s) @ [tz_thread_id s]
          else tz_thread_id s' = tz_thread_id s \<and> acquired_ids (tz_calls s') = acquired_ids (tz_calls s))"
proof (cases x)
  case (Tz_alloc m)
  with assms have "TZ_AllocModuleContext_S cf sec m s = (ret, s')" by simp
  from assms(1) this show ?thesis
    by (cases rule: alloc_cases) (simp_all add: Tz_alloc is_alloc_def)
qed (use assms in \<open>auto simp: is_alloc_def tz_defs split: prod.splits if_splits\<close>)

lemma tz_do_ids_inv:
  assumes "ids_inv s" "tz_manage cf"
  shows "ids_inv (snd (tz_do cf sec x s))"
proof -
  obtain ret s' where r: "tz_do cf sec x s = (ret, s')" by fastforce
  have "0 < unat (tz_thread_id s)" using assms(1) by (simp add: ids_inv_def word_le_nat_alt)
  with tz_do_id [OF assms(2) r] show ?thesis
    using assms(1) thread_id_next [of "tz_thread_id s"]
    by (auto simp: r ids_inv_def word_le_nat_alt split: if_splits)
qed

lemma tz_ops_ids: "tz_manage cf \<Longrightarrow> ids_inv s \<Longrightarrow> ids_inv (tz_ops cf sec ops s)"
  by (induction ops arbitrary: s) (simp_all add: tz_do_ids_inv)

lemma tz_id_count:
  assumes "tz_manage cf"
  shows "unat (tz_thread_id (tz_ops cf sec ops s)) =
         min 255 (unat (tz_thread_id s) + length (filter is_alloc ops))"
proof (induction ops arbitrary: s)
  case Nil
  show ?case using unat_byte [of "tz_thread_id s"] by simp
next
  case (Cons x ops)
  obtain ret s' where r: "tz_do cf sec x s = (ret, s')" by fastforce
  have le: "unat (tz_thread_id s) \<le> 255" using unat_byte [of "tz_thread_id s"] by simp
  have lt: "tz_thread_id s < 0xFF \<longleftrightarrow> unat (tz_thread_id s) < 255" by (simp add: word_less_nat_alt)
  show ?case
    using tz_do_id [OF assms r] thread_id_next [of "tz_thread_id s"] le lt
    by (auto simp: Cons.IH r min_def split: if_splits)
qed

lemma tz_init_ids:
  assumes "tz_manage cf" "TZ_InitContextSystem_S cf sec tz_start = (r, s)"
  shows "tz_thread_id s = 1" and "ids_inv s"
proof -
  have "tz_thread_id s = 1 \<and> acquired_ids (tz_calls s) = []"
    using assms by (auto simp: tz_defs tz_start_def split: if_splits prod.splits)
  then show "tz_thread_id s = 1" "ids_inv s" by (simp_all add: ids_inv_def)
qed

lemma alloc_exhausted:
  assumes "tz_manage cf" "tz_thread_id s = 0xFF"
  shows "TZ_AllocModuleContext_S cf sec m s = (0, s)"
  using assms by (simp add: tz_defs NSID_MGR_THREAD_ID_MAX_def)

subsection \<open>A thread keeps its identity\<close>

lemma keeps_identity:
  assumes inv: "tz_inv cf s" and f: "fresh_tokens cf sec s" and m: "tz_manage cf"
    and t: "tz_map cf s t = Some n" and x: "x \<noteq> Tz_free t"
  shows "tz_map cf (snd (tz_do cf sec x s)) t = Some n"
proof -
  obtain ret s' where r: "tz_do cf sec x s = (ret, s')" by fastforce
  have tab: "table_ok (tz_invalid cf) (tz_table s)" using inv by (simp add: tz_inv_def)
  have "tz_map cf s' t = Some n"
  proof (cases x)
    case (Tz_alloc md)
    with r have a: "TZ_AllocModuleContext_S cf sec md s = (ret, s')" by simp
    from m a show ?thesis
    proof (cases rule: alloc_cases)
      case works
      have new: "tz_map cf s ret = None" using f by (simp add: fresh_tokens_def works)
      from add_success [OF tab new works(3)] t new show ?thesis by auto
    qed (simp_all add: t)
  next
    case (Tz_free u)
    with r have "TZ_FreeModuleContext_S cf sec u s = (ret, s')" by simp
    from free_result [OF tab m this] x Tz_free t show ?thesis by simp
  next
    case (Tz_load u)
    with r have "TZ_LoadContext_S cf sec u s = (ret, s')" by simp
    from load_result [OF tab m this] t show ?thesis by simp
  next
    case (Tz_store u)
    with r t m show ?thesis by (auto simp: tz_defs split: if_splits)
  qed
  then show ?thesis by (simp add: r)
qed

lemma keeps_identity_run:
  assumes "tz_manage cf"
  shows "tz_inv cf s \<Longrightarrow> fresh_run cf sec ops s \<Longrightarrow> tz_map cf s t = Some n \<Longrightarrow> Tz_free t \<notin> set ops \<Longrightarrow>
    tz_map cf (tz_ops cf sec ops s) t = Some n"
proof (induction ops arbitrary: s)
  case (Cons x ops)
  then have f: "fresh_tokens cf sec s" and rest: "fresh_run cf sec ops (snd (tz_do cf sec x s))"
    and x: "x \<noteq> Tz_free t" "Tz_free t \<notin> set ops" by auto
  from tz_do_inv [OF Cons.prems(1) f] rest keeps_identity [OF Cons.prems(1) f assms Cons.prems(3) x(1)] x(2)
  show ?case by (simp add: Cons.IH)
qed simp

lemma alloc_gives_identity:
  assumes inv: "tz_inv cf s" and f: "fresh_tokens cf sec s" and m: "tz_manage cf"
    and r: "TZ_AllocModuleContext_S cf sec md s = (token, s')" and t: "token \<noteq> 0"
  shows "tz_map cf s' token = Some md"
proof -
  have tab: "table_ok (tz_invalid cf) (tz_table s)" using inv by (simp add: tz_inv_def)
  from m r show ?thesis
  proof (cases rule: alloc_cases)
    case works
    have new: "tz_map cf s token = None" using f by (simp add: fresh_tokens_def works)
    from add_success [OF tab new works(3)] show ?thesis by simp
  qed (use t in simp_all)
qed

lemma load_after_alloc:
  assumes inv: "tz_inv cf s" and m: "tz_manage cf"
    and r: "TZ_AllocModuleContext_S cf sec md s = (token, s')" and t: "token \<noteq> 0"
    and f: "fresh_run cf sec (Tz_alloc md # ops) s" and nf: "Tz_free token \<notin> set ops"
  shows "let u = tz_ops cf sec ops s'; v = snd (TZ_LoadContext_S cf sec token u)
         in tz_calls v = tz_calls u @ [(Nsce_load token md, sec (tz_calls u) (Nsce_load token md))]"
proof -
  have fs: "fresh_tokens cf sec s" and fr: "fresh_run cf sec ops s'" using f r by simp_all
  have inv': "tz_inv cf s'" by (rule alloc_inv [OF inv fs r])
  from alloc_gives_identity [OF inv fs m r t] have "tz_map cf s' token = Some md" .
  from keeps_identity_run [OF m inv' fr this nf]
  have map: "tz_map cf (tz_ops cf sec ops s') token = Some md" .
  have tab: "table_ok (tz_invalid cf) (tz_table (tz_ops cf sec ops s'))"
    using tz_ops_inv [OF inv' fr] by (simp add: tz_inv_def)
  obtain ret v where v: "TZ_LoadContext_S cf sec token (tz_ops cf sec ops s') = (ret, v)" by fastforce
  from load_result [OF tab m v] map show ?thesis by (simp add: v)
qed

lemma freed_is_refused:
  assumes inv: "tz_inv cf s" and m: "tz_manage cf" and r: "TZ_FreeModuleContext_S cf sec t s = (ret, s')"
  shows "TZ_LoadContext_S cf sec t s' = (0, s')"
proof -
  have tab: "table_ok (tz_invalid cf) (tz_table s)" using inv by (simp add: tz_inv_def)
  have "table_ok (tz_invalid cf) (tz_table s')" "tz_map cf s' t = None"
    using free_result [OF tab m r] by simp_all
  then show ?thesis using m by (simp add: tz_defs nsid_mgr_query_map TFM_INVALID_NSID_MIN_def)
qed

end
