(* ===== verification/Log_Raw.thy ===== *)
theory Log_Raw
  imports Prelude
begin

section \<open>The formatted log\<close>

text \<open>
  \<open>lib/log/tfm_log_raw.c\<close>: a small \<open>printf\<close> over a buffer of 32 characters that is handed
  to \<open>stdio_output_string\<close> whenever it is full and once more at the end. That function
  belongs to the platform: the model records the chunks it is given, and the number it
  returns is the parameter \<open>sout\<close>. Strings are bytes up to a zero byte; reading past the
  end of one, or taking an argument that is not there or of another type, has no value.
  Counts are integers: they stay below the number of bytes that can be stored in memory.
\<close>

subsection \<open>The buffer\<close>

definition PRINT_BUFF_SIZE :: nat where "PRINT_BUFF_SIZE = 32"
definition NUM_BUFF_SIZE :: nat where "NUM_BUFF_SIZE = 12"

record formatted_buffer_t =
  fb_pos :: nat
  fb_buf :: "byte list"
  fb_out :: "byte list list"

definition hex_digits_lo :: "byte list" where "hex_digits_lo = map of_char ''0123456789abcdef''"
definition hex_digits_up :: "byte list" where "hex_digits_up = map of_char ''0123456789ABCDEF''"

definition tfm_flush_formatted_buffer :: "byte \<Rightarrow> formatted_buffer_t \<Rightarrow> formatted_buffer_t option" where
  "tfm_flush_formatted_buffer data pb =
     do { assert_ub (fb_pos pb < length (fb_buf pb));
          let buf = (fb_buf pb)[fb_pos pb := data];
          let pos = fb_pos pb + 1;
          Some (if pos \<ge> PRINT_BUFF_SIZE
                then \<lparr>fb_pos = 0, fb_buf = buf, fb_out = fb_out pb @ [take PRINT_BUFF_SIZE buf]\<rparr>
                else \<lparr>fb_pos = pos, fb_buf = buf, fb_out = fb_out pb\<rparr>) }"

subsection \<open>Output of strings and numbers\<close>

text \<open>One character after the other, with the count the loops keep.\<close>

fun put_all :: "(byte \<Rightarrow> 's \<Rightarrow> 's option) \<Rightarrow> byte list \<Rightarrow> 's \<Rightarrow> (int \<times> 's) option" where
  "put_all put [] s = Some (0, s)"
| "put_all put (b # bs) s = do { s \<leftarrow> put b s; (n, s) \<leftarrow> put_all put bs s; Some (n + 1, s) }"

fun c_str :: "byte list \<Rightarrow> byte list option" where
  "c_str [] = None"
| "c_str (b # bs) = (if b = 0 then Some [] else map_option ((#) b) (c_str bs))"

definition tfm_string_output :: "byte list \<Rightarrow> formatted_buffer_t \<Rightarrow> (int \<times> formatted_buffer_t) option" where
  "tfm_string_output str pb = do { cs \<leftarrow> c_str str; put_all tfm_flush_formatted_buffer cs pb }"

text \<open>
  The digits in the order they are stored in \<open>num_buff\<close>; \<open>room\<close> is what is left of its
  twelve bytes, and a digit that does not fit is a store past the array.
\<close>

fun dec_digits :: "nat \<Rightarrow> 32 word \<Rightarrow> byte list option" where
  "dec_digits 0 number = None"
| "dec_digits (Suc room) number =
     (let c = of_char CHR ''0'' + ucast (number mod 10); number' = number div 10
      in if number' = 0 then Some [c] else map_option ((#) c) (dec_digits room number'))"

fun hex_digits :: "nat \<Rightarrow> byte list \<Rightarrow> 32 word \<Rightarrow> byte list option" where
  "hex_digits 0 table num = None"
| "hex_digits (Suc room) table num =
     (let c = table ! unat (and num 0x0f); num' = drop_bit 4 num
      in if num' = 0 then Some [c] else map_option ((#) c) (hex_digits room table num'))"

definition tfm_dec_num_output ::
  "32 word \<Rightarrow> char \<Rightarrow> formatted_buffer_t \<Rightarrow> (int \<times> formatted_buffer_t) option" where
  "tfm_dec_num_output num sign pb =
     do { (count, number, pb) \<leftarrow>
            (if sign = CHR ''d'' \<and> sint num < 0
             then do { pb \<leftarrow> tfm_flush_formatted_buffer (of_char CHR ''-'') pb;
                       m \<leftarrow> s32 (- sint num);
                       Some (1, word_of_int m, pb) }
             else Some (0, num, pb));
          num_buff \<leftarrow> dec_digits NUM_BUFF_SIZE number;
          (n, pb) \<leftarrow> put_all tfm_flush_formatted_buffer (rev num_buff) pb;
          Some (count + n, pb) }"

definition tfm_hex_num_output ::
  "32 word \<Rightarrow> byte list \<Rightarrow> formatted_buffer_t \<Rightarrow> (int \<times> formatted_buffer_t) option" where
  "tfm_hex_num_output num table pb =
     do { num_buff \<leftarrow> hex_digits NUM_BUFF_SIZE table num;
          put_all tfm_flush_formatted_buffer (rev num_buff) pb }"

subsection \<open>The format loop\<close>

datatype log_arg = Arg_int "32 word" | Arg_str "byte list"

fun arg_int :: "log_arg list \<Rightarrow> (32 word \<times> log_arg list) option" where
  "arg_int (Arg_int w # ap) = Some (w, ap)"
| "arg_int ap = None"

fun arg_str :: "log_arg list \<Rightarrow> (byte list \<times> log_arg list) option" where
  "arg_str (Arg_str s # ap) = Some (s, ap)"
| "arg_str ap = None"

definition unsupported :: "byte list" where
  "unsupported = map of_char ''[Unsupported Tag]'' @ [0]"

text \<open>
  One conversion: what it adds to the count and whether the loop goes on behind the tag
  (\<open>fmt++\<close>) or, after an unsupported one, at the tag itself (\<open>continue\<close>).
\<close>

definition tfm_log_tag ::
  "byte \<Rightarrow> log_arg list \<Rightarrow> formatted_buffer_t \<Rightarrow> (bool \<times> int \<times> log_arg list \<times> formatted_buffer_t) option" where
  "tfm_log_tag t ap pb =
     (if t = of_char CHR ''d'' \<or> t = of_char CHR ''i'' then
        do { (w, ap) \<leftarrow> arg_int ap; (n, pb) \<leftarrow> tfm_dec_num_output w CHR ''d'' pb; Some (True, n, ap, pb) }
      else if t = of_char CHR ''u'' then
        do { (w, ap) \<leftarrow> arg_int ap; (n, pb) \<leftarrow> tfm_dec_num_output w CHR ''u'' pb; Some (True, n, ap, pb) }
      else if t = of_char CHR ''x'' then
        do { (w, ap) \<leftarrow> arg_int ap; (n, pb) \<leftarrow> tfm_hex_num_output w hex_digits_lo pb; Some (True, n, ap, pb) }
      else if t = of_char CHR ''X'' then
        do { (w, ap) \<leftarrow> arg_int ap; (n, pb) \<leftarrow> tfm_hex_num_output w hex_digits_up pb; Some (True, n, ap, pb) }
      else if t = of_char CHR ''p'' then
        do { (k, pb) \<leftarrow> tfm_string_output (map of_char ''0x'' @ [0]) pb;
             (w, ap) \<leftarrow> arg_int ap; (n, pb) \<leftarrow> tfm_hex_num_output w hex_digits_lo pb; Some (True, k + n, ap, pb) }
      else if t = of_char CHR ''s'' then
        do { (s, ap) \<leftarrow> arg_str ap; (n, pb) \<leftarrow> tfm_string_output s pb; Some (True, n, ap, pb) }
      else if t = of_char CHR ''c'' then
        do { (w, ap) \<leftarrow> arg_int ap; pb \<leftarrow> tfm_flush_formatted_buffer (ucast w) pb; Some (True, 1, ap, pb) }
      else if t = of_char CHR ''%'' then
        do { pb \<leftarrow> tfm_flush_formatted_buffer (of_char CHR ''%'') pb; Some (True, 1, ap, pb) }
      else do { (n, pb) \<leftarrow> tfm_string_output unsupported pb; Some (False, n, ap, pb) })"

fun tfm_log_loop ::
  "byte list \<Rightarrow> log_arg list \<Rightarrow> formatted_buffer_t \<Rightarrow> (int \<times> formatted_buffer_t) option" where
  "tfm_log_loop [] ap pb = None"
| "tfm_log_loop (c # fmt) ap pb =
     (if c = 0 then Some (0, pb)
      else if c = of_char CHR ''%'' then
        (case fmt of
           [] \<Rightarrow> None
         | t # fmt' \<Rightarrow>
             do { (next_tag, n, ap, pb) \<leftarrow> tfm_log_tag t ap pb;
                  (k, pb) \<leftarrow> (if next_tag then tfm_log_loop fmt' ap pb else tfm_log_loop fmt ap pb);
                  Some (n + k, pb) })
      else do { pb \<leftarrow> tfm_flush_formatted_buffer c pb;
                (k, pb) \<leftarrow> tfm_log_loop fmt ap pb;
                Some (1 + k, pb) })"

text \<open>\<open>junk\<close> is what the stack buffer holds before; the result is the count and the chunks.\<close>

definition tfm_log_vprintf ::
  "(byte list list \<Rightarrow> byte list \<Rightarrow> int) \<Rightarrow> byte list \<Rightarrow> byte list \<Rightarrow> log_arg list \<Rightarrow> (int \<times> byte list list) option" where
  "tfm_log_vprintf sout junk fmt ap =
     do { (count, pb) \<leftarrow> tfm_log_loop fmt ap \<lparr>fb_pos = 0, fb_buf = junk, fb_out = []\<rparr>;
          Some (if fb_pos pb \<noteq> 0
                then (let chunk = take (fb_pos pb) (fb_buf pb)
                      in (count + sout (fb_out pb) chunk, fb_out pb @ [chunk]))
                else (count, fb_out pb)) }"

definition tfm_log_printf ::
  "(byte list list \<Rightarrow> byte list \<Rightarrow> int) \<Rightarrow> byte list \<Rightarrow> byte list \<Rightarrow> log_arg list \<Rightarrow> (int \<times> byte list list) option" where
  "tfm_log_printf sout junk fmt args = tfm_log_vprintf sout junk fmt args"

subsection \<open>A sink of characters\<close>

text \<open>The contract the output routines rely on: a character is appended to the text, always.\<close>

locale char_sink =
  fixes ok :: "'s \<Rightarrow> bool" and shown :: "'s \<Rightarrow> byte list" and put :: "byte \<Rightarrow> 's \<Rightarrow> 's option"
  assumes put_appends: "ok s \<Longrightarrow> \<exists>s'. put b s = Some s' \<and> ok s' \<and> shown s' = shown s @ [b]"
begin

lemma put_all_appends:
  "ok s \<Longrightarrow> \<exists>s'. put_all put bs s = Some (int (length bs), s') \<and> ok s' \<and> shown s' = shown s @ bs"
proof (induction bs arbitrary: s)
  case (Cons b bs)
  obtain s1 where 1: "put b s = Some s1" "ok s1" "shown s1 = shown s @ [b]"
    using put_appends [OF Cons.prems] by blast
  obtain s2 where "put_all put bs s1 = Some (int (length bs), s2)" "ok s2" "shown s2 = shown s1 @ bs"
    using Cons.IH [OF 1(2)] by blast
  then show ?case using 1 by simp
qed simp

lemma put_all_defined: "ok s \<Longrightarrow> put_all put bs s \<noteq> None"
  using put_all_appends [of s bs] by auto

end

definition fb_ok :: "formatted_buffer_t \<Rightarrow> bool" where
  "fb_ok pb \<longleftrightarrow> fb_pos pb < PRINT_BUFF_SIZE \<and> length (fb_buf pb) = PRINT_BUFF_SIZE \<and>
     (\<forall>c \<in> set (fb_out pb). length c = PRINT_BUFF_SIZE)"

definition fb_text :: "formatted_buffer_t \<Rightarrow> byte list" where
  "fb_text pb = concat (fb_out pb) @ take (fb_pos pb) (fb_buf pb)"

lemma flush_appends:
  assumes "fb_ok pb"
  shows "\<exists>pb'. tfm_flush_formatted_buffer b pb = Some pb' \<and> fb_ok pb' \<and> fb_text pb' = fb_text pb @ [b]"
proof -
  let ?buf = "(fb_buf pb)[fb_pos pb := b]"
  have len: "fb_pos pb < length (fb_buf pb)" "length (fb_buf pb) = PRINT_BUFF_SIZE"
    using assms by (simp_all add: fb_ok_def)
  then have t: "take (Suc (fb_pos pb)) ?buf = take (fb_pos pb) (fb_buf pb) @ [b]"
    by (simp add: take_Suc_conv_app_nth)
  show ?thesis
  proof (cases "fb_pos pb + 1 \<ge> PRINT_BUFF_SIZE")
    case True
    then have "PRINT_BUFF_SIZE = Suc (fb_pos pb)" using len by simp
    then show ?thesis
      using assms len t by (simp add: tfm_flush_formatted_buffer_def fb_ok_def fb_text_def Let_def)
  next
    case False
    then show ?thesis
      using assms len t by (simp add: tfm_flush_formatted_buffer_def fb_ok_def fb_text_def)
  qed
qed

interpretation fb: char_sink fb_ok fb_text tfm_flush_formatted_buffer
  by unfold_locales (rule flush_appends)

subsection \<open>The text a format stands for\<close>

text \<open>Numerals of a base, most significant digit first, without leading zeros.\<close>

function base_text :: "(nat \<Rightarrow> byte) \<Rightarrow> nat \<Rightarrow> nat \<Rightarrow> byte list" where
  "base_text digit base n =
     (if n < base \<or> base < 2 then [digit n] else base_text digit base (n div base) @ [digit (n mod base)])"
  by auto
termination
  by (relation "measure (\<lambda>(d, b, n). n)") auto

declare base_text.simps [simp del]

definition dec_text :: "nat \<Rightarrow> byte list" where
  "dec_text = base_text (\<lambda>d. 48 + of_nat d) 10"

definition hex_text :: "byte list \<Rightarrow> nat \<Rightarrow> byte list" where
  "hex_text table = base_text (\<lambda>d. table ! d) 16"

definition int_text :: "int \<Rightarrow> byte list" where
  "int_text i = (if i < 0 then 45 # dec_text (nat (- i)) else dec_text (nat i))"

definition bytes :: "string \<Rightarrow> byte list" where "bytes s = map of_char s"

text \<open>
  The text of one conversion, whether it consumes its tag, and the arguments left. A
  \<open>%d\<close> of the least integer has no value: its negation overflows.
\<close>

definition tag_text :: "byte \<Rightarrow> log_arg list \<Rightarrow> (bool \<times> byte list \<times> log_arg list) option" where
  "tag_text t ap =
     (if t \<in> set (bytes ''diuxXpc'') then
        (case ap of
           Arg_int w # ap' \<Rightarrow>
             if t \<in> set (bytes ''di'') then
               (if sint w = - (2 ^ 31) then None else Some (True, int_text (sint w), ap'))
             else Some (True,
               (if t = of_char CHR ''u'' then dec_text (unat w)
                else if t = of_char CHR ''x'' then hex_text hex_digits_lo (unat w)
                else if t = of_char CHR ''X'' then hex_text hex_digits_up (unat w)
                else if t = of_char CHR ''p'' then bytes ''0x'' @ hex_text hex_digits_lo (unat w)
                else [ucast w]), ap')
         | _ \<Rightarrow> None)
      else if t = of_char CHR ''s'' then
        (case ap of
           Arg_str s # ap' \<Rightarrow> if 0 \<in> set s then Some (True, takeWhile (\<lambda>b. b \<noteq> 0) s, ap') else None
         | _ \<Rightarrow> None)
      else if t = of_char CHR ''%'' then Some (True, bytes ''%'', ap)
      else Some (False, bytes ''[Unsupported Tag]'', ap))"

fun log_text :: "byte list \<Rightarrow> log_arg list \<Rightarrow> byte list option" where
  "log_text [] ap = Some []"
| "log_text (c # f) ap =
     (if c \<noteq> of_char CHR ''%'' then map_option ((#) c) (log_text f ap)
      else (case f of
              [] \<Rightarrow> Some (bytes ''[Unsupported Tag]'')
            | t # f' \<Rightarrow>
                (case tag_text t ap of
                   None \<Rightarrow> None
                 | Some (adv, s, ap') \<Rightarrow> map_option ((@) s) (if adv then log_text f' ap' else log_text f ap'))))"

subsection \<open>The numerals\<close>

lemma dec_digits_text:
  "unat n < 10 ^ room \<Longrightarrow> 0 < room \<Longrightarrow> dec_digits room n = Some (rev (dec_text (unat n)))"
proof (induction room arbitrary: n)
  case (Suc room)
  have "unat (n mod 10) = unat n mod 10" by (simp add: unat_mod_distrib)
  moreover have "ucast (n mod 10) = (of_nat (unat (n mod 10)) :: byte)" by simp
  ultimately have m: "ucast (n mod 10) = (of_nat (unat n mod 10) :: byte)" by (simp only:)
  have d: "unat (n div 10) = unat n div 10" by (simp add: unat_div_distrib)
  show ?case
  proof (cases "unat n < 10")
    case True
    then have "n div 10 = 0" by (simp add: word_unat_eq_iff d)
    then show ?thesis using True m
      by (simp add: Let_def dec_text_def base_text.simps [of _ _ "unat n"])
  next
    case False
    then have "n div 10 \<noteq> 0" by (simp add: word_unat_eq_iff d)
    moreover have "unat (n div 10) < 10 ^ room" using Suc.prems by (simp add: d)
    moreover have "0 < room" using False Suc.prems(1) by (cases room) simp_all
    ultimately show ?thesis using False m
      by (simp add: Let_def Suc.IH d dec_text_def base_text.simps [of _ _ "unat n"])
  qed
qed simp

lemma hex_digits_text:
  "unat n < 16 ^ room \<Longrightarrow> 0 < room \<Longrightarrow> hex_digits room table n = Some (rev (hex_text table (unat n)))"
proof (induction room arbitrary: n)
  case (Suc room)
  have m: "unat (and n 0x0f) = unat n mod 16"
  proof -
    have "unat (and n 0x0f) = and (unat n) (mask 4)" by (simp add: unsigned_and_eq mask_eq_exp_minus_1)
    also have "\<dots> = take_bit 4 (unat n)" by (simp add: take_bit_eq_mask)
    finally show ?thesis by (simp add: take_bit_eq_mod)
  qed
  have d: "unat (drop_bit 4 n) = unat n div 16" by (simp add: unsigned_drop_bit_eq drop_bit_eq_div unat_div_distrib)
  show ?case
  proof (cases "unat n < 16")
    case True
    then have "drop_bit 4 n = 0" by (simp add: word_unat_eq_iff d)
    then show ?thesis using True m
      by (simp add: hex_text_def base_text.simps [of _ _ "unat n"])
  next
    case False
    then have "drop_bit 4 n \<noteq> 0" by (simp add: word_unat_eq_iff d)
    moreover have "unat (drop_bit 4 n) < 16 ^ room" using Suc.prems by (simp add: d)
    moreover have "0 < room" using False Suc.prems(1) by (cases room) simp_all
    ultimately show ?thesis using False m
      by (simp add: Suc.IH d hex_text_def base_text.simps [of _ _ "unat n"])
  qed
qed simp

lemma dec_text_bound: "unat (w :: 32 word) < 10 ^ NUM_BUFF_SIZE" "unat (w :: 32 word) < 16 ^ NUM_BUFF_SIZE"
proof -
  have "unat w < 2 ^ 32" using unsigned_less [of w] by simp
  then show "unat w < 10 ^ NUM_BUFF_SIZE" "unat w < 16 ^ NUM_BUFF_SIZE" by (simp_all add: NUM_BUFF_SIZE_def)
qed

lemma num_buff_text:
  "dec_digits NUM_BUFF_SIZE w = Some (rev (dec_text (unat w)))"
  "hex_digits NUM_BUFF_SIZE table w = Some (rev (hex_text table (unat w)))"
  by (rule dec_digits_text [OF dec_text_bound(1)] hex_digits_text [OF dec_text_bound(2)],
      simp add: NUM_BUFF_SIZE_def)+

text \<open>Reading a decimal text back.\<close>

definition dec_value :: "byte list \<Rightarrow> nat" where
  "dec_value cs = foldl (\<lambda>a c. a * 10 + unat (c - 48)) 0 cs"

lemma dec_value_snoc: "dec_value (cs @ [c]) = dec_value cs * 10 + unat (c - 48)"
  by (simp add: dec_value_def)

lemma dec_value_text: "dec_value (dec_text n) = n"
proof (induction n rule: less_induct)
  case (less n)
  have digit: "unat (of_nat (n mod 10) :: byte) = n mod 10" by (simp add: unsigned_of_nat take_bit_eq_mod)
  show ?case
  proof (cases "n < 10")
    case True
    then have "n mod 10 = n" by simp
    with True digit show ?thesis
      by (simp add: dec_text_def base_text.simps [of _ _ n] dec_value_def)
  next
    case False
    then have "dec_text n = dec_text (n div 10) @ [48 + of_nat (n mod 10)]"
      by (simp add: dec_text_def base_text.simps [of _ _ n])
    then have "dec_value (dec_text n) = dec_value (dec_text (n div 10)) * 10 + n mod 10"
      using digit by (simp only: dec_value_snoc add_diff_cancel_left')
    also have "\<dots> = n div 10 * 10 + n mod 10" using False less.IH [of "n div 10"] by simp
    finally show ?thesis by simp
  qed
qed

subsection \<open>The output routines put out that text\<close>

lemma c_str_eq: "c_str s = (if 0 \<in> set s then Some (takeWhile (\<lambda>b. b \<noteq> 0) s) else None)"
  by (induction s) auto

lemma string_output:
  assumes "fb_ok pb" "0 \<in> set s"
  shows "\<exists>pb'. tfm_string_output s pb = Some (int (length (takeWhile (\<lambda>b. b \<noteq> 0) s)), pb') \<and> fb_ok pb' \<and>
         fb_text pb' = fb_text pb @ takeWhile (\<lambda>b. b \<noteq> 0) s"
  using fb.put_all_appends [OF assms(1)] assms(2) by (simp add: tfm_string_output_def c_str_eq)

lemma hex_output:
  assumes "fb_ok pb"
  shows "\<exists>pb'. tfm_hex_num_output w table pb = Some (int (length (hex_text table (unat w))), pb') \<and> fb_ok pb' \<and>
         fb_text pb' = fb_text pb @ hex_text table (unat w)"
  using fb.put_all_appends [OF assms, of "hex_text table (unat w)"]
  by (simp add: tfm_hex_num_output_def num_buff_text)

lemma dec_output_plain:
  assumes "fb_ok pb" "\<not> (c = CHR ''d'' \<and> sint w < 0)"
  shows "\<exists>pb'. tfm_dec_num_output w c pb = Some (int (length (dec_text (unat w))), pb') \<and> fb_ok pb' \<and>
         fb_text pb' = fb_text pb @ dec_text (unat w)"
proof -
  have "tfm_dec_num_output w c pb = put_all tfm_flush_formatted_buffer (dec_text (unat w)) pb"
    unfolding tfm_dec_num_output_def if_not_P [OF assms(2)]
    by (cases "put_all tfm_flush_formatted_buffer (dec_text (unat w)) pb") (simp_all add: num_buff_text split_beta)
  then show ?thesis
    using fb.put_all_appends [OF assms(1), of "dec_text (unat w)"] assms(2) by simp
qed

lemma dec_output_negative:
  assumes ok: "fb_ok pb" and neg: "sint w < 0" and w: "sint w \<noteq> - (2 ^ 31)"
  shows "\<exists>pb'. tfm_dec_num_output w CHR ''d'' pb = Some (int (length (int_text (sint w))), pb') \<and> fb_ok pb' \<and>
         fb_text pb' = fb_text pb @ int_text (sint w)"
proof -
  have "- (2 ^ 31) \<le> sint w" using sint_ge [of w] by simp
  then have s: "s32 (- sint w) = Some (- sint w)" using neg w by (simp add: s32_def in_s32_def)
  have "uint (word_of_int (- sint w) :: 32 word) = (- sint w) mod 2 ^ 32"
    unfolding uint_word_of_int by simp
  also have "\<dots> = - sint w" by (rule mod_pos_pos_trivial) (use neg \<open>- (2 ^ 31) \<le> sint w\<close> in simp_all)
  finally have "unat (word_of_int (- sint w) :: 32 word) = nat (- sint w)" by (simp only: nat_uint_eq [symmetric])
  then have d: "dec_digits NUM_BUFF_SIZE (word_of_int (- sint w)) = Some (rev (dec_text (nat (- sint w))))"
    by (simp only: num_buff_text)
  obtain p1 where 1: "tfm_flush_formatted_buffer (of_char CHR ''-'') pb = Some p1" "fb_ok p1"
      "fb_text p1 = fb_text pb @ [of_char CHR ''-'']"
    using flush_appends [OF ok] by blast
  obtain p2 where 2: "put_all tfm_flush_formatted_buffer (dec_text (nat (- sint w))) p1 =
      Some (int (length (dec_text (nat (- sint w)))), p2)" "fb_ok p2"
      "fb_text p2 = fb_text p1 @ dec_text (nat (- sint w))"
    using fb.put_all_appends [OF 1(2)] by blast
  have "tfm_dec_num_output w CHR ''d'' pb = Some (1 + int (length (dec_text (nat (- sint w)))), p2)"
    by (simp only: tfm_dec_num_output_def neg s d 1(1) 2(1) rev_rev_ident bind.bind_lunit split simp_thms if_True)
  moreover have "int_text (sint w) = of_char CHR ''-'' # dec_text (nat (- sint w))"
    using neg by (simp add: int_text_def)
  ultimately show ?thesis using 1 2 by simp
qed

lemma dec_output_least:
  "sint w = - (2 ^ 31) \<Longrightarrow> tfm_dec_num_output w CHR ''d'' pb = None"
  by (cases "tfm_flush_formatted_buffer (of_char CHR ''-'') pb")
     (simp_all add: tfm_dec_num_output_def s32_def in_s32_def)

text \<open>\<open>outputs pb r t x\<close>: the run \<open>r\<close> puts out the text \<open>t\<close>, counts it and leaves the rest \<open>x\<close>.\<close>

definition outputs :: "formatted_buffer_t \<Rightarrow> (int \<times> formatted_buffer_t) option \<Rightarrow> byte list \<Rightarrow> bool" where
  "outputs pb r t \<longleftrightarrow> (\<exists>pb'. r = Some (int (length t), pb') \<and> fb_ok pb' \<and> fb_text pb' = fb_text pb @ t)"

lemma dec_outputs:
  assumes "fb_ok pb"
  shows "sint w \<noteq> - (2 ^ 31) \<Longrightarrow> outputs pb (tfm_dec_num_output w CHR ''d'' pb) (int_text (sint w))"
    and "outputs pb (tfm_dec_num_output w CHR ''u'' pb) (dec_text (unat w))"
proof -
  show "outputs pb (tfm_dec_num_output w CHR ''u'' pb) (dec_text (unat w))"
    using dec_output_plain [OF assms, of "CHR ''u''"] by (simp add: outputs_def)
  assume w: "sint w \<noteq> - (2 ^ 31)"
  show "outputs pb (tfm_dec_num_output w CHR ''d'' pb) (int_text (sint w))"
  proof (cases "sint w < 0")
    case True
    show ?thesis using dec_output_negative [OF assms True w] by (simp add: outputs_def)
  next
    case False
    have "uint w = uint (word_of_int (sint w) :: 32 word)" by simp
    also have "\<dots> = sint w mod 2 ^ 32" unfolding uint_word_of_int by simp
    also have "\<dots> = sint w" by (rule mod_pos_pos_trivial) (use False sint_lt [of w] in simp_all)
    finally have "uint w = sint w" .
    then have "int_text (sint w) = dec_text (unat w)" using False by (simp add: int_text_def flip: nat_uint_eq)
    then show ?thesis using dec_output_plain [OF assms, of "CHR ''d''" w] False by (simp add: outputs_def)
  qed
qed

lemma hex_outputs: "fb_ok pb \<Longrightarrow> outputs pb (tfm_hex_num_output w table pb) (hex_text table (unat w))"
  using hex_output by (simp add: outputs_def)

lemma string_outputs:
  "fb_ok pb \<Longrightarrow> 0 \<in> set s \<Longrightarrow> outputs pb (tfm_string_output s pb) (takeWhile (\<lambda>b. b \<noteq> 0) s)"
  using string_output by (simp add: outputs_def)

lemma outputs_seq:
  assumes "outputs pb r t" "\<And>pb'. fb_ok pb' \<Longrightarrow> outputs pb' (f pb') u"
  shows "outputs pb (do { (n, pb) \<leftarrow> r; (k, pb) \<leftarrow> f pb; Some (n + k, pb) }) (t @ u)"
proof -
  obtain p1 where 1: "r = Some (int (length t), p1)" "fb_ok p1" "fb_text p1 = fb_text pb @ t"
    using assms(1) by (auto simp: outputs_def)
  obtain p2 where 2: "f p1 = Some (int (length u), p2)" "fb_ok p2" "fb_text p2 = fb_text p1 @ u"
    using assms(2) [OF 1(2)] by (auto simp: outputs_def)
  show ?thesis using 1 2 by (simp add: outputs_def)
qed

definition tagged :: "formatted_buffer_t \<Rightarrow> byte \<Rightarrow> log_arg list \<Rightarrow> bool" where
  "tagged pb t ap \<longleftrightarrow>
     (case tag_text t ap of
        None \<Rightarrow> tfm_log_tag t ap pb = None
      | Some (adv, s, ap') \<Rightarrow> \<exists>pb'. tfm_log_tag t ap pb = Some (adv, int (length s), ap', pb') \<and> fb_ok pb' \<and>
                             fb_text pb' = fb_text pb @ s)"

lemma takeWhile_string: "takeWhile (\<lambda>b. b \<noteq> 0) (map of_char s @ [0 :: byte]) = bytes s"
  if "0 \<notin> set (bytes s)"
  using that unfolding bytes_def by (subst takeWhile_append2) auto

lemma string_outputs_lit:
  assumes "fb_ok pb" "0 \<notin> set (bytes s)"
  shows "outputs pb (tfm_string_output (map of_char s @ [0]) pb) (bytes s)"
  using string_outputs [OF assms(1), of "map of_char s @ [0]"] takeWhile_string [OF assms(2)] by simp

lemma outputs_None [simp]: "\<not> outputs pb None t"
  by (simp add: outputs_def)

lemma outputs_tag:
  assumes "outputs pb r s"
  shows "\<exists>pb'. do { (n, pb) \<leftarrow> r; Some (adv, n, ap, pb) } = Some (adv, int (length s), ap, pb') \<and> fb_ok pb' \<and>
         fb_text pb' = fb_text pb @ s"
  using assms by (auto simp: outputs_def)

lemma tagged_int:
  assumes ok: "fb_ok pb" and t: "t = of_char CHR ''d'' \<or> t = of_char CHR ''i''"
  shows "tagged pb t ap"
proof (cases "\<exists>w ap'. ap = Arg_int w # ap'")
  case True
  then obtain w ap' where ap: "ap = Arg_int w # ap'" by blast
  have code: "tfm_log_tag t ap pb = do { (n, pb) \<leftarrow> tfm_dec_num_output w CHR ''d'' pb; Some (True, n, ap', pb) }"
    unfolding tfm_log_tag_def if_P [OF t] by (simp add: ap)
  show ?thesis
  proof (cases "sint w = - (2 ^ 31)")
    case True
    then have "tag_text t ap = None" using t by (auto simp: tag_text_def bytes_def ap)
    then show ?thesis using dec_output_least [OF True] by (simp add: tagged_def code)
  next
    case False
    then have "tag_text t ap = Some (True, int_text (sint w), ap')" using t by (auto simp: tag_text_def bytes_def ap)
    then show ?thesis using outputs_tag [OF dec_outputs(1) [OF ok False]] by (simp add: tagged_def code)
  qed
next
  case False
  then have none: "arg_int ap = None" by (cases ap rule: arg_int.cases) auto
  have "tag_text t ap = None"
    using False t by (cases ap rule: arg_int.cases) (auto simp: tag_text_def bytes_def)
  moreover have "tfm_log_tag t ap pb = None" unfolding tfm_log_tag_def if_P [OF t] none by simp
  ultimately show ?thesis by (simp add: tagged_def)
qed

lemma tagged_arg:
  assumes "tfm_log_tag t ap pb = do { (w, ap) \<leftarrow> arg_int ap; (n, pb) \<leftarrow> f w pb; Some (True, n, ap, pb) }"
    and "tag_text t ap = do { (w, ap) \<leftarrow> arg_int ap; Some (True, g w, ap) }"
    and "\<And>w. outputs pb (f w pb) (g w)"
  shows "tagged pb t ap"
proof (cases "arg_int ap")
  case (Some wa)
  obtain w ap' where wa: "wa = (w, ap')" by fastforce
  show ?thesis
    using assms(1,2) outputs_tag [OF assms(3) [of w], of True ap'] by (simp add: Some wa tagged_def)
qed (simp add: assms tagged_def)

lemma flush_outputs: "fb_ok pb \<Longrightarrow> outputs pb (do { pb \<leftarrow> tfm_flush_formatted_buffer b pb; Some (1, pb) }) [b]"
  using flush_appends [of pb b] by (auto simp: outputs_def)

lemma tagged_uns: "fb_ok pb \<Longrightarrow> tagged pb (of_char CHR ''u'') ap"
  by (rule tagged_arg [where f = "\<lambda>w. tfm_dec_num_output w CHR ''u''" and g = "\<lambda>w. dec_text (unat w)"])
     (simp add: tfm_log_tag_def, cases ap rule: arg_int.cases, simp_all add: tag_text_def bytes_def dec_outputs)

lemma tagged_hex: "fb_ok pb \<Longrightarrow> tagged pb (of_char CHR ''x'') ap"
  by (rule tagged_arg [where f = "\<lambda>w. tfm_hex_num_output w hex_digits_lo" and g = "\<lambda>w. hex_text hex_digits_lo (unat w)"])
     (simp add: tfm_log_tag_def, cases ap rule: arg_int.cases, simp_all add: tag_text_def bytes_def hex_outputs)

lemma tagged_HEX: "fb_ok pb \<Longrightarrow> tagged pb (of_char CHR ''X'') ap"
  by (rule tagged_arg [where f = "\<lambda>w. tfm_hex_num_output w hex_digits_up" and g = "\<lambda>w. hex_text hex_digits_up (unat w)"])
     (simp add: tfm_log_tag_def, cases ap rule: arg_int.cases, simp_all add: tag_text_def bytes_def hex_outputs)

lemma tagged_chr: "fb_ok pb \<Longrightarrow> tagged pb (of_char CHR ''c'') ap"
  by (rule tagged_arg [where f = "\<lambda>w pb. do { pb \<leftarrow> tfm_flush_formatted_buffer (ucast w) pb; Some (1, pb) }" and g = "\<lambda>w. [ucast w]"])
     (simp add: tfm_log_tag_def, cases ap rule: arg_int.cases, simp_all add: tag_text_def bytes_def flush_outputs)

lemma tagged_ptr: "fb_ok pb \<Longrightarrow> tagged pb (of_char CHR ''p'') ap"
proof (rule tagged_arg [where g = "\<lambda>w. bytes ''0x'' @ hex_text hex_digits_lo (unat w)" and
      f = "\<lambda>w pb. do { (n, pb) \<leftarrow> tfm_string_output (map of_char ''0x'' @ [0]) pb;
                       (k, pb) \<leftarrow> tfm_hex_num_output w hex_digits_lo pb; Some (n + k, pb) }"])
  assume ok: "fb_ok pb"
  have z: "outputs pb (tfm_string_output (map of_char ''0x'' @ [0]) pb) (bytes ''0x'')"
    by (rule string_outputs_lit [OF ok]) (simp add: bytes_def)
  show "outputs pb (do { (n, pb) \<leftarrow> tfm_string_output (map of_char ''0x'' @ [0]) pb;
                         (k, pb) \<leftarrow> tfm_hex_num_output w hex_digits_lo pb; Some (n + k, pb) })
          (bytes ''0x'' @ hex_text hex_digits_lo (unat w))" for w
    by (rule outputs_seq [OF z hex_outputs])
  obtain n p1 where "tfm_string_output (map of_char ''0x'' @ [0]) pb = Some (n, p1)"
    using z by (auto simp: outputs_def)
  then show "tfm_log_tag (of_char CHR ''p'') ap pb =
      do { (w, ap) \<leftarrow> arg_int ap;
           (n, pb) \<leftarrow> do { (n, pb) \<leftarrow> tfm_string_output (map of_char ''0x'' @ [0]) pb;
                          (k, pb) \<leftarrow> tfm_hex_num_output w hex_digits_lo pb; Some (n + k, pb) };
           Some (True, n, ap, pb) }"
    by (cases "arg_int ap") (simp_all add: tfm_log_tag_def split_beta del: split_beta', simp_all only: split_def)
  show "tag_text (of_char CHR ''p'') ap =
      do { (w, ap) \<leftarrow> arg_int ap; Some (True, bytes ''0x'' @ hex_text hex_digits_lo (unat w), ap) }"
    by (cases ap rule: arg_int.cases) (simp_all add: tag_text_def bytes_def)
qed

lemma tagged_str: "fb_ok pb \<Longrightarrow> tagged pb (of_char CHR ''s'') ap"
proof -
  assume ok: "fb_ok pb"
  show ?thesis
  proof (cases "\<exists>s ap'. ap = Arg_str s # ap'")
    case True
    then obtain s ap' where ap: "ap = Arg_str s # ap'" by blast
    show ?thesis
    proof (cases "0 \<in> set s")
      case True
      show ?thesis
        using outputs_tag [OF string_outputs [OF ok True], of True ap'] True
        by (simp add: tagged_def tfm_log_tag_def tag_text_def bytes_def ap)
    next
      case False
      then show ?thesis
        by (simp add: tagged_def tfm_log_tag_def tag_text_def bytes_def ap tfm_string_output_def c_str_eq)
    qed
  next
    case False
    then have "arg_str ap = None" by (cases ap rule: arg_str.cases) auto
    with False show ?thesis
      by (cases ap rule: arg_str.cases) (auto simp: tagged_def tfm_log_tag_def tag_text_def bytes_def)
  qed
qed

lemma tagged_pct: "fb_ok pb \<Longrightarrow> tagged pb (of_char CHR ''%'') ap"
  using flush_appends [of pb "of_char CHR ''%''"]
  by (auto simp: tagged_def tfm_log_tag_def tag_text_def bytes_def)

lemma tagged_other:
  assumes ok: "fb_ok pb" and t: "t \<notin> set (bytes ''diuxXpsc%'')"
  shows "tagged pb t ap"
proof -
  have u: "outputs pb (tfm_string_output unsupported pb) (bytes ''[Unsupported Tag]'')"
    unfolding unsupported_def by (rule string_outputs_lit [OF ok]) (simp add: bytes_def)
  have "tfm_log_tag t ap pb = do { (n, pb) \<leftarrow> tfm_string_output unsupported pb; Some (False, n, ap, pb) }"
    using t by (simp add: tfm_log_tag_def bytes_def)
  moreover have "tag_text t ap = Some (False, bytes ''[Unsupported Tag]'', ap)"
    using t by (simp add: tag_text_def bytes_def)
  ultimately show ?thesis using outputs_tag [OF u, of False ap] by (simp add: tagged_def)
qed

lemma tagged_all:
  assumes "fb_ok pb"
  shows "tagged pb t ap"
proof (cases "t \<in> set (bytes ''diuxXpsc%'')")
  case True
  then consider "t = of_char CHR ''d'' \<or> t = of_char CHR ''i''" | "t = of_char CHR ''u''" | "t = of_char CHR ''x''"
    | "t = of_char CHR ''X''" | "t = of_char CHR ''p''" | "t = of_char CHR ''s''" | "t = of_char CHR ''c''"
    | "t = of_char CHR ''%''"
    by (auto simp: bytes_def)
  then show ?thesis
    by cases (simp_all only: tagged_int tagged_uns tagged_hex tagged_HEX tagged_ptr tagged_str tagged_chr
        tagged_pct assms)
qed (rule tagged_other [OF assms])

lemma outputs_add:
  assumes "fb_text p1 = fb_text pb @ s"
    and "case t of None \<Rightarrow> r = None | Some u \<Rightarrow> outputs p1 r u"
  shows "case map_option ((@) s) t of
           None \<Rightarrow> do { (k, pb) \<leftarrow> r; Some (int (length s) + k, pb) } = None
         | Some u \<Rightarrow> outputs pb (do { (k, pb) \<leftarrow> r; Some (int (length s) + k, pb) }) u"
  using assms by (cases t) (auto simp: outputs_def)

text \<open>The format loop, for a format without an inner zero byte, defined or not.\<close>

lemma log_loop_text:
  "fb_ok pb \<Longrightarrow> 0 \<notin> set fmt \<Longrightarrow>
   (case log_text fmt ap of
      None \<Rightarrow> tfm_log_loop (fmt @ 0 # junk) ap pb = None
    | Some t \<Rightarrow> outputs pb (tfm_log_loop (fmt @ 0 # junk) ap pb) t)"
proof (induction fmt ap arbitrary: pb rule: log_text.induct)
  case (1 ap)
  then show ?case by (simp add: outputs_def)
next
  case (2 c f ap)
  show ?case
  proof (cases "c = of_char CHR ''%''")
    case False
    obtain p1 where 1: "tfm_flush_formatted_buffer c pb = Some p1" "fb_ok p1" "fb_text p1 = fb_text pb @ [c]"
      using flush_appends [OF 2(4)] by blast
    from 2(1) [OF _ 1(2)] False 2(5)
    have IH: "case log_text f ap of None \<Rightarrow> tfm_log_loop (f @ 0 # junk) ap p1 = None
              | Some t \<Rightarrow> outputs p1 (tfm_log_loop (f @ 0 # junk) ap p1) t" by simp
    show ?thesis using IH 1 False 2(5) by (auto simp: outputs_def split: option.splits)
  next
    case pct: True
    show ?thesis
    proof (cases f)
      case Nil
      have "tagged pb 0 ap" by (rule tagged_all [OF 2(4)])
      then obtain p1 where "tfm_log_tag 0 ap pb = Some (False, int (length (bytes ''[Unsupported Tag]'')), ap, p1)"
          "fb_ok p1" "fb_text p1 = fb_text pb @ bytes ''[Unsupported Tag]''"
        by (auto simp: tagged_def tag_text_def bytes_def)
      then show ?thesis using pct Nil by (simp add: outputs_def)
    next
      case (Cons t f')
      have tag: "tagged pb t ap" by (rule tagged_all [OF 2(4)])
      show ?thesis
      proof (cases "tag_text t ap")
        case None
        then show ?thesis using tag pct Cons by (simp add: tagged_def)
      next
        case (Some a)
        obtain adv s ap' where a: "a = (adv, s, ap')" by (cases a) auto
        from tag Some a obtain p1 where 1: "tfm_log_tag t ap pb = Some (adv, int (length s), ap', p1)"
            "fb_ok p1" "fb_text p1 = fb_text pb @ s" by (auto simp: tagged_def)
        let ?g = "if adv then f' else f"
        have IH: "case log_text ?g ap' of None \<Rightarrow> tfm_log_loop (?g @ 0 # junk) ap' p1 = None
              | Some t \<Rightarrow> outputs p1 (tfm_log_loop (?g @ 0 # junk) ap' p1) t"
          using 2(2,3) [OF _ Cons Some a [symmetric] refl _ 1(2)] pct Cons 2(5) by (cases adv) auto
        have "tfm_log_loop ((c # f) @ 0 # junk) ap pb =
              do { (k, pb) \<leftarrow> tfm_log_loop (?g @ 0 # junk) ap' p1; Some (int (length s) + k, pb) }"
          using pct Cons 1(1) by (cases adv) simp_all
        moreover have "log_text (c # f) ap = map_option ((@) s) (log_text ?g ap')"
          using pct Cons Some a by (cases adv) simp_all
        ultimately show ?thesis using outputs_add [OF 1(3) IH] by (simp only:)
      qed
    qed
  qed
qed

lemma length_concat_blocks: "\<forall>c \<in> set cs. length c = k \<Longrightarrow> length (concat cs) = k * length cs"
  by (induction cs) auto

definition chunked :: "byte list \<Rightarrow> byte list list \<Rightarrow> bool" where
  "chunked t chunks \<longleftrightarrow> concat chunks = t \<and> (\<forall>c \<in> set (butlast chunks). length c = PRINT_BUFF_SIZE) \<and>
     (\<forall>c \<in> set chunks. 0 < length c \<and> length c \<le> PRINT_BUFF_SIZE)"

lemma vprintf_text:
  assumes j: "length junk = PRINT_BUFF_SIZE" and z: "0 \<notin> set fmt" and t: "log_text fmt ap = Some t"
  shows "\<exists>chunks. chunked t chunks \<and>
     tfm_log_vprintf sout junk (fmt @ 0 # rest) ap =
       Some (int (length t) + (if length t mod PRINT_BUFF_SIZE = 0 then 0 else sout (butlast chunks) (last chunks)), chunks)"
proof -
  let ?s = "\<lparr>fb_pos = 0, fb_buf = junk, fb_out = []\<rparr>"
  have ok: "fb_ok ?s" using j by (simp add: fb_ok_def PRINT_BUFF_SIZE_def)
  obtain pb where pb: "tfm_log_loop (fmt @ 0 # rest) ap ?s = Some (int (length t), pb)" "fb_ok pb" "fb_text pb = t"
    using log_loop_text [OF ok z, where ap = ap and junk = rest] by (auto simp: t outputs_def fb_text_def)
  let ?chunk = "take (fb_pos pb) (fb_buf pb)"
  have len: "length ?chunk = fb_pos pb" "fb_pos pb < PRINT_BUFF_SIZE" "length (fb_buf pb) = PRINT_BUFF_SIZE"
    using pb(2) by (simp_all add: fb_ok_def)
  have full: "\<forall>c \<in> set (fb_out pb). length c = PRINT_BUFF_SIZE" using pb(2) by (simp add: fb_ok_def)
  have "length t = PRINT_BUFF_SIZE * length (fb_out pb) + fb_pos pb"
    using pb(3) length_concat_blocks [OF full] len(1) by (auto simp: fb_text_def)
  then have m: "length t mod PRINT_BUFF_SIZE = fb_pos pb" using len(2) by simp
  have pos: "0 < PRINT_BUFF_SIZE" by (simp add: PRINT_BUFF_SIZE_def)
  show ?thesis
  proof (cases "fb_pos pb = 0")
    case True
    have "chunked t (fb_out pb)"
      using pb(3) full True pos by (auto simp: chunked_def fb_text_def dest: in_set_butlastD)
    then show ?thesis using pb(1) True m by (auto simp: tfm_log_vprintf_def)
  next
    case False
    have "chunked t (fb_out pb @ [?chunk])"
      using pb(3) full False pos len by (auto simp: chunked_def fb_text_def)
    then show ?thesis using pb(1) False m
      by (intro exI [of _ "fb_out pb @ [?chunk]"]) (simp add: tfm_log_vprintf_def Let_def)
  qed
qed

lemma vprintf_undefined:
  assumes "length junk = PRINT_BUFF_SIZE" "0 \<notin> set fmt" "log_text fmt ap = None"
  shows "tfm_log_vprintf sout junk (fmt @ 0 # rest) ap = None"
proof -
  have "fb_ok \<lparr>fb_pos = 0, fb_buf = junk, fb_out = []\<rparr>"
    using assms(1) by (simp add: fb_ok_def PRINT_BUFF_SIZE_def)
  from log_loop_text [OF this assms(2), where ap = ap and junk = rest] show ?thesis
    by (simp add: assms(3) tfm_log_vprintf_def)
qed

end
