(* ===== verification/Cmsis_Rtos.thy ===== *)
theory Cmsis_Rtos
  imports Prelude
begin

section \<open>The interface of CMSIS-RTOS2\<close>

text \<open>
  The types and constants of \<open>lib/ext/CMSIS/RTOS2/Include/cmsis_os2.h\<close>, and the RTOS as the environment
  of the code that calls it. The kernel is a binary library: it answers each call from
  the history of calls, with one 32-bit word (a status, a state, flags, a tick count or a handle; 0 is
  the null handle).
\<close>

subsection \<open>Enumerations\<close>

record osVersion_t =
  ver_api :: "32 word"
  ver_kernel :: "32 word"

datatype osKernelState_t =
  osKernelInactive | osKernelReady | osKernelRunning | osKernelLocked | osKernelSuspended | osKernelError | osKernelReserved

fun osKernelState_code :: "osKernelState_t \<Rightarrow> int" where
  "osKernelState_code osKernelInactive = 0"
| "osKernelState_code osKernelReady = 1"
| "osKernelState_code osKernelRunning = 2"
| "osKernelState_code osKernelLocked = 3"
| "osKernelState_code osKernelSuspended = 4"
| "osKernelState_code osKernelError = - 1"
| "osKernelState_code osKernelReserved = 0x7FFFFFFF"

datatype osThreadState_t =
  osThreadInactive | osThreadReady | osThreadRunning | osThreadBlocked | osThreadTerminated | osThreadError | osThreadReserved

fun osThreadState_code :: "osThreadState_t \<Rightarrow> int" where
  "osThreadState_code osThreadInactive = 0"
| "osThreadState_code osThreadReady = 1"
| "osThreadState_code osThreadRunning = 2"
| "osThreadState_code osThreadBlocked = 3"
| "osThreadState_code osThreadTerminated = 4"
| "osThreadState_code osThreadError = - 1"
| "osThreadState_code osThreadReserved = 0x7FFFFFFF"

datatype (plugins only: size code) osPriority_t =
  osPriorityNone | osPriorityIdle | osPriorityLow | osPriorityLow1 | osPriorityLow2 | osPriorityLow3 |
  osPriorityLow4 | osPriorityLow5 | osPriorityLow6 | osPriorityLow7 | osPriorityBelowNormal |
  osPriorityBelowNormal1 | osPriorityBelowNormal2 | osPriorityBelowNormal3 | osPriorityBelowNormal4 |
  osPriorityBelowNormal5 | osPriorityBelowNormal6 | osPriorityBelowNormal7 | osPriorityNormal | osPriorityNormal1
  | osPriorityNormal2 | osPriorityNormal3 | osPriorityNormal4 | osPriorityNormal5 | osPriorityNormal6 |
  osPriorityNormal7 | osPriorityAboveNormal | osPriorityAboveNormal1 | osPriorityAboveNormal2 |
  osPriorityAboveNormal3 | osPriorityAboveNormal4 | osPriorityAboveNormal5 | osPriorityAboveNormal6 |
  osPriorityAboveNormal7 | osPriorityHigh | osPriorityHigh1 | osPriorityHigh2 | osPriorityHigh3 | osPriorityHigh4
  | osPriorityHigh5 | osPriorityHigh6 | osPriorityHigh7 | osPriorityRealtime | osPriorityRealtime1 |
  osPriorityRealtime2 | osPriorityRealtime3 | osPriorityRealtime4 | osPriorityRealtime5 | osPriorityRealtime6 |
  osPriorityRealtime7 | osPriorityISR | osPriorityError | osPriorityReserved

fun osPriority_code :: "osPriority_t \<Rightarrow> int" where
  "osPriority_code osPriorityNone = 0"
| "osPriority_code osPriorityIdle = 1"
| "osPriority_code osPriorityLow = 8"
| "osPriority_code osPriorityLow1 = 8 + 1"
| "osPriority_code osPriorityLow2 = 8 + 2"
| "osPriority_code osPriorityLow3 = 8 + 3"
| "osPriority_code osPriorityLow4 = 8 + 4"
| "osPriority_code osPriorityLow5 = 8 + 5"
| "osPriority_code osPriorityLow6 = 8 + 6"
| "osPriority_code osPriorityLow7 = 8 + 7"
| "osPriority_code osPriorityBelowNormal = 16"
| "osPriority_code osPriorityBelowNormal1 = 16 + 1"
| "osPriority_code osPriorityBelowNormal2 = 16 + 2"
| "osPriority_code osPriorityBelowNormal3 = 16 + 3"
| "osPriority_code osPriorityBelowNormal4 = 16 + 4"
| "osPriority_code osPriorityBelowNormal5 = 16 + 5"
| "osPriority_code osPriorityBelowNormal6 = 16 + 6"
| "osPriority_code osPriorityBelowNormal7 = 16 + 7"
| "osPriority_code osPriorityNormal = 24"
| "osPriority_code osPriorityNormal1 = 24 + 1"
| "osPriority_code osPriorityNormal2 = 24 + 2"
| "osPriority_code osPriorityNormal3 = 24 + 3"
| "osPriority_code osPriorityNormal4 = 24 + 4"
| "osPriority_code osPriorityNormal5 = 24 + 5"
| "osPriority_code osPriorityNormal6 = 24 + 6"
| "osPriority_code osPriorityNormal7 = 24 + 7"
| "osPriority_code osPriorityAboveNormal = 32"
| "osPriority_code osPriorityAboveNormal1 = 32 + 1"
| "osPriority_code osPriorityAboveNormal2 = 32 + 2"
| "osPriority_code osPriorityAboveNormal3 = 32 + 3"
| "osPriority_code osPriorityAboveNormal4 = 32 + 4"
| "osPriority_code osPriorityAboveNormal5 = 32 + 5"
| "osPriority_code osPriorityAboveNormal6 = 32 + 6"
| "osPriority_code osPriorityAboveNormal7 = 32 + 7"
| "osPriority_code osPriorityHigh = 40"
| "osPriority_code osPriorityHigh1 = 40 + 1"
| "osPriority_code osPriorityHigh2 = 40 + 2"
| "osPriority_code osPriorityHigh3 = 40 + 3"
| "osPriority_code osPriorityHigh4 = 40 + 4"
| "osPriority_code osPriorityHigh5 = 40 + 5"
| "osPriority_code osPriorityHigh6 = 40 + 6"
| "osPriority_code osPriorityHigh7 = 40 + 7"
| "osPriority_code osPriorityRealtime = 48"
| "osPriority_code osPriorityRealtime1 = 48 + 1"
| "osPriority_code osPriorityRealtime2 = 48 + 2"
| "osPriority_code osPriorityRealtime3 = 48 + 3"
| "osPriority_code osPriorityRealtime4 = 48 + 4"
| "osPriority_code osPriorityRealtime5 = 48 + 5"
| "osPriority_code osPriorityRealtime6 = 48 + 6"
| "osPriority_code osPriorityRealtime7 = 48 + 7"
| "osPriority_code osPriorityISR = 56"
| "osPriority_code osPriorityError = - 1"
| "osPriority_code osPriorityReserved = 0x7FFFFFFF"

datatype osTimerType_t = osTimerOnce | osTimerPeriodic

fun osTimerType_code :: "osTimerType_t \<Rightarrow> int" where
  "osTimerType_code osTimerOnce = 0"
| "osTimerType_code osTimerPeriodic = 1"

datatype osStatus_t =
  osOK | osError | osErrorTimeout | osErrorResource | osErrorParameter | osErrorNoMemory | osErrorISR | osStatusReserved

fun os_status_code :: "osStatus_t \<Rightarrow> 32 word" where
  "os_status_code osOK = 0"
| "os_status_code osError = -1"
| "os_status_code osErrorTimeout = -2"
| "os_status_code osErrorResource = -3"
| "os_status_code osErrorParameter = -4"
| "os_status_code osErrorNoMemory = -5"
| "os_status_code osErrorISR = -6"
| "os_status_code osStatusReserved = 0x7FFFFFFF"

subsection \<open>Constants\<close>

definition osWaitForever :: "32 word" where "osWaitForever = 0xFFFFFFFF"

definition osFlagsWaitAny :: "32 word" where "osFlagsWaitAny = 0"
definition osFlagsWaitAll :: "32 word" where "osFlagsWaitAll = 1"
definition osFlagsNoClear :: "32 word" where "osFlagsNoClear = 2"

definition osFlagsError :: "32 word" where "osFlagsError = 0x80000000"
definition osFlagsErrorUnknown :: "32 word" where "osFlagsErrorUnknown = 0xFFFFFFFF"
definition osFlagsErrorTimeout :: "32 word" where "osFlagsErrorTimeout = 0xFFFFFFFE"
definition osFlagsErrorResource :: "32 word" where "osFlagsErrorResource = 0xFFFFFFFD"
definition osFlagsErrorParameter :: "32 word" where "osFlagsErrorParameter = 0xFFFFFFFC"
definition osFlagsErrorISR :: "32 word" where "osFlagsErrorISR = 0xFFFFFFFA"

definition osThreadDetached :: "32 word" where "osThreadDetached = 0"
definition osThreadJoinable :: "32 word" where "osThreadJoinable = 1"

definition osMutexRecursive :: "32 word" where "osMutexRecursive = 1"
definition osMutexPrioInherit :: "32 word" where "osMutexPrioInherit = 2"
definition osMutexRobust :: "32 word" where "osMutexRobust = 8"

subsection \<open>Attributes\<close>

text \<open>
  A name is the string it points to. The other pointers are addresses for the callers that pass
  run-time values, and static objects for the configuration of the RTOS: the type of a pointer is a
  parameter.
\<close>

record 'p osThreadAttr_t =
  th_name :: "byte list option"
  th_attr_bits :: "32 word"
  th_cb_mem :: 'p
  th_cb_size :: "32 word"
  th_stack_mem :: 'p
  th_stack_size :: "32 word"
  th_priority :: "32 word"
  th_tz_module :: "32 word"
  th_reserved :: "32 word"

record 'p osTimerAttr_t =
  tma_name :: "byte list option"
  tma_attr_bits :: "32 word"
  tma_cb_mem :: 'p
  tma_cb_size :: "32 word"

record 'p osEventFlagsAttr_t =
  ef_name :: "byte list option"
  ef_attr_bits :: "32 word"
  ef_cb_mem :: 'p
  ef_cb_size :: "32 word"

record 'p osMutexAttr_t =
  mx_name :: "byte list option"
  mx_attr_bits :: "32 word"
  mx_cb_mem :: 'p
  mx_cb_size :: "32 word"

record 'p osSemaphoreAttr_t =
  sa_name :: "byte list option"
  sa_attr_bits :: "32 word"
  sa_cb_mem :: 'p
  sa_cb_size :: "32 word"

record 'p osMemoryPoolAttr_t =
  pl_name :: "byte list option"
  pl_attr_bits :: "32 word"
  pl_cb_mem :: 'p
  pl_cb_size :: "32 word"
  pl_mp_mem :: 'p
  pl_mp_size :: "32 word"

record 'p osMessageQueueAttr_t =
  mqa_name :: "byte list option"
  mqa_attr_bits :: "32 word"
  mqa_cb_mem :: 'p
  mqa_cb_size :: "32 word"
  mqa_mq_mem :: 'p
  mqa_mq_size :: "32 word"

subsection \<open>The calls\<close>

text \<open>A missing attribute structure is the null pointer.\<close>

datatype os_call =
  osKernelInitialize
| osKernelGetState
| osKernelGetTickCount
| osThreadNew "32 word" "32 word" "32 word osThreadAttr_t"
| osThreadGetId
| osThreadGetPriority "32 word"
| osThreadExit
| osThreadFlagsSet "32 word" "32 word"
| osThreadFlagsWait "32 word" "32 word" "32 word"
| osSemaphoreNew "32 word" "32 word" "32 word osSemaphoreAttr_t"
| osSemaphoreAcquire "32 word" "32 word"
| osSemaphoreRelease "32 word"
| osSemaphoreDelete "32 word"
| osMutexNew "32 word osMutexAttr_t option"
| osMutexAcquire "32 word" "32 word"
| osMutexRelease "32 word"
| osMutexDelete "32 word"
| osMessageQueueNew "8 word" "32 word"
| osMessageQueuePut "32 word" "32 word"
| osMessageQueueGet "32 word" "32 word" "32 word"
| osDelay "32 word"

type_synonym os_trace = "(os_call \<times> 32 word) list"
type_synonym os_env = "os_trace \<Rightarrow> os_call \<Rightarrow> 32 word"

definition os :: "os_env \<Rightarrow> os_call \<Rightarrow> os_trace \<Rightarrow> 32 word \<times> os_trace" where
  "os env c tr = (env tr c, tr @ [(c, env tr c)])"

lemma os_eq [simp]: "os env c tr = (env tr c, tr @ [(c, env tr c)])"
  by (simp add: os_def)

subsection \<open>Facts\<close>

text \<open>The errors of the flag functions are status codes, and every one has the error bit.\<close>

lemma flags_errors_are_status:
  "osFlagsErrorUnknown = os_status_code osError" "osFlagsErrorTimeout = os_status_code osErrorTimeout"
  "osFlagsErrorResource = os_status_code osErrorResource" "osFlagsErrorParameter = os_status_code osErrorParameter"
  "osFlagsErrorISR = os_status_code osErrorISR"
  by (simp_all add: osFlagsErrorUnknown_def osFlagsErrorTimeout_def osFlagsErrorResource_def osFlagsErrorParameter_def
      osFlagsErrorISR_def)

lemma flags_error: "and r osFlagsError \<noteq> 0 \<longleftrightarrow> sint r < 0"
proof -
  have "osFlagsError = push_bit 31 (1 :: 32 word)" by (simp add: osFlagsError_def)
  then have "and r osFlagsError \<noteq> 0 \<longleftrightarrow> bit r 31"
    by (simp add: bit_iff_and_push_bit_not_eq_0)
  also have "\<dots> \<longleftrightarrow> sint r < 0" using bit_last_iff [of r] by simp
  finally show ?thesis .
qed

end
