(* ===== verification/Os_Wrapper.thy ===== *)
theory Os_Wrapper
  imports Nsid_Manager Cmsis_Rtos
begin

section \<open>The OS wrapper\<close>

text \<open>
  \<open>app_broker/os_wrapper_cmsis_rtos_v2.c\<close> maps the wrapper interface of TF-M
  (\<open>lib/os_wrapper/\<close>) on CMSIS-RTOS2. The constants \<open>OS_WRAPPER_*\<close> are declared in a header of TF-M and
  are part of the record \<open>ow_conf\<close>, with the build options.
\<close>

subsection \<open>Options\<close>

text \<open>The fields a wrapper does not initialise by name are 0.\<close>

definition zero_attr :: "32 word \<Rightarrow> 32 word osThreadAttr_t" where
  "zero_attr n = \<lparr>th_name = None, th_attr_bits = 0, th_cb_mem = 0, th_cb_size = 0, th_stack_mem = 0, th_stack_size = 0,
                  th_priority = 0, th_tz_module = n, th_reserved = 0\<rparr>"

record ow_conf =
  ow_success :: "32 word"
  ow_error :: "32 word"
  ow_forever :: "32 word"
  ow_default_stack :: "32 word"
  ow_manage_nsid :: bool
  ow_psa_api_test :: bool

definition ow_timeout :: "ow_conf \<Rightarrow> 32 word \<Rightarrow> 32 word" where
  "ow_timeout cf timeout = (if timeout = ow_forever cf then osWaitForever else timeout)"

text \<open>The pattern of the wrappers: a call, and its status turned into one of two results.\<close>

definition os_checked :: "ow_conf \<Rightarrow> os_env \<Rightarrow> os_call \<Rightarrow> os_trace \<Rightarrow> 32 word \<times> os_trace" where
  "os_checked cf env c tr =
     (let (status, tr) = os env c tr
      in (if status \<noteq> os_status_code osOK then ow_error cf else ow_success cf, tr))"

subsection \<open>Threads\<close>

definition os_wrapper_thread_new ::
  "ow_conf \<Rightarrow> os_env \<Rightarrow> byte list option \<Rightarrow> 32 word \<Rightarrow> 32 word \<Rightarrow> 32 word \<Rightarrow> 32 word \<Rightarrow> os_trace \<Rightarrow>
   (32 word \<times> os_trace) option" where
  "os_wrapper_thread_new cf env name stack_size func arg priority tr =
     do { let attr = zero_attr TFM_DEFAULT_NSID;
          let attr = (if stack_size \<noteq> ow_default_stack cf then attr\<lparr>th_stack_size := stack_size\<rparr> else attr);
          let attr = attr\<lparr>th_name := name, th_priority := priority\<rparr>;
          attr \<leftarrow> (if ow_manage_nsid cf
                  then do { n \<leftarrow> nsid_mgr_get_thread_nsid (ow_psa_api_test cf) name;
                            Some (attr\<lparr>th_tz_module := n\<rparr>) }
                  else Some attr);
          Some (os env (osThreadNew func arg attr) tr) }"

definition os_wrapper_thread_get_handle :: "os_env \<Rightarrow> os_trace \<Rightarrow> 32 word \<times> os_trace" where
  "os_wrapper_thread_get_handle env tr = os env osThreadGetId tr"

text \<open>The priority object is written on success only.\<close>

definition os_wrapper_thread_get_priority ::
  "ow_conf \<Rightarrow> os_env \<Rightarrow> 32 word \<Rightarrow> 32 word \<Rightarrow> os_trace \<Rightarrow> 32 word \<times> 32 word \<times> os_trace" where
  "os_wrapper_thread_get_priority cf env handle priority tr =
     (let (prio, tr) = os env (osThreadGetPriority handle) tr
      in if sint prio = osPriority_code osPriorityError then (ow_error cf, priority, tr) else (ow_success cf, prio, tr))"

definition os_wrapper_thread_exit :: "os_env \<Rightarrow> os_trace \<Rightarrow> os_trace" where
  "os_wrapper_thread_exit env tr = snd (os env osThreadExit tr)"

definition flags_checked :: "ow_conf \<Rightarrow> os_env \<Rightarrow> os_call \<Rightarrow> os_trace \<Rightarrow> 32 word \<times> os_trace" where
  "flags_checked cf env c tr =
     (let (ret, tr) = os env c tr
      in (if and ret osFlagsError \<noteq> 0 then ow_error cf else ow_success cf, tr))"

definition os_wrapper_thread_set_flag :: "ow_conf \<Rightarrow> os_env \<Rightarrow> 32 word \<Rightarrow> 32 word \<Rightarrow> os_trace \<Rightarrow> 32 word \<times> os_trace" where
  "os_wrapper_thread_set_flag cf env handle flags tr = flags_checked cf env (osThreadFlagsSet handle flags) tr"

definition os_wrapper_thread_set_flag_isr :: "ow_conf \<Rightarrow> os_env \<Rightarrow> 32 word \<Rightarrow> 32 word \<Rightarrow> os_trace \<Rightarrow> 32 word \<times> os_trace" where
  "os_wrapper_thread_set_flag_isr cf env handle flags tr = flags_checked cf env (osThreadFlagsSet handle flags) tr"

definition os_wrapper_thread_wait_flag :: "ow_conf \<Rightarrow> os_env \<Rightarrow> 32 word \<Rightarrow> 32 word \<Rightarrow> os_trace \<Rightarrow> 32 word \<times> os_trace" where
  "os_wrapper_thread_wait_flag cf env flags timeout tr =
     flags_checked cf env (osThreadFlagsWait flags osFlagsWaitAll (ow_timeout cf timeout)) tr"

subsection \<open>Semaphores and mutexes\<close>

definition os_wrapper_semaphore_create ::
  "os_env \<Rightarrow> 32 word \<Rightarrow> 32 word \<Rightarrow> byte list option \<Rightarrow> os_trace \<Rightarrow> 32 word \<times> os_trace" where
  "os_wrapper_semaphore_create env max_count initial_count name tr =
     (let sema_attrib = \<lparr>sa_name = None, sa_attr_bits = 0, sa_cb_mem = 0, sa_cb_size = 0\<rparr>;
          sema_attrib = sema_attrib\<lparr>sa_name := name\<rparr>
      in os env (osSemaphoreNew max_count initial_count sema_attrib) tr)"

definition os_wrapper_semaphore_acquire :: "ow_conf \<Rightarrow> os_env \<Rightarrow> 32 word \<Rightarrow> 32 word \<Rightarrow> os_trace \<Rightarrow> 32 word \<times> os_trace" where
  "os_wrapper_semaphore_acquire cf env handle timeout tr =
     os_checked cf env (osSemaphoreAcquire handle (ow_timeout cf timeout)) tr"

definition os_wrapper_semaphore_release :: "ow_conf \<Rightarrow> os_env \<Rightarrow> 32 word \<Rightarrow> os_trace \<Rightarrow> 32 word \<times> os_trace" where
  "os_wrapper_semaphore_release cf env handle tr = os_checked cf env (osSemaphoreRelease handle) tr"

definition os_wrapper_semaphore_delete :: "ow_conf \<Rightarrow> os_env \<Rightarrow> 32 word \<Rightarrow> os_trace \<Rightarrow> 32 word \<times> os_trace" where
  "os_wrapper_semaphore_delete cf env handle tr = os_checked cf env (osSemaphoreDelete handle) tr"

definition os_wrapper_mutex_create :: "os_env \<Rightarrow> os_trace \<Rightarrow> 32 word \<times> os_trace" where
  "os_wrapper_mutex_create env tr =
     os env (osMutexNew (Some \<lparr>mx_name = None, mx_attr_bits = osMutexPrioInherit, mx_cb_mem = 0, mx_cb_size = 0\<rparr>)) tr"

definition os_wrapper_mutex_acquire :: "ow_conf \<Rightarrow> os_env \<Rightarrow> 32 word \<Rightarrow> 32 word \<Rightarrow> os_trace \<Rightarrow> 32 word \<times> os_trace" where
  "os_wrapper_mutex_acquire cf env handle timeout tr =
     (if handle = 0 then (ow_error cf, tr)
      else os_checked cf env (osMutexAcquire handle (ow_timeout cf timeout)) tr)"

definition os_wrapper_mutex_release :: "ow_conf \<Rightarrow> os_env \<Rightarrow> 32 word \<Rightarrow> os_trace \<Rightarrow> 32 word \<times> os_trace" where
  "os_wrapper_mutex_release cf env handle tr =
     (if handle = 0 then (ow_error cf, tr) else os_checked cf env (osMutexRelease handle) tr)"

definition os_wrapper_mutex_delete :: "ow_conf \<Rightarrow> os_env \<Rightarrow> 32 word \<Rightarrow> os_trace \<Rightarrow> 32 word \<times> os_trace" where
  "os_wrapper_mutex_delete cf env handle tr =
     (if handle = 0 then (ow_error cf, tr) else os_checked cf env (osMutexDelete handle) tr)"

subsection \<open>Message queues, delay and ticks\<close>

definition os_wrapper_get_tick :: "os_env \<Rightarrow> os_trace \<Rightarrow> 32 word \<times> os_trace" where
  "os_wrapper_get_tick env tr = os env osKernelGetTickCount tr"

definition os_wrapper_msg_queue_create :: "os_env \<Rightarrow> 32 word \<Rightarrow> 8 word \<Rightarrow> os_trace \<Rightarrow> 32 word \<times> os_trace" where
  "os_wrapper_msg_queue_create env msg_size msg_count tr = os env (osMessageQueueNew msg_count msg_size) tr"

definition os_wrapper_msg_queue_send :: "ow_conf \<Rightarrow> os_env \<Rightarrow> 32 word \<Rightarrow> 32 word \<Rightarrow> os_trace \<Rightarrow> 32 word \<times> os_trace" where
  "os_wrapper_msg_queue_send cf env mq_handle msg_ptr tr =
     os_checked cf env (osMessageQueuePut mq_handle msg_ptr) tr"

definition os_wrapper_msg_queue_receive :: "ow_conf \<Rightarrow> os_env \<Rightarrow> 32 word \<Rightarrow> 32 word \<Rightarrow> os_trace \<Rightarrow> 32 word \<times> os_trace" where
  "os_wrapper_msg_queue_receive cf env mq_handle msg_ptr tr =
     os_checked cf env (osMessageQueueGet mq_handle msg_ptr osWaitForever) tr"

definition os_wrapper_delay :: "ow_conf \<Rightarrow> os_env \<Rightarrow> 32 word \<Rightarrow> os_trace \<Rightarrow> 32 word \<times> os_trace" where
  "os_wrapper_delay cf env ticks tr = os_checked cf env (osDelay ticks) tr"

subsection \<open>Facts\<close>

lemmas ow_defs = os_wrapper_thread_set_flag_def os_wrapper_thread_set_flag_isr_def os_wrapper_thread_wait_flag_def
  os_wrapper_semaphore_create_def os_wrapper_semaphore_acquire_def os_wrapper_semaphore_release_def
  os_wrapper_semaphore_delete_def os_wrapper_mutex_acquire_def os_wrapper_mutex_release_def os_wrapper_mutex_delete_def
  os_wrapper_msg_queue_create_def os_wrapper_msg_queue_send_def os_wrapper_msg_queue_receive_def os_wrapper_delay_def

lemma os_checked_eq:
  "os_checked cf env c tr = (if env tr c = 0 then ow_success cf else ow_error cf, tr @ [(c, env tr c)])"
  by (simp add: os_checked_def)

lemma thread_module:
  assumes "0 \<notin> set name"
  shows "\<exists>n. sint n < 0 \<and>
     os_wrapper_thread_new cf env (Some (name @ 0 # junk)) stack func arg prio tr =
       Some (os env (osThreadNew func arg
         ((zero_attr n)\<lparr>th_name := Some (name @ 0 # junk),
          th_stack_size := (if stack = ow_default_stack cf then 0 else stack),
          th_priority := prio\<rparr>)) tr)"
proof -
  obtain n where n: "nsid_mgr_get_thread_nsid (ow_psa_api_test cf) (Some (name @ 0 # junk)) = Some n" "sint n < 0"
  proof (cases "map_of (map (\<lambda>(t, n). (map of_char t :: byte list, n)) (test_ns_nsid_table (ow_psa_api_test cf))) name")
    case None
    then show thesis
      using that [of "-1"] name_loop_lookup [OF test_names_ok assms, of "ow_psa_api_test cf" junk]
      by (simp add: nsid_mgr_get_thread_nsid_def)
  next
    case (Some n)
    then obtain t where "(t, n) \<in> set (test_ns_nsid_table (ow_psa_api_test cf))"
      by (auto dest!: map_of_SomeD)
    from test_ids [OF this] have "sint n < 0" by simp
    then show thesis
      using that [of n] Some name_loop_lookup [OF test_names_ok assms, of "ow_psa_api_test cf" junk]
      by (simp add: nsid_mgr_get_thread_nsid_def)
  qed
  show ?thesis
    using n
    by (intro exI [of _ "if ow_manage_nsid cf then n else -1"])
       (simp add: os_wrapper_thread_new_def TFM_DEFAULT_NSID_def zero_attr_def Let_def)
qed

end
