(* ===== verification/Mailbox.thy ===== *)
theory Mailbox
  imports Os_Wrapper
begin

section \<open>The non-secure mailbox: its RTOS interface and its statistics\<close>

text \<open>
  \<open>lib/multi_core/tfm_ns_mailbox_rtos_api.c\<close> over the OS wrapper, and
  \<open>lib/multi_core/tfm_ns_mailbox_test.c\<close>. The type of the queue and the status codes are
  declared in a header of TF-M: the codes and \<open>NUM_MAILBOX_QUEUE_SLOT\<close> are in the record
  \<open>mb_conf\<close>, of the queue the three fields that the statistics use are modelled.
\<close>

record mb_conf =
  mb_ow :: ow_conf
  mb_success :: "32 word"
  mb_inval_params :: "32 word"
  mb_generic_error :: "32 word"
  mb_slots :: nat

definition MAILBOX_THREAD_FLAG :: "32 word" where "MAILBOX_THREAD_FLAG = 0x5FCA0000"

subsection \<open>tfm_ns_mailbox_rtos_api.c\<close>

definition tfm_ns_mailbox_os_get_task_handle :: "os_env \<Rightarrow> os_trace \<Rightarrow> 32 word \<times> os_trace" where
  "tfm_ns_mailbox_os_get_task_handle env tr = os_wrapper_thread_get_handle env tr"

definition tfm_ns_mailbox_os_wait_reply :: "mb_conf \<Rightarrow> os_env \<Rightarrow> os_trace \<Rightarrow> os_trace" where
  "tfm_ns_mailbox_os_wait_reply cf env tr =
     snd (os_wrapper_thread_wait_flag (mb_ow cf) env MAILBOX_THREAD_FLAG (ow_forever (mb_ow cf)) tr)"

definition tfm_ns_mailbox_os_wake_task_isr :: "mb_conf \<Rightarrow> os_env \<Rightarrow> 32 word \<Rightarrow> os_trace \<Rightarrow> os_trace" where
  "tfm_ns_mailbox_os_wake_task_isr cf env task_handle tr =
     snd (os_wrapper_thread_set_flag_isr (mb_ow cf) env task_handle MAILBOX_THREAD_FLAG tr)"

definition tfm_ns_mailbox_os_mq_create :: "os_env \<Rightarrow> 32 word \<Rightarrow> 8 word \<Rightarrow> os_trace \<Rightarrow> 32 word \<times> os_trace" where
  "tfm_ns_mailbox_os_mq_create env msg_size msg_count tr = os_wrapper_msg_queue_create env msg_size msg_count tr"

text \<open>\<open>while (1)\<close>: the loop has no value when no attempt ever succeeds.\<close>

partial_function (option) mq_send_loop ::
  "mb_conf \<Rightarrow> os_env \<Rightarrow> 32 word \<Rightarrow> 32 word \<Rightarrow> os_trace \<Rightarrow> (32 word \<times> os_trace) option" where
  "mq_send_loop cf env mq msg tr =
     (let (ret, tr) = os_wrapper_msg_queue_send (mb_ow cf) env mq msg tr
      in if ret = ow_success (mb_ow cf) then Some (mb_success cf, tr) else mq_send_loop cf env mq msg tr)"

definition tfm_ns_mailbox_os_mq_send ::
  "mb_conf \<Rightarrow> os_env \<Rightarrow> 32 word \<Rightarrow> 32 word \<Rightarrow> os_trace \<Rightarrow> (32 word \<times> os_trace) option" where
  "tfm_ns_mailbox_os_mq_send cf env mq_handle msg_ptr tr =
     (if mq_handle = 0 \<or> msg_ptr = 0 then Some (mb_inval_params cf, tr)
      else mq_send_loop cf env mq_handle msg_ptr tr)"

partial_function (option) mq_receive_loop ::
  "mb_conf \<Rightarrow> os_env \<Rightarrow> 32 word \<Rightarrow> 32 word \<Rightarrow> os_trace \<Rightarrow> (32 word \<times> os_trace) option" where
  "mq_receive_loop cf env mq msg tr =
     (let (ret, tr) = os_wrapper_msg_queue_receive (mb_ow cf) env mq msg tr
      in if ret = ow_success (mb_ow cf) then Some (mb_success cf, tr) else mq_receive_loop cf env mq msg tr)"

definition tfm_ns_mailbox_os_mq_receive ::
  "mb_conf \<Rightarrow> os_env \<Rightarrow> 32 word \<Rightarrow> 32 word \<Rightarrow> os_trace \<Rightarrow> (32 word \<times> os_trace) option" where
  "tfm_ns_mailbox_os_mq_receive cf env mq_handle msg_ptr tr =
     (if mq_handle = 0 \<or> msg_ptr = 0 then Some (mb_inval_params cf, tr)
      else mq_receive_loop cf env mq_handle msg_ptr tr)"

text \<open>The lock: \<open>ns_lock_handle\<close> is the static handle.\<close>

definition tfm_ns_mailbox_os_lock_init :: "mb_conf \<Rightarrow> os_env \<Rightarrow> os_trace \<Rightarrow> 32 word \<times> 32 word \<times> os_trace" where
  "tfm_ns_mailbox_os_lock_init cf env tr =
     (let n = of_nat (mb_slots cf);
          (ns_lock_handle, tr) = os_wrapper_semaphore_create env n n None tr
      in if ns_lock_handle = 0 then (mb_generic_error cf, ns_lock_handle, tr)
         else (mb_success cf, ns_lock_handle, tr))"

definition tfm_ns_mailbox_os_lock_acquire :: "mb_conf \<Rightarrow> os_env \<Rightarrow> 32 word \<Rightarrow> os_trace \<Rightarrow> 32 word \<times> os_trace" where
  "tfm_ns_mailbox_os_lock_acquire cf env ns_lock_handle tr =
     os_wrapper_semaphore_acquire (mb_ow cf) env ns_lock_handle (ow_forever (mb_ow cf)) tr"

definition tfm_ns_mailbox_os_lock_release :: "mb_conf \<Rightarrow> os_env \<Rightarrow> 32 word \<Rightarrow> os_trace \<Rightarrow> 32 word \<times> os_trace" where
  "tfm_ns_mailbox_os_lock_release cf env ns_lock_handle tr =
     os_wrapper_semaphore_release (mb_ow cf) env ns_lock_handle tr"

subsection \<open>tfm_ns_mailbox_test.c\<close>

record ns_mailbox_queue_t =
  mq_empty_slots :: "32 word"
  mq_nr_tx :: "32 word"
  mq_nr_used_slots :: "32 word"

text \<open>
  \<open>stats_queue_ptr\<close> is null or the address of a queue; \<open>ms_irq_off\<close> is the interrupt mask
  the spin lock sets.
\<close>

record mb_stats =
  ms_ptr :: "nat option"
  ms_queues :: "nat \<Rightarrow> ns_mailbox_queue_t"
  ms_irq_off :: bool

definition tfm_ns_mailbox_os_spin_lock :: "mb_stats \<Rightarrow> mb_stats" where
  "tfm_ns_mailbox_os_spin_lock s = s\<lparr>ms_irq_off := True\<rparr>"

definition tfm_ns_mailbox_os_spin_unlock :: "mb_stats \<Rightarrow> mb_stats" where
  "tfm_ns_mailbox_os_spin_unlock s = s\<lparr>ms_irq_off := False\<rparr>"

definition zero_stats :: "nat \<Rightarrow> mb_stats \<Rightarrow> mb_stats" where
  "zero_stats q s = s\<lparr>ms_queues := (ms_queues s)(q := (ms_queues s q)\<lparr>mq_nr_tx := 0, mq_nr_used_slots := 0\<rparr>)\<rparr>"

definition tfm_ns_mailbox_tx_stats_init :: "nat option \<Rightarrow> mb_stats \<Rightarrow> mb_stats" where
  "tfm_ns_mailbox_tx_stats_init ns_queue s =
     (case ns_queue of None \<Rightarrow> s | Some q \<Rightarrow> (zero_stats q s)\<lparr>ms_ptr := Some q\<rparr>)"

definition tfm_ns_mailbox_tx_stats_reinit :: "mb_conf \<Rightarrow> mb_stats \<Rightarrow> 32 word \<times> mb_stats" where
  "tfm_ns_mailbox_tx_stats_reinit cf s =
     (case ms_ptr s of None \<Rightarrow> (mb_inval_params cf, s) | Some q \<Rightarrow> (mb_success cf, zero_stats q s))"

definition count_empty :: "mb_conf \<Rightarrow> 32 word \<Rightarrow> 8 word" where
  "count_empty cf empty_status =
     (if empty_status \<noteq> 0
      then foldl (\<lambda>n idx. if and empty_status (push_bit idx 1) \<noteq> 0 then n + 1 else n) 0 [0..<mb_slots cf]
      else 0)"

definition tfm_ns_mailbox_tx_stats_update :: "mb_conf \<Rightarrow> mb_stats \<Rightarrow> mb_stats" where
  "tfm_ns_mailbox_tx_stats_update cf s =
     (case ms_ptr s of
        None \<Rightarrow> s
      | Some q \<Rightarrow>
          let s = tfm_ns_mailbox_os_spin_lock s;
              empty_status = mq_empty_slots (ms_queues s q);
              s = tfm_ns_mailbox_os_spin_unlock s;
              nr_empty = count_empty cf empty_status;
              s = tfm_ns_mailbox_os_spin_lock s;
              qu = ms_queues s q;
              s = s\<lparr>ms_queues := (ms_queues s)
                    (q := qu\<lparr>mq_nr_used_slots := mq_nr_used_slots qu + (of_nat (mb_slots cf) - ucast nr_empty),
                             mq_nr_tx := mq_nr_tx qu + 1\<rparr>)\<rparr>
          in tfm_ns_mailbox_os_spin_unlock s)"

record ns_mailbox_stats_res_t =
  sr_avg_nr_slots :: "8 word"
  sr_avg_nr_slots_tenths :: "8 word"

text \<open>A division by zero has no value; the result object is \<open>None\<close> for a null pointer.\<close>

definition tfm_ns_mailbox_stats_avg_slot ::
  "mb_stats \<Rightarrow> ns_mailbox_stats_res_t option \<Rightarrow> ns_mailbox_stats_res_t option option" where
  "tfm_ns_mailbox_stats_avg_slot s stats_res =
     (case (ms_ptr s, stats_res) of
        (Some q, Some res) \<Rightarrow>
          let nr_used_slots = mq_nr_used_slots (ms_queues s q); nr_tx = mq_nr_tx (ms_queues s q)
          in do { assert_ub (nr_tx \<noteq> 0);
                  Some (Some \<lparr>sr_avg_nr_slots = ucast (nr_used_slots div nr_tx),
                              sr_avg_nr_slots_tenths = ucast ((nr_used_slots mod nr_tx) * 10 div nr_tx)\<rparr>) }
      | _ \<Rightarrow> Some stats_res)"

subsection \<open>The retry loops\<close>

text \<open>The history after \<open>k\<close> failed attempts of a call.\<close>

fun after_attempts :: "os_env \<Rightarrow> os_call \<Rightarrow> nat \<Rightarrow> os_trace \<Rightarrow> os_trace" where
  "after_attempts env c 0 tr = tr"
| "after_attempts env c (Suc k) tr = after_attempts env c k (tr @ [(c, env tr c)])"

definition attempt_ok :: "os_env \<Rightarrow> os_call \<Rightarrow> os_trace \<Rightarrow> nat \<Rightarrow> bool" where
  "attempt_ok env c tr k \<longleftrightarrow> (let tr' = after_attempts env c k tr in env tr' c = 0)"

lemma attempt_ok_Suc: "attempt_ok env c tr (Suc k) \<longleftrightarrow> attempt_ok env c (tr @ [(c, env tr c)]) k"
  by (simp add: attempt_ok_def)

definition codes_differ :: "mb_conf \<Rightarrow> bool" where
  "codes_differ cf \<longleftrightarrow> ow_success (mb_ow cf) \<noteq> ow_error (mb_ow cf)"

lemma send_loop_step:
  assumes "codes_differ cf"
  shows "mq_send_loop cf env mq msg tr =
     (if attempt_ok env (osMessageQueuePut mq msg) tr 0
      then Some (mb_success cf, tr @ [(osMessageQueuePut mq msg, 0)])
      else mq_send_loop cf env mq msg (tr @ [(osMessageQueuePut mq msg, env tr (osMessageQueuePut mq msg))]))"
  using assms
  by (subst mq_send_loop.simps)
     (simp add: os_wrapper_msg_queue_send_def os_checked_eq attempt_ok_def codes_differ_def)

lemma send_loop_returns:
  assumes "codes_differ cf" "attempt_ok env (osMessageQueuePut mq msg) tr k"
  shows "\<exists>tr'. mq_send_loop cf env mq msg tr = Some (mb_success cf, tr')"
  using assms(2)
proof (induction k arbitrary: tr)
  case 0
  then show ?case by (simp add: send_loop_step [OF assms(1), of env mq msg tr])
next
  case (Suc k)
  then show ?case
    by (subst send_loop_step [OF assms(1)]) (simp add: attempt_ok_Suc)
qed

lemma send_loop_result:
  assumes "codes_differ cf" "mq_send_loop cf env mq msg tr = Some r"
  shows "\<exists>k. attempt_ok env (osMessageQueuePut mq msg) tr k"
proof -
  have "codes_differ cf \<longrightarrow> (\<exists>k. attempt_ok env (osMessageQueuePut mq msg) tr k)"
  proof (rule mq_send_loop.raw_induct
      [where P = "\<lambda>c e q m t r. codes_differ c \<longrightarrow> (\<exists>k. attempt_ok e (osMessageQueuePut q m) t k)", OF _ assms(2)],
      goal_cases)
    case (1 rec c e q m t r)
    show ?case
    proof (intro impI)
      assume d: "codes_differ c"
      show "\<exists>k. attempt_ok e (osMessageQueuePut q m) t k"
      proof (cases "attempt_ok e (osMessageQueuePut q m) t 0")
        case False
        then have "rec c e q m (t @ [(osMessageQueuePut q m, e t (osMessageQueuePut q m))]) = Some r"
          using 1(2) d by (simp add: os_wrapper_msg_queue_send_def os_checked_eq attempt_ok_def codes_differ_def split: if_splits)
        from 1(1) [OF this] d obtain k
          where "attempt_ok e (osMessageQueuePut q m) (t @ [(osMessageQueuePut q m, e t (osMessageQueuePut q m))]) k" by blast
        then have "attempt_ok e (osMessageQueuePut q m) t (Suc k)" by (simp add: attempt_ok_Suc)
        then show ?thesis by blast
      qed blast
    qed
  qed
  then show ?thesis using assms by blast
qed

lemma receive_loop_step:
  assumes "codes_differ cf"
  shows "mq_receive_loop cf env mq msg tr =
     (if attempt_ok env (osMessageQueueGet mq msg osWaitForever) tr 0
      then Some (mb_success cf, tr @ [(osMessageQueueGet mq msg osWaitForever, 0)])
      else mq_receive_loop cf env mq msg
             (tr @ [(osMessageQueueGet mq msg osWaitForever, env tr (osMessageQueueGet mq msg osWaitForever))]))"
  using assms
  by (subst mq_receive_loop.simps)
     (simp add: os_wrapper_msg_queue_receive_def os_checked_eq attempt_ok_def codes_differ_def)

lemma receive_loop_returns:
  assumes "codes_differ cf" "attempt_ok env (osMessageQueueGet mq msg osWaitForever) tr k"
  shows "\<exists>tr'. mq_receive_loop cf env mq msg tr = Some (mb_success cf, tr')"
  using assms(2)
proof (induction k arbitrary: tr)
  case 0
  then show ?case by (simp add: receive_loop_step [OF assms(1), of env mq msg tr])
next
  case (Suc k)
  then show ?case
    by (subst receive_loop_step [OF assms(1)]) (simp add: attempt_ok_Suc)
qed

lemma receive_loop_result:
  assumes "codes_differ cf" "mq_receive_loop cf env mq msg tr = Some r"
  shows "\<exists>k. attempt_ok env (osMessageQueueGet mq msg osWaitForever) tr k"
proof -
  have "codes_differ cf \<longrightarrow> (\<exists>k. attempt_ok env (osMessageQueueGet mq msg osWaitForever) tr k)"
  proof (rule mq_receive_loop.raw_induct
      [where P = "\<lambda>c e q m t r. codes_differ c \<longrightarrow> (\<exists>k. attempt_ok e (osMessageQueueGet q m osWaitForever) t k)", OF _ assms(2)],
      goal_cases)
    case (1 rec c e q m t r)
    let ?c = "osMessageQueueGet q m osWaitForever"
    show ?case
    proof (intro impI)
      assume d: "codes_differ c"
      show "\<exists>k. attempt_ok e ?c t k"
      proof (cases "attempt_ok e ?c t 0")
        case False
        then have "rec c e q m (t @ [(?c, e t ?c)]) = Some r"
          using 1(2) d by (simp add: os_wrapper_msg_queue_receive_def os_checked_eq attempt_ok_def codes_differ_def split: if_splits)
        from 1(1) [OF this] d obtain k where "attempt_ok e ?c (t @ [(?c, e t ?c)]) k" by blast
        then have "attempt_ok e ?c t (Suc k)" by (simp add: attempt_ok_Suc)
        then show ?thesis by blast
      qed blast
    qed
  qed
  then show ?thesis using assms by blast
qed

subsection \<open>The statistics\<close>

definition empty_count :: "nat \<Rightarrow> 32 word \<Rightarrow> nat" where
  "empty_count n w = card {i. i < n \<and> bit w i}"

lemma empty_count_Suc: "empty_count (Suc n) w = empty_count n w + (if bit w n then 1 else 0)"
proof -
  have "{i. i < Suc n \<and> bit w i} = (if bit w n then insert n {i. i < n \<and> bit w i} else {i. i < n \<and> bit w i})"
    by (auto simp: less_Suc_eq)
  then show ?thesis by (simp add: empty_count_def)
qed

lemma empty_count_le: "empty_count n w \<le> n"
proof (induction n)
  case 0
  show ?case by (simp add: empty_count_def)
qed (simp add: empty_count_Suc)

lemma count_empty_card:
  assumes "mb_slots cf \<le> 32"
  shows "unat (count_empty cf w) = empty_count (mb_slots cf) w"
proof (cases "w = 0")
  case True
  then show ?thesis by (simp add: count_empty_def empty_count_def)
next
  case False
  have "k \<le> 32 \<Longrightarrow> unat (foldl (\<lambda>n idx. if and w (push_bit idx 1) \<noteq> 0 then n + 1 else n) (0 :: 8 word) [0..<k]) = empty_count k w" for k
  proof (induction k)
    case 0
    show ?case by (simp add: empty_count_def)
  next
    case (Suc k)
    have "empty_count k w \<le> 32" using empty_count_le [of k w] Suc.prems by simp
    with Suc show ?case
      by (simp add: empty_count_Suc unat_word_ariths bit_iff_and_push_bit_not_eq_0)
  qed
  from this [OF assms] False show ?thesis by (simp add: count_empty_def)
qed

text \<open>\<open>n\<close> transmissions, with the free slots each of them found.\<close>

fun tx_run :: "mb_conf \<Rightarrow> 32 word list \<Rightarrow> nat \<Rightarrow> mb_stats \<Rightarrow> mb_stats" where
  "tx_run cf [] q s = s"
| "tx_run cf (w # ws) q s =
     tx_run cf ws q (tfm_ns_mailbox_tx_stats_update cf
       (s\<lparr>ms_queues := (ms_queues s)(q := (ms_queues s q)\<lparr>mq_empty_slots := w\<rparr>)\<rparr>))"

definition used_slots :: "mb_conf \<Rightarrow> 32 word list \<Rightarrow> nat" where
  "used_slots cf ws = sum_list (map (\<lambda>w. mb_slots cf - empty_count (mb_slots cf) w) ws)"

lemma update_stats:
  assumes "ms_ptr s = Some q" "mb_slots cf \<le> 32"
  shows "tfm_ns_mailbox_tx_stats_update cf s =
     s\<lparr>ms_queues := (ms_queues s)(q := (ms_queues s q)\<lparr>
         mq_nr_used_slots := mq_nr_used_slots (ms_queues s q) +
           of_nat (mb_slots cf - empty_count (mb_slots cf) (mq_empty_slots (ms_queues s q))),
         mq_nr_tx := mq_nr_tx (ms_queues s q) + 1\<rparr>), ms_irq_off := False\<rparr>"
proof -
  have "(ucast (count_empty cf w) :: 32 word) = of_nat (empty_count (mb_slots cf) w)" for w
    by (simp only: count_empty_card [OF assms(2), symmetric] of_nat_unat)
  moreover have "(of_nat (mb_slots cf) - of_nat (empty_count (mb_slots cf) w) :: 32 word) =
      of_nat (mb_slots cf - empty_count (mb_slots cf) w)" for w
    using empty_count_le by (simp add: of_nat_diff)
  ultimately show ?thesis
    using assms(1)
    by (simp add: tfm_ns_mailbox_tx_stats_update_def tfm_ns_mailbox_os_spin_lock_def
        tfm_ns_mailbox_os_spin_unlock_def Let_def)
qed

lemma tx_run_counts:
  assumes "mb_slots cf \<le> 32"
  shows "ms_ptr s = Some q \<Longrightarrow>
     ms_ptr (tx_run cf ws q s) = Some q \<and>
     mq_nr_tx (ms_queues (tx_run cf ws q s) q) = mq_nr_tx (ms_queues s q) + of_nat (length ws) \<and>
     mq_nr_used_slots (ms_queues (tx_run cf ws q s) q) = mq_nr_used_slots (ms_queues s q) + of_nat (used_slots cf ws)"
proof (induction ws arbitrary: s)
  case (Cons w ws)
  let ?s = "s\<lparr>ms_queues := (ms_queues s)(q := (ms_queues s q)\<lparr>mq_empty_slots := w\<rparr>)\<rparr>"
  have "ms_ptr ?s = Some q" using Cons.prems by simp
  note upd = update_stats [OF this assms]
  have "ms_ptr (tfm_ns_mailbox_tx_stats_update cf ?s) = Some q" using upd Cons.prems by simp
  from Cons.IH [OF this] show ?case by (simp add: upd used_slots_def)
qed (simp add: used_slots_def)

lemma used_slots_bound: "used_slots cf ws \<le> length ws * mb_slots cf"
  by (induction ws) (simp_all add: used_slots_def add_mono)

text \<open>Average and tenths are the two parts of ten times the average, rounded down.\<close>

lemma tenths: "0 < (n :: nat) \<Longrightarrow> 10 * u div n = 10 * (u div n) + (u mod n) * 10 div n"
proof -
  assume n: "0 < n"
  have "10 * u = (u mod n) * 10 + n * (10 * (u div n))"
    using mult_div_mod_eq [of n u] by (metis add.commute add_mult_distrib2 mult.commute mult.left_commute)
  then show ?thesis using n by simp
qed

text \<open>The same divisions on 32-bit words, when the counts are small enough.\<close>

lemma word_nat_small: "k < 2 ^ 32 \<Longrightarrow> unat (of_nat k :: 32 word) = k"
  using unat_of_nat [of k, where ?'a = 32] by simp

lemma word_div_small:
  assumes "k < 2 ^ 32" "n < 2 ^ 32" shows "(of_nat k div of_nat n :: 32 word) = of_nat (k div n)"
proof -
  have "k div n < 2 ^ 32" using assms(1) div_le_dividend [of k n] by linarith
  then show ?thesis
    by (simp only: word_unat_eq_iff unat_div_distrib word_nat_small assms)
qed

lemma word_mod_small:
  assumes "k < 2 ^ 32" "n < 2 ^ 32" shows "(of_nat k mod of_nat n :: 32 word) = of_nat (k mod n)"
proof -
  have "k mod n < 2 ^ 32" using assms(1) mod_less_eq_dividend [of k n] by linarith
  then show ?thesis
    by (simp only: word_unat_eq_iff unat_mod_distrib word_nat_small assms)
qed

lemma word_tenths:
  assumes "0 < n" "n < 2 ^ 26" "u \<le> n * 32"
  shows "(of_nat u mod of_nat n) * 10 div of_nat n = (of_nat (u mod n * 10 div n) :: 32 word)"
proof -
  have pow: "(2::nat) ^ 26 = 67108864" "(2::nat) ^ 32 = 4294967296" by simp_all
  have "u mod n < n" using assms(1) by simp
  then have s: "u mod n * 10 < 2 ^ 32" "u < 2 ^ 32" "n < 2 ^ 32" using assms pow by - linarith+
  have "(of_nat u mod of_nat n) * 10 = (of_nat (u mod n * 10) :: 32 word)"
    by (simp add: word_mod_small [OF s(2,3)])
  then show ?thesis using word_div_small [OF s(1,3)] by (simp only:)
qed

lemma word_to_byte: "ucast (of_nat k :: 32 word) = (of_nat k :: 8 word)"
  by (rule bit_word_eqI) (auto simp: bit_simps)

end
