(* ===== verification/Boot.thy ===== *)
theory Boot
  imports Mailbox
begin

section \<open>Start-up of the non-secure side\<close>

text \<open>
  \<open>app_broker/main_ns.c\<close>: \<open>main\<close> initialises the platform, the RTOS and the interface to
  the secure side, creates the thread of the tests and starts the kernel. The platform,
  the RTOS kernel and the interface are a parameter that answers each call from the
  history of calls; log messages are left out. \<open>main\<close> never returns: the result is the
  history and the loop it ends in. The two weak hooks are arguments of \<open>main\<close>, because a
  platform may override them; their bodies in this file are defined here too.
\<close>

datatype boot_call =
  stdio_init
| stdio_uninit
| Cp_access
| osKernelInitialize
| tfm_ns_wait_for_s_cpu_ready
| tfm_ns_mailbox_init
| tfm_ns_interface_init
| New_thread string "32 word" "32 word option"
| osKernelStart

type_synonym boot_trace = "(boot_call \<times> 32 word) list"
type_synonym boot_env = "boot_trace \<Rightarrow> boot_call \<Rightarrow> 32 word"

record boot_conf =
  bc_mailbox :: bool
  bc_mailbox_thread :: bool
  bc_float_abi :: int
  bc_gnuc :: bool
  bc_mailbox_success :: "32 word"

datatype boot_end =
  Platform_init_failed | Cp_init_failed | Core_sync_failed | Mailbox_init_failed | Kernel_returned

definition ARM_DRIVER_OK :: "32 word" where "ARM_DRIVER_OK = 0"

definition boot_do :: "boot_env \<Rightarrow> boot_call \<Rightarrow> boot_trace \<Rightarrow> 32 word \<times> boot_trace" where
  "boot_do env c tr = (env tr c, tr @ [(c, env tr c)])"

subsection \<open>The weak hooks\<close>

definition tfm_ns_platform_init :: "boot_env \<Rightarrow> boot_trace \<Rightarrow> 32 word \<times> boot_trace" where
  "tfm_ns_platform_init env tr = (ARM_DRIVER_OK, snd (boot_do env stdio_init tr))"

definition tfm_ns_platform_uninit :: "boot_env \<Rightarrow> boot_trace \<Rightarrow> 32 word \<times> boot_trace" where
  "tfm_ns_platform_uninit env tr = (ARM_DRIVER_OK, snd (boot_do env stdio_uninit tr))"

text \<open>The floating point extension is opened with a hard float ABI under GCC.\<close>

definition fp_access :: "boot_conf \<Rightarrow> bool" where
  "fp_access cf \<longleftrightarrow> bc_float_abi cf \<ge> 1 \<and> bc_gnuc cf"

definition tfm_ns_cp_init :: "boot_conf \<Rightarrow> boot_env \<Rightarrow> boot_trace \<Rightarrow> 32 word \<times> boot_trace" where
  "tfm_ns_cp_init cf env tr =
     (ARM_DRIVER_OK, if fp_access cf then snd (boot_do env Cp_access tr) else tr)"

subsection \<open>main\<close>

text \<open>The two loops of \<open>tfm_ns_multi_core_boot\<close> that never end are the left values.\<close>

definition tfm_ns_multi_core_boot :: "boot_conf \<Rightarrow> boot_env \<Rightarrow> boot_trace \<Rightarrow> boot_end option \<times> boot_trace" where
  "tfm_ns_multi_core_boot cf env tr =
     (let (r, tr) = boot_do env tfm_ns_wait_for_s_cpu_ready tr
      in if r \<noteq> 0 then (Some Core_sync_failed, tr)
      else let (ret, tr) = boot_do env tfm_ns_mailbox_init tr
      in if ret \<noteq> bc_mailbox_success cf then (Some Mailbox_init_failed, tr) else (None, tr))"

definition tinyml_thread :: boot_call where
  "tinyml_thread = New_thread ''tinyml_thread'' 4096 (Some TFM_DEFAULT_NSID)"

definition mailbox_thread :: boot_call where
  "mailbox_thread = New_thread ''mailbox_thread'' 1024 None"

definition main_tail :: "boot_conf \<Rightarrow> boot_env \<Rightarrow> boot_trace \<Rightarrow> boot_end \<times> boot_trace" where
  "main_tail cf env tr =
     (let tr = (if bc_mailbox_thread cf then snd (boot_do env mailbox_thread tr) else tr);
          tr = snd (boot_do env tinyml_thread tr);
          tr = snd (boot_do env osKernelStart tr)
      in (Kernel_returned, tr))"

definition ns_main ::
  "boot_conf \<Rightarrow> (boot_env \<Rightarrow> boot_trace \<Rightarrow> 32 word \<times> boot_trace) \<Rightarrow>
   (boot_conf \<Rightarrow> boot_env \<Rightarrow> boot_trace \<Rightarrow> 32 word \<times> boot_trace) \<Rightarrow> boot_env \<Rightarrow> boot_end \<times> boot_trace" where
  "ns_main cf platform_init cp_init env =
     (let (r, tr) = platform_init env []
      in if r \<noteq> ARM_DRIVER_OK then (Platform_init_failed, tr)
      else let (r, tr) = cp_init cf env tr
      in if r \<noteq> ARM_DRIVER_OK then (Cp_init_failed, tr)
      else let tr = snd (boot_do env osKernelInitialize tr)
      in if bc_mailbox cf
         then (let (halt, tr) = tfm_ns_multi_core_boot cf env tr
               in case halt of Some e \<Rightarrow> (e, tr) | None \<Rightarrow> main_tail cf env tr)
         else let tr = snd (boot_do env tfm_ns_interface_init tr)
              in main_tail cf env tr)"

subsection \<open>What the kernel is started with\<close>

lemma boot_do_eq [simp]: "boot_do env c tr = (env tr c, tr @ [(c, env tr c)])"
  by (simp add: boot_do_def)

text \<open>With the hooks of this file the whole history of \<open>main\<close> is determined.\<close>

definition boot_prefix :: "boot_conf \<Rightarrow> boot_call list" where
  "boot_prefix cf = stdio_init # (if fp_access cf then [Cp_access] else []) @ [osKernelInitialize]"

definition boot_suffix :: "boot_conf \<Rightarrow> boot_call list" where
  "boot_suffix cf = (if bc_mailbox_thread cf then [mailbox_thread] else []) @ [tinyml_thread, osKernelStart]"

lemma main_tail_calls: "fst (main_tail cf env tr) = Kernel_returned"
  "map fst (snd (main_tail cf env tr)) = map fst tr @ boot_suffix cf"
  by (simp_all add: main_tail_def boot_suffix_def Let_def)

lemma main_tail_extends: "\<exists>more. snd (main_tail cf env tr) = tr @ more"
  by (simp add: main_tail_def Let_def)

lemma main_single_core:
  assumes "\<not> bc_mailbox cf"
  shows "fst (ns_main cf tfm_ns_platform_init tfm_ns_cp_init env) = Kernel_returned \<and>
     map fst (snd (ns_main cf tfm_ns_platform_init tfm_ns_cp_init env)) =
       boot_prefix cf @ [tfm_ns_interface_init] @ boot_suffix cf"
  using assms
  by (simp add: ns_main_def tfm_ns_platform_init_def tfm_ns_cp_init_def main_tail_calls boot_prefix_def Let_def)

lemma main_multi_core:
  assumes "bc_mailbox cf"
  shows "\<exists>rest. map fst (snd (ns_main cf tfm_ns_platform_init tfm_ns_cp_init env)) =
       boot_prefix cf @ [tfm_ns_wait_for_s_cpu_ready] @ rest \<and>
     (case fst (ns_main cf tfm_ns_platform_init tfm_ns_cp_init env) of
        Core_sync_failed \<Rightarrow> rest = []
      | Mailbox_init_failed \<Rightarrow> rest = [tfm_ns_mailbox_init]
      | Kernel_returned \<Rightarrow> rest = tfm_ns_mailbox_init # boot_suffix cf
      | _ \<Rightarrow> False)"
  using assms
  by (cases "fp_access cf")
     (simp_all add: ns_main_def tfm_ns_platform_init_def tfm_ns_cp_init_def tfm_ns_multi_core_boot_def
      main_tail_calls boot_prefix_def Let_def)

text \<open>The kernel is started only after a successful synchronisation and mailbox initialisation.\<close>

lemma started_only_if_ready:
  assumes "bc_mailbox cf"
    and "(osKernelStart, r) \<in> set (snd (ns_main cf tfm_ns_platform_init tfm_ns_cp_init env))"
  shows "(tfm_ns_wait_for_s_cpu_ready, 0) \<in> set (snd (ns_main cf tfm_ns_platform_init tfm_ns_cp_init env)) \<and>
     (tfm_ns_mailbox_init, bc_mailbox_success cf) \<in> set (snd (ns_main cf tfm_ns_platform_init tfm_ns_cp_init env))"
  using assms
  by (auto simp: ns_main_def tfm_ns_platform_init_def tfm_ns_cp_init_def tfm_ns_multi_core_boot_def
      main_tail_def Let_def split: if_splits)

end
