(* ===== verification/Platform_Properties.thy ===== *)
theory Platform_Properties
  imports Tz_Shim Log_Raw Mailbox Boot
begin

section \<open>Properties of the non-secure platform code\<close>

text \<open>
  The theorems about the client identities (\<open>nsid_manager\<close>, the thread context shim, the OS
  wrapper), the log, the mailbox and the start-up code. The witnesses use the invalid
  token 0 and a secure side that hands out consecutive tokens.
\<close>

subsection \<open>Client identities\<close>

text \<open>A configuration for the witnesses.\<close>

definition demo_mb :: mb_conf where
  "demo_mb = \<lparr>mb_ow = \<lparr>ow_success = 0, ow_error = 0xFFFFFFFF, ow_forever = 0xFFFFFFFF,
     ow_default_stack = 0xFFFFFFFF, ow_manage_nsid = True, ow_psa_api_test = False\<rparr>, mb_success = 0, mb_inval_params = 1,
     mb_generic_error = 2, mb_slots = 4\<rparr>"

text \<open>C29: the token table is a finite map from tokens to negative identities, of at most ten entries: a
  query is a lookup with 0 for an unknown token; a removal deletes the token and succeeds exactly
  when it was there; an addition of a fresh token updates the map or, with the first error that
  applies (identity not negative, invalid token, ten tokens mapped), changes nothing.\<close>

theorem nsid_table_is_a_map:
  assumes "table_ok itok tab" "token_map itok tab token = None"
  shows "nsid_mgr_query_nsid itok t tab = (case token_map itok tab t of None \<Rightarrow> 0 | Some n \<Rightarrow> n) \<and>
    (let (e, tab') = nsid_mgr_remove_entry itok t tab
     in table_ok itok tab' \<and> token_map itok tab' = (token_map itok tab)(t := None) \<and>
        (e = NSID_MGR_ERR_SUCCESS \<longleftrightarrow> token_map itok tab t \<noteq> None)) \<and>
    (let (e, tab') = nsid_mgr_add_entry itok nsid token tab
     in e = (if 0 \<le> sint nsid then NSID_MGR_ERR_INVALID_NSID else if token = itok then NSID_MGR_ERR_INVALID_TOKEN
             else if card (dom (token_map itok tab)) = THREAD_NUM_MAX then NSID_MGR_ERR_NO_FREE_ENTRY
             else NSID_MGR_ERR_SUCCESS) \<and>
        (if e = NSID_MGR_ERR_SUCCESS
         then table_ok itok tab' \<and> token_map itok tab' = (token_map itok tab)(token \<mapsto> nsid) else tab' = tab))"
proof (intro conjI)
  show "nsid_mgr_query_nsid itok t tab = (case token_map itok tab t of None \<Rightarrow> 0 | Some n \<Rightarrow> n)"
    by (rule nsids.query_view [OF assms(1)])
  obtain e tab' where rem: "nsid_mgr_remove_entry itok t tab = (e, tab')" by fastforce
  from nsids.remove_view [OF assms(1) rem] rem
  show "let (e, tab') = nsid_mgr_remove_entry itok t tab
     in table_ok itok tab' \<and> token_map itok tab' = (token_map itok tab)(t := None) \<and>
        (e = NSID_MGR_ERR_SUCCESS \<longleftrightarrow> token_map itok tab t \<noteq> None)" by simp
  obtain e tab' where add: "nsid_mgr_add_entry itok nsid token tab = (e, tab')" by fastforce
  have "e = (if 0 \<le> sint nsid then NSID_MGR_ERR_INVALID_NSID else if token = itok then NSID_MGR_ERR_INVALID_TOKEN
             else if card (dom (token_map itok tab)) = THREAD_NUM_MAX then NSID_MGR_ERR_NO_FREE_ENTRY
             else NSID_MGR_ERR_SUCCESS)"
    using add_full [OF assms(1), of nsid token] add
    by (cases "0 \<le> sint nsid \<or> token = itok") (auto simp: nsid_mgr_add_entry_def TFM_INVALID_NSID_MIN_def)
  then show "let (e, tab') = nsid_mgr_add_entry itok nsid token tab
     in e = (if 0 \<le> sint nsid then NSID_MGR_ERR_INVALID_NSID else if token = itok then NSID_MGR_ERR_INVALID_TOKEN
             else if card (dom (token_map itok tab)) = THREAD_NUM_MAX then NSID_MGR_ERR_NO_FREE_ENTRY
             else NSID_MGR_ERR_SUCCESS) \<and>
        (if e = NSID_MGR_ERR_SUCCESS
         then table_ok itok tab' \<and> token_map itok tab' = (token_map itok tab)(token \<mapsto> nsid) else tab' = tab)"
    using nsids.add_view [OF assms, of nsid tab'] nsids.add_error [OF add] add by auto
qed

lemma empty_table: "table_ok 0 (replicate THREAD_NUM_MAX (no_pair 0))" "token_map 0 (replicate THREAD_NUM_MAX (no_pair 0)) = Map.empty"
  using init_ok [of "replicate THREAD_NUM_MAX (no_pair 0)" 0] init_empty [of "replicate THREAD_NUM_MAX (no_pair 0)" 0]
  by (simp_all add: init_table)

theorem nsid_table_witness:
  "\<exists>tab'. nsid_mgr_add_entry 0 (-3) 42 (replicate THREAD_NUM_MAX (no_pair 0)) = (NSID_MGR_ERR_SUCCESS, tab') \<and>
     token_map 0 tab' = [42 \<mapsto> -3]"
proof -
  have n: "token_map 0 (replicate THREAD_NUM_MAX (no_pair 0)) 42 = None" by (simp add: empty_table)
  have "sint (-3 :: 32 word) = -3" by simp
  moreover have "card (dom (token_map 0 (replicate THREAD_NUM_MAX (no_pair 0)))) \<noteq> THREAD_NUM_MAX"
    by (simp only: empty_table) (simp add: THREAD_NUM_MAX_def)
  ultimately show ?thesis
    using nsid_table_is_a_map [OF empty_table(1) n, of 0 "-3"] by (auto simp: empty_table split: prod.splits)
qed

text \<open>C30: a thread created through the wrapper, whatever its name, is created by the RTOS with exactly the
  given function, argument, stack and priority and with a negative identity, that is, one the token
  table accepts.\<close>

theorem new_thread_has_an_identity:
  assumes "0 \<notin> set name"
  shows "\<exists>n. sint n < 0 \<and>
     os_wrapper_thread_new cf env (Some (name @ 0 # junk)) stack func arg prio tr =
       Some (os env (osThreadNew func arg
         ((zero_attr n)\<lparr>th_name := Some (name @ 0 # junk),
          th_stack_size := (if stack = ow_default_stack cf then 0 else stack),
          th_priority := prio\<rparr>)) tr)"
  using assms by (rule thread_module)

theorem new_thread_witness:
  "\<exists>n th. sint n < 0 \<and> os_wrapper_thread_new (mb_ow demo_mb) (\<lambda>tr c. 1) (Some [84, 49, 0, 7]) 512 10 20 3 [] =
     Some (os (\<lambda>tr c. 1) (osThreadNew 10 20 th) []) \<and> th_tz_module th = n"
  using new_thread_has_an_identity [of "[84, 49]" "mb_ow demo_mb" "\<lambda>tr c. 1" "[7]" 512 10 20 3 "[]"] by (force simp: zero_attr_def)

text \<open>C31: from a successful initialisation, whatever the RTOS asks for and in whatever order, the shim
  never loads or releases the invalid token on the secure side, never loads a context with an
  identity that is not negative, and the table stays well formed, provided an acquired token is not
  one still in use.\<close>

theorem shim_calls_are_valid:
  assumes "tz_manage cf" "TZ_InitContextSystem_S cf sec tz_start = (1, s)" "fresh_run cf sec ops s"
  shows "table_ok (tz_invalid cf) (tz_table (tz_ops cf sec ops s)) \<and>
    (\<forall>e \<in> set (tz_calls (tz_ops cf sec ops s)). call_ok cf (fst e))"
proof -
  have "tz_inv cf s"
    using tz_init_inv [of tz_start cf sec s] assms(1,2) by (simp add: tz_start_def)
  from tz_ops_inv [OF this assms(3)] show ?thesis by (simp add: tz_inv_def)
qed

text \<open>A secure side that succeeds and hands out tokens by the length of the history.\<close>

definition demo_cf :: tz_conf where
  "demo_cf = \<lparr>tz_manage = True, tz_test = False, tz_invalid = 0, tz_success = 0\<rparr>"

definition demo_sec :: nsce_env where
  "demo_sec tr c =
     (case c of Nsce_init v \<Rightarrow> 1 | Nsce_acquire g i \<Rightarrow> of_nat (length tr) | _ \<Rightarrow> 0)"

definition demo_tz :: "nsid_table \<Rightarrow> 8 word \<Rightarrow> nsce_trace \<Rightarrow> tz_state" where
  "demo_tz tab i calls = \<lparr>tz_table = tab @ replicate 9 (no_pair 0), tz_thread_id = i, tz_active = 0,
     tz_calls = (Nsce_init 0, 1) # calls\<rparr>"

abbreviation demo_tz0 :: tz_state where "demo_tz0 \<equiv> demo_tz [no_pair 0] 1 []"

abbreviation demo_tz1 :: tz_state where
  "demo_tz1 \<equiv> demo_tz [\<lparr>np_token = 1, np_nsid = -4\<rparr>] 2 [(Nsce_acquire 0 1, 1)]"

abbreviation demo_tz2 :: tz_state where
  "demo_tz2 \<equiv> demo_tz [\<lparr>np_token = 1, np_nsid = -4\<rparr>] 2 [(Nsce_acquire 0 1, 1), (Nsce_load 1 (-4), 0)]"

lemma demo_tz_init: "TZ_InitContextSystem_S demo_cf demo_sec tz_start = (1, demo_tz0)"
proof -
  have "replicate THREAD_NUM_MAX (no_pair 0) = no_pair 0 # replicate 9 (no_pair 0)"
    by (simp add: THREAD_NUM_MAX_def numeral_eq_Suc)
  then show ?thesis by (simp add: tz_defs demo_cf_def demo_sec_def tz_start_def init_table demo_tz_def)
qed

lemma no_pair_token: "np_token (no_pair i) = i"
  by (simp add: no_pair_def)

lemma demo_tz_steps:
  "TZ_AllocModuleContext_S demo_cf demo_sec (-4) demo_tz0 = (1, demo_tz1)"
  "TZ_LoadContext_S demo_cf demo_sec 1 demo_tz1 = (1, demo_tz2)"
  by (simp_all add: tz_defs demo_cf_def demo_sec_def demo_tz_def nsid_mgr_add_entry_def nsid_mgr_query_nsid_def
      TFM_INVALID_NSID_MIN_def NSID_MGR_THREAD_ID_MAX_def NSID_MGR_GROUP_ID_DEFAULT_def no_pair_token word_le_nat_alt)

lemma demo_tail: "used 0 (replicate 9 (no_pair 0)) = []" "token_map 0 (replicate 9 (no_pair 0)) = Map.empty"
  by (simp_all add: used_def no_pair_def token_map_def)

lemma demo_fresh: "fresh_run demo_cf demo_sec [Tz_alloc (-4), Tz_load 1, Tz_free 1] demo_tz0"
  by (simp add: demo_tz_steps)
     (simp add: fresh_tokens_def demo_tz_def demo_cf_def demo_sec_def demo_tail no_pair_token)

theorem shim_calls_witness:
  "list_all (\<lambda>e. call_ok demo_cf (fst e)) (tz_calls (tz_ops demo_cf demo_sec [Tz_alloc (-4), Tz_load 1, Tz_free 1] demo_tz0))"
  using shim_calls_are_valid [OF _ demo_tz_init demo_fresh] by (simp add: demo_cf_def list_all_iff)

text \<open>C32: from the start of the system, whatever contexts are allocated, freed, loaded and stored, the thread
  identifiers requested from the secure side are 1, 2, 3 and so on in this order, one for each of the first
  254 requests for an allocation, successful or not; no identifier is ever given back, so that every later allocation
  fails without a call and changes nothing.\<close>

theorem thread_ids_are_consumed:
  assumes "tz_manage cf" "TZ_InitContextSystem_S cf sec tz_start = (r, s)"
  shows "map unat (acquired_ids (tz_calls (tz_ops cf sec ops s))) = [1..<1 + min 254 (length (filter is_alloc ops))] \<and>
    (254 \<le> length (filter is_alloc ops) \<longrightarrow>
       TZ_AllocModuleContext_S cf sec m (tz_ops cf sec ops s) = (0, tz_ops cf sec ops s))"
proof -
  let ?u = "tz_ops cf sec ops s" and ?n = "length (filter is_alloc ops)"
  have s: "tz_thread_id s = 1" "ids_inv s" by (rule tz_init_ids [OF assms])+
  have count: "unat (tz_thread_id ?u) = 1 + min 254 ?n"
    using tz_id_count [OF assms(1), of sec ops s] s by simp
  then have "254 \<le> ?n \<Longrightarrow> tz_thread_id ?u = 0xFF" by (simp add: word_unat_eq_iff)
  moreover have "map unat (acquired_ids (tz_calls ?u)) = [1..<unat (tz_thread_id ?u)]"
    using tz_ops_ids [OF assms(1) s(2), of sec ops] by (simp add: ids_inv_def)
  ultimately show ?thesis using alloc_exhausted [OF assms(1), of ?u sec m] count by metis
qed

theorem thread_ids_witness:
  "\<exists>u. u = tz_ops demo_cf demo_sec (replicate 300 (Tz_alloc 0)) demo_tz0 \<and>
     map unat (acquired_ids (tz_calls u)) = [1..<255] \<and> TZ_AllocModuleContext_S demo_cf demo_sec 5 u = (0, u)"
proof -
  have "tz_manage demo_cf" by (simp add: demo_cf_def)
  moreover have "filter is_alloc (replicate 300 (Tz_alloc 0)) = replicate 300 (Tz_alloc 0)"
    by (simp add: is_alloc_def)
  ultimately show ?thesis
    using thread_ids_are_consumed [OF _ demo_tz_init, of "replicate 300 (Tz_alloc 0)" 5] by simp
qed

text \<open>C33: a thread whose context was allocated keeps its identity: whatever happens to other threads in
  between, a load of its token asks the secure side for exactly the module identifier it was
  allocated with, until its own context is freed; after that a load is refused without any call.\<close>

theorem thread_keeps_its_identity:
  assumes "tz_inv cf s" "tz_manage cf" "TZ_AllocModuleContext_S cf sec md s = (token, s')" "token \<noteq> 0"
    and "fresh_run cf sec (Tz_alloc md # ops) s" "Tz_free token \<notin> set ops"
    and "TZ_FreeModuleContext_S cf sec token (tz_ops cf sec ops s') = (ret, w)"
  shows "(let u = tz_ops cf sec ops s'; v = snd (TZ_LoadContext_S cf sec token u)
         in tz_calls v = tz_calls u @ [(Nsce_load token md, sec (tz_calls u) (Nsce_load token md))]) \<and>
     TZ_LoadContext_S cf sec token w = (0, w)"
proof -
  have "fresh_tokens cf sec s" "fresh_run cf sec ops s'" using assms(3,5) by simp_all
  then have "tz_inv cf (tz_ops cf sec ops s')" using alloc_inv [OF assms(1) _ assms(3)] tz_ops_inv by blast
  from freed_is_refused [OF this assms(2,7)] load_after_alloc [OF assms(1-6)] show ?thesis by simp
qed

theorem thread_keeps_its_identity_witness:
  "\<exists>w. TZ_LoadContext_S demo_cf demo_sec 1 w = (0, w) \<and>
     tz_calls (snd (TZ_LoadContext_S demo_cf demo_sec 1 demo_tz2)) = tz_calls demo_tz2 @ [(Nsce_load 1 (-4), 0)]"
proof -
  have inv: "tz_inv demo_cf demo_tz0"
    using tz_init_inv [OF _ _ _ demo_tz_init] by (simp add: tz_start_def demo_cf_def)
  obtain ret w where w: "TZ_FreeModuleContext_S demo_cf demo_sec 1 (tz_ops demo_cf demo_sec [Tz_load 1] demo_tz1) = (ret, w)"
    by fastforce
  from thread_keeps_its_identity [OF inv _ demo_tz_steps(1) _ _ _ w] demo_fresh show ?thesis
    by (auto simp: demo_tz_steps demo_cf_def [THEN arg_cong, of tz_manage] Let_def) (simp add: demo_sec_def)
qed

subsection \<open>The log\<close>

text \<open>C34: \<open>tfm_log_printf\<close> outputs exactly the text its format stands for, cut into chunks of at most 32
  characters that are all full but the last, and its count is the length of the text plus what the
  output function reports for the last partial chunk; it is undefined exactly where the format has
  no meaning (a missing argument, an unterminated string, \<open>%d\<close> of the least integer).\<close>

theorem log_prints_the_format:
  assumes "length junk = PRINT_BUFF_SIZE" "0 \<notin> set fmt"
  shows "case log_text fmt ap of
      None \<Rightarrow> tfm_log_printf sout junk (fmt @ 0 # rest) ap = None
    | Some t \<Rightarrow> \<exists>chunks. chunked t chunks \<and> tfm_log_printf sout junk (fmt @ 0 # rest) ap =
        Some (int (length t) + (if length t mod PRINT_BUFF_SIZE = 0 then 0 else sout (butlast chunks) (last chunks)), chunks)"
proof (cases "log_text fmt ap")
  case None
  from vprintf_undefined [OF assms None] None show ?thesis by (simp add: tfm_log_printf_def)
next
  case (Some t)
  from vprintf_text [OF assms Some] Some show ?thesis by (simp only: tfm_log_printf_def option.case)
qed

lemma demo_log_text: "log_text [73, 61, 37, 100, 33] [Arg_int (-12)] = Some [73, 61, 45, 49, 50, 33]"
proof -
  have "sint (-12 :: 32 word) = -12" by simp
  then show ?thesis
    by (simp add: tag_text_def bytes_def int_text_def dec_text_def base_text.simps [of _ _ 12] base_text.simps [of _ _ "Suc 0"])
qed

theorem log_witness:
  "\<exists>chunks. concat chunks = [73, 61, 45, 49, 50, 33] \<and>
     tfm_log_printf (\<lambda>out c. 0) (replicate 32 0) ([73, 61, 37, 100, 33] @ [0]) [Arg_int (-12)] = Some (6, chunks)"
proof -
  have "length (replicate 32 (0 :: byte)) = PRINT_BUFF_SIZE" "0 \<notin> set [73, 61, 37, 100, 33 :: byte]"
    by (simp_all add: PRINT_BUFF_SIZE_def)
  note log_prints_the_format [OF this, of "\<lambda>out c. 0" "[]" "[Arg_int (-12)]"]
  then obtain chunks where c: "chunked [73, 61, 45, 49, 50, 33] chunks"
    "tfm_log_printf (\<lambda>out c. 0) (replicate 32 0) ([73, 61, 37, 100, 33] @ [0]) [Arg_int (-12)] = Some (6, chunks)"
    unfolding demo_log_text option.case by auto
  then show ?thesis unfolding chunked_def by blast
qed

lemma printed_text:
  assumes "length junk = PRINT_BUFF_SIZE" "0 \<notin> set fmt" "log_text fmt ap = Some t"
  shows "\<exists>n chunks. tfm_log_printf sout junk (fmt @ 0 # rest) ap = Some (n, chunks) \<and> concat chunks = t"
  using vprintf_text [OF assms, of sout rest] by (auto simp: tfm_log_printf_def chunked_def)

text \<open>C35: a number printed with \<open>%u\<close>, or with \<open>%d\<close> unless it is the least integer, can be read back from
  the output, with a minus sign in front exactly when it is negative.\<close>

theorem printed_number_roundtrip:
  assumes "length junk = PRINT_BUFF_SIZE"
  shows "(\<exists>n chunks. tfm_log_printf sout junk (bytes ''%u'' @ 0 # rest) [Arg_int w] = Some (n, chunks) \<and>
      dec_value (concat chunks) = unat w) \<and>
    (sint w \<noteq> - (2 ^ 31) \<longrightarrow>
      (\<exists>n chunks. tfm_log_printf sout junk (bytes ''%d'' @ 0 # rest) [Arg_int w] = Some (n, chunks) \<and>
        (if sint w < 0 then hd (concat chunks) = of_char CHR ''-'' \<and> int (dec_value (tl (concat chunks))) = - sint w
         else int (dec_value (concat chunks)) = sint w)))"
proof -
  have "log_text (bytes ''%u'') [Arg_int w] = Some (dec_text (unat w))"
    "sint w \<noteq> - (2 ^ 31) \<Longrightarrow> log_text (bytes ''%d'') [Arg_int w] = Some (int_text (sint w))"
    by (simp_all add: tag_text_def bytes_def)
  moreover have "0 \<notin> set (bytes ''%u'')" "0 \<notin> set (bytes ''%d'')" by (simp_all add: bytes_def)
  moreover have "if i < 0 then hd (int_text i) = of_char CHR ''-'' \<and> int (dec_value (tl (int_text i))) = - i
      else int (dec_value (int_text i)) = i" for i
    by (simp add: int_text_def dec_value_text)
  ultimately have t: "log_text (bytes ''%u'') [Arg_int w] = Some (dec_text (unat w))" "0 \<notin> set (bytes ''%u'')"
    "sint w \<noteq> - (2 ^ 31) \<Longrightarrow> log_text (bytes ''%d'') [Arg_int w] = Some (int_text (sint w))" "0 \<notin> set (bytes ''%d'')"
    and v: "if sint w < 0 then hd (int_text (sint w)) = of_char CHR ''-'' \<and> int (dec_value (tl (int_text (sint w)))) = - sint w
      else int (dec_value (int_text (sint w))) = sint w" by blast+
  show ?thesis
  proof (intro conjI impI)
    show "\<exists>n chunks. tfm_log_printf sout junk (bytes ''%u'' @ 0 # rest) [Arg_int w] = Some (n, chunks) \<and>
        dec_value (concat chunks) = unat w"
      using printed_text [OF assms t(2,1), of sout rest] dec_value_text by metis
    assume "sint w \<noteq> - (2 ^ 31)"
    then obtain n chunks where "tfm_log_printf sout junk (bytes ''%d'' @ 0 # rest) [Arg_int w] = Some (n, chunks)"
      and c: "concat chunks = int_text (sint w)"
      using printed_text [OF assms t(4) t(3), of sout rest] by blast
    with v show "\<exists>n chunks. tfm_log_printf sout junk (bytes ''%d'' @ 0 # rest) [Arg_int w] = Some (n, chunks) \<and>
        (if sint w < 0 then hd (concat chunks) = of_char CHR ''-'' \<and> int (dec_value (tl (concat chunks))) = - sint w
         else int (dec_value (concat chunks)) = sint w)"
      by (intro exI [of _ n] exI [of _ chunks]) (simp only: c simp_thms)
  qed
qed

theorem printed_number_witness:
  "\<exists>n chunks. tfm_log_printf (\<lambda>out c. 0) (replicate 32 0) (bytes ''%u'' @ [0]) [Arg_int 1234] = Some (n, chunks) \<and>
     dec_value (concat chunks) = 1234"
  using printed_number_roundtrip [of "replicate 32 0" "\<lambda>out c. 0" "[]" 1234] by (simp add: PRINT_BUFF_SIZE_def)

subsection \<open>The mailbox\<close>

text \<open>C36: sending to and receiving from the mailbox queue return exactly when the handle or the message
  is null or some attempt of the RTOS call succeeds; they then report success or the invalid
  parameters, and never a failed attempt.\<close>

theorem mailbox_queue_liveness:
  assumes "codes_differ cf"
  shows "((\<exists>tr'. tfm_ns_mailbox_os_mq_send cf env mq msg tr = Some (if mq = 0 \<or> msg = 0 then mb_inval_params cf else mb_success cf, tr'))
        \<longleftrightarrow> mq = 0 \<or> msg = 0 \<or> (\<exists>k. attempt_ok env (osMessageQueuePut mq msg) tr k)) \<and>
    (tfm_ns_mailbox_os_mq_send cf env mq msg tr = None
        \<longleftrightarrow> mq \<noteq> 0 \<and> msg \<noteq> 0 \<and> (\<nexists>k. attempt_ok env (osMessageQueuePut mq msg) tr k)) \<and>
    ((\<exists>tr'. tfm_ns_mailbox_os_mq_receive cf env mq msg tr = Some (if mq = 0 \<or> msg = 0 then mb_inval_params cf else mb_success cf, tr'))
        \<longleftrightarrow> mq = 0 \<or> msg = 0 \<or> (\<exists>k. attempt_ok env (osMessageQueueGet mq msg osWaitForever) tr k)) \<and>
    (tfm_ns_mailbox_os_mq_receive cf env mq msg tr = None
        \<longleftrightarrow> mq \<noteq> 0 \<and> msg \<noteq> 0 \<and> (\<nexists>k. attempt_ok env (osMessageQueueGet mq msg osWaitForever) tr k))"
proof (cases "mq = 0 \<or> msg = 0")
  case True
  then show ?thesis by (auto simp: tfm_ns_mailbox_os_mq_send_def tfm_ns_mailbox_os_mq_receive_def)
next
  case False
  have s: "mq_send_loop cf env mq msg tr = None \<longleftrightarrow> (\<nexists>k. attempt_ok env (osMessageQueuePut mq msg) tr k)"
    using send_loop_returns [OF assms] send_loop_result [OF assms] by (metis option.distinct(1) option.exhaust)
  have r: "mq_receive_loop cf env mq msg tr = None \<longleftrightarrow> (\<nexists>k. attempt_ok env (osMessageQueueGet mq msg osWaitForever) tr k)"
    using receive_loop_returns [OF assms] receive_loop_result [OF assms] by (metis option.distinct(1) option.exhaust)
  have "(\<exists>tr'. mq_send_loop cf env mq msg tr = Some (mb_success cf, tr')) \<longleftrightarrow> mq_send_loop cf env mq msg tr \<noteq> None"
    using s send_loop_returns [OF assms, of env mq msg tr] by (metis option.distinct(1))
  moreover have "(\<exists>tr'. mq_receive_loop cf env mq msg tr = Some (mb_success cf, tr')) \<longleftrightarrow> mq_receive_loop cf env mq msg tr \<noteq> None"
    using r receive_loop_returns [OF assms, of env mq msg tr] by (metis option.distinct(1))
  ultimately show ?thesis using False s r
    by (simp add: tfm_ns_mailbox_os_mq_send_def tfm_ns_mailbox_os_mq_receive_def)
qed

text \<open>An RTOS whose queue accepts the third attempt.\<close>

theorem mailbox_queue_witness:
  "\<exists>tr'. tfm_ns_mailbox_os_mq_send demo_mb (\<lambda>tr c. if length tr < 2 then -1 else 0) 1 1 [] = Some (0, tr')"
proof -
  have "codes_differ demo_mb" by (simp add: codes_differ_def demo_mb_def)
  moreover have "attempt_ok (\<lambda>tr c. if length tr < 2 then -1 else 0) (osMessageQueuePut 1 1) [] 2"
    by (simp add: attempt_ok_def numeral_2_eq_2)
  ultimately show ?thesis
    using mailbox_queue_liveness [of demo_mb "\<lambda>tr c. if length tr < 2 then -1 else 0" 1 1 "[]"]
    by (auto simp: demo_mb_def)
qed

text \<open>C37: with a mailbox of at most 32 slots, after the statistics were started and \<open>n\<close> transmissions recorded,
  fewer than \<open>2 ^ 26\<close>, with the free slots each of them found, the average reports the number of slots in use per
  transmission and its tenths, rounded down; within these limits no counter and no product wraps around. With
  no transmission recorded it divides by zero.\<close>

theorem mailbox_average_is_exact:
  assumes "mb_slots cf \<le> 32" "length ws < 2 ^ 26"
  shows "tfm_ns_mailbox_stats_avg_slot (tx_run cf ws q (tfm_ns_mailbox_tx_stats_init (Some q) s)) (Some r) =
    (if ws = [] then None
     else Some (Some \<lparr>sr_avg_nr_slots = of_nat (used_slots cf ws div length ws),
                     sr_avg_nr_slots_tenths = of_nat (10 * used_slots cf ws div length ws mod 10)\<rparr>))"
proof (cases "ws = []")
  let ?n = "length ws" and ?u = "used_slots cf ws"
  let ?t = "tx_run cf ws q (tfm_ns_mailbox_tx_stats_init (Some q) s)"
  have c: "ms_ptr ?t = Some q" "mq_nr_tx (ms_queues ?t q) = of_nat ?n" "mq_nr_used_slots (ms_queues ?t q) = of_nat ?u"
    using tx_run_counts [OF assms(1), of "tfm_ns_mailbox_tx_stats_init (Some q) s" q ws]
    by (simp_all add: tfm_ns_mailbox_tx_stats_init_def zero_stats_def)
  {
    case True
    then show ?thesis using c by (simp add: tfm_ns_mailbox_stats_avg_slot_def)
  next
    case False
    then have n: "0 < ?n" by simp
    have u: "?u \<le> ?n * 32" using used_slots_bound [of cf ws] mult_le_mono2 [OF assms(1), of ?n] by linarith
    have pow: "(2::nat) ^ 26 = 67108864" "(2::nat) ^ 32 = 4294967296" by simp_all
    have s: "?n < 2 ^ 32" "?u < 2 ^ 32" using assms(2) u pow by - linarith+
    have nz: "(of_nat ?n :: 32 word) \<noteq> 0" using word_nat_small [OF s(1)] n by (metis unat_0 less_irrefl)
    have "10 * ?u div ?n = 10 * (?u div ?n) + (?u mod ?n) * 10 div ?n" by (rule tenths [OF n])
    moreover have "(?u mod ?n) * 10 div ?n < 10" using n by (simp add: less_mult_imp_div_less)
    ultimately have "10 * ?u div ?n mod 10 = (?u mod ?n) * 10 div ?n" by simp
    then show ?thesis
      using False nz c
      by (simp add: tfm_ns_mailbox_stats_avg_slot_def Let_def word_div_small [OF s(2,1)] word_tenths [OF n assms(2) u]
          word_to_byte del: of_nat_mult of_nat_add)
  }
qed

definition demo_stats :: mb_stats where
  "demo_stats = \<lparr>ms_ptr = None, ms_queues = (\<lambda>q. \<lparr>mq_empty_slots = 0, mq_nr_tx = 8, mq_nr_used_slots = 9\<rparr>), ms_irq_off = False\<rparr>"

definition demo_slots :: "32 word list" where "demo_slots = [15, 7]"

theorem mailbox_average_witness:
  "\<exists>res. tfm_ns_mailbox_stats_avg_slot (tx_run demo_mb demo_slots 5 (tfm_ns_mailbox_tx_stats_init (Some 5) demo_stats))
       (Some \<lparr>sr_avg_nr_slots = 9, sr_avg_nr_slots_tenths = 9\<rparr>) = Some (Some res) \<and>
     sr_avg_nr_slots res = 0 \<and> sr_avg_nr_slots_tenths res = 5"
proof -
  have u: "used_slots demo_mb demo_slots = 1" "length demo_slots = 2" "demo_slots \<noteq> []"
    by (simp_all add: used_slots_def demo_mb_def demo_slots_def eval_nat_numeral empty_count_Suc)
       (simp add: empty_count_def)
  have "mb_slots demo_mb \<le> 32" "length demo_slots < 2 ^ 26" by (simp_all add: demo_mb_def u)
  from mailbox_average_is_exact [OF this, of 5 demo_stats "\<lparr>sr_avg_nr_slots = 9, sr_avg_nr_slots_tenths = 9\<rparr>"]
  show ?thesis using u by (simp del: One_nat_def)
qed

subsection \<open>Start-up\<close>

text \<open>C38: on a multi-core build \<open>main\<close> initialises the platform, the coprocessor and the kernel, and waits
  for the secure core, in this order; where it ends tells exactly which calls follow, and the kernel
  is started only after the secure core reported ready and the mailbox was initialised.\<close>

theorem kernel_starts_only_when_ready:
  assumes "bc_mailbox cf" "ns_main cf tfm_ns_platform_init tfm_ns_cp_init env = (how, tr)"
  shows "\<exists>rest. map fst tr = boot_prefix cf @ [tfm_ns_wait_for_s_cpu_ready] @ rest \<and>
     (case how of
        Core_sync_failed \<Rightarrow> rest = []
      | Mailbox_init_failed \<Rightarrow> rest = [tfm_ns_mailbox_init]
      | Kernel_returned \<Rightarrow> rest = tfm_ns_mailbox_init # boot_suffix cf
      | _ \<Rightarrow> False) \<and>
     ((\<exists>r. (osKernelStart, r) \<in> set tr) \<longrightarrow>
        (tfm_ns_wait_for_s_cpu_ready, 0) \<in> set tr \<and> (tfm_ns_mailbox_init, bc_mailbox_success cf) \<in> set tr)"
  using main_multi_core [OF assms(1), of env] started_only_if_ready [OF assms(1), of _ env] assms(2) by fastforce

definition demo_bc :: boot_conf where
  "demo_bc = \<lparr>bc_mailbox = True, bc_mailbox_thread = False, bc_float_abi = 2, bc_gnuc = True, bc_mailbox_success = 0\<rparr>"

theorem kernel_start_witness:
  "\<exists>how tr rest. ns_main demo_bc tfm_ns_platform_init tfm_ns_cp_init (\<lambda>tr c. 1) = (how, tr) \<and>
     map fst tr = [stdio_init, Cp_access, osKernelInitialize, tfm_ns_wait_for_s_cpu_ready] @ rest"
proof -
  obtain how tr where m: "ns_main demo_bc tfm_ns_platform_init tfm_ns_cp_init (\<lambda>tr c. 1) = (how, tr)" by fastforce
  have "bc_mailbox demo_bc" by (simp add: demo_bc_def)
  from kernel_starts_only_when_ready [OF this m] m show ?thesis
    by (auto simp: boot_prefix_def fp_access_def demo_bc_def)
qed

end
