(* ===== verification/Rtx_Types.thy ===== *)
theory Rtx_Types
  imports C_Layout Cmsis_Rtos
begin

section \<open>The types of the RTX kernel\<close>

text \<open>
  \<open>lib/ext/CMSIS/RTOS2/RTX/Include/rtx_os.h\<close>: the identifiers and states of kernel objects, the layout
  of their control blocks, the sizes derived from it, and the configuration structure the kernel is
  started with. The kernel itself is a binary library; the sizes tell it how much memory the
  application gives it, so they are computed from the layouts.
\<close>

definition osRtxVersionAPI :: "32 word" where "osRtxVersionAPI = 20010003"
definition osRtxVersionKernel :: "32 word" where "osRtxVersionKernel = 50050000"
definition osRtxKernelId :: string where "osRtxKernelId = ''RTX V5.5.0''"

subsection \<open>Identifiers, flags and states\<close>

datatype osRtxId =
  osRtxIdInvalid | osRtxIdThread | osRtxIdTimer | osRtxIdEventFlags | osRtxIdMutex | osRtxIdSemaphore
| osRtxIdMemoryPool | osRtxIdMessage | osRtxIdMessageQueue

fun osRtxId_code :: "osRtxId \<Rightarrow> 8 word" where
  "osRtxId_code osRtxIdInvalid = 0x00"
| "osRtxId_code osRtxIdThread = 0xF1"
| "osRtxId_code osRtxIdTimer = 0xF2"
| "osRtxId_code osRtxIdEventFlags = 0xF3"
| "osRtxId_code osRtxIdMutex = 0xF5"
| "osRtxId_code osRtxIdSemaphore = 0xF6"
| "osRtxId_code osRtxIdMemoryPool = 0xF7"
| "osRtxId_code osRtxIdMessage = 0xF9"
| "osRtxId_code osRtxIdMessageQueue = 0xFA"

definition osRtxFlagSystemObject :: "8 word" where "osRtxFlagSystemObject = 0x01"
definition osRtxFlagSystemMemory :: "8 word" where "osRtxFlagSystemMemory = 0x02"
definition osRtxThreadFlagDefStack :: "8 word" where "osRtxThreadFlagDefStack = 0x10"

definition osRtxKernelState :: "osKernelState_t \<Rightarrow> 8 word" where
  "osRtxKernelState s = word_of_int (osKernelState_code s)"

text \<open>The states of a thread extend those of the interface by the reason a blocked thread waits for.\<close>

datatype osRtxThreadState =
  osRtxThreadInactive | osRtxThreadReady | osRtxThreadRunning | osRtxThreadBlocked | osRtxThreadTerminated
| osRtxThreadWaitingDelay | osRtxThreadWaitingJoin | osRtxThreadWaitingThreadFlags | osRtxThreadWaitingEventFlags
| osRtxThreadWaitingMutex | osRtxThreadWaitingSemaphore | osRtxThreadWaitingMemoryPool
| osRtxThreadWaitingMessageGet | osRtxThreadWaitingMessagePut

definition osRtxThreadStateMask :: "8 word" where "osRtxThreadStateMask = 0x0F"

definition rtx_blocked :: "8 word" where "rtx_blocked = word_of_int (osThreadState_code osThreadBlocked)"

fun osRtxThreadState_code :: "osRtxThreadState \<Rightarrow> 8 word" where
  "osRtxThreadState_code osRtxThreadInactive = word_of_int (osThreadState_code osThreadInactive)"
| "osRtxThreadState_code osRtxThreadReady = word_of_int (osThreadState_code osThreadReady)"
| "osRtxThreadState_code osRtxThreadRunning = word_of_int (osThreadState_code osThreadRunning)"
| "osRtxThreadState_code osRtxThreadBlocked = rtx_blocked"
| "osRtxThreadState_code osRtxThreadTerminated = word_of_int (osThreadState_code osThreadTerminated)"
| "osRtxThreadState_code osRtxThreadWaitingDelay = or rtx_blocked 0x10"
| "osRtxThreadState_code osRtxThreadWaitingJoin = or rtx_blocked 0x20"
| "osRtxThreadState_code osRtxThreadWaitingThreadFlags = or rtx_blocked 0x30"
| "osRtxThreadState_code osRtxThreadWaitingEventFlags = or rtx_blocked 0x40"
| "osRtxThreadState_code osRtxThreadWaitingMutex = or rtx_blocked 0x50"
| "osRtxThreadState_code osRtxThreadWaitingSemaphore = or rtx_blocked 0x60"
| "osRtxThreadState_code osRtxThreadWaitingMemoryPool = or rtx_blocked 0x70"
| "osRtxThreadState_code osRtxThreadWaitingMessageGet = or rtx_blocked 0x80"
| "osRtxThreadState_code osRtxThreadWaitingMessagePut = or rtx_blocked 0x90"

definition osRtxStackMagicWord :: "32 word" where "osRtxStackMagicWord = 0xE25A2EA5"
definition osRtxStackFillPattern :: "32 word" where "osRtxStackFillPattern = 0xCCCCCCCC"

datatype osRtxTimerState = osRtxTimerInactive | osRtxTimerStopped | osRtxTimerRunning

fun osRtxTimerState_code :: "osRtxTimerState \<Rightarrow> 8 word" where
  "osRtxTimerState_code osRtxTimerInactive = 0x00"
| "osRtxTimerState_code osRtxTimerStopped = 0x01"
| "osRtxTimerState_code osRtxTimerRunning = 0x02"

definition osRtxTimerPeriodic :: "8 word" where
  "osRtxTimerPeriodic = word_of_int (osTimerType_code osTimerPeriodic)"

subsection \<open>Control blocks\<close>

text \<open>The parameter is the option \<open>RTX_TF_M_EXTENSION\<close>.\<close>

definition osRtxThread_t :: "bool \<Rightarrow> fields" where
  "osRtxThread_t tfm_extension =
    [(''id'', c_u8), (''state'', c_u8), (''flags'', c_u8), (''attr'', c_u8), (''name'', c_ptr),
     (''thread_next'', c_ptr), (''thread_prev'', c_ptr), (''delay_next'', c_ptr), (''delay_prev'', c_ptr),
     (''thread_join'', c_ptr), (''delay'', c_u32), (''priority'', c_u8), (''priority_base'', c_u8),
     (''stack_frame'', c_u8), (''flags_options'', c_u8), (''wait_flags'', c_u32), (''thread_flags'', c_u32),
     (''mutex_list'', c_ptr), (''stack_mem'', c_ptr), (''stack_size'', c_u32), (''sp'', c_u32),
     (''thread_addr'', c_u32), (''tz_memory'', c_u32)] @
    (if tfm_extension then [(''tz_module'', c_u32)] else [])"

definition osRtxTimerFinfo_t :: fields where
  "osRtxTimerFinfo_t = [(''func'', c_ptr), (''arg'', c_ptr)]"

definition osRtxTimer_t :: fields where
  "osRtxTimer_t =
    [(''id'', c_u8), (''state'', c_u8), (''flags'', c_u8), (''type'', c_u8), (''name'', c_ptr), (''prev'', c_ptr),
     (''next'', c_ptr), (''tick'', c_u32), (''load'', c_u32), (''finfo'', c_struct osRtxTimerFinfo_t)]"

definition osRtxEventFlags_t :: fields where
  "osRtxEventFlags_t =
    [(''id'', c_u8), (''reserved_state'', c_u8), (''flags'', c_u8), (''reserved'', c_u8), (''name'', c_ptr),
     (''thread_list'', c_ptr), (''event_flags'', c_u32)]"

definition osRtxMutex_t :: fields where
  "osRtxMutex_t =
    [(''id'', c_u8), (''reserved_state'', c_u8), (''flags'', c_u8), (''attr'', c_u8), (''name'', c_ptr),
     (''thread_list'', c_ptr), (''owner_thread'', c_ptr), (''owner_prev'', c_ptr), (''owner_next'', c_ptr),
     (''lock'', c_u8), (''padding'', c_array c_u8 3)]"

definition osRtxSemaphore_t :: fields where
  "osRtxSemaphore_t =
    [(''id'', c_u8), (''reserved_state'', c_u8), (''flags'', c_u8), (''reserved'', c_u8), (''name'', c_ptr),
     (''thread_list'', c_ptr), (''tokens'', c_u16), (''max_tokens'', c_u16)]"

definition osRtxMpInfo_fields :: fields where
  "osRtxMpInfo_fields =
    [(''max_blocks'', c_u32), (''used_blocks'', c_u32), (''block_size'', c_u32), (''block_base'', c_ptr),
     (''block_lim'', c_ptr), (''block_free'', c_ptr)]"

definition osRtxMemoryPool_t :: fields where
  "osRtxMemoryPool_t =
    [(''id'', c_u8), (''reserved_state'', c_u8), (''flags'', c_u8), (''reserved'', c_u8), (''name'', c_ptr),
     (''thread_list'', c_ptr), (''mp_info'', c_struct osRtxMpInfo_fields)]"

definition osRtxMessage_t :: fields where
  "osRtxMessage_t =
    [(''id'', c_u8), (''reserved_state'', c_u8), (''flags'', c_u8), (''priority'', c_u8), (''prev'', c_ptr), (''next'', c_ptr)]"

definition osRtxMessageQueue_t :: fields where
  "osRtxMessageQueue_t =
    [(''id'', c_u8), (''reserved_state'', c_u8), (''flags'', c_u8), (''reserved'', c_u8), (''name'', c_ptr),
     (''thread_list'', c_ptr), (''mp_info'', c_struct osRtxMpInfo_fields), (''msg_size'', c_u32), (''msg_count'', c_u32),
     (''msg_first'', c_ptr), (''msg_last'', c_ptr)]"

definition osRtxObject_t :: fields where
  "osRtxObject_t =
    [(''id'', c_u8), (''state'', c_u8), (''flags'', c_u8), (''reserved'', c_u8), (''name'', c_ptr), (''thread_list'', c_ptr)]"

definition osRtxInfo_t :: fields where
  "osRtxInfo_t =
    [(''os_id'', c_ptr), (''version'', c_u32),
     (''kernel'', c_struct [(''state'', c_u8), (''blocked'', c_u8), (''pendSV'', c_u8), (''reserved'', c_u8), (''tick'', c_u32)]),
     (''tick_irqn'', c_u32),
     (''thread'', c_struct
       [(''run'', c_struct [(''curr'', c_ptr), (''next'', c_ptr)]), (''ready'', c_struct osRtxObject_t), (''idle'', c_ptr),
        (''delay_list'', c_ptr), (''wait_list'', c_ptr), (''terminate_list'', c_ptr),
        (''robin'', c_struct [(''thread'', c_ptr), (''tick'', c_u32), (''timeout'', c_u32)])]),
     (''timer'', c_struct [(''list'', c_ptr), (''thread'', c_ptr), (''mq'', c_ptr), (''tick'', c_ptr)]),
     (''isr_queue'', c_struct [(''max'', c_u16), (''cnt'', c_u16), (''in'', c_u16), (''out'', c_u16), (''data'', c_ptr)]),
     (''post_process'', c_struct [(''thread'', c_ptr), (''event_flags'', c_ptr), (''semaphore'', c_ptr),
        (''memory_pool'', c_ptr), (''message'', c_ptr)]),
     (''mem'', c_struct [(''stack'', c_ptr), (''mp_data'', c_ptr), (''mq_data'', c_ptr), (''common'', c_ptr)]),
     (''mpi'', c_struct [(''stack'', c_ptr), (''thread'', c_ptr), (''timer'', c_ptr), (''event_flags'', c_ptr),
        (''mutex'', c_ptr), (''semaphore'', c_ptr), (''memory_pool'', c_ptr), (''message_queue'', c_ptr)])]"

record osRtxObjectMemUsage_t =
  cnt_alloc :: "32 word"
  cnt_free :: "32 word"
  max_used :: "32 word"

subsection \<open>Limits and sizes\<close>

definition osRtxThreadFlagsLimit :: nat where "osRtxThreadFlagsLimit = 31"
definition osRtxEventFlagsLimit :: nat where "osRtxEventFlagsLimit = 31"
definition osRtxMutexLockLimit :: nat where "osRtxMutexLockLimit = 255"
definition osRtxSemaphoreTokenLimit :: nat where "osRtxSemaphoreTokenLimit = 65535"

definition osRtxThreadCbSize :: "bool \<Rightarrow> nat" where "osRtxThreadCbSize ext = c_size (c_struct (osRtxThread_t ext))"
definition osRtxTimerCbSize :: nat where "osRtxTimerCbSize = c_size (c_struct osRtxTimer_t)"
definition osRtxEventFlagsCbSize :: nat where "osRtxEventFlagsCbSize = c_size (c_struct osRtxEventFlags_t)"
definition osRtxMutexCbSize :: nat where "osRtxMutexCbSize = c_size (c_struct osRtxMutex_t)"
definition osRtxSemaphoreCbSize :: nat where "osRtxSemaphoreCbSize = c_size (c_struct osRtxSemaphore_t)"
definition osRtxMemoryPoolCbSize :: nat where "osRtxMemoryPoolCbSize = c_size (c_struct osRtxMemoryPool_t)"
definition osRtxMessageQueueCbSize :: nat where "osRtxMessageQueueCbSize = c_size (c_struct osRtxMessageQueue_t)"

definition osRtxMemoryPoolMemSize :: "nat \<Rightarrow> nat \<Rightarrow> nat" where
  "osRtxMemoryPoolMemSize block_count block_size = 4 * block_count * ((block_size + 3) div 4)"

definition osRtxMessageQueueMemSize :: "nat \<Rightarrow> nat \<Rightarrow> nat" where
  "osRtxMessageQueueMemSize msg_count msg_size = 4 * msg_count * (3 + (msg_size + 3) div 4)"

datatype osRtxError =
  osRtxErrorStackUnderflow | osRtxErrorISRQueueOverflow | osRtxErrorTimerQueueOverflow | osRtxErrorClibSpace | osRtxErrorClibMutex

fun osRtxError_code :: "osRtxError \<Rightarrow> 32 word" where
  "osRtxError_code osRtxErrorStackUnderflow = 1"
| "osRtxError_code osRtxErrorISRQueueOverflow = 2"
| "osRtxError_code osRtxErrorTimerQueueOverflow = 3"
| "osRtxError_code osRtxErrorClibSpace = 4"
| "osRtxError_code osRtxErrorClibMutex = 5"

subsection \<open>The configuration structure\<close>

definition osRtxConfigPrivilegedMode :: "32 word" where "osRtxConfigPrivilegedMode = push_bit 0 1"
definition osRtxConfigStackCheck :: "32 word" where "osRtxConfigStackCheck = push_bit 1 1"
definition osRtxConfigStackWatermark :: "32 word" where "osRtxConfigStackWatermark = push_bit 2 1"

text \<open>A pointer is a static object of the application, or null.\<close>

record 'o osRtxMpInfo_t =
  max_blocks :: "32 word"
  used_blocks :: "32 word"
  block_size :: "32 word"
  block_base :: "'o option"
  block_lim :: "'o option"
  block_free :: "'o option"

record 'o rtx_isr_queue =
  isr_data :: "'o option"
  isr_max :: "16 word"
  isr_padding :: "16 word"

record 'o rtx_mem =
  mem_stack_addr :: "'o option"
  mem_stack_size :: "32 word"
  mem_mp_data_addr :: "'o option"
  mem_mp_data_size :: "32 word"
  mem_mq_data_addr :: "'o option"
  mem_mq_data_size :: "32 word"
  mem_common_addr :: "'o option"
  mem_common_size :: "32 word"

record 'o rtx_mpi =
  mpi_stack :: "'o option"
  mpi_thread :: "'o option"
  mpi_timer :: "'o option"
  mpi_event_flags :: "'o option"
  mpi_mutex :: "'o option"
  mpi_semaphore :: "'o option"
  mpi_memory_pool :: "'o option"
  mpi_message_queue :: "'o option"

record 'o osRtxConfig_t =
  cfg_flags :: "32 word"
  cfg_tick_freq :: "32 word"
  cfg_robin_timeout :: "32 word"
  cfg_isr_queue :: "'o rtx_isr_queue"
  cfg_mem :: "'o rtx_mem"
  cfg_mpi :: "'o rtx_mpi"
  cfg_thread_stack_size :: "32 word"
  cfg_idle_thread_attr :: "'o option"
  cfg_timer_thread_attr :: "'o option"
  cfg_timer_mq_attr :: "'o option"
  cfg_timer_mq_mcnt :: "32 word"

subsection \<open>Facts\<close>

lemmas rtx_block_defs = osRtxThread_t_def osRtxTimerFinfo_t_def osRtxTimer_t_def osRtxEventFlags_t_def osRtxMutex_t_def
  osRtxSemaphore_t_def osRtxMpInfo_fields_def osRtxMemoryPool_t_def osRtxMessage_t_def osRtxMessageQueue_t_def
  osRtxObject_t_def osRtxInfo_t_def

lemma rtx_cb_sizes [simp]:
  "osRtxThreadCbSize ext = (if ext then 72 else 68)" "osRtxTimerCbSize = 32" "osRtxEventFlagsCbSize = 16"
  "osRtxMutexCbSize = 28" "osRtxSemaphoreCbSize = 16" "osRtxMemoryPoolCbSize = 36" "osRtxMessageQueueCbSize = 52"
  by (simp_all add: osRtxThreadCbSize_def osRtxTimerCbSize_def osRtxEventFlagsCbSize_def osRtxMutexCbSize_def
      osRtxSemaphoreCbSize_def osRtxMemoryPoolCbSize_def osRtxMessageQueueCbSize_def rtx_block_defs c_layout)

text \<open>A waiting state keeps the state of the interface in its low half.\<close>

fun interface_state :: "osRtxThreadState \<Rightarrow> osThreadState_t" where
  "interface_state osRtxThreadInactive = osThreadInactive"
| "interface_state osRtxThreadReady = osThreadReady"
| "interface_state osRtxThreadRunning = osThreadRunning"
| "interface_state osRtxThreadTerminated = osThreadTerminated"
| "interface_state s = osThreadBlocked"

lemma thread_state_low_half:
  "and (osRtxThreadState_code s) osRtxThreadStateMask = word_of_int (osThreadState_code (interface_state s))"
  by (cases s) (simp_all add: osRtxThreadStateMask_def rtx_blocked_def)

lemma thread_state_code_inj: "osRtxThreadState_code s = osRtxThreadState_code t \<Longrightarrow> s = t"
  by (cases s; cases t) (simp_all add: rtx_blocked_def)

end
