(* ===== verification/Rtx_Config.thy ===== *)
theory Rtx_Config
  imports Rtx_Types Build_Options
begin

section \<open>The configuration of the RTX kernel\<close>

text \<open>
  \<open>RTX/Config/RTX_Config.h\<close> gives every option of the kernel a default that a macro of the build
  overrides, and says in its annotations which values the configuration editor offers. \<open>RTX/Source/rtx_lib.c\<close>
  turns the options into static objects and the structure \<open>osRtxConfig\<close> the kernel reads, and stops the
  compilation for values it cannot use. An option is a natural number; the build is a map from macro names
  to values.
\<close>

subsection \<open>Options (RTX_Config.h)\<close>

record rtx_system =
  OS_DYNAMIC_MEM_SIZE :: nat
  OS_TICK_FREQ :: nat
  OS_ROBIN_ENABLE :: nat
  OS_ROBIN_TIMEOUT :: nat
  OS_ISR_FIFO_QUEUE :: nat
  OS_OBJ_MEM_USAGE :: nat

definition system_options :: "(string \<Rightarrow> nat option) \<Rightarrow> rtx_system" where
  "system_options build = \<lparr>
     OS_DYNAMIC_MEM_SIZE = macro build ''OS_DYNAMIC_MEM_SIZE'' 8192,
     OS_TICK_FREQ = macro build ''OS_TICK_FREQ'' 1000,
     OS_ROBIN_ENABLE = macro build ''OS_ROBIN_ENABLE'' 1,
     OS_ROBIN_TIMEOUT = macro build ''OS_ROBIN_TIMEOUT'' 5,
     OS_ISR_FIFO_QUEUE = macro build ''OS_ISR_FIFO_QUEUE'' 16,
     OS_OBJ_MEM_USAGE = macro build ''OS_OBJ_MEM_USAGE'' 0\<rparr>"

text \<open>The values the annotations offer: \<open><lo-hi:step>\<close> for a number, a list of values, and a check box.\<close>

definition in_range :: "nat \<Rightarrow> nat \<Rightarrow> nat \<Rightarrow> bool" where
  "in_range v lo hi \<longleftrightarrow> lo \<le> v \<and> v \<le> hi"

definition in_steps :: "nat \<Rightarrow> nat \<Rightarrow> nat \<Rightarrow> nat \<Rightarrow> bool" where
  "in_steps v lo hi step \<longleftrightarrow> lo \<le> v \<and> v \<le> hi \<and> v mod step = 0"

definition check_box :: "nat \<Rightarrow> bool" where
  "check_box v \<longleftrightarrow> v = 0 \<or> v = 1"

definition system_offered :: "rtx_system \<Rightarrow> bool" where
  "system_offered c \<longleftrightarrow>
     in_steps (OS_DYNAMIC_MEM_SIZE c) 0 1073741824 8 \<and>
     in_range (OS_TICK_FREQ c) 1 1000000 \<and>
     check_box (OS_ROBIN_ENABLE c) \<and>
     in_range (OS_ROBIN_TIMEOUT c) 1 1000 \<and>
     OS_ISR_FIFO_QUEUE c \<in> {4, 8, 12, 16, 24, 32, 48, 64, 96, 128, 196, 256} \<and>
     check_box (OS_OBJ_MEM_USAGE c)"

record rtx_thread =
  OS_THREAD_OBJ_MEM :: nat
  OS_THREAD_NUM :: nat
  OS_THREAD_DEF_STACK_NUM :: nat
  OS_THREAD_USER_STACK_SIZE :: nat
  OS_STACK_SIZE :: nat
  OS_IDLE_THREAD_STACK_SIZE :: nat
  OS_IDLE_THREAD_TZ_MOD_ID :: nat
  OS_STACK_CHECK :: nat
  OS_STACK_WATERMARK :: nat
  OS_PRIVILEGE_MODE :: nat

definition thread_options :: "(string \<Rightarrow> nat option) \<Rightarrow> rtx_thread" where
  "thread_options build = \<lparr>
     OS_THREAD_OBJ_MEM = macro build ''OS_THREAD_OBJ_MEM'' 0,
     OS_THREAD_NUM = macro build ''OS_THREAD_NUM'' 1,
     OS_THREAD_DEF_STACK_NUM = macro build ''OS_THREAD_DEF_STACK_NUM'' 0,
     OS_THREAD_USER_STACK_SIZE = macro build ''OS_THREAD_USER_STACK_SIZE'' 0,
     OS_STACK_SIZE = macro build ''OS_STACK_SIZE'' 256,
     OS_IDLE_THREAD_STACK_SIZE = macro build ''OS_IDLE_THREAD_STACK_SIZE'' 256,
     OS_IDLE_THREAD_TZ_MOD_ID = macro build ''OS_IDLE_THREAD_TZ_MOD_ID'' 0,
     OS_STACK_CHECK = macro build ''OS_STACK_CHECK'' 1,
     OS_STACK_WATERMARK = macro build ''OS_STACK_WATERMARK'' 0,
     OS_PRIVILEGE_MODE = macro build ''OS_PRIVILEGE_MODE'' 1\<rparr>"

definition thread_offered :: "rtx_thread \<Rightarrow> bool" where
  "thread_offered c \<longleftrightarrow>
     check_box (OS_THREAD_OBJ_MEM c) \<and>
     in_range (OS_THREAD_NUM c) 1 1000 \<and>
     in_range (OS_THREAD_DEF_STACK_NUM c) 0 1000 \<and>
     in_steps (OS_THREAD_USER_STACK_SIZE c) 0 1073741824 8 \<and>
     in_steps (OS_STACK_SIZE c) 96 1073741824 8 \<and>
     in_steps (OS_IDLE_THREAD_STACK_SIZE c) 72 1073741824 8 \<and>
     check_box (OS_STACK_CHECK c) \<and>
     check_box (OS_STACK_WATERMARK c) \<and>
     check_box (OS_PRIVILEGE_MODE c)"

text \<open>Without thread memory of its own the library serves four threads.\<close>

definition OS_THREAD_LIBSPACE_NUM :: "rtx_thread \<Rightarrow> nat" where
  "OS_THREAD_LIBSPACE_NUM c = (if OS_THREAD_OBJ_MEM c = 0 then 4 else OS_THREAD_NUM c)"

record rtx_timer =
  OS_TIMER_OBJ_MEM :: nat
  OS_TIMER_NUM :: nat
  OS_TIMER_THREAD_PRIO :: nat
  OS_TIMER_THREAD_STACK_SIZE :: nat
  OS_TIMER_THREAD_TZ_MOD_ID :: nat
  OS_TIMER_CB_QUEUE :: nat

definition timer_options :: "(string \<Rightarrow> nat option) \<Rightarrow> rtx_timer" where
  "timer_options build = \<lparr>
     OS_TIMER_OBJ_MEM = macro build ''OS_TIMER_OBJ_MEM'' 0,
     OS_TIMER_NUM = macro build ''OS_TIMER_NUM'' 1,
     OS_TIMER_THREAD_PRIO = macro build ''OS_TIMER_THREAD_PRIO'' 40,
     OS_TIMER_THREAD_STACK_SIZE = macro build ''OS_TIMER_THREAD_STACK_SIZE'' 256,
     OS_TIMER_THREAD_TZ_MOD_ID = macro build ''OS_TIMER_THREAD_TZ_MOD_ID'' 0,
     OS_TIMER_CB_QUEUE = macro build ''OS_TIMER_CB_QUEUE'' 4\<rparr>"

definition timer_offered :: "rtx_timer \<Rightarrow> bool" where
  "timer_offered c \<longleftrightarrow>
     check_box (OS_TIMER_OBJ_MEM c) \<and>
     in_range (OS_TIMER_NUM c) 1 1000 \<and>
     OS_TIMER_THREAD_PRIO c \<in> {8, 16, 24, 32, 40, 48} \<and>
     in_steps (OS_TIMER_THREAD_STACK_SIZE c) 0 1073741824 8 \<and>
     in_range (OS_TIMER_CB_QUEUE c) 0 256"

text \<open>Event flags, mutexes and semaphores have memory for control blocks only.\<close>

record rtx_evflags =
  OS_EVFLAGS_OBJ_MEM :: nat
  OS_EVFLAGS_NUM :: nat

definition evflags_options :: "(string \<Rightarrow> nat option) \<Rightarrow> rtx_evflags" where
  "evflags_options build = \<lparr>
     OS_EVFLAGS_OBJ_MEM = macro build ''OS_EVFLAGS_OBJ_MEM'' 0,
     OS_EVFLAGS_NUM = macro build ''OS_EVFLAGS_NUM'' 1\<rparr>"

definition evflags_offered :: "rtx_evflags \<Rightarrow> bool" where
  "evflags_offered c \<longleftrightarrow> check_box (OS_EVFLAGS_OBJ_MEM c) \<and> in_range (OS_EVFLAGS_NUM c) 1 1000"

record rtx_mutex =
  OS_MUTEX_OBJ_MEM :: nat
  OS_MUTEX_NUM :: nat

definition mutex_options :: "(string \<Rightarrow> nat option) \<Rightarrow> rtx_mutex" where
  "mutex_options build = \<lparr>
     OS_MUTEX_OBJ_MEM = macro build ''OS_MUTEX_OBJ_MEM'' 0,
     OS_MUTEX_NUM = macro build ''OS_MUTEX_NUM'' 1\<rparr>"

definition mutex_offered :: "rtx_mutex \<Rightarrow> bool" where
  "mutex_offered c \<longleftrightarrow> check_box (OS_MUTEX_OBJ_MEM c) \<and> in_range (OS_MUTEX_NUM c) 1 1000"

record rtx_semaphore =
  OS_SEMAPHORE_OBJ_MEM :: nat
  OS_SEMAPHORE_NUM :: nat

definition semaphore_options :: "(string \<Rightarrow> nat option) \<Rightarrow> rtx_semaphore" where
  "semaphore_options build = \<lparr>
     OS_SEMAPHORE_OBJ_MEM = macro build ''OS_SEMAPHORE_OBJ_MEM'' 0,
     OS_SEMAPHORE_NUM = macro build ''OS_SEMAPHORE_NUM'' 1\<rparr>"

definition semaphore_offered :: "rtx_semaphore \<Rightarrow> bool" where
  "semaphore_offered c \<longleftrightarrow> check_box (OS_SEMAPHORE_OBJ_MEM c) \<and> in_range (OS_SEMAPHORE_NUM c) 1 1000"

text \<open>Memory pools and message queues also have memory for their data.\<close>

record rtx_mempool =
  OS_MEMPOOL_OBJ_MEM :: nat
  OS_MEMPOOL_NUM :: nat
  OS_MEMPOOL_DATA_SIZE :: nat

definition mempool_options :: "(string \<Rightarrow> nat option) \<Rightarrow> rtx_mempool" where
  "mempool_options build = \<lparr>
     OS_MEMPOOL_OBJ_MEM = macro build ''OS_MEMPOOL_OBJ_MEM'' 0,
     OS_MEMPOOL_NUM = macro build ''OS_MEMPOOL_NUM'' 1,
     OS_MEMPOOL_DATA_SIZE = macro build ''OS_MEMPOOL_DATA_SIZE'' 0\<rparr>"

definition mempool_offered :: "rtx_mempool \<Rightarrow> bool" where
  "mempool_offered c \<longleftrightarrow>
     check_box (OS_MEMPOOL_OBJ_MEM c) \<and> in_range (OS_MEMPOOL_NUM c) 1 1000 \<and>
     in_steps (OS_MEMPOOL_DATA_SIZE c) 0 1073741824 8"

record rtx_msgqueue =
  OS_MSGQUEUE_OBJ_MEM :: nat
  OS_MSGQUEUE_NUM :: nat
  OS_MSGQUEUE_DATA_SIZE :: nat

definition msgqueue_options :: "(string \<Rightarrow> nat option) \<Rightarrow> rtx_msgqueue" where
  "msgqueue_options build = \<lparr>
     OS_MSGQUEUE_OBJ_MEM = macro build ''OS_MSGQUEUE_OBJ_MEM'' 0,
     OS_MSGQUEUE_NUM = macro build ''OS_MSGQUEUE_NUM'' 1,
     OS_MSGQUEUE_DATA_SIZE = macro build ''OS_MSGQUEUE_DATA_SIZE'' 0\<rparr>"

definition msgqueue_offered :: "rtx_msgqueue \<Rightarrow> bool" where
  "msgqueue_offered c \<longleftrightarrow>
     check_box (OS_MSGQUEUE_OBJ_MEM c) \<and> in_range (OS_MSGQUEUE_NUM c) 1 1000 \<and>
     in_steps (OS_MSGQUEUE_DATA_SIZE c) 0 1073741824 8"

text \<open>The name macros of the idle and the timer thread have no default; the control blocks depend on the
  TF-M extension of the kernel.\<close>

record rtx_conf =
  rc_system :: rtx_system
  rc_thread :: rtx_thread
  rc_timer :: rtx_timer
  rc_evflags :: rtx_evflags
  rc_mutex :: rtx_mutex
  rc_semaphore :: rtx_semaphore
  rc_mempool :: rtx_mempool
  rc_msgqueue :: rtx_msgqueue
  rc_idle_name :: "byte list option"
  rc_timer_name :: "byte list option"
  rc_tfm_extension :: bool

definition rtx_options :: "(string \<Rightarrow> nat option) \<Rightarrow> bool \<Rightarrow> rtx_conf" where
  "rtx_options build ext = \<lparr>
     rc_system = system_options build, rc_thread = thread_options build, rc_timer = timer_options build,
     rc_evflags = evflags_options build, rc_mutex = mutex_options build, rc_semaphore = semaphore_options build,
     rc_mempool = mempool_options build, rc_msgqueue = msgqueue_options build,
     rc_idle_name = None, rc_timer_name = None, rc_tfm_extension = ext\<rparr>"

definition offered :: "rtx_conf \<Rightarrow> bool" where
  "offered c \<longleftrightarrow>
     system_offered (rc_system c) \<and> thread_offered (rc_thread c) \<and> timer_offered (rc_timer c) \<and>
     evflags_offered (rc_evflags c) \<and> mutex_offered (rc_mutex c) \<and> semaphore_offered (rc_semaphore c) \<and>
     mempool_offered (rc_mempool c) \<and> msgqueue_offered (rc_msgqueue c)"

end
