(* ===== verification/Rtx_Static.thy ===== *)
theory Rtx_Static
  imports Rtx_Config
begin

section \<open>Static objects and the configuration structure of RTX\<close>

text \<open>
  The configuration part of \<open>RTX/Source/rtx_lib.c\<close>. A section of the file is the list of what the
  preprocessor leaves of it, in the order of the source: \<open>#error\<close> lines, static objects with their C type,
  and initialised structures. The file compiles when no error is left and the compiler accepts the sizes of
  the objects.
\<close>

subsection \<open>Declarations\<close>

datatype rtx_object =
  os_mem | os_isr_queue
| os_thread_cb | os_thread_def_stack | os_mpi_thread | os_mpi_def_stack | os_thread_stack
| os_idle_thread_cb | os_idle_thread_stack | os_idle_thread_attr
| os_timer_cb | os_mpi_timer | os_timer_thread_cb | os_timer_thread_stack | os_timer_thread_attr
| os_timer_mq_cb | os_timer_mq_data | os_timer_mq_attr
| os_ef_cb | os_mpi_ef | os_mutex_cb | os_mpi_mutex | os_semaphore_cb | os_mpi_semaphore
| os_mp_cb | os_mpi_mp | os_mp_data | os_mq_cb | os_mpi_mq | os_mq_data

datatype rtx_decl =
  Error_line string
| Object rtx_object ctype
| Mp_info rtx_object "rtx_object osRtxMpInfo_t"
| Thread_attr rtx_object "rtx_object option osThreadAttr_t"
| Queue_attr rtx_object "rtx_object option osMessageQueueAttr_t"
| Stub string

definition on :: "bool \<Rightarrow> rtx_decl list \<Rightarrow> rtx_decl list" where
  "on b ds = (if b then ds else [])"

definition mp_info :: "nat \<Rightarrow> nat \<Rightarrow> rtx_object \<Rightarrow> rtx_object osRtxMpInfo_t" where
  "mp_info n block base =
     \<lparr>max_blocks = word_of_nat n, used_blocks = 0, block_size = word_of_nat block,
      block_base = Some base, block_lim = None, block_free = None\<rparr>"

subsection \<open>Sections of the file\<close>

definition os_system :: "rtx_system \<Rightarrow> rtx_decl list" where
  "os_system c =
     on (OS_DYNAMIC_MEM_SIZE c \<noteq> 0)
       (on (OS_DYNAMIC_MEM_SIZE c mod 8 \<noteq> 0) [Error_line ''Invalid Dynamic Memory size!''] @
        [Object os_mem (c_array c_u64 (OS_DYNAMIC_MEM_SIZE c div 8))]) @
     on (OS_TICK_FREQ c < 1) [Error_line ''Invalid Kernel Tick Frequency!''] @
     on (OS_ISR_FIFO_QUEUE c < 4) [Error_line ''Invalid ISR FIFO Queue size!''] @
     [Object os_isr_queue (c_array c_ptr (OS_ISR_FIFO_QUEUE c))]"

definition os_thread_mem :: "bool \<Rightarrow> rtx_thread \<Rightarrow> rtx_decl list" where
  "os_thread_mem ext c =
     on (OS_THREAD_NUM c = 0) [Error_line ''Invalid number of user Threads!''] @
     on (OS_THREAD_USER_STACK_SIZE c \<noteq> 0 \<and> OS_THREAD_USER_STACK_SIZE c mod 8 \<noteq> 0)
       [Error_line ''Invalid total Stack size!''] @
     [Object os_thread_cb (c_array (c_struct (osRtxThread_t ext)) (OS_THREAD_NUM c))] @
     on (OS_THREAD_DEF_STACK_NUM c \<noteq> 0)
       [Object os_thread_def_stack (c_array c_u64 (OS_THREAD_DEF_STACK_NUM c * (OS_STACK_SIZE c div 8)))] @
     [Mp_info os_mpi_thread (mp_info (OS_THREAD_NUM c) (osRtxThreadCbSize ext) os_thread_cb)] @
     on (OS_THREAD_DEF_STACK_NUM c \<noteq> 0)
       [Mp_info os_mpi_def_stack (mp_info (OS_THREAD_DEF_STACK_NUM c) (OS_STACK_SIZE c) os_thread_def_stack)] @
     on (OS_THREAD_USER_STACK_SIZE c \<noteq> 0)
       [Object os_thread_stack (c_array c_u64 (2 + OS_THREAD_NUM c + OS_THREAD_USER_STACK_SIZE c div 8))]"

definition os_idle_thread :: "bool \<Rightarrow> byte list option \<Rightarrow> rtx_thread \<Rightarrow> rtx_decl list" where
  "os_idle_thread ext idle_name c =
     [Object os_idle_thread_cb (c_struct (osRtxThread_t ext)),
      Object os_idle_thread_stack (c_array c_u64 (OS_IDLE_THREAD_STACK_SIZE c div 8)),
      Thread_attr os_idle_thread_attr
        \<lparr>th_name = idle_name, th_attr_bits = osThreadDetached,
         th_cb_mem = Some os_idle_thread_cb, th_cb_size = word_of_nat (c_size (c_struct (osRtxThread_t ext))),
         th_stack_mem = Some os_idle_thread_stack,
         th_stack_size = word_of_nat (c_size (c_array c_u64 (OS_IDLE_THREAD_STACK_SIZE c div 8))),
         th_priority = word_of_int (osPriority_code osPriorityIdle),
         th_tz_module = word_of_nat (OS_IDLE_THREAD_TZ_MOD_ID c), th_reserved = 0\<rparr>]"

definition os_thread :: "bool \<Rightarrow> byte list option \<Rightarrow> rtx_thread \<Rightarrow> rtx_decl list" where
  "os_thread ext idle_name c =
     on (OS_STACK_SIZE c mod 8 \<noteq> 0 \<or> OS_STACK_SIZE c < 72) [Error_line ''Invalid default Thread Stack size!''] @
     on (OS_IDLE_THREAD_STACK_SIZE c mod 8 \<noteq> 0 \<or> OS_IDLE_THREAD_STACK_SIZE c < 72)
       [Error_line ''Invalid Idle Thread Stack size!''] @
     on (OS_THREAD_OBJ_MEM c \<noteq> 0) (os_thread_mem ext c) @
     on (OS_STACK_CHECK c = 0) [Stub ''osRtxThreadStackCheck''] @
     os_idle_thread ext idle_name c"

text \<open>The timer thread and its queue exist when both sizes are given.\<close>

definition has_timer_thread :: "rtx_timer \<Rightarrow> bool" where
  "has_timer_thread c \<longleftrightarrow> OS_TIMER_THREAD_STACK_SIZE c \<noteq> 0 \<and> OS_TIMER_CB_QUEUE c \<noteq> 0"

definition os_timer_thread :: "bool \<Rightarrow> byte list option \<Rightarrow> rtx_timer \<Rightarrow> rtx_decl list" where
  "os_timer_thread ext timer_name c =
     on (OS_TIMER_THREAD_STACK_SIZE c mod 8 \<noteq> 0 \<or> OS_TIMER_THREAD_STACK_SIZE c < 96)
       [Error_line ''Invalid Timer Thread Stack size!''] @
     [Object os_timer_thread_cb (c_struct (osRtxThread_t ext)),
      Object os_timer_thread_stack (c_array c_u64 (OS_TIMER_THREAD_STACK_SIZE c div 8)),
      Thread_attr os_timer_thread_attr
        \<lparr>th_name = timer_name, th_attr_bits = osThreadDetached,
         th_cb_mem = Some os_timer_thread_cb, th_cb_size = word_of_nat (c_size (c_struct (osRtxThread_t ext))),
         th_stack_mem = Some os_timer_thread_stack,
         th_stack_size = word_of_nat (c_size (c_array c_u64 (OS_TIMER_THREAD_STACK_SIZE c div 8))),
         th_priority = word_of_nat (OS_TIMER_THREAD_PRIO c),
         th_tz_module = word_of_nat (OS_TIMER_THREAD_TZ_MOD_ID c), th_reserved = 0\<rparr>,
      Object os_timer_mq_cb (c_struct osRtxMessageQueue_t),
      Object os_timer_mq_data (c_array c_u32 (osRtxMessageQueueMemSize (OS_TIMER_CB_QUEUE c) 8 div 4)),
      Queue_attr os_timer_mq_attr
        \<lparr>mqa_name = None, mqa_attr_bits = 0,
         mqa_cb_mem = Some os_timer_mq_cb, mqa_cb_size = word_of_nat (c_size (c_struct osRtxMessageQueue_t)),
         mqa_mq_mem = Some os_timer_mq_data,
         mqa_mq_size = word_of_nat (c_size (c_array c_u32 (osRtxMessageQueueMemSize (OS_TIMER_CB_QUEUE c) 8 div 4)))\<rparr>]"

definition os_timer :: "bool \<Rightarrow> byte list option \<Rightarrow> rtx_timer \<Rightarrow> rtx_decl list" where
  "os_timer ext timer_name c =
     on (OS_TIMER_OBJ_MEM c \<noteq> 0)
       (on (OS_TIMER_NUM c = 0) [Error_line ''Invalid number of Timer objects!''] @
        [Object os_timer_cb (c_array (c_struct osRtxTimer_t) (OS_TIMER_NUM c)),
         Mp_info os_mpi_timer (mp_info (OS_TIMER_NUM c) osRtxTimerCbSize os_timer_cb)]) @
     (if has_timer_thread c then os_timer_thread ext timer_name c else [Stub ''osRtxTimerThread''])"

definition os_evflags :: "rtx_evflags \<Rightarrow> rtx_decl list" where
  "os_evflags c =
     on (OS_EVFLAGS_OBJ_MEM c \<noteq> 0)
       (on (OS_EVFLAGS_NUM c = 0) [Error_line ''Invalid number of Event Flags objects!''] @
        [Object os_ef_cb (c_array (c_struct osRtxEventFlags_t) (OS_EVFLAGS_NUM c)),
         Mp_info os_mpi_ef (mp_info (OS_EVFLAGS_NUM c) osRtxEventFlagsCbSize os_ef_cb)])"

definition os_mutex :: "rtx_mutex \<Rightarrow> rtx_decl list" where
  "os_mutex c =
     on (OS_MUTEX_OBJ_MEM c \<noteq> 0)
       (on (OS_MUTEX_NUM c = 0) [Error_line ''Invalid number of Mutex objects!''] @
        [Object os_mutex_cb (c_array (c_struct osRtxMutex_t) (OS_MUTEX_NUM c)),
         Mp_info os_mpi_mutex (mp_info (OS_MUTEX_NUM c) osRtxMutexCbSize os_mutex_cb)])"

definition os_semaphore :: "rtx_semaphore \<Rightarrow> rtx_decl list" where
  "os_semaphore c =
     on (OS_SEMAPHORE_OBJ_MEM c \<noteq> 0)
       (on (OS_SEMAPHORE_NUM c = 0) [Error_line ''Invalid number of Semaphore objects!''] @
        [Object os_semaphore_cb (c_array (c_struct osRtxSemaphore_t) (OS_SEMAPHORE_NUM c)),
         Mp_info os_mpi_semaphore (mp_info (OS_SEMAPHORE_NUM c) osRtxSemaphoreCbSize os_semaphore_cb)])"

definition os_mempool :: "rtx_mempool \<Rightarrow> rtx_decl list" where
  "os_mempool c =
     on (OS_MEMPOOL_OBJ_MEM c \<noteq> 0)
       (on (OS_MEMPOOL_NUM c = 0) [Error_line ''Invalid number of Memory Pool objects!''] @
        [Object os_mp_cb (c_array (c_struct osRtxMemoryPool_t) (OS_MEMPOOL_NUM c)),
         Mp_info os_mpi_mp (mp_info (OS_MEMPOOL_NUM c) osRtxMemoryPoolCbSize os_mp_cb)] @
        on (OS_MEMPOOL_DATA_SIZE c \<noteq> 0)
          (on (OS_MEMPOOL_DATA_SIZE c mod 8 \<noteq> 0) [Error_line ''Invalid Data Memory size for Memory Pools!''] @
           [Object os_mp_data (c_array c_u64 (2 + OS_MEMPOOL_NUM c + OS_MEMPOOL_DATA_SIZE c div 8))]))"

definition os_msgqueue :: "rtx_msgqueue \<Rightarrow> rtx_decl list" where
  "os_msgqueue c =
     on (OS_MSGQUEUE_OBJ_MEM c \<noteq> 0)
       (on (OS_MSGQUEUE_NUM c = 0) [Error_line ''Invalid number of Message Queue objects!''] @
        [Object os_mq_cb (c_array (c_struct osRtxMessageQueue_t) (OS_MSGQUEUE_NUM c)),
         Mp_info os_mpi_mq (mp_info (OS_MSGQUEUE_NUM c) osRtxMessageQueueCbSize os_mq_cb)] @
        on (OS_MSGQUEUE_DATA_SIZE c \<noteq> 0)
          (on (OS_MSGQUEUE_DATA_SIZE c mod 8 \<noteq> 0) [Error_line ''Invalid Data Memory size for Message Queues!''] @
           [Object os_mq_data (c_array c_u64 (2 + OS_MSGQUEUE_NUM c + OS_MSGQUEUE_DATA_SIZE c div 8))]))"

definition rtx_lib :: "rtx_conf \<Rightarrow> rtx_decl list" where
  "rtx_lib c =
     os_system (rc_system c) @
     os_thread (rc_tfm_extension c) (rc_idle_name c) (rc_thread c) @
     os_timer (rc_tfm_extension c) (rc_timer_name c) (rc_timer c) @
     os_evflags (rc_evflags c) @ os_mutex (rc_mutex c) @ os_semaphore (rc_semaphore c) @
     os_mempool (rc_mempool c) @ os_msgqueue (rc_msgqueue c)"

subsection \<open>What the file declares\<close>

fun is_error :: "rtx_decl \<Rightarrow> bool" where
  "is_error (Error_line s) = True"
| "is_error d = False"

text \<open>
  The compiler is given by the size of the largest object it accepts, for GCC on a 32-bit target \<open>2 ^ 31 - 1\<close>
  bytes. The size is that of the C expression without overflow: an overflow in the constant expression of an
  array bound violates a constraint of the language.
\<close>

fun decl_fits :: "nat \<Rightarrow> rtx_decl \<Rightarrow> bool" where
  "decl_fits lim (Object x t) = (c_size t \<le> lim)"
| "decl_fits lim d = True"

definition compiles :: "nat \<Rightarrow> rtx_conf \<Rightarrow> bool" where
  "compiles lim c \<longleftrightarrow> list_all (\<lambda>d. \<not> is_error d) (rtx_lib c) \<and> list_all (decl_fits lim) (rtx_lib c)"

fun declared :: "rtx_decl \<Rightarrow> rtx_object list" where
  "declared (Object x t) = [x]"
| "declared (Mp_info x i) = [x]"
| "declared (Thread_attr x a) = [x]"
| "declared (Queue_attr x a) = [x]"
| "declared d = []"

text \<open>\<open>sizeof\<close> of an object, and the initial value of a structure.\<close>

fun object_in :: "rtx_decl list \<Rightarrow> rtx_object \<Rightarrow> nat option" where
  "object_in [] x = None"
| "object_in (Object y t # ds) x = (if x = y then Some (c_size t) else object_in ds x)"
| "object_in (d # ds) x = object_in ds x"

fun pool_in :: "rtx_decl list \<Rightarrow> rtx_object \<Rightarrow> rtx_object osRtxMpInfo_t option" where
  "pool_in [] x = None"
| "pool_in (Mp_info y i # ds) x = (if x = y then Some i else pool_in ds x)"
| "pool_in (d # ds) x = pool_in ds x"

fun thread_attr_in :: "rtx_decl list \<Rightarrow> rtx_object \<Rightarrow> rtx_object option osThreadAttr_t option" where
  "thread_attr_in [] x = None"
| "thread_attr_in (Thread_attr y a # ds) x = (if x = y then Some a else thread_attr_in ds x)"
| "thread_attr_in (d # ds) x = thread_attr_in ds x"

fun queue_attr_in :: "rtx_decl list \<Rightarrow> rtx_object \<Rightarrow> rtx_object option osMessageQueueAttr_t option" where
  "queue_attr_in [] x = None"
| "queue_attr_in (Queue_attr y a # ds) x = (if x = y then Some a else queue_attr_in ds x)"
| "queue_attr_in (d # ds) x = queue_attr_in ds x"

definition sizeof :: "rtx_conf \<Rightarrow> rtx_object \<Rightarrow> nat" where
  "sizeof c x = (case object_in (rtx_lib c) x of Some n \<Rightarrow> n | None \<Rightarrow> 0)"

subsection \<open>The structure osRtxConfig\<close>

definition osRtxConfig :: "rtx_conf \<Rightarrow> rtx_object osRtxConfig_t" where
  "osRtxConfig c =
    (let s = rc_system c; t = rc_thread c; tm = rc_timer c; mp = rc_mempool c; mq = rc_msgqueue c in
     \<lparr>cfg_flags = or (or (if OS_PRIVILEGE_MODE t \<noteq> 0 then osRtxConfigPrivilegedMode else 0)
                         (if OS_STACK_CHECK t \<noteq> 0 then osRtxConfigStackCheck else 0))
                     (if OS_STACK_WATERMARK t \<noteq> 0 then osRtxConfigStackWatermark else 0),
      cfg_tick_freq = word_of_nat (OS_TICK_FREQ s),
      cfg_robin_timeout = (if OS_ROBIN_ENABLE s \<noteq> 0 then word_of_nat (OS_ROBIN_TIMEOUT s) else 0),
      cfg_isr_queue =
        \<lparr>isr_data = Some os_isr_queue, isr_max = word_of_nat (sizeof c os_isr_queue div c_size c_ptr), isr_padding = 0\<rparr>,
      cfg_mem =
        (let stack = OS_THREAD_OBJ_MEM t \<noteq> 0 \<and> OS_THREAD_USER_STACK_SIZE t \<noteq> 0;
             pools = OS_MEMPOOL_OBJ_MEM mp \<noteq> 0 \<and> OS_MEMPOOL_DATA_SIZE mp \<noteq> 0;
             queues = OS_MSGQUEUE_OBJ_MEM mq \<noteq> 0 \<and> OS_MSGQUEUE_DATA_SIZE mq \<noteq> 0;
             common = OS_DYNAMIC_MEM_SIZE s \<noteq> 0 in
         \<lparr>mem_stack_addr = (if stack then Some os_thread_stack else None),
          mem_stack_size = (if stack then word_of_nat (sizeof c os_thread_stack) else 0),
          mem_mp_data_addr = (if pools then Some os_mp_data else None),
          mem_mp_data_size = (if pools then word_of_nat (sizeof c os_mp_data) else 0),
          mem_mq_data_addr = (if queues then Some os_mq_data else None),
          mem_mq_data_size = (if queues then word_of_nat (sizeof c os_mq_data) else 0),
          mem_common_addr = (if common then Some os_mem else None),
          mem_common_size = (if common then word_of_nat (OS_DYNAMIC_MEM_SIZE s) else 0)\<rparr>),
      cfg_mpi =
        \<lparr>mpi_stack = (if OS_THREAD_OBJ_MEM t \<noteq> 0 \<and> OS_THREAD_DEF_STACK_NUM t \<noteq> 0 then Some os_mpi_def_stack else None),
         mpi_thread = (if OS_THREAD_OBJ_MEM t \<noteq> 0 then Some os_mpi_thread else None),
         mpi_timer = (if OS_TIMER_OBJ_MEM tm \<noteq> 0 then Some os_mpi_timer else None),
         mpi_event_flags = (if OS_EVFLAGS_OBJ_MEM (rc_evflags c) \<noteq> 0 then Some os_mpi_ef else None),
         mpi_mutex = (if OS_MUTEX_OBJ_MEM (rc_mutex c) \<noteq> 0 then Some os_mpi_mutex else None),
         mpi_semaphore = (if OS_SEMAPHORE_OBJ_MEM (rc_semaphore c) \<noteq> 0 then Some os_mpi_semaphore else None),
         mpi_memory_pool = (if OS_MEMPOOL_OBJ_MEM mp \<noteq> 0 then Some os_mpi_mp else None),
         mpi_message_queue = (if OS_MSGQUEUE_OBJ_MEM mq \<noteq> 0 then Some os_mpi_mq else None)\<rparr>,
      cfg_thread_stack_size = word_of_nat (OS_STACK_SIZE t),
      cfg_idle_thread_attr = Some os_idle_thread_attr,
      cfg_timer_thread_attr = (if has_timer_thread tm then Some os_timer_thread_attr else None),
      cfg_timer_mq_attr = (if has_timer_thread tm then Some os_timer_mq_attr else None),
      cfg_timer_mq_mcnt = (if has_timer_thread tm then word_of_nat (OS_TIMER_CB_QUEUE tm) else 0)\<rparr>)"

subsection \<open>Lookups\<close>

lemma object_in_append [simp]:
  "object_in (ds @ es) x = (case object_in ds x of Some n \<Rightarrow> Some n | None \<Rightarrow> object_in es x)"
  by (induction ds x rule: object_in.induct) simp_all

lemma pool_in_append [simp]:
  "pool_in (ds @ es) x = (case pool_in ds x of Some n \<Rightarrow> Some n | None \<Rightarrow> pool_in es x)"
  by (induction ds x rule: pool_in.induct) simp_all

lemma thread_attr_in_append [simp]:
  "thread_attr_in (ds @ es) x = (case thread_attr_in ds x of Some n \<Rightarrow> Some n | None \<Rightarrow> thread_attr_in es x)"
  by (induction ds x rule: thread_attr_in.induct) simp_all

lemma queue_attr_in_append [simp]:
  "queue_attr_in (ds @ es) x = (case queue_attr_in ds x of Some n \<Rightarrow> Some n | None \<Rightarrow> queue_attr_in es x)"
  by (induction ds x rule: queue_attr_in.induct) simp_all

lemma in_on [simp]:
  "object_in (on b ds) x = (if b then object_in ds x else None)"
  "pool_in (on b ds) x = (if b then pool_in ds x else None)"
  "thread_attr_in (on b ds) x = (if b then thread_attr_in ds x else None)"
  "queue_attr_in (on b ds) x = (if b then queue_attr_in ds x else None)"
  by (simp_all add: on_def)

lemma list_all_on [simp]: "list_all P (on b ds) \<longleftrightarrow> (b \<longrightarrow> list_all P ds)"
  by (simp add: on_def)

lemma error_skipped [simp]: "object_in (on b [Error_line s] @ es) x = object_in es x"
  by (simp add: on_def)

lemma case_if [simp]:
  "(case (if b then p else q) of None \<Rightarrow> e | Some n \<Rightarrow> Some n) =
   (if b then (case p of None \<Rightarrow> e | Some n \<Rightarrow> Some n) else (case q of None \<Rightarrow> e | Some n \<Rightarrow> Some n))"
  by simp

text \<open>The objects of each section, and none other.\<close>

lemma system_objects [simp]:
  "object_in (os_system c) os_mem =
     (if OS_DYNAMIC_MEM_SIZE c \<noteq> 0 then Some (OS_DYNAMIC_MEM_SIZE c div 8 * 8) else None)"
  "object_in (os_system c) os_isr_queue = Some (OS_ISR_FIFO_QUEUE c * 4)"
  "x \<notin> {os_mem, os_isr_queue} \<Longrightarrow> object_in (os_system c) x = None"
  by (simp_all add: os_system_def c_types)

lemma thread_mem_objects [simp]:
  "object_in (os_thread_mem ext c) os_thread_cb = Some (OS_THREAD_NUM c * c_size (c_struct (osRtxThread_t ext)))"
  "object_in (os_thread_mem ext c) os_thread_def_stack =
     (if OS_THREAD_DEF_STACK_NUM c \<noteq> 0 then Some (OS_THREAD_DEF_STACK_NUM c * (OS_STACK_SIZE c div 8) * 8) else None)"
  "object_in (os_thread_mem ext c) os_thread_stack =
     (if OS_THREAD_USER_STACK_SIZE c \<noteq> 0
      then Some ((2 + OS_THREAD_NUM c + OS_THREAD_USER_STACK_SIZE c div 8) * 8) else None)"
  "x \<notin> {os_thread_cb, os_thread_def_stack, os_thread_stack} \<Longrightarrow> object_in (os_thread_mem ext c) x = None"
  by (simp_all add: os_thread_mem_def c_array_def c_u64_def)

lemma idle_objects [simp]:
  "object_in (os_idle_thread ext n c) os_idle_thread_cb = Some (c_size (c_struct (osRtxThread_t ext)))"
  "object_in (os_idle_thread ext n c) os_idle_thread_stack = Some (OS_IDLE_THREAD_STACK_SIZE c div 8 * 8)"
  "x \<notin> {os_idle_thread_cb, os_idle_thread_stack} \<Longrightarrow> object_in (os_idle_thread ext n c) x = None"
  by (simp_all add: os_idle_thread_def c_array_def c_u64_def)

lemma thread_objects [simp]:
  "object_in (os_thread ext n c) os_thread_cb =
     (if OS_THREAD_OBJ_MEM c \<noteq> 0 then Some (OS_THREAD_NUM c * c_size (c_struct (osRtxThread_t ext))) else None)"
  "object_in (os_thread ext n c) os_thread_def_stack =
     (if OS_THREAD_OBJ_MEM c \<noteq> 0 \<and> OS_THREAD_DEF_STACK_NUM c \<noteq> 0
      then Some (OS_THREAD_DEF_STACK_NUM c * (OS_STACK_SIZE c div 8) * 8) else None)"
  "object_in (os_thread ext n c) os_thread_stack =
     (if OS_THREAD_OBJ_MEM c \<noteq> 0 \<and> OS_THREAD_USER_STACK_SIZE c \<noteq> 0
      then Some ((2 + OS_THREAD_NUM c + OS_THREAD_USER_STACK_SIZE c div 8) * 8) else None)"
  "object_in (os_thread ext n c) os_idle_thread_cb = Some (c_size (c_struct (osRtxThread_t ext)))"
  "object_in (os_thread ext n c) os_idle_thread_stack = Some (OS_IDLE_THREAD_STACK_SIZE c div 8 * 8)"
  "x \<notin> {os_thread_cb, os_thread_def_stack, os_thread_stack, os_idle_thread_cb, os_idle_thread_stack} \<Longrightarrow>
   object_in (os_thread ext n c) x = None"
  by (simp_all add: os_thread_def)

lemma timer_thread_objects [simp]:
  "object_in (os_timer_thread ext n c) os_timer_thread_cb = Some (c_size (c_struct (osRtxThread_t ext)))"
  "object_in (os_timer_thread ext n c) os_timer_thread_stack = Some (OS_TIMER_THREAD_STACK_SIZE c div 8 * 8)"
  "object_in (os_timer_thread ext n c) os_timer_mq_cb = Some (c_size (c_struct osRtxMessageQueue_t))"
  "object_in (os_timer_thread ext n c) os_timer_mq_data = Some (osRtxMessageQueueMemSize (OS_TIMER_CB_QUEUE c) 8 div 4 * 4)"
  "x \<notin> {os_timer_thread_cb, os_timer_thread_stack, os_timer_mq_cb, os_timer_mq_data} \<Longrightarrow>
   object_in (os_timer_thread ext n c) x = None"
  by (simp_all add: os_timer_thread_def c_array_def c_u64_def c_u32_def)

lemma timer_objects [simp]:
  "object_in (os_timer ext n c) os_timer_cb =
     (if OS_TIMER_OBJ_MEM c \<noteq> 0 then Some (OS_TIMER_NUM c * c_size (c_struct osRtxTimer_t)) else None)"
  "object_in (os_timer ext n c) os_timer_thread_cb =
     (if has_timer_thread c then Some (c_size (c_struct (osRtxThread_t ext))) else None)"
  "object_in (os_timer ext n c) os_timer_thread_stack =
     (if has_timer_thread c then Some (OS_TIMER_THREAD_STACK_SIZE c div 8 * 8) else None)"
  "object_in (os_timer ext n c) os_timer_mq_cb =
     (if has_timer_thread c then Some (c_size (c_struct osRtxMessageQueue_t)) else None)"
  "object_in (os_timer ext n c) os_timer_mq_data =
     (if has_timer_thread c then Some (osRtxMessageQueueMemSize (OS_TIMER_CB_QUEUE c) 8 div 4 * 4) else None)"
  "x \<notin> {os_timer_cb, os_timer_thread_cb, os_timer_thread_stack, os_timer_mq_cb, os_timer_mq_data} \<Longrightarrow>
   object_in (os_timer ext n c) x = None"
  by (simp_all add: os_timer_def c_array_def)

lemma evflags_objects [simp]:
  "object_in (os_evflags c) os_ef_cb =
     (if OS_EVFLAGS_OBJ_MEM c \<noteq> 0 then Some (OS_EVFLAGS_NUM c * c_size (c_struct osRtxEventFlags_t)) else None)"
  "x \<noteq> os_ef_cb \<Longrightarrow> object_in (os_evflags c) x = None"
  by (simp_all add: os_evflags_def c_array_def)

lemma mutex_objects [simp]:
  "object_in (os_mutex c) os_mutex_cb =
     (if OS_MUTEX_OBJ_MEM c \<noteq> 0 then Some (OS_MUTEX_NUM c * c_size (c_struct osRtxMutex_t)) else None)"
  "x \<noteq> os_mutex_cb \<Longrightarrow> object_in (os_mutex c) x = None"
  by (simp_all add: os_mutex_def c_array_def)

lemma semaphore_objects [simp]:
  "object_in (os_semaphore c) os_semaphore_cb =
     (if OS_SEMAPHORE_OBJ_MEM c \<noteq> 0 then Some (OS_SEMAPHORE_NUM c * c_size (c_struct osRtxSemaphore_t)) else None)"
  "x \<noteq> os_semaphore_cb \<Longrightarrow> object_in (os_semaphore c) x = None"
  by (simp_all add: os_semaphore_def c_array_def)

lemma mempool_objects [simp]:
  "object_in (os_mempool c) os_mp_cb =
     (if OS_MEMPOOL_OBJ_MEM c \<noteq> 0 then Some (OS_MEMPOOL_NUM c * c_size (c_struct osRtxMemoryPool_t)) else None)"
  "object_in (os_mempool c) os_mp_data =
     (if OS_MEMPOOL_OBJ_MEM c \<noteq> 0 \<and> OS_MEMPOOL_DATA_SIZE c \<noteq> 0
      then Some ((2 + OS_MEMPOOL_NUM c + OS_MEMPOOL_DATA_SIZE c div 8) * 8) else None)"
  "x \<notin> {os_mp_cb, os_mp_data} \<Longrightarrow> object_in (os_mempool c) x = None"
  by (simp_all add: os_mempool_def c_array_def c_u64_def)

lemma msgqueue_objects [simp]:
  "object_in (os_msgqueue c) os_mq_cb =
     (if OS_MSGQUEUE_OBJ_MEM c \<noteq> 0 then Some (OS_MSGQUEUE_NUM c * c_size (c_struct osRtxMessageQueue_t)) else None)"
  "object_in (os_msgqueue c) os_mq_data =
     (if OS_MSGQUEUE_OBJ_MEM c \<noteq> 0 \<and> OS_MSGQUEUE_DATA_SIZE c \<noteq> 0
      then Some ((2 + OS_MSGQUEUE_NUM c + OS_MSGQUEUE_DATA_SIZE c div 8) * 8) else None)"
  "x \<notin> {os_mq_cb, os_mq_data} \<Longrightarrow> object_in (os_msgqueue c) x = None"
  by (simp_all add: os_msgqueue_def c_array_def c_u64_def)

end
