(* ===== verification/Rtx_Correct.thy ===== *)
theory Rtx_Correct
  imports Rtx_Static
begin

section \<open>Accepted configurations of RTX are consistent\<close>

text \<open>
  Which configurations compile, and that in those the structure \<open>osRtxConfig\<close> names only objects the file
  declares, with their true sizes.
\<close>

subsection \<open>Which configurations compile\<close>

lemmas cb_values = rtx_cb_sizes [unfolded osRtxThreadCbSize_def osRtxTimerCbSize_def osRtxEventFlagsCbSize_def
  osRtxMutexCbSize_def osRtxSemaphoreCbSize_def osRtxMemoryPoolCbSize_def osRtxMessageQueueCbSize_def]

definition timer_stack_too_small :: "rtx_timer \<Rightarrow> bool" where
  "timer_stack_too_small c \<longleftrightarrow> has_timer_thread c \<and> OS_TIMER_THREAD_STACK_SIZE c < 96"

lemma section_errors [simp]:
  "system_offered s \<Longrightarrow> list_all (\<lambda>d. \<not> is_error d) (os_system s)"
  "thread_offered t \<Longrightarrow> list_all (\<lambda>d. \<not> is_error d) (os_thread ext n t)"
  "timer_offered tm \<Longrightarrow> list_all (\<lambda>d. \<not> is_error d) (os_timer ext m tm) \<longleftrightarrow> \<not> timer_stack_too_small tm"
  "evflags_offered ef \<Longrightarrow> list_all (\<lambda>d. \<not> is_error d) (os_evflags ef)"
  "mutex_offered mx \<Longrightarrow> list_all (\<lambda>d. \<not> is_error d) (os_mutex mx)"
  "semaphore_offered sm \<Longrightarrow> list_all (\<lambda>d. \<not> is_error d) (os_semaphore sm)"
  "mempool_offered mp \<Longrightarrow> list_all (\<lambda>d. \<not> is_error d) (os_mempool mp)"
  "msgqueue_offered mq \<Longrightarrow> list_all (\<lambda>d. \<not> is_error d) (os_msgqueue mq)"
  by (auto simp: os_system_def os_thread_def os_thread_mem_def os_idle_thread_def os_timer_def os_timer_thread_def os_evflags_def os_mutex_def os_semaphore_def os_mempool_def
      os_msgqueue_def system_offered_def thread_offered_def timer_offered_def evflags_offered_def mutex_offered_def
      semaphore_offered_def mempool_offered_def msgqueue_offered_def timer_stack_too_small_def in_range_def in_steps_def)

text \<open>
  All sizes the annotations offer fit into \<open>2 ^ 30 + 8016\<close> bytes, the largest being a stack or data memory
  of \<open>2 ^ 30\<close> bytes with its 1002 extra words. The only product of two large numbers is the memory of the
  default stacks.
\<close>

definition default_stacks_too_big :: "nat \<Rightarrow> rtx_thread \<Rightarrow> bool" where
  "default_stacks_too_big lim c \<longleftrightarrow> OS_THREAD_OBJ_MEM c \<noteq> 0 \<and> lim < OS_THREAD_DEF_STACK_NUM c * OS_STACK_SIZE c"

lemma eights: "n mod 8 = 0 \<Longrightarrow> \<exists>s. n = s * 8" for n :: nat
  by presburger

lemma section_sizes [simp]:
  assumes lim: "1073749840 \<le> lim"
  shows "system_offered s \<Longrightarrow> list_all (decl_fits lim) (os_system s)"
    and "thread_offered t \<Longrightarrow> list_all (decl_fits lim) (os_thread ext n t) \<longleftrightarrow> \<not> default_stacks_too_big lim t"
    and "timer_offered tm \<Longrightarrow> list_all (decl_fits lim) (os_timer ext m tm)"
    and "evflags_offered ef \<Longrightarrow> list_all (decl_fits lim) (os_evflags ef)"
    and "mutex_offered mx \<Longrightarrow> list_all (decl_fits lim) (os_mutex mx)"
    and "semaphore_offered sm \<Longrightarrow> list_all (decl_fits lim) (os_semaphore sm)"
    and "mempool_offered mp \<Longrightarrow> list_all (decl_fits lim) (os_mempool mp)"
    and "msgqueue_offered mq \<Longrightarrow> list_all (decl_fits lim) (os_msgqueue mq)"
proof -
  note sizes = c_array_def c_types cb_values on_def in_range_def in_steps_def
  show "system_offered s \<Longrightarrow> list_all (decl_fits lim) (os_system s)"
    using lim by (auto simp: os_system_def system_offered_def sizes)
  show "thread_offered t \<Longrightarrow> list_all (decl_fits lim) (os_thread ext n t) \<longleftrightarrow> \<not> default_stacks_too_big lim t"
  proof -
    assume t: "thread_offered t"
    then have "OS_STACK_SIZE t mod 8 = 0" by (simp add: thread_offered_def in_steps_def)
    then obtain k where k: "OS_STACK_SIZE t = k * 8" using eights [of "OS_STACK_SIZE t"] by auto
    show ?thesis
      using lim t by (auto simp: os_thread_def os_thread_mem_def os_idle_thread_def thread_offered_def sizes k default_stacks_too_big_def)
  qed
  show "timer_offered tm \<Longrightarrow> list_all (decl_fits lim) (os_timer ext m tm)"
    using lim by (auto simp: os_timer_def os_timer_thread_def timer_offered_def sizes osRtxMessageQueueMemSize_def)
  show "evflags_offered ef \<Longrightarrow> list_all (decl_fits lim) (os_evflags ef)"
    using lim by (auto simp: os_evflags_def evflags_offered_def sizes)
  show "mutex_offered mx \<Longrightarrow> list_all (decl_fits lim) (os_mutex mx)"
    using lim by (auto simp: os_mutex_def mutex_offered_def sizes)
  show "semaphore_offered sm \<Longrightarrow> list_all (decl_fits lim) (os_semaphore sm)"
    using lim by (auto simp: os_semaphore_def semaphore_offered_def sizes)
  show "mempool_offered mp \<Longrightarrow> list_all (decl_fits lim) (os_mempool mp)"
    using lim by (auto simp: os_mempool_def mempool_offered_def sizes)
  show "msgqueue_offered mq \<Longrightarrow> list_all (decl_fits lim) (os_msgqueue mq)"
    using lim by (auto simp: os_msgqueue_def msgqueue_offered_def sizes)
qed

lemma offered_compiles:
  "offered c \<Longrightarrow> 1073749840 \<le> lim \<Longrightarrow>
   compiles lim c \<longleftrightarrow> \<not> timer_stack_too_small (rc_timer c) \<and> \<not> default_stacks_too_big lim (rc_thread c)"
  by (simp add: compiles_def rtx_lib_def offered_def)

subsection \<open>The structures of the sections\<close>

lemma thread_structs [simp]:
  "pool_in (os_thread ext n c) os_mpi_thread =
     (if OS_THREAD_OBJ_MEM c \<noteq> 0
      then Some (mp_info (OS_THREAD_NUM c) (c_size (c_struct (osRtxThread_t ext))) os_thread_cb) else None)"
  "pool_in (os_thread ext n c) os_mpi_def_stack =
     (if OS_THREAD_OBJ_MEM c \<noteq> 0 \<and> OS_THREAD_DEF_STACK_NUM c \<noteq> 0
      then Some (mp_info (OS_THREAD_DEF_STACK_NUM c) (OS_STACK_SIZE c) os_thread_def_stack) else None)"
  "x \<notin> {os_mpi_thread, os_mpi_def_stack} \<Longrightarrow> pool_in (os_thread ext n c) x = None"
  "x \<noteq> os_idle_thread_attr \<Longrightarrow> thread_attr_in (os_thread ext n c) x = None"
  "queue_attr_in (os_thread ext n c) x = None"
  by (simp_all add: os_thread_def os_thread_mem_def os_idle_thread_def osRtxThreadCbSize_def del: rtx_cb_sizes)

lemma timer_structs [simp]:
  "pool_in (os_timer ext n c) os_mpi_timer =
     (if OS_TIMER_OBJ_MEM c \<noteq> 0 then Some (mp_info (OS_TIMER_NUM c) (c_size (c_struct osRtxTimer_t)) os_timer_cb) else None)"
  "x \<noteq> os_mpi_timer \<Longrightarrow> pool_in (os_timer ext n c) x = None"
  "x \<noteq> os_timer_thread_attr \<Longrightarrow> thread_attr_in (os_timer ext n c) x = None"
  by (simp_all add: os_timer_def os_timer_thread_def osRtxTimerCbSize_def del: rtx_cb_sizes)

lemma object_structs [simp]:
  "pool_in (os_system s) x = None" "thread_attr_in (os_system s) x = None" "queue_attr_in (os_system s) x = None"
  "pool_in (os_evflags ef) os_mpi_ef =
     (if OS_EVFLAGS_OBJ_MEM ef \<noteq> 0 then Some (mp_info (OS_EVFLAGS_NUM ef) (c_size (c_struct osRtxEventFlags_t)) os_ef_cb) else None)"
  "x \<noteq> os_mpi_ef \<Longrightarrow> pool_in (os_evflags ef) x = None"
  "pool_in (os_mutex mx) os_mpi_mutex =
     (if OS_MUTEX_OBJ_MEM mx \<noteq> 0 then Some (mp_info (OS_MUTEX_NUM mx) (c_size (c_struct osRtxMutex_t)) os_mutex_cb) else None)"
  "x \<noteq> os_mpi_mutex \<Longrightarrow> pool_in (os_mutex mx) x = None"
  "pool_in (os_semaphore sm) os_mpi_semaphore =
     (if OS_SEMAPHORE_OBJ_MEM sm \<noteq> 0
      then Some (mp_info (OS_SEMAPHORE_NUM sm) (c_size (c_struct osRtxSemaphore_t)) os_semaphore_cb) else None)"
  "x \<noteq> os_mpi_semaphore \<Longrightarrow> pool_in (os_semaphore sm) x = None"
  "pool_in (os_mempool mp) os_mpi_mp =
     (if OS_MEMPOOL_OBJ_MEM mp \<noteq> 0 then Some (mp_info (OS_MEMPOOL_NUM mp) (c_size (c_struct osRtxMemoryPool_t)) os_mp_cb) else None)"
  "x \<noteq> os_mpi_mp \<Longrightarrow> pool_in (os_mempool mp) x = None"
  "pool_in (os_msgqueue mq) os_mpi_mq =
     (if OS_MSGQUEUE_OBJ_MEM mq \<noteq> 0 then Some (mp_info (OS_MSGQUEUE_NUM mq) (c_size (c_struct osRtxMessageQueue_t)) os_mq_cb) else None)"
  by (simp_all add: os_system_def os_evflags_def os_mutex_def os_semaphore_def os_mempool_def os_msgqueue_def
      osRtxEventFlagsCbSize_def osRtxMutexCbSize_def osRtxSemaphoreCbSize_def osRtxMemoryPoolCbSize_def
      osRtxMessageQueueCbSize_def del: rtx_cb_sizes)

text \<open>The attributes of the kernel's own threads and of the timer queue.\<close>

lemma kernel_attrs:
  "thread_attr_in (rtx_lib c) os_idle_thread_attr = Some
     \<lparr>th_name = rc_idle_name c, th_attr_bits = osThreadDetached,
      th_cb_mem = Some os_idle_thread_cb, th_cb_size = word_of_nat (c_size (c_struct (osRtxThread_t (rc_tfm_extension c)))),
      th_stack_mem = Some os_idle_thread_stack, th_stack_size = word_of_nat (OS_IDLE_THREAD_STACK_SIZE (rc_thread c) div 8 * 8),
      th_priority = word_of_int (osPriority_code osPriorityIdle),
      th_tz_module = word_of_nat (OS_IDLE_THREAD_TZ_MOD_ID (rc_thread c)), th_reserved = 0\<rparr>"
  by (simp add: rtx_lib_def os_thread_def os_thread_mem_def os_idle_thread_def c_array_def c_u64_def)

lemma timer_attrs:
  assumes "has_timer_thread (rc_timer c)"
  shows "thread_attr_in (rtx_lib c) os_timer_thread_attr = Some
     \<lparr>th_name = rc_timer_name c, th_attr_bits = osThreadDetached,
      th_cb_mem = Some os_timer_thread_cb, th_cb_size = word_of_nat (c_size (c_struct (osRtxThread_t (rc_tfm_extension c)))),
      th_stack_mem = Some os_timer_thread_stack, th_stack_size = word_of_nat (OS_TIMER_THREAD_STACK_SIZE (rc_timer c) div 8 * 8),
      th_priority = word_of_nat (OS_TIMER_THREAD_PRIO (rc_timer c)),
      th_tz_module = word_of_nat (OS_TIMER_THREAD_TZ_MOD_ID (rc_timer c)), th_reserved = 0\<rparr>"
    and "queue_attr_in (rtx_lib c) os_timer_mq_attr = Some
     \<lparr>mqa_name = None, mqa_attr_bits = 0,
      mqa_cb_mem = Some os_timer_mq_cb, mqa_cb_size = word_of_nat (c_size (c_struct osRtxMessageQueue_t)),
      mqa_mq_mem = Some os_timer_mq_data,
      mqa_mq_size = word_of_nat (osRtxMessageQueueMemSize (OS_TIMER_CB_QUEUE (rc_timer c)) 8 div 4 * 4)\<rparr>"
  using assms by (simp_all add: rtx_lib_def os_timer_def os_timer_thread_def c_array_def c_u64_def c_u32_def)

subsection \<open>The configuration structure\<close>

text \<open>
  What each field has to describe is fixed by the objects of the file, one kind of object for each field: where
  the object is not declared the field is empty; where it is, the field leads to it and gives its true size.
  A memory region is one object, in multiples of 8 bytes.
\<close>

definition region_ok :: "rtx_conf \<Rightarrow> rtx_object \<Rightarrow> rtx_object option \<Rightarrow> 32 word \<Rightarrow> bool" where
  "region_ok c x addr sz \<longleftrightarrow>
     (case object_in (rtx_lib c) x of None \<Rightarrow> addr = None \<and> sz = 0
      | Some n \<Rightarrow> addr = Some x \<and> unat sz = n \<and> n mod 8 = 0)"

text \<open>A pool is a structure of the file whose blocks, of the size and number its kind has, fill the object.\<close>

definition pool_ok :: "rtx_conf \<Rightarrow> rtx_object \<Rightarrow> nat \<Rightarrow> nat \<Rightarrow> rtx_object option \<Rightarrow> bool" where
  "pool_ok c base num block p \<longleftrightarrow>
     (case object_in (rtx_lib c) base of None \<Rightarrow> p = None
      | Some n \<Rightarrow> n = num * block \<and> 0 < num \<and>
          (case p of None \<Rightarrow> False
           | Some x \<Rightarrow> (case pool_in (rtx_lib c) x of None \<Rightarrow> False
               | Some i \<Rightarrow> used_blocks i = 0 \<and> unat (max_blocks i) = num \<and> unat (block_size i) = block \<and>
                   block_base i = Some base)))"

definition thread_attr_ok :: "rtx_conf \<Rightarrow> rtx_object \<Rightarrow> rtx_object \<Rightarrow> nat \<Rightarrow> rtx_object option \<Rightarrow> bool" where
  "thread_attr_ok c cb stack least p \<longleftrightarrow>
     (case object_in (rtx_lib c) cb of None \<Rightarrow> p = None
      | Some n \<Rightarrow> n = osRtxThreadCbSize (rc_tfm_extension c) \<and>
          (case p of None \<Rightarrow> False
           | Some x \<Rightarrow> (case thread_attr_in (rtx_lib c) x of None \<Rightarrow> False
               | Some a \<Rightarrow> th_cb_mem a = Some cb \<and> unat (th_cb_size a) = n \<and>
                   region_ok c stack (th_stack_mem a) (th_stack_size a) \<and> least \<le> unat (th_stack_size a))))"

definition queue_attr_ok :: "rtx_conf \<Rightarrow> rtx_object \<Rightarrow> rtx_object \<Rightarrow> 32 word \<Rightarrow> rtx_object option \<Rightarrow> bool" where
  "queue_attr_ok c cb data cnt p \<longleftrightarrow>
     (case object_in (rtx_lib c) cb of None \<Rightarrow> p = None \<and> cnt = 0
      | Some n \<Rightarrow> n = osRtxMessageQueueCbSize \<and> 0 < cnt \<and>
          (case p of None \<Rightarrow> False
           | Some x \<Rightarrow> (case queue_attr_in (rtx_lib c) x of None \<Rightarrow> False
               | Some a \<Rightarrow> mqa_cb_mem a = Some cb \<and> unat (mqa_cb_size a) = n \<and> mqa_mq_mem a = Some data \<and>
                   object_in (rtx_lib c) data = Some (unat (mqa_mq_size a)) \<and>
                   unat (mqa_mq_size a) = osRtxMessageQueueMemSize (unat cnt) 8)))"

lemma unat_word_of_nat: "n < 2 ^ 32 \<Longrightarrow> unat (word_of_nat n :: 32 word) = n"
  by (simp add: unsigned_of_nat take_bit_nat_eq_self)

text \<open>The sums and products the simplifier moves into the words.\<close>

lemma unat_bytes: "n < 2 ^ 29 \<Longrightarrow> unat (word_of_nat n * 8 :: 32 word) = n * 8"
  using unat_word_of_nat [of "n * 8"] by simp

lemma unat_words: "n < 2 ^ 27 \<Longrightarrow> unat (20 * word_of_nat n :: 32 word) = 20 * n"
  using unat_word_of_nat [of "20 * n"] by simp

lemma region_sized:
  assumes "object_in (rtx_lib c) x = (if b then Some m else None)" "m < 2 ^ 32" "m mod 8 = 0"
  shows "region_ok c x (if b then Some x else None) (if b then word_of_nat (sizeof c x) else 0)"
  using assms by (simp add: region_ok_def sizeof_def unat_word_of_nat)

lemma mem_regions:
  assumes "offered c" and k: "k = cfg_mem (osRtxConfig c)"
  shows "region_ok c os_thread_stack (mem_stack_addr k) (mem_stack_size k)"
    and "region_ok c os_mp_data (mem_mp_data_addr k) (mem_mp_data_size k)"
    and "region_ok c os_mq_data (mem_mq_data_addr k) (mem_mq_data_size k)"
    and "region_ok c os_mem (mem_common_addr k) (mem_common_size k)"
proof -
  have t: "OS_THREAD_NUM (rc_thread c) \<le> 1000" "OS_THREAD_USER_STACK_SIZE (rc_thread c) \<le> 1073741824"
    and mp: "OS_MEMPOOL_NUM (rc_mempool c) \<le> 1000" "OS_MEMPOOL_DATA_SIZE (rc_mempool c) \<le> 1073741824"
    and mq: "OS_MSGQUEUE_NUM (rc_msgqueue c) \<le> 1000" "OS_MSGQUEUE_DATA_SIZE (rc_msgqueue c) \<le> 1073741824"
    and s: "OS_DYNAMIC_MEM_SIZE (rc_system c) \<le> 1073741824" "OS_DYNAMIC_MEM_SIZE (rc_system c) mod 8 = 0"
    using assms by (simp_all add: offered_def system_offered_def thread_offered_def mempool_offered_def msgqueue_offered_def
        in_range_def in_steps_def)
  have size8: "(2 + n + m div 8) * 8 < 2 ^ 32" if "n \<le> 1000" "m \<le> 1073741824" for n m :: nat
    using that by (auto simp: algebra_simps)
  note fields = k osRtxConfig_def Let_def osRtxConfig_t.simps rtx_mem.simps
  show "region_ok c os_thread_stack (mem_stack_addr k) (mem_stack_size k)"
    unfolding fields by (rule region_sized [OF _ size8 [OF t]]) (simp_all add: rtx_lib_def)
  show "region_ok c os_mp_data (mem_mp_data_addr k) (mem_mp_data_size k)"
    unfolding fields by (rule region_sized [OF _ size8 [OF mp]]) (simp_all add: rtx_lib_def)
  show "region_ok c os_mq_data (mem_mq_data_addr k) (mem_mq_data_size k)"
    unfolding fields by (rule region_sized [OF _ size8 [OF mq]]) (simp_all add: rtx_lib_def)
  have "OS_DYNAMIC_MEM_SIZE (rc_system c) div 8 * 8 = OS_DYNAMIC_MEM_SIZE (rc_system c)" using s by auto
  then show "region_ok c os_mem (mem_common_addr k) (mem_common_size k)"
    using s by (auto simp: k osRtxConfig_def Let_def region_ok_def rtx_lib_def unat_word_of_nat)
qed

lemma pool_present:
  assumes "b \<Longrightarrow> pool_in (rtx_lib c) x = Some (mp_info n block y)"
    and "object_in (rtx_lib c) y = (if b then Some (n * block) else None)"
    and "b \<Longrightarrow> 0 < n" "n < 2 ^ 32" "block < 2 ^ 32"
  shows "pool_ok c y n block (if b then Some x else None)"
proof (cases b)
  case True
  have "unat (word_of_nat n :: 32 word) = n" "unat (word_of_nat block :: 32 word) = block"
    using assms by (simp_all only: unat_word_of_nat)
  then show ?thesis using assms True by (simp add: pool_ok_def mp_info_def)
qed (use assms in \<open>simp add: pool_ok_def\<close>)

lemma mpi_pools:
  assumes "offered c" and k: "k = cfg_mpi (osRtxConfig c)"
  shows "pool_ok c os_thread_def_stack (OS_THREAD_DEF_STACK_NUM (rc_thread c)) (OS_STACK_SIZE (rc_thread c)) (mpi_stack k)"
    and "pool_ok c os_thread_cb (OS_THREAD_NUM (rc_thread c)) (osRtxThreadCbSize (rc_tfm_extension c)) (mpi_thread k)"
    and "pool_ok c os_timer_cb (OS_TIMER_NUM (rc_timer c)) osRtxTimerCbSize (mpi_timer k)"
    and "pool_ok c os_ef_cb (OS_EVFLAGS_NUM (rc_evflags c)) osRtxEventFlagsCbSize (mpi_event_flags k)"
    and "pool_ok c os_mutex_cb (OS_MUTEX_NUM (rc_mutex c)) osRtxMutexCbSize (mpi_mutex k)"
    and "pool_ok c os_semaphore_cb (OS_SEMAPHORE_NUM (rc_semaphore c)) osRtxSemaphoreCbSize (mpi_semaphore k)"
    and "pool_ok c os_mp_cb (OS_MEMPOOL_NUM (rc_mempool c)) osRtxMemoryPoolCbSize (mpi_memory_pool k)"
    and "pool_ok c os_mq_cb (OS_MSGQUEUE_NUM (rc_msgqueue c)) osRtxMessageQueueCbSize (mpi_message_queue k)"
proof -
  have t: "in_range (OS_THREAD_NUM (rc_thread c)) 1 1000" "OS_THREAD_DEF_STACK_NUM (rc_thread c) \<le> 1000"
      "OS_STACK_SIZE (rc_thread c) \<le> 1073741824" "OS_STACK_SIZE (rc_thread c) mod 8 = 0"
    and o: "in_range (OS_TIMER_NUM (rc_timer c)) 1 1000" "in_range (OS_EVFLAGS_NUM (rc_evflags c)) 1 1000"
      "in_range (OS_MUTEX_NUM (rc_mutex c)) 1 1000" "in_range (OS_SEMAPHORE_NUM (rc_semaphore c)) 1 1000"
      "in_range (OS_MEMPOOL_NUM (rc_mempool c)) 1 1000" "in_range (OS_MSGQUEUE_NUM (rc_msgqueue c)) 1 1000"
    using assms by (simp_all add: offered_def thread_offered_def timer_offered_def evflags_offered_def mutex_offered_def
        semaphore_offered_def mempool_offered_def msgqueue_offered_def in_range_def in_steps_def)
  obtain s where s: "OS_STACK_SIZE (rc_thread c) = s * 8" using eights [OF t(4)] by blast
  note fields = k osRtxConfig_def Let_def osRtxConfig_t.simps rtx_mpi.simps
  note facts = rtx_lib_def in_range_def cb_values
  show "pool_ok c os_thread_def_stack (OS_THREAD_DEF_STACK_NUM (rc_thread c)) (OS_STACK_SIZE (rc_thread c)) (mpi_stack k)"
    unfolding fields
    by (rule pool_present) (use t(2,3) s in \<open>auto simp: rtx_lib_def\<close>)
  show "pool_ok c os_thread_cb (OS_THREAD_NUM (rc_thread c)) (osRtxThreadCbSize (rc_tfm_extension c)) (mpi_thread k)"
    unfolding fields
    by (rule pool_present) (use t(1) in \<open>auto simp: facts\<close>)
  show "pool_ok c os_timer_cb (OS_TIMER_NUM (rc_timer c)) osRtxTimerCbSize (mpi_timer k)"
    unfolding fields
    by (rule pool_present) (use o in \<open>auto simp: facts\<close>)
  show "pool_ok c os_ef_cb (OS_EVFLAGS_NUM (rc_evflags c)) osRtxEventFlagsCbSize (mpi_event_flags k)"
    unfolding fields
    by (rule pool_present) (use o in \<open>auto simp: facts\<close>)
  show "pool_ok c os_mutex_cb (OS_MUTEX_NUM (rc_mutex c)) osRtxMutexCbSize (mpi_mutex k)"
    unfolding fields
    by (rule pool_present) (use o in \<open>auto simp: facts\<close>)
  show "pool_ok c os_semaphore_cb (OS_SEMAPHORE_NUM (rc_semaphore c)) osRtxSemaphoreCbSize (mpi_semaphore k)"
    unfolding fields
    by (rule pool_present) (use o in \<open>auto simp: facts\<close>)
  show "pool_ok c os_mp_cb (OS_MEMPOOL_NUM (rc_mempool c)) osRtxMemoryPoolCbSize (mpi_memory_pool k)"
    unfolding fields
    by (rule pool_present) (use o in \<open>auto simp: facts\<close>)
  show "pool_ok c os_mq_cb (OS_MSGQUEUE_NUM (rc_msgqueue c)) osRtxMessageQueueCbSize (mpi_message_queue k)"
    unfolding fields
    by (rule pool_present) (use o in \<open>auto simp: facts\<close>)
qed

lemma kernel_threads:
  assumes "offered c" "\<not> timer_stack_too_small (rc_timer c)" and k: "k = osRtxConfig c"
  shows "thread_attr_ok c os_idle_thread_cb os_idle_thread_stack 72 (cfg_idle_thread_attr k)"
    and "thread_attr_ok c os_timer_thread_cb os_timer_thread_stack 96 (cfg_timer_thread_attr k)"
    and "queue_attr_ok c os_timer_mq_cb os_timer_mq_data (cfg_timer_mq_mcnt k) (cfg_timer_mq_attr k)"
proof -
  have idle: "72 \<le> n \<and> n \<le> 1073741824 \<and> n mod 8 = 0" if "n = OS_IDLE_THREAD_STACK_SIZE (rc_thread c)" for n
    using assms that by (auto simp: offered_def thread_offered_def in_steps_def)
  obtain n where "OS_IDLE_THREAD_STACK_SIZE (rc_thread c) = n * 8" using idle [OF refl] eights [of "OS_IDLE_THREAD_STACK_SIZE (rc_thread c)"] by auto
  moreover have "object_in (rtx_lib c) os_idle_thread_cb = Some (c_size (c_struct (osRtxThread_t (rc_tfm_extension c))))"
    "object_in (rtx_lib c) os_idle_thread_stack = Some (OS_IDLE_THREAD_STACK_SIZE (rc_thread c) div 8 * 8)"
    by (simp_all add: rtx_lib_def)
  ultimately show "thread_attr_ok c os_idle_thread_cb os_idle_thread_stack 72 (cfg_idle_thread_attr k)"
    using idle [OF refl]
    by (simp add: k osRtxConfig_def Let_def thread_attr_ok_def kernel_attrs region_ok_def unat_bytes cb_values)
  have both: "thread_attr_ok c os_timer_thread_cb os_timer_thread_stack 96 (cfg_timer_thread_attr k) \<and>
      queue_attr_ok c os_timer_mq_cb os_timer_mq_data (cfg_timer_mq_mcnt k) (cfg_timer_mq_attr k)"
  proof (cases "has_timer_thread (rc_timer c)")
    case True
    have timer: "96 \<le> n \<and> n \<le> 1073741824 \<and> n mod 8 = 0" if "n = OS_TIMER_THREAD_STACK_SIZE (rc_timer c)" for n
      using assms True that by (auto simp: offered_def timer_offered_def in_steps_def timer_stack_too_small_def)
    obtain s where s: "OS_TIMER_THREAD_STACK_SIZE (rc_timer c) = s * 8" using timer [OF refl] eights [of "OS_TIMER_THREAD_STACK_SIZE (rc_timer c)"] by auto
    have q: "OS_TIMER_CB_QUEUE (rc_timer c) \<le> 256" "0 < OS_TIMER_CB_QUEUE (rc_timer c)"
      using assms True by (auto simp: offered_def timer_offered_def in_range_def has_timer_thread_def)
    have objects: "object_in (rtx_lib c) os_timer_thread_cb = Some (c_size (c_struct (osRtxThread_t (rc_tfm_extension c))))"
      "object_in (rtx_lib c) os_timer_thread_stack = Some (OS_TIMER_THREAD_STACK_SIZE (rc_timer c) div 8 * 8)"
      "object_in (rtx_lib c) os_timer_mq_cb = Some (c_size (c_struct osRtxMessageQueue_t))"
      "object_in (rtx_lib c) os_timer_mq_data = Some (osRtxMessageQueueMemSize (OS_TIMER_CB_QUEUE (rc_timer c)) 8 div 4 * 4)"
      using True by (simp_all add: rtx_lib_def)
    have "thread_attr_ok c os_timer_thread_cb os_timer_thread_stack 96 (cfg_timer_thread_attr k)"
      using timer [OF refl] s True objects
      by (simp add: k osRtxConfig_def Let_def thread_attr_ok_def timer_attrs region_ok_def unat_bytes cb_values)
    moreover have "unat (cfg_timer_mq_mcnt k) = OS_TIMER_CB_QUEUE (rc_timer c)"
      using q True by (simp add: k osRtxConfig_def Let_def unat_word_of_nat)
    moreover from this q have "0 < cfg_timer_mq_mcnt k" by (metis unat_0 word_neq_0_conv less_irrefl)
    moreover have "cfg_timer_mq_attr k = Some os_timer_mq_attr" using True by (simp add: k osRtxConfig_def Let_def)
    ultimately show ?thesis
      using q True objects
      by (simp add: queue_attr_ok_def timer_attrs unat_words unat_word_of_nat cb_values osRtxMessageQueueMemSize_def)
  next
    case False
    then have "object_in (rtx_lib c) os_timer_thread_cb = None" "object_in (rtx_lib c) os_timer_mq_cb = None"
      by (simp_all add: rtx_lib_def)
    with False show ?thesis by (simp add: k osRtxConfig_def Let_def thread_attr_ok_def queue_attr_ok_def)
  qed
  then show "thread_attr_ok c os_timer_thread_cb os_timer_thread_stack 96 (cfg_timer_thread_attr k)"
    and "queue_attr_ok c os_timer_mq_cb os_timer_mq_data (cfg_timer_mq_mcnt k) (cfg_timer_mq_attr k)"
    by blast+
qed

lemma isr_queue:
  assumes "offered c" and k: "k = cfg_isr_queue (osRtxConfig c)"
  shows "isr_data k = Some os_isr_queue" and "object_in (rtx_lib c) os_isr_queue = Some (4 * unat (isr_max k))"
    and "4 \<le> unat (isr_max k)"
proof -
  have n: "4 \<le> OS_ISR_FIFO_QUEUE (rc_system c)" "OS_ISR_FIFO_QUEUE (rc_system c) \<le> 256"
    using assms by (auto simp: offered_def system_offered_def)
  have size: "object_in (rtx_lib c) os_isr_queue = Some (OS_ISR_FIFO_QUEUE (rc_system c) * 4)" by (simp add: rtx_lib_def)
  then have "sizeof c os_isr_queue = OS_ISR_FIFO_QUEUE (rc_system c) * 4" by (simp add: sizeof_def)
  with n have max: "isr_max k = word_of_nat (OS_ISR_FIFO_QUEUE (rc_system c))" by (simp add: k osRtxConfig_def Let_def c_ptr_def)
  with n have "unat (isr_max k) = OS_ISR_FIFO_QUEUE (rc_system c)"
    by (simp add: unsigned_of_nat take_bit_nat_eq_self)
  moreover show "isr_data k = Some os_isr_queue" by (simp add: k osRtxConfig_def Let_def)
  ultimately show "object_in (rtx_lib c) os_isr_queue = Some (4 * unat (isr_max k))" "4 \<le> unat (isr_max k)"
    using n size by simp_all
qed

text \<open>The numbers that are taken over from the options.\<close>

lemma cfg_numbers:
  assumes "offered c" and k: "k = osRtxConfig c"
  shows "unat (cfg_tick_freq k) = OS_TICK_FREQ (rc_system c)" and "unat (cfg_thread_stack_size k) = OS_STACK_SIZE (rc_thread c)"
  using assms by (simp_all add: osRtxConfig_def Let_def offered_def system_offered_def thread_offered_def in_range_def
      in_steps_def unat_word_of_nat)

text \<open>The whole structure.\<close>

definition config_ok :: "rtx_conf \<Rightarrow> rtx_object osRtxConfig_t \<Rightarrow> bool" where
  "config_ok c k \<longleftrightarrow>
     (let q = cfg_isr_queue k; m = cfg_mem k; p = cfg_mpi k; t = rc_thread c in
      isr_data q = Some os_isr_queue \<and> object_in (rtx_lib c) os_isr_queue = Some (4 * unat (isr_max q)) \<and> 4 \<le> unat (isr_max q) \<and>
      region_ok c os_thread_stack (mem_stack_addr m) (mem_stack_size m) \<and>
      region_ok c os_mp_data (mem_mp_data_addr m) (mem_mp_data_size m) \<and>
      region_ok c os_mq_data (mem_mq_data_addr m) (mem_mq_data_size m) \<and>
      region_ok c os_mem (mem_common_addr m) (mem_common_size m) \<and>
      pool_ok c os_thread_def_stack (OS_THREAD_DEF_STACK_NUM t) (OS_STACK_SIZE t) (mpi_stack p) \<and>
      pool_ok c os_thread_cb (OS_THREAD_NUM t) (osRtxThreadCbSize (rc_tfm_extension c)) (mpi_thread p) \<and>
      pool_ok c os_timer_cb (OS_TIMER_NUM (rc_timer c)) osRtxTimerCbSize (mpi_timer p) \<and>
      pool_ok c os_ef_cb (OS_EVFLAGS_NUM (rc_evflags c)) osRtxEventFlagsCbSize (mpi_event_flags p) \<and>
      pool_ok c os_mutex_cb (OS_MUTEX_NUM (rc_mutex c)) osRtxMutexCbSize (mpi_mutex p) \<and>
      pool_ok c os_semaphore_cb (OS_SEMAPHORE_NUM (rc_semaphore c)) osRtxSemaphoreCbSize (mpi_semaphore p) \<and>
      pool_ok c os_mp_cb (OS_MEMPOOL_NUM (rc_mempool c)) osRtxMemoryPoolCbSize (mpi_memory_pool p) \<and>
      pool_ok c os_mq_cb (OS_MSGQUEUE_NUM (rc_msgqueue c)) osRtxMessageQueueCbSize (mpi_message_queue p) \<and>
      thread_attr_ok c os_idle_thread_cb os_idle_thread_stack 72 (cfg_idle_thread_attr k) \<and>
      thread_attr_ok c os_timer_thread_cb os_timer_thread_stack 96 (cfg_timer_thread_attr k) \<and>
      queue_attr_ok c os_timer_mq_cb os_timer_mq_data (cfg_timer_mq_mcnt k) (cfg_timer_mq_attr k) \<and>
      unat (cfg_tick_freq k) = OS_TICK_FREQ (rc_system c) \<and> unat (cfg_thread_stack_size k) = OS_STACK_SIZE t)"

lemma compiled_config_ok:
  assumes "offered c" "\<not> timer_stack_too_small (rc_timer c)"
  shows "config_ok c (osRtxConfig c)"
  unfolding config_ok_def Let_def
  by (intro conjI isr_queue [OF assms(1) refl] mem_regions [OF assms(1) refl] mpi_pools [OF assms(1) refl]
      kernel_threads [OF assms refl] cfg_numbers [OF assms(1) refl])

end
