(* ===== verification/Rtx_Evr.thy ===== *)
theory Rtx_Evr
  imports Rtx_Config
begin

section \<open>The event recorder set-up of RTX\<close>

text \<open>
  The last section of \<open>RTX_Config.h\<close> gives every component of the kernel a recording level. \<open>rtx_lib.c\<close>
  takes the level from an older filter option where one is defined, and hands the levels to the event
  recorder before the kernel starts. The component numbers and the extended status codes are from \<open>rtx_evr.h\<close>.
\<close>

subsection \<open>Component numbers and status codes (rtx_evr.h)\<close>

datatype evr_component =
  EvtRtxMemory | EvtRtxKernel | EvtRtxThread | EvtRtxThreadFlags | EvtRtxWait | EvtRtxTimer | EvtRtxEventFlags
| EvtRtxMutex | EvtRtxSemaphore | EvtRtxMemoryPool | EvtRtxMessageQueue

fun EvtRtxNo :: "evr_component \<Rightarrow> 32 word" where
  "EvtRtxNo EvtRtxMemory = 0xF0"
| "EvtRtxNo EvtRtxKernel = 0xF1"
| "EvtRtxNo EvtRtxThread = 0xF2"
| "EvtRtxNo EvtRtxThreadFlags = 0xF4"
| "EvtRtxNo EvtRtxWait = 0xF3"
| "EvtRtxNo EvtRtxTimer = 0xF6"
| "EvtRtxNo EvtRtxEventFlags = 0xF5"
| "EvtRtxNo EvtRtxMutex = 0xF7"
| "EvtRtxNo EvtRtxSemaphore = 0xF8"
| "EvtRtxNo EvtRtxMemoryPool = 0xF9"
| "EvtRtxNo EvtRtxMessageQueue = 0xFA"

datatype osRtxStatus =
  osRtxErrorKernelNotReady | osRtxErrorKernelNotRunning | osRtxErrorInvalidControlBlock | osRtxErrorInvalidDataMemory
| osRtxErrorInvalidThreadStack | osRtxErrorInvalidPriority | osRtxErrorThreadNotJoinable | osRtxErrorMutexNotOwned
| osRtxErrorMutexNotLocked | osRtxErrorMutexLockLimit | osRtxErrorSemaphoreCountLimit | osRtxErrorTZ_InitContext_S
| osRtxErrorTZ_AllocContext_S | osRtxErrorTZ_FreeContext_S | osRtxErrorTZ_LoadContext_S | osRtxErrorTZ_SaveContext_S

fun osRtxStatus_code :: "osRtxStatus \<Rightarrow> 32 word" where
  "osRtxStatus_code osRtxErrorKernelNotReady = -7"
| "osRtxStatus_code osRtxErrorKernelNotRunning = -8"
| "osRtxStatus_code osRtxErrorInvalidControlBlock = -9"
| "osRtxStatus_code osRtxErrorInvalidDataMemory = -10"
| "osRtxStatus_code osRtxErrorInvalidThreadStack = -11"
| "osRtxStatus_code osRtxErrorInvalidPriority = -12"
| "osRtxStatus_code osRtxErrorThreadNotJoinable = -13"
| "osRtxStatus_code osRtxErrorMutexNotOwned = -14"
| "osRtxStatus_code osRtxErrorMutexNotLocked = -15"
| "osRtxStatus_code osRtxErrorMutexLockLimit = -16"
| "osRtxStatus_code osRtxErrorSemaphoreCountLimit = -17"
| "osRtxStatus_code osRtxErrorTZ_InitContext_S = -18"
| "osRtxStatus_code osRtxErrorTZ_AllocContext_S = -19"
| "osRtxStatus_code osRtxErrorTZ_FreeContext_S = -20"
| "osRtxStatus_code osRtxErrorTZ_LoadContext_S = -21"
| "osRtxStatus_code osRtxErrorTZ_SaveContext_S = -22"

subsection \<open>Recording levels (RTX_Config.h)\<close>

record rtx_evr =
  OS_EVR_INIT :: nat
  OS_EVR_START :: nat
  OS_EVR_LEVEL :: nat
  OS_EVR_COMPONENT_LEVEL :: "evr_component \<Rightarrow> nat"
  OS_EVR_COMPONENT :: "evr_component \<Rightarrow> nat"

fun evr_level_option :: "(string \<Rightarrow> nat option) \<Rightarrow> evr_component \<Rightarrow> nat" where
  "evr_level_option build EvtRtxMemory = macro build ''OS_EVR_MEMORY_LEVEL'' 0x01"
| "evr_level_option build EvtRtxKernel = macro build ''OS_EVR_KERNEL_LEVEL'' 0x01"
| "evr_level_option build EvtRtxThread = macro build ''OS_EVR_THREAD_LEVEL'' 0x05"
| "evr_level_option build EvtRtxWait = macro build ''OS_EVR_WAIT_LEVEL'' 0x01"
| "evr_level_option build EvtRtxThreadFlags = macro build ''OS_EVR_THFLAGS_LEVEL'' 0x01"
| "evr_level_option build EvtRtxEventFlags = macro build ''OS_EVR_EVFLAGS_LEVEL'' 0x01"
| "evr_level_option build EvtRtxTimer = macro build ''OS_EVR_TIMER_LEVEL'' 0x01"
| "evr_level_option build EvtRtxMutex = macro build ''OS_EVR_MUTEX_LEVEL'' 0x01"
| "evr_level_option build EvtRtxSemaphore = macro build ''OS_EVR_SEMAPHORE_LEVEL'' 0x01"
| "evr_level_option build EvtRtxMemoryPool = macro build ''OS_EVR_MEMPOOL_LEVEL'' 0x01"
| "evr_level_option build EvtRtxMessageQueue = macro build ''OS_EVR_MSGQUEUE_LEVEL'' 0x01"

fun evr_generation_option :: "(string \<Rightarrow> nat option) \<Rightarrow> evr_component \<Rightarrow> nat" where
  "evr_generation_option build EvtRtxMemory = macro build ''OS_EVR_MEMORY'' 1"
| "evr_generation_option build EvtRtxKernel = macro build ''OS_EVR_KERNEL'' 1"
| "evr_generation_option build EvtRtxThread = macro build ''OS_EVR_THREAD'' 1"
| "evr_generation_option build EvtRtxWait = macro build ''OS_EVR_WAIT'' 1"
| "evr_generation_option build EvtRtxThreadFlags = macro build ''OS_EVR_THFLAGS'' 1"
| "evr_generation_option build EvtRtxEventFlags = macro build ''OS_EVR_EVFLAGS'' 1"
| "evr_generation_option build EvtRtxTimer = macro build ''OS_EVR_TIMER'' 1"
| "evr_generation_option build EvtRtxMutex = macro build ''OS_EVR_MUTEX'' 1"
| "evr_generation_option build EvtRtxSemaphore = macro build ''OS_EVR_SEMAPHORE'' 1"
| "evr_generation_option build EvtRtxMemoryPool = macro build ''OS_EVR_MEMPOOL'' 1"
| "evr_generation_option build EvtRtxMessageQueue = macro build ''OS_EVR_MSGQUEUE'' 1"

definition evr_options :: "(string \<Rightarrow> nat option) \<Rightarrow> rtx_evr" where
  "evr_options build = \<lparr>
     OS_EVR_INIT = macro build ''OS_EVR_INIT'' 0,
     OS_EVR_START = macro build ''OS_EVR_START'' 1,
     OS_EVR_LEVEL = macro build ''OS_EVR_LEVEL'' 0x00,
     OS_EVR_COMPONENT_LEVEL = evr_level_option build,
     OS_EVR_COMPONENT = evr_generation_option build\<rparr>"

subsection \<open>Levels from the older filter options (rtx_lib.c)\<close>

text \<open>The options for waiting and thread flags default to the one for threads.\<close>

definition evr_filter :: "(evr_component \<Rightarrow> nat option) \<Rightarrow> evr_component \<Rightarrow> nat option" where
  "evr_filter filters e =
     (if e = EvtRtxThreadFlags \<or> e = EvtRtxWait
      then (case filters e of None \<Rightarrow> filters EvtRtxThread | Some f \<Rightarrow> Some f)
      else filters e)"

definition level_of_filter :: "nat \<Rightarrow> nat" where
  "level_of_filter f = (if and f 0x80 \<noteq> 0 then and f 0x0F else 0)"

definition evr_level :: "rtx_evr \<Rightarrow> (evr_component \<Rightarrow> nat option) \<Rightarrow> evr_component \<Rightarrow> nat" where
  "evr_level c filters e =
     (case evr_filter filters e of Some f \<Rightarrow> level_of_filter f | None \<Rightarrow> OS_EVR_COMPONENT_LEVEL c e)"

subsection \<open>Start of the recorder\<close>

text \<open>The recorder is an external component: the calls it gets are the result.\<close>

datatype evr_call =
  EventRecorderInitialize "32 word" "32 word"
| EventRecorderEnable "32 word" "32 word" "32 word"

definition enable :: "rtx_evr \<Rightarrow> (evr_component \<Rightarrow> nat option) \<Rightarrow> evr_component \<Rightarrow> evr_call" where
  "enable c filters e = EventRecorderEnable (word_of_nat (evr_level c filters e)) (EvtRtxNo e) (EvtRtxNo e)"

definition evr_initialize :: "rtx_evr \<Rightarrow> (evr_component \<Rightarrow> nat option) \<Rightarrow> evr_call list" where
  "evr_initialize c filters =
     [EventRecorderInitialize (word_of_nat (OS_EVR_LEVEL c)) (word_of_nat (OS_EVR_START c)),
      enable c filters EvtRtxMemory,
      enable c filters EvtRtxKernel,
      enable c filters EvtRtxThread,
      enable c filters EvtRtxWait,
      enable c filters EvtRtxThreadFlags,
      enable c filters EvtRtxEventFlags,
      enable c filters EvtRtxTimer,
      enable c filters EvtRtxMutex,
      enable c filters EvtRtxSemaphore,
      enable c filters EvtRtxMemoryPool,
      enable c filters EvtRtxMessageQueue]"

text \<open>
  The hook exists when \<open>OS_EVR_INIT\<close> is set; without it the library's own, empty hook runs. In a build without
  the recorder (\<open>RTE_Compiler_EventRecorder\<close>, the argument \<open>recorder\<close>) the set-up is an empty macro.
\<close>

definition osRtxKernelPreInit ::
  "bool \<Rightarrow> rtx_evr \<Rightarrow> (evr_component \<Rightarrow> nat option) \<Rightarrow> os_env \<Rightarrow> os_trace \<Rightarrow> evr_call list \<times> os_trace" where
  "osRtxKernelPreInit recorder c filters env tr =
     (if OS_EVR_INIT c \<noteq> 0 then
        let (state, tr) = os env osKernelGetState tr
        in (if sint state = osKernelState_code osKernelInactive
            then (if recorder then evr_initialize c filters else []) else [], tr)
      else ([], tr))"

subsection \<open>Facts\<close>

lemma status_code_inj: "osRtxStatus_code s = osRtxStatus_code t \<Longrightarrow> s = t"
  by (cases s; cases t) simp_all

lemma status_code_new: "osRtxStatus_code s \<noteq> os_status_code t"
  by (cases s; cases t) simp_all

fun enabled_range :: "evr_call \<Rightarrow> (32 word \<times> 32 word) option" where
  "enabled_range (EventRecorderEnable l a b) = Some (a, b)"
| "enabled_range (EventRecorderInitialize l s) = None"

text \<open>The numbers of the components are 240 to 250, and each is enabled once, alone.\<close>

lemma component_number_inj: "EvtRtxNo d = EvtRtxNo e \<Longrightarrow> d = e"
  by (cases d; cases e) simp_all

lemma enabled_once:
  "length (filter (\<lambda>x. enabled_range x = Some (EvtRtxNo e, EvtRtxNo e)) (evr_initialize c filters)) = 1"
  by (cases e) (simp_all add: evr_initialize_def enable_def)

lemma level_small: "level_of_filter f < 16"
proof -
  have "and f 0x0F = f mod 16" using take_bit_eq_mask [of 4 f] by (simp add: mask_eq_exp_minus_1 take_bit_eq_mod)
  then show ?thesis by (simp add: level_of_filter_def)
qed

end
