(* ===== verification/Rtx_Events.thy ===== *)
theory Rtx_Events
  imports Rtx_Evr
begin

section \<open>The events of RTX (rtx_evr.h)\<close>

text \<open>
  The kernel reports what it does by calling event functions. \<open>rtx_evr.h\<close> declares each of them as a function
  of the event recorder, or makes it a macro that expands to nothing, depending on the options of its component
  and on a switch of its own. The tables list the events of each component in the order of the header; the lemmas
  check that the 172 blocks are what they mean to be, and that the recorder is never called from within itself.
\<close>

subsection \<open>A block of the header\<close>

text \<open>The kind in parentheses in the comment of an event; the types and names of the parameters of the function;
  the parameters and the body of the macro; the macro that switches the event off.\<close>

datatype evr_kind = Evr_Error | Evr_API | Evr_Op | Evr_Detail

datatype (plugins only: size code) rtx_event =
  Event (ev_component: evr_component) (ev_name: string) (ev_kind: evr_kind) (ev_params: "(string \<times> string) list")
    (ev_args: "string list") (ev_body: string) (ev_switch: string)

text \<open>What the build defines: macros \<open>EVR_RTX_...\<close>, whether the event recorder is part of it, and where the
  recorder takes its time stamps from.\<close>

record evr_build =
  eb_defined :: "string \<Rightarrow> bool"
  RTE_Compiler_EventRecorder :: bool
  EVENT_TIMESTAMP_SOURCE :: nat

definition switch_defined :: "evr_build \<Rightarrow> rtx_evr \<Rightarrow> string \<Rightarrow> bool" where
  "switch_defined b c s \<longleftrightarrow> eb_defined b s \<or>
     RTE_Compiler_EventRecorder b \<and>
       ((OS_EVR_INIT c \<noteq> 0 \<or> EVENT_TIMESTAMP_SOURCE b = 2) \<and> s = ''EVR_RTX_KERNEL_GET_STATE_DISABLE'' \<or>
        EVENT_TIMESTAMP_SOURCE b = 2 \<and> s = ''EVR_RTX_KERNEL_GET_SYS_TIMER_COUNT_DISABLE'' \<or>
        EVENT_TIMESTAMP_SOURCE b = 2 \<and> s = ''EVR_RTX_KERNEL_GET_SYS_TIMER_FREQ_DISABLE'')"

datatype evr_declaration =
  Extern string "(string \<times> string) list"
| Define string "string list" string

definition declare_event :: "evr_build \<Rightarrow> rtx_evr \<Rightarrow> rtx_event \<Rightarrow> evr_declaration" where
  "declare_event b c e =
     (if \<not> eb_defined b ''EVR_RTX_DISABLE'' \<and> OS_EVR_COMPONENT c (ev_component e) \<noteq> 0 \<and> \<not> switch_defined b c (ev_switch e)
      then Extern (ev_name e) (ev_params e) else Define (ev_name e) (ev_args e) (ev_body e))"

subsection \<open>The tables\<close>

text \<open>In the order of the header; a long table is given in parts.\<close>

definition memory_events :: "rtx_event list" where
  "memory_events = [
     Event EvtRtxMemory ''EvrRtxMemoryInit'' Evr_Op [(''void *'', ''mem''), (''uint32_t'', ''size''),
       (''uint32_t'', ''result'')] [''mem'', ''size'', ''result''] '''' ''EVR_RTX_MEMORY_INIT_DISABLE'',
     Event EvtRtxMemory ''EvrRtxMemoryAlloc'' Evr_Op [(''void *'', ''mem''), (''uint32_t'', ''size''),
       (''uint32_t'', ''type''), (''void *'', ''block'')] [''mem'', ''size'', ''type'', ''block''] ''''
       ''EVR_RTX_MEMORY_ALLOC_DISABLE'',
     Event EvtRtxMemory ''EvrRtxMemoryFree'' Evr_Op [(''void *'', ''mem''), (''void *'', ''block''),
       (''uint32_t'', ''result'')] [''mem'', ''block'', ''result''] '''' ''EVR_RTX_MEMORY_FREE_DISABLE'',
     Event EvtRtxMemory ''EvrRtxMemoryBlockInit'' Evr_Op [(''osRtxMpInfo_t *'', ''mp_info''), (''uint32_t'',
       ''block_count''), (''uint32_t'', ''block_size''), (''void *'', ''block_mem'')] [''mp_info'',
       ''block_count'', ''block_size'', ''block_mem''] '''' ''EVR_RTX_MEMORY_BLOCK_INIT_DISABLE'',
     Event EvtRtxMemory ''EvrRtxMemoryBlockAlloc'' Evr_Op [(''osRtxMpInfo_t *'', ''mp_info''), (''void *'',
       ''block'')] [''mp_info'', ''block''] '''' ''EVR_RTX_MEMORY_BLOCK_ALLOC_DISABLE'',
     Event EvtRtxMemory ''EvrRtxMemoryBlockFree'' Evr_Op [(''osRtxMpInfo_t *'', ''mp_info''), (''void *'',
       ''block''), (''int32_t'', ''status'')] [''mp_info'', ''block'', ''status''] ''''
       ''EVR_RTX_MEMORY_BLOCK_FREE_DISABLE'']"

definition kernel_events_1 :: "rtx_event list" where
  "kernel_events_1 = [
     Event EvtRtxKernel ''EvrRtxKernelError'' Evr_Error [(''int32_t'', ''status'')] [''status''] ''''
       ''EVR_RTX_KERNEL_ERROR_DISABLE'',
     Event EvtRtxKernel ''EvrRtxKernelInitialize'' Evr_API [] [] '''' ''EVR_RTX_KERNEL_INITIALIZE_DISABLE'',
     Event EvtRtxKernel ''EvrRtxKernelInitialized'' Evr_Op [] [] '''' ''EVR_RTX_KERNEL_INITIALIZED_DISABLE'',
     Event EvtRtxKernel ''EvrRtxKernelGetInfo'' Evr_API [(''osVersion_t *'', ''version''), (''char *'',
       ''id_buf''), (''uint32_t'', ''id_size'')] [''version'', ''id_buf'', ''id_size''] ''''
       ''EVR_RTX_KERNEL_GET_INFO_DISABLE'',
     Event EvtRtxKernel ''EvrRtxKernelInfoRetrieved'' Evr_Op [(''const osVersion_t *'', ''version''),
       (''const char *'', ''id_buf''), (''uint32_t'', ''id_size'')] [''version'', ''id_buf'', ''id_size''] ''''
       ''EVR_RTX_KERNEL_INFO_RETRIEVED_DISABLE'',
     Event EvtRtxKernel ''EvrRtxKernelGetState'' Evr_API [(''osKernelState_t'', ''state'')] [''state''] ''''
       ''EVR_RTX_KERNEL_GET_STATE_DISABLE'',
     Event EvtRtxKernel ''EvrRtxKernelStart'' Evr_API [] [] '''' ''EVR_RTX_KERNEL_START_DISABLE'',
     Event EvtRtxKernel ''EvrRtxKernelStarted'' Evr_Op [] [] '''' ''EVR_RTX_KERNEL_STARTED_DISABLE'',
     Event EvtRtxKernel ''EvrRtxKernelLock'' Evr_API [] [] '''' ''EVR_RTX_KERNEL_LOCK_DISABLE'',
     Event EvtRtxKernel ''EvrRtxKernelLocked'' Evr_Op [(''int32_t'', ''lock'')] [''lock''] ''''
       ''EVR_RTX_KERNEL_LOCKED_DISABLE'',
     Event EvtRtxKernel ''EvrRtxKernelUnlock'' Evr_API [] [] '''' ''EVR_RTX_KERNEL_UNLOCK_DISABLE'',
     Event EvtRtxKernel ''EvrRtxKernelUnlocked'' Evr_Op [(''int32_t'', ''lock'')] [''lock''] ''''
       ''EVR_RTX_KERNEL_UNLOCKED_DISABLE'',
     Event EvtRtxKernel ''EvrRtxKernelRestoreLock'' Evr_API [(''int32_t'', ''lock'')] [''lock''] ''''
       ''EVR_RTX_KERNEL_RESTORE_LOCK_DISABLE'',
     Event EvtRtxKernel ''EvrRtxKernelLockRestored'' Evr_Op [(''int32_t'', ''lock'')] [''lock''] ''''
       ''EVR_RTX_KERNEL_LOCK_RESTORED_DISABLE'']"

definition kernel_events_2 :: "rtx_event list" where
  "kernel_events_2 = [
     Event EvtRtxKernel ''EvrRtxKernelSuspend'' Evr_API [] [] '''' ''EVR_RTX_KERNEL_SUSPEND_DISABLE'',
     Event EvtRtxKernel ''EvrRtxKernelSuspended'' Evr_Op [(''uint32_t'', ''sleep_ticks'')] [''sleep_ticks'']
       '''' ''EVR_RTX_KERNEL_SUSPENDED_DISABLE'',
     Event EvtRtxKernel ''EvrRtxKernelResume'' Evr_API [(''uint32_t'', ''sleep_ticks'')] [''sleep_ticks''] ''''
       ''EVR_RTX_KERNEL_RESUME_DISABLE'',
     Event EvtRtxKernel ''EvrRtxKernelResumed'' Evr_Op [] [] '''' ''EVR_RTX_KERNEL_RESUMED_DISABLE'',
     Event EvtRtxKernel ''EvrRtxKernelGetTickCount'' Evr_API [(''uint32_t'', ''count'')] [''count''] ''''
       ''EVR_RTX_KERNEL_GET_TICK_COUNT_DISABLE'',
     Event EvtRtxKernel ''EvrRtxKernelGetTickFreq'' Evr_API [(''uint32_t'', ''freq'')] [''freq''] ''''
       ''EVR_RTX_KERNEL_GET_TICK_FREQ_DISABLE'',
     Event EvtRtxKernel ''EvrRtxKernelGetSysTimerCount'' Evr_API [(''uint32_t'', ''count'')] [''count''] ''''
       ''EVR_RTX_KERNEL_GET_SYS_TIMER_COUNT_DISABLE'',
     Event EvtRtxKernel ''EvrRtxKernelGetSysTimerFreq'' Evr_API [(''uint32_t'', ''freq'')] [''freq''] ''''
       ''EVR_RTX_KERNEL_GET_SYS_TIMER_FREQ_DISABLE'']"

definition kernel_events :: "rtx_event list" where
  "kernel_events = kernel_events_1 @ kernel_events_2"

definition thread_events_1 :: "rtx_event list" where
  "thread_events_1 = [
     Event EvtRtxThread ''EvrRtxThreadError'' Evr_Error [(''osThreadId_t'', ''thread_id''), (''int32_t'',
       ''status'')] [''thread_id'', ''status''] '''' ''EVR_RTX_THREAD_ERROR_DISABLE'',
     Event EvtRtxThread ''EvrRtxThreadNew'' Evr_API [(''osThreadFunc_t'', ''func''), (''void *'', ''argument''),
       (''const osThreadAttr_t *'', ''attr'')] [''func'', ''argument'', ''attr''] ''''
       ''EVR_RTX_THREAD_NEW_DISABLE'',
     Event EvtRtxThread ''EvrRtxThreadCreated'' Evr_Op [(''osThreadId_t'', ''thread_id''), (''uint32_t'',
       ''thread_addr''), (''const char *'', ''name'')] [''thread_id'', ''thread_addr'', ''name''] ''''
       ''EVR_RTX_THREAD_CREATED_DISABLE'',
     Event EvtRtxThread ''EvrRtxThreadGetName'' Evr_API [(''osThreadId_t'', ''thread_id''), (''const char *'',
       ''name'')] [''thread_id'', ''name''] '''' ''EVR_RTX_THREAD_GET_NAME_DISABLE'',
     Event EvtRtxThread ''EvrRtxThreadGetId'' Evr_API [(''osThreadId_t'', ''thread_id'')] [''thread_id''] ''''
       ''EVR_RTX_THREAD_GET_ID_DISABLE'',
     Event EvtRtxThread ''EvrRtxThreadGetState'' Evr_API [(''osThreadId_t'', ''thread_id''),
       (''osThreadState_t'', ''state'')] [''thread_id'', ''state''] '''' ''EVR_RTX_THREAD_GET_STATE_DISABLE'',
     Event EvtRtxThread ''EvrRtxThreadGetStackSize'' Evr_API [(''osThreadId_t'', ''thread_id''), (''uint32_t'',
       ''stack_size'')] [''thread_id'', ''stack_size''] '''' ''EVR_RTX_THREAD_GET_STACK_SIZE_DISABLE'',
     Event EvtRtxThread ''EvrRtxThreadGetStackSpace'' Evr_API [(''osThreadId_t'', ''thread_id''), (''uint32_t'',
       ''stack_space'')] [''thread_id'', ''stack_space''] '''' ''EVR_RTX_THREAD_GET_STACK_SPACE_DISABLE'',
     Event EvtRtxThread ''EvrRtxThreadSetPriority'' Evr_API [(''osThreadId_t'', ''thread_id''),
       (''osPriority_t'', ''priority'')] [''thread_id'', ''priority''] ''''
       ''EVR_RTX_THREAD_SET_PRIORITY_DISABLE'',
     Event EvtRtxThread ''EvrRtxThreadPriorityUpdated'' Evr_Op [(''osThreadId_t'', ''thread_id''),
       (''osPriority_t'', ''priority'')] [''thread_id'', ''priority''] ''''
       ''EVR_RTX_THREAD_PRIORITY_UPDATED_DISABLE'',
     Event EvtRtxThread ''EvrRtxThreadGetPriority'' Evr_API [(''osThreadId_t'', ''thread_id''),
       (''osPriority_t'', ''priority'')] [''thread_id'', ''priority''] ''''
       ''EVR_RTX_THREAD_GET_PRIORITY_DISABLE'',
     Event EvtRtxThread ''EvrRtxThreadYield'' Evr_API [] [] '''' ''EVR_RTX_THREAD_YIELD_DISABLE'']"

definition thread_events_2 :: "rtx_event list" where
  "thread_events_2 = [
     Event EvtRtxThread ''EvrRtxThreadSuspend'' Evr_API [(''osThreadId_t'', ''thread_id'')] [''thread_id''] ''''
       ''EVR_RTX_THREAD_SUSPEND_DISABLE'',
     Event EvtRtxThread ''EvrRtxThreadSuspended'' Evr_Op [(''osThreadId_t'', ''thread_id'')] [''thread_id'']
       '''' ''EVR_RTX_THREAD_SUSPENDED_DISABLE'',
     Event EvtRtxThread ''EvrRtxThreadResume'' Evr_API [(''osThreadId_t'', ''thread_id'')] [''thread_id''] ''''
       ''EVR_RTX_THREAD_RESUME_DISABLE'',
     Event EvtRtxThread ''EvrRtxThreadResumed'' Evr_Op [(''osThreadId_t'', ''thread_id'')] [''thread_id''] ''''
       ''EVR_RTX_THREAD_RESUMED_DISABLE'',
     Event EvtRtxThread ''EvrRtxThreadDetach'' Evr_API [(''osThreadId_t'', ''thread_id'')] [''thread_id''] ''''
       ''EVR_RTX_THREAD_DETACH_DISABLE'',
     Event EvtRtxThread ''EvrRtxThreadDetached'' Evr_Op [(''osThreadId_t'', ''thread_id'')] [''thread_id''] ''''
       ''EVR_RTX_THREAD_DETACHED_DISABLE'',
     Event EvtRtxThread ''EvrRtxThreadJoin'' Evr_API [(''osThreadId_t'', ''thread_id'')] [''thread_id''] ''''
       ''EVR_RTX_THREAD_JOIN_DISABLE'',
     Event EvtRtxThread ''EvrRtxThreadJoinPending'' Evr_Op [(''osThreadId_t'', ''thread_id'')] [''thread_id'']
       '''' ''EVR_RTX_THREAD_JOIN_PENDING_DISABLE'',
     Event EvtRtxThread ''EvrRtxThreadJoined'' Evr_Op [(''osThreadId_t'', ''thread_id'')] [''thread_id''] ''''
       ''EVR_RTX_THREAD_JOINED_DISABLE'',
     Event EvtRtxThread ''EvrRtxThreadBlocked'' Evr_Detail [(''osThreadId_t'', ''thread_id''), (''uint32_t'',
       ''timeout'')] [''thread_id'', ''timeout''] '''' ''EVR_RTX_THREAD_BLOCKED_DISABLE'',
     Event EvtRtxThread ''EvrRtxThreadUnblocked'' Evr_Detail [(''osThreadId_t'', ''thread_id''), (''uint32_t'',
       ''ret_val'')] [''thread_id'', ''ret_val''] '''' ''EVR_RTX_THREAD_UNBLOCKED_DISABLE'',
     Event EvtRtxThread ''EvrRtxThreadPreempted'' Evr_Detail [(''osThreadId_t'', ''thread_id'')] [''thread_id'']
       '''' ''EVR_RTX_THREAD_PREEMPTED_DISABLE'',
     Event EvtRtxThread ''EvrRtxThreadSwitched'' Evr_Op [(''osThreadId_t'', ''thread_id'')] [''thread_id''] ''''
       ''EVR_RTX_THREAD_SWITCHED_DISABLE'']"

definition thread_events_3 :: "rtx_event list" where
  "thread_events_3 = [
     Event EvtRtxThread ''EvrRtxThreadExit'' Evr_API [] [] '''' ''EVR_RTX_THREAD_EXIT_DISABLE'',
     Event EvtRtxThread ''EvrRtxThreadTerminate'' Evr_API [(''osThreadId_t'', ''thread_id'')] [''thread_id'']
       '''' ''EVR_RTX_THREAD_TERMINATE_DISABLE'',
     Event EvtRtxThread ''EvrRtxThreadDestroyed'' Evr_Op [(''osThreadId_t'', ''thread_id'')] [''thread_id'']
       '''' ''EVR_RTX_THREAD_DESTROYED_DISABLE'',
     Event EvtRtxThread ''EvrRtxThreadGetCount'' Evr_API [(''uint32_t'', ''count'')] [''count''] ''''
       ''EVR_RTX_THREAD_GET_COUNT_DISABLE'',
     Event EvtRtxThread ''EvrRtxThreadEnumerate'' Evr_API [(''osThreadId_t *'', ''thread_array''),
       (''uint32_t'', ''array_items''), (''uint32_t'', ''count'')] [''thread_array'', ''array_items'',
       ''count''] '''' ''EVR_RTX_THREAD_ENUMERATE_DISABLE'']"

definition thread_events :: "rtx_event list" where
  "thread_events = thread_events_1 @ thread_events_2 @ thread_events_3"

definition thread_flags_events :: "rtx_event list" where
  "thread_flags_events = [
     Event EvtRtxThreadFlags ''EvrRtxThreadFlagsError'' Evr_Error [(''osThreadId_t'', ''thread_id''),
       (''int32_t'', ''status'')] [''thread_id'', ''status''] '''' ''EVR_RTX_THREAD_FLAGS_ERROR_DISABLE'',
     Event EvtRtxThreadFlags ''EvrRtxThreadFlagsSet'' Evr_API [(''osThreadId_t'', ''thread_id''), (''uint32_t'',
       ''flags'')] [''thread_id'', ''flags''] '''' ''EVR_RTX_THREAD_FLAGS_SET_DISABLE'',
     Event EvtRtxThreadFlags ''EvrRtxThreadFlagsSetDone'' Evr_Op [(''osThreadId_t'', ''thread_id''),
       (''uint32_t'', ''thread_flags'')] [''thread_id'', ''thread_flags''] ''''
       ''EVR_RTX_THREAD_FLAGS_SET_DONE_DISABLE'',
     Event EvtRtxThreadFlags ''EvrRtxThreadFlagsClear'' Evr_API [(''uint32_t'', ''flags'')] [''flags''] ''''
       ''EVR_RTX_THREAD_FLAGS_CLEAR_DISABLE'',
     Event EvtRtxThreadFlags ''EvrRtxThreadFlagsClearDone'' Evr_Op [(''uint32_t'', ''thread_flags'')]
       [''thread_flags''] '''' ''EVR_RTX_THREAD_FLAGS_CLEAR_DONE_DISABLE'',
     Event EvtRtxThreadFlags ''EvrRtxThreadFlagsGet'' Evr_API [(''uint32_t'', ''thread_flags'')]
       [''thread_flags''] '''' ''EVR_RTX_THREAD_FLAGS_GET_DISABLE'',
     Event EvtRtxThreadFlags ''EvrRtxThreadFlagsWait'' Evr_API [(''uint32_t'', ''flags''), (''uint32_t'',
       ''options''), (''uint32_t'', ''timeout'')] [''flags'', ''options'', ''timeout''] ''''
       ''EVR_RTX_THREAD_FLAGS_WAIT_DISABLE'',
     Event EvtRtxThreadFlags ''EvrRtxThreadFlagsWaitPending'' Evr_Op [(''uint32_t'', ''flags''), (''uint32_t'',
       ''options''), (''uint32_t'', ''timeout'')] [''flags'', ''options'', ''timeout''] ''''
       ''EVR_RTX_THREAD_FLAGS_WAIT_PENDING_DISABLE'',
     Event EvtRtxThreadFlags ''EvrRtxThreadFlagsWaitTimeout'' Evr_Op [(''osThreadId_t'', ''thread_id'')]
       [''thread_id''] '''' ''EVR_RTX_THREAD_FLAGS_WAIT_TIMEOUT_DISABLE'',
     Event EvtRtxThreadFlags ''EvrRtxThreadFlagsWaitCompleted'' Evr_Op [(''uint32_t'', ''flags''),
       (''uint32_t'', ''options''), (''uint32_t'', ''thread_flags''), (''osThreadId_t'', ''thread_id'')]
       [''flags'', ''options'', ''thread_flags'', ''thread_id''] ''''
       ''EVR_RTX_THREAD_FLAGS_WAIT_COMPLETED_DISABLE'',
     Event EvtRtxThreadFlags ''EvrRtxThreadFlagsWaitNotCompleted'' Evr_Op [(''uint32_t'', ''flags''),
       (''uint32_t'', ''options'')] [''flags'', ''options''] ''''
       ''EVR_RTX_THREAD_FLAGS_WAIT_NOT_COMPLETED_DISABLE'']"

definition wait_events :: "rtx_event list" where
  "wait_events = [
     Event EvtRtxWait ''EvrRtxDelayError'' Evr_Error [(''int32_t'', ''status'')] [''status''] ''''
       ''EVR_RTX_DELAY_ERROR_DISABLE'',
     Event EvtRtxWait ''EvrRtxDelay'' Evr_API [(''uint32_t'', ''ticks'')] [''ticks''] ''''
       ''EVR_RTX_DELAY_DISABLE'',
     Event EvtRtxWait ''EvrRtxDelayUntil'' Evr_API [(''uint32_t'', ''ticks'')] [''ticks''] ''''
       ''EVR_RTX_DELAY_UNTIL_DISABLE'',
     Event EvtRtxWait ''EvrRtxDelayStarted'' Evr_Op [(''uint32_t'', ''ticks'')] [''ticks''] ''''
       ''EVR_RTX_DELAY_STARTED_DISABLE'',
     Event EvtRtxWait ''EvrRtxDelayUntilStarted'' Evr_Op [(''uint32_t'', ''ticks'')] [''ticks''] ''''
       ''EVR_RTX_DELAY_UNTIL_STARTED_DISABLE'',
     Event EvtRtxWait ''EvrRtxDelayCompleted'' Evr_Op [(''osThreadId_t'', ''thread_id'')] [''thread_id''] ''''
       ''EVR_RTX_DELAY_COMPLETED_DISABLE'']"

definition timer_events :: "rtx_event list" where
  "timer_events = [
     Event EvtRtxTimer ''EvrRtxTimerError'' Evr_Error [(''osTimerId_t'', ''timer_id''), (''int32_t'',
       ''status'')] [''timer_id'', ''status''] '''' ''EVR_RTX_TIMER_ERROR_DISABLE'',
     Event EvtRtxTimer ''EvrRtxTimerCallback'' Evr_Op [(''osTimerFunc_t'', ''func''), (''void *'',
       ''argument'')] [''func'', ''argument''] '''' ''EVR_RTX_TIMER_CALLBACK_DISABLE'',
     Event EvtRtxTimer ''EvrRtxTimerNew'' Evr_API [(''osTimerFunc_t'', ''func''), (''osTimerType_t'', ''type''),
       (''void *'', ''argument''), (''const osTimerAttr_t *'', ''attr'')] [''func'', ''type'', ''argument'',
       ''attr''] '''' ''EVR_RTX_TIMER_NEW_DISABLE'',
     Event EvtRtxTimer ''EvrRtxTimerCreated'' Evr_Op [(''osTimerId_t'', ''timer_id''), (''const char *'',
       ''name'')] [''timer_id'', ''name''] '''' ''EVR_RTX_TIMER_CREATED_DISABLE'',
     Event EvtRtxTimer ''EvrRtxTimerGetName'' Evr_API [(''osTimerId_t'', ''timer_id''), (''const char *'',
       ''name'')] [''timer_id'', ''name''] '''' ''EVR_RTX_TIMER_GET_NAME_DISABLE'',
     Event EvtRtxTimer ''EvrRtxTimerStart'' Evr_API [(''osTimerId_t'', ''timer_id''), (''uint32_t'', ''ticks'')]
       [''timer_id'', ''ticks''] '''' ''EVR_RTX_TIMER_START_DISABLE'',
     Event EvtRtxTimer ''EvrRtxTimerStarted'' Evr_Op [(''osTimerId_t'', ''timer_id'')] [''timer_id''] ''''
       ''EVR_RTX_TIMER_STARTED_DISABLE'',
     Event EvtRtxTimer ''EvrRtxTimerStop'' Evr_API [(''osTimerId_t'', ''timer_id'')] [''timer_id''] ''''
       ''EVR_RTX_TIMER_STOP_DISABLE'',
     Event EvtRtxTimer ''EvrRtxTimerStopped'' Evr_Op [(''osTimerId_t'', ''timer_id'')] [''timer_id''] ''''
       ''EVR_RTX_TIMER_STOPPED_DISABLE'',
     Event EvtRtxTimer ''EvrRtxTimerIsRunning'' Evr_API [(''osTimerId_t'', ''timer_id''), (''uint32_t'',
       ''running'')] [''timer_id'', ''running''] '''' ''EVR_RTX_TIMER_IS_RUNNING_DISABLE'',
     Event EvtRtxTimer ''EvrRtxTimerDelete'' Evr_API [(''osTimerId_t'', ''timer_id'')] [''timer_id''] ''''
       ''EVR_RTX_TIMER_DELETE_DISABLE'',
     Event EvtRtxTimer ''EvrRtxTimerDestroyed'' Evr_Op [(''osTimerId_t'', ''timer_id'')] [''timer_id''] ''''
       ''EVR_RTX_TIMER_DESTROYED_DISABLE'']"

definition event_flags_events_1 :: "rtx_event list" where
  "event_flags_events_1 = [
     Event EvtRtxEventFlags ''EvrRtxEventFlagsError'' Evr_Error [(''osEventFlagsId_t'', ''ef_id''),
       (''int32_t'', ''status'')] [''ef_id'', ''status''] '''' ''EVR_RTX_EVENT_FLAGS_ERROR_DISABLE'',
     Event EvtRtxEventFlags ''EvrRtxEventFlagsNew'' Evr_API [(''const osEventFlagsAttr_t *'', ''attr'')]
       [''attr''] '''' ''EVR_RTX_EVENT_FLAGS_NEW_DISABLE'',
     Event EvtRtxEventFlags ''EvrRtxEventFlagsCreated'' Evr_Op [(''osEventFlagsId_t'', ''ef_id''),
       (''const char *'', ''name'')] [''ef_id'', ''name''] '''' ''EVR_RTX_EVENT_FLAGS_CREATED_DISABLE'',
     Event EvtRtxEventFlags ''EvrRtxEventFlagsGetName'' Evr_API [(''osEventFlagsId_t'', ''ef_id''),
       (''const char *'', ''name'')] [''ef_id'', ''name''] '''' ''EVR_RTX_EVENT_FLAGS_GET_NAME_DISABLE'',
     Event EvtRtxEventFlags ''EvrRtxEventFlagsSet'' Evr_API [(''osEventFlagsId_t'', ''ef_id''), (''uint32_t'',
       ''flags'')] [''ef_id'', ''flags''] '''' ''EVR_RTX_EVENT_FLAGS_SET_DISABLE'',
     Event EvtRtxEventFlags ''EvrRtxEventFlagsSetDone'' Evr_Op [(''osEventFlagsId_t'', ''ef_id''),
       (''uint32_t'', ''event_flags'')] [''ef_id'', ''event_flags''] ''''
       ''EVR_RTX_EVENT_FLAGS_SET_DONE_DISABLE'',
     Event EvtRtxEventFlags ''EvrRtxEventFlagsClear'' Evr_API [(''osEventFlagsId_t'', ''ef_id''), (''uint32_t'',
       ''flags'')] [''ef_id'', ''flags''] '''' ''EVR_RTX_EVENT_FLAGS_CLEAR_DISABLE'',
     Event EvtRtxEventFlags ''EvrRtxEventFlagsClearDone'' Evr_Op [(''osEventFlagsId_t'', ''ef_id''),
       (''uint32_t'', ''event_flags'')] [''ef_id'', ''event_flags''] ''''
       ''EVR_RTX_EVENT_FLAGS_CLEAR_DONE_DISABLE'',
     Event EvtRtxEventFlags ''EvrRtxEventFlagsGet'' Evr_API [(''osEventFlagsId_t'', ''ef_id''), (''uint32_t'',
       ''event_flags'')] [''ef_id'', ''event_flags''] '''' ''EVR_RTX_EVENT_FLAGS_GET_DISABLE'',
     Event EvtRtxEventFlags ''EvrRtxEventFlagsWait'' Evr_API [(''osEventFlagsId_t'', ''ef_id''), (''uint32_t'',
       ''flags''), (''uint32_t'', ''options''), (''uint32_t'', ''timeout'')] [''ef_id'', ''flags'', ''options'',
       ''timeout''] '''' ''EVR_RTX_EVENT_FLAGS_WAIT_DISABLE'',
     Event EvtRtxEventFlags ''EvrRtxEventFlagsWaitPending'' Evr_Op [(''osEventFlagsId_t'', ''ef_id''),
       (''uint32_t'', ''flags''), (''uint32_t'', ''options''), (''uint32_t'', ''timeout'')] [''ef_id'',
       ''flags'', ''options'', ''timeout''] '''' ''EVR_RTX_EVENT_FLAGS_WAIT_PENDING_DISABLE'',
     Event EvtRtxEventFlags ''EvrRtxEventFlagsWaitTimeout'' Evr_Op [(''osEventFlagsId_t'', ''ef_id'')]
       [''ef_id''] '''' ''EVR_RTX_EVENT_FLAGS_WAIT_TIMEOUT_DISABLE'']"

definition event_flags_events_2 :: "rtx_event list" where
  "event_flags_events_2 = [
     Event EvtRtxEventFlags ''EvrRtxEventFlagsWaitCompleted'' Evr_Op [(''osEventFlagsId_t'', ''ef_id''),
       (''uint32_t'', ''flags''), (''uint32_t'', ''options''), (''uint32_t'', ''event_flags'')] [''ef_id'',
       ''flags'', ''options'', ''event_flags''] '''' ''EVR_RTX_EVENT_FLAGS_WAIT_COMPLETED_DISABLE'',
     Event EvtRtxEventFlags ''EvrRtxEventFlagsWaitNotCompleted'' Evr_Op [(''osEventFlagsId_t'', ''ef_id''),
       (''uint32_t'', ''flags''), (''uint32_t'', ''options'')] [''ef_id'', ''flags'', ''options''] ''''
       ''EVR_RTX_EVENT_FLAGS_WAIT_NOT_COMPLETED_DISABLE'',
     Event EvtRtxEventFlags ''EvrRtxEventFlagsDelete'' Evr_API [(''osEventFlagsId_t'', ''ef_id'')] [''ef_id'']
       '''' ''EVR_RTX_EVENT_FLAGS_DELETE_DISABLE'',
     Event EvtRtxEventFlags ''EvrRtxEventFlagsDestroyed'' Evr_Op [(''osEventFlagsId_t'', ''ef_id'')] [''ef_id'']
       '''' ''EVR_RTX_EVENT_FLAGS_DESTROYED_DISABLE'']"

definition event_flags_events :: "rtx_event list" where
  "event_flags_events = event_flags_events_1 @ event_flags_events_2"

definition mutex_events :: "rtx_event list" where
  "mutex_events = [
     Event EvtRtxMutex ''EvrRtxMutexError'' Evr_Error [(''osMutexId_t'', ''mutex_id''), (''int32_t'',
       ''status'')] [''mutex_id'', ''status''] '''' ''EVR_RTX_MUTEX_ERROR_DISABLE'',
     Event EvtRtxMutex ''EvrRtxMutexNew'' Evr_API [(''const osMutexAttr_t *'', ''attr'')] [''attr''] ''''
       ''EVR_RTX_MUTEX_NEW_DISABLE'',
     Event EvtRtxMutex ''EvrRtxMutexCreated'' Evr_Op [(''osMutexId_t'', ''mutex_id''), (''const char *'',
       ''name'')] [''mutex_id'', ''name''] '''' ''EVR_RTX_MUTEX_CREATED_DISABLE'',
     Event EvtRtxMutex ''EvrRtxMutexGetName'' Evr_API [(''osMutexId_t'', ''mutex_id''), (''const char *'',
       ''name'')] [''mutex_id'', ''name''] '''' ''EVR_RTX_MUTEX_GET_NAME_DISABLE'',
     Event EvtRtxMutex ''EvrRtxMutexAcquire'' Evr_API [(''osMutexId_t'', ''mutex_id''), (''uint32_t'',
       ''timeout'')] [''mutex_id'', ''timeout''] '''' ''EVR_RTX_MUTEX_ACQUIRE_DISABLE'',
     Event EvtRtxMutex ''EvrRtxMutexAcquirePending'' Evr_Op [(''osMutexId_t'', ''mutex_id''), (''uint32_t'',
       ''timeout'')] [''mutex_id'', ''timeout''] '';'' ''EVR_RTX_MUTEX_ACQUIRE_PENDING_DISABLE'',
     Event EvtRtxMutex ''EvrRtxMutexAcquireTimeout'' Evr_Op [(''osMutexId_t'', ''mutex_id'')] [''mutex_id'']
       '''' ''EVR_RTX_MUTEX_ACQUIRE_TIMEOUT_DISABLE'',
     Event EvtRtxMutex ''EvrRtxMutexAcquired'' Evr_Op [(''osMutexId_t'', ''mutex_id''), (''uint32_t'',
       ''lock'')] [''mutex_id'', ''lock''] '''' ''EVR_RTX_MUTEX_ACQUIRED_DISABLE'',
     Event EvtRtxMutex ''EvrRtxMutexNotAcquired'' Evr_Op [(''osMutexId_t'', ''mutex_id'')] [''mutex_id''] ''''
       ''EVR_RTX_MUTEX_NOT_ACQUIRED_DISABLE'',
     Event EvtRtxMutex ''EvrRtxMutexRelease'' Evr_API [(''osMutexId_t'', ''mutex_id'')] [''mutex_id''] ''''
       ''EVR_RTX_MUTEX_RELEASE_DISABLE'',
     Event EvtRtxMutex ''EvrRtxMutexReleased'' Evr_Op [(''osMutexId_t'', ''mutex_id''), (''uint32_t'',
       ''lock'')] [''mutex_id'', ''lock''] '''' ''EVR_RTX_MUTEX_RELEASED_DISABLE'',
     Event EvtRtxMutex ''EvrRtxMutexGetOwner'' Evr_API [(''osMutexId_t'', ''mutex_id''), (''osThreadId_t'',
       ''thread_id'')] [''mutex_id'', ''thread_id''] '''' ''EVR_RTX_MUTEX_GET_OWNER_DISABLE'',
     Event EvtRtxMutex ''EvrRtxMutexDelete'' Evr_API [(''osMutexId_t'', ''mutex_id'')] [''mutex_id''] ''''
       ''EVR_RTX_MUTEX_DELETE_DISABLE'',
     Event EvtRtxMutex ''EvrRtxMutexDestroyed'' Evr_Op [(''osMutexId_t'', ''mutex_id'')] [''mutex_id''] ''''
       ''EVR_RTX_MUTEX_DESTROYED_DISABLE'']"

definition semaphore_events_1 :: "rtx_event list" where
  "semaphore_events_1 = [
     Event EvtRtxSemaphore ''EvrRtxSemaphoreError'' Evr_Error [(''osSemaphoreId_t'', ''semaphore_id''),
       (''int32_t'', ''status'')] [''semaphore_id'', ''status''] '''' ''EVR_RTX_SEMAPHORE_ERROR_DISABLE'',
     Event EvtRtxSemaphore ''EvrRtxSemaphoreNew'' Evr_API [(''uint32_t'', ''max_count''), (''uint32_t'',
       ''initial_count''), (''const osSemaphoreAttr_t *'', ''attr'')] [''max_count'', ''initial_count'',
       ''attr''] '''' ''EVR_RTX_SEMAPHORE_NEW_DISABLE'',
     Event EvtRtxSemaphore ''EvrRtxSemaphoreCreated'' Evr_Op [(''osSemaphoreId_t'', ''semaphore_id''),
       (''const char *'', ''name'')] [''semaphore_id'', ''name''] '''' ''EVR_RTX_SEMAPHORE_CREATED_DISABLE'',
     Event EvtRtxSemaphore ''EvrRtxSemaphoreGetName'' Evr_API [(''osSemaphoreId_t'', ''semaphore_id''),
       (''const char *'', ''name'')] [''semaphore_id'', ''name''] '''' ''EVR_RTX_SEMAPHORE_GET_NAME_DISABLE'',
     Event EvtRtxSemaphore ''EvrRtxSemaphoreAcquire'' Evr_API [(''osSemaphoreId_t'', ''semaphore_id''),
       (''uint32_t'', ''timeout'')] [''semaphore_id'', ''timeout''] '''' ''EVR_RTX_SEMAPHORE_ACQUIRE_DISABLE'',
     Event EvtRtxSemaphore ''EvrRtxSemaphoreAcquirePending'' Evr_Op [(''osSemaphoreId_t'', ''semaphore_id''),
       (''uint32_t'', ''timeout'')] [''semaphore_id'', ''timeout''] '';''
       ''EVR_RTX_SEMAPHORE_ACQUIRE_PENDING_DISABLE'',
     Event EvtRtxSemaphore ''EvrRtxSemaphoreAcquireTimeout'' Evr_Op [(''osSemaphoreId_t'', ''semaphore_id'')]
       [''semaphore_id''] '''' ''EVR_RTX_SEMAPHORE_ACQUIRE_TIMEOUT_DISABLE'',
     Event EvtRtxSemaphore ''EvrRtxSemaphoreAcquired'' Evr_Op [(''osSemaphoreId_t'', ''semaphore_id''),
       (''uint32_t'', ''tokens'')] [''semaphore_id'', ''tokens''] '''' ''EVR_RTX_SEMAPHORE_ACQUIRED_DISABLE'',
     Event EvtRtxSemaphore ''EvrRtxSemaphoreNotAcquired'' Evr_Op [(''osSemaphoreId_t'', ''semaphore_id'')]
       [''semaphore_id''] '''' ''EVR_RTX_SEMAPHORE_NOT_ACQUIRED_DISABLE'',
     Event EvtRtxSemaphore ''EvrRtxSemaphoreRelease'' Evr_API [(''osSemaphoreId_t'', ''semaphore_id'')]
       [''semaphore_id''] '''' ''EVR_RTX_SEMAPHORE_RELEASE_DISABLE'',
     Event EvtRtxSemaphore ''EvrRtxSemaphoreReleased'' Evr_Op [(''osSemaphoreId_t'', ''semaphore_id''),
       (''uint32_t'', ''tokens'')] [''semaphore_id'', ''tokens''] '''' ''EVR_RTX_SEMAPHORE_RELEASED_DISABLE'',
     Event EvtRtxSemaphore ''EvrRtxSemaphoreGetCount'' Evr_API [(''osSemaphoreId_t'', ''semaphore_id''),
       (''uint32_t'', ''count'')] [''semaphore_id'', ''count''] '''' ''EVR_RTX_SEMAPHORE_GET_COUNT_DISABLE'']"

definition semaphore_events_2 :: "rtx_event list" where
  "semaphore_events_2 = [
     Event EvtRtxSemaphore ''EvrRtxSemaphoreDelete'' Evr_API [(''osSemaphoreId_t'', ''semaphore_id'')]
       [''semaphore_id''] '''' ''EVR_RTX_SEMAPHORE_DELETE_DISABLE'',
     Event EvtRtxSemaphore ''EvrRtxSemaphoreDestroyed'' Evr_Op [(''osSemaphoreId_t'', ''semaphore_id'')]
       [''semaphore_id''] '''' ''EVR_RTX_SEMAPHORE_DESTROYED_DISABLE'']"

definition semaphore_events :: "rtx_event list" where
  "semaphore_events = semaphore_events_1 @ semaphore_events_2"

definition memory_pool_events_1 :: "rtx_event list" where
  "memory_pool_events_1 = [
     Event EvtRtxMemoryPool ''EvrRtxMemoryPoolError'' Evr_Error [(''osMemoryPoolId_t'', ''mp_id''),
       (''int32_t'', ''status'')] [''mp_id'', ''status''] '''' ''EVR_RTX_MEMORY_POOL_ERROR_DISABLE'',
     Event EvtRtxMemoryPool ''EvrRtxMemoryPoolNew'' Evr_API [(''uint32_t'', ''block_count''), (''uint32_t'',
       ''block_size''), (''const osMemoryPoolAttr_t *'', ''attr'')] [''block_count'', ''block_size'', ''attr'']
       '''' ''EVR_RTX_MEMORY_POOL_NEW_DISABLE'',
     Event EvtRtxMemoryPool ''EvrRtxMemoryPoolCreated'' Evr_Op [(''osMemoryPoolId_t'', ''mp_id''),
       (''const char *'', ''name'')] [''mp_id'', ''name''] '''' ''EVR_RTX_MEMORY_POOL_CREATED_DISABLE'',
     Event EvtRtxMemoryPool ''EvrRtxMemoryPoolGetName'' Evr_API [(''osMemoryPoolId_t'', ''mp_id''),
       (''const char *'', ''name'')] [''mp_id'', ''name''] '''' ''EVR_RTX_MEMORY_POOL_GET_NAME_DISABLE'',
     Event EvtRtxMemoryPool ''EvrRtxMemoryPoolAlloc'' Evr_API [(''osMemoryPoolId_t'', ''mp_id''), (''uint32_t'',
       ''timeout'')] [''mp_id'', ''timeout''] '''' ''EVR_RTX_MEMORY_POOL_ALLOC_DISABLE'',
     Event EvtRtxMemoryPool ''EvrRtxMemoryPoolAllocPending'' Evr_Op [(''osMemoryPoolId_t'', ''mp_id''),
       (''uint32_t'', ''timeout'')] [''mp_id'', ''timeout''] '''' ''EVR_RTX_MEMORY_POOL_ALLOC_PENDING_DISABLE'',
     Event EvtRtxMemoryPool ''EvrRtxMemoryPoolAllocTimeout'' Evr_Op [(''osMemoryPoolId_t'', ''mp_id'')]
       [''mp_id''] '''' ''EVR_RTX_MEMORY_POOL_ALLOC_TIMEOUT_DISABLE'',
     Event EvtRtxMemoryPool ''EvrRtxMemoryPoolAllocated'' Evr_Op [(''osMemoryPoolId_t'', ''mp_id''),
       (''void *'', ''block'')] [''mp_id'', ''block''] '''' ''EVR_RTX_MEMORY_POOL_ALLOCATED_DISABLE'',
     Event EvtRtxMemoryPool ''EvrRtxMemoryPoolAllocFailed'' Evr_Op [(''osMemoryPoolId_t'', ''mp_id'')]
       [''mp_id''] '''' ''EVR_RTX_MEMORY_POOL_ALLOC_FAILED_DISABLE'',
     Event EvtRtxMemoryPool ''EvrRtxMemoryPoolFree'' Evr_API [(''osMemoryPoolId_t'', ''mp_id''), (''void *'',
       ''block'')] [''mp_id'', ''block''] '''' ''EVR_RTX_MEMORY_POOL_FREE_DISABLE'',
     Event EvtRtxMemoryPool ''EvrRtxMemoryPoolDeallocated'' Evr_Op [(''osMemoryPoolId_t'', ''mp_id''),
       (''void *'', ''block'')] [''mp_id'', ''block''] '''' ''EVR_RTX_MEMORY_POOL_DEALLOCATED_DISABLE'',
     Event EvtRtxMemoryPool ''EvrRtxMemoryPoolFreeFailed'' Evr_Op [(''osMemoryPoolId_t'', ''mp_id''),
       (''void *'', ''block'')] [''mp_id'', ''block''] '''' ''EVR_RTX_MEMORY_POOL_FREE_FAILED_DISABLE'']"

definition memory_pool_events_2 :: "rtx_event list" where
  "memory_pool_events_2 = [
     Event EvtRtxMemoryPool ''EvrRtxMemoryPoolGetCapacity'' Evr_API [(''osMemoryPoolId_t'', ''mp_id''),
       (''uint32_t'', ''capacity'')] [''mp_id'', ''capacity''] '''' ''EVR_RTX_MEMORY_POOL_GET_CAPACITY_DISABLE'',
     Event EvtRtxMemoryPool ''EvrRtxMemoryPoolGetBlockSize'' Evr_API [(''osMemoryPoolId_t'', ''mp_id''),
       (''uint32_t'', ''block_size'')] [''mp_id'', ''block_size''] ''''
       ''EVR_RTX_MEMORY_POOL_GET_BLOCK_SZIE_DISABLE'',
     Event EvtRtxMemoryPool ''EvrRtxMemoryPoolGetCount'' Evr_API [(''osMemoryPoolId_t'', ''mp_id''),
       (''uint32_t'', ''count'')] [''mp_id'', ''count''] '''' ''EVR_RTX_MEMORY_POOL_GET_COUNT_DISABLE'',
     Event EvtRtxMemoryPool ''EvrRtxMemoryPoolGetSpace'' Evr_API [(''osMemoryPoolId_t'', ''mp_id''),
       (''uint32_t'', ''space'')] [''mp_id'', ''space''] '''' ''EVR_RTX_MEMORY_POOL_GET_SPACE_DISABLE'',
     Event EvtRtxMemoryPool ''EvrRtxMemoryPoolDelete'' Evr_API [(''osMemoryPoolId_t'', ''mp_id'')] [''mp_id'']
       '''' ''EVR_RTX_MEMORY_POOL_DELETE_DISABLE'',
     Event EvtRtxMemoryPool ''EvrRtxMemoryPoolDestroyed'' Evr_Op [(''osMemoryPoolId_t'', ''mp_id'')] [''mp_id'']
       '''' ''EVR_RTX_MEMORY_POOL_DESTROYED_DISABLE'']"

definition memory_pool_events :: "rtx_event list" where
  "memory_pool_events = memory_pool_events_1 @ memory_pool_events_2"

definition message_queue_events_1 :: "rtx_event list" where
  "message_queue_events_1 = [
     Event EvtRtxMessageQueue ''EvrRtxMessageQueueError'' Evr_Error [(''osMessageQueueId_t'', ''mq_id''),
       (''int32_t'', ''status'')] [''mq_id'', ''status''] '''' ''EVR_RTX_MESSAGE_QUEUE_ERROR_DISABLE'',
     Event EvtRtxMessageQueue ''EvrRtxMessageQueueNew'' Evr_API [(''uint32_t'', ''msg_count''), (''uint32_t'',
       ''msg_size''), (''const osMessageQueueAttr_t *'', ''attr'')] [''msg_count'', ''msg_size'', ''attr''] ''''
       ''EVR_RTX_MESSAGE_QUEUE_NEW_DISABLE'',
     Event EvtRtxMessageQueue ''EvrRtxMessageQueueCreated'' Evr_Op [(''osMessageQueueId_t'', ''mq_id''),
       (''const char *'', ''name'')] [''mq_id'', ''name''] '''' ''EVR_RTX_MESSAGE_QUEUE_CREATED_DISABLE'',
     Event EvtRtxMessageQueue ''EvrRtxMessageQueueGetName'' Evr_API [(''osMessageQueueId_t'', ''mq_id''),
       (''const char *'', ''name'')] [''mq_id'', ''name''] '''' ''EVR_RTX_MESSAGE_QUEUE_GET_NAME_DISABLE'',
     Event EvtRtxMessageQueue ''EvrRtxMessageQueuePut'' Evr_API [(''osMessageQueueId_t'', ''mq_id''),
       (''const void *'', ''msg_ptr''), (''uint8_t'', ''msg_prio''), (''uint32_t'', ''timeout'')] [''mq_id'',
       ''msg_ptr'', ''msg_prio'', ''timeout''] '''' ''EVR_RTX_MESSAGE_QUEUE_PUT_DISABLE'',
     Event EvtRtxMessageQueue ''EvrRtxMessageQueuePutPending'' Evr_Op [(''osMessageQueueId_t'', ''mq_id''),
       (''const void *'', ''msg_ptr''), (''uint32_t'', ''timeout'')] [''mq_id'', ''msg_ptr'', ''timeout''] ''''
       ''EVR_RTX_MESSAGE_QUEUE_PUT_PENDING_DISABLE'',
     Event EvtRtxMessageQueue ''EvrRtxMessageQueuePutTimeout'' Evr_Op [(''osMessageQueueId_t'', ''mq_id'')]
       [''mq_id''] '''' ''EVR_RTX_MESSAGE_QUEUE_PUT_TIMEOUT_DISABLE'',
     Event EvtRtxMessageQueue ''EvrRtxMessageQueueInsertPending'' Evr_Op [(''osMessageQueueId_t'', ''mq_id''),
       (''const void *'', ''msg_ptr'')] [''mq_id'', ''msg_ptr''] ''''
       ''EVR_RTX_MESSAGE_QUEUE_INSERT_PENDING_DISABLE'',
     Event EvtRtxMessageQueue ''EvrRtxMessageQueueInserted'' Evr_Op [(''osMessageQueueId_t'', ''mq_id''),
       (''const void *'', ''msg_ptr'')] [''mq_id'', ''msg_ptr''] '''' ''EVR_RTX_MESSAGE_QUEUE_INSERTED_DISABLE'',
     Event EvtRtxMessageQueue ''EvrRtxMessageQueueNotInserted'' Evr_Op [(''osMessageQueueId_t'', ''mq_id''),
       (''const void *'', ''msg_ptr'')] [''mq_id'', ''msg_ptr''] ''''
       ''EVR_RTX_MESSAGE_QUEUE_NOT_INSERTED_DISABLE'',
     Event EvtRtxMessageQueue ''EvrRtxMessageQueueGet'' Evr_API [(''osMessageQueueId_t'', ''mq_id''),
       (''void *'', ''msg_ptr''), (''uint8_t *'', ''msg_prio''), (''uint32_t'', ''timeout'')] [''mq_id'',
       ''msg_ptr'', ''msg_prio'', ''timeout''] '''' ''EVR_RTX_MESSAGE_QUEUE_GET_DISABLE'',
     Event EvtRtxMessageQueue ''EvrRtxMessageQueueGetPending'' Evr_Op [(''osMessageQueueId_t'', ''mq_id''),
       (''void *'', ''msg_ptr''), (''uint32_t'', ''timeout'')] [''mq_id'', ''msg_ptr'', ''timeout''] ''''
       ''EVR_RTX_MESSAGE_QUEUE_GET_PENDING_DISABLE'']"

definition message_queue_events_2 :: "rtx_event list" where
  "message_queue_events_2 = [
     Event EvtRtxMessageQueue ''EvrRtxMessageQueueGetTimeout'' Evr_Op [(''osMessageQueueId_t'', ''mq_id'')]
       [''mq_id''] '''' ''EVR_RTX_MESSAGE_QUEUE_GET_TIMEOUT_DISABLE'',
     Event EvtRtxMessageQueue ''EvrRtxMessageQueueRetrieved'' Evr_Op [(''osMessageQueueId_t'', ''mq_id''),
       (''void *'', ''msg_ptr'')] [''mq_id'', ''msg_ptr''] '''' ''EVR_RTX_MESSAGE_QUEUE_RETRIEVED_DISABLE'',
     Event EvtRtxMessageQueue ''EvrRtxMessageQueueNotRetrieved'' Evr_Op [(''osMessageQueueId_t'', ''mq_id''),
       (''void *'', ''msg_ptr'')] [''mq_id'', ''msg_ptr''] '''' ''EVR_RTX_MESSAGE_QUEUE_NOT_RETRIEVED_DISABLE'',
     Event EvtRtxMessageQueue ''EvrRtxMessageQueueGetCapacity'' Evr_API [(''osMessageQueueId_t'', ''mq_id''),
       (''uint32_t'', ''capacity'')] [''mq_id'', ''capacity''] ''''
       ''EVR_RTX_MESSAGE_QUEUE_GET_CAPACITY_DISABLE'',
     Event EvtRtxMessageQueue ''EvrRtxMessageQueueGetMsgSize'' Evr_API [(''osMessageQueueId_t'', ''mq_id''),
       (''uint32_t'', ''msg_size'')] [''mq_id'', ''msg_size''] ''''
       ''EVR_RTX_MESSAGE_QUEUE_GET_MSG_SIZE_DISABLE'',
     Event EvtRtxMessageQueue ''EvrRtxMessageQueueGetCount'' Evr_API [(''osMessageQueueId_t'', ''mq_id''),
       (''uint32_t'', ''count'')] [''mq_id'', ''count''] '''' ''EVR_RTX_MESSAGE_QUEUE_GET_COUNT_DISABLE'',
     Event EvtRtxMessageQueue ''EvrRtxMessageQueueGetSpace'' Evr_API [(''osMessageQueueId_t'', ''mq_id''),
       (''uint32_t'', ''space'')] [''mq_id'', ''space''] '''' ''EVR_RTX_MESSAGE_QUEUE_GET_SPACE_DISABLE'',
     Event EvtRtxMessageQueue ''EvrRtxMessageQueueReset'' Evr_API [(''osMessageQueueId_t'', ''mq_id'')]
       [''mq_id''] '''' ''EVR_RTX_MESSAGE_QUEUE_RESET_DISABLE'',
     Event EvtRtxMessageQueue ''EvrRtxMessageQueueResetDone'' Evr_Op [(''osMessageQueueId_t'', ''mq_id'')]
       [''mq_id''] '''' ''EVR_RTX_MESSAGE_QUEUE_RESET_DONE_DISABLE'',
     Event EvtRtxMessageQueue ''EvrRtxMessageQueueDelete'' Evr_API [(''osMessageQueueId_t'', ''mq_id'')]
       [''mq_id''] '''' ''EVR_RTX_MESSAGE_QUEUE_DELETE_DISABLE'',
     Event EvtRtxMessageQueue ''EvrRtxMessageQueueDestroyed'' Evr_Op [(''osMessageQueueId_t'', ''mq_id'')]
       [''mq_id''] '''' ''EVR_RTX_MESSAGE_QUEUE_DESTROYED_DISABLE'']"

definition message_queue_events :: "rtx_event list" where
  "message_queue_events = message_queue_events_1 @ message_queue_events_2"

fun events_of :: "evr_component \<Rightarrow> rtx_event list" where
  "events_of EvtRtxMemory = memory_events"
| "events_of EvtRtxKernel = kernel_events"
| "events_of EvtRtxThread = thread_events"
| "events_of EvtRtxThreadFlags = thread_flags_events"
| "events_of EvtRtxWait = wait_events"
| "events_of EvtRtxTimer = timer_events"
| "events_of EvtRtxEventFlags = event_flags_events"
| "events_of EvtRtxMutex = mutex_events"
| "events_of EvtRtxSemaphore = semaphore_events"
| "events_of EvtRtxMemoryPool = memory_pool_events"
| "events_of EvtRtxMessageQueue = message_queue_events"

lemmas event_tables = memory_events_def kernel_events_1_def kernel_events_2_def kernel_events_def
  thread_events_1_def thread_events_2_def thread_events_3_def thread_events_def thread_flags_events_def
  wait_events_def timer_events_def event_flags_events_1_def event_flags_events_2_def event_flags_events_def
  mutex_events_def semaphore_events_1_def semaphore_events_2_def semaphore_events_def memory_pool_events_1_def
  memory_pool_events_2_def memory_pool_events_def message_queue_events_1_def message_queue_events_2_def
  message_queue_events_def

subsection \<open>Consistency of the tables\<close>

definition upper :: "char \<Rightarrow> char" where
  "upper c = (let n = of_char c :: nat in if 97 \<le> n \<and> n \<le> 122 then char_of (n - 32) else c)"

text \<open>The switch of an event is \<open>EVR_\<close>, its name in capitals, and \<open>DISABLE\<close>, up to underscores.\<close>

definition letters :: "string \<Rightarrow> string" where
  "letters s = filter (\<lambda>c. c \<noteq> CHR ''_'') s"

definition names_switch :: "rtx_event \<Rightarrow> bool" where
  "names_switch e \<longleftrightarrow> letters (ev_switch e) = map upper (ev_name e) @ ''DISABLE''"

definition event_ok :: "evr_component \<Rightarrow> rtx_event \<Rightarrow> bool" where
  "event_ok k e \<longleftrightarrow> ev_component e = k \<and> ev_args e = map snd (ev_params e) \<and> take 6 (ev_name e) = ''EvrRtx''"

lemma upper_letters:
  "upper CHR ''a'' = CHR ''A''" "upper CHR ''b'' = CHR ''B''" "upper CHR ''c'' = CHR ''C''" "upper CHR ''d'' = CHR ''D''"
  "upper CHR ''e'' = CHR ''E''" "upper CHR ''f'' = CHR ''F''" "upper CHR ''g'' = CHR ''G''" "upper CHR ''h'' = CHR ''H''"
  "upper CHR ''i'' = CHR ''I''" "upper CHR ''j'' = CHR ''J''" "upper CHR ''k'' = CHR ''K''" "upper CHR ''l'' = CHR ''L''"
  "upper CHR ''m'' = CHR ''M''" "upper CHR ''n'' = CHR ''N''" "upper CHR ''o'' = CHR ''O''" "upper CHR ''p'' = CHR ''P''"
  "upper CHR ''q'' = CHR ''Q''" "upper CHR ''r'' = CHR ''R''" "upper CHR ''s'' = CHR ''S''" "upper CHR ''t'' = CHR ''T''"
  "upper CHR ''u'' = CHR ''U''" "upper CHR ''v'' = CHR ''V''" "upper CHR ''w'' = CHR ''W''" "upper CHR ''x'' = CHR ''X''"
  "upper CHR ''y'' = CHR ''Y''" "upper CHR ''z'' = CHR ''Z''" "upper CHR ''A'' = CHR ''A''" "upper CHR ''B'' = CHR ''B''"
  "upper CHR ''C'' = CHR ''C''" "upper CHR ''D'' = CHR ''D''" "upper CHR ''E'' = CHR ''E''" "upper CHR ''F'' = CHR ''F''"
  "upper CHR ''G'' = CHR ''G''" "upper CHR ''H'' = CHR ''H''" "upper CHR ''I'' = CHR ''I''" "upper CHR ''J'' = CHR ''J''"
  "upper CHR ''K'' = CHR ''K''" "upper CHR ''L'' = CHR ''L''" "upper CHR ''M'' = CHR ''M''" "upper CHR ''N'' = CHR ''N''"
  "upper CHR ''O'' = CHR ''O''" "upper CHR ''P'' = CHR ''P''" "upper CHR ''Q'' = CHR ''Q''" "upper CHR ''R'' = CHR ''R''"
  "upper CHR ''S'' = CHR ''S''" "upper CHR ''T'' = CHR ''T''" "upper CHR ''U'' = CHR ''U''" "upper CHR ''V'' = CHR ''V''"
  "upper CHR ''W'' = CHR ''W''" "upper CHR ''X'' = CHR ''X''" "upper CHR ''Y'' = CHR ''Y''" "upper CHR ''Z'' = CHR ''Z''"
  by code_simp+


lemmas event_eval = names_switch_def letters_def upper_letters event_ok_def

text \<open>One switch is misspelt.\<close>

lemma switches_named:
  "list_all (\<lambda>e. ev_name e \<noteq> ''EvrRtxMemoryPoolGetBlockSize'' \<longrightarrow> names_switch e) (events_of k)"
  by (cases k) (simp_all add: event_tables event_eval)

lemma tables_ok: "list_all (event_ok k) (events_of k)"
  by (cases k) (simp_all add: event_tables event_ok_def)

lemma event_in_table: "e \<in> set (events_of k) \<Longrightarrow> event_ok k e"
  using tables_ok [of k] by (simp add: list_all_iff)

lemma switch_of_event:
  "e \<in> set (events_of k) \<Longrightarrow> ev_name e \<noteq> ''EvrRtxMemoryPoolGetBlockSize'' \<Longrightarrow> names_switch e"
  using switches_named [of k] by (simp add: list_all_iff)

lemma names_distinct: "distinct (map ev_name (events_of k))"
  by (cases k) (simp_all add: event_tables)

text \<open>The macros expand to nothing, but for two that leave a semicolon.\<close>

lemma bodies: "list_all (\<lambda>e. ev_body e = (if ev_name e \<in> {''EvrRtxMutexAcquirePending'', ''EvrRtxSemaphoreAcquirePending''}
    then '';'' else '''')) (events_of k)"
  by (cases k) (simp_all add: event_tables)

subsection \<open>What the switches do\<close>

fun arity :: "evr_declaration \<Rightarrow> nat" where
  "arity (Extern f ps) = length ps"
| "arity (Define f xs body) = length xs"

text \<open>A call of an event fits its declaration, whatever is switched on.\<close>

lemma declared_arity: "e \<in> set (events_of k) \<Longrightarrow> arity (declare_event b c e) = length (ev_params e)"
  using event_in_table by (auto simp: declare_event_def event_ok_def)

text \<open>The option of a component covers its events and no other.\<close>

lemma component_off: "e \<in> set (events_of k) \<Longrightarrow> OS_EVR_COMPONENT c k = 0 \<Longrightarrow>
    declare_event b c e = Define (ev_name e) (ev_args e) (ev_body e)"
  using event_in_table by (auto simp: declare_event_def event_ok_def)

lemma component_on: "e \<in> set (events_of k) \<Longrightarrow> OS_EVR_COMPONENT c k \<noteq> 0 \<Longrightarrow> eb_defined b = (\<lambda>s. False) \<Longrightarrow>
    \<not> RTE_Compiler_EventRecorder b \<Longrightarrow> declare_event b c e = Extern (ev_name e) (ev_params e)"
  using event_in_table by (auto simp: declare_event_def event_ok_def switch_defined_def)

text \<open>A build that spells the switch of \<open>EvrRtxMemoryPoolGetBlockSize\<close> like its name keeps the event.\<close>

lemma misspelt_switch:
  assumes "eb_defined b = (\<lambda>s. s = ''EVR_RTX_MEMORY_POOL_GET_BLOCK_SIZE_DISABLE'')" "OS_EVR_COMPONENT c EvtRtxMemoryPool \<noteq> 0"
    and "\<not> RTE_Compiler_EventRecorder b" "e \<in> set memory_pool_events" "ev_name e = ''EvrRtxMemoryPoolGetBlockSize''"
  shows "declare_event b c e = Extern (ev_name e) (ev_params e)"
proof -
  have "list_all (\<lambda>e. ev_switch e \<noteq> ''EVR_RTX_MEMORY_POOL_GET_BLOCK_SIZE_DISABLE'') memory_pool_events"
    by (simp add: event_tables)
  then have "ev_switch e \<noteq> ''EVR_RTX_MEMORY_POOL_GET_BLOCK_SIZE_DISABLE''" using assms(4) by (auto simp: list_all_iff)
  moreover have "ev_component e = EvtRtxMemoryPool"
    using event_in_table [of e EvtRtxMemoryPool] assms(4) by (simp add: event_ok_def)
  ultimately show ?thesis using assms by (simp add: declare_event_def switch_defined_def)
qed

text \<open>
  A recorder with time source 2 asks the kernel for the time of every event. The events of the functions it
  asks are off, so that recording an event does not record another. The same holds for the state the set-up
  of the recorder asks for before the recorder runs.
\<close>

definition time_events :: "string list" where
  "time_events = [''EvrRtxKernelGetState'', ''EvrRtxKernelGetSysTimerCount'', ''EvrRtxKernelGetSysTimerFreq'']"

lemma time_switches: "list_all (\<lambda>e. ev_name e \<in> set time_events \<longrightarrow> ev_switch e \<in>
    set [''EVR_RTX_KERNEL_GET_STATE_DISABLE'', ''EVR_RTX_KERNEL_GET_SYS_TIMER_COUNT_DISABLE'',
      ''EVR_RTX_KERNEL_GET_SYS_TIMER_FREQ_DISABLE'']) kernel_events"
  by (simp add: event_tables time_events_def)

lemma recorder_not_reentered:
  assumes "RTE_Compiler_EventRecorder b" "EVENT_TIMESTAMP_SOURCE b = 2"
    and "e \<in> set kernel_events" "ev_name e \<in> set time_events"
  shows "declare_event b c e = Define (ev_name e) (ev_args e) (ev_body e)"
  using time_switches assms by (auto simp: list_all_iff declare_event_def switch_defined_def)

lemma set_up_is_silent:
  assumes "RTE_Compiler_EventRecorder b" "OS_EVR_INIT c \<noteq> 0"
    and "osRtxKernelPreInit (RTE_Compiler_EventRecorder b) c filters env tr = (calls, tr')"
    and "e \<in> set kernel_events" "ev_name e = ''EvrRtxKernelGetState''"
  shows "map fst (drop (length tr) tr') = [osKernelGetState] \<and>
    declare_event b c e = Define (ev_name e) (ev_args e) (ev_body e)"
proof -
  have "list_all (\<lambda>e. ev_name e = ''EvrRtxKernelGetState'' \<longrightarrow> ev_switch e = ''EVR_RTX_KERNEL_GET_STATE_DISABLE'') kernel_events"
    by (simp add: event_tables)
  then have "ev_switch e = ''EVR_RTX_KERNEL_GET_STATE_DISABLE''" using assms(4,5) by (auto simp: list_all_iff)
  moreover have "map fst (drop (length tr) tr') = [osKernelGetState]"
    using assms(2,3) by (auto simp: osRtxKernelPreInit_def os_eq split: if_splits)
  ultimately show ?thesis using assms by (simp add: declare_event_def switch_defined_def)
qed

end
