(* ===== verification/Rtx_Clib.thy ===== *)
theory Rtx_Clib
  imports Rtx_Config
begin

section \<open>Threads and the C library under RTX\<close>

text \<open>
  The code of \<open>RTX/Source/rtx_lib.c\<close> and \<open>RTX/Config/RTX_Config.c\<close> that runs: the start hook, the idle
  thread, the error callback, and the interface that gives every thread its own block of C library data and
  the library its locks. The kernel is the environment of \<open>Cmsis_Rtos\<close>.
\<close>

subsection \<open>Functions that do not return\<close>

text \<open>A loop without an exit has no value; \<open>None\<close> stands for it.\<close>

partial_function (option) for_ever :: "unit \<Rightarrow> unit option" where
  "for_ever u = for_ever u"

definition osRtxIdleThread :: "32 word \<Rightarrow> unit option" where
  "osRtxIdleThread argument = for_ever ()"

text \<open>The application has an idle thread of its own, which waits for an event in every round; the argument counts
  the rounds.\<close>

partial_function (option) wfe_loop :: "nat \<Rightarrow> unit option" where
  "wfe_loop n = wfe_loop (Suc n)"

definition app_osRtxIdleThread :: "32 word \<Rightarrow> unit option" where
  "app_osRtxIdleThread argument = wfe_loop 0"

text \<open>Every case of the callback's switch is left at once, for the loop behind it.\<close>

definition osRtxErrorNotify :: "32 word \<Rightarrow> 32 word \<Rightarrow> 32 word option" where
  "osRtxErrorNotify code object_id = map_option (\<lambda>_. 0) (for_ever ())"

definition software_init_hook :: "os_env \<Rightarrow> os_trace \<Rightarrow> os_trace" where
  "software_init_hook env tr = snd (os env osKernelInitialize tr)"

subsection \<open>Library space\<close>

text \<open>
  \<open>os_libspace_id\<close> holds the thread of each block, 0 for a free one; the block behind the last is for code
  that runs before the kernel. The result is the index of the block.
\<close>

definition LIBSPACE_SIZE :: nat where "LIBSPACE_SIZE = 96"

record clib_state =
  os_kernel_active :: byte
  os_libspace_id :: "32 word list"

definition clib_init :: "nat \<Rightarrow> clib_state" where
  "clib_init num = \<lparr>os_kernel_active = 0, os_libspace_id = replicate num 0\<rparr>"

definition os_kernel_is_active :: "os_env \<Rightarrow> clib_state \<times> os_trace \<Rightarrow> 32 word \<times> clib_state \<times> os_trace" where
  "os_kernel_is_active env s =
     (let (st, tr) = s;
          (st, tr) =
            (if os_kernel_active st = 0 then
               let (state, tr) = os env osKernelGetState tr
               in (if osKernelState_code osKernelReady < sint state then st\<lparr>os_kernel_active := 1\<rparr> else st, tr)
             else (st, tr))
      in (ucast (os_kernel_active st), st, tr))"

text \<open>
  The loop of one call that is not interrupted. The source tests an entry and stores to it in two steps; the
  steps of several threads are \<open>lib_step\<close> below.
\<close>

function libspace_loop :: "32 word \<Rightarrow> nat \<Rightarrow> 32 word list \<Rightarrow> nat \<times> 32 word list" where
  "libspace_loop tid n ids =
     (if n < length ids then
        let ids = (if ids ! n = 0 then ids[n := tid] else ids)
        in if ids ! n = tid then (n, ids) else libspace_loop tid (n + 1) ids
      else (n, ids))"
  by auto
termination by (relation "measure (\<lambda>(tid, n, ids). length ids - n)") auto

declare libspace_loop.simps [simp del]

text \<open>\<open>notify\<close> is the error callback the application is linked with; \<open>None\<close> when it does not return.\<close>

definition user_perthread_libspace ::
  "(32 word \<Rightarrow> 32 word \<Rightarrow> 32 word option) \<Rightarrow> os_env \<Rightarrow> clib_state \<times> os_trace \<Rightarrow> (nat \<times> clib_state \<times> os_trace) option" where
  "user_perthread_libspace notify env s =
     (let (active, st, tr) = os_kernel_is_active env s in
      if active \<noteq> 0 then
        let (tid, tr) = os env osThreadGetId tr;
            (n, ids) = libspace_loop tid 0 (os_libspace_id st);
            st = st\<lparr>os_libspace_id := ids\<rparr>
        in if n = length ids
           then do { _ \<leftarrow> notify (osRtxError_code osRtxErrorClibSpace) tid; Some (n, st, tr) }
           else Some (n, st, tr)
      else Some (length (os_libspace_id st), st, tr))"

subsection \<open>Locks of the library\<close>

text \<open>\<open>m_addr\<close> is the address of the lock variable, the first result its new value; the second is 1 on success.\<close>

definition mutex_initialize ::
  "(32 word \<Rightarrow> 32 word \<Rightarrow> 32 word option) \<Rightarrow> os_env \<Rightarrow> 32 word \<Rightarrow> os_trace \<Rightarrow> (32 word \<times> int \<times> os_trace) option" where
  "mutex_initialize notify env m_addr tr =
     (let (m, tr) = os env (osMutexNew None) tr in
      if m \<noteq> 0 then Some (m, 1, tr)
      else do { _ \<leftarrow> notify (osRtxError_code osRtxErrorClibMutex) m_addr; Some (m, 0, tr) })"

definition mutex_acquire :: "os_env \<Rightarrow> 32 word \<Rightarrow> clib_state \<times> os_trace \<Rightarrow> clib_state \<times> os_trace" where
  "mutex_acquire env m s =
     (let (active, st, tr) = os_kernel_is_active env s
      in if active \<noteq> 0 then (st, snd (os env (osMutexAcquire m osWaitForever) tr)) else (st, tr))"

definition mutex_release :: "os_env \<Rightarrow> 32 word \<Rightarrow> clib_state \<times> os_trace \<Rightarrow> clib_state \<times> os_trace" where
  "mutex_release env m s =
     (let (active, st, tr) = os_kernel_is_active env s
      in if active \<noteq> 0 then (st, snd (os env (osMutexRelease m) tr)) else (st, tr))"

definition mutex_free :: "os_env \<Rightarrow> 32 word \<Rightarrow> os_trace \<Rightarrow> os_trace" where
  "mutex_free env m tr = snd (os env (osMutexDelete m) tr)"

subsection \<open>The loops\<close>

lemma for_ever_none: "for_ever u = None"
proof (rule ccontr)
  assume "for_ever u \<noteq> None"
  then obtain y where "for_ever u = Some y" by blast
  from for_ever.raw_induct [where P = "\<lambda>_ _. False", OF _ this] show False by blast
qed

lemma wfe_loop_none: "wfe_loop n = None"
proof (rule ccontr)
  assume "wfe_loop n \<noteq> None"
  then obtain y where "wfe_loop n = Some y" by blast
  from wfe_loop.raw_induct [where P = "\<lambda>_ _. False", OF _ this] show False by blast
qed

lemma error_callback_stops: "osRtxErrorNotify code object_id = None"
  by (simp add: osRtxErrorNotify_def for_ever_none)

lemma idle_thread_stops: "osRtxIdleThread argument = None"
  and app_idle_thread_stops: "app_osRtxIdleThread argument = None"
  by (simp_all add: osRtxIdleThread_def app_osRtxIdleThread_def for_ever_none wfe_loop_none)

subsection \<open>The blocks given to threads\<close>

text \<open>
  The table as the list of the threads that have a block, in the order they came. A thread finds its block,
  takes the next free one, or finds none.
\<close>

definition holders :: "32 word list \<Rightarrow> 32 word list" where
  "holders ids = takeWhile (\<lambda>i. i \<noteq> 0) ids"

definition table_inv :: "32 word list \<Rightarrow> bool" where
  "table_inv ids \<longleftrightarrow> ids = holders ids @ replicate (length ids - length (holders ids)) 0 \<and> distinct (holders ids)"

lemma holders_length: "length (holders ids) \<le> length ids"
  by (simp add: holders_def length_takeWhile_le)

lemma table_inv_append:
  assumes "0 \<notin> set vs"
  shows "holders (vs @ replicate k 0) = vs" and "table_inv (vs @ replicate k 0) \<longleftrightarrow> distinct vs"
proof -
  show h: "holders (vs @ replicate k 0) = vs"
    using assms by (cases k) (auto simp: holders_def takeWhile_append)
  show "table_inv (vs @ replicate k 0) \<longleftrightarrow> distinct vs" by (simp add: table_inv_def h)
qed

lemma table_invE:
  assumes "table_inv ids"
  obtains vs k where "ids = vs @ replicate k 0" "distinct vs" "0 \<notin> set vs" "holders ids = vs"
proof -
  have "0 \<notin> set (holders ids)" by (auto simp: holders_def dest: set_takeWhileD)
  with assms that show thesis by (auto simp: table_inv_def)
qed

text \<open>The loop skips the blocks of other threads.\<close>

lemma libspace_skip:
  assumes "tid \<noteq> 0" "0 \<notin> set vs" "tid \<notin> set vs"
  shows "libspace_loop tid (length us) (us @ vs @ ws) = libspace_loop tid (length (us @ vs)) (us @ vs @ ws)"
  using assms
proof (induction vs arbitrary: us)
  case (Cons v vs)
  have "libspace_loop tid (length us) (us @ (v # vs) @ ws) = libspace_loop tid (length (us @ [v])) ((us @ [v]) @ vs @ ws)"
    using Cons.prems by (subst libspace_loop.simps) auto
  also have "\<dots> = libspace_loop tid (length ((us @ [v]) @ vs)) ((us @ [v]) @ vs @ ws)"
    by (rule Cons.IH) (use Cons.prems in auto)
  finally show ?case by simp
qed simp

lemma libspace_found:
  assumes "tid \<noteq> 0" "distinct vs" "0 \<notin> set vs" "i < length vs" "vs ! i = tid"
  shows "libspace_loop tid 0 (vs @ ws) = (i, vs @ ws)"
proof -
  have vs: "vs = take i vs @ tid # drop (Suc i) vs" using assms by (metis id_take_nth_drop)
  have new: "tid \<notin> set (take i vs)" "0 \<notin> set (take i vs)"
    using assms(2,3) vs by (metis distinct_append distinct.simps(2) disjoint_iff list.set_intros(1)) (metis assms(3) in_set_takeD)
  have "libspace_loop tid 0 (take i vs @ (tid # drop (Suc i) vs @ ws)) =
      libspace_loop tid (length (take i vs)) (take i vs @ (tid # drop (Suc i) vs @ ws))"
    using libspace_skip [of tid "take i vs" "[]" "tid # drop (Suc i) vs @ ws"] assms(1) new by simp
  moreover have "take i vs @ tid # drop (Suc i) vs @ ws = vs @ ws" using vs by (metis append.assoc append_Cons)
  moreover have "libspace_loop tid i (vs @ ws) = (i, vs @ ws)"
    using assms by (subst libspace_loop.simps) (auto simp: nth_append)
  ultimately show ?thesis using assms(4) by simp
qed

lemma libspace_new:
  assumes "tid \<noteq> 0" "0 \<notin> set vs" "tid \<notin> set vs"
  shows "libspace_loop tid 0 (vs @ replicate k 0) =
    (length vs, if k = 0 then vs else vs @ tid # replicate (k - 1) 0)"
proof -
  have "libspace_loop tid 0 (vs @ replicate k 0) = libspace_loop tid (length vs) (vs @ replicate k 0)"
    using libspace_skip [of tid vs "[]" "replicate k 0"] assms by simp
  also have "\<dots> = (length vs, if k = 0 then vs else vs @ tid # replicate (k - 1) 0)"
    using assms by (cases k; subst libspace_loop.simps) (simp_all add: list_update_append)
  finally show ?thesis .
qed

text \<open>The allocation on the list of holders, and the loop as its implementation.\<close>

definition position :: "32 word list \<Rightarrow> 32 word \<Rightarrow> nat" where
  "position vs t = length (takeWhile (\<lambda>v. v \<noteq> t) vs)"

definition give_block :: "nat \<Rightarrow> 32 word list \<Rightarrow> 32 word \<Rightarrow> nat \<times> 32 word list" where
  "give_block num vs t =
     (if t \<in> set vs then (position vs t, vs) else if length vs < num then (length vs, vs @ [t]) else (num, vs))"

lemma position_nth: "t \<in> set vs \<Longrightarrow> position vs t < length vs \<and> vs ! position vs t = t"
  unfolding position_def
  by (metis (mono_tags, lifting) nth_length_takeWhile takeWhile_eq_all_conv length_takeWhile_le le_neq_implies_less takeWhile_eq_take
      take_all_iff order_refl)

lemma position_append: "t \<in> set vs \<Longrightarrow> position (vs @ ws) t = position vs t"
  by (auto simp: position_def takeWhile_append1)

lemma position_last: "t \<notin> set vs \<Longrightarrow> position (vs @ [t]) t = length vs"
  by (simp add: position_def takeWhile_append takeWhile_eq_all_conv)

lemma libspace_loop_gives:
  assumes "table_inv ids" "t \<noteq> 0"
  shows "libspace_loop t 0 ids = (n, ids') \<Longrightarrow>
    (n, holders ids') = give_block (length ids) (holders ids) t \<and> table_inv ids' \<and> length ids' = length ids"
proof -
  assume run: "libspace_loop t 0 ids = (n, ids')"
  from assms(1) obtain vs k where ids: "ids = vs @ replicate k 0" and vs: "distinct vs" "0 \<notin> set vs" "holders ids = vs"
    by (rule table_invE)
  show ?thesis
  proof (cases "t \<in> set vs")
    case True
    from libspace_found [OF assms(2) vs(1,2) position_nth [OF True, THEN conjunct1] position_nth [OF True, THEN conjunct2]]
    have "libspace_loop t 0 ids = (position vs t, ids)" by (simp add: ids)
    then show ?thesis using run True vs assms(1) by (simp add: give_block_def)
  next
    case False
    show ?thesis
    proof (cases k)
      case 0
      then show ?thesis using libspace_new [OF assms(2) vs(2) False, of 0] run ids vs False assms(1)
        by (auto simp: give_block_def)
    next
      case (Suc j)
      then have "ids' = (vs @ [t]) @ replicate j 0" "n = length vs"
        using libspace_new [OF assms(2) vs(2) False, of k] run ids by simp_all
      moreover have "0 \<notin> set (vs @ [t])" "distinct (vs @ [t])" using vs False assms(2) by auto
      ultimately show ?thesis using table_inv_append [of "vs @ [t]" j] vs False ids Suc by (simp add: give_block_def)
    qed
  qed
qed

subsection \<open>Runs of several threads\<close>

text \<open>The calls of the threads \<open>ts\<close>, one after the other; the kernel answers with the calling thread.\<close>

definition as_thread :: "32 word \<Rightarrow> os_env \<Rightarrow> os_env" where
  "as_thread t env tr c = (if c = osThreadGetId then t else env tr c)"

fun libspace_calls ::
  "(32 word \<Rightarrow> 32 word \<Rightarrow> 32 word option) \<Rightarrow> os_env \<Rightarrow> 32 word list \<Rightarrow> clib_state \<times> os_trace \<Rightarrow>
   (nat list \<times> clib_state \<times> os_trace) option" where
  "libspace_calls notify env [] s = Some ([], s)"
| "libspace_calls notify env (t # ts) s =
     do { (n, s) \<leftarrow> user_perthread_libspace notify (as_thread t env) s;
          (ns, s) \<leftarrow> libspace_calls notify env ts s;
          Some (n # ns, s) }"

definition kernel_runs :: "os_env \<Rightarrow> bool" where
  "kernel_runs env \<longleftrightarrow> (\<forall>tr. osKernelState_code osKernelReady < sint (env tr osKernelGetState))"

lemma kernel_active:
  assumes "kernel_runs env"
  shows "\<exists>w st' tr'. os_kernel_is_active (as_thread t env) (st, tr) = (w, st', tr') \<and> w \<noteq> 0 \<and>
    os_libspace_id st' = os_libspace_id st"
proof -
  have "ucast b \<noteq> (0 :: 32 word)" if "b \<noteq> (0 :: byte)" for b
  proof -
    have "take_bit 32 (unat b) = unat b" by (rule take_bit_nat_eq_self, rule order_less_le_trans [OF unsigned_less]) simp
    with that show ?thesis by (simp flip: unat_eq_0 unat_gt_0 add: unsigned_ucast_eq)
  qed
  then show ?thesis
    using assms by (auto simp: os_kernel_is_active_def Let_def kernel_runs_def as_thread_def)
qed

lemma libspace_step:
  assumes "kernel_runs env" "table_inv (os_libspace_id st)" "t \<noteq> 0"
    and give: "give_block (length (os_libspace_id st)) (holders (os_libspace_id st)) t = (n, vs)"
  shows "\<exists>st' tr'. table_inv (os_libspace_id st') \<and> holders (os_libspace_id st') = vs \<and>
    length (os_libspace_id st') = length (os_libspace_id st) \<and>
    user_perthread_libspace notify (as_thread t env) (st, tr) =
      (if n = length (os_libspace_id st)
       then map_option (\<lambda>_. (n, st', tr')) (notify (osRtxError_code osRtxErrorClibSpace) t) else Some (n, st', tr'))"
proof -
  obtain w st1 tr1 where a: "os_kernel_is_active (as_thread t env) (st, tr) = (w, st1, tr1)" "w \<noteq> 0"
      "os_libspace_id st1 = os_libspace_id st"
    using kernel_active [OF assms(1)] by metis
  obtain m ids where l: "libspace_loop t 0 (os_libspace_id st) = (m, ids)" by fastforce
  from libspace_loop_gives [OF assms(2,3) l] give
  have g: "m = n" "holders ids = vs" "table_inv ids" "length ids = length (os_libspace_id st)" by simp_all
  show ?thesis
    using a l g
    by (intro exI [of _ "st1\<lparr>os_libspace_id := ids\<rparr>"] exI [of _ "snd (os (as_thread t env) osThreadGetId tr1)"])
       (auto simp: user_perthread_libspace_def as_thread_def map_option_case split: option.splits)
qed

lemma position_inj:
  assumes "t \<in> set vs" "u \<in> set vs" "position vs t = position vs u"
  shows "t = u"
  using position_nth [OF assms(1)] position_nth [OF assms(2)] assms(3) by metis

text \<open>As long as there are blocks for all threads, every thread gets the position it has among the holders.\<close>

lemma blocks_of_threads:
  assumes "kernel_runs env" "table_inv (os_libspace_id st)" "0 \<notin> set ts"
    and "card (set (holders (os_libspace_id st)) \<union> set ts) \<le> length (os_libspace_id st)"
  shows "\<exists>ws st' tr'. libspace_calls notify env ts (st, tr) =
      Some (map (position (holders (os_libspace_id st) @ ws)) ts, st', tr') \<and>
    set ts \<subseteq> set (holders (os_libspace_id st) @ ws) \<and> length (holders (os_libspace_id st) @ ws) \<le> length (os_libspace_id st)"
  using assms
proof (induction ts arbitrary: st tr)
  case Nil
  let ?vs = "holders (os_libspace_id st)"
  show ?case using holders_length by (intro exI [of _ "[]"]) auto
next
  case (Cons t ts)
  let ?ids = "os_libspace_id st" let ?vs = "holders ?ids"
  have dist: "distinct ?vs" using Cons.prems(2) by (simp add: table_inv_def)
  obtain us where us: "set (?vs @ us) = insert t (set ?vs)" "length (?vs @ us) \<le> length ?ids"
      "give_block (length ?ids) ?vs t = (position (?vs @ us) t, ?vs @ us)" "position (?vs @ us) t < length ?ids"
  proof (cases "t \<in> set ?vs")
    case True
    with that [of "[]"] position_nth [OF True] holders_length [of ?ids] show thesis by (auto simp: give_block_def)
  next
    case False
    have "card (insert t (set ?vs)) \<le> length ?ids"
      using Cons.prems(4) by (meson List.finite_set card_mono finite_UnI le_trans Un_upper1 insert_subset list.set_intros(1) UnCI)
    then have "length ?vs < length ?ids" using False dist by (simp add: distinct_card)
    with False that [of "[t]"] show thesis by (simp add: give_block_def position_last)
  qed
  have t: "t \<noteq> 0" using Cons.prems(3) by auto
  from libspace_step [OF Cons.prems(1,2) t us(3), of notify tr] us(4)
  obtain st1 tr1 where s: "table_inv (os_libspace_id st1)" "holders (os_libspace_id st1) = ?vs @ us"
      "length (os_libspace_id st1) = length ?ids"
      "user_perthread_libspace notify (as_thread t env) (st, tr) = Some (position (?vs @ us) t, st1, tr1)"
    by auto
  have "set (holders (os_libspace_id st1)) \<union> set ts = set ?vs \<union> set (t # ts)" using s(2) us(1) by auto
  with Cons.prems s have "0 \<notin> set ts" "card (set (holders (os_libspace_id st1)) \<union> set ts) \<le> length (os_libspace_id st1)"
    by simp_all
  from Cons.IH [OF Cons.prems(1) s(1) this, of tr1]
  obtain ws st' tr' where r: "libspace_calls notify env ts (st1, tr1) = Some (map (position ((?vs @ us) @ ws)) ts, st', tr')"
      "set ts \<subseteq> set ((?vs @ us) @ ws)" "length ((?vs @ us) @ ws) \<le> length ?ids"
    unfolding s(2,3) by blast
  have "position ((?vs @ us) @ ws) t = position (?vs @ us) t" by (rule position_append) (use us(1) in auto)
  then show ?case using s(4) r us(1) by (intro exI [of _ "us @ ws"]) auto
qed

text \<open>Once every block has a holder, a further thread meets the error callback.\<close>

lemma no_block_left:
  assumes "kernel_runs env" "table_inv (os_libspace_id st)" "0 \<notin> set ts"
    and "length (os_libspace_id st) < card (set (holders (os_libspace_id st)) \<union> set ts)"
  shows "libspace_calls osRtxErrorNotify env ts (st, tr) = None"
  using assms
proof (induction ts arbitrary: st tr)
  case Nil
  have "card (set (holders (os_libspace_id st))) \<le> length (os_libspace_id st)"
    by (rule le_trans [OF card_length holders_length])
  with Nil show ?case by simp
next
  case (Cons t ts)
  let ?ids = "os_libspace_id st" let ?vs = "holders ?ids"
  have t: "t \<noteq> 0" using Cons.prems(3) by auto
  obtain n vs where g: "give_block (length ?ids) ?vs t = (n, vs)" by fastforce
  from libspace_step [OF Cons.prems(1,2) t g, of osRtxErrorNotify tr] obtain st1 tr1
    where s: "table_inv (os_libspace_id st1)" "holders (os_libspace_id st1) = vs"
      "length (os_libspace_id st1) = length ?ids"
      and u: "user_perthread_libspace osRtxErrorNotify (as_thread t env) (st, tr) =
        (if n = length ?ids then map_option (\<lambda>_. (n, st1, tr1)) (osRtxErrorNotify (osRtxError_code osRtxErrorClibSpace) t)
         else Some (n, st1, tr1))"
    by blast
  show ?case
  proof (cases "n = length ?ids")
    case False
    then have "set vs = insert t (set ?vs)" using g by (auto simp: give_block_def split: if_splits)
    then have "set vs \<union> set ts = set ?vs \<union> set (t # ts)" by auto
    with Cons.prems s have "libspace_calls osRtxErrorNotify env ts (st1, tr1) = None" by (intro Cons.IH) auto
    with u False show ?thesis by simp
  next
    case True
    with u have "user_perthread_libspace osRtxErrorNotify (as_thread t env) (st, tr) = None" by (simp add: error_callback_stops)
    then show ?thesis by simp
  qed
qed

subsection \<open>Threads that interrupt each other\<close>

text \<open>
  The test of a slot and its store are two steps, and the scheduler can switch threads between them. The
  steps of the loop of one thread, on the table the threads share: \<open>At_test n\<close> is before the test of slot
  \<open>n\<close> for 0, \<open>At_store n\<close> before the store, \<open>At_compare n\<close> before the comparison.
\<close>

datatype lib_pc = At_test nat | At_store nat | At_compare nat | Has_block nat

fun lib_step :: "32 word \<Rightarrow> lib_pc \<Rightarrow> 32 word list \<Rightarrow> lib_pc \<times> 32 word list" where
  "lib_step t (At_test n) ids =
     (if n < length ids then (if ids ! n = 0 then At_store n else At_compare n, ids) else (Has_block n, ids))"
| "lib_step t (At_store n) ids = (At_compare n, ids[n := t])"
| "lib_step t (At_compare n) ids = (if ids ! n = t then Has_block n else At_test (n + 1), ids)"
| "lib_step t (Has_block n) ids = (Has_block n, ids)"

inductive interleaved :: "(32 word \<Rightarrow> lib_pc) \<times> 32 word list \<Rightarrow> (32 word \<Rightarrow> lib_pc) \<times> 32 word list \<Rightarrow> bool" where
  start: "interleaved s s"
| step: "interleaved s (pc, ids) \<Longrightarrow> lib_step t (pc t) ids = (p, ids') \<Longrightarrow> interleaved s (pc(t := p), ids')"

text \<open>A thread that is not interrupted gets what the loop gives.\<close>

lemma interleaved_trans: "interleaved s s' \<Longrightarrow> interleaved s' s'' \<Longrightarrow> interleaved s s''"
  by (rotate_tac, induction s' s'' rule: interleaved.induct) (auto intro: interleaved.step)

lemma uninterrupted:
  "pc t = At_test n \<Longrightarrow> n \<le> length ids \<Longrightarrow> libspace_loop t n ids = (m, ids') \<Longrightarrow>
   interleaved (pc, ids) (pc(t := Has_block m), ids')"
proof (induction t n ids arbitrary: pc rule: libspace_loop.induct)
  case (1 t n ids)
  show ?case
  proof (cases "n < length ids")
    case False
    then have "m = n" "ids' = ids" using 1(4) by (simp_all add: libspace_loop.simps [of t n])
    moreover have "lib_step t (pc t) ids = (Has_block n, ids)" using 1(2) False by simp
    ultimately show ?thesis using interleaved.step [OF interleaved.start] by blast
  next
    case True
    let ?ids = "if ids ! n = 0 then ids[n := t] else ids"
    have store: "interleaved (pc, ids) (pc(t := At_compare n), ?ids)"
    proof (cases "ids ! n = 0")
      case True
      have "interleaved (pc, ids) (pc(t := At_store n), ids)"
        by (rule interleaved.step [OF interleaved.start]) (use 1(2) True \<open>n < length ids\<close> in simp)
      from interleaved.step [OF this, of t "At_compare n" "ids[n := t]"] True show ?thesis by simp
    next
      case False
      show ?thesis using False by simp (rule interleaved.step [OF interleaved.start], use 1(2) True in simp)
    qed
    show ?thesis
    proof (cases "?ids ! n = t")
      case eq: True
      then have "(m, ids') = (n, ?ids)" using 1(4) True by (auto simp: libspace_loop.simps [of t n ids])
      moreover have "lib_step t ((pc(t := At_compare n)) t) ?ids = (Has_block n, ?ids)" using eq by simp
      ultimately show ?thesis using interleaved.step [OF store] by (metis fun_upd_upd prod.inject)
    next
      case ne: False
      from interleaved.step [OF store, of t "At_test (n + 1)" ?ids] ne
      have "interleaved (pc, ids) (pc(t := At_test (n + 1)), ?ids)" by simp
      moreover have "interleaved (pc(t := At_test (n + 1)), ?ids) ((pc(t := At_test (n + 1)))(t := Has_block m), ids')"
        by (rule 1(1) [OF True refl ne]) (use 1(4) True ne in \<open>auto simp: libspace_loop.simps [of t n]\<close>)
      ultimately show ?thesis using interleaved_trans by fastforce
    qed
  qed
qed

text \<open>Two threads that start on an empty table can both be given the first block.\<close>

lemma shared_block:
  assumes "t \<noteq> u" "t \<noteq> 0" "u \<noteq> 0"
  shows "\<exists>pc ids. interleaved (\<lambda>_. At_test 0, replicate (Suc n) 0) (pc, ids) \<and> pc t = Has_block 0 \<and> pc u = Has_block 0"
proof -
  let ?s = "(\<lambda>_. At_test 0, replicate (Suc n) 0) :: (32 word \<Rightarrow> lib_pc) \<times> 32 word list"
  have "interleaved ?s ((\<lambda>_. At_test 0)(t := At_store 0), replicate (Suc n) 0)"
    by (rule interleaved.step [OF interleaved.start]) simp
  then have "interleaved ?s ((\<lambda>_. At_test 0)(t := At_store 0, u := At_store 0), replicate (Suc n) 0)"
    by (rule interleaved.step) (use assms in simp)
  then have "interleaved ?s ((\<lambda>_. At_test 0)(t := At_store 0, u := At_store 0, u := At_compare 0), u # replicate n 0)"
    by (rule interleaved.step) (use assms in simp)
  then have "interleaved ?s ((\<lambda>_. At_test 0)(t := At_store 0, u := At_store 0, u := At_compare 0, u := Has_block 0), u # replicate n 0)"
    by (rule interleaved.step) (use assms in simp)
  then have "interleaved ?s ((\<lambda>_. At_test 0)(t := At_store 0, u := At_store 0, u := At_compare 0, u := Has_block 0, t := At_compare 0),
      t # replicate n 0)"
    by (rule interleaved.step) (use assms in simp)
  then have "interleaved ?s ((\<lambda>_. At_test 0)(t := At_store 0, u := At_store 0, u := At_compare 0, u := Has_block 0, t := At_compare 0,
      t := Has_block 0), t # replicate n 0)"
    by (rule interleaved.step) (use assms in simp)
  then show ?thesis by (intro exI conjI) (assumption, use assms(1) in simp_all)
qed

end
