(* ===== verification/Rtx_Sections.thy ===== *)
theory Rtx_Sections
  imports Rtx_Static Cmsis_Rtos
begin

section \<open>Linker sections, start-up and the builds of rtx_lib.c\<close>

text \<open>
  Three compilers build \<open>rtx_lib.c\<close>. Every static object is put in a named section; the table
  \<open>os_cb_sections\<close> gives a debugger the limits of the sections with control blocks, by symbols whose names
  depend on the compiler. The function that initialises the kernel before \<open>main\<close> and the interface to the C
  library depend on the compiler as well.
\<close>

datatype rtx_compiler = CC_ARM | ARMCLANG | GNUC

subsection \<open>Sections\<close>

text \<open>The structures without a section attribute are constants.\<close>

fun section_of :: "rtx_object \<Rightarrow> string option" where
  "section_of os_mem = Some ''.bss.os''"
| "section_of os_isr_queue = Some ''.bss.os''"
| "section_of os_thread_cb = Some ''.bss.os.thread.cb''"
| "section_of os_thread_def_stack = Some ''.bss.os.thread.stack''"
| "section_of os_mpi_thread = Some ''.data.os.thread.mpi''"
| "section_of os_mpi_def_stack = Some ''.data.os.thread.mpi''"
| "section_of os_thread_stack = Some ''.bss.os.thread.stack''"
| "section_of os_idle_thread_cb = Some ''.bss.os.thread.cb''"
| "section_of os_idle_thread_stack = Some ''.bss.os.thread.stack''"
| "section_of os_idle_thread_attr = None"
| "section_of os_timer_cb = Some ''.bss.os.timer.cb''"
| "section_of os_mpi_timer = Some ''.data.os.timer.mpi''"
| "section_of os_timer_thread_cb = Some ''.bss.os.thread.cb''"
| "section_of os_timer_thread_stack = Some ''.bss.os.thread.stack''"
| "section_of os_timer_thread_attr = None"
| "section_of os_timer_mq_cb = Some ''.bss.os.msgqueue.cb''"
| "section_of os_timer_mq_data = Some ''.bss.os.msgqueue.mem''"
| "section_of os_timer_mq_attr = None"
| "section_of os_ef_cb = Some ''.bss.os.evflags.cb''"
| "section_of os_mpi_ef = Some ''.data.os.evflags.mpi''"
| "section_of os_mutex_cb = Some ''.bss.os.mutex.cb''"
| "section_of os_mpi_mutex = Some ''.data.os.mutex.mpi''"
| "section_of os_semaphore_cb = Some ''.bss.os.semaphore.cb''"
| "section_of os_mpi_semaphore = Some ''.data.os.semaphore.mpi''"
| "section_of os_mp_cb = Some ''.bss.os.mempool.cb''"
| "section_of os_mpi_mp = Some ''.data.os.mempool.mpi''"
| "section_of os_mp_data = Some ''.bss.os.mempool.mem''"
| "section_of os_mq_cb = Some ''.bss.os.msgqueue.cb''"
| "section_of os_mpi_mq = Some ''.data.os.msgqueue.mpi''"
| "section_of os_mq_data = Some ''.bss.os.msgqueue.mem''"

text \<open>
  The symbols of the table. The ARM compilers name the limits of a section after it; with the GNU compiler a
  linker script defines them. A symbol nothing defines is 0: all are weak.
\<close>

fun os_cb_symbols :: "rtx_compiler \<Rightarrow> string list" where
  "os_cb_symbols GNUC =
     [''__os_thread_cb_start__'', ''__os_thread_cb_end__'', ''__os_timer_cb_start__'', ''__os_timer_cb_end__'',
      ''__os_evflags_cb_start__'', ''__os_evflags_cb_end__'', ''__os_mutex_cb_start__'', ''__os_mutex_cb_end__'',
      ''__os_semaphore_cb_start__'', ''__os_semaphore_cb_end__'', ''__os_mempool_cb_start__'', ''__os_mempool_cb_end__'',
      ''__os_msgqueue_cb_start__'', ''__os_msgqueue_cb_end__'']"
| "os_cb_symbols c =
     [''.bss.os.thread.cb$$Base'', ''.bss.os.thread.cb$$Limit'', ''.bss.os.timer.cb$$Base'', ''.bss.os.timer.cb$$Limit'',
      ''.bss.os.evflags.cb$$Base'', ''.bss.os.evflags.cb$$Limit'', ''.bss.os.mutex.cb$$Base'', ''.bss.os.mutex.cb$$Limit'',
      ''.bss.os.semaphore.cb$$Base'', ''.bss.os.semaphore.cb$$Limit'', ''.bss.os.mempool.cb$$Base'', ''.bss.os.mempool.cb$$Limit'',
      ''.bss.os.msgqueue.cb$$Base'', ''.bss.os.msgqueue.cb$$Limit'']"

definition os_cb_sections :: "rtx_compiler \<Rightarrow> (string \<Rightarrow> 32 word option) \<Rightarrow> 32 word list" where
  "os_cb_sections c symbols = map (\<lambda>s. case symbols s of Some a \<Rightarrow> a | None \<Rightarrow> 0) (os_cb_symbols c)"

subsection \<open>The table of user functions\<close>

definition osRtxUserSVC :: "32 word list" where
  "osRtxUserSVC = [0]"

subsection \<open>Start-up\<close>

definition platform_post_stackheap_init :: "os_env \<Rightarrow> os_trace \<Rightarrow> os_trace" where
  "platform_post_stackheap_init env tr = snd (os env osKernelInitialize tr)"

text \<open>The function the start-up code of each C library calls; the small ARM library has none.\<close>

fun start_hook :: "rtx_compiler \<Rightarrow> bool \<Rightarrow> string option" where
  "start_hook GNUC microlib = Some ''software_init_hook''"
| "start_hook c microlib = (if microlib then None else Some ''_platform_post_stackheap_init'')"

text \<open>The interface to the C library: an ARM compiler with its full library, unless the build excludes it.\<close>

definition has_clib_interface :: "bool \<Rightarrow> rtx_compiler \<Rightarrow> bool \<Rightarrow> bool" where
  "has_clib_interface no_multithread c microlib \<longleftrightarrow> \<not> no_multithread \<and> (c = CC_ARM \<or> c = ARMCLANG) \<and> \<not> microlib"

subsection \<open>What the debugger finds\<close>

text \<open>The objects that hold control blocks, with the pair of the table for their kind.\<close>

fun cb_pair :: "rtx_object \<Rightarrow> nat option" where
  "cb_pair os_thread_cb = Some 0"
| "cb_pair os_idle_thread_cb = Some 0"
| "cb_pair os_timer_thread_cb = Some 0"
| "cb_pair os_timer_cb = Some 1"
| "cb_pair os_ef_cb = Some 2"
| "cb_pair os_mutex_cb = Some 3"
| "cb_pair os_semaphore_cb = Some 4"
| "cb_pair os_mp_cb = Some 5"
| "cb_pair os_mq_cb = Some 6"
| "cb_pair os_timer_mq_cb = Some 6"
| "cb_pair x = None"

text \<open>The names of the table are the names of the sections, and no other object shares such a section.\<close>

lemma pair_names_section:
  assumes "cb_pair x = Some k" "c \<noteq> GNUC"
  shows "\<exists>s. section_of x = Some s \<and> os_cb_symbols c ! (2 * k) = s @ ''$$Base'' \<and> os_cb_symbols c ! (2 * k + 1) = s @ ''$$Limit''"
  using assms by (cases c; cases x) (auto simp: eval_nat_numeral)

lemma section_of_pair: "section_of x = section_of y \<Longrightarrow> cb_pair x = Some k \<Longrightarrow> cb_pair y = Some k"
  by (cases x; cases y) simp_all

text \<open>
  What a linker of an ARM compiler promises about an image: every object of a section lies between the
  symbols of the section.
\<close>

definition arm_linked :: "rtx_conf \<Rightarrow> (rtx_object \<Rightarrow> nat) \<Rightarrow> (string \<Rightarrow> 32 word option) \<Rightarrow> bool" where
  "arm_linked conf place symbols \<longleftrightarrow>
     (\<forall>x n s. object_in (rtx_lib conf) x = Some n \<and> section_of x = Some s \<longrightarrow>
        (\<exists>lo hi. symbols (s @ ''$$Base'') = Some lo \<and> symbols (s @ ''$$Limit'') = Some hi \<and>
           unat lo \<le> place x \<and> place x + n \<le> unat hi))"

lemma control_blocks_in_table:
  assumes "arm_linked conf place symbols" "c \<noteq> GNUC" "object_in (rtx_lib conf) x = Some n" "cb_pair x = Some k"
  shows "unat (os_cb_sections c symbols ! (2 * k)) \<le> place x \<and>
    place x + n \<le> unat (os_cb_sections c symbols ! (2 * k + 1))"
proof -
  obtain s where s: "section_of x = Some s" "os_cb_symbols c ! (2 * k) = s @ ''$$Base''"
    "os_cb_symbols c ! (2 * k + 1) = s @ ''$$Limit''"
    using pair_names_section [OF assms(4,2)] by blast
  obtain lo hi where l: "symbols (s @ ''$$Base'') = Some lo" "symbols (s @ ''$$Limit'') = Some hi"
    "unat lo \<le> place x" "place x + n \<le> unat hi"
    using assms(1,3) s(1) unfolding arm_linked_def by blast
  have k: "k < 7" using assms(4) by (cases x) auto
  have "length (os_cb_symbols c) = 14" by (cases c) simp_all
  then have "os_cb_sections c symbols ! (2 * k) = lo" "os_cb_sections c symbols ! (2 * k + 1) = hi"
    using k s l by (simp_all add: os_cb_sections_def)
  then show ?thesis using l by simp
qed

text \<open>Every object whose type is a control block has a pair.\<close>

lemma every_control_block_listed:
  assumes "Mp_info y i \<in> set (rtx_lib conf)" "block_base i = Some x" "x \<noteq> os_thread_def_stack"
  shows "cb_pair x \<noteq> None"
  using assms
  by (auto simp: rtx_lib_def os_system_def os_thread_def os_thread_mem_def os_idle_thread_def os_timer_def
      os_timer_thread_def os_evflags_def os_mutex_def os_semaphore_def os_mempool_def os_msgqueue_def on_def mp_info_def
      split: if_splits)

text \<open>Without a linker script that defines the symbols, the table of the GNU compiler is empty.\<close>

lemma undefined_symbols: "(\<And>s. s \<in> set (os_cb_symbols c) \<Longrightarrow> symbols s = None) \<Longrightarrow> os_cb_sections c symbols = replicate 14 0"
  by (cases c) (simp_all add: os_cb_sections_def eval_nat_numeral)

end
