(* ===== verification/Rtx_Properties.thy ===== *)
theory Rtx_Properties
  imports Rtx_Correct Rtx_Events Rtx_Clib Rtx_Sections
begin

section \<open>Properties of the RTX configuration and its library code\<close>

text \<open>
  The theorems about the RTX sources of the repository, each with a witness.
\<close>

text \<open>C39: take a configuration with values the annotations of RTX_Config.h offer, and a compiler that accepts
  objects of at least \<open>2 ^ 30 + 8016\<close> bytes and of at most \<open>lim\<close>. The file compiles exactly if the timer
  thread, when there is one, has a stack of at least 96 bytes, and the memory for the default stacks, when there is one,
  is not larger than \<open>lim\<close>. Then the structure osRtxConfig is consistent, each field with the objects of its
  own kind: it has a pool, a region or an attribute exactly if the objects for it are declared; a region is the
  object with its size in multiples of 8; the blocks of a pool have the size of a control block of its kind and the
  announced number, and fill the array of its kind; the attributes of the idle and the timer thread
  and of the timer queue lead to their own control blocks, stacks and buffers, of the sizes the kernel asks for.\<close>

theorem offered_configuration_is_consistent:
  assumes "offered c" "1073749840 \<le> lim"
  shows "(compiles lim c \<longleftrightarrow> \<not> timer_stack_too_small (rc_timer c) \<and>
      (OS_THREAD_OBJ_MEM (rc_thread c) = 0 \<or> OS_THREAD_DEF_STACK_NUM (rc_thread c) * OS_STACK_SIZE (rc_thread c) \<le> lim)) \<and>
    (compiles lim c \<longrightarrow> config_ok c (osRtxConfig c))"
  using offered_compiles [OF assms] compiled_config_ok [OF assms(1)] by (auto simp: default_stacks_too_big_def)

definition demo_rtx :: rtx_conf where
  "demo_rtx = rtx_options [''OS_THREAD_OBJ_MEM'' \<mapsto> 1, ''OS_THREAD_NUM'' \<mapsto> 6, ''OS_THREAD_USER_STACK_SIZE'' \<mapsto> 4096,
     ''OS_MUTEX_OBJ_MEM'' \<mapsto> 1, ''OS_MSGQUEUE_OBJ_MEM'' \<mapsto> 1, ''OS_MSGQUEUE_DATA_SIZE'' \<mapsto> 64] True"

lemma demo_rtx_offered: "offered demo_rtx"
  by (simp add: demo_rtx_def rtx_options_def offered_def system_offered_def thread_offered_def timer_offered_def
      evflags_offered_def mutex_offered_def semaphore_offered_def mempool_offered_def msgqueue_offered_def
      system_options_def thread_options_def timer_options_def evflags_options_def mutex_options_def semaphore_options_def
      mempool_options_def msgqueue_options_def macro_def in_range_def in_steps_def check_box_def)

definition huge_rtx :: "rtx_conf \<Rightarrow> rtx_conf" where
  "huge_rtx c = c\<lparr>rc_thread := (rc_thread c)\<lparr>OS_THREAD_OBJ_MEM := 1, OS_THREAD_DEF_STACK_NUM := 1000, OS_STACK_SIZE := 1073741824\<rparr>\<rparr>"

theorem offered_configuration_is_consistent_witness:
  "offered demo_rtx \<and> compiles 0x7FFFFFFF demo_rtx \<and> config_ok demo_rtx (osRtxConfig demo_rtx)"
proof -
  have "\<not> timer_stack_too_small (rc_timer demo_rtx)" "OS_THREAD_DEF_STACK_NUM (rc_thread demo_rtx) = 0"
    by (simp_all add: demo_rtx_def rtx_options_def timer_options_def thread_options_def timer_stack_too_small_def macro_def)
  then show ?thesis
    using offered_configuration_is_consistent [of demo_rtx "0x7FFFFFFF"] demo_rtx_offered by simp
qed

text \<open>The annotations offer configurations no compiler for the target accepts: a thousand default stacks of 1 GB.\<close>

theorem offered_but_too_big:
  "offered (huge_rtx demo_rtx) \<and> \<not> compiles 0x7FFFFFFF (huge_rtx demo_rtx)"
  using demo_rtx_offered
  by (simp add: huge_rtx_def offered_compiles default_stacks_too_big_def offered_def thread_offered_def in_range_def in_steps_def
      check_box_def)

text \<open>C40: with the kernel running, and as long as no call is interrupted by the call of another thread, the C
  library gets a block of its own for every thread: any sequence of calls by at most as many threads as there are
  blocks returns, two calls get the same block exactly if they come from the same thread, and none gets the
  block of the time before the kernel. Blocks are never given back: with one thread more, whatever the order,
  the run ends in the error callback and does not return. When calls do interrupt each other, between
  the test of an entry and the store to it, this is lost: any two threads can both be given the first block.\<close>

theorem library_space_is_private:
  assumes "kernel_runs env" "0 \<notin> set ts"
  shows "(if card (set ts) \<le> num
    then \<exists>ns s. libspace_calls osRtxErrorNotify env ts (clib_init num, tr) = Some (ns, s) \<and>
           length ns = length ts \<and> (\<forall>n\<in>set ns. n < num) \<and>
           (\<forall>i<length ts. \<forall>j<length ts. ns ! i = ns ! j \<longleftrightarrow> ts ! i = ts ! j)
    else libspace_calls osRtxErrorNotify env ts (clib_init num, tr) = None) \<and>
    (0 < num \<and> t \<noteq> u \<and> t \<noteq> 0 \<and> u \<noteq> 0 \<longrightarrow>
      (\<exists>pc ids. interleaved (\<lambda>_. At_test 0, os_libspace_id (clib_init num)) (pc, ids) \<and> pc t = Has_block 0 \<and> pc u = Has_block 0))"
proof -
  have shared: "\<exists>pc ids. interleaved (\<lambda>_. At_test 0, os_libspace_id (clib_init num)) (pc, ids) \<and> pc t = Has_block 0 \<and> pc u = Has_block 0"
    if "0 < num \<and> t \<noteq> u \<and> t \<noteq> 0 \<and> u \<noteq> 0"
    using that shared_block [of t u "num - 1"] by (simp add: clib_init_def)
  have empty: "holders (os_libspace_id (clib_init num)) = []" "table_inv (os_libspace_id (clib_init num))"
    "length (os_libspace_id (clib_init num)) = num"
    using table_inv_append [of "[]" num] by (simp_all add: clib_init_def)
  show ?thesis
  proof (cases "card (set ts) \<le> num")
    case True
    with blocks_of_threads [OF assms(1) empty(2) assms(2), of osRtxErrorNotify tr] empty
    obtain ws st' tr' where r: "libspace_calls osRtxErrorNotify env ts (clib_init num, tr) = Some (map (position ws) ts, st', tr')"
      "set ts \<subseteq> set ws" "length ws \<le> num"
      by auto
    have "position ws t < num" if "t \<in> set ts" for t using position_nth [of t ws] r that by auto
    moreover have "position ws (ts ! i) = position ws (ts ! j) \<longleftrightarrow> ts ! i = ts ! j" if "i < length ts" "j < length ts" for i j
      using position_inj [of "ts ! i" ws "ts ! j"] subsetD [OF r(2) nth_mem [OF that(1)]] subsetD [OF r(2) nth_mem [OF that(2)]]
      by auto
    ultimately show ?thesis using True r(1) shared by (auto intro!: exI [of _ "map (position ws) ts"])
  next
    case False
    then show ?thesis using no_block_left [OF assms(1) empty(2) assms(2)] empty shared by simp
  qed
qed

definition running_env :: os_env where
  "running_env tr c = (if c = osKernelGetState then 2 else 0)"

theorem library_space_is_private_witness:
  "kernel_runs running_env \<and>
   (\<exists>ns s. libspace_calls osRtxErrorNotify running_env [16, 32, 16] (clib_init 4, []) = Some (ns, s) \<and>
      ns ! 0 = ns ! 2 \<and> ns ! 0 \<noteq> ns ! 1) \<and>
   libspace_calls osRtxErrorNotify running_env [16, 32, 48] (clib_init 2, []) = None"
proof -
  have k: "kernel_runs running_env" by (simp add: kernel_runs_def running_env_def)
  have "card (set [16, 32, 16 :: 32 word]) \<le> 4" by (simp add: card_insert_if)
  with library_space_is_private [OF k, of "[16, 32, 16]" 4 "[]"] obtain ns s
    where run: "libspace_calls osRtxErrorNotify running_env [16, 32, 16] (clib_init 4, []) = Some (ns, s)"
      and same: "\<forall>i<3. \<forall>j<3. ns ! i = ns ! j \<longleftrightarrow> [16, 32, 16 :: 32 word] ! i = [16, 32, 16] ! j"
    by (simp only: if_True) force
  have "ns ! 0 = ns ! 2" "ns ! 0 \<noteq> ns ! 1" using same [rule_format, of 0 2] same [rule_format, of 0 1] by simp_all
  with run have "\<exists>ns s. libspace_calls osRtxErrorNotify running_env [16, 32, 16] (clib_init 4, []) = Some (ns, s) \<and>
      ns ! 0 = ns ! 2 \<and> ns ! 0 \<noteq> ns ! 1"
    by blast
  moreover have "libspace_calls osRtxErrorNotify running_env [16, 32, 48] (clib_init 2, []) = None"
    using library_space_is_private [OF k, of "[16, 32, 48]" 2 "[]"] by (simp add: card_insert_if)
  ultimately show ?thesis using k by simp
qed

end
