(* ===== verification/Spec2Isabelle.thy ===== *)
theory Spec2Isabelle
  imports Service_Properties Secure_Config Platform_Properties Rtx_Properties
begin

text \<open>
  \<^bold>\<open>A verification development for pico2w-tfm\<close>

  The program runs machine learning on a microcontroller with a secure and a non-secure side. On
  the secure side an inference partition holds an encrypted neural network, decrypts it with a
  key derived from a hardware key, and answers inference requests with TinyMaix, a small engine
  for quantised networks; an echo partition answers with the bytes it gets. On the non-secure
  side an application on CMSIS-RTOS2 calls the partitions through client functions. Between
  the RTOS and the secure side are an OS wrapper, a manager of client identities, the TrustZone
  context functions, the mailbox hooks of multi-core builds and a formatted log. The RTOS is RTX: its kernel is
  binary, its configuration and its glue to the C library are sources of the repository.

  \<^bold>\<open>How the code is modelled\<close>

  C code is translated to functions on explicit states. A result of type \<open>option\<close> is \<open>None\<close>
  exactly where the C code has no defined behaviour: a signed overflow, a division by zero, an
  access outside an object, a conversion of a float that does not fit. Error codes are values
  of datatypes with the names of the source. Integers of the engine are HOL integers with the range
  checks written out (\<open>s32\<close>, \<open>to_s8\<close>, \<open>wrap_u32\<close> in \<open>Prelude\<close>); the platform code uses \<open>32 word\<close>.
  Floats are binary32 and binary64 numbers with one rounding per operation, computed on integers
  (\<open>Soft_Float\<close>). The engine's memory has the four static objects it works on (\<open>C_Memory\<close>); a
  pointer is an object and an offset. Code that is not in the repository (PSA Crypto, the
  partition manager, the RTOS, the secure side of the context functions, the output device) is an
  environment: a function from the history of calls to the response. The models record every call
  with its response in a trace, so a theorem for all environments covers every behaviour of the
  other side, and promises of the other side are hypotheses on the environment.

  \<^bold>\<open>The secure side\<close>

  \<^item> \<open>Tm_Types\<close>: \<open>tinymaix.h\<close> and \<open>tm_port.h\<close>. The binary image of a model, read field by field from
    memory, the tensors, the handle, the error codes, the quantisation macros and the local exponential.
  \<^item> \<open>Tm_Header\<close>: the structures of \<open>tinymaix.h\<close> with the sizes and offsets a compiler gives them, by the
    layout rules of \<open>C_Layout\<close>, against which the reading functions of \<open>Tm_Types\<close> are checked.
  \<^item> \<open>Tm_Arch\<close>: \<open>arch_cpu.h\<close>, INT8 with fast scaling. The three dot products and the requantisation.
  \<^item> \<open>Tm_Layers\<close>: \<open>tm_layers.c\<close>. Convolution (pointwise and with windows), pooling, fully connected,
    softmax, reshape and addition, loop by loop.
  \<^item> \<open>Tm_Model\<close>: \<open>tm_model.c\<close>. \<open>tm_load\<close>, \<open>tm_unload\<close>, \<open>tm_preprocess\<close>, \<open>tm_run\<close>.
  \<^item> \<open>Psa\<close>: the calls of the PSA interfaces, environments and traces; \<open>owed_after\<close> reads from a trace
    which keys, cipher operations and derivations the program still has to release, \<open>live_after\<close> which exist.
  \<^item> \<open>Model_Decrypt\<close>: \<open>derive_key_from_huk\<close> and \<open>decrypt_model\<close> of \<open>tinymaix_inference.c\<close>.
  \<^item> \<open>Inference_Service\<close>: the rest of that file: its globals as the record \<open>svc\<close>, one function per
    message type, \<open>handle_message\<close> and the loop \<open>tinymaix_inference_entry\<close> over the arriving messages.
  \<^item> \<open>Mnist_Data\<close>: the shipped network, its encrypted package and the built-in picture, byte for byte.
  \<^item> \<open>Echo_Service\<close>: \<open>echo_service.c\<close> and its client \<open>tfm_echo_api.c\<close>.
  \<^item> \<open>Service_Loop\<close>: what the loops of both partitions have in common, as locales.
  \<^item> \<open>Secure_Config\<close>: \<open>config_tinyml.h\<close>, the options of the secure partitions of TF-M.
    \<open>Build_Options\<close> says how a header and the build give an option its value.

  \<^bold>\<open>The non-secure side\<close>

  \<^item> \<open>Clients\<close>: \<open>tfm_tinymaix_inference_api.c\<close> and the test applications under \<open>nspe\<close>.
  \<^item> \<open>Nsid_Manager\<close>: \<open>tfm_nsid_manager.c\<close> (the table of tokens and identities) and
    \<open>tfm_nsid_map_table.c\<close> (identities of thread names).
  \<^item> \<open>Tz_Shim\<close>: \<open>tz_shim_layer.c\<close>, and sequences of the calls an RTOS makes (\<open>tz_ops\<close>).
  \<^item> \<open>Cmsis_Rtos\<close>: the types, codes and structures of \<open>cmsis_os2.h\<close>, and RTOS calls with their trace.
  \<^item> \<open>Os_Wrapper\<close>: \<open>os_wrapper_cmsis_rtos_v2.c\<close>.
  \<^item> \<open>Mailbox\<close>: \<open>tfm_ns_mailbox_rtos_api.c\<close> and \<open>tfm_ns_mailbox_test.c\<close>.
  \<^item> \<open>Log_Raw\<close>: \<open>tfm_log_raw.c\<close>.
  \<^item> \<open>Boot\<close>: \<open>main_ns.c\<close>.

  \<^bold>\<open>The RTX sources\<close>

  \<^item> \<open>Rtx_Types\<close>: the codes and control blocks of \<open>rtx_os.h\<close>.
  \<^item> \<open>Rtx_Config\<close>: the options of \<open>RTX_Config.h\<close>, one record for each section, as the build sets them, and
    the values the annotations of the configuration wizard offer.
  \<^item> \<open>Rtx_Static\<close>: the objects \<open>rtx_lib.c\<close> reserves for a configuration (\<open>rtx_lib\<close>), its \<open>#error\<close> lines, and the
    structure \<open>osRtxConfig\<close> it hands to the kernel.
  \<^item> \<open>Rtx_Sections\<close>: the sections of these objects, the table \<open>os_cb_sections\<close> for debuggers, and what depends on
    the compiler: the names of its symbols, the start-up hook, the interface to the C library.
  \<^item> \<open>Rtx_Evr\<close>: the start of the event recorder. \<open>Rtx_Events\<close>: the 172 event declarations of \<open>rtx_evr.h\<close>.
  \<^item> \<open>Rtx_Clib\<close>: the hooks of the C library in \<open>rtx_lib.c\<close>, the callbacks of \<open>RTX_Config.c\<close>, and the idle thread
    of \<open>os_config_cmsis_rtx.c\<close>.

  \<^bold>\<open>What is proved\<close>

  The properties are in \<open>Engine_Properties\<close>, \<open>Service_Properties\<close>, \<open>Platform_Properties\<close> and
  \<open>Rtx_Properties\<close>, numbered C1 to C40; the lemmas behind them are in the theories named here.

  \<^item> Engine (\<open>Conv_Window\<close>, \<open>Conv_Correct\<close>, \<open>Layer_Correct\<close>, \<open>Model_Correct\<close>, \<open>Layer_Order\<close>): each layer computes its
    mathematical definition and writes nothing but its output and the scratch array; the unrolled
    loops equal the plain ones; requantisation does not overflow within its bounds; loading
    reports the first error; a run calls for each layer the kernel of its type, in the order the headers chain
    them, and an error names its layer; a run without undefined behaviour keeps all objects. The loader does
    not check the size of the buffer, so an image can be loaded whose run leaves it (C12).
  \<^item> Decryption (\<open>Decrypt_Correct\<close>): the padding check is PKCS#7; every branch asks for the release of
    the keys and operations it has acquired, which leaves none if the release calls succeed; success means that
    every check passed, the magic only being checked from four bytes on; and bad packages are refused before the
    first crypto call.
  \<^item> Inference partition (\<open>Service_Correct\<close>, \<open>Shipped_Model\<close>, \<open>Shipped_Net\<close>): an invariant from the
    start through any messages; one reply for each message, and results only written without \<open>DEV_MODE\<close>; a
    load request is always answered, with success only for a checked plaintext; the shipped package
    loads; a picture that was sent stays and is what later requests classify; the convolutions of the shipped network run without undefined behaviour for every picture.
  \<^item> The built-in picture (\<open>Conv_Eval\<close>, \<open>Digit_Rows\<close>, \<open>Digit_Values\<close>, \<open>Digit_Layers\<close>, \<open>Shipped_Run\<close>): the values of
    all six layers on it are computed and tied to the run of the engine; the whole partition, from its
    start over the encrypted package to the reply, answers that the picture is a 2. With the application in front (\<open>System_Run\<close>: a partition manager
    that forwards each call to the partition as the history of calls has left it), its test passes.
  \<^item> Clients and partitions together (\<open>Client_Correct\<close>, \<open>Echo_Service\<close>): what a client gets through a
    partition manager that forwards to the modelled partition.
  \<^item> Platform: the token table refines a finite map; the context functions never use an invalid token;
    thread identifiers; the text a log format stands for; the retry loops return exactly when an
    attempt succeeds; the averages; the order of the start-up.
  \<^item> RTX (\<open>Rtx_Correct\<close>, \<open>Rtx_Clib\<close>, \<open>Rtx_Events\<close>): which offered configurations compile, for a compiler with a
    largest object size, and that the structure the kernel gets then describes for each kind of object the
    objects of that kind with their sizes; that threads get blocks of their own
    from the table of the C library, as a refinement of a list of holders, as long as calls do not
    interleave and blocks last, with the interleaving that breaks it; that every event has its parameters
    and its switch, all but one spelt right, and the event recorder is not called from within itself.

  Interfaces are locales: \<open>byte_store\<close> (loads and stores, interpreted on the memory), \<open>dot_kernel\<close> (what
  a layer needs of a dot product, interpreted on the kernels), \<open>char_sink\<close> (where the log writes,
  interpreted on its buffer), \<open>token_store\<close> (the contract of the identity table, interpreted on the
  table of the manager), \<open>service\<close> (a handler that replies once to a message and makes calls of one kind only,
  interpreted on the inference partition) and its extension \<open>total_service\<close> (every message is handled without
  undefined behaviour, interpreted on the echo partition).

  \<^bold>\<open>Bounds and loops\<close>

  Loops of the C code with a computed bound are recursions on that bound. \<open>str_cmp_from\<close> has as much
  fuel as the first string has bytes and one more: each round consumes a byte and a string ends in
  it. \<open>dec_digits\<close> and \<open>hex_digits\<close> count the twelve bytes of the digit buffer; ten digits are enough for
  32 bits. The retry loops of the mailbox queue may run for ever; they are partial functions, and
  C36 says when they return. The service loops run over the list of arriving messages.

  \<^bold>\<open>Not modelled\<close>

  The RTX kernel (in binary form only) and the reference that pulls its interrupt module in; the two lists of
  Mbed TLS switches, of which the build uses one, and the build files; headers with prototypes only; the system call stubs; the Python tools; what the tests print. The variants of the engine for other number
  formats are compiled out by \<open>tm_port.h\<close>. Full definedness of a run of the shipped network on every picture is
  proved for its convolutions only: the pooling and fully connected layers convert floats to bytes without
  saturation, which is not defined for every picture.
\<close>

end
